(* ===== verification/Effects.thy ===== *)
theory Effects
  imports Main
begin

text \<open>
  Go functions with effects: an action takes the state and returns a result (an error or a
  value) with the new state. \<open>andThen\<close> is the idiom \<open>x, err := f(); if err != nil { return err }\<close>,
  \<open>handle\<close> the same call followed by its own treatment of the error. What this theory adds is
  the reasoning: inversion of a result into the results of the calls (collection
  \<open>act_elims\<close>), and invariants kept by every path of an action (collection \<open>preserves_rules\<close>).
\<close>

named_theorems act_simps \<open>computation of actions\<close>
named_theorems preserves_rules \<open>actions that keep a predicate of the state\<close>

type_synonym ('s, 'e, 'a) act = "'s \<Rightarrow> ('e + 'a) \<times> 's"

definition ret :: "'a \<Rightarrow> ('s, 'e, 'a) act" where
  [act_simps]: "ret x = (\<lambda>s. (Inr x, s))"

definition fail :: "'e \<Rightarrow> ('s, 'e, 'a) act" where
  [act_simps]: "fail e = (\<lambda>s. (Inl e, s))"

definition andThen :: "('s, 'e, 'a) act \<Rightarrow> ('a \<Rightarrow> ('s, 'e, 'b) act) \<Rightarrow> ('s, 'e, 'b) act" where
  "andThen m f = (\<lambda>s. case m s of (Inl e, s') \<Rightarrow> (Inl e, s') | (Inr x, s') \<Rightarrow> f x s')"

definition handle ::
  "('s, 'e, 'a) act \<Rightarrow> ('e \<Rightarrow> ('s, 'f, 'b) act) \<Rightarrow> ('a \<Rightarrow> ('s, 'f, 'b) act) \<Rightarrow> ('s, 'f, 'b) act" where
  "handle m g f = (\<lambda>s. case m s of (Inl e, s') \<Rightarrow> g e s' | (Inr x, s') \<Rightarrow> f x s')"

definition mapErr :: "('e \<Rightarrow> 'f) \<Rightarrow> ('s, 'e, 'a) act \<Rightarrow> ('s, 'f, 'a) act" where
  "mapErr h m = handle m (\<lambda>e. fail (h e)) ret"

text \<open>An action on a component of the state, read by \<open>get\<close> and written by \<open>put\<close>.\<close>

definition zoom :: "('w \<Rightarrow> 's) \<Rightarrow> ('s \<Rightarrow> 'w \<Rightarrow> 'w) \<Rightarrow> ('s, 'e, 'a) act \<Rightarrow> ('w, 'e, 'a) act" where
  "zoom get put m = (\<lambda>w. case m (get w) of (r, s') \<Rightarrow> (r, put s' w))"

section \<open>Computation\<close>

lemma andThen_Inr [act_simps]: "m s = (Inr x, s') \<Longrightarrow> andThen m f s = f x s'"
  by (simp add: andThen_def)

lemma andThen_Inl [act_simps]: "m s = (Inl e, s') \<Longrightarrow> andThen m f s = (Inl e, s')"
  by (simp add: andThen_def)

lemma handle_Inr [act_simps]: "m s = (Inr x, s') \<Longrightarrow> handle m g f s = f x s'"
  by (simp add: handle_def)

lemma handle_Inl [act_simps]: "m s = (Inl e, s') \<Longrightarrow> handle m g f s = g e s'"
  by (simp add: handle_def)

lemma andThen_ret [simp]: "andThen (ret x) f = f x"
  by (simp add: andThen_def ret_def)

lemma andThen_fail [simp]: "andThen (fail e) f = fail e"
  by (simp add: andThen_def fail_def)

lemma handle_ret [simp]: "handle (ret x) g f = f x"
  by (simp add: handle_def ret_def)

lemma handle_fail [simp]: "handle (fail e) g f = g e"
  by (simp add: handle_def fail_def)

lemma andThen_assoc: "andThen (andThen m f) g = andThen m (\<lambda>x. andThen (f x) g)"
  by (auto simp: andThen_def fun_eq_iff split: prod.split sum.split)

lemma ret_eq [simp]: "ret x s = (r, s') \<longleftrightarrow> r = Inr x \<and> s' = s"
  by (auto simp: ret_def)

lemma fail_eq [simp]: "fail e s = (r, s') \<longleftrightarrow> r = Inl e \<and> s' = s"
  by (auto simp: fail_def)

section \<open>Inversion\<close>

text \<open>An action that returned a value got a value from every call it did not handle.\<close>

lemma andThen_eq_Inr:
  "andThen m f s = (Inr y, s') \<longleftrightarrow> (\<exists>x t. m s = (Inr x, t) \<and> f x t = (Inr y, s'))"
  by (auto simp: andThen_def split: prod.splits sum.splits)

lemma guard_eq_Inr:
  "(if b then fail e else m) s = (Inr x, s') \<longleftrightarrow> \<not> b \<and> m s = (Inr x, s')"
  by simp

lemma andThen_eq_Inl:
  "andThen m f s = (Inl e, s') \<longleftrightarrow> m s = (Inl e, s') \<or> (\<exists>x t. m s = (Inr x, t) \<and> f x t = (Inl e, s'))"
  by (auto simp: andThen_def split: prod.splits sum.splits)

lemma handle_eq:
  "handle m g f s = (r, s') \<longleftrightarrow>
     (\<exists>e t. m s = (Inl e, t) \<and> g e t = (r, s')) \<or> (\<exists>x t. m s = (Inr x, t) \<and> f x t = (r, s'))"
  by (auto simp: handle_def split: prod.splits sum.splits)

lemma mapErr_eq_Inr [simp]: "mapErr h m s = (Inr x, s') \<longleftrightarrow> m s = (Inr x, s')"
  by (auto simp: mapErr_def handle_eq)

lemma mapErr_eq_Inl: "mapErr h m s = (Inl e, s') \<longleftrightarrow> (\<exists>e'. e = h e' \<and> m s = (Inl e', s'))"
  by (auto simp: mapErr_def handle_eq)

lemma zoom_eq: "zoom get put m w = (r, w') \<longleftrightarrow> (\<exists>s'. m (get w) = (r, s') \<and> w' = put s' w)"
  by (auto simp: zoom_def split: prod.splits)

lemma andThen_InrE:
  assumes "andThen m f s = (Inr y, s')"
  obtains x t where "m s = (Inr x, t)" and "f x t = (Inr y, s')"
  using assms by (auto simp: andThen_eq_Inr)

lemma handleE:
  assumes "handle m g f s = (r, s')"
  obtains (err) e t where "m s = (Inl e, t)" and "g e t = (r, s')"
    | (ok) x t where "m s = (Inr x, t)" and "f x t = (r, s')"
  using assms by (auto simp: handle_eq)

lemmas act_elims = andThen_InrE handleE

section \<open>Preservation\<close>

text \<open>
  \<open>preserves P m\<close>: whatever the result of \<open>m\<close>, an error included, \<open>P\<close> holds after it if it held
  before. The rules follow the construction of the action.
\<close>

definition preserves :: "('s \<Rightarrow> bool) \<Rightarrow> ('s, 'e, 'a) act \<Rightarrow> bool" where
  "preserves P m \<longleftrightarrow> (\<forall>s. P s \<longrightarrow> P (snd (m s)))"

lemma preservesI: "(\<And>s r s'. P s \<Longrightarrow> m s = (r, s') \<Longrightarrow> P s') \<Longrightarrow> preserves P m"
  by (metis preserves_def prod.collapse)

lemma preservesD: "preserves P m \<Longrightarrow> m s = (r, s') \<Longrightarrow> P s \<Longrightarrow> P s'"
  by (metis preserves_def snd_conv)

lemma preserves_ret [preserves_rules]: "preserves P (ret x)"
  by (simp add: preserves_def ret_def)

lemma preserves_fail [preserves_rules]: "preserves P (fail e)"
  by (simp add: preserves_def fail_def)

lemma preserves_andThen [preserves_rules]:
  "preserves P m \<Longrightarrow> (\<And>x. preserves P (f x)) \<Longrightarrow> preserves P (andThen m f)"
  by (auto simp: preserves_def andThen_def split: prod.split sum.split)

lemma preserves_handle [preserves_rules]:
  "preserves P m \<Longrightarrow> (\<And>e. preserves P (g e)) \<Longrightarrow> (\<And>x. preserves P (f x)) \<Longrightarrow> preserves P (handle m g f)"
  by (auto simp: preserves_def handle_def split: prod.split sum.split)

lemma preserves_mapErr [preserves_rules]: "preserves P m \<Longrightarrow> preserves P (mapErr h m)"
  by (simp add: mapErr_def preserves_rules)

lemma preserves_if [preserves_rules]:
  "(b \<Longrightarrow> preserves P m) \<Longrightarrow> (\<not> b \<Longrightarrow> preserves P n) \<Longrightarrow> preserves P (if b then m else n)"
  by simp

lemma preserves_option [preserves_rules]:
  "(x = None \<Longrightarrow> preserves P m) \<Longrightarrow> (\<And>y. x = Some y \<Longrightarrow> preserves P (f y)) \<Longrightarrow>
   preserves P (case x of None \<Rightarrow> m | Some y \<Rightarrow> f y)"
  by (cases x) auto

lemma preserves_sum [preserves_rules]:
  "(\<And>e. x = Inl e \<Longrightarrow> preserves P (g e)) \<Longrightarrow> (\<And>y. x = Inr y \<Longrightarrow> preserves P (f y)) \<Longrightarrow>
   preserves P (case x of Inl e \<Rightarrow> g e | Inr y \<Rightarrow> f y)"
  by (cases x) auto

lemma preserves_prod [preserves_rules]:
  "(\<And>a b. x = (a, b) \<Longrightarrow> preserves P (f a b)) \<Longrightarrow> preserves P (case x of (a, b) \<Rightarrow> f a b)"
  by (cases x) auto

lemma preserves_let [preserves_rules]: "preserves P (f x) \<Longrightarrow> preserves P (let y = x in f y)"
  by (simp add: Let_def)

lemma preserves_conj: "preserves P m \<Longrightarrow> preserves Q m \<Longrightarrow> preserves (\<lambda>s. P s \<and> Q s) m"
  by (simp add: preserves_def)

end
