(* ===== verification/GoLib.thy ===== *)
theory GoLib
  imports Main "HOL-Library.AList" "HOL-Library.Word" "HOL-Library.Sublist"
begin

text \<open>
  Prelude of the development: the part of Go's language and standard library that the
  repository uses, as executable HOL functions, and the lemmas every component shares.
  Go strings are byte strings: \<^typ>\<open>string\<close> is a list of 8-bit characters. Times and
  durations are integers in nanoseconds (\<open>time.Time\<close> since the Unix epoch).
\<close>

named_theorems go_simps \<open>computation rules of the modelled standard library\<close>

section \<open>Strings\<close>

text \<open>\<open>strings.Split\<close> with a separator of one byte.\<close>

fun split_on :: "char \<Rightarrow> string \<Rightarrow> string list" where
  "split_on c [] = [[]]"
| "split_on c (x # xs) =
     (if x = c then [] # split_on c xs
      else (case split_on c xs of [] \<Rightarrow> [[x]] | y # ys \<Rightarrow> (x # y) # ys))"

text \<open>\<open>strings.Join\<close>.\<close>

fun join :: "string \<Rightarrow> string list \<Rightarrow> string" where
  "join sep [] = []"
| "join sep [x] = x"
| "join sep (x # y # ys) = x @ sep @ join sep (y # ys)"

text \<open>\<open>strings.HasPrefix\<close>, \<open>strings.HasSuffix\<close>, \<open>strings.TrimSuffix\<close>, \<open>strings.Contains\<close>.\<close>

definition has_prefix :: "string \<Rightarrow> string \<Rightarrow> bool" where
  "has_prefix s p \<longleftrightarrow> take (length p) s = p"

definition has_suffix :: "string \<Rightarrow> string \<Rightarrow> bool" where
  "has_suffix s p \<longleftrightarrow> has_prefix (rev s) (rev p)"

definition trim_suffix :: "string \<Rightarrow> string \<Rightarrow> string" where
  "trim_suffix s p = (if has_suffix s p then take (length s - length p) s else s)"

fun contains_str :: "string \<Rightarrow> string \<Rightarrow> bool" where
  "contains_str [] p \<longleftrightarrow> p = []"
| "contains_str (x # xs) p \<longleftrightarrow> has_prefix (x # xs) p \<or> contains_str xs p"

text \<open>\<open>strings.Cut\<close> with a separator of one byte: \<open>None\<close> when it does not occur.\<close>

fun cut_at :: "char \<Rightarrow> string \<Rightarrow> (string \<times> string) option" where
  "cut_at c [] = None"
| "cut_at c (x # xs) =
     (if x = c then Some ([], xs)
      else (case cut_at c xs of None \<Rightarrow> None | Some (a, b) \<Rightarrow> Some (x # a, b)))"

subsection \<open>White space and case\<close>

abbreviation byte_of :: "char \<Rightarrow> nat" where
  "byte_of c \<equiv> of_char c"

definition is_ascii :: "string \<Rightarrow> bool" where
  "is_ascii s \<longleftrightarrow> list_all (\<lambda>c. byte_of c < 128) s"

text \<open>The UTF-8 encodings of the code points for which \<open>unicode.IsSpace\<close> holds.\<close>

definition space_codes :: "string list" where
  "space_codes =
     [[CHR 0x09], [CHR 0x0A], [CHR 0x0B], [CHR 0x0C], [CHR 0x0D], [CHR 0x20],
      [CHR 0xC2, CHR 0x85], [CHR 0xC2, CHR 0xA0], [CHR 0xE1, CHR 0x9A, CHR 0x80],
      [CHR 0xE2, CHR 0x80, CHR 0x80], [CHR 0xE2, CHR 0x80, CHR 0x81], [CHR 0xE2, CHR 0x80, CHR 0x82],
      [CHR 0xE2, CHR 0x80, CHR 0x83], [CHR 0xE2, CHR 0x80, CHR 0x84], [CHR 0xE2, CHR 0x80, CHR 0x85],
      [CHR 0xE2, CHR 0x80, CHR 0x86], [CHR 0xE2, CHR 0x80, CHR 0x87], [CHR 0xE2, CHR 0x80, CHR 0x88],
      [CHR 0xE2, CHR 0x80, CHR 0x89], [CHR 0xE2, CHR 0x80, CHR 0x8A], [CHR 0xE2, CHR 0x80, CHR 0xA8],
      [CHR 0xE2, CHR 0x80, CHR 0xA9], [CHR 0xE2, CHR 0x80, CHR 0xAF], [CHR 0xE2, CHR 0x81, CHR 0x9F],
      [CHR 0xE3, CHR 0x80, CHR 0x80]]"

function strip_left :: "string list \<Rightarrow> string \<Rightarrow> string" where
  "strip_left ps s =
     (case find (\<lambda>p. p \<noteq> [] \<and> has_prefix s p) ps of
        None \<Rightarrow> s
      | Some p \<Rightarrow> strip_left ps (drop (length p) s))"
  by pat_completeness auto
termination
proof (relation "measure (\<lambda>(ps, s). length s)", goal_cases)
  case 1
  show ?case by simp
next
  case (2 ps s p)
  then have "p \<noteq> []" and "has_prefix s p"
    by (auto simp: find_Some_iff)
  then have "0 < length p \<and> length p \<le> length s"
    by (auto simp: has_prefix_def) (metis length_take min.absorb_iff2 nat_le_linear take_all_iff)
  then show ?case by (simp only: in_measure split_conv length_drop) linarith
qed

declare strip_left.simps [simp del]

text \<open>\<open>strings.TrimSpace\<close>: the encodings of white space are removed at both ends.\<close>

definition trim_space :: "string \<Rightarrow> string" where
  "trim_space s = rev (strip_left (map rev space_codes) (rev (strip_left space_codes s)))"

definition ascii_lower :: "char \<Rightarrow> char" where
  "ascii_lower c = (if 65 \<le> byte_of c \<and> byte_of c \<le> 90 then char_of (byte_of c + 32) else c)"

definition ascii_upper :: "char \<Rightarrow> char" where
  "ascii_upper c = (if 97 \<le> byte_of c \<and> byte_of c \<le> 122 then char_of (byte_of c - 32) else c)"

text \<open>
  \<open>strings.ToLower\<close>: byte-wise on ASCII strings; on other strings it maps
  \<open>unicode.ToLower\<close> over the code points, whose tables are the parameter \<open>ul\<close>.
\<close>

definition to_lower :: "(string \<Rightarrow> string) \<Rightarrow> string \<Rightarrow> string" where
  "to_lower ul s = (if is_ascii s then map ascii_lower s else ul s)"

subsection \<open>UTF-8\<close>

definition is_cont :: "nat \<Rightarrow> bool" where
  "is_cont b \<longleftrightarrow> 128 \<le> b \<and> b \<le> 191"

text \<open>
  \<open>utf8.DecodeRune\<close>: the code point and the width of the first rune; an invalid
  sequence is the error rune 65533 of width 1.
\<close>

fun decode_rune :: "nat list \<Rightarrow> nat \<times> nat" where
  "decode_rune [] = (65533, 0)"
| "decode_rune (a # bs) =
     (if a < 128 then (a, 1)
      else if 194 \<le> a \<and> a \<le> 223 then
        (case bs of b # _ \<Rightarrow> if is_cont b then ((a - 192) * 64 + (b - 128), 2) else (65533, 1)
         | [] \<Rightarrow> (65533, 1))
      else if 224 \<le> a \<and> a \<le> 239 then
        (case bs of b # c # _ \<Rightarrow>
           if (if a = 224 then 160 else 128) \<le> b \<and> b \<le> (if a = 237 then 159 else 191) \<and> is_cont c
           then ((a - 224) * 4096 + (b - 128) * 64 + (c - 128), 3) else (65533, 1)
         | _ \<Rightarrow> (65533, 1))
      else if 240 \<le> a \<and> a \<le> 244 then
        (case bs of b # c # d # _ \<Rightarrow>
           if (if a = 240 then 144 else 128) \<le> b \<and> b \<le> (if a = 244 then 143 else 191) \<and> is_cont c \<and> is_cont d
           then ((a - 240) * 262144 + (b - 128) * 4096 + (c - 128) * 64 + (d - 128), 4) else (65533, 1)
         | _ \<Rightarrow> (65533, 1))
      else (65533, 1))"

lemma decode_rune_width: "bs \<noteq> [] \<Longrightarrow> 0 < snd (decode_rune bs)"
  by (cases bs) (auto split: list.split)

text \<open>The runes of a \<open>range\<close> loop over a string; \<open>utf8.RuneCountInString\<close> is their number.\<close>

function runes_of :: "nat list \<Rightarrow> nat list" where
  "runes_of [] = []"
| "runes_of (b # bs) =
     fst (decode_rune (b # bs)) # runes_of (drop (snd (decode_rune (b # bs))) (b # bs))"
  by pat_completeness auto
termination
  by (relation "measure length") (use decode_rune_width in \<open>auto simp del: decode_rune.simps\<close>)

definition runes :: "string \<Rightarrow> nat list" where
  "runes s = runes_of (map byte_of s)"

definition rune_count :: "string \<Rightarrow> nat" where
  "rune_count s = length (runes s)"

section \<open>Library code that is a parameter\<close>

text \<open>
  What the code calls and the repository does not contain, with the result the code reads:
  \<open>url.Parse\<close> (\<^const>\<open>None\<close> for a parse error), the address of \<open>mail.ParseAddress\<close>, the
  Unicode part of \<open>strings.ToLower\<close>, the media type of \<open>mime.ParseMediaType\<close> and the
  compression function behind \<open>sha256.Sum256\<close> (32 bytes).
\<close>

record url =
  url_Scheme :: string
  url_Host :: string
  url_Path :: string

record golib =
  lib_url_parse :: "string \<Rightarrow> url option"
  lib_parse_address :: "string \<Rightarrow> string option"
  lib_unicode_lower :: "string \<Rightarrow> string"
  lib_parse_media_type :: "string \<Rightarrow> string option"
  lib_sha256 :: "string \<Rightarrow> 8 word list"

text \<open>
  A concrete instance, for the theorems that apply a result at a concrete input: URLs are cut at
  the first colon, an address is any string with an at sign, and the 32-byte digest is the
  padded beginning of the input.
\<close>

definition sample_lib :: golib where
  "sample_lib =
     \<lparr>lib_url_parse = (\<lambda>s. case cut_at CHR '':'' s of
        None \<Rightarrow> Some \<lparr>url_Scheme = '''', url_Host = '''', url_Path = s\<rparr>
      | Some (a, b) \<Rightarrow> Some \<lparr>url_Scheme = a, url_Host = '''', url_Path = b\<rparr>),
      lib_parse_address = (\<lambda>s. if CHR ''@'' \<in> set s then Some s else None),
      lib_unicode_lower = (\<lambda>s. s),
      lib_parse_media_type = (\<lambda>s. if s = '''' then None else Some s),
      lib_sha256 = (\<lambda>s. take 32 (map (\<lambda>c. word_of_nat (byte_of c)) s @ replicate 32 0))\<rparr>"

section \<open>Loops\<close>

text \<open>A loop that returns at the first element whose check gives an error.\<close>

fun first_error :: "('a \<Rightarrow> 'e option) \<Rightarrow> 'a list \<Rightarrow> 'e option" where
  "first_error f [] = None"
| "first_error f (x # xs) = (case f x of None \<Rightarrow> first_error f xs | Some e \<Rightarrow> Some e)"

lemma first_error_None [simp]: "first_error f xs = None \<longleftrightarrow> (\<forall>x \<in> set xs. f x = None)"
  by (induction xs) (auto split: option.splits)

text \<open>A chain of checks whose first error is returned: nil only if every check gives nil.\<close>

lemma orelse_None: "(case x of Some e \<Rightarrow> Some e | None \<Rightarrow> y) = None \<longleftrightarrow> x = None \<and> y = None"
  by (cases x) auto

lemma find_equal: "find (\<lambda>x. x = u) xs = (if u \<in> set xs then Some u else None)"
  by (induction xs) auto

text \<open>A loop that returns true at the first element equal to the one sought.\<close>

fun contains_elem :: "string list \<Rightarrow> string \<Rightarrow> bool" where
  "contains_elem [] x = False"
| "contains_elem (y # ys) x = (if y = x then True else contains_elem ys x)"

lemma contains_elem_iff [simp]: "contains_elem ys x \<longleftrightarrow> x \<in> set ys"
  by (induction ys) auto

section \<open>Times and durations\<close>

type_synonym time = int
type_synonym duration = int

definition second :: duration where [simp]: "second = 1000000000"
definition minute :: duration where [simp]: "minute = 60 * 1000000000"
definition hour :: duration where [simp]: "hour = 3600 * 1000000000"

text \<open>\<open>t.Truncate(time.Millisecond)\<close> rounds towards the past.\<close>

definition truncate_ms :: "time \<Rightarrow> time" where
  "truncate_ms t = t - t mod 1000000"

text \<open>\<open>int(d.Seconds())\<close>: truncation towards zero.\<close>

definition whole_seconds :: "duration \<Rightarrow> int" where
  "whole_seconds d = sgn d * (\<bar>d\<bar> div second)"

text \<open>\<open>time.Time.Unix\<close>.\<close>

definition unix :: "time \<Rightarrow> int" where
  "unix t = t div second"

lemma truncate_ms_le: "truncate_ms t \<le> t"
  by (simp add: truncate_ms_def)

lemma truncate_ms_mono: "s \<le> t \<Longrightarrow> truncate_ms s \<le> truncate_ms t"
proof -
  assume "s \<le> t"
  have eq: "x - x mod 1000000 = 1000000 * (x div 1000000)" for x :: int
    by (simp add: minus_mod_eq_mult_div)
  from \<open>s \<le> t\<close> have "s div 1000000 \<le> t div 1000000" by (rule zdiv_mono1) simp
  then show ?thesis unfolding truncate_ms_def eq by simp
qed

section \<open>Lemmas on strings\<close>

lemma split_on_not_Nil [simp]: "split_on c s \<noteq> []"
  by (induction s) (auto split: list.split)

lemma split_on_no_sep: "c \<notin> set s \<Longrightarrow> split_on c s = [s]"
  by (induction s) auto

lemma split_on_append: "c \<notin> set s \<Longrightarrow> split_on c (s @ c # t) = s # split_on c t"
  by (induction s) auto

lemma split_on_pieces: "p \<in> set (split_on c s) \<Longrightarrow> c \<notin> set p"
  by (induction s arbitrary: p) (auto split: if_splits list.splits)

lemma split_on_join:
  "xs \<noteq> [] \<Longrightarrow> \<forall>x \<in> set xs. c \<notin> set x \<Longrightarrow> split_on c (join [c] xs) = xs"
  by (induction "[c]" xs rule: join.induct) (auto simp: split_on_no_sep split_on_append)

lemma join_split_on: "join [c] (split_on c s) = s"
proof (induction s)
  case Nil
  show ?case by simp
next
  case (Cons x s)
  obtain y ys where eq: "split_on c s = y # ys"
    by (cases "split_on c s") auto
  with Cons.IH show ?case by (cases ys) auto
qed

lemma has_prefix_iff: "has_prefix s p \<longleftrightarrow> (\<exists>t. s = p @ t)"
  by (auto simp: has_prefix_def) (metis append_take_drop_id)

lemma contains_str_iff: "contains_str s p \<longleftrightarrow> (\<exists>a b. s = a @ p @ b)"
proof (induction s)
  case Nil
  show ?case by auto
next
  case (Cons x xs)
  show ?case
  proof
    assume "contains_str (x # xs) p"
    then show "\<exists>a b. x # xs = a @ p @ b"
    proof (simp, elim disjE)
      assume "has_prefix (x # xs) p"
      then show ?thesis by (auto simp: has_prefix_iff intro: exI [of _ "[]"])
    next
      assume "contains_str xs p"
      with Cons.IH obtain a b where "xs = a @ p @ b" by blast
      then have "x # xs = (x # a) @ p @ b" by simp
      then show ?thesis by blast
    qed
  next
    assume "\<exists>a b. x # xs = a @ p @ b"
    then obtain a b where ab: "x # xs = a @ p @ b" by blast
    show "contains_str (x # xs) p"
    proof (cases a)
      case Nil
      with ab have "has_prefix (x # xs) p" by (auto simp: has_prefix_iff)
      then show ?thesis by simp
    next
      case (Cons y a')
      with ab Cons.IH show ?thesis by auto
    qed
  qed
qed

lemma contains_single: "contains_str s [c] \<longleftrightarrow> c \<in> set s"
  by (auto simp: contains_str_iff in_set_conv_decomp)

lemma cut_at_Some: "cut_at c s = Some (a, b) \<Longrightarrow> s = a @ c # b \<and> c \<notin> set a"
  by (induction s arbitrary: a) (auto split: if_splits option.splits)

lemma cut_at_append: "c \<notin> set a \<Longrightarrow> cut_at c (a @ c # b) = Some (a, b)"
  by (induction a) auto

lemma runes_of_ascii: "list_all (\<lambda>b. b < 128) bs \<Longrightarrow> runes_of bs = bs"
  by (induction bs) auto

lemma rune_count_ascii: "is_ascii s \<Longrightarrow> rune_count s = length s"
  by (simp add: rune_count_def runes_def is_ascii_def runes_of_ascii list_all_length)

section \<open>Association lists as Go maps\<close>

text \<open>
  A Go map keyed by strings is an association list with distinct keys; the order of the
  list is the order in which one \<open>range\<close> loop visits the entries. What the code
  promises is stated on \<^const>\<open>map_of\<close>, which does not depend on that order.
\<close>

type_synonym 'v gomap = "(string \<times> 'v) list"

definition gm_ok :: "('v \<Rightarrow> string) \<Rightarrow> 'v gomap \<Rightarrow> bool" where
  "gm_ok key m \<longleftrightarrow> distinct (map fst m) \<and> (\<forall>(k, v) \<in> set m. key v = k)"

lemma gm_ok_distinct: "gm_ok key m \<Longrightarrow> distinct (map fst m)"
  by (simp add: gm_ok_def)

lemma gm_ok_key: "gm_ok key m \<Longrightarrow> map_of m k = Some v \<Longrightarrow> key v = k"
  by (auto simp: gm_ok_def dest: map_of_SomeD)

lemma gm_ok_values: "gm_ok key m \<Longrightarrow> v \<in> snd ` set m \<longleftrightarrow> map_of m (key v) = Some v"
  by (force simp: gm_ok_def dest: map_of_SomeD intro: map_of_is_SomeI)

lemma gm_ok_ran: "gm_ok key m \<Longrightarrow> snd ` set m = ran (map_of m)"
  by (simp add: gm_ok_def ran_distinct)

lemma gm_ok_Nil [simp]: "gm_ok key []"
  by (simp add: gm_ok_def)

lemma gm_ok_update: "gm_ok key m \<Longrightarrow> key v = k \<Longrightarrow> gm_ok key (AList.update k v m)"
proof -
  assume ok: "gm_ok key m" and k: "key v = k"
  have "distinct (map fst (AList.update k v m))"
    using ok by (simp add: gm_ok_def distinct_update)
  moreover have "\<forall>(k', v') \<in> set (AList.update k v m). key v' = k'"
  proof (clarify)
    fix k' v' assume "(k', v') \<in> set (AList.update k v m)"
    with \<open>distinct (map fst (AList.update k v m))\<close>
    have "map_of (AList.update k v m) k' = Some v'" by simp
    then have "(if k' = k then Some v else map_of m k') = Some v'"
      by (simp add: update_conv')
    with ok k show "key v' = k'" by (auto split: if_splits dest: gm_ok_key)
  qed
  ultimately show ?thesis by (simp add: gm_ok_def)
qed

lemma gm_ok_filter: "gm_ok key m \<Longrightarrow> gm_ok key (filter P m)"
  by (auto simp: gm_ok_def distinct_map_filter)

lemma gm_ok_delete: "gm_ok key m \<Longrightarrow> gm_ok key (AList.delete k m)"
  by (simp add: AList.delete_eq gm_ok_filter)

lemma map_of_filter_snd:
  "distinct (map fst m) \<Longrightarrow>
   map_of (filter (\<lambda>(k, v). P v) m) k = (case map_of m k of None \<Rightarrow> None | Some v \<Rightarrow> if P v then Some v else None)"
  by (induction m) (auto split: option.splits simp: map_of_eq_None_iff rev_image_eqI)

lemma find_snd_Some:
  "gm_ok key m \<Longrightarrow> find (\<lambda>(k, v). P v) m = Some (k, v) \<Longrightarrow> map_of m (key v) = Some v \<and> P v \<and> k = key v"
  by (auto simp: find_Some_iff gm_ok_def intro!: map_of_is_SomeI) (metis nth_mem split_conv)+

lemma find_snd_None:
  "gm_ok key m \<Longrightarrow> find (\<lambda>(k, v). P v) m = None \<longleftrightarrow> (\<forall>k v. map_of m k = Some v \<longrightarrow> \<not> P v)"
  by (auto simp: find_None_iff gm_ok_def dest: map_of_SomeD)

end
