(* ===== verification/Scopes.thy ===== *)
theory Scopes
  imports GoLib
begin

text \<open>
  Package \<open>pkg/identity\<close>, files \<open>scope.go\<close> and \<open>error.go\<close>: the scope parameter of RFC 6749
  (parsing, formatting, syntax, comparison) and the validation error every entity uses.
\<close>

section \<open>Validation errors\<close>

record validation_error =
  ve_Field :: string
  ve_Message :: string

definition NewValidationError :: "string \<Rightarrow> string \<Rightarrow> validation_error" where
  "NewValidationError field message = \<lparr>ve_Field = field, ve_Message = message\<rparr>"

definition validation_error_Error :: "validation_error \<Rightarrow> string" where
  "validation_error_Error e = ve_Field e @ '' '' @ ve_Message e"

section \<open>Scopes\<close>

text \<open>The loop of \<open>ParseScope\<close> over the fields, with its \<open>seen\<close> map and its result.\<close>

fun parse_scope_loop :: "string list \<Rightarrow> string set \<Rightarrow> string list \<Rightarrow> string list" where
  "parse_scope_loop [] seen result = result"
| "parse_scope_loop (field # rest) seen result =
     (if field = [] \<or> field \<in> seen then parse_scope_loop rest seen result
      else parse_scope_loop rest (insert field seen) (result @ [field]))"

definition ParseScope :: "string \<Rightarrow> string list" where
  "ParseScope scope = parse_scope_loop (split_on CHR '' '' scope) {} []"

definition FormatScope :: "string list \<Rightarrow> string" where
  "FormatScope scopes = join '' '' scopes"

text \<open>The byte check of the loop in \<open>IsValidScopeToken\<close>.\<close>

definition scope_char :: "char \<Rightarrow> bool" where
  "scope_char c \<longleftrightarrow>
     \<not> (byte_of c < 0x21 \<or> byte_of c = 0x22 \<or> byte_of c = 0x5C \<or> byte_of c > 0x7E)"

definition IsValidScopeToken :: "string \<Rightarrow> bool" where
  "IsValidScopeToken scope = (if scope = [] then False else list_all scope_char scope)"

definition ValidateScopeSyntax :: "string list \<Rightarrow> bool" where
  "ValidateScopeSyntax scopes = list_all IsValidScopeToken scopes"

definition ScopesEqual :: "string list \<Rightarrow> string list \<Rightarrow> bool" where
  "ScopesEqual a b =
     (if length a \<noteq> length b then False else list_all (\<lambda>s. s \<in> set a) b)"

definition HasScope :: "string list \<Rightarrow> string \<Rightarrow> bool" where
  "HasScope scopes scope = contains_elem scopes scope"

section \<open>Parsing\<close>

lemma parse_scope_loop_append:
  "parse_scope_loop fs seen result = result @ parse_scope_loop fs seen []"
proof (induction fs arbitrary: seen result)
  case Nil
  show ?case by simp
next
  case (Cons f fs)
  show ?case
  proof (cases "f = [] \<or> f \<in> seen")
    case True
    then show ?thesis using Cons.IH [of seen result] by simp
  next
    case False
    then show ?thesis
      using Cons.IH [of "insert f seen" "result @ [f]"] Cons.IH [of "insert f seen" "[f]"] by simp
  qed
qed

lemma parse_scope_loop_Cons:
  "parse_scope_loop (f # fs) seen [] =
     (if f = [] \<or> f \<in> seen then parse_scope_loop fs seen []
      else f # parse_scope_loop fs (insert f seen) [])"
  using parse_scope_loop_append [of fs "insert f seen" "[f]"] by simp

lemma set_parse_scope_loop:
  "set (parse_scope_loop fs seen []) = set fs - seen - {[]}"
  by (induction fs arbitrary: seen) (auto simp: parse_scope_loop_Cons simp del: parse_scope_loop.simps(2))

lemma distinct_parse_scope_loop: "distinct (parse_scope_loop fs seen [])"
  by (induction fs arbitrary: seen)
    (auto simp: parse_scope_loop_Cons set_parse_scope_loop simp del: parse_scope_loop.simps(2))

lemma parse_scope_loop_id:
  "distinct fs \<Longrightarrow> [] \<notin> set fs \<Longrightarrow> set fs \<inter> seen = {} \<Longrightarrow> parse_scope_loop fs seen [] = fs"
  by (induction fs arbitrary: seen) (auto simp: parse_scope_loop_Cons simp del: parse_scope_loop.simps(2))

lemma set_ParseScope: "set (ParseScope s) = set (split_on CHR '' '' s) - {[]}"
  by (simp add: ParseScope_def set_parse_scope_loop)

lemma distinct_ParseScope: "distinct (ParseScope s)"
  by (simp add: ParseScope_def distinct_parse_scope_loop)

lemma ParseScope_field: "f \<in> set (ParseScope s) \<Longrightarrow> f \<noteq> [] \<and> CHR '' '' \<notin> set f"
  by (auto simp: set_ParseScope dest: split_on_pieces)

lemma scope_char_not_space: "\<not> scope_char CHR '' ''"
  by (simp add: scope_char_def)

lemma valid_token_no_space: "IsValidScopeToken f \<Longrightarrow> f \<noteq> [] \<and> CHR '' '' \<notin> set f"
  using scope_char_not_space by (auto simp: IsValidScopeToken_def list_all_iff split: if_splits)

text \<open>Parsing undoes formatting on any list of distinct fields without spaces.\<close>

lemma ParseScope_FormatScope:
  assumes "distinct xs" and "\<And>x. x \<in> set xs \<Longrightarrow> x \<noteq> [] \<and> CHR '' '' \<notin> set x"
  shows "ParseScope (FormatScope xs) = xs"
proof (cases "xs = []")
  case True
  then show ?thesis by (simp add: ParseScope_def FormatScope_def)
next
  case False
  then have "split_on CHR '' '' (FormatScope xs) = xs"
    using assms(2) by (auto simp: FormatScope_def intro!: split_on_join)
  then show ?thesis
    using assms by (auto simp: ParseScope_def intro!: parse_scope_loop_id)
qed

lemma ValidateScopeSyntax_iff: "ValidateScopeSyntax xs \<longleftrightarrow> (\<forall>x \<in> set xs. IsValidScopeToken x)"
  by (simp add: ValidateScopeSyntax_def list_all_iff)

section \<open>Comparison\<close>

lemma ScopesEqual_distinct:
  assumes "distinct a" and "distinct b"
  shows "ScopesEqual a b \<longleftrightarrow> set a = set b"
proof
  assume "ScopesEqual a b"
  then have len: "length a = length b" and sub: "set b \<subseteq> set a"
    by (auto simp: ScopesEqual_def list_all_iff split: if_splits)
  from len assms have "card (set b) = card (set a)" by (simp add: distinct_card)
  with sub show "set a = set b" by (metis List.finite_set card_subset_eq)
next
  assume eq: "set a = set b"
  with assms have "length a = length b" by (metis distinct_card)
  with eq show "ScopesEqual a b" by (simp add: ScopesEqual_def list_all_iff)
qed

text \<open>
  \<open>ParseScope\<close> and \<open>FormatScope\<close> round trip. The parsed scopes are distinct, none is empty or
  contains a space, no field of the parameter is lost, and formatting them and parsing again
  gives the same list, whatever the parameter.
\<close>

theorem parse_scope_canonical:
  "ParseScope (FormatScope (ParseScope s)) = ParseScope s
   \<and> distinct (ParseScope s)
   \<and> set (ParseScope s) = {f \<in> set (split_on CHR '' '' s). f \<noteq> []}"
proof -
  have "ParseScope (FormatScope (ParseScope s)) = ParseScope s"
    by (rule ParseScope_FormatScope [OF distinct_ParseScope]) (rule ParseScope_field)
  then show ?thesis by (auto simp: distinct_ParseScope set_ParseScope)
qed

end
