(* ===== verification/Clients.thy ===== *)
theory Clients
  imports Scopes
begin

text \<open>
  Package \<open>pkg/identity\<close>, file \<open>client.go\<close>: the OAuth client registration, its defaults and its
  validation. The string types of the source (client type, token usage, grant type, \<dots>) stay
  strings, since a value outside the constants is representable there and refused by
  \<open>Validate\<close>. A nil slice and an empty slice are both the empty list.
\<close>

section \<open>Constants\<close>

definition ClientTypeConfidential :: string where [simp]: "ClientTypeConfidential = ''confidential''"
definition ClientTypePublic :: string where [simp]: "ClientTypePublic = ''public''"
definition RefreshTokenExpirationAbsolute :: string where [simp]: "RefreshTokenExpirationAbsolute = ''absolute''"
definition RefreshTokenExpirationSliding :: string where [simp]: "RefreshTokenExpirationSliding = ''sliding''"
definition RefreshTokenUsageReUse :: string where [simp]: "RefreshTokenUsageReUse = ''reuse''"
definition RefreshTokenUsageOneTime :: string where [simp]: "RefreshTokenUsageOneTime = ''onetime''"
definition ResponseTypeCode :: string where [simp]: "ResponseTypeCode = ''code''"
definition ResponseTypeToken :: string where [simp]: "ResponseTypeToken = ''token''"
definition GrantTypeAuthorizationCode :: string where [simp]: "GrantTypeAuthorizationCode = ''authorization_code''"
definition GrantTypeImplicit :: string where [simp]: "GrantTypeImplicit = ''implicit''"
definition GrantTypeClientCredentials :: string where [simp]: "GrantTypeClientCredentials = ''client_credentials''"
definition GrantTypePassword :: string where [simp]: "GrantTypePassword = ''password''"
definition GrantTypeRefreshToken :: string where [simp]: "GrantTypeRefreshToken = ''refresh_token''"

definition DefaultAccessTokenLifetime :: duration where "DefaultAccessTokenLifetime = hour"
definition DefaultAuthorizationCodeLifetime :: duration where "DefaultAuthorizationCodeLifetime = 5 * minute"
definition DefaultRefreshTokenLifetime :: duration where "DefaultRefreshTokenLifetime = 30 * 24 * hour"

section \<open>The client\<close>

record client =
  c_Id :: string
  c_ClientId :: string
  c_Name :: string
  c_Description :: string
  c_Type :: string
  c_SecretHash :: string
  c_RedirectUris :: "string list"
  c_AllowedScopes :: "string list"
  c_DefaultScopes :: "string list"
  c_AllowedGrantTypes :: "string list"
  c_RequireConsent :: bool
  c_RequirePkce :: bool
  c_Enabled :: bool
  c_AccessTokenLifetime :: duration
  c_AuthorizationCodeLifetime :: duration
  c_RefreshTokenUsage :: string
  c_RefreshTokenExpiration :: string
  c_RefreshTokenLifetime :: duration
  c_CreatedAt :: time
  c_UpdatedAt :: time

definition EnsureDefaults :: "client \<Rightarrow> client" where
  "EnsureDefaults c =
     c\<lparr>c_Type := (if c_Type c = '''' then ClientTypeConfidential else c_Type c),
       c_RefreshTokenUsage :=
         (if c_RefreshTokenUsage c = '''' then RefreshTokenUsageReUse else c_RefreshTokenUsage c),
       c_RefreshTokenExpiration :=
         (if c_RefreshTokenExpiration c = '''' then RefreshTokenExpirationSliding
          else c_RefreshTokenExpiration c),
       c_AccessTokenLifetime :=
         (if c_AccessTokenLifetime c \<le> 0 then DefaultAccessTokenLifetime else c_AccessTokenLifetime c),
       c_AuthorizationCodeLifetime :=
         (if c_AuthorizationCodeLifetime c \<le> 0 then DefaultAuthorizationCodeLifetime
          else c_AuthorizationCodeLifetime c),
       c_RefreshTokenLifetime :=
         (if c_RefreshTokenLifetime c \<le> 0 then DefaultRefreshTokenLifetime else c_RefreshTokenLifetime c)\<rparr>"

definition client_IsPublic :: "client \<Rightarrow> bool" where
  "client_IsPublic c \<longleftrightarrow> c_Type c = ClientTypePublic"

definition AccessTokenLifetimeSeconds :: "client \<Rightarrow> int" where
  "AccessTokenLifetimeSeconds c = whole_seconds (c_AccessTokenLifetime c)"

definition AuthorizationCodeLifetimeSeconds :: "client \<Rightarrow> int" where
  "AuthorizationCodeLifetimeSeconds c = whole_seconds (c_AuthorizationCodeLifetime c)"

definition RefreshTokenLifetimeSeconds :: "client \<Rightarrow> int" where
  "RefreshTokenLifetimeSeconds c = whole_seconds (c_RefreshTokenLifetime c)"

text \<open>The loop of \<open>MatchRedirectUri\<close>: the registered URI, or \<^const>\<open>None\<close> for \<open>ok = false\<close>.\<close>

definition MatchRedirectUri :: "client \<Rightarrow> string \<Rightarrow> string option" where
  "MatchRedirectUri c uri = find (\<lambda>redirectUri. redirectUri = uri) (c_RedirectUris c)"

definition client_ValidateRedirectUri :: "client \<Rightarrow> string \<Rightarrow> bool" where
  "client_ValidateRedirectUri c uri = (case MatchRedirectUri c uri of Some _ \<Rightarrow> True | None \<Rightarrow> False)"

definition client_ValidateScope :: "client \<Rightarrow> string \<Rightarrow> bool" where
  "client_ValidateScope c scope = contains_elem (c_AllowedScopes c) scope"

definition client_ValidateScopes :: "client \<Rightarrow> string list \<Rightarrow> bool" where
  "client_ValidateScopes c scopes = list_all (client_ValidateScope c) scopes"

definition ValidateGrantType :: "client \<Rightarrow> string \<Rightarrow> bool" where
  "ValidateGrantType c grantType = contains_elem (c_AllowedGrantTypes c) grantType"

section \<open>Validation\<close>

text \<open>The bodies of the four loops of \<open>Client.Validate\<close>; \<^const>\<open>None\<close> is the nil error.\<close>

definition check_redirect_uri :: "golib \<Rightarrow> string \<Rightarrow> validation_error option" where
  "check_redirect_uri lib uri =
     (if (case lib_url_parse lib uri of None \<Rightarrow> True | Some u \<Rightarrow> url_Scheme u = '''')
         \<or> contains_str uri ''#''
      then Some (NewValidationError ''redirect_uris'' ''must be absolute URIs without a fragment'')
      else None)"

definition check_scope_syntax :: "string \<Rightarrow> validation_error option" where
  "check_scope_syntax scope =
     (if \<not> IsValidScopeToken scope
      then Some (NewValidationError ''scopes'' (''contains an invalid scope: '' @ scope)) else None)"

definition check_default_scope :: "client \<Rightarrow> string \<Rightarrow> validation_error option" where
  "check_default_scope c scope =
     (if \<not> client_ValidateScope c scope
      then Some (NewValidationError ''default_scopes'' ''must be a subset of allowed_scopes'') else None)"

definition check_grant_type :: "client \<Rightarrow> string \<Rightarrow> validation_error option" where
  "check_grant_type c grantType =
     (if grantType = '''' then Some (NewValidationError ''grant_types'' ''contains an empty grant type'')
      else if grantType = GrantTypeClientCredentials \<and> c_Type c = ClientTypePublic
      then Some (NewValidationError ''grant_types'' ''client_credentials is not allowed for public clients'')
      else None)"

definition client_Validate :: "golib \<Rightarrow> client \<Rightarrow> validation_error option" where
  "client_Validate lib c =
     (if c_ClientId c = '''' then Some (NewValidationError ''client_id'' ''is required'')
      else if c_Type c \<noteq> ClientTypeConfidential \<and> c_Type c \<noteq> ClientTypePublic
      then Some (NewValidationError ''type'' (''must be 'confidential' or 'public'' @ [CHR 0x27]))
      else case first_error (check_redirect_uri lib) (c_RedirectUris c) of Some e \<Rightarrow> Some e | None \<Rightarrow>
      (case first_error check_scope_syntax (c_AllowedScopes c @ c_DefaultScopes c) of Some e \<Rightarrow> Some e | None \<Rightarrow>
      (case first_error (check_default_scope c) (c_DefaultScopes c) of Some e \<Rightarrow> Some e | None \<Rightarrow>
      (case first_error (check_grant_type c) (c_AllowedGrantTypes c) of Some e \<Rightarrow> Some e | None \<Rightarrow>
      (if c_RefreshTokenUsage c \<noteq> RefreshTokenUsageReUse \<and> c_RefreshTokenUsage c \<noteq> RefreshTokenUsageOneTime
       then Some (NewValidationError ''refresh_token_usage'' (''must be 'reuse' or 'onetime'' @ [CHR 0x27]))
       else if c_RefreshTokenExpiration c \<noteq> RefreshTokenExpirationSliding
               \<and> c_RefreshTokenExpiration c \<noteq> RefreshTokenExpirationAbsolute
       then Some (NewValidationError ''refresh_token_expiration'' (''must be 'sliding' or 'absolute'' @ [CHR 0x27]))
       else None)))))"

text \<open>A registration used by the closed instances of this and later theories.\<close>

definition sample_client :: client where
  "sample_client =
     \<lparr>c_Id = ''c-1'', c_ClientId = ''spa'', c_Name = ''App'', c_Description = '''', c_Type = ''public'',
      c_SecretHash = '''', c_RedirectUris = [''app:/cb''], c_AllowedScopes = [''a'', ''b''],
      c_DefaultScopes = [''a''], c_AllowedGrantTypes = [''authorization_code'', ''refresh_token''],
      c_RequireConsent = True, c_RequirePkce = False, c_Enabled = True, c_AccessTokenLifetime = 0,
      c_AuthorizationCodeLifetime = 0, c_RefreshTokenUsage = ''onetime'',
      c_RefreshTokenExpiration = ''absolute'', c_RefreshTokenLifetime = 0, c_CreatedAt = 0, c_UpdatedAt = 0\<rparr>"

section \<open>Lemmas\<close>

lemma MatchRedirectUri_Some: "MatchRedirectUri c uri = Some r \<longleftrightarrow> r = uri \<and> uri \<in> set (c_RedirectUris c)"
  by (auto simp: MatchRedirectUri_def find_equal)

lemma client_ValidateRedirectUri_iff [simp]:
  "client_ValidateRedirectUri c uri \<longleftrightarrow> uri \<in> set (c_RedirectUris c)"
  by (simp add: client_ValidateRedirectUri_def MatchRedirectUri_def find_equal)

lemma client_ValidateScopes_iff [simp]:
  "client_ValidateScopes c scopes \<longleftrightarrow> set scopes \<subseteq> set (c_AllowedScopes c)"
  by (auto simp: client_ValidateScopes_def client_ValidateScope_def list_all_iff)

lemma ValidateGrantType_iff [simp]: "ValidateGrantType c g \<longleftrightarrow> g \<in> set (c_AllowedGrantTypes c)"
  by (simp add: ValidateGrantType_def)

text \<open>What a registration that passes the defaults and the validation looks like.\<close>

definition client_wf :: "client \<Rightarrow> bool" where
  "client_wf c \<longleftrightarrow>
     c_ClientId c \<noteq> ''''
     \<and> c_Type c \<in> {ClientTypeConfidential, ClientTypePublic}
     \<and> (\<forall>u \<in> set (c_RedirectUris c). CHR ''#'' \<notin> set u)
     \<and> set (c_DefaultScopes c) \<subseteq> set (c_AllowedScopes c)
     \<and> (\<forall>s \<in> set (c_AllowedScopes c). IsValidScopeToken s)
     \<and> (client_IsPublic c \<longrightarrow> GrantTypeClientCredentials \<notin> set (c_AllowedGrantTypes c))
     \<and> c_RefreshTokenUsage c \<in> {RefreshTokenUsageReUse, RefreshTokenUsageOneTime}
     \<and> c_RefreshTokenExpiration c \<in> {RefreshTokenExpirationSliding, RefreshTokenExpirationAbsolute}
     \<and> 0 < c_AccessTokenLifetime c \<and> 0 < c_AuthorizationCodeLifetime c \<and> 0 < c_RefreshTokenLifetime c"

lemma EnsureDefaults_positive:
  "0 < c_AccessTokenLifetime (EnsureDefaults c)"
  "0 < c_AuthorizationCodeLifetime (EnsureDefaults c)"
  "0 < c_RefreshTokenLifetime (EnsureDefaults c)"
  by (simp_all add: EnsureDefaults_def DefaultAccessTokenLifetime_def
      DefaultAuthorizationCodeLifetime_def DefaultRefreshTokenLifetime_def)

lemma EnsureDefaults_idem: "EnsureDefaults (EnsureDefaults c) = EnsureDefaults c"
  by (simp add: EnsureDefaults_def DefaultAccessTokenLifetime_def
      DefaultAuthorizationCodeLifetime_def DefaultRefreshTokenLifetime_def)

lemma client_Validate_None:
  "client_Validate lib c = None \<longleftrightarrow>
     c_ClientId c \<noteq> ''''
     \<and> c_Type c \<in> {ClientTypeConfidential, ClientTypePublic}
     \<and> (\<forall>u \<in> set (c_RedirectUris c). check_redirect_uri lib u = None)
     \<and> (\<forall>s \<in> set (c_AllowedScopes c) \<union> set (c_DefaultScopes c). IsValidScopeToken s)
     \<and> set (c_DefaultScopes c) \<subseteq> set (c_AllowedScopes c)
     \<and> (\<forall>g \<in> set (c_AllowedGrantTypes c). check_grant_type c g = None)
     \<and> c_RefreshTokenUsage c \<in> {RefreshTokenUsageReUse, RefreshTokenUsageOneTime}
     \<and> c_RefreshTokenExpiration c \<in> {RefreshTokenExpirationSliding, RefreshTokenExpirationAbsolute}"
  by (simp add: client_Validate_def orelse_None check_scope_syntax_def check_default_scope_def
      client_ValidateScope_def ball_Un subset_iff) blast

text \<open>
  C40: a client that \<open>EnsureDefaults\<close> completed and \<open>Validate\<close> accepted is well formed: a
  non-empty client id, one of the two client types, redirection URIs without a fragment, default
  scopes among the allowed scopes, every scope a valid scope token, no client credentials grant
  for a public client, a known refresh token policy, and lifetimes greater than zero.
\<close>

theorem validated_client_wf:
  assumes "client_Validate lib (EnsureDefaults c) = None"
  shows "client_wf (EnsureDefaults c)"
proof -
  let ?c = "EnsureDefaults c"
  have frag: "CHR ''#'' \<notin> set u" if "check_redirect_uri lib u = None" for u
    using that by (auto simp: check_redirect_uri_def contains_single split: if_splits)
  have cred: "client_IsPublic ?c \<Longrightarrow> check_grant_type ?c g = None \<Longrightarrow> g \<noteq> GrantTypeClientCredentials" for g
    by (auto simp: check_grant_type_def client_IsPublic_def)
  from assms show ?thesis
    unfolding client_Validate_None client_wf_def using frag cred EnsureDefaults_positive by blast
qed

theorem validated_client_wf_witness:
  "client_Validate sample_lib (EnsureDefaults sample_client) = None \<and> client_wf (EnsureDefaults sample_client)"
proof -
  have h: "client_Validate sample_lib (EnsureDefaults sample_client) = None"
    by code_simp
  show ?thesis using h validated_client_wf [OF h] by blast
qed

end
