(* ===== verification/Tokens.thy ===== *)
theory Tokens
  imports Clients
begin

text \<open>
  Package \<open>pkg/identity\<close>, file \<open>token.go\<close>: access tokens, refresh tokens, authorization codes
  and one-time user tokens. Only hashes of the values are kept.
\<close>

definition UserTokenPurposeActivation :: string where [simp]: "UserTokenPurposeActivation = ''activation''"
definition UserTokenPurposePasswordReset :: string where [simp]: "UserTokenPurposePasswordReset = ''password_reset''"

record access_token =
  at_Id :: string
  at_TokenHash :: string
  at_ClientId :: string
  at_UserId :: string
  at_Scopes :: "string list"
  at_AuthorizationCodeId :: string
  at_CreatedAt :: time
  at_ExpiresAt :: time

definition access_token_HasExpired :: "access_token \<Rightarrow> time \<Rightarrow> bool" where
  "access_token_HasExpired token now \<longleftrightarrow> \<not> now < at_ExpiresAt token"

record refresh_token =
  rt_Id :: string
  rt_TokenHash :: string
  rt_ClientId :: string
  rt_UserId :: string
  rt_AccessTokenId :: string
  rt_AuthorizationCodeId :: string
  rt_Scopes :: "string list"
  rt_TokenExpiration :: string
  rt_TokenUsage :: string
  rt_Lifetime :: duration
  rt_CreatedAt :: time
  rt_UpdatedAt :: time
  rt_ExpiresAt :: time

definition refresh_token_HasExpired :: "refresh_token \<Rightarrow> time \<Rightarrow> bool" where
  "refresh_token_HasExpired token now \<longleftrightarrow> \<not> now < rt_ExpiresAt token"

definition Touch :: "refresh_token \<Rightarrow> time \<Rightarrow> refresh_token" where
  "Touch token now =
     (let t = token\<lparr>rt_UpdatedAt := now\<rparr>
      in if rt_TokenExpiration t = RefreshTokenExpirationSliding
         then t\<lparr>rt_ExpiresAt := now + rt_Lifetime t\<rparr> else t)"

definition refresh_token_ValidateScope :: "refresh_token \<Rightarrow> string \<Rightarrow> bool" where
  "refresh_token_ValidateScope token scope = contains_elem (rt_Scopes token) scope"

definition refresh_token_ValidateScopes :: "refresh_token \<Rightarrow> string list \<Rightarrow> bool" where
  "refresh_token_ValidateScopes token scopes = list_all (refresh_token_ValidateScope token) scopes"

record authorization_code =
  ac_Id :: string
  ac_CodeHash :: string
  ac_ClientId :: string
  ac_UserId :: string
  ac_Scopes :: "string list"
  ac_RedirectUri :: string
  ac_CodeChallenge :: string
  ac_CodeChallengeMethod :: string
  ac_CreatedAt :: time
  ac_ExpiresAt :: time
  ac_ConsumedAt :: "time option"

definition code_HasExpired :: "authorization_code \<Rightarrow> time \<Rightarrow> bool" where
  "code_HasExpired code now \<longleftrightarrow> \<not> now < ac_ExpiresAt code"

definition IsConsumed :: "authorization_code \<Rightarrow> bool" where
  "IsConsumed code \<longleftrightarrow> ac_ConsumedAt code \<noteq> None"

definition code_ValidateRedirectUri :: "authorization_code \<Rightarrow> string \<Rightarrow> bool" where
  "code_ValidateRedirectUri code redirectUri \<longleftrightarrow> redirectUri = ac_RedirectUri code"

record user_token =
  ut_Id :: string
  ut_UserId :: string
  ut_Purpose :: string
  ut_TokenHash :: string
  ut_CreatedAt :: time
  ut_ExpiresAt :: time

definition user_token_HasExpired :: "user_token \<Rightarrow> time \<Rightarrow> bool" where
  "user_token_HasExpired token now \<longleftrightarrow> \<not> now < ut_ExpiresAt token"

lemma refresh_token_ValidateScopes_iff [simp]:
  "refresh_token_ValidateScopes t scopes \<longleftrightarrow> set scopes \<subseteq> set (rt_Scopes t)"
  by (auto simp: refresh_token_ValidateScopes_def refresh_token_ValidateScope_def list_all_iff)

lemma Touch_simps [simp]:
  "rt_Id (Touch t now) = rt_Id t" "rt_TokenHash (Touch t now) = rt_TokenHash t"
  "rt_ClientId (Touch t now) = rt_ClientId t" "rt_UserId (Touch t now) = rt_UserId t"
  "rt_AccessTokenId (Touch t now) = rt_AccessTokenId t"
  "rt_AuthorizationCodeId (Touch t now) = rt_AuthorizationCodeId t"
  "rt_Scopes (Touch t now) = rt_Scopes t" "rt_UpdatedAt (Touch t now) = now"
  "rt_ExpiresAt (Touch t now) =
     (if rt_TokenExpiration t = RefreshTokenExpirationSliding then now + rt_Lifetime t else rt_ExpiresAt t)"
  by (simp_all add: Touch_def Let_def)

end
