(* ===== verification/Users.thy ===== *)
theory Users
  imports Scopes
begin

text \<open>
  Package \<open>pkg/identity\<close>, file \<open>user.go\<close>: the user account, its normalization and its
  validation. The Unicode case tables and the address parser are the parameter \<open>lib\<close>.
\<close>

section \<open>The user\<close>

record user =
  u_Id :: string
  u_Username :: string
  u_NormalizedUsername :: string
  u_Email :: string
  u_NormalizedEmail :: string
  u_PasswordHash :: string
  u_EmailVerified :: bool
  u_Enabled :: bool
  u_SecurityStamp :: string
  u_FailedLoginCount :: int
  u_LockoutEnd :: "time option"
  u_LastLoginAt :: "time option"
  u_CreatedAt :: time
  u_UpdatedAt :: time

definition IsLockedOut :: "user \<Rightarrow> time \<Rightarrow> bool" where
  "IsLockedOut u now = (case u_LockoutEnd u of None \<Rightarrow> False | Some e \<Rightarrow> now < e)"

definition NormalizeUsername :: "golib \<Rightarrow> string \<Rightarrow> string" where
  "NormalizeUsername lib username = to_lower (lib_unicode_lower lib) (trim_space username)"

definition NormalizeEmail :: "golib \<Rightarrow> string \<Rightarrow> string" where
  "NormalizeEmail lib email = to_lower (lib_unicode_lower lib) (trim_space email)"

definition user_Normalize :: "golib \<Rightarrow> user \<Rightarrow> user" where
  "user_Normalize lib u =
     (let u1 = u\<lparr>u_Username := trim_space (u_Username u), u_Email := trim_space (u_Email u)\<rparr>
      in u1\<lparr>u_NormalizedUsername := NormalizeUsername lib (u_Username u1),
            u_NormalizedEmail := NormalizeEmail lib (u_Email u1)\<rparr>)"

text \<open>The rune test of the loop in \<open>ValidateUsername\<close>.\<close>

definition username_rune :: "nat \<Rightarrow> bool" where
  "username_rune r \<longleftrightarrow>
     97 \<le> r \<and> r \<le> 122 \<or> 65 \<le> r \<and> r \<le> 90 \<or> 48 \<le> r \<and> r \<le> 57 \<or>
     r = 46 \<or> r = 95 \<or> r = 45 \<or> r = 64"

definition ValidateUsername :: "string \<Rightarrow> validation_error option" where
  "ValidateUsername username =
     (let n = rune_count username
      in if n < 3 \<or> 64 < n then Some (NewValidationError ''username'' ''must be between 3 and 64 characters'')
         else first_error
           (\<lambda>r. if \<not> username_rune r
                then Some (NewValidationError ''username''
                       (''may only contain letters, digits, '' @ [CHR 0x27] @ ''.'' @ [CHR 0x27] @ '', '' @ [CHR 0x27] @ ''_''
                        @ [CHR 0x27] @ '', '' @ [CHR 0x27] @ ''-'' @ [CHR 0x27] @ '' and '' @ [CHR 0x27] @ ''@'' @ [CHR 0x27]))
                else None)
           (runes username))"

definition ValidateEmail :: "golib \<Rightarrow> string \<Rightarrow> validation_error option" where
  "ValidateEmail lib email =
     (if email = '''' \<or> length email > 254 then Some (NewValidationError ''email'' ''is required'')
      else case lib_parse_address lib email of
          None \<Rightarrow> Some (NewValidationError ''email'' ''is not a valid email address'')
        | Some addr \<Rightarrow>
            if addr \<noteq> email then Some (NewValidationError ''email'' ''is not a valid email address'')
            else None)"

definition user_Validate :: "golib \<Rightarrow> user \<Rightarrow> validation_error option" where
  "user_Validate lib u =
     (case ValidateUsername (u_Username u) of Some e \<Rightarrow> Some e | None \<Rightarrow> ValidateEmail lib (u_Email u))"

section \<open>Runes of a valid username\<close>

lemma decode_rune_ascii:
  assumes "fst (decode_rune (a # bs)) < 128"
  shows "a < 128"
proof (rule ccontr)
  assume "\<not> a < 128"
  then consider "a < 194" | "194 \<le> a" "a \<le> 223" | "a = 224" | "225 \<le> a" "a \<le> 239"
    | "a = 240" | "241 \<le> a" "a \<le> 244" | "244 < a" by linarith
  then have "128 \<le> fst (decode_rune (a # bs))"
  proof cases
    case 2
    then have "128 \<le> (a - 192) * 64 + x" for x by linarith
    with 2 show ?thesis by (auto split: list.split)
  next
    case 3
    have "160 \<le> b \<Longrightarrow> 128 \<le> (b - 128) * 64 + x" for b x :: nat by linarith
    with 3 show ?thesis by (auto split: list.split)
  next
    case 4
    then have "128 \<le> (a - 224) * 4096 + x + y" for x y by linarith
    with 4 show ?thesis by (auto split: list.split)
  next
    case 5
    have "144 \<le> b \<Longrightarrow> 128 \<le> (b - 128) * 4096 + x + y" for b x y :: nat by linarith
    with 5 show ?thesis by (auto split: list.split)
  next
    case 6
    then have "128 \<le> (a - 240) * 262144 + x + y + z" for x y z by linarith
    with 6 show ?thesis by (auto split: list.split)
  qed (use \<open>\<not> a < 128\<close> in \<open>simp_all\<close>)
  with assms show False by simp
qed

lemma runes_of_ascii_iff: "list_all (\<lambda>r. r < 128) (runes_of bs) \<Longrightarrow> list_all (\<lambda>b. b < 128) bs"
proof (induction bs rule: runes_of.induct)
  case 1
  show ?case by simp
next
  case (2 b bs)
  from "2.prems" have "fst (decode_rune (b # bs)) < 128"
    by (simp del: decode_rune.simps)
  then have b: "b < 128" by (rule decode_rune_ascii)
  then have dec: "decode_rune (b # bs) = (b, 1)" by simp
  with "2.prems" have "list_all (\<lambda>r. r < 128) (runes_of bs)"
    by (simp del: decode_rune.simps)
  with "2.IH" dec b show ?case by (simp del: decode_rune.simps)
qed

lemma username_rune_ascii: "username_rune r \<Longrightarrow> r < 128"
  by (auto simp: username_rune_def)

definition username_char :: "char \<Rightarrow> bool" where
  "username_char c \<longleftrightarrow> username_rune (byte_of c)"

lemma ValidateUsername_None:
  "ValidateUsername s = None \<longleftrightarrow> 3 \<le> length s \<and> length s \<le> 64 \<and> list_all username_char s"
proof
  assume "ValidateUsername s = None"
  then have n: "3 \<le> rune_count s" "rune_count s \<le> 64" and r: "\<forall>r \<in> set (runes s). username_rune r"
    by (auto simp: ValidateUsername_def Let_def split: if_splits)
  from r have "list_all (\<lambda>r. r < 128) (runes s)"
    by (auto simp: list_all_iff username_rune_ascii)
  then have asc: "list_all (\<lambda>b. b < 128) (map byte_of s)"
    unfolding runes_def by (rule runes_of_ascii_iff)
  then have "runes s = map byte_of s" by (simp add: runes_def runes_of_ascii)
  with n r show "3 \<le> length s \<and> length s \<le> 64 \<and> list_all username_char s"
    by (auto simp: rune_count_def username_char_def list_all_iff)
next
  assume a: "3 \<le> length s \<and> length s \<le> 64 \<and> list_all username_char s"
  then have "list_all (\<lambda>b. b < 128) (map byte_of s)"
    by (auto simp: list_all_iff username_char_def username_rune_ascii)
  then have "runes s = map byte_of s" by (simp add: runes_def runes_of_ascii)
  with a show "ValidateUsername s = None"
    by (auto simp: ValidateUsername_def Let_def rune_count_def username_char_def list_all_iff)
qed

section \<open>Normalization\<close>

lemma strip_left_id:
  "(\<And>p. p \<in> set ps \<Longrightarrow> p \<noteq> [] \<Longrightarrow> \<not> has_prefix s p) \<Longrightarrow> strip_left ps s = s"
  by (subst strip_left.simps) (auto simp: find_None_iff split: option.split dest: find_Some_iff [THEN iffD1])

text \<open>No encoding of white space begins or ends with a printable ASCII byte.\<close>

lemma space_codes_ends:
  "p \<in> set space_codes \<Longrightarrow> p \<noteq> [] \<and> \<not> (33 \<le> byte_of (hd p) \<and> byte_of (hd p) < 127)
     \<and> \<not> (33 \<le> byte_of (last p) \<and> byte_of (last p) < 127)"
  by (auto simp: space_codes_def)

lemma has_prefix_hd: "has_prefix s p \<Longrightarrow> p \<noteq> [] \<Longrightarrow> s \<noteq> [] \<and> hd s = hd p"
  by (auto simp: has_prefix_iff)

lemma trim_space_printable:
  assumes "list_all (\<lambda>c. 33 \<le> byte_of c \<and> byte_of c < 127) s"
  shows "trim_space s = s"
proof -
  have left: "strip_left space_codes s = s"
  proof (rule strip_left_id, rule notI)
    fix p assume p: "p \<in> set space_codes" "p \<noteq> []" "has_prefix s p"
    then have "s \<noteq> []" "hd s = hd p" using has_prefix_hd by blast+
    with assms have "33 \<le> byte_of (hd p) \<and> byte_of (hd p) < 127"
      by (metis list.set_sel(1) list_all_iff)
    with space_codes_ends [OF p(1)] show False by blast
  qed
  have right: "strip_left (map rev space_codes) (rev s) = rev s"
  proof (rule strip_left_id, rule notI)
    fix p assume p: "p \<in> set (map rev space_codes)" "p \<noteq> []" "has_prefix (rev s) p"
    then obtain q where q: "q \<in> set space_codes" "p = rev q" by auto
    from p have "rev s \<noteq> []" "hd (rev s) = hd p" using has_prefix_hd by blast+
    with q assms have "33 \<le> byte_of (last q) \<and> byte_of (last q) < 127"
      by (metis hd_rev last_in_set list_all_iff rev_is_Nil_conv)
    with space_codes_ends [OF q(1)] show False by blast
  qed
  from left right show ?thesis by (simp add: trim_space_def)
qed

lemma byte_of_ascii_lower:
  "byte_of (ascii_lower c) = (if 65 \<le> byte_of c \<and> byte_of c \<le> 90 then byte_of c + 32 else byte_of c)"
  by (simp add: ascii_lower_def)

lemma ascii_lower_idem: "ascii_lower (ascii_lower c) = ascii_lower c"
  by (subst (2) ascii_lower_def, subst (1) ascii_lower_def) (simp add: byte_of_ascii_lower, simp add: ascii_lower_def)

lemma username_char_lower: "username_char c \<Longrightarrow> username_char (ascii_lower c)"
  by (auto simp: username_char_def username_rune_def byte_of_ascii_lower)

lemma username_char_printable: "username_char c \<Longrightarrow> 33 \<le> byte_of c \<and> byte_of c < 127"
  by (auto simp: username_char_def username_rune_def)

lemma NormalizeUsername_valid:
  assumes "list_all username_char s"
  shows "NormalizeUsername lib s = map ascii_lower s"
proof -
  from assms have p: "list_all (\<lambda>c. 33 \<le> byte_of c \<and> byte_of c < 127) s"
    by (auto simp: list_all_iff dest!: username_char_printable)
  then have "is_ascii s" by (auto simp: is_ascii_def list_all_iff)
  with trim_space_printable [OF p] show ?thesis by (simp add: NormalizeUsername_def to_lower_def)
qed

text \<open>
  The normal form of an accepted username does not depend on the Unicode tables: it is the
  username with its ASCII letters in lower case, is itself an accepted username, and is a fixed
  point of the normalization, so a login with the username in any case finds the account.
\<close>

lemma valid_username_normal_form:
  assumes "ValidateUsername s = None"
  shows "NormalizeUsername lib s = map ascii_lower s \<and> ValidateUsername (NormalizeUsername lib s) = None
     \<and> NormalizeUsername lib (NormalizeUsername lib s) = NormalizeUsername lib s"
proof -
  from assms have ok: "3 \<le> length s" "length s \<le> 64" "list_all username_char s"
    by (simp_all add: ValidateUsername_None)
  have n: "NormalizeUsername lib s = map ascii_lower s"
    using ok(3) by (rule NormalizeUsername_valid)
  have low: "list_all username_char (map ascii_lower s)"
    using ok(3) by (auto simp: list_all_iff username_char_lower)
  with ok show ?thesis
    by (simp add: n ValidateUsername_None NormalizeUsername_valid [OF low] ascii_lower_idem)
qed

lemma valid_username_normal_form_witness:
  "ValidateUsername ''Alice.B'' = None \<and> NormalizeUsername sample_lib ''Alice.B'' = ''alice.b''"
proof -
  have h: "ValidateUsername ''Alice.B'' = None" by code_simp
  have "map ascii_lower ''Alice.B'' = ''alice.b''" by code_simp
  with h valid_username_normal_form [OF h, of sample_lib] show ?thesis by simp
qed

end
