(* ===== verification/StoreSpec.thy ===== *)
theory StoreSpec
  imports Effects Tokens Users "HOL-Library.Char_ord" "HOL-Library.List_Lexorder"
    "HOL-Library.Product_Lexorder"
begin

text \<open>
  Package \<open>pkg/store\<close>: the interface \<open>Store\<close> as a record of operations over a state of its own
  type, its errors, pagination and filters, \<open>DeleteExpired\<close>, and the contract every
  implementation has to meet (what the comments of \<open>store.go\<close> and the conformance suite
  \<open>pkg/store/storetest\<close> ask for), stated over six abstract tables. One locale per interface of
  the source holds the contract of its operations.
\<close>

section \<open>Errors, options and filters\<close>

text \<open>\<open>StoreFailure\<close> stands for every other error a database can return.\<close>

datatype store_error = ErrNotFound | ErrDuplicate | ErrConflict | StoreFailure string

definition DefaultLimit :: int where "DefaultLimit = 50"
definition MaxLimit :: int where "MaxLimit = 500"

record ListOptions =
  lo_Offset :: int
  lo_Limit :: int

definition ListOptions_Normalize :: "ListOptions \<Rightarrow> ListOptions" where
  "ListOptions_Normalize o0 =
     (let o1 = (if lo_Offset o0 < 0 then o0\<lparr>lo_Offset := 0\<rparr> else o0);
          o2 = (if lo_Limit o1 \<le> 0 then o1\<lparr>lo_Limit := DefaultLimit\<rparr> else o1)
      in if MaxLimit < lo_Limit o2 then o2\<lparr>lo_Limit := MaxLimit\<rparr> else o2)"

record UserFilter =
  uf_Search :: string

record TokenFilter =
  tf_ClientId :: string
  tf_UserId :: string
  tf_AuthorizationCodeId :: string
  tf_ExpiredBefore :: "time option"

definition empty_filter :: TokenFilter where
  "empty_filter = \<lparr>tf_ClientId = '''', tf_UserId = '''', tf_AuthorizationCodeId = '''', tf_ExpiredBefore = None\<rparr>"

definition TokenFilter_IsEmpty :: "TokenFilter \<Rightarrow> bool" where
  "TokenFilter_IsEmpty f \<longleftrightarrow>
     tf_ClientId f = '''' \<and> tf_UserId f = '''' \<and> tf_AuthorizationCodeId f = '''' \<and> tf_ExpiredBefore f = None"

section \<open>The interface\<close>

record 's store_ops =
  ListClients :: "ListOptions \<Rightarrow> ('s, store_error, client list \<times> nat) act"
  GetClientById :: "string \<Rightarrow> ('s, store_error, client) act"
  GetClientByClientId :: "string \<Rightarrow> ('s, store_error, client) act"
  CreateClient :: "client \<Rightarrow> ('s, store_error, unit) act"
  UpdateClient :: "client \<Rightarrow> ('s, store_error, unit) act"
  DeleteClient :: "string \<Rightarrow> ('s, store_error, unit) act"
  ListUsers :: "UserFilter \<Rightarrow> ListOptions \<Rightarrow> ('s, store_error, user list \<times> nat) act"
  GetUserById :: "string \<Rightarrow> ('s, store_error, user) act"
  GetUserByNormalizedUsername :: "string \<Rightarrow> ('s, store_error, user) act"
  GetUserByNormalizedEmail :: "string \<Rightarrow> ('s, store_error, user) act"
  CreateUser :: "user \<Rightarrow> ('s, store_error, unit) act"
  UpdateUser :: "user \<Rightarrow> ('s, store_error, unit) act"
  DeleteUser :: "string \<Rightarrow> ('s, store_error, unit) act"
  ListAccessTokens :: "TokenFilter \<Rightarrow> ListOptions \<Rightarrow> ('s, store_error, access_token list \<times> nat) act"
  GetAccessTokenById :: "string \<Rightarrow> ('s, store_error, access_token) act"
  GetAccessTokenByHash :: "string \<Rightarrow> ('s, store_error, access_token) act"
  CreateAccessToken :: "access_token \<Rightarrow> ('s, store_error, unit) act"
  DeleteAccessToken :: "string \<Rightarrow> ('s, store_error, unit) act"
  DeleteAccessTokens :: "TokenFilter \<Rightarrow> ('s, store_error, nat) act"
  ListRefreshTokens :: "TokenFilter \<Rightarrow> ListOptions \<Rightarrow> ('s, store_error, refresh_token list \<times> nat) act"
  GetRefreshTokenById :: "string \<Rightarrow> ('s, store_error, refresh_token) act"
  GetRefreshTokenByHash :: "string \<Rightarrow> ('s, store_error, refresh_token) act"
  CreateRefreshToken :: "refresh_token \<Rightarrow> ('s, store_error, unit) act"
  UpdateRefreshToken :: "refresh_token \<Rightarrow> ('s, store_error, unit) act"
  DeleteRefreshToken :: "string \<Rightarrow> ('s, store_error, unit) act"
  DeleteRefreshTokens :: "TokenFilter \<Rightarrow> ('s, store_error, nat) act"
  GetAuthorizationCodeByHash :: "string \<Rightarrow> ('s, store_error, authorization_code) act"
  CreateAuthorizationCode :: "authorization_code \<Rightarrow> ('s, store_error, unit) act"
  ConsumeAuthorizationCode :: "string \<Rightarrow> time \<Rightarrow> ('s, store_error, unit) act"
  DeleteAuthorizationCode :: "string \<Rightarrow> ('s, store_error, unit) act"
  DeleteExpiredAuthorizationCodes :: "time \<Rightarrow> ('s, store_error, nat) act"
  GetUserTokenByHash :: "string \<Rightarrow> string \<Rightarrow> ('s, store_error, user_token) act"
  CreateUserToken :: "user_token \<Rightarrow> ('s, store_error, unit) act"
  DeleteUserToken :: "string \<Rightarrow> ('s, store_error, unit) act"
  DeleteUserTokens :: "string \<Rightarrow> string \<Rightarrow> ('s, store_error, nat) act"
  DeleteExpiredUserTokens :: "time \<Rightarrow> ('s, store_error, nat) act"

definition DeleteExpired :: "'s store_ops \<Rightarrow> time \<Rightarrow> ('s, store_error, unit) act" where
  "DeleteExpired ops now =
     (let filter = empty_filter\<lparr>tf_ExpiredBefore := Some now\<rparr>
      in andThen (DeleteAccessTokens ops filter) (\<lambda>_.
         andThen (DeleteRefreshTokens ops filter) (\<lambda>_.
         andThen (DeleteExpiredAuthorizationCodes ops now) (\<lambda>_.
         andThen (DeleteExpiredUserTokens ops now) (\<lambda>_. ret ())))))"

section \<open>Abstract tables\<close>

record tables =
  tb_clients :: "string \<rightharpoonup> client"
  tb_users :: "string \<rightharpoonup> user"
  tb_accessTokens :: "string \<rightharpoonup> access_token"
  tb_refreshTokens :: "string \<rightharpoonup> refresh_token"
  tb_authorizationCodes :: "string \<rightharpoonup> authorization_code"
  tb_userTokens :: "string \<rightharpoonup> user_token"

text \<open>Every entity is stored under its own non-empty id, and a unique field identifies it.\<close>

definition keyed :: "('v \<Rightarrow> string) \<Rightarrow> (string \<rightharpoonup> 'v) \<Rightarrow> bool" where
  "keyed key m \<longleftrightarrow> (\<forall>k v. m k = Some v \<longrightarrow> key v = k \<and> k \<noteq> '''')"

definition unique_field :: "('v \<Rightarrow> 'f) \<Rightarrow> (string \<rightharpoonup> 'v) \<Rightarrow> bool" where
  "unique_field f m \<longleftrightarrow> (\<forall>x \<in> ran m. \<forall>y \<in> ran m. f x = f y \<longrightarrow> x = y)"

definition tables_ok :: "tables \<Rightarrow> bool" where
  "tables_ok T \<longleftrightarrow>
     keyed c_Id (tb_clients T) \<and> unique_field c_ClientId (tb_clients T)
     \<and> keyed u_Id (tb_users T) \<and> unique_field u_NormalizedUsername (tb_users T)
     \<and> unique_field u_NormalizedEmail (tb_users T)
     \<and> keyed at_Id (tb_accessTokens T) \<and> unique_field at_TokenHash (tb_accessTokens T)
     \<and> keyed rt_Id (tb_refreshTokens T) \<and> unique_field rt_TokenHash (tb_refreshTokens T)
     \<and> keyed ac_Id (tb_authorizationCodes T) \<and> unique_field ac_CodeHash (tb_authorizationCodes T)
     \<and> keyed ut_Id (tb_userTokens T) \<and> unique_field ut_TokenHash (tb_userTokens T)"

text \<open>The token filter as a predicate on the fields it looks at.\<close>

definition filter_matches :: "TokenFilter \<Rightarrow> string \<Rightarrow> string \<Rightarrow> string \<Rightarrow> time \<Rightarrow> bool" where
  "filter_matches f clientId userId codeId expiresAt \<longleftrightarrow>
     (tf_ClientId f = '''' \<or> tf_ClientId f = clientId)
     \<and> (tf_UserId f = '''' \<or> tf_UserId f = userId)
     \<and> (tf_AuthorizationCodeId f = '''' \<or> tf_AuthorizationCodeId f = codeId)
     \<and> (case tf_ExpiredBefore f of None \<Rightarrow> True | Some t \<Rightarrow> expiresAt \<le> t)"

definition at_matches :: "TokenFilter \<Rightarrow> access_token \<Rightarrow> bool" where
  "at_matches f t = filter_matches f (at_ClientId t) (at_UserId t) (at_AuthorizationCodeId t) (at_ExpiresAt t)"

definition rt_matches :: "TokenFilter \<Rightarrow> refresh_token \<Rightarrow> bool" where
  "rt_matches f t = filter_matches f (rt_ClientId t) (rt_UserId t) (rt_AuthorizationCodeId t) (rt_ExpiresAt t)"

text \<open>The search of \<open>ListUsers\<close>, with \<open>lower\<close> for the case folding of the store.\<close>

definition user_matches :: "(string \<Rightarrow> string) \<Rightarrow> UserFilter \<Rightarrow> user \<Rightarrow> bool" where
  "user_matches lower f u \<longleftrightarrow>
     lower (uf_Search f) = '''' \<or> contains_str (u_NormalizedUsername u) (lower (uf_Search f))
     \<or> contains_str (u_NormalizedEmail u) (lower (uf_Search f))"

text \<open>The entities of a table that satisfy \<open>P\<close>.\<close>

definition keep :: "('v \<Rightarrow> bool) \<Rightarrow> (string \<rightharpoonup> 'v) \<Rightarrow> (string \<rightharpoonup> 'v)" where
  "keep P m = (\<lambda>k. case m k of None \<Rightarrow> None | Some x \<Rightarrow> if P x then Some x else None)"

section \<open>Contracts of operations\<close>

text \<open>
  \<open>obeys I view P m\<close>: run in a state that satisfies \<open>I\<close>, the operation \<open>m\<close> keeps \<open>I\<close> and
  either relates the tables before, its result and the tables after as \<open>P\<close> says, or reports a
  failure of the store and leaves the tables unchanged.
\<close>

definition obeys ::
  "('s \<Rightarrow> bool) \<Rightarrow> ('s \<Rightarrow> tables) \<Rightarrow> (tables \<Rightarrow> store_error + 'a \<Rightarrow> tables \<Rightarrow> bool) \<Rightarrow> ('s, store_error, 'a) act \<Rightarrow> bool"
  where
  "obeys I view P m \<longleftrightarrow>
     (\<forall>s r s'. I s \<longrightarrow> m s = (r, s') \<longrightarrow>
        I s' \<and> (P (view s) r (view s') \<or> (\<exists>msg. r = Inl (StoreFailure msg)) \<and> view s' = view s))"

definition get_spec :: "(tables \<Rightarrow> string \<rightharpoonup> 'v) \<Rightarrow> string \<Rightarrow> tables \<Rightarrow> store_error + 'v \<Rightarrow> tables \<Rightarrow> bool" where
  "get_spec tb k T r T' \<longleftrightarrow> T' = T \<and> r = (case tb T k of None \<Rightarrow> Inl ErrNotFound | Some x \<Rightarrow> Inr x)"

definition find_spec :: "(tables \<Rightarrow> string \<rightharpoonup> 'v) \<Rightarrow> ('v \<Rightarrow> bool) \<Rightarrow> tables \<Rightarrow> store_error + 'v \<Rightarrow> tables \<Rightarrow> bool" where
  "find_spec tb P T r T' \<longleftrightarrow> T' = T \<and>
     (case r of Inr x \<Rightarrow> x \<in> ran (tb T) \<and> P x | Inl e \<Rightarrow> e = ErrNotFound \<and> (\<forall>x \<in> ran (tb T). \<not> P x))"

definition create_spec ::
  "(tables \<Rightarrow> string \<rightharpoonup> 'v) \<Rightarrow> (((string \<rightharpoonup> 'v) \<Rightarrow> (string \<rightharpoonup> 'v)) \<Rightarrow> tables \<Rightarrow> tables) \<Rightarrow> ('v \<Rightarrow> string) \<Rightarrow>
   ('v \<Rightarrow> 'v \<Rightarrow> bool) \<Rightarrow> 'v \<Rightarrow> tables \<Rightarrow> store_error + unit \<Rightarrow> tables \<Rightarrow> bool" where
  "create_spec tb upd key clash x T r T' \<longleftrightarrow>
     (if key x \<in> dom (tb T) \<or> (\<exists>y \<in> ran (tb T). clash x y) then r = Inl ErrDuplicate \<and> T' = T
      else r = Inr () \<and> T' = upd (\<lambda>m. m(key x \<mapsto> x)) T)"

definition update_spec ::
  "(tables \<Rightarrow> string \<rightharpoonup> 'v) \<Rightarrow> (((string \<rightharpoonup> 'v) \<Rightarrow> (string \<rightharpoonup> 'v)) \<Rightarrow> tables \<Rightarrow> tables) \<Rightarrow> ('v \<Rightarrow> string) \<Rightarrow>
   ('v \<Rightarrow> 'v \<Rightarrow> bool) \<Rightarrow> 'v \<Rightarrow> tables \<Rightarrow> store_error + unit \<Rightarrow> tables \<Rightarrow> bool" where
  "update_spec tb upd key clash x T r T' \<longleftrightarrow>
     (if key x \<notin> dom (tb T) then r = Inl ErrNotFound \<and> T' = T
      else if \<exists>y \<in> ran (tb T). key y \<noteq> key x \<and> clash x y then r = Inl ErrDuplicate \<and> T' = T
      else r = Inr () \<and> T' = upd (\<lambda>m. m(key x \<mapsto> x)) T)"

definition delete_spec ::
  "(tables \<Rightarrow> string \<rightharpoonup> 'v) \<Rightarrow> (((string \<rightharpoonup> 'v) \<Rightarrow> (string \<rightharpoonup> 'v)) \<Rightarrow> tables \<Rightarrow> tables) \<Rightarrow> string \<Rightarrow>
   tables \<Rightarrow> store_error + unit \<Rightarrow> tables \<Rightarrow> bool" where
  "delete_spec tb upd k T r T' \<longleftrightarrow>
     (if k \<in> dom (tb T) then r = Inr () \<and> T' = upd (\<lambda>m. m(k := None)) T
      else r = Inl ErrNotFound \<and> T' = T)"

definition delete_where_spec ::
  "(tables \<Rightarrow> string \<rightharpoonup> 'v) \<Rightarrow> (((string \<rightharpoonup> 'v) \<Rightarrow> (string \<rightharpoonup> 'v)) \<Rightarrow> tables \<Rightarrow> tables) \<Rightarrow> ('v \<Rightarrow> bool) \<Rightarrow>
   tables \<Rightarrow> store_error + nat \<Rightarrow> tables \<Rightarrow> bool" where
  "delete_where_spec tb upd P T r T' \<longleftrightarrow>
     r = Inr (card {k. \<exists>x. tb T k = Some x \<and> P x}) \<and> T' = upd (keep (\<lambda>x. \<not> P x)) T"

definition consume_spec :: "string \<Rightarrow> time \<Rightarrow> tables \<Rightarrow> store_error + unit \<Rightarrow> tables \<Rightarrow> bool" where
  "consume_spec k t T r T' \<longleftrightarrow>
     (case tb_authorizationCodes T k of
        None \<Rightarrow> r = Inl ErrNotFound \<and> T' = T
      | Some c \<Rightarrow>
          if ac_ConsumedAt c \<noteq> None then r = Inl ErrConflict \<and> T' = T
          else r = Inr () \<and>
               T' = tb_authorizationCodes_update (\<lambda>m. m(k \<mapsto> c\<lparr>ac_ConsumedAt := Some t\<rparr>)) T)"

text \<open>
  A page of a list: the entities that match, all of them once, ordered by creation time and id,
  cut at offset and limit, and their total number.
\<close>

definition list_spec ::
  "(tables \<Rightarrow> string \<rightharpoonup> 'v) \<Rightarrow> ('v \<Rightarrow> time \<times> string) \<Rightarrow> ('v \<Rightarrow> bool) \<Rightarrow> ListOptions \<Rightarrow>
   tables \<Rightarrow> store_error + 'v list \<times> nat \<Rightarrow> tables \<Rightarrow> bool" where
  "list_spec tb key P o0 T r T' \<longleftrightarrow> T' = T \<and>
     (\<exists>xs. set xs = {x \<in> ran (tb T). P x} \<and> distinct xs \<and> sorted (map key xs) \<and>
        r = Inr (take (nat (lo_Limit (ListOptions_Normalize o0)))
                   (drop (nat (lo_Offset (ListOptions_Normalize o0))) xs), length xs))"

section \<open>What a result tells about the tables\<close>

lemma obeysD:
  "obeys I view P m \<Longrightarrow> m s = (r, s') \<Longrightarrow> I s \<Longrightarrow>
     I s' \<and> (P (view s) r (view s') \<or> (\<exists>msg. r = Inl (StoreFailure msg)) \<and> view s' = view s)"
  by (simp add: obeys_def)

text \<open>An operation that reports no failure of the database.\<close>

definition reliable :: "('s, store_error, 'a) act \<Rightarrow> bool" where
  "reliable m \<longleftrightarrow> (\<forall>s msg s'. m s \<noteq> (Inl (StoreFailure msg), s'))"

lemma obeys_exact:
  "obeys I view P m \<Longrightarrow> reliable m \<Longrightarrow> m s = (r, s') \<Longrightarrow> I s \<Longrightarrow> I s' \<and> P (view s) r (view s')"
  by (auto simp: reliable_def dest: obeysD)

lemma obeys_I: "obeys I view P m \<Longrightarrow> m s = (r, s') \<Longrightarrow> I s \<Longrightarrow> I s'"
  by (blast dest: obeysD)

lemma obeys_ok: "obeys I view P m \<Longrightarrow> m s = (Inr x, s') \<Longrightarrow> I s \<Longrightarrow> P (view s) (Inr x) (view s')"
  by (blast dest: obeysD)

lemma obeys_err:
  "obeys I view P m \<Longrightarrow> m s = (Inl e, s') \<Longrightarrow> I s \<Longrightarrow> P (view s) (Inl e) (view s') \<or> view s' = view s"
  by (blast dest: obeysD)

lemma obeys_preserves: "obeys I view P m \<Longrightarrow> preserves I m"
  by (rule preservesI) (blast dest: obeysD)

lemma get_spec_ok: "get_spec tb k T (Inr x) T' \<longleftrightarrow> T' = T \<and> tb T k = Some x"
  by (auto simp: get_spec_def split: option.splits)

lemma find_spec_ok: "find_spec tb P T (Inr x) T' \<longleftrightarrow> T' = T \<and> x \<in> ran (tb T) \<and> P x"
  by (simp add: find_spec_def)

lemma find_spec_exact:
  "find_spec tb (\<lambda>x. f x = h) T r T' \<Longrightarrow> unique_field f (tb T) \<Longrightarrow> x \<in> ran (tb T) \<Longrightarrow> f x = h \<Longrightarrow> r = Inr x \<and> T' = T"
  by (auto simp: find_spec_def unique_field_def split: sum.splits)

lemma find_spec_none:
  "find_spec tb P T r T' \<Longrightarrow> \<forall>x \<in> ran (tb T). \<not> P x \<Longrightarrow> r = Inl ErrNotFound \<and> T' = T"
  by (auto simp: find_spec_def split: sum.splits)

lemma create_spec_ok:
  "create_spec tb upd key clash x T (Inr y) T' \<longleftrightarrow>
     key x \<notin> dom (tb T) \<and> (\<forall>y \<in> ran (tb T). \<not> clash x y) \<and> T' = upd (\<lambda>m. m(key x \<mapsto> x)) T"
  by (auto simp: create_spec_def)

lemma update_spec_ok:
  "update_spec tb upd key clash x T (Inr y) T' \<longleftrightarrow>
     key x \<in> dom (tb T) \<and> (\<forall>y \<in> ran (tb T). key y \<noteq> key x \<longrightarrow> \<not> clash x y) \<and> T' = upd (\<lambda>m. m(key x \<mapsto> x)) T"
  by (auto simp: update_spec_def)

lemma delete_spec_ok:
  "delete_spec tb upd k T (Inr y) T' \<longleftrightarrow> k \<in> dom (tb T) \<and> T' = upd (\<lambda>m. m(k := None)) T"
  by (auto simp: delete_spec_def)

lemma delete_where_spec_ok:
  "delete_where_spec tb upd P T (Inr n) T' \<longleftrightarrow>
     n = card {k. \<exists>x. tb T k = Some x \<and> P x} \<and> T' = upd (keep (\<lambda>x. \<not> P x)) T"
  by (auto simp: delete_where_spec_def)

lemma consume_spec_ok:
  "consume_spec k t T (Inr y) T' \<longleftrightarrow>
     (\<exists>c. tb_authorizationCodes T k = Some c \<and> ac_ConsumedAt c = None \<and>
        T' = tb_authorizationCodes_update (\<lambda>m. m(k \<mapsto> c\<lparr>ac_ConsumedAt := Some t\<rparr>)) T)"
  by (auto simp: consume_spec_def split: option.splits)

lemmas spec_ok = get_spec_ok find_spec_ok create_spec_ok update_spec_ok delete_spec_ok
  delete_where_spec_ok consume_spec_ok

text \<open>An operation that failed left the tables unchanged.\<close>

lemma spec_err:
  "get_spec tb k T (Inl e) T' \<Longrightarrow> T' = T"
  "find_spec tb P T (Inl e) T' \<Longrightarrow> T' = T"
  "create_spec tb upd key clash x T (Inl e) T' \<Longrightarrow> T' = T"
  "update_spec tb upd key clash x T (Inl e) T' \<Longrightarrow> T' = T"
  "delete_spec tb upd k T (Inl e) T' \<Longrightarrow> T' = T"
  "delete_where_spec tb upd Q T (Inl e) T' \<Longrightarrow> T' = T"
  "consume_spec k t T (Inl e) T' \<Longrightarrow> T' = T"
  "list_spec tb key' Q opts T (Inl e) T' \<Longrightarrow> T' = T"
  by (auto simp: get_spec_def find_spec_def create_spec_def update_spec_def delete_spec_def
      delete_where_spec_def consume_spec_def list_spec_def split: if_splits option.splits)

lemma keep_Some [simp]: "keep P m k = Some x \<longleftrightarrow> m k = Some x \<and> P x"
  by (auto simp: keep_def split: option.splits)

lemma keep_None: "keep P m k = None \<longleftrightarrow> (\<forall>x. m k = Some x \<longrightarrow> \<not> P x)"
  by (auto simp: keep_def split: option.splits)

lemma ran_keep: "x \<in> ran (keep P m) \<longleftrightarrow> x \<in> ran m \<and> P x"
  by (auto simp: ran_def)

lemma ran_updD: "y \<in> ran (m(k \<mapsto> x)) \<Longrightarrow> y = x \<or> (\<exists>k'. k' \<noteq> k \<and> m k' = Some y)"
  by (auto simp: ran_def split: if_splits)

lemma keyed_ranD: "keyed key m \<Longrightarrow> x \<in> ran m \<Longrightarrow> m (key x) = Some x \<and> key x \<noteq> ''''"
  by (auto simp: keyed_def ran_def)

lemma keyed_keep: "keyed key m \<Longrightarrow> keyed key (keep P m)"
  by (simp add: keyed_def)

lemma keyed_upd: "keyed key m \<Longrightarrow> key x \<noteq> '''' \<Longrightarrow> keyed key (m(key x \<mapsto> x))"
  by (simp add: keyed_def)

lemma keyed_del: "keyed key m \<Longrightarrow> keyed key (m(k := None))"
  by (simp add: keyed_def)

lemma unique_keep: "unique_field f m \<Longrightarrow> unique_field f (keep P m)"
  by (simp add: unique_field_def ran_keep)

lemma unique_del: "unique_field f m \<Longrightarrow> unique_field f (m(k := None))"
  by (auto simp: unique_field_def ran_def)

lemma unique_upd:
  assumes "unique_field f m" and k: "keyed key m" and other: "\<And>y. y \<in> ran m \<Longrightarrow> key y \<noteq> key x \<Longrightarrow> f y \<noteq> f x"
  shows "unique_field f (m(key x \<mapsto> x))"
  unfolding unique_field_def
proof (intro ballI impI)
  fix y z assume y: "y \<in> ran (m(key x \<mapsto> x))" and z: "z \<in> ran (m(key x \<mapsto> x))" and eq: "f y = f z"
  have old: "v = x \<or> v \<in> ran m \<and> f v \<noteq> f x" if "v \<in> ran (m(key x \<mapsto> x))" for v
    using ran_updD [OF that] k other [of v] by (auto simp: keyed_def ran_def)
  from old [OF y] old [OF z] eq assms(1) show "y = z" by (auto simp: unique_field_def)
qed

section \<open>The contract of the interfaces\<close>

text \<open>What the unique constraints compare.\<close>

definition client_clash :: "client \<Rightarrow> client \<Rightarrow> bool" where
  "client_clash x y \<longleftrightarrow> c_ClientId y = c_ClientId x"

definition user_clash :: "user \<Rightarrow> user \<Rightarrow> bool" where
  "user_clash x y \<longleftrightarrow> u_NormalizedUsername y = u_NormalizedUsername x \<or> u_NormalizedEmail y = u_NormalizedEmail x"

definition access_token_clash :: "access_token \<Rightarrow> access_token \<Rightarrow> bool" where
  "access_token_clash x y \<longleftrightarrow> at_TokenHash y = at_TokenHash x"

definition refresh_token_clash :: "refresh_token \<Rightarrow> refresh_token \<Rightarrow> bool" where
  "refresh_token_clash x y \<longleftrightarrow> rt_TokenHash y = rt_TokenHash x"

definition code_clash :: "authorization_code \<Rightarrow> authorization_code \<Rightarrow> bool" where
  "code_clash x y \<longleftrightarrow> ac_CodeHash y = ac_CodeHash x"

definition user_token_clash :: "user_token \<Rightarrow> user_token \<Rightarrow> bool" where
  "user_token_clash x y \<longleftrightarrow> ut_TokenHash y = ut_TokenHash x"

text \<open>
  One locale per interface. The state of the implementation has an invariant \<open>I\<close> and is read as
  tables by \<open>view\<close>. An id may not be empty (the callers generate ids).
\<close>

locale store_base =
  fixes ops :: "'s store_ops" and I :: "'s \<Rightarrow> bool" and view :: "'s \<Rightarrow> tables"
  assumes view_ok: "I s \<Longrightarrow> tables_ok (view s)"

locale client_store = store_base +
  assumes
    st_ListClients: "obeys I view (list_spec tb_clients (\<lambda>c. (c_CreatedAt c, c_Id c)) (\<lambda>_. True) opts) (ListClients ops opts)"
    and st_GetClientById: "obeys I view (get_spec tb_clients k) (GetClientById ops k)"
    and st_GetClientByClientId: "obeys I view (find_spec tb_clients (\<lambda>c. c_ClientId c = clientId)) (GetClientByClientId ops clientId)"
    and st_CreateClient: "c_Id c \<noteq> '''' \<Longrightarrow> obeys I view (create_spec tb_clients tb_clients_update c_Id client_clash c) (CreateClient ops c)"
    and st_UpdateClient: "obeys I view (update_spec tb_clients tb_clients_update c_Id client_clash c) (UpdateClient ops c)"
    and st_DeleteClient: "obeys I view (delete_spec tb_clients tb_clients_update k) (DeleteClient ops k)"

locale user_store = store_base +
  fixes lower :: "string \<Rightarrow> string"
  assumes
    st_ListUsers: "obeys I view (list_spec tb_users (\<lambda>u. (u_CreatedAt u, u_Id u)) (user_matches lower f) opts) (ListUsers ops f opts)"
    and st_GetUserById: "obeys I view (get_spec tb_users k) (GetUserById ops k)"
    and st_GetUserByNormalizedUsername: "obeys I view (find_spec tb_users (\<lambda>u. u_NormalizedUsername u = n)) (GetUserByNormalizedUsername ops n)"
    and st_GetUserByNormalizedEmail: "obeys I view (find_spec tb_users (\<lambda>u. u_NormalizedEmail u = n)) (GetUserByNormalizedEmail ops n)"
    and st_CreateUser: "u_Id u \<noteq> '''' \<Longrightarrow> obeys I view (create_spec tb_users tb_users_update u_Id user_clash u) (CreateUser ops u)"
    and st_UpdateUser: "obeys I view (update_spec tb_users tb_users_update u_Id user_clash u) (UpdateUser ops u)"
    and st_DeleteUser: "obeys I view (delete_spec tb_users tb_users_update k) (DeleteUser ops k)"

locale access_token_store = store_base +
  assumes
    st_ListAccessTokens: "obeys I view (list_spec tb_accessTokens (\<lambda>t. (at_CreatedAt t, at_Id t)) (at_matches f) opts) (ListAccessTokens ops f opts)"
    and st_GetAccessTokenById: "obeys I view (get_spec tb_accessTokens k) (GetAccessTokenById ops k)"
    and st_GetAccessTokenByHash: "obeys I view (find_spec tb_accessTokens (\<lambda>t. at_TokenHash t = h)) (GetAccessTokenByHash ops h)"
    and st_CreateAccessToken: "at_Id a \<noteq> '''' \<Longrightarrow> obeys I view (create_spec tb_accessTokens tb_accessTokens_update at_Id access_token_clash a) (CreateAccessToken ops a)"
    and st_DeleteAccessToken: "obeys I view (delete_spec tb_accessTokens tb_accessTokens_update k) (DeleteAccessToken ops k)"
    and st_DeleteAccessTokens: "obeys I view (delete_where_spec tb_accessTokens tb_accessTokens_update (at_matches f)) (DeleteAccessTokens ops f)"

locale refresh_token_store = store_base +
  assumes
    st_ListRefreshTokens: "obeys I view (list_spec tb_refreshTokens (\<lambda>t. (rt_CreatedAt t, rt_Id t)) (rt_matches f) opts) (ListRefreshTokens ops f opts)"
    and st_GetRefreshTokenById: "obeys I view (get_spec tb_refreshTokens k) (GetRefreshTokenById ops k)"
    and st_GetRefreshTokenByHash: "obeys I view (find_spec tb_refreshTokens (\<lambda>t. rt_TokenHash t = h)) (GetRefreshTokenByHash ops h)"
    and st_CreateRefreshToken: "rt_Id r \<noteq> '''' \<Longrightarrow> obeys I view (create_spec tb_refreshTokens tb_refreshTokens_update rt_Id refresh_token_clash r) (CreateRefreshToken ops r)"
    and st_UpdateRefreshToken: "obeys I view (update_spec tb_refreshTokens tb_refreshTokens_update rt_Id refresh_token_clash r) (UpdateRefreshToken ops r)"
    and st_DeleteRefreshToken: "obeys I view (delete_spec tb_refreshTokens tb_refreshTokens_update k) (DeleteRefreshToken ops k)"
    and st_DeleteRefreshTokens: "obeys I view (delete_where_spec tb_refreshTokens tb_refreshTokens_update (rt_matches f)) (DeleteRefreshTokens ops f)"

locale authorization_code_store = store_base +
  assumes
    st_GetAuthorizationCodeByHash: "obeys I view (find_spec tb_authorizationCodes (\<lambda>c. ac_CodeHash c = h)) (GetAuthorizationCodeByHash ops h)"
    and st_CreateAuthorizationCode: "ac_Id c \<noteq> '''' \<Longrightarrow> obeys I view (create_spec tb_authorizationCodes tb_authorizationCodes_update ac_Id code_clash c) (CreateAuthorizationCode ops c)"
    and st_ConsumeAuthorizationCode: "obeys I view (consume_spec k t) (ConsumeAuthorizationCode ops k t)"
    and st_DeleteAuthorizationCode: "obeys I view (delete_spec tb_authorizationCodes tb_authorizationCodes_update k) (DeleteAuthorizationCode ops k)"
    and st_DeleteExpiredAuthorizationCodes: "obeys I view (delete_where_spec tb_authorizationCodes tb_authorizationCodes_update (\<lambda>c. ac_ExpiresAt c \<le> t)) (DeleteExpiredAuthorizationCodes ops t)"

locale user_token_store = store_base +
  assumes
    st_GetUserTokenByHash: "obeys I view (find_spec tb_userTokens (\<lambda>t. ut_Purpose t = p \<and> ut_TokenHash t = h)) (GetUserTokenByHash ops p h)"
    and st_CreateUserToken: "ut_Id t \<noteq> '''' \<Longrightarrow> obeys I view (create_spec tb_userTokens tb_userTokens_update ut_Id user_token_clash t) (CreateUserToken ops t)"
    and st_DeleteUserToken: "obeys I view (delete_spec tb_userTokens tb_userTokens_update k) (DeleteUserToken ops k)"
    and st_DeleteUserTokens: "obeys I view (delete_where_spec tb_userTokens tb_userTokens_update (\<lambda>t. ut_UserId t = userId \<and> ut_Purpose t = p)) (DeleteUserTokens ops userId p)"
    and st_DeleteExpiredUserTokens: "obeys I view (delete_where_spec tb_userTokens tb_userTokens_update (\<lambda>t. ut_ExpiresAt t \<le> e)) (DeleteExpiredUserTokens ops e)"

locale store =
  client_store ops I view + user_store ops I view lower + access_token_store ops I view +
  refresh_token_store ops I view + authorization_code_store ops I view + user_token_store ops I view
  for ops :: "'s store_ops" and I :: "'s \<Rightarrow> bool" and view :: "'s \<Rightarrow> tables" and lower :: "string \<Rightarrow> string"
begin

text \<open>
  \<open>DeleteExpired\<close> on any store that meets the contract: when it succeeds, exactly the tokens and
  codes that expired at or before \<open>now\<close> are gone, and clients and users are as before.
\<close>

lemma DeleteExpired_ok:
  assumes "I s" and "DeleteExpired ops now s = (Inr (), s')"
  shows "I s' \<and> view s' =
     (view s)\<lparr>tb_accessTokens := keep (\<lambda>t. now < at_ExpiresAt t) (tb_accessTokens (view s)),
              tb_refreshTokens := keep (\<lambda>t. now < rt_ExpiresAt t) (tb_refreshTokens (view s)),
              tb_authorizationCodes := keep (\<lambda>c. now < ac_ExpiresAt c) (tb_authorizationCodes (view s)),
              tb_userTokens := keep (\<lambda>t. now < ut_ExpiresAt t) (tb_userTokens (view s))\<rparr>"
proof -
  let ?f = "empty_filter\<lparr>tf_ExpiredBefore := Some now\<rparr>"
  from assms(2) obtain n1 n2 n3 n4 s1 s2 s3 where
    r: "DeleteAccessTokens ops ?f s = (Inr n1, s1)" "DeleteRefreshTokens ops ?f s1 = (Inr n2, s2)"
      "DeleteExpiredAuthorizationCodes ops now s2 = (Inr n3, s3)"
      "DeleteExpiredUserTokens ops now s3 = (Inr n4, s')"
    unfolding DeleteExpired_def Let_def by (auto simp: andThen_eq_Inr)
  have i: "I s1" "I s2" "I s3" "I s'"
    using obeys_I [OF st_DeleteAccessTokens r(1) assms(1)] obeys_I [OF st_DeleteRefreshTokens r(2)]
      obeys_I [OF st_DeleteExpiredAuthorizationCodes r(3)] obeys_I [OF st_DeleteExpiredUserTokens r(4)]
    by blast+
  have m: "(\<lambda>x. \<not> at_matches ?f x) = (\<lambda>t. now < at_ExpiresAt t)"
    "(\<lambda>x. \<not> rt_matches ?f x) = (\<lambda>t. now < rt_ExpiresAt t)"
    by (auto simp: at_matches_def rt_matches_def filter_matches_def empty_filter_def fun_eq_iff)
  show ?thesis
    using obeys_ok [OF st_DeleteAccessTokens r(1) assms(1)] obeys_ok [OF st_DeleteRefreshTokens r(2) i(1)]
      obeys_ok [OF st_DeleteExpiredAuthorizationCodes r(3) i(2)] obeys_ok [OF st_DeleteExpiredUserTokens r(4) i(3)]
      i(4) m by (simp add: delete_where_spec_ok not_le)
qed

end

text \<open>A store whose operations never fail, like the in-memory store.\<close>

locale reliable_store = store +
  assumes
    rel_ListClients: "\<And>opts. reliable (ListClients ops opts)"
    and rel_GetClientById: "\<And>k. reliable (GetClientById ops k)"
    and rel_GetClientByClientId: "\<And>clientId. reliable (GetClientByClientId ops clientId)"
    and rel_CreateClient: "\<And>c. reliable (CreateClient ops c)"
    and rel_UpdateClient: "\<And>c. reliable (UpdateClient ops c)"
    and rel_DeleteClient: "\<And>k. reliable (DeleteClient ops k)"
    and rel_ListUsers: "\<And>f opts. reliable (ListUsers ops f opts)"
    and rel_GetUserById: "\<And>k. reliable (GetUserById ops k)"
    and rel_GetUserByNormalizedUsername: "\<And>n. reliable (GetUserByNormalizedUsername ops n)"
    and rel_GetUserByNormalizedEmail: "\<And>n. reliable (GetUserByNormalizedEmail ops n)"
    and rel_CreateUser: "\<And>u. reliable (CreateUser ops u)"
    and rel_UpdateUser: "\<And>u. reliable (UpdateUser ops u)"
    and rel_DeleteUser: "\<And>k. reliable (DeleteUser ops k)"
    and rel_ListAccessTokens: "\<And>f opts. reliable (ListAccessTokens ops f opts)"
    and rel_GetAccessTokenById: "\<And>k. reliable (GetAccessTokenById ops k)"
    and rel_GetAccessTokenByHash: "\<And>h. reliable (GetAccessTokenByHash ops h)"
    and rel_CreateAccessToken: "\<And>a. reliable (CreateAccessToken ops a)"
    and rel_DeleteAccessToken: "\<And>k. reliable (DeleteAccessToken ops k)"
    and rel_DeleteAccessTokens: "\<And>f. reliable (DeleteAccessTokens ops f)"
    and rel_ListRefreshTokens: "\<And>f opts. reliable (ListRefreshTokens ops f opts)"
    and rel_GetRefreshTokenById: "\<And>k. reliable (GetRefreshTokenById ops k)"
    and rel_GetRefreshTokenByHash: "\<And>h. reliable (GetRefreshTokenByHash ops h)"
    and rel_CreateRefreshToken: "\<And>r. reliable (CreateRefreshToken ops r)"
    and rel_UpdateRefreshToken: "\<And>r. reliable (UpdateRefreshToken ops r)"
    and rel_DeleteRefreshToken: "\<And>k. reliable (DeleteRefreshToken ops k)"
    and rel_DeleteRefreshTokens: "\<And>f. reliable (DeleteRefreshTokens ops f)"
    and rel_GetAuthorizationCodeByHash: "\<And>h. reliable (GetAuthorizationCodeByHash ops h)"
    and rel_CreateAuthorizationCode: "\<And>c. reliable (CreateAuthorizationCode ops c)"
    and rel_ConsumeAuthorizationCode: "\<And>k t. reliable (ConsumeAuthorizationCode ops k t)"
    and rel_DeleteAuthorizationCode: "\<And>k. reliable (DeleteAuthorizationCode ops k)"
    and rel_DeleteExpiredAuthorizationCodes: "\<And>t. reliable (DeleteExpiredAuthorizationCodes ops t)"
    and rel_GetUserTokenByHash: "\<And>p h. reliable (GetUserTokenByHash ops p h)"
    and rel_CreateUserToken: "\<And>t. reliable (CreateUserToken ops t)"
    and rel_DeleteUserToken: "\<And>k. reliable (DeleteUserToken ops k)"
    and rel_DeleteUserTokens: "\<And>userId p. reliable (DeleteUserTokens ops userId p)"
    and rel_DeleteExpiredUserTokens: "\<And>e. reliable (DeleteExpiredUserTokens ops e)"

end
