(* ===== verification/Security.thy ===== *)
theory Security
  imports GoLib
begin

text \<open>
  Package \<open>pkg/security\<close>: encodings of random tokens, ids and hashes, the password hasher and the
  PKCE checks of RFC 7636. SHA-256 is the parameter \<^const>\<open>lib_sha256\<close>, bcrypt (a third-party
  package) the parameters of the bcrypt hasher. The functions that draw random bytes
  (\<open>RandomToken\<close>, \<open>NewToken\<close>, \<open>NewId\<close>) follow in theory \<open>World\<close>; the formatting of the
  bytes they draw is here.
\<close>

unbundle bit_operations_syntax

type_synonym byte = "8 word"

section \<open>Encodings\<close>

definition hex_digit :: "nat \<Rightarrow> char" where
  "hex_digit n = (if n < 10 then char_of (48 + n) else char_of (87 + n))"

text \<open>\<open>hex.EncodeToString\<close> and the verb \<open>%x\<close> of \<open>fmt\<close> on byte slices.\<close>

definition hex_encode :: "byte list \<Rightarrow> string" where
  "hex_encode bs = concat (map (\<lambda>b. [hex_digit (unat b div 16), hex_digit (unat b mod 16)]) bs)"

text \<open>\<open>base64.RawURLEncoding\<close>.\<close>

definition b64_char :: "nat \<Rightarrow> char" where
  "b64_char n =
     (if n < 26 then char_of (65 + n) else if n < 52 then char_of (71 + n)
      else if n < 62 then char_of (n - 4) else if n = 62 then CHR ''-'' else CHR ''_'')"

definition b64_value :: "char \<Rightarrow> nat option" where
  "b64_value c =
     (let b = byte_of c
      in if 65 \<le> b \<and> b \<le> 90 then Some (b - 65) else if 97 \<le> b \<and> b \<le> 122 then Some (b - 71)
         else if 48 \<le> b \<and> b \<le> 57 then Some (b + 4) else if b = 45 then Some 62
         else if b = 95 then Some 63 else None)"

fun b64_encode :: "byte list \<Rightarrow> string" where
  "b64_encode [] = []"
| "b64_encode [a] = [b64_char (unat a div 4), b64_char (unat a mod 4 * 16)]"
| "b64_encode [a, b] =
     [b64_char (unat a div 4), b64_char (unat a mod 4 * 16 + unat b div 16), b64_char (unat b mod 16 * 4)]"
| "b64_encode (a # b # c # bs) =
     b64_char (unat a div 4) # b64_char (unat a mod 4 * 16 + unat b div 16)
     # b64_char (unat b mod 16 * 4 + unat c div 64) # b64_char (unat c mod 64) # b64_encode bs"

text \<open>\<open>DecodeString\<close> on the values of the characters: trailing bits are not checked.\<close>

fun b64_groups :: "nat list \<Rightarrow> byte list option" where
  "b64_groups [] = Some []"
| "b64_groups [w] = None"
| "b64_groups [w, x] = Some [word_of_nat (w * 4 + x div 16)]"
| "b64_groups [w, x, y] = Some [word_of_nat (w * 4 + x div 16), word_of_nat (x mod 16 * 16 + y div 4)]"
| "b64_groups (w # x # y # z # vs) =
     (case b64_groups vs of None \<Rightarrow> None
      | Some bs \<Rightarrow> Some (word_of_nat (w * 4 + x div 16) # word_of_nat (x mod 16 * 16 + y div 4)
                          # word_of_nat (y mod 4 * 64 + z) # bs))"

definition b64_decode :: "string \<Rightarrow> byte list option" where
  "b64_decode s =
     (let vs = map b64_value (filter (\<lambda>c. byte_of c \<noteq> 10 \<and> byte_of c \<noteq> 13) s)
      in if None \<in> set vs then None else b64_groups (map the vs))"

subsection \<open>Round trips\<close>

lemma hex_digit_byte: "n < 16 \<Longrightarrow> byte_of (hex_digit n) = (if n < 10 then 48 + n else 87 + n)"
  by (simp add: hex_digit_def)

lemma hex_digit_inj: "m < 16 \<Longrightarrow> n < 16 \<Longrightarrow> hex_digit m = hex_digit n \<longleftrightarrow> m = n"
proof
  assume lt: "m < 16" "n < 16" and "hex_digit m = hex_digit n"
  then have "byte_of (hex_digit m) = byte_of (hex_digit n)" by simp
  with lt show "m = n" by (auto simp: hex_digit_byte split: if_splits)
qed simp

lemma unat_byte: "unat (b :: byte) < 256"
  using unsigned_less [of b] by simp

lemma byte_unat: "word_of_nat (unat b) = (b :: byte)"
  by simp

lemma length_hex_encode [simp]: "length (hex_encode bs) = 2 * length bs"
  by (induction bs) (auto simp: hex_encode_def)

lemma hex_encode_Cons [simp]:
  "hex_encode (b # bs) = hex_digit (unat b div 16) # hex_digit (unat b mod 16) # hex_encode bs"
  by (simp add: hex_encode_def)

lemma hex_encode_Nil [simp]: "hex_encode [] = []"
  by (simp add: hex_encode_def)

lemma hex_encode_inj: "hex_encode as = hex_encode bs \<longleftrightarrow> as = bs"
proof (induction as arbitrary: bs)
  case Nil
  show ?case by (cases bs) auto
next
  case (Cons a as)
  show ?case
  proof (cases bs)
    case (Cons b bs')
    have lt: "unat a div 16 < 16" "unat a mod 16 < 16" "unat b div 16 < 16" "unat b mod 16 < 16"
      using unat_byte [of a] unat_byte [of b] by auto
    have "unat a div 16 = unat b div 16 \<and> unat a mod 16 = unat b mod 16 \<longleftrightarrow> a = b"
      by (metis div_mult_mod_eq word_unat_eq_iff)
    then show ?thesis using Cons Cons.IH lt by (auto simp: hex_digit_inj)
  qed simp
qed

lemma b64_value_char: "n < 64 \<Longrightarrow> b64_value (b64_char n) = Some n"
  by (auto simp: b64_value_def b64_char_def Let_def)

lemma b64_char_not_newline: "n < 64 \<Longrightarrow> byte_of (b64_char n) \<noteq> 10 \<and> byte_of (b64_char n) \<noteq> 13"
  by (auto simp: b64_char_def)

lemma join16: "y < 16 \<Longrightarrow> (x * 16 + y) div 16 = x" "y < 16 \<Longrightarrow> (x * 16 + y) mod 16 = (y :: nat)"
  by simp_all

lemma join4: "y < 4 \<Longrightarrow> (x * 4 + y) div 4 = x" "y < 4 \<Longrightarrow> (x * 4 + y) mod 4 = (y :: nat)"
  by simp_all

text \<open>The six-bit values of three bytes, and the bytes put together again from them.\<close>

lemma bytes_split:
  fixes a b c :: byte
  shows "unat a div 4 < 64" "unat a mod 4 * 16 < 64" "unat a mod 4 * 16 + unat b div 16 < 64"
    "unat b mod 16 * 4 < 64" "unat b mod 16 * 4 + unat c div 64 < 64" "unat c mod 64 < 64"
  using unat_byte [of a] unat_byte [of b] unat_byte [of c] by linarith+

lemma bytes_join:
  fixes a b c :: byte
  shows "word_of_nat (unat a div 4 * 4 + unat a mod 4 * 16 div 16) = a"
    "word_of_nat (unat a div 4 * 4 + (unat a mod 4 * 16 + unat b div 16) div 16) = a"
    "word_of_nat ((unat a mod 4 * 16 + unat b div 16) mod 16 * 16 + unat b mod 16 * 4 div 4) = b"
    "word_of_nat ((unat a mod 4 * 16 + unat b div 16) mod 16 * 16 + (unat b mod 16 * 4 + unat c div 64) div 4) = b"
    "word_of_nat ((unat b mod 16 * 4 + unat c div 64) mod 4 * 64 + unat c mod 64) = c"
proof -
  have b: "unat b div 16 < 16" and c: "unat c div 64 < 4"
    using unat_byte [of b] unat_byte [of c] by linarith+
  show "word_of_nat (unat a div 4 * 4 + unat a mod 4 * 16 div 16) = a"
    by (simp del: of_nat_add)
  show "word_of_nat (unat a div 4 * 4 + (unat a mod 4 * 16 + unat b div 16) div 16) = a"
    by (simp only: join16 [OF b] div_mult_mod_eq byte_unat)
  show "word_of_nat ((unat a mod 4 * 16 + unat b div 16) mod 16 * 16 + unat b mod 16 * 4 div 4) = b"
    by (simp only: join16 [OF b] div_mult_mod_eq byte_unat nonzero_mult_div_cancel_right)
  show "word_of_nat ((unat a mod 4 * 16 + unat b div 16) mod 16 * 16 + (unat b mod 16 * 4 + unat c div 64) div 4) = b"
    by (simp only: join16 [OF b] join4 [OF c] div_mult_mod_eq byte_unat)
  show "word_of_nat ((unat b mod 16 * 4 + unat c div 64) mod 4 * 64 + unat c mod 64) = c"
    by (simp only: join4 [OF c] div_mult_mod_eq byte_unat)
qed

text \<open>Every character of an encoding is one of the alphabet, and its values decode to the bytes.\<close>

lemma b64_encode_alphabet: "c \<in> set (b64_encode bs) \<Longrightarrow> \<exists>n < 64. c = b64_char n"
  by (induction bs rule: b64_encode.induct) (auto intro: bytes_split)

lemma b64_groups_encode: "b64_groups (map (\<lambda>c. the (b64_value c)) (b64_encode bs)) = Some bs"
  by (induction bs rule: b64_encode.induct)
    (simp_all only: b64_encode.simps list.map b64_groups.simps b64_value_char [OF bytes_split(1)]
      b64_value_char [OF bytes_split(2)] b64_value_char [OF bytes_split(3)] b64_value_char [OF bytes_split(4)]
      b64_value_char [OF bytes_split(5)] b64_value_char [OF bytes_split(6)] option.sel option.case bytes_join)

lemma b64_decode_encode: "b64_decode (b64_encode bs) = Some bs"
proof -
  have keep: "filter (\<lambda>c. byte_of c \<noteq> 10 \<and> byte_of c \<noteq> 13) (b64_encode bs) = b64_encode bs"
    using b64_encode_alphabet b64_char_not_newline by (fastforce simp: filter_id_conv)
  have "None \<notin> set (map b64_value (b64_encode bs))"
    using b64_encode_alphabet b64_value_char by fastforce
  with keep show ?thesis
    by (simp add: b64_decode_def Let_def b64_groups_encode comp_def)
qed

lemma b64_encode_inj: "b64_encode as = b64_encode bs \<longleftrightarrow> as = bs"
  by (metis b64_decode_encode option.inject)

lemma b64_encode_Nil_iff: "b64_encode bs = [] \<longleftrightarrow> bs = []"
  by (cases bs rule: b64_encode.cases) auto

section \<open>Tokens, ids and hashes\<close>

text \<open>\<open>RandomToken\<close> and \<open>NewId\<close> on the random bytes they have read.\<close>

definition RandomToken_of :: "byte list \<Rightarrow> string" where
  "RandomToken_of bs = b64_encode bs"

definition NewId_of :: "byte list \<Rightarrow> string" where
  "NewId_of b0 =
     (let b1 = b0[6 := ((b0 ! 6) AND 0x0f) OR 0x40];
          b = b1[8 := ((b1 ! 8) AND 0x3f) OR 0x80]
      in hex_encode (take 4 b) @ ''-'' @ hex_encode (take 2 (drop 4 b)) @ ''-''
         @ hex_encode (take 2 (drop 6 b)) @ ''-'' @ hex_encode (take 2 (drop 8 b)) @ ''-''
         @ hex_encode (take 6 (drop 10 b)))"

definition HashToken :: "golib \<Rightarrow> string \<Rightarrow> string" where
  "HashToken lib token = hex_encode (lib_sha256 lib token)"

text \<open>\<open>subtle.ConstantTimeCompare\<close> ors the differences of all bytes before it looks at them.\<close>

definition ConstantTimeCompare :: "byte list \<Rightarrow> byte list \<Rightarrow> nat" where
  "ConstantTimeCompare x y =
     (if length x \<noteq> length y then 0
      else if foldl (\<lambda>v (a, b). v OR (a XOR b)) 0 (zip x y) = 0 then 1 else 0)"

definition bytes_of_string :: "string \<Rightarrow> byte list" where
  "bytes_of_string s = map (\<lambda>c. word_of_nat (byte_of c)) s"

definition Equal :: "string \<Rightarrow> string \<Rightarrow> bool" where
  "Equal a b \<longleftrightarrow> ConstantTimeCompare (bytes_of_string a) (bytes_of_string b) = 1"

lemma or_eq_0_byte: "(a :: byte) OR b = 0 \<longleftrightarrow> a = 0 \<and> b = 0"
  by (simp add: or_eq_0_iff)

lemma xor_eq_0_byte: "(a :: byte) XOR b = 0 \<longleftrightarrow> a = b"
  by (metis xor.assoc xor.left_neutral xor.right_neutral xor_self_eq)

lemma foldl_or_0:
  "foldl (\<lambda>v (a, b). v OR (a XOR b)) v ps = (0 :: byte) \<longleftrightarrow> v = 0 \<and> (\<forall>(a, b) \<in> set ps. a = b)"
  by (induction ps arbitrary: v) (auto simp: or_eq_0_byte xor_eq_0_byte)

lemma ConstantTimeCompare_eq: "ConstantTimeCompare x y = 1 \<longleftrightarrow> x = y"
proof (cases "length x = length y")
  case True
  have "(\<forall>(a, b) \<in> set (zip x y). a = b) \<longleftrightarrow> x = y"
    using True by (induction x y rule: list_induct2) auto
  with True show ?thesis by (simp add: ConstantTimeCompare_def foldl_or_0)
next
  case False
  then show ?thesis by (auto simp: ConstantTimeCompare_def)
qed

lemma bytes_of_string_inj: "bytes_of_string a = bytes_of_string b \<longleftrightarrow> a = b"
proof -
  have "inj (\<lambda>c. word_of_nat (byte_of c) :: byte)"
  proof (rule injI)
    fix c d :: char assume "(word_of_nat (byte_of c) :: byte) = word_of_nat (byte_of d)"
    then have "unat (word_of_nat (byte_of c) :: byte) = unat (word_of_nat (byte_of d) :: byte)" by simp
    then have "byte_of c = byte_of d" by (simp add: unat_of_nat)
    then show "c = d" by simp
  qed
  then show ?thesis by (simp add: bytes_of_string_def inj_map_eq_map)
qed

lemma Equal_iff [simp]: "Equal a b \<longleftrightarrow> a = b"
  by (simp only: Equal_def ConstantTimeCompare_eq bytes_of_string_inj)

subsection \<open>The shape of an id\<close>

lemma unat_div16: "unat (x :: byte) div 16 = unat (drop_bit 4 x)"
  by (subst unat_drop_bit_eq) (simp add: drop_bit_eq_div)

lemma drop4_version: "unat (((x :: byte) AND 0x0f) OR 0x40) div 16 = 4"
proof -
  have "drop_bit 4 ((x AND 0x0f) OR 0x40) = (4 :: byte)" by simp
  then show ?thesis by (simp only: unat_div16) simp
qed

lemma low2_cases: "(y AND 3 :: byte) \<in> {0, 1, 2, 3}"
proof -
  have "unat (y AND 3 :: byte) \<le> unat (3 :: byte)"
    by (simp only: word_le_nat_alt [symmetric] word_and_le1)
  then consider "unat (y AND 3 :: byte) = 0" | "unat (y AND 3 :: byte) = 1"
    | "unat (y AND 3 :: byte) = 2" | "unat (y AND 3 :: byte) = 3" by fastforce
  then show ?thesis
    by cases (simp_all add: word_unat_eq_iff)
qed

lemma drop4_variant: "unat (((x :: byte) AND 0x3f) OR 0x80) div 16 \<in> {8, 9, 10, 11}"
proof -
  have u: "drop_bit 4 ((x AND 0x3f) OR 0x80) = (drop_bit 4 x AND 3) OR (8 :: byte)" by simp
  show ?thesis
    unfolding unat_div16 u using low2_cases [of "drop_bit 4 x"] by auto
qed

lemma hex_digit_values:
  "hex_digit 4 = CHR ''4''" "hex_digit 8 = CHR ''8''" "hex_digit 9 = CHR ''9''"
  "hex_digit 10 = CHR ''a''" "hex_digit 11 = CHR ''b''"
  by code_simp+

lemma list16:
  assumes "length xs = 16"
  obtains a0 a1 a2 a3 a4 a5 a6 a7 a8 a9 a10 a11 a12 a13 a14 a15
  where "xs = [a0, a1, a2, a3, a4, a5, a6, a7, a8, a9, a10, a11, a12, a13, a14, a15]"
  using assms by (auto simp: length_Suc_conv eval_nat_numeral)

lemma NewId_shape:
  assumes "length b = 16"
  shows "length (NewId_of b) = 36"
    and "NewId_of b ! 14 = CHR ''4''"
    and "NewId_of b ! 19 \<in> set ''89ab''"
    and "\<forall>i \<in> {8, 13, 18, 23}. NewId_of b ! i = CHR ''-''"
proof -
  obtain a0 a1 a2 a3 a4 a5 a6 a7 a8 a9 a10 a11 a12 a13 a14 a15
    where b: "b = [a0, a1, a2, a3, a4, a5, a6, a7, a8, a9, a10, a11, a12, a13, a14, a15]"
    using assms by (rule list16)
  have v: "hex_digit n \<in> set ''89ab''" if "n \<in> {8, 9, 10, 11}" for n
    using that by (auto simp: hex_digit_values)
  show "length (NewId_of b) = 36" "NewId_of b ! 14 = CHR ''4''"
    "\<forall>i \<in> {8, 13, 18, 23}. NewId_of b ! i = CHR ''-''"
    by (simp_all add: b NewId_of_def Let_def drop4_version hex_digit_values)
  show "NewId_of b ! 19 \<in> set ''89ab''"
    using v [OF drop4_variant [of a8]] by (simp add: b NewId_of_def Let_def)
qed

section \<open>Password hashing\<close>

datatype hasher_error = ErrMismatch | ErrSecretTooLong | HasherFailure string

definition MaxSecretLength :: nat where "MaxSecretLength = 72"

text \<open>
  The interface \<open>PasswordHasher\<close>. \<open>Hash\<close> receives the secret and the random bytes it draws as
  salt; \<open>Verify\<close> gives \<^const>\<open>None\<close> for the nil error.
\<close>

record hasher =
  h_Hash :: "string \<Rightarrow> byte list \<Rightarrow> hasher_error + string"
  h_Verify :: "string \<Rightarrow> string \<Rightarrow> hasher_error option"

text \<open>
  \<open>BcryptHasher\<close>: \<open>gen\<close> and \<open>cmp\<close> are \<open>bcrypt.GenerateFromPassword\<close> (salt, cost and password to
  a hash, or an error message) and \<open>bcrypt.CompareHashAndPassword\<close> (true for a nil error), and
  \<open>bcrypt.DefaultCost\<close> is 10.
\<close>

definition bcrypt_Hash ::
  "(byte list \<Rightarrow> int \<Rightarrow> string \<Rightarrow> string + string) \<Rightarrow> int \<Rightarrow> string \<Rightarrow> byte list \<Rightarrow> hasher_error + string" where
  "bcrypt_Hash gen cost secret salt =
     (if MaxSecretLength < length secret then Inl ErrSecretTooLong
      else case gen salt cost secret of Inl e \<Rightarrow> Inl (HasherFailure e) | Inr h \<Rightarrow> Inr h)"

definition bcrypt_Verify :: "(string \<Rightarrow> string \<Rightarrow> bool) \<Rightarrow> string \<Rightarrow> string \<Rightarrow> hasher_error option" where
  "bcrypt_Verify cmp hash secret =
     (if MaxSecretLength < length secret then Some ErrMismatch
      else if \<not> cmp hash secret then Some ErrMismatch else None)"

definition NewBcryptHasher ::
  "(byte list \<Rightarrow> int \<Rightarrow> string \<Rightarrow> string + string) \<Rightarrow> (string \<Rightarrow> string \<Rightarrow> bool) \<Rightarrow> int \<Rightarrow> hasher" where
  "NewBcryptHasher gen cmp cost =
     \<lparr>h_Hash = bcrypt_Hash gen (if cost \<le> 0 then 10 else cost), h_Verify = bcrypt_Verify cmp\<rparr>"

section \<open>PKCE\<close>

definition CodeChallengeMethodPlain :: string where [simp]: "CodeChallengeMethodPlain = ''plain''"
definition CodeChallengeMethodS256 :: string where [simp]: "CodeChallengeMethodS256 = ''S256''"

definition verifier_char :: "char \<Rightarrow> bool" where
  "verifier_char c \<longleftrightarrow>
     (let b = byte_of c
      in 65 \<le> b \<and> b \<le> 90 \<or> 97 \<le> b \<and> b \<le> 122 \<or> 48 \<le> b \<and> b \<le> 57 \<or>
         c = CHR ''-'' \<or> c = CHR ''.'' \<or> c = CHR ''_'' \<or> c = CHR ''~'')"

definition IsValidCodeVerifier :: "string \<Rightarrow> bool" where
  "IsValidCodeVerifier verifier =
     (if length verifier < 43 \<or> 128 < length verifier then False else list_all verifier_char verifier)"

definition IsSupportedCodeChallengeMethod :: "string \<Rightarrow> bool" where
  "IsSupportedCodeChallengeMethod m \<longleftrightarrow> m = CodeChallengeMethodPlain \<or> m = CodeChallengeMethodS256"

definition S256Challenge :: "golib \<Rightarrow> string \<Rightarrow> string" where
  "S256Challenge lib verifier = b64_encode (lib_sha256 lib verifier)"

definition VerifyCodeChallenge :: "golib \<Rightarrow> string \<Rightarrow> string \<Rightarrow> string \<Rightarrow> bool" where
  "VerifyCodeChallenge lib challenge m verifier =
     (if \<not> IsValidCodeVerifier verifier then False
      else if m = CodeChallengeMethodS256 then Equal (S256Challenge lib verifier) challenge
      else if m = CodeChallengeMethodPlain \<or> m = '''' then Equal verifier challenge
      else False)"

lemma b64_char_verifier: "n < 64 \<Longrightarrow> verifier_char (b64_char n)"
  by (auto simp: verifier_char_def b64_char_def Let_def)

lemma length_b64_encode: "length (b64_encode bs) = (4 * length bs + 2) div 3"
  by (induction bs rule: b64_encode.induct) auto

text \<open>An encoding of 32 to 96 bytes is itself a syntactically valid code verifier.\<close>

lemma b64_encode_verifier: "32 \<le> length bs \<Longrightarrow> length bs \<le> 96 \<Longrightarrow> IsValidCodeVerifier (b64_encode bs)"
  using b64_encode_alphabet b64_char_verifier
  by (auto simp: IsValidCodeVerifier_def length_b64_encode list_all_iff)

text \<open>
  PKCE verification is exact. With method S256 a verifier is accepted iff it is syntactically
  valid and its SHA-256 digest, in unpadded base64url, is the stored challenge: two valid
  verifiers are accepted for the same challenge iff SHA-256 gives them the same digest. With
  method plain, or without a method, the verifier must be the challenge, and no other method
  accepts anything.
\<close>

theorem verify_code_challenge_exact:
  "(VerifyCodeChallenge lib ch ''S256'' v \<longleftrightarrow> IsValidCodeVerifier v \<and> b64_decode ch = Some (lib_sha256 lib v) \<and> ch = S256Challenge lib v)
   \<and> (VerifyCodeChallenge lib (S256Challenge lib v') ''S256'' v \<longleftrightarrow> IsValidCodeVerifier v \<and> lib_sha256 lib v = lib_sha256 lib v')
   \<and> (m \<in> {''plain'', ''''} \<longrightarrow> (VerifyCodeChallenge lib ch m v \<longleftrightarrow> IsValidCodeVerifier v \<and> v = ch))
   \<and> (m \<notin> {''S256'', ''plain'', ''''} \<longrightarrow> \<not> VerifyCodeChallenge lib ch m v)"
  by (auto simp: VerifyCodeChallenge_def S256Challenge_def b64_decode_encode b64_encode_inj)

theorem verify_code_challenge_exact_witness:
  "VerifyCodeChallenge sample_lib (replicate 43 CHR ''a'') ''plain'' (replicate 43 CHR ''a'')
   \<and> \<not> VerifyCodeChallenge sample_lib (replicate 43 CHR ''a'') ''other'' (replicate 43 CHR ''a'')"
proof -
  have v: "IsValidCodeVerifier (replicate 43 CHR ''a'')" by code_simp
  show ?thesis
    using v verify_code_challenge_exact [of sample_lib "replicate 43 CHR ''a''" "replicate 43 CHR ''a''" "[]" "''plain''"]
      verify_code_challenge_exact [of sample_lib "replicate 43 CHR ''a''" "replicate 43 CHR ''a''" "[]" "''other''"]
    by simp
qed

end
