(* ===== verification/Mail.thy ===== *)
theory Mail
  imports Effects GoLib
begin

text \<open>
  Package \<open>pkg/mail\<close>: messages and the senders that need no network. A \<open>Sender\<close> is an action on the
  list of messages sent so far; its error is a message text.
\<close>

record message =
  msg_To :: string
  msg_Subject :: string
  msg_Text :: string
  msg_HTML :: string

type_synonym sender = "message \<Rightarrow> (message list, string, unit) act"

definition LogSender_Send :: sender where
  "LogSender_Send msg = ret ()"

definition MemorySender_Send :: sender where
  "MemorySender_Send msg = (\<lambda>sent. (Inr (), sent @ [msg]))"

definition MemorySender_Messages :: "message list \<Rightarrow> message list" where
  "MemorySender_Messages sent = sent"

definition MemorySender_Last :: "message list \<Rightarrow> message option" where
  "MemorySender_Last sent = (if length sent = 0 then None else Some (sent ! (length sent - 1)))"

text \<open>\<open>strings.LastIndex\<close> of one byte, \<^const>\<open>None\<close> for -1.\<close>

fun last_index :: "char \<Rightarrow> string \<Rightarrow> nat option" where
  "last_index c [] = None"
| "last_index c (x # xs) =
     (case last_index c xs of Some i \<Rightarrow> Some (Suc i) | None \<Rightarrow> if x = c then Some 0 else None)"

definition domainOf :: "string \<Rightarrow> string" where
  "domainOf address0 =
     (let address = trim_suffix address0 ''>''
      in case last_index CHR ''@'' address of Some i \<Rightarrow> drop (i + 1) address | None \<Rightarrow> ''localhost'')"

lemma MemorySender_Last_Send:
  "MemorySender_Send msg sent = (Inr (), sent') \<Longrightarrow> MemorySender_Last sent' = Some msg"
  by (auto simp: MemorySender_Send_def MemorySender_Last_def)

lemma last_index_append: "c \<notin> set b \<Longrightarrow> last_index c (a @ c # b) = Some (length a)"
proof (induction a)
  case Nil
  then have "last_index c b = None" by (induction b) auto
  then show ?case by simp
qed simp

end
