(* ===== verification/World.thy ===== *)
theory World
  imports StoreSpec Security Mail
begin

text \<open>
  The state the services act on: the state of a store, the random source, the clock, the messages
  sent, and the two values the services compute once (\<open>sync.Once\<close>). The random source is a tape of
  bytes with a position, the clock a sequence of readings with a position: \<open>crypto/rand\<close> and
  \<open>time.Now\<close> give the next one. \<open>rand.Read\<close> is assumed not to fail (the source panics then).
\<close>

record 's world =
  w_store :: 's
  w_random :: "nat \<Rightarrow> byte"
  w_pos :: nat
  w_clock :: "nat \<Rightarrow> time"
  w_ticks :: nat
  w_outbox :: "message list"
  w_accountDummy :: "string option"
  w_oauthDummy :: "string option"

type_synonym ('s, 'e, 'a) wact = "('s world, 'e, 'a) act"

definition RandomBytes :: "nat \<Rightarrow> ('s, 'e, byte list) wact" where
  "RandomBytes n = (\<lambda>w. (Inr (map (\<lambda>i. w_random w (w_pos w + i)) [0..<n]), w\<lparr>w_pos := w_pos w + n\<rparr>))"

definition RandomToken :: "nat \<Rightarrow> ('s, 'e, string) wact" where
  "RandomToken n = andThen (RandomBytes n) (\<lambda>b. ret (RandomToken_of b))"

definition NewToken :: "('s, 'e, string) wact" where
  "NewToken = RandomToken 32"

definition NewId :: "('s, 'e, string) wact" where
  "NewId = andThen (RandomBytes 16) (\<lambda>b. ret (NewId_of b))"

text \<open>\<open>opts.Now().UTC().Truncate(time.Millisecond)\<close>, the method \<open>now\<close> of both services.\<close>

definition clock_now :: "('s, 'e, time) wact" where
  "clock_now = (\<lambda>w. (Inr (truncate_ms (w_clock w (w_ticks w))), w\<lparr>w_ticks := Suc (w_ticks w)\<rparr>))"

definition on_store :: "('s, 'e, 'a) act \<Rightarrow> ('s, 'e, 'a) wact" where
  "on_store m = zoom w_store (\<lambda>s w. w\<lparr>w_store := s\<rparr>) m"

definition send_mail :: "sender \<Rightarrow> message \<Rightarrow> ('s, string, unit) wact" where
  "send_mail send msg = zoom w_outbox (\<lambda>b w. w\<lparr>w_outbox := b\<rparr>) (send msg)"

text \<open>\<open>Hasher.Hash(secret)\<close>: the salt is 16 random bytes.\<close>

definition hash_secret :: "hasher \<Rightarrow> string \<Rightarrow> ('s, hasher_error, string) wact" where
  "hash_secret h secret =
     andThen (RandomBytes 16) (\<lambda>salt. case h_Hash h secret salt of Inl e \<Rightarrow> fail e | Inr x \<Rightarrow> ret x)"

section \<open>What the calls leave unchanged\<close>

lemma RandomBytes_eq:
  "RandomBytes n w = (r, w') \<longleftrightarrow>
     r = Inr (map (\<lambda>i. w_random w (w_pos w + i)) [0..<n]) \<and> w' = w\<lparr>w_pos := w_pos w + n\<rparr>"
  by (auto simp: RandomBytes_def)

lemma RandomToken_eq:
  "RandomToken n w = (r, w') \<longleftrightarrow>
     r = Inr (RandomToken_of (map (\<lambda>i. w_random w (w_pos w + i)) [0..<n])) \<and> w' = w\<lparr>w_pos := w_pos w + n\<rparr>"
  by (auto simp: RandomToken_def andThen_def RandomBytes_def ret_def)

lemma NewToken_eq:
  "NewToken w = (r, w') \<longleftrightarrow>
     r = Inr (RandomToken_of (map (\<lambda>i. w_random w (w_pos w + i)) [0..<32])) \<and> w' = w\<lparr>w_pos := w_pos w + 32\<rparr>"
  by (simp add: NewToken_def RandomToken_eq)

lemma NewId_eq:
  "NewId w = (r, w') \<longleftrightarrow>
     r = Inr (NewId_of (map (\<lambda>i. w_random w (w_pos w + i)) [0..<16])) \<and> w' = w\<lparr>w_pos := w_pos w + 16\<rparr>"
  by (auto simp: NewId_def andThen_def RandomBytes_def ret_def)

lemma clock_now_eq:
  "clock_now w = (r, w') \<longleftrightarrow> r = Inr (truncate_ms (w_clock w (w_ticks w))) \<and> w' = w\<lparr>w_ticks := Suc (w_ticks w)\<rparr>"
  by (auto simp: clock_now_def)

lemma on_store_eq:
  "on_store m w = (r, w') \<longleftrightarrow> (\<exists>s'. m (w_store w) = (r, s') \<and> w' = w\<lparr>w_store := s'\<rparr>)"
  by (auto simp: on_store_def zoom_eq)

lemma send_mail_eq:
  "send_mail f msg w = (r, w') \<longleftrightarrow> (\<exists>b. f msg (w_outbox w) = (r, b) \<and> w' = w\<lparr>w_outbox := b\<rparr>)"
  by (auto simp: send_mail_def zoom_eq)

lemma hash_secret_eq:
  "hash_secret h secret w = (r, w') \<longleftrightarrow>
     r = h_Hash h secret (map (\<lambda>i. w_random w (w_pos w + i)) [0..<16]) \<and> w' = w\<lparr>w_pos := w_pos w + 16\<rparr>"
  by (auto simp: hash_secret_def andThen_def RandomBytes_def ret_def fail_def split: sum.splits)

text \<open>An id is never empty, whatever the random source gives.\<close>

lemma NewId_not_empty: "length b = 16 \<Longrightarrow> NewId_of b \<noteq> ''''"
  using NewId_shape(1) [of b] by auto

section \<open>Preservation\<close>

lemma preserves_on_store: "preserves P m \<Longrightarrow> preserves (\<lambda>w. P (w_store w)) (on_store m)"
  by (rule preservesI) (auto simp: on_store_eq dest: preservesD)

lemma preserves_world [preserves_rules]:
  "preserves (\<lambda>w. P (w_store w)) (RandomBytes n)" "preserves (\<lambda>w. P (w_store w)) (RandomToken n)"
  "preserves (\<lambda>w. P (w_store w)) NewToken" "preserves (\<lambda>w. P (w_store w)) NewId"
  "preserves (\<lambda>w. P (w_store w)) clock_now" "preserves (\<lambda>w. P (w_store w)) (send_mail f msg)"
  "preserves (\<lambda>w. P (w_store w)) (hash_secret h secret)"
  by (rule preservesI; auto simp: RandomBytes_eq RandomToken_eq NewToken_eq NewId_eq clock_now_eq send_mail_eq hash_secret_eq)+

text \<open>A step after a call may use what the call can return.\<close>

lemma preserves_andThen_result:
  "preserves P m \<Longrightarrow> (\<And>x s s'. m s = (Inr x, s') \<Longrightarrow> preserves P (f x)) \<Longrightarrow> preserves P (andThen m f)"
  by (rule preservesI) (auto simp: andThen_def split: prod.splits sum.splits, (meson preservesD)+)

lemma preserves_NewId:
  assumes "\<And>i. i \<noteq> '''' \<Longrightarrow> preserves (\<lambda>w. P (w_store w)) (f i)"
  shows "preserves (\<lambda>w. P (w_store w)) (andThen NewId f)"
  by (rule preserves_andThen_result) (auto intro: preserves_rules assms simp: NewId_eq NewId_not_empty)

section \<open>Calls of the store\<close>

text \<open>The contract of a store operation, read on the world.\<close>

lemma on_store_ok:
  "on_store m w = (Inr x, w') \<Longrightarrow> obeys I view P m \<Longrightarrow> I (w_store w) \<Longrightarrow>
     I (w_store w') \<and> P (view (w_store w)) (Inr x) (view (w_store w'))"
  by (auto simp: on_store_eq dest: obeysD)

lemma on_store_err:
  "on_store m w = (Inl e, w') \<Longrightarrow> obeys I view P m \<Longrightarrow> I (w_store w) \<Longrightarrow>
     I (w_store w') \<and> (P (view (w_store w)) (Inl e) (view (w_store w'))
       \<or> (\<exists>msg. e = StoreFailure msg) \<and> view (w_store w') = view (w_store w))"
  by (auto simp: on_store_eq dest: obeysD)

lemma on_store_exact:
  "on_store m w = (r, w') \<Longrightarrow> obeys I view P m \<Longrightarrow> reliable m \<Longrightarrow> I (w_store w) \<Longrightarrow>
     I (w_store w') \<and> P (view (w_store w)) r (view (w_store w'))"
  by (auto simp: on_store_eq dest: obeys_exact)

lemma preserves_call: "obeys I view P m \<Longrightarrow> preserves (\<lambda>w. I (w_store w)) (on_store m)"
  by (rule preserves_on_store) (rule obeys_preserves)

text \<open>A lookup changes no table.\<close>

lemma preserves_lookup:
  "obeys I view (find_spec tb P) m \<Longrightarrow> preserves (\<lambda>w. I (w_store w) \<and> view (w_store w) = V) (on_store m)"
  by (rule preservesI) (auto simp: on_store_eq find_spec_def dest: obeysD)

lemma preserves_get:
  "obeys I view (get_spec tb k) m \<Longrightarrow> preserves (\<lambda>w. I (w_store w) \<and> view (w_store w) = V) (on_store m)"
  by (rule preservesI) (auto simp: on_store_eq get_spec_def dest: obeysD)

text \<open>A call of the store does not touch the rest of the world.\<close>

lemma on_store_frame:
  "on_store m w = (r, w') \<Longrightarrow>
     w_random w' = w_random w \<and> w_pos w' = w_pos w \<and> w_clock w' = w_clock w \<and> w_ticks w' = w_ticks w
     \<and> w_outbox w' = w_outbox w \<and> w_accountDummy w' = w_accountDummy w \<and> w_oauthDummy w' = w_oauthDummy w"
  by (auto simp: on_store_eq)

end
