(* ===== verification/Account.thy ===== *)
theory Account
  imports World
begin

text \<open>
  Package \<open>pkg/account\<close>: registration, activation, authentication with lockout, password reset and
  user administration. A method of \<open>Service\<close> is an action \<open>account_<name>\<close> on the world; the service's
  options are its argument. A method that changes the user it is given through a pointer returns the
  changed user. Logging has no effect on the state.
\<close>

section \<open>Errors and options\<close>

text \<open>The sentinel errors of the package, and the errors of the packages it calls, passed on.\<close>

datatype account_error =
    ErrInvalidCredentials | ErrNotActivated | ErrLockedOut | ErrDisabled | ErrInvalidToken | ErrUserExists
  | ErrUserNotFound
  | ErrValidation validation_error | ErrHasher hasher_error | ErrStore store_error | ErrMail string

record emailData =
  ed_Title :: string
  ed_Username :: string
  ed_Intro :: string
  ed_Action :: string
  ed_Link :: string
  ed_Expires :: string
  ed_Outro :: string

text \<open>
  The options. \<open>ao_Html\<close> is the execution of the template \<open>htmlEmail\<close> by \<open>html/template\<close>, \<open>ao_Lib\<close>
  the modelled library; \<open>ao_ActivationURL\<close> and \<open>ao_PasswordResetURL\<close> are the \<open>LinkBuilder\<close>.
\<close>

record 's account_options =
  ao_Store :: "'s store_ops"
  ao_Hasher :: hasher
  ao_Mailer :: sender
  ao_ActivationURL :: "string \<Rightarrow> string"
  ao_PasswordResetURL :: "string \<Rightarrow> string"
  ao_ApplicationName :: string
  ao_RequireActivation :: bool
  ao_ActivationTokenLifetime :: duration
  ao_PasswordResetTokenLifetime :: duration
  ao_MinPasswordLength :: int
  ao_MaxFailedAttempts :: int
  ao_LockoutDuration :: duration
  ao_Lib :: golib
  ao_Html :: "emailData \<Rightarrow> string"

text \<open>\<open>New\<close>: the defaults. The hasher, the mailer and the clock are always given here.\<close>

definition account_New :: "'s account_options \<Rightarrow> 's account_options" where
  "account_New svc =
     svc\<lparr>ao_ApplicationName := (if ao_ApplicationName svc = '''' then ''Identity'' else ao_ApplicationName svc),
        ao_ActivationTokenLifetime :=
          (if ao_ActivationTokenLifetime svc \<le> 0 then 48 * hour else ao_ActivationTokenLifetime svc),
        ao_PasswordResetTokenLifetime :=
          (if ao_PasswordResetTokenLifetime svc \<le> 0 then hour else ao_PasswordResetTokenLifetime svc),
        ao_MinPasswordLength := (if ao_MinPasswordLength svc \<le> 0 then 8 else ao_MinPasswordLength svc),
        ao_LockoutDuration := (if ao_LockoutDuration svc \<le> 0 then 15 * minute else ao_LockoutDuration svc)\<rparr>"

type_synonym ('s, 'a) account_act = "('s world, account_error, 'a) act"

text \<open>
  The idiom \<open>if errors.Is(err, store.ErrX) { return ErrY }; if err != nil { return err }\<close> renames one
  error and passes the others on.
\<close>

definition renamed :: "store_error \<Rightarrow> account_error \<Rightarrow> ('s, store_error, 'a) act \<Rightarrow> ('s, 'a) account_act" where
  "renamed x y m = mapErr (\<lambda>e. if e = x then y else ErrStore e) (on_store m)"

definition store_call :: "('s, store_error, 'a) act \<Rightarrow> ('s, 'a) account_act" where
  "store_call m = mapErr ErrStore (on_store m)"

section \<open>Emails\<close>

fun nat_to_string :: "nat \<Rightarrow> string" where
  "nat_to_string n =
     (if n < 10 then [char_of (48 + n)] else nat_to_string (n div 10) @ [char_of (48 + n mod 10)])"

declare nat_to_string.simps [simp del]

definition int_to_string :: "int \<Rightarrow> string" where
  "int_to_string i = (if i < 0 then ''-'' @ nat_to_string (nat (- i)) else nat_to_string (nat i))"

text \<open>Go's integer division truncates towards zero.\<close>

definition quot :: "int \<Rightarrow> int \<Rightarrow> int" where
  "quot a b = sgn a * sgn b * (\<bar>a\<bar> div \<bar>b\<bar>)"

definition formatDuration :: "duration \<Rightarrow> string" where
  "formatDuration d =
     (if d mod (24 * hour) = 0 then
        (let n = quot d (24 * hour) in if n = 1 then ''1 day'' else int_to_string n @ '' days'')
      else if d mod hour = 0 then
        (let n = quot d hour in if n = 1 then ''1 hour'' else int_to_string n @ '' hours'')
      else int_to_string (quot d minute) @ '' minutes'')"

definition buildMessage :: "(emailData \<Rightarrow> string) \<Rightarrow> user \<Rightarrow> string \<Rightarrow> emailData \<Rightarrow> message" where
  "buildMessage html user subject data =
     \<lparr>msg_To = u_Email user, msg_Subject = subject,
      msg_Text = ''Hello '' @ ed_Username data @ '','' @ [CHR 0x0A, CHR 0x0A] @ ed_Intro data @ [CHR 0x0A, CHR 0x0A]
        @ ed_Action data @ '': '' @ ed_Link data @ [CHR 0x0A, CHR 0x0A] @ ''This link expires in ''
        @ ed_Expires data @ ''. '' @ ed_Outro data @ [CHR 0x0A],
      msg_HTML = html data\<rparr>"

definition activationMessage :: "(emailData \<Rightarrow> string) \<Rightarrow> string \<Rightarrow> user \<Rightarrow> string \<Rightarrow> duration \<Rightarrow> message" where
  "activationMessage html appName user link lifetime =
     buildMessage html user (appName @ '': activate your account'')
       \<lparr>ed_Title = ''Activate your account'', ed_Username = u_Username user,
        ed_Intro = ''Thank you for signing up. Please confirm your email address to activate your account.'',
        ed_Action = ''Activate account'', ed_Link = link, ed_Expires = formatDuration lifetime,
        ed_Outro = ''If you didn't create an account, you can ignore this email.''\<rparr>"

definition passwordResetMessage :: "(emailData \<Rightarrow> string) \<Rightarrow> string \<Rightarrow> user \<Rightarrow> string \<Rightarrow> duration \<Rightarrow> message" where
  "passwordResetMessage html appName user link lifetime =
     buildMessage html user (appName @ '': reset your password'')
       \<lparr>ed_Title = ''Reset your password'', ed_Username = u_Username user,
        ed_Intro = ''We received a request to reset the password of your account.'',
        ed_Action = ''Choose a new password'', ed_Link = link, ed_Expires = formatDuration lifetime,
        ed_Outro = ''If you didn't request a password reset, you can ignore this email.''\<rparr>"

section \<open>Users\<close>

definition account_ValidatePassword :: "'s account_options \<Rightarrow> string \<Rightarrow> validation_error option" where
  "account_ValidatePassword svc password =
     (if int (rune_count password) < ao_MinPasswordLength svc
      then Some (NewValidationError ''password'' ''is too short'')
      else if MaxSecretLength < length password
      then Some (NewValidationError ''password'' ''is too long, the maximum is 72 bytes'')
      else None)"

definition account_GetUser :: "'s account_options \<Rightarrow> string \<Rightarrow> ('s, user) account_act" where
  "account_GetUser svc k =
     renamed ErrNotFound ErrUserNotFound (GetUserById (ao_Store svc) k)"

definition account_FindUser :: "'s account_options \<Rightarrow> string \<Rightarrow> ('s, user) account_act" where
  "account_FindUser svc login =
     handle (on_store (GetUserByNormalizedUsername (ao_Store svc) (NormalizeUsername (ao_Lib svc) login)))
       (\<lambda>e. if e = ErrNotFound \<and> contains_str login ''@'' then
              renamed ErrNotFound ErrUserNotFound (GetUserByNormalizedEmail (ao_Store svc) (NormalizeEmail (ao_Lib svc) login))
            else if e = ErrNotFound then fail ErrUserNotFound else fail (ErrStore e))
       ret"

definition account_ensureUnique :: "'s account_options \<Rightarrow> user \<Rightarrow> ('s, unit) account_act" where
  "account_ensureUnique svc user =
     (let second =
        handle (on_store (GetUserByNormalizedEmail (ao_Store svc) (u_NormalizedEmail user)))
          (\<lambda>e. if e \<noteq> ErrNotFound then fail (ErrStore e) else ret ())
          (\<lambda>existing. if u_Id existing \<noteq> u_Id user then fail ErrUserExists else ret ())
      in handle (on_store (GetUserByNormalizedUsername (ao_Store svc) (u_NormalizedUsername user)))
          (\<lambda>e. if e \<noteq> ErrNotFound then fail (ErrStore e) else second)
          (\<lambda>existing. if u_Id existing \<noteq> u_Id user then fail ErrUserExists else second))"

definition account_RevokeTokens :: "'s account_options \<Rightarrow> string \<Rightarrow> ('s, unit) account_act" where
  "account_RevokeTokens svc userId =
     (let filter = empty_filter\<lparr>tf_UserId := userId\<rparr>
      in andThen (store_call (DeleteRefreshTokens (ao_Store svc) filter)) (\<lambda>_.
         andThen (store_call (DeleteAccessTokens (ao_Store svc) filter)) (\<lambda>_. ret ())))"

definition account_createUserToken ::
  "'s account_options \<Rightarrow> user \<Rightarrow> string \<Rightarrow> duration \<Rightarrow> ('s, string) account_act" where
  "account_createUserToken svc user purpose lifetime =
     andThen (store_call (DeleteUserTokens (ao_Store svc) (u_Id user) purpose)) (\<lambda>_.
     andThen clock_now (\<lambda>now.
     andThen NewToken (\<lambda>token.
     andThen NewId (\<lambda>k.
     andThen (store_call (CreateUserToken (ao_Store svc)
       \<lparr>ut_Id = k, ut_UserId = u_Id user, ut_Purpose = purpose, ut_TokenHash = HashToken (ao_Lib svc) token,
        ut_CreatedAt = now, ut_ExpiresAt = now + lifetime\<rparr>)) (\<lambda>_.
     ret token)))))"

definition account_SendActivation :: "'s account_options \<Rightarrow> user \<Rightarrow> ('s, unit) account_act" where
  "account_SendActivation svc user =
     andThen (account_createUserToken svc user UserTokenPurposeActivation (ao_ActivationTokenLifetime svc)) (\<lambda>token.
     mapErr ErrMail (send_mail (ao_Mailer svc)
       (activationMessage (ao_Html svc) (ao_ApplicationName svc) user (ao_ActivationURL svc token)
         (ao_ActivationTokenLifetime svc))))"

record CreateUserInput =
  ci_Username :: string
  ci_Email :: string
  ci_Password :: string
  ci_EmailVerified :: bool
  ci_Enabled :: bool
  ci_SendActivation :: bool

text \<open>The user that \<open>CreateUser\<close> builds, normalized.\<close>

definition newUser :: "golib \<Rightarrow> CreateUserInput \<Rightarrow> time \<Rightarrow> string \<Rightarrow> string \<Rightarrow> user" where
  "newUser lib input now k stamp = user_Normalize lib
     \<lparr>u_Id = k, u_Username = ci_Username input, u_NormalizedUsername = '''', u_Email = ci_Email input,
      u_NormalizedEmail = '''', u_PasswordHash = '''', u_EmailVerified = ci_EmailVerified input,
      u_Enabled = ci_Enabled input, u_SecurityStamp = stamp, u_FailedLoginCount = 0, u_LockoutEnd = None,
      u_LastLoginAt = None, u_CreatedAt = now, u_UpdatedAt = now\<rparr>"

text \<open>The block of \<open>CreateUser\<close> that sets the password, if one is given.\<close>

definition withPassword :: "'s account_options \<Rightarrow> string \<Rightarrow> user \<Rightarrow> ('s, user) account_act" where
  "withPassword svc password user =
     (if password \<noteq> '''' then
        (case account_ValidatePassword svc password of Some e \<Rightarrow> fail (ErrValidation e) | None \<Rightarrow>
         andThen (mapErr ErrHasher (hash_secret (ao_Hasher svc) password)) (\<lambda>hash.
         ret (user\<lparr>u_PasswordHash := hash\<rparr>)))
      else ret user)"

definition account_CreateUser :: "'s account_options \<Rightarrow> CreateUserInput \<Rightarrow> ('s, user) account_act" where
  "account_CreateUser svc input =
     andThen clock_now (\<lambda>now.
     andThen NewId (\<lambda>k.
     andThen NewToken (\<lambda>stamp.
       let user0 = newUser (ao_Lib svc) input now k stamp in
       case user_Validate (ao_Lib svc) user0 of Some e \<Rightarrow> fail (ErrValidation e) | None \<Rightarrow>
       andThen (withPassword svc (ci_Password input) user0) (\<lambda>user.
       andThen (account_ensureUnique svc user) (\<lambda>_.
       andThen (renamed ErrDuplicate ErrUserExists (CreateUser (ao_Store svc) user)) (\<lambda>_.
       if ci_SendActivation input \<and> \<not> u_EmailVerified user
       then handle (account_SendActivation svc user) (\<lambda>_. ret user) (\<lambda>_. ret user)
       else ret user))))))"

definition account_Register :: "'s account_options \<Rightarrow> string \<Rightarrow> string \<Rightarrow> string \<Rightarrow> ('s, user) account_act" where
  "account_Register svc username email password =
     account_CreateUser svc
       \<lparr>ci_Username = username, ci_Email = email, ci_Password = password,
        ci_EmailVerified = (\<not> ao_RequireActivation svc), ci_Enabled = True,
        ci_SendActivation = ao_RequireActivation svc\<rparr>"

text \<open>The assignments of \<open>UpdateUser\<close> that an update can't change.\<close>

definition mergeUpdate :: "user \<Rightarrow> time \<Rightarrow> user \<Rightarrow> user" where
  "mergeUpdate current now user1 =
     (let user2 = user1\<lparr>u_PasswordHash := u_PasswordHash current, u_CreatedAt := u_CreatedAt current,
                        u_UpdatedAt := now\<rparr>
      in if u_SecurityStamp user2 = '''' then user2\<lparr>u_SecurityStamp := u_SecurityStamp current\<rparr> else user2)"

definition account_UpdateUser :: "'s account_options \<Rightarrow> user \<Rightarrow> ('s, user) account_act" where
  "account_UpdateUser svc user0 =
     andThen (account_GetUser svc (u_Id user0)) (\<lambda>current.
       let user1 = user_Normalize (ao_Lib svc) user0 in
       case user_Validate (ao_Lib svc) user1 of Some e \<Rightarrow> fail (ErrValidation e) | None \<Rightarrow>
       andThen (account_ensureUnique svc user1) (\<lambda>_.
       andThen clock_now (\<lambda>now.
       let user3 = mergeUpdate current now user1
       in andThen
         (if \<not> u_Enabled user3 \<and> u_Enabled current \<or> u_NormalizedEmail user3 \<noteq> u_NormalizedEmail current
          then andThen NewToken (\<lambda>stamp. ret (user3\<lparr>u_SecurityStamp := stamp\<rparr>))
          else ret user3) (\<lambda>user.
       andThen (mapErr (\<lambda>e. if e = ErrDuplicate then ErrUserExists
              else if e = ErrNotFound then ErrUserNotFound else ErrStore e)
         (on_store (UpdateUser (ao_Store svc) user))) (\<lambda>_.
       if \<not> u_Enabled user \<and> u_Enabled current
       then andThen (account_RevokeTokens svc (u_Id user)) (\<lambda>_. ret user)
       else ret user)))))"

definition account_DeleteUser :: "'s account_options \<Rightarrow> string \<Rightarrow> ('s, unit) account_act" where
  "account_DeleteUser svc k =
     andThen (renamed ErrNotFound ErrUserNotFound (DeleteUser (ao_Store svc) k)) (\<lambda>_.
     andThen (account_RevokeTokens svc k) (\<lambda>_.
     andThen (store_call (DeleteUserTokens (ao_Store svc) k UserTokenPurposeActivation)) (\<lambda>_.
     andThen (store_call (DeleteUserTokens (ao_Store svc) k UserTokenPurposePasswordReset)) (\<lambda>_. ret ()))))"

section \<open>Passwords\<close>

definition account_setPassword :: "'s account_options \<Rightarrow> user \<Rightarrow> string \<Rightarrow> ('s, user) account_act" where
  "account_setPassword svc user password =
     (case account_ValidatePassword svc password of Some e \<Rightarrow> fail (ErrValidation e) | None \<Rightarrow>
      andThen (mapErr ErrHasher (hash_secret (ao_Hasher svc) password)) (\<lambda>hash.
      andThen NewToken (\<lambda>stamp.
      andThen clock_now (\<lambda>now.
      let user1 = user\<lparr>u_PasswordHash := hash, u_SecurityStamp := stamp, u_FailedLoginCount := 0,
                       u_LockoutEnd := None, u_UpdatedAt := now\<rparr>
      in andThen (store_call (UpdateUser (ao_Store svc) user1)) (\<lambda>_.
         andThen (account_RevokeTokens svc (u_Id user1)) (\<lambda>_. ret user1))))))"

definition account_SetPassword :: "'s account_options \<Rightarrow> string \<Rightarrow> string \<Rightarrow> ('s, user) account_act" where
  "account_SetPassword svc userId password =
     andThen (account_GetUser svc userId) (\<lambda>user. account_setPassword svc user password)"

section \<open>Authentication\<close>

definition account_getDummyHash :: "'s account_options \<Rightarrow> ('s, string) account_act" where
  "account_getDummyHash svc =
     (\<lambda>w. case w_accountDummy w of
        Some h \<Rightarrow> (Inr h, w)
      | None \<Rightarrow>
          andThen NewToken (\<lambda>token.
          andThen (handle (hash_secret (ao_Hasher svc) token) (\<lambda>_. ret '''') ret) (\<lambda>h.
          \<lambda>w2. (Inr h, w2\<lparr>w_accountDummy := Some h\<rparr>))) w)"

text \<open>The user after a failed verification of the password, with lockout enabled.\<close>

definition failedLogin :: "'s account_options \<Rightarrow> time \<Rightarrow> user \<Rightarrow> user" where
  "failedLogin svc now user0 =
     (let user1 = user0\<lparr>u_FailedLoginCount := u_FailedLoginCount user0 + 1\<rparr>;
          user2 = (if ao_MaxFailedAttempts svc \<le> u_FailedLoginCount user1
                   then user1\<lparr>u_LockoutEnd := Some (now + ao_LockoutDuration svc), u_FailedLoginCount := 0\<rparr>
                   else user1)
      in user2\<lparr>u_UpdatedAt := now\<rparr>)"

definition account_Authenticate :: "'s account_options \<Rightarrow> string \<Rightarrow> string \<Rightarrow> ('s, user) account_act" where
  "account_Authenticate svc login password =
     andThen clock_now (\<lambda>now.
     handle (account_FindUser svc login)
       (\<lambda>e. if e = ErrUserNotFound
            then andThen (account_getDummyHash svc) (\<lambda>_. fail ErrInvalidCredentials) else fail e) (\<lambda>user.
     if IsLockedOut user now then fail ErrLockedOut
     else if u_PasswordHash user = '''' \<or> h_Verify (ao_Hasher svc) (u_PasswordHash user) password \<noteq> None then
       andThen (if u_PasswordHash user = '''' then andThen (account_getDummyHash svc) (\<lambda>_. ret ()) else ret ()) (\<lambda>_.
       if 0 < ao_MaxFailedAttempts svc
       then andThen (store_call (UpdateUser (ao_Store svc) (failedLogin svc now user))) (\<lambda>_. fail ErrInvalidCredentials)
       else fail ErrInvalidCredentials)
     else if \<not> u_Enabled user then fail ErrDisabled
     else if ao_RequireActivation svc \<and> \<not> u_EmailVerified user then fail ErrNotActivated
     else
       let user1 = user\<lparr>u_FailedLoginCount := 0, u_LockoutEnd := None, u_LastLoginAt := Some now, u_UpdatedAt := now\<rparr>
       in andThen (store_call (UpdateUser (ao_Store svc) user1)) (\<lambda>_. ret user1)))"

definition account_CanSignIn :: "'s account_options \<Rightarrow> user \<Rightarrow> account_error option" where
  "account_CanSignIn svc user =
     (if \<not> u_Enabled user then Some ErrDisabled
      else if ao_RequireActivation svc \<and> \<not> u_EmailVerified user then Some ErrNotActivated
      else None)"

section \<open>Email tokens\<close>

definition account_lookupUserToken ::
  "'s account_options \<Rightarrow> string \<Rightarrow> string \<Rightarrow> ('s, user_token \<times> user) account_act" where
  "account_lookupUserToken svc purpose token =
     (if token = '''' then fail ErrInvalidToken
      else andThen (renamed ErrNotFound ErrInvalidToken (GetUserTokenByHash (ao_Store svc) purpose (HashToken (ao_Lib svc) token))) (\<lambda>userToken.
      andThen clock_now (\<lambda>now.
      if user_token_HasExpired userToken now then fail ErrInvalidToken
      else andThen (renamed ErrNotFound ErrInvalidToken (GetUserById (ao_Store svc) (ut_UserId userToken))) (\<lambda>user.
      ret (userToken, user)))))"

definition account_ResendActivation :: "'s account_options \<Rightarrow> string \<Rightarrow> ('s, unit) account_act" where
  "account_ResendActivation svc email =
     handle (on_store (GetUserByNormalizedEmail (ao_Store svc) (NormalizeEmail (ao_Lib svc) email)))
       (\<lambda>e. if e = ErrNotFound then ret () else fail (ErrStore e)) (\<lambda>user.
     if u_EmailVerified user \<or> \<not> u_Enabled user then ret () else account_SendActivation svc user)"

definition account_Activate :: "'s account_options \<Rightarrow> string \<Rightarrow> ('s, user) account_act" where
  "account_Activate svc token =
     andThen (account_lookupUserToken svc UserTokenPurposeActivation token) (\<lambda>(userToken, user).
     andThen clock_now (\<lambda>now.
     let user1 = user\<lparr>u_EmailVerified := True, u_UpdatedAt := now\<rparr>
     in andThen (store_call (UpdateUser (ao_Store svc) user1)) (\<lambda>_.
        handle (on_store (DeleteUserToken (ao_Store svc) (ut_Id userToken)))
          (\<lambda>e. if e \<noteq> ErrNotFound then fail (ErrStore e) else ret user1) (\<lambda>_. ret user1))))"

definition account_RequestPasswordReset :: "'s account_options \<Rightarrow> string \<Rightarrow> ('s, unit) account_act" where
  "account_RequestPasswordReset svc email =
     handle (on_store (GetUserByNormalizedEmail (ao_Store svc) (NormalizeEmail (ao_Lib svc) email)))
       (\<lambda>e. if e = ErrNotFound then ret () else fail (ErrStore e)) (\<lambda>user.
     if \<not> u_Enabled user then ret ()
     else andThen (account_createUserToken svc user UserTokenPurposePasswordReset (ao_PasswordResetTokenLifetime svc)) (\<lambda>token.
       mapErr ErrMail (send_mail (ao_Mailer svc)
         (passwordResetMessage (ao_Html svc) (ao_ApplicationName svc) user (ao_PasswordResetURL svc token)
           (ao_PasswordResetTokenLifetime svc)))))"

definition account_VerifyPasswordResetToken :: "'s account_options \<Rightarrow> string \<Rightarrow> ('s, unit) account_act" where
  "account_VerifyPasswordResetToken svc token =
     andThen (account_lookupUserToken svc UserTokenPurposePasswordReset token) (\<lambda>(_, user).
     if \<not> u_Enabled user then fail ErrInvalidToken else ret ())"

definition account_ResetPassword :: "'s account_options \<Rightarrow> string \<Rightarrow> string \<Rightarrow> ('s, user) account_act" where
  "account_ResetPassword svc token password =
     (case account_ValidatePassword svc password of Some e \<Rightarrow> fail (ErrValidation e) | None \<Rightarrow>
      andThen (account_lookupUserToken svc UserTokenPurposePasswordReset token) (\<lambda>(_, user).
      if \<not> u_Enabled user then fail ErrInvalidToken
      else andThen (account_setPassword svc (user\<lparr>u_EmailVerified := True\<rparr>) password) (\<lambda>user1.
        andThen (store_call (DeleteUserTokens (ao_Store svc) (u_Id user1) UserTokenPurposePasswordReset)) (\<lambda>_.
        ret user1))))"

section \<open>Calls of the store\<close>

lemma renamed_ok [simp]: "renamed x y m w = (Inr v, w') \<longleftrightarrow> on_store m w = (Inr v, w')"
  by (simp add: renamed_def)

lemma store_call_ok [simp]: "store_call m w = (Inr v, w') \<longleftrightarrow> on_store m w = (Inr v, w')"
  by (simp add: store_call_def)

lemma preserves_store_call [preserves_rules]:
  "preserves P (on_store m) \<Longrightarrow> preserves P (store_call m)"
  "preserves P (on_store m) \<Longrightarrow> preserves P (renamed x y m)"
  by (simp_all add: store_call_def renamed_def preserves_mapErr)

lemma options_memory [simp]:
  "account_ValidatePassword (svc\<lparr>ao_Store := x\<rparr>) p = account_ValidatePassword svc p"
  "account_CanSignIn (svc\<lparr>ao_Store := x\<rparr>) u = account_CanSignIn svc u"
  by (simp_all add: account_ValidatePassword_def account_CanSignIn_def)

end
