(* ===== verification/Http.thy ===== *)
theory Http
  imports Effects Security "HOL-Library.Char_ord" "HOL-Library.List_Lexorder"
begin

text \<open>
  What the handlers use of \<open>net/http\<close>, \<open>net/url\<close>, \<open>encoding/base64\<close> and \<open>mime\<close>: requests as the values
  the library yields, form encoding, basic authentication, and responses as status, headers and body.
\<close>

section \<open>Forms\<close>

type_synonym url_values = "string list gomap"

definition values_get :: "url_values \<Rightarrow> string \<Rightarrow> string list" where
  "values_get vs name = (case map_of vs name of None \<Rightarrow> [] | Some v \<Rightarrow> v)"

text \<open>\<open>Values.Get\<close> and \<open>Values.Set\<close>.\<close>

definition Values_Get :: "url_values \<Rightarrow> string \<Rightarrow> string" where
  "Values_Get vs name = (case values_get vs name of [] \<Rightarrow> '''' | v # _ \<Rightarrow> v)"

definition Values_Set :: "url_values \<Rightarrow> string \<Rightarrow> string \<Rightarrow> url_values" where
  "Values_Set vs name v = AList.update name [v] vs"

definition upper_hex :: "nat \<Rightarrow> char" where
  "upper_hex n = (if n < 10 then char_of (48 + n) else char_of (55 + n))"

definition query_plain :: "char \<Rightarrow> bool" where
  "query_plain c \<longleftrightarrow>
     (let b = byte_of c
      in 65 \<le> b \<and> b \<le> 90 \<or> 97 \<le> b \<and> b \<le> 122 \<or> 48 \<le> b \<and> b \<le> 57 \<or> b = 45 \<or> b = 95 \<or> b = 46 \<or> b = 126)"

text \<open>\<open>url.QueryEscape\<close>.\<close>

definition escape_char :: "char \<Rightarrow> string" where
  "escape_char c =
     (if query_plain c then [c] else if c = CHR '' '' then ''+''
      else [CHR ''%'', upper_hex (byte_of c div 16), upper_hex (byte_of c mod 16)])"

definition query_escape :: "string \<Rightarrow> string" where
  "query_escape s = concat (map escape_char s)"

definition unhex :: "char \<Rightarrow> nat option" where
  "unhex c =
     (let b = byte_of c
      in if 48 \<le> b \<and> b \<le> 57 then Some (b - 48) else if 97 \<le> b \<and> b \<le> 102 then Some (b - 87)
         else if 65 \<le> b \<and> b \<le> 70 then Some (b - 55) else None)"

text \<open>\<open>url.QueryUnescape\<close>, \<^const>\<open>None\<close> for a malformed escape.\<close>

fun query_unescape :: "string \<Rightarrow> string option" where
  "query_unescape [] = Some []"
| "query_unescape (c # cs) =
     (if c = CHR ''%'' then
        (case cs of a # b # rest \<Rightarrow>
           (case (unhex a, unhex b) of (Some x, Some y) \<Rightarrow>
              (case query_unescape rest of None \<Rightarrow> None | Some r \<Rightarrow> Some (char_of (16 * x + y) # r))
            | _ \<Rightarrow> None)
         | _ \<Rightarrow> None)
      else if c = CHR ''+'' then (case query_unescape cs of None \<Rightarrow> None | Some r \<Rightarrow> Some (CHR '' '' # r))
      else (case query_unescape cs of None \<Rightarrow> None | Some r \<Rightarrow> Some (c # r)))"

text \<open>\<open>Values.Encode\<close>: the keys in order, the values of a key in the order they were added.\<close>

definition Values_Encode :: "url_values \<Rightarrow> string" where
  "Values_Encode vs =
     join ''&'' (concat (map (\<lambda>(k, v). map (\<lambda>x. query_escape k @ ''='' @ query_escape x) v) (sort_key fst vs)))"

text \<open>\<open>url.ParseQuery\<close>, what a receiver reads: the pairs in order, \<^const>\<open>None\<close> for a malformed pair.\<close>

fun parse_pairs :: "string list \<Rightarrow> (string \<times> string) list option" where
  "parse_pairs [] = Some []"
| "parse_pairs (p # ps) =
     (if p = '''' then parse_pairs ps
      else let (k, v) = (case cut_at CHR ''='' p of None \<Rightarrow> (p, '''') | Some kv \<Rightarrow> kv)
           in case (query_unescape k, query_unescape v, parse_pairs ps) of
                (Some k', Some v', Some r) \<Rightarrow> Some ((k', v') # r)
              | _ \<Rightarrow> None)"

definition parse_query :: "string \<Rightarrow> (string \<times> string) list option" where
  "parse_query s = parse_pairs (split_on CHR ''&'' s)"

section \<open>Base64 and basic authentication\<close>

definition b64std_value :: "char \<Rightarrow> nat option" where
  "b64std_value c =
     (if c = CHR ''+'' then Some 62 else if c = CHR ''/'' then Some 63
      else if c = CHR ''-'' \<or> c = CHR ''_'' then None else b64_value c)"

text \<open>\<open>base64.StdEncoding.DecodeString\<close>: newlines are ignored, padding is required.\<close>

definition b64std_decode :: "string \<Rightarrow> byte list option" where
  "b64std_decode s0 =
     (let s = filter (\<lambda>c. byte_of c \<noteq> 10 \<and> byte_of c \<noteq> 13) s0;
          body = (if has_suffix s ''=='' then take (length s - 2) s
                  else if has_suffix s ''='' then take (length s - 1) s else s);
          vs = map b64std_value body
      in if length s mod 4 \<noteq> 0 \<or> None \<in> set vs then None else b64_groups (map the vs))"

definition string_of_bytes :: "byte list \<Rightarrow> string" where
  "string_of_bytes bs = map (\<lambda>b. char_of (unat b)) bs"

text \<open>\<open>strings.EqualFold\<close> on ASCII letters without a non-ASCII fold, \<open>ascii.EqualFold\<close> of \<open>net/http\<close>.\<close>

definition equal_fold :: "string \<Rightarrow> string \<Rightarrow> bool" where
  "equal_fold a b \<longleftrightarrow> map ascii_lower a = map ascii_lower b"

text \<open>\<open>Request.BasicAuth\<close> on the value of the header, \<^const>\<open>None\<close> for \<open>ok = false\<close>.\<close>

definition parse_basic_auth :: "string \<Rightarrow> (string \<times> string) option" where
  "parse_basic_auth auth =
     (if length auth < 6 \<or> \<not> equal_fold (take 6 auth) ''Basic '' then None
      else case b64std_decode (drop 6 auth) of None \<Rightarrow> None
           | Some bs \<Rightarrow> cut_at CHR '':'' (string_of_bytes bs))"

section \<open>Requests and responses\<close>

text \<open>
  A request: method, the first values of three headers, and the results of \<open>ParseForm\<close>: \<^const>\<open>None\<close> when it
  fails (a malformed or too large body), else \<open>r.Form\<close> (query and body) and \<open>r.PostForm\<close> (body). Then the query
  (\<open>r.URL.Query()\<close>), what a failed \<open>ParseForm\<close> leaves in \<open>r.PostForm\<close>, and the cookies in order.
\<close>

record http_request =
  r_Method :: string
  r_ContentType :: string
  r_Authorization :: string
  r_ParseForm :: "(url_values \<times> url_values) option"
  r_Query :: url_values
  r_FailedForm :: url_values
  r_CSRFHeader :: string
  r_Cookies :: "(string \<times> string) list"

text \<open>\<open>r.PostForm\<close> after \<open>ParseForm\<close>.\<close>

definition PostForm :: "http_request \<Rightarrow> url_values" where
  "PostForm r = (case r_ParseForm r of Some (form, postForm) \<Rightarrow> postForm | None \<Rightarrow> r_FailedForm r)"

record 'b http_response =
  p_Status :: int
  p_Headers :: "(string \<times> string) list"
  p_Body :: 'b

definition form_type :: string where
  [simp]: "form_type = ''application/x-www-form-urlencoded''"

section \<open>Round trip of the query escaping\<close>

lemma unhex_upper_hex: "n < 16 \<Longrightarrow> unhex (upper_hex n) = Some n"
  by (auto simp: unhex_def upper_hex_def Let_def)

lemma byte_of_lt: "byte_of c < 256"
  by simp

lemma query_unescape_escape: "query_unescape (query_escape s) = Some s"
proof (induction s)
  case Nil
  show ?case by (simp add: query_escape_def)
next
  case (Cons c s)
  have split: "query_escape (c # s) = escape_char c @ query_escape s"
    by (simp add: query_escape_def)
  have plain: "query_plain c \<Longrightarrow> c \<noteq> CHR ''%'' \<and> c \<noteq> CHR ''+''"
    by (auto simp: query_plain_def Let_def)
  have lt: "byte_of c div 16 < 16" "byte_of c mod 16 < 16"
    using byte_of_lt [of c] less_mult_imp_div_less [of "byte_of c" 16 16] by simp_all
  have join: "char_of (16 * (byte_of c div 16) + byte_of c mod 16) = c"
    by simp
  show ?case
    unfolding split escape_char_def using Cons.IH plain lt join by (auto simp: unhex_upper_hex)
qed

lemma upper_hex_separator: "n < 16 \<Longrightarrow> upper_hex n \<noteq> CHR ''&'' \<and> upper_hex n \<noteq> CHR ''=''"
proof -
  assume n: "n < 16"
  have "unhex CHR ''&'' = None" "unhex CHR ''='' = None" by (simp_all add: unhex_def Let_def)
  with unhex_upper_hex [OF n] show ?thesis by (metis option.distinct(1))
qed

lemma query_escape_chars: "x \<in> set (query_escape s) \<Longrightarrow> x \<noteq> CHR ''&'' \<and> x \<noteq> CHR ''=''"
proof -
  assume "x \<in> set (query_escape s)"
  then obtain c where c: "x \<in> set (escape_char c)"
    unfolding query_escape_def by auto
  have plain: "query_plain c \<Longrightarrow> c \<noteq> CHR ''&'' \<and> c \<noteq> CHR ''=''"
    by (auto simp: query_plain_def Let_def)
  have lt: "byte_of c div 16 < 16" "byte_of c mod 16 < 16"
    using byte_of_lt [of c] less_mult_imp_div_less [of "byte_of c" 16 16] by simp_all
  from c plain upper_hex_separator [OF lt(1)] upper_hex_separator [OF lt(2)] show ?thesis
    by (auto simp: escape_char_def split: if_splits)
qed

lemma parse_pairs_escaped:
  "parse_pairs (map (\<lambda>(k, x). query_escape k @ ''='' @ query_escape x) ps) = Some ps"
proof (induction ps)
  case (Cons p ps)
  obtain k x where p: "p = (k, x)" by (cases p)
  have "CHR ''='' \<notin> set (query_escape k)" using query_escape_chars by blast
  then have "cut_at CHR ''='' (query_escape k @ CHR ''='' # query_escape x) = Some (query_escape k, query_escape x)"
    by (rule cut_at_append)
  with Cons.IH show ?case by (simp add: p query_unescape_escape)
qed simp

text \<open>What \<open>Encode\<close> writes is read back: all values, in the order of the keys.\<close>

lemma parse_query_Encode:
  "parse_query (Values_Encode vs) = Some (concat (map (\<lambda>(k, v). map (Pair k) v) (sort_key fst vs)))"
proof -
  let ?ps = "concat (map (\<lambda>(k, v). map (Pair k) v) (sort_key fst vs))"
  let ?f = "\<lambda>(k, x). query_escape k @ ''='' @ query_escape x"
  have eq: "concat (map (\<lambda>(k, v). map (\<lambda>x. query_escape k @ ''='' @ query_escape x) v) xs)
      = map ?f (concat (map (\<lambda>(k, v). map (Pair k) v) xs))" for xs
    by (induction xs) auto
  have sep: "\<forall>y \<in> set (map ?f qs). CHR ''&'' \<notin> set y" for qs
    using query_escape_chars by auto
  have enc: "Values_Encode vs = join ''&'' (map ?f ?ps)" by (simp only: Values_Encode_def eq)
  show ?thesis
  proof (cases ?ps)
    case Nil
    show ?thesis unfolding enc Nil by (simp add: parse_query_def)
  next
    case (Cons q qs)
    have "split_on CHR ''&'' (join ''&'' (map ?f ?ps)) = map ?f ?ps"
      by (rule split_on_join [OF _ sep]) (simp only: Cons list.map list.distinct not_False_eq_True)
    then show ?thesis unfolding enc parse_query_def by (simp only: parse_pairs_escaped)
  qed
qed

end
