(* ===== verification/OAuthBase.thy ===== *)
theory OAuthBase
  imports Account Http
begin

text \<open>
  Package \<open>pkg/oauth\<close>, files \<open>error.go\<close>, \<open>params.go\<close>, \<open>client_auth.go\<close> and \<open>server.go\<close>: OAuth errors,
  parameters, client authentication, the options, the registry of grant handlers and the metadata.
\<close>

section \<open>Errors\<close>

definition ErrorInvalidRequest :: string where [simp]: "ErrorInvalidRequest = ''invalid_request''"
definition ErrorInvalidClient :: string where [simp]: "ErrorInvalidClient = ''invalid_client''"
definition ErrorInvalidGrant :: string where [simp]: "ErrorInvalidGrant = ''invalid_grant''"
definition ErrorUnauthorizedClient :: string where [simp]: "ErrorUnauthorizedClient = ''unauthorized_client''"
definition ErrorUnsupportedGrantType :: string where [simp]: "ErrorUnsupportedGrantType = ''unsupported_grant_type''"
definition ErrorUnsupportedResponseType :: string where
  [simp]: "ErrorUnsupportedResponseType = ''unsupported_response_type''"
definition ErrorInvalidScope :: string where [simp]: "ErrorInvalidScope = ''invalid_scope''"
definition ErrorAccessDenied :: string where [simp]: "ErrorAccessDenied = ''access_denied''"
definition ErrorServerError :: string where [simp]: "ErrorServerError = ''server_error''"
definition ErrorTemporarilyUnavailable :: string where [simp]: "ErrorTemporarilyUnavailable = ''temporarily_unavailable''"
definition ErrorOAuthInvalidToken :: string where [simp]: "ErrorOAuthInvalidToken = ''invalid_token''"
definition ErrorInsufficientScope :: string where [simp]: "ErrorInsufficientScope = ''insufficient_scope''"

record oauth_error =
  oe_Code :: string
  oe_Description :: string
  oe_URI :: string
  oe_Status :: int

definition NewError :: "string \<Rightarrow> string \<Rightarrow> oauth_error" where
  "NewError code description =
     \<lparr>oe_Code = code, oe_Description = description, oe_URI = '''',
      oe_Status =
        (if code = ErrorInvalidClient \<or> code = ErrorOAuthInvalidToken then 401
         else if code = ErrorInsufficientScope \<or> code = ErrorAccessDenied then 403
         else if code = ErrorServerError then 500
         else if code = ErrorTemporarilyUnavailable then 503
         else 400)\<rparr>"

definition oauth_error_Error :: "oauth_error \<Rightarrow> string" where
  "oauth_error_Error e = (if oe_Description e = '''' then oe_Code e else oe_Code e @ '': '' @ oe_Description e)"

text \<open>The errors a grant handler returns: an OAuth error, or an error of a package it calls.\<close>

datatype grant_error = GOAuth oauth_error | GStore store_error | GAccount account_error | GOther string

definition AsError :: "grant_error \<Rightarrow> oauth_error" where
  "AsError err =
     (case err of GOAuth e \<Rightarrow> e
      | _ \<Rightarrow> NewError ErrorServerError ''the authorization server encountered an unexpected condition'')"

text \<open>\<open>serverError\<close> logs the error and converts it.\<close>

definition serverError :: "grant_error \<Rightarrow> oauth_error" where
  "serverError err = AsError err"

text \<open>\<open>WriteJSON\<close> and \<open>WriteError\<close>.\<close>

definition WriteJSON :: "(string \<times> string) list \<Rightarrow> int \<Rightarrow> 'b \<Rightarrow> 'b http_response" where
  "WriteJSON headers status value =
     \<lparr>p_Status = status,
      p_Headers = headers @ [(''Content-Type'', ''application/json;charset=UTF-8''), (''Cache-Control'', ''no-store''),
                             (''Pragma'', ''no-cache'')],
      p_Body = value\<rparr>"

definition WriteError :: "(oauth_error \<Rightarrow> 'b) \<Rightarrow> oauth_error \<Rightarrow> 'b http_response" where
  "WriteError body err =
     (let status = (if oe_Status err = 0 then 400 else oe_Status err)
      in WriteJSON
           (if oe_Code err = ErrorInvalidClient then [(''WWW-Authenticate'', ''Basic realm=\"oauth\"'')] else [])
           status (body err))"

section \<open>Parameters\<close>

definition Param :: "url_values \<Rightarrow> string \<Rightarrow> oauth_error + string" where
  "Param values name =
     (let v = values_get values name
      in if 1 < length v
         then Inl (NewError ErrorInvalidRequest (''the '' @ name @ '' parameter is included more than once''))
         else if length v = 1 then Inr (v ! 0)
         else Inr '''')"

definition RequiredParam :: "url_values \<Rightarrow> string \<Rightarrow> oauth_error + string" where
  "RequiredParam values name =
     (case Param values name of Inl e \<Rightarrow> Inl e
      | Inr v \<Rightarrow> if v = '''' then Inl (NewError ErrorInvalidRequest (''the '' @ name @ '' parameter is missing'')) else Inr v)"

definition parsePostForm :: "golib \<Rightarrow> http_request \<Rightarrow> oauth_error + url_values" where
  "parsePostForm lib r =
     (if r_Method r \<noteq> ''POST'' then Inl (NewError ErrorInvalidRequest ''the request method must be POST'')
      else if lib_parse_media_type lib (r_ContentType r) \<noteq> Some form_type
      then Inl (NewError ErrorInvalidRequest ''the content type must be application/x-www-form-urlencoded'')
      else case r_ParseForm r of
        None \<Rightarrow> Inl (NewError ErrorInvalidRequest ''the request body is malformed'')
      | Some (form, postForm) \<Rightarrow> Inr postForm)"

definition resolveScopes :: "client \<Rightarrow> string \<Rightarrow> oauth_error + string list" where
  "resolveScopes client scope =
     (if scope = '''' then Inr (c_DefaultScopes client)
      else let scopes = ParseScope scope in
        if \<not> ValidateScopeSyntax scopes then Inl (NewError ErrorInvalidScope ''the requested scope is malformed'')
        else if \<not> client_ValidateScopes client scopes
        then Inl (NewError ErrorInvalidScope ''the requested scope is not allowed for this client'')
        else Inr scopes)"

section \<open>Options, server and grants\<close>

definition TokenTypeBearer :: string where [simp]: "TokenTypeBearer = ''Bearer''"

text \<open>
  The part of \<open>Interaction\<close> with a result; the pages it renders are response bodies of the
  authorization endpoint.
\<close>

record 's interaction =
  in_CurrentUser :: "http_request \<Rightarrow> ('s world, grant_error, user option) act"
  in_VerifyConsent :: "http_request \<Rightarrow> bool"

record 's oauth_options =
  oo_Store :: "'s store_ops"
  oo_Accounts :: "'s account_options"
  oo_Hasher :: hasher
  oo_Interaction :: "'s interaction option"
  oo_Issuer :: string
  oo_BasePath :: string
  oo_TokenGenerator :: "access_token \<Rightarrow> client \<Rightarrow> user option \<Rightarrow> ('s world, grant_error, string) act"
  oo_ScopesSupported :: "string list"
  oo_Lib :: golib

definition OpaqueTokenGenerator :: "access_token \<Rightarrow> client \<Rightarrow> user option \<Rightarrow> ('s world, grant_error, string) act" where
  "OpaqueTokenGenerator token client user = NewToken"

record TokenResponse =
  tr_AccessToken :: string
  tr_TokenType :: string
  tr_ExpiresIn :: int
  tr_RefreshToken :: string
  tr_Scope :: string

record TokenRequest =
  tq_Client :: client
  tq_GrantType :: string
  tq_Form :: url_values
  tq_HTTPRequest :: http_request

type_synonym 's grant_handler = "TokenRequest \<Rightarrow> ('s world, grant_error, TokenResponse) act"

record 's server =
  sv_opts :: "'s oauth_options"
  sv_grants :: "'s grant_handler gomap"

definition RegisterGrant :: "string \<Rightarrow> 's grant_handler \<Rightarrow> 's server \<Rightarrow> 's server" where
  "RegisterGrant grantType handler s = s\<lparr>sv_grants := AList.update grantType handler (sv_grants s)\<rparr>"

text \<open>\<open>New\<close> up to the registration of the four grants, which it gets as a list in order.\<close>

definition server_New :: "(string \<times> ('s oauth_options \<Rightarrow> 's grant_handler)) list \<Rightarrow> 's oauth_options \<Rightarrow> 's server" where
  "server_New builtin opts0 =
     (let opts = opts0\<lparr>oo_BasePath := trim_suffix (oo_BasePath opts0) ''/'', oo_Issuer := trim_suffix (oo_Issuer opts0) ''/''\<rparr>
      in fold (\<lambda>(g, h) s. RegisterGrant g (h opts) s) builtin \<lparr>sv_opts = opts, sv_grants = []\<rparr>)"

record Metadata =
  md_Issuer :: string
  md_AuthorizationEndpoint :: string
  md_TokenEndpoint :: string
  md_RevocationEndpoint :: string
  md_IntrospectionEndpoint :: string
  md_ScopesSupported :: "string list"
  md_ResponseTypesSupported :: "string list"
  md_GrantTypesSupported :: "string list"
  md_TokenEndpointAuthMethodsSupported :: "string list"
  md_CodeChallengeMethodsSupported :: "string list"

definition server_Metadata :: "'s server \<Rightarrow> Metadata" where
  "server_Metadata s =
     (let issuer = oo_Issuer (sv_opts s)
      in \<lparr>md_Issuer = issuer,
          md_AuthorizationEndpoint = (if oo_Interaction (sv_opts s) \<noteq> None then issuer @ ''/authorize'' else ''''),
          md_TokenEndpoint = issuer @ ''/token'',
          md_RevocationEndpoint = issuer @ ''/revoke'',
          md_IntrospectionEndpoint = issuer @ ''/introspect'',
          md_ScopesSupported = oo_ScopesSupported (sv_opts s),
          md_ResponseTypesSupported = [ResponseTypeCode, ResponseTypeToken],
          md_GrantTypesSupported = sort (GrantTypeImplicit # map fst (sv_grants s)),
          md_TokenEndpointAuthMethodsSupported = [''client_secret_basic'', ''client_secret_post'', ''none''],
          md_CodeChallengeMethodsSupported = [CodeChallengeMethodS256, CodeChallengeMethodPlain]\<rparr>)"

definition HandleMetadata :: "'s server \<Rightarrow> Metadata http_response" where
  "HandleMetadata s = WriteJSON [] 200 (server_Metadata s)"

section \<open>Actions of the server\<close>

text \<open>A call of a pure function that returns an error or a value.\<close>

definition lift :: "'e + 'a \<Rightarrow> ('s, 'e, 'a) act" where
  "lift x = (case x of Inl e \<Rightarrow> fail e | Inr y \<Rightarrow> ret y)"

lemma lift_eq [simp]: "lift x w = (r, w') \<longleftrightarrow> r = x \<and> w' = w"
  by (cases x) (auto simp: lift_def)

lemma preserves_lift [preserves_rules]: "preserves P (lift x)"
  by (rule preservesI) simp

section \<open>Client authentication\<close>

definition dummySecret :: "'s oauth_options \<Rightarrow> ('s world, 'e, string) act" where
  "dummySecret opts =
     (\<lambda>w. case w_oauthDummy w of
        Some h \<Rightarrow> (Inr h, w)
      | None \<Rightarrow>
          andThen NewToken (\<lambda>token.
          andThen (handle (hash_secret (oo_Hasher opts) token) (\<lambda>_. ret '''') ret) (\<lambda>h.
          \<lambda>w2. (Inr h, w2\<lparr>w_oauthDummy := Some h\<rparr>))) w)"

text \<open>The block of \<open>AuthenticateClient\<close> for the header: client id, secret and \<open>usedBasic\<close>.\<close>

definition basicCredentials ::
  "golib \<Rightarrow> string \<Rightarrow> string \<Rightarrow> string \<Rightarrow> oauth_error + string \<times> string \<times> bool" where
  "basicCredentials lib header clientId clientSecret =
     (if header = '''' then Inr (clientId, clientSecret, False)
      else if \<not> has_prefix (to_lower (lib_unicode_lower lib) header) ''basic ''
      then Inl (NewError ErrorInvalidClient ''unsupported client authentication method'')
      else case parse_basic_auth header of
        None \<Rightarrow> Inl (NewError ErrorInvalidClient ''malformed basic authentication header'')
      | Some (basicId, basicSecret) \<Rightarrow>
          (case (query_unescape basicId, query_unescape basicSecret) of
             (Some id', Some secret) \<Rightarrow>
               if clientSecret \<noteq> ''''
               then Inl (NewError ErrorInvalidRequest ''the client must not use more than one authentication method'')
               else if clientId \<noteq> '''' \<and> clientId \<noteq> id'
               then Inl (NewError ErrorInvalidRequest (''the client_id parameter doesn'' @ [CHR 0x27] @ ''t match the authenticated client''))
               else Inr (id', secret, True)
           | _ \<Rightarrow> Inl (NewError ErrorInvalidClient ''malformed basic authentication header'')))"

definition AuthenticateClient :: "'s oauth_options \<Rightarrow> http_request \<Rightarrow> url_values \<Rightarrow> ('s world, oauth_error, client) act" where
  "AuthenticateClient opts r form =
     andThen (lift (Param form ''client_id'')) (\<lambda>clientId0.
     andThen (lift (Param form ''client_secret'')) (\<lambda>clientSecret0.
     andThen (lift (basicCredentials (oo_Lib opts) (r_Authorization r) clientId0 clientSecret0)) (\<lambda>(clientId, clientSecret, usedBasic).
     let failed = fail (NewError ErrorInvalidClient ''client authentication failed'');
         unknown = (if clientSecret \<noteq> '''' then andThen (dummySecret opts) (\<lambda>_. failed) else failed)
     in if clientId = '''' then fail (NewError ErrorInvalidClient ''client authentication is required'')
        else handle (on_store (GetClientByClientId (oo_Store opts) clientId))
          (\<lambda>e. if e \<noteq> ErrNotFound then fail (serverError (GStore e)) else unknown) (\<lambda>client.
        if \<not> c_Enabled client then unknown
        else if client_IsPublic client then
          (if usedBasic \<or> clientSecret \<noteq> ''''
           then fail (NewError ErrorInvalidClient (''public clients can'' @ [CHR 0x27] @ ''t authenticate with a secret''))
           else ret client)
        else if clientSecret = '''' \<or> c_SecretHash client = ''''
                \<or> h_Verify (oo_Hasher opts) (c_SecretHash client) clientSecret \<noteq> None
        then failed
        else ret client))))"

end
