(* ===== verification/OAuthToken.thy ===== *)
theory OAuthToken
  imports OAuthBase
begin

text \<open>
  Package \<open>pkg/oauth\<close>, files \<open>token.go\<close> and \<open>grants.go\<close>: the token endpoint, the issuing of tokens and the
  four grants. \<open>(time.Time).Sub(\<dots>).Seconds()\<close> cut to an integer is \<^const>\<open>whole_seconds\<close>.
\<close>

section \<open>Issuing tokens\<close>

record IssueOptions =
  io_RefreshToken :: bool
  io_AuthorizationCodeId :: string

abbreviation gstore :: "('s, store_error, 'a) act \<Rightarrow> ('s world, grant_error, 'a) act" where
  "gstore m \<equiv> mapErr GStore (on_store m)"

definition createAccessToken ::
  "'s oauth_options \<Rightarrow> client \<Rightarrow> user option \<Rightarrow> string list \<Rightarrow> string \<Rightarrow>
   ('s world, grant_error, access_token \<times> string) act" where
  "createAccessToken opts client user scopes codeId =
     (let lifetime = (if c_AccessTokenLifetime client \<le> 0 then DefaultAccessTokenLifetime else c_AccessTokenLifetime client)
      in andThen clock_now (\<lambda>now.
         andThen NewId (\<lambda>k.
         let token = \<lparr>at_Id = k, at_TokenHash = '''', at_ClientId = c_Id client,
                      at_UserId = (case user of None \<Rightarrow> '''' | Some u \<Rightarrow> u_Id u), at_Scopes = scopes,
                      at_AuthorizationCodeId = codeId, at_CreatedAt = now, at_ExpiresAt = now + lifetime\<rparr>
         in andThen (oo_TokenGenerator opts token client user) (\<lambda>value.
            let token' = token\<lparr>at_TokenHash := HashToken (oo_Lib opts) value\<rparr>
            in andThen (gstore (CreateAccessToken (oo_Store opts) token')) (\<lambda>_. ret (token', value))))))"

definition newRefreshToken :: "client \<Rightarrow> access_token \<Rightarrow> ('s world, grant_error, refresh_token) act" where
  "newRefreshToken client accessToken =
     (let lifetime = (if c_RefreshTokenLifetime client \<le> 0 then DefaultRefreshTokenLifetime else c_RefreshTokenLifetime client)
      in andThen clock_now (\<lambda>now.
         andThen NewId (\<lambda>k.
         ret \<lparr>rt_Id = k, rt_TokenHash = '''', rt_ClientId = c_Id client, rt_UserId = at_UserId accessToken,
              rt_AccessTokenId = at_Id accessToken, rt_AuthorizationCodeId = at_AuthorizationCodeId accessToken,
              rt_Scopes = at_Scopes accessToken, rt_TokenExpiration = c_RefreshTokenExpiration client,
              rt_TokenUsage = c_RefreshTokenUsage client, rt_Lifetime = lifetime, rt_CreatedAt = now,
              rt_UpdatedAt = now, rt_ExpiresAt = now + lifetime\<rparr>)))"

definition storeRefreshToken :: "'s oauth_options \<Rightarrow> refresh_token \<Rightarrow> ('s world, grant_error, string) act" where
  "storeRefreshToken opts token =
     andThen NewToken (\<lambda>value.
     andThen (gstore (CreateRefreshToken (oo_Store opts) (token\<lparr>rt_TokenHash := HashToken (oo_Lib opts) value\<rparr>))) (\<lambda>_.
     ret value))"

definition IssueTokens ::
  "'s oauth_options \<Rightarrow> client \<Rightarrow> user option \<Rightarrow> string list \<Rightarrow> IssueOptions \<Rightarrow> ('s world, grant_error, TokenResponse) act" where
  "IssueTokens opts client user scopes iopts =
     andThen (createAccessToken opts client user scopes (io_AuthorizationCodeId iopts)) (\<lambda>(accessToken, value).
     let response = \<lparr>tr_AccessToken = value, tr_TokenType = TokenTypeBearer,
                     tr_ExpiresIn = whole_seconds (at_ExpiresAt accessToken - at_CreatedAt accessToken),
                     tr_RefreshToken = '''', tr_Scope = FormatScope scopes\<rparr>
     in if io_RefreshToken iopts \<and> ValidateGrantType client GrantTypeRefreshToken
        then andThen (newRefreshToken client accessToken) (\<lambda>refreshToken.
             andThen (storeRefreshToken opts refreshToken) (\<lambda>refreshValue.
             ret (response\<lparr>tr_RefreshToken := refreshValue\<rparr>)))
        else ret response)"

definition RevokeGrant :: "'s oauth_options \<Rightarrow> string \<Rightarrow> ('s world, grant_error, unit) act" where
  "RevokeGrant opts authorizationCodeId =
     (let filter = empty_filter\<lparr>tf_AuthorizationCodeId := authorizationCodeId\<rparr>
      in andThen (gstore (DeleteRefreshTokens (oo_Store opts) filter)) (\<lambda>_.
         andThen (gstore (DeleteAccessTokens (oo_Store opts) filter)) (\<lambda>_. ret ())))"

definition lookupUser :: "'s oauth_options \<Rightarrow> string \<Rightarrow> ('s world, grant_error, user) act" where
  "lookupUser opts userId =
     andThen (mapErr (\<lambda>e. if e = ErrNotFound
                          then GOAuth (NewError ErrorInvalidGrant (''the resource owner doesn'' @ [CHR 0x27] @ ''t exist''))
                          else GStore e)
       (on_store (GetUserById (oo_Store opts) userId))) (\<lambda>user.
     if account_CanSignIn (oo_Accounts opts) user \<noteq> None
     then fail (GOAuth (NewError ErrorInvalidGrant ''the resource owner account is not active''))
     else ret user)"

definition rotatedExpiresAt :: "refresh_token \<Rightarrow> time \<Rightarrow> time" where
  "rotatedExpiresAt old now =
     (if rt_TokenExpiration old = RefreshTokenExpirationAbsolute then rt_ExpiresAt old else now + rt_Lifetime old)"

section \<open>The authorization code grant\<close>

abbreviation invalid_grant :: "string \<Rightarrow> grant_error" where
  "invalid_grant msg \<equiv> GOAuth (NewError ErrorInvalidGrant msg)"

abbreviation gparam :: "oauth_error + 'a \<Rightarrow> ('s world, grant_error, 'a) act" where
  "gparam x \<equiv> mapErr GOAuth (lift x)"

text \<open>The checks between the lookup of a code and its consumption: \<^const>\<open>None\<close> when the code may be used.\<close>

definition checkCode :: "golib \<Rightarrow> client \<Rightarrow> authorization_code \<Rightarrow> time \<Rightarrow> string \<Rightarrow> string \<Rightarrow> oauth_error option" where
  "checkCode lib client code now redirectUri codeVerifier =
     (if code_HasExpired code now then Some (NewError ErrorInvalidGrant ''the authorization code has expired'')
      else if ac_RedirectUri code \<noteq> '''' \<and> \<not> code_ValidateRedirectUri code redirectUri
           \<or> ac_RedirectUri code = '''' \<and> redirectUri \<noteq> '''' \<and> \<not> client_ValidateRedirectUri client redirectUri
      then Some (NewError ErrorInvalidGrant (''the redirect_uri doesn'' @ [CHR 0x27] @ ''t match the authorization request''))
      else if ac_CodeChallenge code \<noteq> '''' then
        (if codeVerifier = '''' then Some (NewError ErrorInvalidGrant ''the code_verifier parameter is missing'')
         else if \<not> VerifyCodeChallenge lib (ac_CodeChallenge code) (ac_CodeChallengeMethod code) codeVerifier
         then Some (NewError ErrorInvalidGrant (''the code_verifier doesn'' @ [CHR 0x27] @ ''t match the code_challenge''))
         else None)
      else if codeVerifier \<noteq> ''''
      then Some (NewError ErrorInvalidGrant (''the authorization request didn'' @ [CHR 0x27] @ ''t include a code_challenge''))
      else None)"

definition authorizationCodeGrant :: "'s oauth_options \<Rightarrow> 's grant_handler" where
  "authorizationCodeGrant opts req =
     andThen (gparam (RequiredParam (tq_Form req) ''code'')) (\<lambda>codeValue.
     andThen (gparam (Param (tq_Form req) ''redirect_uri'')) (\<lambda>redirectUri.
     andThen (gparam (Param (tq_Form req) ''code_verifier'')) (\<lambda>codeVerifier.
     andThen (mapErr (\<lambda>e. if e = ErrNotFound then invalid_grant ''the authorization code is invalid'' else GStore e)
       (on_store (GetAuthorizationCodeByHash (oo_Store opts) (HashToken (oo_Lib opts) codeValue)))) (\<lambda>code.
     if ac_ClientId code \<noteq> c_Id (tq_Client req)
     then fail (invalid_grant ''the authorization code was issued to another client'')
     else andThen clock_now (\<lambda>now.
     if IsConsumed code
     then andThen (RevokeGrant opts (ac_Id code)) (\<lambda>_. fail (invalid_grant ''the authorization code was already used''))
     else case checkCode (oo_Lib opts) (tq_Client req) code now redirectUri codeVerifier of Some e \<Rightarrow> fail (GOAuth e) | None \<Rightarrow>
     handle (on_store (ConsumeAuthorizationCode (oo_Store opts) (ac_Id code) now))
       (\<lambda>e. if e = ErrConflict
            then andThen (RevokeGrant opts (ac_Id code)) (\<lambda>_. fail (invalid_grant ''the authorization code was already used''))
            else if e = ErrNotFound then fail (invalid_grant ''the authorization code is invalid'')
            else fail (GStore e)) (\<lambda>_.
     andThen (lookupUser opts (ac_UserId code)) (\<lambda>user.
     IssueTokens opts (tq_Client req) (Some user) (ac_Scopes code)
       \<lparr>io_RefreshToken = True, io_AuthorizationCodeId = ac_Id code\<rparr>)))))))"

section \<open>The password and client credentials grants\<close>

definition passwordError :: "account_error \<Rightarrow> grant_error" where
  "passwordError e =
     (if e = ErrInvalidCredentials then invalid_grant ''invalid username or password''
      else if e = ErrLockedOut then invalid_grant ''the account is temporarily locked''
      else if e = ErrDisabled \<or> e = ErrNotActivated then invalid_grant ''the account is not active''
      else GAccount e)"

definition passwordGrant :: "'s oauth_options \<Rightarrow> 's grant_handler" where
  "passwordGrant opts req =
     andThen (gparam (RequiredParam (tq_Form req) ''username'')) (\<lambda>username.
     andThen (gparam (RequiredParam (tq_Form req) ''password'')) (\<lambda>password.
     andThen (gparam (Param (tq_Form req) ''scope'')) (\<lambda>scope.
     andThen (gparam (resolveScopes (tq_Client req) scope)) (\<lambda>scopes.
     andThen (mapErr passwordError (account_Authenticate (oo_Accounts opts) username password)) (\<lambda>user.
     IssueTokens opts (tq_Client req) (Some user) scopes \<lparr>io_RefreshToken = True, io_AuthorizationCodeId = ''''\<rparr>)))))"

definition clientCredentialsGrant :: "'s oauth_options \<Rightarrow> 's grant_handler" where
  "clientCredentialsGrant opts req =
     (if client_IsPublic (tq_Client req)
      then fail (GOAuth (NewError ErrorUnauthorizedClient (''public clients can'' @ [CHR 0x27] @ ''t use the client credentials grant'')))
      else andThen (gparam (Param (tq_Form req) ''scope'')) (\<lambda>scope.
        andThen (gparam (resolveScopes (tq_Client req) scope)) (\<lambda>scopes.
        IssueTokens opts (tq_Client req) None scopes \<lparr>io_RefreshToken = False, io_AuthorizationCodeId = ''''\<rparr>)))"

section \<open>The refresh token grant\<close>

text \<open>The scope of the new access token: the scope of the refresh token, or a part of it.\<close>

definition refreshScopes :: "client \<Rightarrow> refresh_token \<Rightarrow> string \<Rightarrow> oauth_error + string list" where
  "refreshScopes client refreshToken scope =
     (let scopes = (if scope \<noteq> '''' then ParseScope scope else rt_Scopes refreshToken)
      in if scope \<noteq> '''' \<and> \<not> ValidateScopeSyntax scopes
         then Inl (NewError ErrorInvalidScope ''the requested scope is malformed'')
         else if scope \<noteq> '''' \<and> \<not> refresh_token_ValidateScopes refreshToken scopes
         then Inl (NewError ErrorInvalidScope ''the requested scope exceeds the scope granted by the resource owner'')
         else if \<not> client_ValidateScopes client scopes
         then Inl (NewError ErrorInvalidScope ''the requested scope is not allowed for this client'')
         else Inr scopes)"

text \<open>The block that replaces (one-time) or updates (reuse) the refresh token.\<close>

definition renewRefreshToken ::
  "'s oauth_options \<Rightarrow> refresh_token \<Rightarrow> access_token \<Rightarrow> time \<Rightarrow> ('s world, grant_error, string) act" where
  "renewRefreshToken opts refreshToken accessToken now =
     (if rt_TokenUsage refreshToken = RefreshTokenUsageOneTime then
        handle (on_store (DeleteRefreshToken (oo_Store opts) (rt_Id refreshToken)))
          (\<lambda>e. if e = ErrNotFound
               then handle (on_store (DeleteAccessToken (oo_Store opts) (at_Id accessToken)))
                      (\<lambda>_. fail (invalid_grant ''the refresh token is invalid''))
                      (\<lambda>_. fail (invalid_grant ''the refresh token is invalid''))
               else fail (GStore e)) (\<lambda>_.
        andThen NewId (\<lambda>k.
        storeRefreshToken opts
          \<lparr>rt_Id = k, rt_TokenHash = '''', rt_ClientId = rt_ClientId refreshToken, rt_UserId = rt_UserId refreshToken,
           rt_AccessTokenId = at_Id accessToken, rt_AuthorizationCodeId = rt_AuthorizationCodeId refreshToken,
           rt_Scopes = rt_Scopes refreshToken, rt_TokenExpiration = rt_TokenExpiration refreshToken,
           rt_TokenUsage = rt_TokenUsage refreshToken, rt_Lifetime = rt_Lifetime refreshToken, rt_CreatedAt = now,
           rt_UpdatedAt = now, rt_ExpiresAt = rotatedExpiresAt refreshToken now\<rparr>))
      else
        andThen (gstore (UpdateRefreshToken (oo_Store opts)
          (Touch (refreshToken\<lparr>rt_AccessTokenId := at_Id accessToken\<rparr>) now))) (\<lambda>_. ret ''''))"

definition refreshTokenGrant :: "'s oauth_options \<Rightarrow> 's grant_handler" where
  "refreshTokenGrant opts req =
     andThen (gparam (RequiredParam (tq_Form req) ''refresh_token'')) (\<lambda>value.
     andThen (gparam (Param (tq_Form req) ''scope'')) (\<lambda>scope.
     andThen (mapErr (\<lambda>e. if e = ErrNotFound then invalid_grant ''the refresh token is invalid'' else GStore e)
       (on_store (GetRefreshTokenByHash (oo_Store opts) (HashToken (oo_Lib opts) value)))) (\<lambda>refreshToken.
     if rt_ClientId refreshToken \<noteq> c_Id (tq_Client req)
     then fail (invalid_grant ''the refresh token was issued to another client'')
     else andThen clock_now (\<lambda>now.
     if refresh_token_HasExpired refreshToken now then fail (invalid_grant ''the refresh token has expired'')
     else andThen (gparam (refreshScopes (tq_Client req) refreshToken scope)) (\<lambda>scopes.
     andThen (if rt_UserId refreshToken \<noteq> ''''
              then andThen (lookupUser opts (rt_UserId refreshToken)) (\<lambda>u. ret (Some u)) else ret None) (\<lambda>user.
     andThen (if rt_AccessTokenId refreshToken \<noteq> ''''
              then handle (on_store (DeleteAccessToken (oo_Store opts) (rt_AccessTokenId refreshToken)))
                     (\<lambda>e. if e \<noteq> ErrNotFound then fail (GStore e) else ret ()) ret
              else ret ()) (\<lambda>_.
     andThen (createAccessToken opts (tq_Client req) user scopes (rt_AuthorizationCodeId refreshToken)) (\<lambda>(accessToken, accessValue).
     andThen (renewRefreshToken opts refreshToken accessToken now) (\<lambda>refreshValue.
     ret \<lparr>tr_AccessToken = accessValue, tr_TokenType = TokenTypeBearer,
          tr_ExpiresIn = whole_seconds (at_ExpiresAt accessToken - at_CreatedAt accessToken),
          tr_RefreshToken = refreshValue, tr_Scope = FormatScope scopes\<rparr>)))))))))"

section \<open>The token endpoint\<close>

text \<open>The handlers \<open>New\<close> registers, in order.\<close>

definition builtinGrants :: "(string \<times> ('s oauth_options \<Rightarrow> 's grant_handler)) list" where
  "builtinGrants =
     [(GrantTypeAuthorizationCode, authorizationCodeGrant), (GrantTypePassword, passwordGrant),
      (GrantTypeClientCredentials, clientCredentialsGrant), (GrantTypeRefreshToken, refreshTokenGrant)]"

definition NewServer :: "'s oauth_options \<Rightarrow> 's server" where
  "NewServer opts = server_New builtinGrants opts"

definition token :: "'s server \<Rightarrow> http_request \<Rightarrow> ('s world, oauth_error, TokenResponse) act" where
  "token s r =
     andThen (lift (parsePostForm (oo_Lib (sv_opts s)) r)) (\<lambda>form.
     andThen (AuthenticateClient (sv_opts s) r form) (\<lambda>client.
     andThen (lift (RequiredParam form ''grant_type'')) (\<lambda>grantType.
     case map_of (sv_grants s) grantType of
       None \<Rightarrow> fail (NewError ErrorUnsupportedGrantType ''the grant type is not supported'')
     | Some handler \<Rightarrow>
         if \<not> ValidateGrantType client grantType
         then fail (NewError ErrorUnauthorizedClient ''the client is not authorized to use this grant type'')
         else mapErr serverError
           (handler \<lparr>tq_Client = client, tq_GrantType = grantType, tq_Form = form, tq_HTTPRequest = r\<rparr>))))"

datatype token_body = TokenBody TokenResponse | TokenErrorBody oauth_error

definition HandleToken :: "'s server \<Rightarrow> http_request \<Rightarrow> ('s world, unit, token_body http_response) act" where
  "HandleToken s r =
     handle (token s r) (\<lambda>e. ret (WriteError TokenErrorBody e)) (\<lambda>response. ret (WriteJSON [] 200 (TokenBody response)))"

end
