(* ===== verification/MemoryStore.thy ===== *)
theory MemoryStore
  imports StoreSpec
begin

text \<open>
  Package \<open>pkg/store/memory\<close>: the in-memory store. Each of the six Go maps is an association list
  with distinct keys; a \<open>range\<close> loop visits it in list order. Every operation of the source holds
  the mutex for its whole body, so it is one atomic step on the state. The clone functions of the
  source keep stored values apart from the caller's pointers; values need no copies here. The
  Unicode part of \<open>strings.ToLower\<close> is the parameter \<open>ul\<close>.
\<close>

section \<open>State and loops\<close>

record mem =
  m_clients :: "client gomap"
  m_users :: "user gomap"
  m_accessTokens :: "access_token gomap"
  m_refreshTokens :: "refresh_token gomap"
  m_authorizationCodes :: "authorization_code gomap"
  m_userTokens :: "user_token gomap"

definition mem_New :: mem where
  "mem_New = \<lparr>m_clients = [], m_users = [], m_accessTokens = [], m_refreshTokens = [],
              m_authorizationCodes = [], m_userTokens = []\<rparr>"

text \<open>The three kinds of loops over a map: first match, does any match, delete and count.\<close>

definition range_find :: "('v \<Rightarrow> bool) \<Rightarrow> 'v gomap \<Rightarrow> 'v option" where
  "range_find P m = map_option snd (find (\<lambda>(k, v). P v) m)"

definition range_exists :: "('v \<Rightarrow> bool) \<Rightarrow> 'v gomap \<Rightarrow> bool" where
  "range_exists P m = list_ex (\<lambda>(k, v). P v) m"

fun range_delete :: "('v \<Rightarrow> bool) \<Rightarrow> 'v gomap \<Rightarrow> nat \<times> 'v gomap" where
  "range_delete P [] = (0, [])"
| "range_delete P ((k, v) # m) =
     (let (n, m') = range_delete P m in if P v then (n + 1, m') else (n, (k, v) # m'))"

text \<open>Generic function \<open>page\<close>; the sort is by creation time, then id.\<close>

definition page :: "'v list \<Rightarrow> ('v \<Rightarrow> time \<times> string) \<Rightarrow> ListOptions \<Rightarrow> 'v list \<times> nat" where
  "page items0 key opts0 =
     (let opts = ListOptions_Normalize opts0;
          items = sort_key key items0;
          total = length items
      in if int total \<le> lo_Offset opts then ([], total)
         else let stop = lo_Offset opts + lo_Limit opts;
                  top = (if int total < stop then int total else stop)
              in (take (nat (top - lo_Offset opts)) (drop (nat (lo_Offset opts)) items), total))"

section \<open>Clients\<close>

definition mem_ListClients :: "ListOptions \<Rightarrow> (mem, store_error, client list \<times> nat) act" where
  "mem_ListClients opts =
     (\<lambda>s. (Inr (page (map snd (m_clients s)) (\<lambda>c. (c_CreatedAt c, c_Id c)) opts), s))"

definition mem_GetClientById :: "string \<Rightarrow> (mem, store_error, client) act" where
  "mem_GetClientById k =
     (\<lambda>s. case map_of (m_clients s) k of
       None \<Rightarrow> (Inl ErrNotFound, s)
     | Some x \<Rightarrow> (Inr x, s))"

definition mem_GetClientByClientId :: "string \<Rightarrow> (mem, store_error, client) act" where
  "mem_GetClientByClientId clientId =
     (\<lambda>s. case range_find (\<lambda>x. c_ClientId x = clientId) (m_clients s) of
       Some x \<Rightarrow> (Inr x, s)
     | None \<Rightarrow> (Inl ErrNotFound, s))"

definition clientIdTaken :: "mem \<Rightarrow> string \<Rightarrow> string \<Rightarrow> bool" where
  "clientIdTaken s clientId exceptId =
     range_exists (\<lambda>c. c_ClientId c = clientId \<and> c_Id c \<noteq> exceptId) (m_clients s)"

definition mem_CreateClient :: "client \<Rightarrow> (mem, store_error, unit) act" where
  "mem_CreateClient x =
     (\<lambda>s. if map_of (m_clients s) (c_Id x) \<noteq> None \<or> clientIdTaken s (c_ClientId x) ''''
          then (Inl ErrDuplicate, s)
          else (Inr (), s\<lparr>m_clients := AList.update (c_Id x) x (m_clients s)\<rparr>))"

definition mem_UpdateClient :: "client \<Rightarrow> (mem, store_error, unit) act" where
  "mem_UpdateClient x =
     (\<lambda>s. if map_of (m_clients s) (c_Id x) = None then (Inl ErrNotFound, s)
          else if clientIdTaken s (c_ClientId x) (c_Id x) then (Inl ErrDuplicate, s)
          else (Inr (), s\<lparr>m_clients := AList.update (c_Id x) x (m_clients s)\<rparr>))"

definition mem_DeleteClient :: "string \<Rightarrow> (mem, store_error, unit) act" where
  "mem_DeleteClient k =
     (\<lambda>s. if map_of (m_clients s) k = None then (Inl ErrNotFound, s)
          else (Inr (), s\<lparr>m_clients := AList.delete k (m_clients s)\<rparr>))"

section \<open>Users\<close>

definition mem_ListUsers :: "(string \<Rightarrow> string) \<Rightarrow> UserFilter \<Rightarrow> ListOptions \<Rightarrow> (mem, store_error, user list \<times> nat) act" where
  "mem_ListUsers ul f opts =
     (\<lambda>s.
       let search = to_lower ul (uf_Search f);
           items = map snd (filter (\<lambda>(k, u). \<not> (search \<noteq> '''' \<and> \<not> contains_str (u_NormalizedUsername u) search
                                             \<and> \<not> contains_str (u_NormalizedEmail u) search)) (m_users s))
       in (Inr (page items (\<lambda>u. (u_CreatedAt u, u_Id u)) opts), s))"

definition mem_GetUserById :: "string \<Rightarrow> (mem, store_error, user) act" where
  "mem_GetUserById k =
     (\<lambda>s. case map_of (m_users s) k of
       None \<Rightarrow> (Inl ErrNotFound, s)
     | Some x \<Rightarrow> (Inr x, s))"

definition mem_GetUserByNormalizedUsername :: "string \<Rightarrow> (mem, store_error, user) act" where
  "mem_GetUserByNormalizedUsername n =
     (\<lambda>s. case range_find (\<lambda>x. u_NormalizedUsername x = n) (m_users s) of
       Some x \<Rightarrow> (Inr x, s)
     | None \<Rightarrow> (Inl ErrNotFound, s))"

definition mem_GetUserByNormalizedEmail :: "string \<Rightarrow> (mem, store_error, user) act" where
  "mem_GetUserByNormalizedEmail n =
     (\<lambda>s. case range_find (\<lambda>x. u_NormalizedEmail x = n) (m_users s) of
       Some x \<Rightarrow> (Inr x, s)
     | None \<Rightarrow> (Inl ErrNotFound, s))"

definition userTaken :: "mem \<Rightarrow> user \<Rightarrow> string \<Rightarrow> bool" where
  "userTaken s user exceptId =
     range_exists (\<lambda>u. u_Id u \<noteq> exceptId \<and>
       (u_NormalizedUsername u = u_NormalizedUsername user \<or> u_NormalizedEmail u = u_NormalizedEmail user)) (m_users s)"

definition mem_CreateUser :: "user \<Rightarrow> (mem, store_error, unit) act" where
  "mem_CreateUser x =
     (\<lambda>s. if map_of (m_users s) (u_Id x) \<noteq> None \<or> userTaken s x ''''
          then (Inl ErrDuplicate, s)
          else (Inr (), s\<lparr>m_users := AList.update (u_Id x) x (m_users s)\<rparr>))"

definition mem_UpdateUser :: "user \<Rightarrow> (mem, store_error, unit) act" where
  "mem_UpdateUser x =
     (\<lambda>s. if map_of (m_users s) (u_Id x) = None then (Inl ErrNotFound, s)
          else if userTaken s x (u_Id x) then (Inl ErrDuplicate, s)
          else (Inr (), s\<lparr>m_users := AList.update (u_Id x) x (m_users s)\<rparr>))"

definition mem_DeleteUser :: "string \<Rightarrow> (mem, store_error, unit) act" where
  "mem_DeleteUser k =
     (\<lambda>s. if map_of (m_users s) k = None then (Inl ErrNotFound, s)
          else (Inr (), s\<lparr>m_users := AList.delete k (m_users s)\<rparr>))"

section \<open>Access and refresh tokens\<close>

record tokenFields =
  tk_clientId :: string
  tk_userId :: string
  tk_codeId :: string
  tk_expiresAt :: time

definition matchToken :: "TokenFilter \<Rightarrow> tokenFields \<Rightarrow> bool" where
  "matchToken f t =
     (if tf_ClientId f \<noteq> '''' \<and> tf_ClientId f \<noteq> tk_clientId t then False
      else if tf_UserId f \<noteq> '''' \<and> tf_UserId f \<noteq> tk_userId t then False
      else if tf_AuthorizationCodeId f \<noteq> '''' \<and> tf_AuthorizationCodeId f \<noteq> tk_codeId t then False
      else case tf_ExpiredBefore f of None \<Rightarrow> True | Some e \<Rightarrow> \<not> e < tk_expiresAt t)"

definition accessTokenFields :: "access_token \<Rightarrow> tokenFields" where
  "accessTokenFields t = \<lparr>tk_clientId = at_ClientId t, tk_userId = at_UserId t,
     tk_codeId = at_AuthorizationCodeId t, tk_expiresAt = at_ExpiresAt t\<rparr>"

definition refreshTokenFields :: "refresh_token \<Rightarrow> tokenFields" where
  "refreshTokenFields t = \<lparr>tk_clientId = rt_ClientId t, tk_userId = rt_UserId t,
     tk_codeId = rt_AuthorizationCodeId t, tk_expiresAt = rt_ExpiresAt t\<rparr>"

definition mem_ListAccessTokens :: "TokenFilter \<Rightarrow> ListOptions \<Rightarrow> (mem, store_error, access_token list \<times> nat) act" where
  "mem_ListAccessTokens f opts =
     (\<lambda>s. (Inr (page (map snd (filter (\<lambda>(k, t). matchToken f (accessTokenFields t)) (m_accessTokens s))) (\<lambda>t. (at_CreatedAt t, at_Id t)) opts), s))"

definition mem_GetAccessTokenById :: "string \<Rightarrow> (mem, store_error, access_token) act" where
  "mem_GetAccessTokenById k =
     (\<lambda>s. case map_of (m_accessTokens s) k of
       None \<Rightarrow> (Inl ErrNotFound, s)
     | Some x \<Rightarrow> (Inr x, s))"

definition mem_GetAccessTokenByHash :: "string \<Rightarrow> (mem, store_error, access_token) act" where
  "mem_GetAccessTokenByHash tokenHash =
     (\<lambda>s. case range_find (\<lambda>x. at_TokenHash x = tokenHash) (m_accessTokens s) of
       Some x \<Rightarrow> (Inr x, s)
     | None \<Rightarrow> (Inl ErrNotFound, s))"

definition mem_CreateAccessToken :: "access_token \<Rightarrow> (mem, store_error, unit) act" where
  "mem_CreateAccessToken x =
     (\<lambda>s. if map_of (m_accessTokens s) (at_Id x) \<noteq> None \<or> range_exists (\<lambda>t. at_TokenHash t = at_TokenHash x) (m_accessTokens s)
          then (Inl ErrDuplicate, s)
          else (Inr (), s\<lparr>m_accessTokens := AList.update (at_Id x) x (m_accessTokens s)\<rparr>))"

definition mem_DeleteAccessToken :: "string \<Rightarrow> (mem, store_error, unit) act" where
  "mem_DeleteAccessToken k =
     (\<lambda>s. if map_of (m_accessTokens s) k = None then (Inl ErrNotFound, s)
          else (Inr (), s\<lparr>m_accessTokens := AList.delete k (m_accessTokens s)\<rparr>))"

definition mem_DeleteAccessTokens :: "TokenFilter \<Rightarrow> (mem, store_error, nat) act" where
  "mem_DeleteAccessTokens f =
     (\<lambda>s. let (n, m) = range_delete (\<lambda>x. matchToken f (accessTokenFields x)) (m_accessTokens s)
          in (Inr n, s\<lparr>m_accessTokens := m\<rparr>))"

definition mem_ListRefreshTokens :: "TokenFilter \<Rightarrow> ListOptions \<Rightarrow> (mem, store_error, refresh_token list \<times> nat) act" where
  "mem_ListRefreshTokens f opts =
     (\<lambda>s. (Inr (page (map snd (filter (\<lambda>(k, t). matchToken f (refreshTokenFields t)) (m_refreshTokens s))) (\<lambda>t. (rt_CreatedAt t, rt_Id t)) opts), s))"

definition mem_GetRefreshTokenById :: "string \<Rightarrow> (mem, store_error, refresh_token) act" where
  "mem_GetRefreshTokenById k =
     (\<lambda>s. case map_of (m_refreshTokens s) k of
       None \<Rightarrow> (Inl ErrNotFound, s)
     | Some x \<Rightarrow> (Inr x, s))"

definition mem_GetRefreshTokenByHash :: "string \<Rightarrow> (mem, store_error, refresh_token) act" where
  "mem_GetRefreshTokenByHash tokenHash =
     (\<lambda>s. case range_find (\<lambda>x. rt_TokenHash x = tokenHash) (m_refreshTokens s) of
       Some x \<Rightarrow> (Inr x, s)
     | None \<Rightarrow> (Inl ErrNotFound, s))"

definition mem_CreateRefreshToken :: "refresh_token \<Rightarrow> (mem, store_error, unit) act" where
  "mem_CreateRefreshToken x =
     (\<lambda>s. if map_of (m_refreshTokens s) (rt_Id x) \<noteq> None \<or> range_exists (\<lambda>t. rt_TokenHash t = rt_TokenHash x) (m_refreshTokens s)
          then (Inl ErrDuplicate, s)
          else (Inr (), s\<lparr>m_refreshTokens := AList.update (rt_Id x) x (m_refreshTokens s)\<rparr>))"

definition mem_UpdateRefreshToken :: "refresh_token \<Rightarrow> (mem, store_error, unit) act" where
  "mem_UpdateRefreshToken x =
     (\<lambda>s. if map_of (m_refreshTokens s) (rt_Id x) = None then (Inl ErrNotFound, s)
          else if range_exists (\<lambda>t. rt_TokenHash t = rt_TokenHash x \<and> rt_Id t \<noteq> rt_Id x) (m_refreshTokens s) then (Inl ErrDuplicate, s)
          else (Inr (), s\<lparr>m_refreshTokens := AList.update (rt_Id x) x (m_refreshTokens s)\<rparr>))"

definition mem_DeleteRefreshToken :: "string \<Rightarrow> (mem, store_error, unit) act" where
  "mem_DeleteRefreshToken k =
     (\<lambda>s. if map_of (m_refreshTokens s) k = None then (Inl ErrNotFound, s)
          else (Inr (), s\<lparr>m_refreshTokens := AList.delete k (m_refreshTokens s)\<rparr>))"

definition mem_DeleteRefreshTokens :: "TokenFilter \<Rightarrow> (mem, store_error, nat) act" where
  "mem_DeleteRefreshTokens f =
     (\<lambda>s. let (n, m) = range_delete (\<lambda>x. matchToken f (refreshTokenFields x)) (m_refreshTokens s)
          in (Inr n, s\<lparr>m_refreshTokens := m\<rparr>))"

section \<open>Authorization codes\<close>

definition mem_GetAuthorizationCodeByHash :: "string \<Rightarrow> (mem, store_error, authorization_code) act" where
  "mem_GetAuthorizationCodeByHash codeHash =
     (\<lambda>s. case range_find (\<lambda>x. ac_CodeHash x = codeHash) (m_authorizationCodes s) of
       Some x \<Rightarrow> (Inr x, s)
     | None \<Rightarrow> (Inl ErrNotFound, s))"

definition mem_CreateAuthorizationCode :: "authorization_code \<Rightarrow> (mem, store_error, unit) act" where
  "mem_CreateAuthorizationCode x =
     (\<lambda>s. if map_of (m_authorizationCodes s) (ac_Id x) \<noteq> None \<or> range_exists (\<lambda>c. ac_CodeHash c = ac_CodeHash x) (m_authorizationCodes s)
          then (Inl ErrDuplicate, s)
          else (Inr (), s\<lparr>m_authorizationCodes := AList.update (ac_Id x) x (m_authorizationCodes s)\<rparr>))"

definition mem_ConsumeAuthorizationCode :: "string \<Rightarrow> time \<Rightarrow> (mem, store_error, unit) act" where
  "mem_ConsumeAuthorizationCode k consumedAt =
     (\<lambda>s. case map_of (m_authorizationCodes s) k of
       None \<Rightarrow> (Inl ErrNotFound, s)
     | Some c \<Rightarrow>
         if ac_ConsumedAt c \<noteq> None then (Inl ErrConflict, s)
         else (Inr (), s\<lparr>m_authorizationCodes :=
                 AList.update k (c\<lparr>ac_ConsumedAt := Some consumedAt\<rparr>) (m_authorizationCodes s)\<rparr>))"

definition mem_DeleteAuthorizationCode :: "string \<Rightarrow> (mem, store_error, unit) act" where
  "mem_DeleteAuthorizationCode k =
     (\<lambda>s. if map_of (m_authorizationCodes s) k = None then (Inl ErrNotFound, s)
          else (Inr (), s\<lparr>m_authorizationCodes := AList.delete k (m_authorizationCodes s)\<rparr>))"

definition mem_DeleteExpiredAuthorizationCodes :: "time \<Rightarrow> (mem, store_error, nat) act" where
  "mem_DeleteExpiredAuthorizationCodes before =
     (\<lambda>s. let (n, m) = range_delete (\<lambda>x. \<not> before < ac_ExpiresAt x) (m_authorizationCodes s)
          in (Inr n, s\<lparr>m_authorizationCodes := m\<rparr>))"

section \<open>User tokens\<close>

definition mem_GetUserTokenByHash :: "string \<Rightarrow> string \<Rightarrow> (mem, store_error, user_token) act" where
  "mem_GetUserTokenByHash purpose tokenHash =
     (\<lambda>s. case range_find (\<lambda>x. ut_Purpose x = purpose \<and> ut_TokenHash x = tokenHash) (m_userTokens s) of
       Some x \<Rightarrow> (Inr x, s)
     | None \<Rightarrow> (Inl ErrNotFound, s))"

definition mem_CreateUserToken :: "user_token \<Rightarrow> (mem, store_error, unit) act" where
  "mem_CreateUserToken x =
     (\<lambda>s. if map_of (m_userTokens s) (ut_Id x) \<noteq> None \<or> range_exists (\<lambda>t. ut_TokenHash t = ut_TokenHash x) (m_userTokens s)
          then (Inl ErrDuplicate, s)
          else (Inr (), s\<lparr>m_userTokens := AList.update (ut_Id x) x (m_userTokens s)\<rparr>))"

definition mem_DeleteUserToken :: "string \<Rightarrow> (mem, store_error, unit) act" where
  "mem_DeleteUserToken k =
     (\<lambda>s. if map_of (m_userTokens s) k = None then (Inl ErrNotFound, s)
          else (Inr (), s\<lparr>m_userTokens := AList.delete k (m_userTokens s)\<rparr>))"

definition mem_DeleteUserTokens :: "string \<Rightarrow> string \<Rightarrow> (mem, store_error, nat) act" where
  "mem_DeleteUserTokens userId purpose =
     (\<lambda>s. let (n, m) = range_delete (\<lambda>x. ut_UserId x = userId \<and> ut_Purpose x = purpose) (m_userTokens s)
          in (Inr n, s\<lparr>m_userTokens := m\<rparr>))"

definition mem_DeleteExpiredUserTokens :: "time \<Rightarrow> (mem, store_error, nat) act" where
  "mem_DeleteExpiredUserTokens before =
     (\<lambda>s. let (n, m) = range_delete (\<lambda>x. \<not> before < ut_ExpiresAt x) (m_userTokens s)
          in (Inr n, s\<lparr>m_userTokens := m\<rparr>))"

section \<open>The store\<close>

definition memory_ops :: "(string \<Rightarrow> string) \<Rightarrow> mem store_ops" where
  "memory_ops ul = \<lparr>
     ListClients = mem_ListClients,
     GetClientById = mem_GetClientById,
     GetClientByClientId = mem_GetClientByClientId,
     CreateClient = mem_CreateClient,
     UpdateClient = mem_UpdateClient,
     DeleteClient = mem_DeleteClient,
     ListUsers = mem_ListUsers ul,
     GetUserById = mem_GetUserById,
     GetUserByNormalizedUsername = mem_GetUserByNormalizedUsername,
     GetUserByNormalizedEmail = mem_GetUserByNormalizedEmail,
     CreateUser = mem_CreateUser,
     UpdateUser = mem_UpdateUser,
     DeleteUser = mem_DeleteUser,
     ListAccessTokens = mem_ListAccessTokens,
     GetAccessTokenById = mem_GetAccessTokenById,
     GetAccessTokenByHash = mem_GetAccessTokenByHash,
     CreateAccessToken = mem_CreateAccessToken,
     DeleteAccessToken = mem_DeleteAccessToken,
     DeleteAccessTokens = mem_DeleteAccessTokens,
     ListRefreshTokens = mem_ListRefreshTokens,
     GetRefreshTokenById = mem_GetRefreshTokenById,
     GetRefreshTokenByHash = mem_GetRefreshTokenByHash,
     CreateRefreshToken = mem_CreateRefreshToken,
     UpdateRefreshToken = mem_UpdateRefreshToken,
     DeleteRefreshToken = mem_DeleteRefreshToken,
     DeleteRefreshTokens = mem_DeleteRefreshTokens,
     GetAuthorizationCodeByHash = mem_GetAuthorizationCodeByHash,
     CreateAuthorizationCode = mem_CreateAuthorizationCode,
     ConsumeAuthorizationCode = mem_ConsumeAuthorizationCode,
     DeleteAuthorizationCode = mem_DeleteAuthorizationCode,
     DeleteExpiredAuthorizationCodes = mem_DeleteExpiredAuthorizationCodes,
     GetUserTokenByHash = mem_GetUserTokenByHash,
     CreateUserToken = mem_CreateUserToken,
     DeleteUserToken = mem_DeleteUserToken,
     DeleteUserTokens = mem_DeleteUserTokens,
     DeleteExpiredUserTokens = mem_DeleteExpiredUserTokens\<rparr>"

lemma memory_ops_simps [simp]:
  "StoreSpec.ListClients (memory_ops ul) = mem_ListClients"
  "StoreSpec.GetClientById (memory_ops ul) = mem_GetClientById"
  "StoreSpec.GetClientByClientId (memory_ops ul) = mem_GetClientByClientId"
  "StoreSpec.CreateClient (memory_ops ul) = mem_CreateClient"
  "StoreSpec.UpdateClient (memory_ops ul) = mem_UpdateClient"
  "StoreSpec.DeleteClient (memory_ops ul) = mem_DeleteClient"
  "StoreSpec.ListUsers (memory_ops ul) = mem_ListUsers ul"
  "StoreSpec.GetUserById (memory_ops ul) = mem_GetUserById"
  "StoreSpec.GetUserByNormalizedUsername (memory_ops ul) = mem_GetUserByNormalizedUsername"
  "StoreSpec.GetUserByNormalizedEmail (memory_ops ul) = mem_GetUserByNormalizedEmail"
  "StoreSpec.CreateUser (memory_ops ul) = mem_CreateUser"
  "StoreSpec.UpdateUser (memory_ops ul) = mem_UpdateUser"
  "StoreSpec.DeleteUser (memory_ops ul) = mem_DeleteUser"
  "StoreSpec.ListAccessTokens (memory_ops ul) = mem_ListAccessTokens"
  "StoreSpec.GetAccessTokenById (memory_ops ul) = mem_GetAccessTokenById"
  "StoreSpec.GetAccessTokenByHash (memory_ops ul) = mem_GetAccessTokenByHash"
  "StoreSpec.CreateAccessToken (memory_ops ul) = mem_CreateAccessToken"
  "StoreSpec.DeleteAccessToken (memory_ops ul) = mem_DeleteAccessToken"
  "StoreSpec.DeleteAccessTokens (memory_ops ul) = mem_DeleteAccessTokens"
  "StoreSpec.ListRefreshTokens (memory_ops ul) = mem_ListRefreshTokens"
  "StoreSpec.GetRefreshTokenById (memory_ops ul) = mem_GetRefreshTokenById"
  "StoreSpec.GetRefreshTokenByHash (memory_ops ul) = mem_GetRefreshTokenByHash"
  "StoreSpec.CreateRefreshToken (memory_ops ul) = mem_CreateRefreshToken"
  "StoreSpec.UpdateRefreshToken (memory_ops ul) = mem_UpdateRefreshToken"
  "StoreSpec.DeleteRefreshToken (memory_ops ul) = mem_DeleteRefreshToken"
  "StoreSpec.DeleteRefreshTokens (memory_ops ul) = mem_DeleteRefreshTokens"
  "StoreSpec.GetAuthorizationCodeByHash (memory_ops ul) = mem_GetAuthorizationCodeByHash"
  "StoreSpec.CreateAuthorizationCode (memory_ops ul) = mem_CreateAuthorizationCode"
  "StoreSpec.ConsumeAuthorizationCode (memory_ops ul) = mem_ConsumeAuthorizationCode"
  "StoreSpec.DeleteAuthorizationCode (memory_ops ul) = mem_DeleteAuthorizationCode"
  "StoreSpec.DeleteExpiredAuthorizationCodes (memory_ops ul) = mem_DeleteExpiredAuthorizationCodes"
  "StoreSpec.GetUserTokenByHash (memory_ops ul) = mem_GetUserTokenByHash"
  "StoreSpec.CreateUserToken (memory_ops ul) = mem_CreateUserToken"
  "StoreSpec.DeleteUserToken (memory_ops ul) = mem_DeleteUserToken"
  "StoreSpec.DeleteUserTokens (memory_ops ul) = mem_DeleteUserTokens"
  "StoreSpec.DeleteExpiredUserTokens (memory_ops ul) = mem_DeleteExpiredUserTokens"
  by (simp_all add: memory_ops_def)

definition mem_view :: "mem \<Rightarrow> tables" where
  "mem_view s =
     \<lparr>tb_clients = map_of (m_clients s), tb_users = map_of (m_users s),
      tb_accessTokens = map_of (m_accessTokens s), tb_refreshTokens = map_of (m_refreshTokens s),
      tb_authorizationCodes = map_of (m_authorizationCodes s), tb_userTokens = map_of (m_userTokens s)\<rparr>"

text \<open>
  The invariant: every map holds each key once, every entity under its own id, no id is empty, and
  client ids, usernames, email addresses and the hashes of tokens and codes are unique.
\<close>

definition mem_inv :: "mem \<Rightarrow> bool" where
  "mem_inv s \<longleftrightarrow>
     gm_ok c_Id (m_clients s) \<and> gm_ok u_Id (m_users s) \<and> gm_ok at_Id (m_accessTokens s)
     \<and> gm_ok rt_Id (m_refreshTokens s) \<and> gm_ok ac_Id (m_authorizationCodes s)
     \<and> gm_ok ut_Id (m_userTokens s) \<and> tables_ok (mem_view s)"

section \<open>Loops on maps\<close>

lemma range_find_Some: "gm_ok key m \<Longrightarrow> range_find P m = Some x \<Longrightarrow> x \<in> ran (map_of m) \<and> P x"
  unfolding range_find_def by (auto dest!: find_snd_Some intro: ranI)

lemma range_find_None: "gm_ok key m \<Longrightarrow> range_find P m = None \<longleftrightarrow> (\<forall>x \<in> ran (map_of m). \<not> P x)"
  unfolding range_find_def by (auto simp: find_snd_None ran_def)

lemma range_exists_iff: "gm_ok key m \<Longrightarrow> range_exists P m \<longleftrightarrow> (\<exists>x \<in> ran (map_of m). P x)"
  by (force simp: range_exists_def list_ex_iff simp flip: gm_ok_ran)

lemma range_delete_eq:
  "range_delete P m = (length (filter (\<lambda>(k, v). P v) m), filter (\<lambda>(k, v). \<not> P v) m)"
  by (induction m) (auto simp: Let_def split: prod.splits)

lemma map_of_filter_keep:
  "gm_ok key m \<Longrightarrow> map_of (filter (\<lambda>(k, v). P v) m) = keep P (map_of m)"
  by (rule ext) (simp add: keep_def map_of_filter_snd [OF gm_ok_distinct])

lemma filter_card:
  assumes "gm_ok key m"
  shows "length (filter (\<lambda>(k, v). P v) m) = card {k. \<exists>x. map_of m k = Some x \<and> P x}"
proof -
  let ?f = "filter (\<lambda>(k, v). P v) m"
  have "gm_ok key ?f" using assms by (rule gm_ok_filter)
  then have d: "distinct (map fst ?f)" by (rule gm_ok_distinct)
  have "{k. \<exists>x. map_of m k = Some x \<and> P x} = dom (map_of ?f)"
    by (auto simp: map_of_filter_keep [OF assms] dom_def)
  also have "\<dots> = set (map fst ?f)" by (simp add: dom_map_of_conv_image_fst)
  finally show ?thesis using distinct_card [OF d] by simp
qed

lemma page_eq:
  "page items key opts =
     (take (nat (lo_Limit (ListOptions_Normalize opts)))
       (drop (nat (lo_Offset (ListOptions_Normalize opts))) (sort_key key items)), length items)"
proof -
  let ?o = "ListOptions_Normalize opts"
  have b: "0 \<le> lo_Offset ?o" "0 < lo_Limit ?o"
    by (auto simp: ListOptions_Normalize_def DefaultLimit_def MaxLimit_def Let_def)
  show ?thesis
  proof (cases "int (length items) \<le> lo_Offset ?o")
    case True
    then have "length items \<le> nat (lo_Offset ?o)" by linarith
    with True show ?thesis by (simp add: page_def Let_def)
  next
    case False
    have "take (length items - nat (lo_Offset ?o)) (drop (nat (lo_Offset ?o)) (sort_key key items)) =
      take (nat (lo_Limit ?o)) (drop (nat (lo_Offset ?o)) (sort_key key items))"
      if "int (length items) < lo_Offset ?o + lo_Limit ?o"
      using that b False by (intro trans [OF take_all take_all [symmetric]]) auto
    with False b show ?thesis by (auto simp: page_def Let_def nat_diff_distrib' nat_add_distrib)
  qed
qed

lemma gm_ok_values_distinct: "gm_ok key m \<Longrightarrow> distinct (map snd m)"
  by (auto simp: gm_ok_def distinct_map inj_on_def split: prod.splits) (metis case_prodD)

lemma list_spec_page:
  assumes "gm_ok key m" and "tb T = map_of m"
  shows "list_spec tb ord P opts T (Inr (page (map snd (filter (\<lambda>(k, v). P v) m)) ord opts)) T"
proof -
  let ?xs = "map snd (filter (\<lambda>(k, v). P v) m)"
  have "set ?xs = {x \<in> ran (tb T). P x}"
    using gm_ok_ran [OF gm_ok_filter [OF assms(1)], of "\<lambda>(k, v). P v"]
    by (auto simp: assms(2) map_of_filter_keep [OF assms(1)] ran_keep)
  moreover have "distinct ?xs"
    using gm_ok_values_distinct [OF gm_ok_filter [OF assms(1)]] .
  ultimately show ?thesis
    unfolding list_spec_def page_eq by (intro conjI refl exI [of _ "sort_key ord ?xs"]) simp_all
qed

section \<open>Every operation meets its contract\<close>

lemma obeysI:
  "(\<And>s r s'. I s \<Longrightarrow> m s = (r, s') \<Longrightarrow> I s' \<and> P (view s) r (view s')) \<Longrightarrow> obeys I view P m"
  by (simp add: obeys_def)

lemmas mem_defs = mem_view_def mem_inv_def tables_ok_def

lemma mem_view_sel [simp]:
  "tb_clients (mem_view s) = map_of (m_clients s)" "tb_users (mem_view s) = map_of (m_users s)"
  "tb_accessTokens (mem_view s) = map_of (m_accessTokens s)"
  "tb_refreshTokens (mem_view s) = map_of (m_refreshTokens s)"
  "tb_authorizationCodes (mem_view s) = map_of (m_authorizationCodes s)"
  "tb_userTokens (mem_view s) = map_of (m_userTokens s)"
  by (simp_all add: mem_view_def)

lemma mem_invD:
  assumes "mem_inv s"
  shows "gm_ok c_Id (m_clients s)" "gm_ok u_Id (m_users s)" "gm_ok at_Id (m_accessTokens s)"
    "gm_ok rt_Id (m_refreshTokens s)" "gm_ok ac_Id (m_authorizationCodes s)" "gm_ok ut_Id (m_userTokens s)"
    "keyed c_Id (map_of (m_clients s))" "keyed u_Id (map_of (m_users s))"
    "keyed at_Id (map_of (m_accessTokens s))" "keyed rt_Id (map_of (m_refreshTokens s))"
    "keyed ac_Id (map_of (m_authorizationCodes s))" "keyed ut_Id (map_of (m_userTokens s))"
  using assms by (simp_all add: mem_defs)

lemma mem_put_clients:
  assumes "mem_inv s" and "c_Id x \<noteq> ''''"
    and "\<forall>y \<in> ran (map_of (m_clients s)). c_Id y \<noteq> c_Id x \<longrightarrow> \<not> client_clash x y"
  shows "mem_inv (s\<lparr>m_clients := AList.update (c_Id x) x (m_clients s)\<rparr>)"
    and "mem_view (s\<lparr>m_clients := AList.update (c_Id x) x (m_clients s)\<rparr>) =
      tb_clients_update (\<lambda>m. m(c_Id x \<mapsto> x)) (mem_view s)"
  using assms by (simp_all add: mem_defs update_conv' gm_ok_update keyed_upd unique_upd client_clash_def)

lemma mem_cut_clients:
  assumes "mem_inv s"
  shows "mem_inv (s\<lparr>m_clients := AList.delete k (m_clients s)\<rparr>)"
    and "mem_view (s\<lparr>m_clients := AList.delete k (m_clients s)\<rparr>) = tb_clients_update (\<lambda>m. m(k := None)) (mem_view s)"
    and "mem_inv (s\<lparr>m_clients := filter (\<lambda>(k, v). P v) (m_clients s)\<rparr>)"
    and "mem_view (s\<lparr>m_clients := filter (\<lambda>(k, v). P v) (m_clients s)\<rparr>) = tb_clients_update (keep P) (mem_view s)"
  using assms map_of_filter_keep [OF mem_invD(1) [OF assms], of P]
  by (simp_all add: mem_defs delete_conv' gm_ok_delete gm_ok_filter keyed_del unique_del keyed_keep unique_keep)

lemma mem_put_users:
  assumes "mem_inv s" and "u_Id x \<noteq> ''''"
    and "\<forall>y \<in> ran (map_of (m_users s)). u_Id y \<noteq> u_Id x \<longrightarrow> \<not> user_clash x y"
  shows "mem_inv (s\<lparr>m_users := AList.update (u_Id x) x (m_users s)\<rparr>)"
    and "mem_view (s\<lparr>m_users := AList.update (u_Id x) x (m_users s)\<rparr>) =
      tb_users_update (\<lambda>m. m(u_Id x \<mapsto> x)) (mem_view s)"
  using assms by (simp_all add: mem_defs update_conv' gm_ok_update keyed_upd unique_upd user_clash_def)

lemma mem_cut_users:
  assumes "mem_inv s"
  shows "mem_inv (s\<lparr>m_users := AList.delete k (m_users s)\<rparr>)"
    and "mem_view (s\<lparr>m_users := AList.delete k (m_users s)\<rparr>) = tb_users_update (\<lambda>m. m(k := None)) (mem_view s)"
    and "mem_inv (s\<lparr>m_users := filter (\<lambda>(k, v). P v) (m_users s)\<rparr>)"
    and "mem_view (s\<lparr>m_users := filter (\<lambda>(k, v). P v) (m_users s)\<rparr>) = tb_users_update (keep P) (mem_view s)"
  using assms map_of_filter_keep [OF mem_invD(2) [OF assms], of P]
  by (simp_all add: mem_defs delete_conv' gm_ok_delete gm_ok_filter keyed_del unique_del keyed_keep unique_keep)

lemma mem_put_accessTokens:
  assumes "mem_inv s" and "at_Id x \<noteq> ''''"
    and "\<forall>y \<in> ran (map_of (m_accessTokens s)). at_Id y \<noteq> at_Id x \<longrightarrow> \<not> access_token_clash x y"
  shows "mem_inv (s\<lparr>m_accessTokens := AList.update (at_Id x) x (m_accessTokens s)\<rparr>)"
    and "mem_view (s\<lparr>m_accessTokens := AList.update (at_Id x) x (m_accessTokens s)\<rparr>) =
      tb_accessTokens_update (\<lambda>m. m(at_Id x \<mapsto> x)) (mem_view s)"
  using assms by (simp_all add: mem_defs update_conv' gm_ok_update keyed_upd unique_upd access_token_clash_def)

lemma mem_cut_accessTokens:
  assumes "mem_inv s"
  shows "mem_inv (s\<lparr>m_accessTokens := AList.delete k (m_accessTokens s)\<rparr>)"
    and "mem_view (s\<lparr>m_accessTokens := AList.delete k (m_accessTokens s)\<rparr>) = tb_accessTokens_update (\<lambda>m. m(k := None)) (mem_view s)"
    and "mem_inv (s\<lparr>m_accessTokens := filter (\<lambda>(k, v). P v) (m_accessTokens s)\<rparr>)"
    and "mem_view (s\<lparr>m_accessTokens := filter (\<lambda>(k, v). P v) (m_accessTokens s)\<rparr>) = tb_accessTokens_update (keep P) (mem_view s)"
  using assms map_of_filter_keep [OF mem_invD(3) [OF assms], of P]
  by (simp_all add: mem_defs delete_conv' gm_ok_delete gm_ok_filter keyed_del unique_del keyed_keep unique_keep)

lemma mem_put_refreshTokens:
  assumes "mem_inv s" and "rt_Id x \<noteq> ''''"
    and "\<forall>y \<in> ran (map_of (m_refreshTokens s)). rt_Id y \<noteq> rt_Id x \<longrightarrow> \<not> refresh_token_clash x y"
  shows "mem_inv (s\<lparr>m_refreshTokens := AList.update (rt_Id x) x (m_refreshTokens s)\<rparr>)"
    and "mem_view (s\<lparr>m_refreshTokens := AList.update (rt_Id x) x (m_refreshTokens s)\<rparr>) =
      tb_refreshTokens_update (\<lambda>m. m(rt_Id x \<mapsto> x)) (mem_view s)"
  using assms by (simp_all add: mem_defs update_conv' gm_ok_update keyed_upd unique_upd refresh_token_clash_def)

lemma mem_cut_refreshTokens:
  assumes "mem_inv s"
  shows "mem_inv (s\<lparr>m_refreshTokens := AList.delete k (m_refreshTokens s)\<rparr>)"
    and "mem_view (s\<lparr>m_refreshTokens := AList.delete k (m_refreshTokens s)\<rparr>) = tb_refreshTokens_update (\<lambda>m. m(k := None)) (mem_view s)"
    and "mem_inv (s\<lparr>m_refreshTokens := filter (\<lambda>(k, v). P v) (m_refreshTokens s)\<rparr>)"
    and "mem_view (s\<lparr>m_refreshTokens := filter (\<lambda>(k, v). P v) (m_refreshTokens s)\<rparr>) = tb_refreshTokens_update (keep P) (mem_view s)"
  using assms map_of_filter_keep [OF mem_invD(4) [OF assms], of P]
  by (simp_all add: mem_defs delete_conv' gm_ok_delete gm_ok_filter keyed_del unique_del keyed_keep unique_keep)

lemma mem_put_authorizationCodes:
  assumes "mem_inv s" and "ac_Id x \<noteq> ''''"
    and "\<forall>y \<in> ran (map_of (m_authorizationCodes s)). ac_Id y \<noteq> ac_Id x \<longrightarrow> \<not> code_clash x y"
  shows "mem_inv (s\<lparr>m_authorizationCodes := AList.update (ac_Id x) x (m_authorizationCodes s)\<rparr>)"
    and "mem_view (s\<lparr>m_authorizationCodes := AList.update (ac_Id x) x (m_authorizationCodes s)\<rparr>) =
      tb_authorizationCodes_update (\<lambda>m. m(ac_Id x \<mapsto> x)) (mem_view s)"
  using assms by (simp_all add: mem_defs update_conv' gm_ok_update keyed_upd unique_upd code_clash_def)

lemma mem_cut_authorizationCodes:
  assumes "mem_inv s"
  shows "mem_inv (s\<lparr>m_authorizationCodes := AList.delete k (m_authorizationCodes s)\<rparr>)"
    and "mem_view (s\<lparr>m_authorizationCodes := AList.delete k (m_authorizationCodes s)\<rparr>) = tb_authorizationCodes_update (\<lambda>m. m(k := None)) (mem_view s)"
    and "mem_inv (s\<lparr>m_authorizationCodes := filter (\<lambda>(k, v). P v) (m_authorizationCodes s)\<rparr>)"
    and "mem_view (s\<lparr>m_authorizationCodes := filter (\<lambda>(k, v). P v) (m_authorizationCodes s)\<rparr>) = tb_authorizationCodes_update (keep P) (mem_view s)"
  using assms map_of_filter_keep [OF mem_invD(5) [OF assms], of P]
  by (simp_all add: mem_defs delete_conv' gm_ok_delete gm_ok_filter keyed_del unique_del keyed_keep unique_keep)

lemma mem_put_userTokens:
  assumes "mem_inv s" and "ut_Id x \<noteq> ''''"
    and "\<forall>y \<in> ran (map_of (m_userTokens s)). ut_Id y \<noteq> ut_Id x \<longrightarrow> \<not> user_token_clash x y"
  shows "mem_inv (s\<lparr>m_userTokens := AList.update (ut_Id x) x (m_userTokens s)\<rparr>)"
    and "mem_view (s\<lparr>m_userTokens := AList.update (ut_Id x) x (m_userTokens s)\<rparr>) =
      tb_userTokens_update (\<lambda>m. m(ut_Id x \<mapsto> x)) (mem_view s)"
  using assms by (simp_all add: mem_defs update_conv' gm_ok_update keyed_upd unique_upd user_token_clash_def)

lemma mem_cut_userTokens:
  assumes "mem_inv s"
  shows "mem_inv (s\<lparr>m_userTokens := AList.delete k (m_userTokens s)\<rparr>)"
    and "mem_view (s\<lparr>m_userTokens := AList.delete k (m_userTokens s)\<rparr>) = tb_userTokens_update (\<lambda>m. m(k := None)) (mem_view s)"
    and "mem_inv (s\<lparr>m_userTokens := filter (\<lambda>(k, v). P v) (m_userTokens s)\<rparr>)"
    and "mem_view (s\<lparr>m_userTokens := filter (\<lambda>(k, v). P v) (m_userTokens s)\<rparr>) = tb_userTokens_update (keep P) (mem_view s)"
  using assms map_of_filter_keep [OF mem_invD(6) [OF assms], of P]
  by (simp_all add: mem_defs delete_conv' gm_ok_delete gm_ok_filter keyed_del unique_del keyed_keep unique_keep)

lemma keyed_getD: "keyed key m \<Longrightarrow> m k = Some x \<Longrightarrow> key x = k \<and> k \<noteq> ''''"
  by (simp add: keyed_def)

lemma matchToken_iff:
  "matchToken f (accessTokenFields a) = at_matches f a" "matchToken f (refreshTokenFields r) = rt_matches f r"
  by (auto simp: matchToken_def accessTokenFields_def refreshTokenFields_def at_matches_def rt_matches_def
      filter_matches_def split: option.splits)

lemma mem_ListClients_ok: "obeys mem_inv mem_view (list_spec tb_clients (\<lambda>c. (c_CreatedAt c, c_Id c)) (\<lambda>_. True) opts) (mem_ListClients opts)"
  using list_spec_page [OF mem_invD(1), where P = "\<lambda>_. True"] by (auto intro!: obeysI simp: mem_ListClients_def)

lemma mem_GetClientById_ok: "obeys mem_inv mem_view (get_spec tb_clients k) (mem_GetClientById k)"
  by (rule obeysI) (auto simp: get_spec_def mem_GetClientById_def split: option.splits)

lemma mem_GetClientByClientId_ok: "obeys mem_inv mem_view (find_spec tb_clients (\<lambda>c. c_ClientId c = clientId)) (mem_GetClientByClientId clientId)"
  by (rule obeysI) (auto simp: find_spec_def mem_GetClientByClientId_def range_find_None [OF mem_invD(1)]
      dest: range_find_Some [OF mem_invD(1)] split: option.splits)

lemma mem_CreateClient_ok: "c_Id c \<noteq> '''' \<Longrightarrow> obeys mem_inv mem_view (create_spec tb_clients tb_clients_update c_Id client_clash c) (mem_CreateClient c)"
  by (rule obeysI) (auto simp: create_spec_def mem_CreateClient_def clientIdTaken_def client_clash_def range_exists_iff [OF mem_invD(1)]
      intro!: mem_put_clients dest: keyed_ranD [OF mem_invD(7)] keyed_getD [OF mem_invD(7)] split: if_splits)

lemma mem_UpdateClient_ok: "obeys mem_inv mem_view (update_spec tb_clients tb_clients_update c_Id client_clash c) (mem_UpdateClient c)"
  by (rule obeysI) (auto simp: update_spec_def mem_UpdateClient_def clientIdTaken_def client_clash_def range_exists_iff [OF mem_invD(1)]
      intro!: mem_put_clients dest: keyed_ranD [OF mem_invD(7)] keyed_getD [OF mem_invD(7)] split: if_splits)

lemma mem_DeleteClient_ok: "obeys mem_inv mem_view (delete_spec tb_clients tb_clients_update k) (mem_DeleteClient k)"
  by (rule obeysI) (auto simp: delete_spec_def mem_DeleteClient_def mem_cut_clients split: if_splits)

lemma mem_ListUsers_ok: "obeys mem_inv mem_view (list_spec tb_users (\<lambda>u. (u_CreatedAt u, u_Id u)) (user_matches (to_lower ul) f) opts) (mem_ListUsers ul f opts)"
  using list_spec_page [OF mem_invD(2), where P = "user_matches (to_lower ul) f" and tb = tb_users]
  by (auto intro!: obeysI simp: mem_ListUsers_def Let_def user_matches_def [abs_def])

lemma mem_GetUserById_ok: "obeys mem_inv mem_view (get_spec tb_users k) (mem_GetUserById k)"
  by (rule obeysI) (auto simp: get_spec_def mem_GetUserById_def split: option.splits)

lemma mem_GetUserByNormalizedUsername_ok: "obeys mem_inv mem_view (find_spec tb_users (\<lambda>u. u_NormalizedUsername u = n)) (mem_GetUserByNormalizedUsername n)"
  by (rule obeysI) (auto simp: find_spec_def mem_GetUserByNormalizedUsername_def range_find_None [OF mem_invD(2)]
      dest: range_find_Some [OF mem_invD(2)] split: option.splits)

lemma mem_GetUserByNormalizedEmail_ok: "obeys mem_inv mem_view (find_spec tb_users (\<lambda>u. u_NormalizedEmail u = n)) (mem_GetUserByNormalizedEmail n)"
  by (rule obeysI) (auto simp: find_spec_def mem_GetUserByNormalizedEmail_def range_find_None [OF mem_invD(2)]
      dest: range_find_Some [OF mem_invD(2)] split: option.splits)

lemma mem_CreateUser_ok: "u_Id u \<noteq> '''' \<Longrightarrow> obeys mem_inv mem_view (create_spec tb_users tb_users_update u_Id user_clash u) (mem_CreateUser u)"
  by (rule obeysI) (auto simp: create_spec_def mem_CreateUser_def userTaken_def user_clash_def range_exists_iff [OF mem_invD(2)]
      intro!: mem_put_users dest: keyed_ranD [OF mem_invD(8)] keyed_getD [OF mem_invD(8)] split: if_splits)

lemma mem_UpdateUser_ok: "obeys mem_inv mem_view (update_spec tb_users tb_users_update u_Id user_clash u) (mem_UpdateUser u)"
  by (rule obeysI) (auto simp: update_spec_def mem_UpdateUser_def userTaken_def user_clash_def range_exists_iff [OF mem_invD(2)]
      intro!: mem_put_users dest: keyed_ranD [OF mem_invD(8)] keyed_getD [OF mem_invD(8)] split: if_splits)

lemma mem_DeleteUser_ok: "obeys mem_inv mem_view (delete_spec tb_users tb_users_update k) (mem_DeleteUser k)"
  by (rule obeysI) (auto simp: delete_spec_def mem_DeleteUser_def mem_cut_users split: if_splits)

lemma mem_ListAccessTokens_ok: "obeys mem_inv mem_view (list_spec tb_accessTokens (\<lambda>t. (at_CreatedAt t, at_Id t)) (at_matches f) opts) (mem_ListAccessTokens f opts)"
  by (rule obeysI) (auto simp: mem_ListAccessTokens_def matchToken_iff intro!: list_spec_page [OF mem_invD(3)])

lemma mem_GetAccessTokenById_ok: "obeys mem_inv mem_view (get_spec tb_accessTokens k) (mem_GetAccessTokenById k)"
  by (rule obeysI) (auto simp: get_spec_def mem_GetAccessTokenById_def split: option.splits)

lemma mem_GetAccessTokenByHash_ok: "obeys mem_inv mem_view (find_spec tb_accessTokens (\<lambda>t. at_TokenHash t = h)) (mem_GetAccessTokenByHash h)"
  by (rule obeysI) (auto simp: find_spec_def mem_GetAccessTokenByHash_def range_find_None [OF mem_invD(3)]
      dest: range_find_Some [OF mem_invD(3)] split: option.splits)

lemma mem_CreateAccessToken_ok: "at_Id a \<noteq> '''' \<Longrightarrow> obeys mem_inv mem_view (create_spec tb_accessTokens tb_accessTokens_update at_Id access_token_clash a) (mem_CreateAccessToken a)"
  by (rule obeysI) (auto simp: create_spec_def mem_CreateAccessToken_def access_token_clash_def range_exists_iff [OF mem_invD(3)]
      intro!: mem_put_accessTokens dest: keyed_ranD [OF mem_invD(9)] keyed_getD [OF mem_invD(9)] split: if_splits)

lemma mem_DeleteAccessToken_ok: "obeys mem_inv mem_view (delete_spec tb_accessTokens tb_accessTokens_update k) (mem_DeleteAccessToken k)"
  by (rule obeysI) (auto simp: delete_spec_def mem_DeleteAccessToken_def mem_cut_accessTokens split: if_splits)

lemma mem_DeleteAccessTokens_ok: "obeys mem_inv mem_view (delete_where_spec tb_accessTokens tb_accessTokens_update (at_matches f)) (mem_DeleteAccessTokens f)"
  by (rule obeysI) (auto simp: delete_where_spec_def mem_DeleteAccessTokens_def range_delete_eq filter_card [OF mem_invD(3)]
      mem_cut_accessTokens matchToken_iff not_less)

lemma mem_ListRefreshTokens_ok: "obeys mem_inv mem_view (list_spec tb_refreshTokens (\<lambda>t. (rt_CreatedAt t, rt_Id t)) (rt_matches f) opts) (mem_ListRefreshTokens f opts)"
  by (rule obeysI) (auto simp: mem_ListRefreshTokens_def matchToken_iff intro!: list_spec_page [OF mem_invD(4)])

lemma mem_GetRefreshTokenById_ok: "obeys mem_inv mem_view (get_spec tb_refreshTokens k) (mem_GetRefreshTokenById k)"
  by (rule obeysI) (auto simp: get_spec_def mem_GetRefreshTokenById_def split: option.splits)

lemma mem_GetRefreshTokenByHash_ok: "obeys mem_inv mem_view (find_spec tb_refreshTokens (\<lambda>t. rt_TokenHash t = h)) (mem_GetRefreshTokenByHash h)"
  by (rule obeysI) (auto simp: find_spec_def mem_GetRefreshTokenByHash_def range_find_None [OF mem_invD(4)]
      dest: range_find_Some [OF mem_invD(4)] split: option.splits)

lemma mem_CreateRefreshToken_ok: "rt_Id r \<noteq> '''' \<Longrightarrow> obeys mem_inv mem_view (create_spec tb_refreshTokens tb_refreshTokens_update rt_Id refresh_token_clash r) (mem_CreateRefreshToken r)"
  by (rule obeysI) (auto simp: create_spec_def mem_CreateRefreshToken_def refresh_token_clash_def range_exists_iff [OF mem_invD(4)]
      intro!: mem_put_refreshTokens dest: keyed_ranD [OF mem_invD(10)] keyed_getD [OF mem_invD(10)] split: if_splits)

lemma mem_UpdateRefreshToken_ok: "obeys mem_inv mem_view (update_spec tb_refreshTokens tb_refreshTokens_update rt_Id refresh_token_clash r) (mem_UpdateRefreshToken r)"
  by (rule obeysI) (auto simp: update_spec_def mem_UpdateRefreshToken_def refresh_token_clash_def range_exists_iff [OF mem_invD(4)]
      intro!: mem_put_refreshTokens dest: keyed_ranD [OF mem_invD(10)] keyed_getD [OF mem_invD(10)] split: if_splits)

lemma mem_DeleteRefreshToken_ok: "obeys mem_inv mem_view (delete_spec tb_refreshTokens tb_refreshTokens_update k) (mem_DeleteRefreshToken k)"
  by (rule obeysI) (auto simp: delete_spec_def mem_DeleteRefreshToken_def mem_cut_refreshTokens split: if_splits)

lemma mem_DeleteRefreshTokens_ok: "obeys mem_inv mem_view (delete_where_spec tb_refreshTokens tb_refreshTokens_update (rt_matches f)) (mem_DeleteRefreshTokens f)"
  by (rule obeysI) (auto simp: delete_where_spec_def mem_DeleteRefreshTokens_def range_delete_eq filter_card [OF mem_invD(4)]
      mem_cut_refreshTokens matchToken_iff not_less)

lemma mem_GetAuthorizationCodeByHash_ok: "obeys mem_inv mem_view (find_spec tb_authorizationCodes (\<lambda>c. ac_CodeHash c = h)) (mem_GetAuthorizationCodeByHash h)"
  by (rule obeysI) (auto simp: find_spec_def mem_GetAuthorizationCodeByHash_def range_find_None [OF mem_invD(5)]
      dest: range_find_Some [OF mem_invD(5)] split: option.splits)

lemma mem_CreateAuthorizationCode_ok: "ac_Id c \<noteq> '''' \<Longrightarrow> obeys mem_inv mem_view (create_spec tb_authorizationCodes tb_authorizationCodes_update ac_Id code_clash c) (mem_CreateAuthorizationCode c)"
  by (rule obeysI) (auto simp: create_spec_def mem_CreateAuthorizationCode_def code_clash_def range_exists_iff [OF mem_invD(5)]
      intro!: mem_put_authorizationCodes dest: keyed_ranD [OF mem_invD(11)] keyed_getD [OF mem_invD(11)] split: if_splits)

lemma mem_ConsumeAuthorizationCode_ok: "obeys mem_inv mem_view (consume_spec k t) (mem_ConsumeAuthorizationCode k t)"
proof (rule obeysI)
  fix s r s' assume i: "mem_inv s" and r: "mem_ConsumeAuthorizationCode k t s = (r, s')"
  show "mem_inv s' \<and> consume_spec k t (mem_view s) r (mem_view s')"
  proof (cases "\<exists>c. map_of (m_authorizationCodes s) k = Some c \<and> ac_ConsumedAt c = None")
    case True
    then obtain c where c: "map_of (m_authorizationCodes s) k = Some c" "ac_ConsumedAt c = None" by blast
    with mem_invD(11) [OF i] have k: "ac_Id c = k" "k \<noteq> ''''" by (auto dest: keyed_getD)
    have o: "\<forall>y \<in> ran (map_of (m_authorizationCodes s)). ac_Id y \<noteq> k \<longrightarrow> ac_CodeHash y \<noteq> ac_CodeHash c"
    proof (intro ballI impI notI)
      fix y assume y: "y \<in> ran (map_of (m_authorizationCodes s))" "ac_Id y \<noteq> k" "ac_CodeHash y = ac_CodeHash c"
      have "unique_field ac_CodeHash (map_of (m_authorizationCodes s))" using i by (simp add: mem_defs)
      with y(1,3) ranI [of "map_of (m_authorizationCodes s)", OF c(1)] have "y = c"
        unfolding unique_field_def by blast
      with y(2) k(1) show False by simp
    qed
    let ?c = "c\<lparr>ac_ConsumedAt := Some t\<rparr>"
    have id: "ac_Id ?c = k" using k(1) by simp
    note put = mem_put_authorizationCodes [OF i, of ?c, unfolded id code_clash_def, OF k(2)]
    have "\<forall>y \<in> ran (map_of (m_authorizationCodes s)). ac_Id y \<noteq> k \<longrightarrow> ac_CodeHash y \<noteq> ac_CodeHash ?c"
      using o by simp
    from put(1) [OF this] put(2) [OF this] r c show ?thesis
      by (auto simp: mem_ConsumeAuthorizationCode_def consume_spec_def)
  qed (use r i in \<open>auto simp: mem_ConsumeAuthorizationCode_def consume_spec_def split: option.splits if_splits\<close>)
qed

lemma mem_DeleteAuthorizationCode_ok: "obeys mem_inv mem_view (delete_spec tb_authorizationCodes tb_authorizationCodes_update k) (mem_DeleteAuthorizationCode k)"
  by (rule obeysI) (auto simp: delete_spec_def mem_DeleteAuthorizationCode_def mem_cut_authorizationCodes split: if_splits)

lemma mem_DeleteExpiredAuthorizationCodes_ok: "obeys mem_inv mem_view (delete_where_spec tb_authorizationCodes tb_authorizationCodes_update (\<lambda>c. ac_ExpiresAt c \<le> t)) (mem_DeleteExpiredAuthorizationCodes t)"
  by (rule obeysI) (auto simp: delete_where_spec_def mem_DeleteExpiredAuthorizationCodes_def range_delete_eq filter_card [OF mem_invD(5)]
      mem_cut_authorizationCodes matchToken_iff not_less)

lemma mem_GetUserTokenByHash_ok: "obeys mem_inv mem_view (find_spec tb_userTokens (\<lambda>t. ut_Purpose t = p \<and> ut_TokenHash t = h)) (mem_GetUserTokenByHash p h)"
  by (rule obeysI) (auto simp: find_spec_def mem_GetUserTokenByHash_def range_find_None [OF mem_invD(6)]
      dest: range_find_Some [OF mem_invD(6)] split: option.splits)

lemma mem_CreateUserToken_ok: "ut_Id t \<noteq> '''' \<Longrightarrow> obeys mem_inv mem_view (create_spec tb_userTokens tb_userTokens_update ut_Id user_token_clash t) (mem_CreateUserToken t)"
  by (rule obeysI) (auto simp: create_spec_def mem_CreateUserToken_def user_token_clash_def range_exists_iff [OF mem_invD(6)]
      intro!: mem_put_userTokens dest: keyed_ranD [OF mem_invD(12)] keyed_getD [OF mem_invD(12)] split: if_splits)

lemma mem_DeleteUserToken_ok: "obeys mem_inv mem_view (delete_spec tb_userTokens tb_userTokens_update k) (mem_DeleteUserToken k)"
  by (rule obeysI) (auto simp: delete_spec_def mem_DeleteUserToken_def mem_cut_userTokens split: if_splits)

lemma mem_DeleteUserTokens_ok: "obeys mem_inv mem_view (delete_where_spec tb_userTokens tb_userTokens_update (\<lambda>t. ut_UserId t = userId \<and> ut_Purpose t = p)) (mem_DeleteUserTokens userId p)"
  by (rule obeysI) (auto simp: delete_where_spec_def mem_DeleteUserTokens_def range_delete_eq filter_card [OF mem_invD(6)]
      mem_cut_userTokens matchToken_iff not_less)

lemma mem_DeleteExpiredUserTokens_ok: "obeys mem_inv mem_view (delete_where_spec tb_userTokens tb_userTokens_update (\<lambda>t. ut_ExpiresAt t \<le> e)) (mem_DeleteExpiredUserTokens e)"
  by (rule obeysI) (auto simp: delete_where_spec_def mem_DeleteExpiredUserTokens_def range_delete_eq filter_card [OF mem_invD(6)]
      mem_cut_userTokens matchToken_iff not_less)

text \<open>The in-memory store is an instance of every interface.\<close>

lemmas mem_ops_ok =
  mem_ListClients_ok mem_GetClientById_ok mem_GetClientByClientId_ok mem_CreateClient_ok mem_UpdateClient_ok mem_DeleteClient_ok
  mem_ListUsers_ok mem_GetUserById_ok mem_GetUserByNormalizedUsername_ok mem_GetUserByNormalizedEmail_ok mem_CreateUser_ok mem_UpdateUser_ok mem_DeleteUser_ok
  mem_ListAccessTokens_ok mem_GetAccessTokenById_ok mem_GetAccessTokenByHash_ok mem_CreateAccessToken_ok mem_DeleteAccessToken_ok mem_DeleteAccessTokens_ok
  mem_ListRefreshTokens_ok mem_GetRefreshTokenById_ok mem_GetRefreshTokenByHash_ok mem_CreateRefreshToken_ok mem_UpdateRefreshToken_ok mem_DeleteRefreshToken_ok mem_DeleteRefreshTokens_ok
  mem_GetAuthorizationCodeByHash_ok mem_CreateAuthorizationCode_ok mem_ConsumeAuthorizationCode_ok mem_DeleteAuthorizationCode_ok mem_DeleteExpiredAuthorizationCodes_ok
  mem_GetUserTokenByHash_ok mem_CreateUserToken_ok mem_DeleteUserToken_ok mem_DeleteUserTokens_ok mem_DeleteExpiredUserTokens_ok

lemma mem_view_ok: "mem_inv s \<Longrightarrow> tables_ok (mem_view s)"
  by (simp add: mem_inv_def)

lemmas mem_op_defs =
  mem_ListClients_def
  mem_GetClientById_def
  mem_GetClientByClientId_def
  mem_CreateClient_def
  mem_UpdateClient_def
  mem_DeleteClient_def
  mem_ListUsers_def
  mem_GetUserById_def
  mem_GetUserByNormalizedUsername_def
  mem_GetUserByNormalizedEmail_def
  mem_CreateUser_def
  mem_UpdateUser_def
  mem_DeleteUser_def
  mem_ListAccessTokens_def
  mem_GetAccessTokenById_def
  mem_GetAccessTokenByHash_def
  mem_CreateAccessToken_def
  mem_DeleteAccessToken_def
  mem_DeleteAccessTokens_def
  mem_ListRefreshTokens_def
  mem_GetRefreshTokenById_def
  mem_GetRefreshTokenByHash_def
  mem_CreateRefreshToken_def
  mem_UpdateRefreshToken_def
  mem_DeleteRefreshToken_def
  mem_DeleteRefreshTokens_def
  mem_GetAuthorizationCodeByHash_def
  mem_CreateAuthorizationCode_def
  mem_ConsumeAuthorizationCode_def
  mem_DeleteAuthorizationCode_def
  mem_DeleteExpiredAuthorizationCodes_def
  mem_GetUserTokenByHash_def
  mem_CreateUserToken_def
  mem_DeleteUserToken_def
  mem_DeleteUserTokens_def
  mem_DeleteExpiredUserTokens_def

lemma mem_reliable:
  "\<And>opts. reliable (mem_ListClients opts)"
  "\<And>k. reliable (mem_GetClientById k)"
  "\<And>clientId. reliable (mem_GetClientByClientId clientId)"
  "\<And>c. reliable (mem_CreateClient c)"
  "\<And>c. reliable (mem_UpdateClient c)"
  "\<And>k. reliable (mem_DeleteClient k)"
  "\<And>f opts. reliable (mem_ListUsers ul f opts)"
  "\<And>k. reliable (mem_GetUserById k)"
  "\<And>n. reliable (mem_GetUserByNormalizedUsername n)"
  "\<And>n. reliable (mem_GetUserByNormalizedEmail n)"
  "\<And>u. reliable (mem_CreateUser u)"
  "\<And>u. reliable (mem_UpdateUser u)"
  "\<And>k. reliable (mem_DeleteUser k)"
  "\<And>f opts. reliable (mem_ListAccessTokens f opts)"
  "\<And>k. reliable (mem_GetAccessTokenById k)"
  "\<And>h. reliable (mem_GetAccessTokenByHash h)"
  "\<And>a. reliable (mem_CreateAccessToken a)"
  "\<And>k. reliable (mem_DeleteAccessToken k)"
  "\<And>f. reliable (mem_DeleteAccessTokens f)"
  "\<And>f opts. reliable (mem_ListRefreshTokens f opts)"
  "\<And>k. reliable (mem_GetRefreshTokenById k)"
  "\<And>h. reliable (mem_GetRefreshTokenByHash h)"
  "\<And>r. reliable (mem_CreateRefreshToken r)"
  "\<And>r. reliable (mem_UpdateRefreshToken r)"
  "\<And>k. reliable (mem_DeleteRefreshToken k)"
  "\<And>f. reliable (mem_DeleteRefreshTokens f)"
  "\<And>h. reliable (mem_GetAuthorizationCodeByHash h)"
  "\<And>c. reliable (mem_CreateAuthorizationCode c)"
  "\<And>k t. reliable (mem_ConsumeAuthorizationCode k t)"
  "\<And>k. reliable (mem_DeleteAuthorizationCode k)"
  "\<And>t. reliable (mem_DeleteExpiredAuthorizationCodes t)"
  "\<And>p h. reliable (mem_GetUserTokenByHash p h)"
  "\<And>t. reliable (mem_CreateUserToken t)"
  "\<And>k. reliable (mem_DeleteUserToken k)"
  "\<And>userId p. reliable (mem_DeleteUserTokens userId p)"
  "\<And>e. reliable (mem_DeleteExpiredUserTokens e)"
  by (simp_all add: reliable_def mem_op_defs Let_def range_delete_eq split: option.split)

interpretation memory: reliable_store "memory_ops ul" mem_inv mem_view "to_lower ul" for ul
  by unfold_locales (simp_all only: memory_ops_simps mem_ops_ok mem_view_ok mem_reliable simp_thms not_False_eq_True)

section \<open>Properties\<close>

text \<open>
  C25: the in-memory store meets the contract of \<open>store.Store\<close>: every operation keeps the invariant
  (unique ids, client ids, usernames, email addresses and hashes), and its result and the tables after
  it are the ones the interface promises, on every branch: found or not found, duplicate, conflict.
\<close>

theorem memory_store_contract: "store (memory_ops ul) mem_inv mem_view (to_lower ul)"
  by (rule memory.store_axioms)

text \<open>A store with one consumed and one fresh authorization code, for closed instances.\<close>

definition sample_code :: authorization_code where
  "sample_code =
     \<lparr>ac_Id = ''k1'', ac_CodeHash = ''h1'', ac_ClientId = ''c-1'', ac_UserId = ''u-1'', ac_Scopes = [''a''],
      ac_RedirectUri = ''app:/cb'', ac_CodeChallenge = '''', ac_CodeChallengeMethod = '''',
      ac_CreatedAt = 0, ac_ExpiresAt = 300000000000, ac_ConsumedAt = None\<rparr>"

definition sample_mem :: mem where
  "sample_mem = mem_New\<lparr>
     m_clients := [(''c-1'', EnsureDefaults sample_client)],
     m_authorizationCodes :=
       [(''k0'', sample_code\<lparr>ac_Id := ''k0'', ac_CodeHash := ''h0'', ac_ConsumedAt := Some 1, ac_ExpiresAt := 5\<rparr>),
        (''k1'', sample_code)]\<rparr>"

text \<open>The invariant of a store given by its entries, as conditions on lists that evaluate.\<close>

lemma keyed_map_of: "list_all (\<lambda>(k, v). key v = k \<and> k \<noteq> '''') m \<Longrightarrow> keyed key (map_of m)"
  by (auto simp: keyed_def list_all_iff dest!: map_of_SomeD)

lemma unique_map_of: "distinct (map (\<lambda>(k, v). f v) m) \<Longrightarrow> unique_field f (map_of m)"
  by (auto simp: unique_field_def ran_def distinct_map inj_on_def dest!: map_of_SomeD)

lemma gm_ok_list: "distinct (map fst m) \<Longrightarrow> list_all (\<lambda>(k, v). key v = k \<and> k \<noteq> '''') m \<Longrightarrow> gm_ok key m"
  by (auto simp: gm_ok_def list_all_iff)

lemmas sample_inv_intros = keyed_map_of unique_map_of gm_ok_list

lemma mem_New_inv: "mem_inv mem_New"
  by (simp add: mem_New_def mem_defs keyed_def unique_field_def)

lemma sample_mem_inv: "mem_inv sample_mem"
  by (auto simp: sample_mem_def mem_New_def mem_defs gm_ok_def keyed_def unique_field_def sample_code_def
      sample_client_def EnsureDefaults_def ran_def split: if_splits)

text \<open>
  An authorization code is consumed at most once: after a successful \<open>ConsumeAuthorizationCode\<close> a second
  call for the same code, at whatever time, gets \<open>ErrConflict\<close> and changes nothing.
\<close>

lemma consume_once:
  assumes "mem_ConsumeAuthorizationCode k t s = (Inr (), s')"
  shows "mem_ConsumeAuthorizationCode k t' s' = (Inl ErrConflict, s')"
  using assms
  by (auto simp: mem_ConsumeAuthorizationCode_def update_conv' split: option.splits if_splits)

lemma consume_once_witness:
  "\<exists>s'. mem_ConsumeAuthorizationCode ''k1'' 7 sample_mem = (Inr (), s')
     \<and> mem_ConsumeAuthorizationCode ''k1'' 8 s' = (Inl ErrConflict, s')"
proof -
  have "fst (mem_ConsumeAuthorizationCode ''k1'' 7 sample_mem) = Inr ()"
    by (simp add: mem_ConsumeAuthorizationCode_def sample_mem_def mem_New_def sample_code_def)
  then obtain s' where "mem_ConsumeAuthorizationCode ''k1'' 7 sample_mem = (Inr (), s')"
    by (metis prod.collapse)
  with consume_once [OF this, of 8] show ?thesis by blast
qed

lemma take_pages:
  "concat (map (\<lambda>i. take n (drop (i * n) xs)) [0..<m]) = take (m * n) xs"
  by (induction m) (simp_all add: take_add add.commute [of n])

text \<open>
  Paging through a list visits every entry exactly once and in order: the first \<open>m\<close> pages of
  \<open>n\<close> entries are together the first \<open>m * n\<close> entries of the list sorted by creation time and id,
  and each page reports the length of the whole list.
\<close>

theorem pages_cover:
  assumes "0 < n" and "n \<le> nat MaxLimit"
  shows "concat (map (\<lambda>i. fst (page items key \<lparr>lo_Offset = int (i * n), lo_Limit = int n\<rparr>)) [0..<m])
           = take (m * n) (sort_key key items)
         \<and> (\<forall>i. snd (page items key \<lparr>lo_Offset = int (i * n), lo_Limit = int n\<rparr>) = length items)"
proof -
  have "fst (page items key \<lparr>lo_Offset = int (i * n), lo_Limit = int n\<rparr>) = take n (drop (i * n) (sort_key key items))" for i
    using assms by (simp add: page_eq ListOptions_Normalize_def MaxLimit_def Let_def flip: of_nat_mult)
  then have "concat (map (\<lambda>i. fst (page items key \<lparr>lo_Offset = int (i * n), lo_Limit = int n\<rparr>)) [0..<m])
      = take (m * n) (sort_key key items)"
    using take_pages [of n "sort_key key items" m] by simp
  then show ?thesis by (simp add: page_eq)
qed

theorem pages_cover_witness:
  "concat (map (\<lambda>i. fst (page [sample_code] (\<lambda>c. (ac_CreatedAt c, ac_Id c))
      \<lparr>lo_Offset = int (i * 2), lo_Limit = int 2\<rparr>)) [0..<3]) = take (3 * 2) (sort_key (\<lambda>c. (ac_CreatedAt c, ac_Id c)) [sample_code])"
  using pages_cover [of 2 "[sample_code]" "\<lambda>c. (ac_CreatedAt c, ac_Id c)" 3] by (simp add: MaxLimit_def)

text \<open>
  \<open>DeleteExpired\<close> on the in-memory store always succeeds and leaves exactly the tokens and codes
  that expire after \<open>now\<close>; clients and users are untouched and the invariant holds.
\<close>

lemma DeleteExpired_exact:
  assumes "mem_inv s"
  shows "\<exists>s'. DeleteExpired (memory_ops ul) now s = (Inr (), s') \<and> mem_inv s' \<and> mem_view s' =
     (mem_view s)\<lparr>tb_accessTokens := keep (\<lambda>t. now < at_ExpiresAt t) (tb_accessTokens (mem_view s)),
                  tb_refreshTokens := keep (\<lambda>t. now < rt_ExpiresAt t) (tb_refreshTokens (mem_view s)),
                  tb_authorizationCodes := keep (\<lambda>c. now < ac_ExpiresAt c) (tb_authorizationCodes (mem_view s)),
                  tb_userTokens := keep (\<lambda>t. now < ut_ExpiresAt t) (tb_userTokens (mem_view s))\<rparr>"
proof -
  obtain s' where r: "DeleteExpired (memory_ops ul) now s = (Inr (), s')"
    by (simp add: DeleteExpired_def Let_def andThen_def mem_DeleteAccessTokens_def mem_DeleteRefreshTokens_def
        mem_DeleteExpiredAuthorizationCodes_def mem_DeleteExpiredUserTokens_def range_delete_eq ret_def)
  with memory.DeleteExpired_ok [OF assms this] show ?thesis by blast
qed

end
