(* ===== verification/AccountProofs.thy ===== *)
theory AccountProofs
  imports Account MemoryStore
begin

text \<open>
  The guarantees of \<open>pkg/account\<close>. The locale \<open>account_service\<close> is the service on any store that meets
  the contract of \<open>store.Store\<close>; its lemmas hold for every such store and are used at the in-memory
  store through the interpretation \<open>acc\<close>.
\<close>

locale account_service = store "ao_Store svc" I view lower
  for svc :: "'s account_options" and I :: "'s \<Rightarrow> bool" and view :: "'s \<Rightarrow> tables" and lower :: "string \<Rightarrow> string"
begin

text \<open>Every operation keeps the invariant of the store, whatever it returns.\<close>

lemmas calls = preserves_call [OF st_GetUserById] preserves_call [OF st_GetUserByNormalizedUsername]
  preserves_call [OF st_GetUserByNormalizedEmail] preserves_call [OF st_CreateUser]
  preserves_call [OF st_UpdateUser] preserves_call [OF st_DeleteUser]
  preserves_call [OF st_DeleteAccessTokens] preserves_call [OF st_DeleteRefreshTokens]
  preserves_call [OF st_GetUserTokenByHash] preserves_call [OF st_CreateUserToken]
  preserves_call [OF st_DeleteUserToken] preserves_call [OF st_DeleteUserTokens]

lemma keep_GetUser: "preserves (\<lambda>w. I (w_store w)) (account_GetUser svc k)"
  unfolding account_GetUser_def by (intro preserves_rules calls)

lemma keep_FindUser: "preserves (\<lambda>w. I (w_store w)) (account_FindUser svc login)"
  unfolding account_FindUser_def by (intro preserves_rules calls)

lemma keep_ensureUnique: "preserves (\<lambda>w. I (w_store w)) (account_ensureUnique svc u)"
  unfolding account_ensureUnique_def by (intro preserves_rules calls)

lemma keep_RevokeTokens: "preserves (\<lambda>w. I (w_store w)) (account_RevokeTokens svc k)"
  unfolding account_RevokeTokens_def by (intro preserves_rules calls)

lemma keep_createUserToken: "preserves (\<lambda>w. I (w_store w)) (account_createUserToken svc u p d)"
  unfolding account_createUserToken_def
  by (intro preserves_rules calls preserves_NewId) simp_all

lemma keep_SendActivation: "preserves (\<lambda>w. I (w_store w)) (account_SendActivation svc u)"
  unfolding account_SendActivation_def by (intro preserves_rules keep_createUserToken)

lemma withPassword_ok:
  "withPassword svc p u w = (Inr u', w') \<Longrightarrow>
     w_store w' = w_store w \<and> (\<exists>h. u' = u\<lparr>u_PasswordHash := h\<rparr>) \<and>
     (if p = '''' then u' = u
      else account_ValidatePassword svc p = None \<and> (\<exists>salt. h_Hash (ao_Hasher svc) p salt = Inr (u_PasswordHash u')))"
  unfolding withPassword_def
  by (auto simp: andThen_eq_Inr hash_secret_eq split: if_splits option.splits intro: exI [of _ "u_PasswordHash u"])

lemma keep_CreateUser: "preserves (\<lambda>w. I (w_store w)) (account_CreateUser svc input)"
proof -
  have store: "preserves (\<lambda>w. I (w_store w)) (withPassword svc p u)" for p u
    unfolding withPassword_def by (intro preserves_rules)
  have tail: "preserves (\<lambda>w. I (w_store w)) (andThen (account_ensureUnique svc u) (\<lambda>_.
       andThen (renamed ErrDuplicate ErrUserExists (CreateUser (ao_Store svc) u)) (\<lambda>_.
       if ci_SendActivation input \<and> \<not> u_EmailVerified u
       then handle (account_SendActivation svc u) (\<lambda>_. ret u) (\<lambda>_. ret u) else ret u)))"
    if "u_Id u \<noteq> ''''" for u
    using that by (intro preserves_rules calls keep_ensureUnique keep_SendActivation) simp
  show ?thesis
    unfolding account_CreateUser_def Let_def [of "newUser _ _ _ _ _"]
  proof (rule preserves_andThen [OF preserves_world(5)], rule preserves_NewId,
      rule preserves_andThen [OF preserves_world(3)], rule preserves_option [rotated], rule preserves_fail)
    fix now and i :: string and stamp assume "i \<noteq> ''''"
    then have "u_Id (newUser (ao_Lib svc) input now i stamp) \<noteq> ''''"
      by (simp add: newUser_def user_Normalize_def Let_def)
    then show "preserves (\<lambda>w. I (w_store w)) (andThen (withPassword svc (ci_Password input) (newUser (ao_Lib svc) input now i stamp))
      (\<lambda>user. andThen (account_ensureUnique svc user) (\<lambda>_.
       andThen (renamed ErrDuplicate ErrUserExists (CreateUser (ao_Store svc) user)) (\<lambda>_.
       if ci_SendActivation input \<and> \<not> u_EmailVerified user
       then handle (account_SendActivation svc user) (\<lambda>_. ret user) (\<lambda>_. ret user) else ret user))))"
      by (intro preserves_andThen_result store tail) (auto dest: withPassword_ok)
  qed
qed

lemma keep_UpdateUser: "preserves (\<lambda>w. I (w_store w)) (account_UpdateUser svc u)"
  unfolding account_UpdateUser_def
  by (intro preserves_rules calls keep_GetUser keep_ensureUnique keep_RevokeTokens)

lemma keep_DeleteUser: "preserves (\<lambda>w. I (w_store w)) (account_DeleteUser svc k)"
  unfolding account_DeleteUser_def by (intro preserves_rules calls keep_RevokeTokens)

lemma keep_setPassword: "preserves (\<lambda>w. I (w_store w)) (account_setPassword svc u p)"
  unfolding account_setPassword_def by (intro preserves_rules calls keep_RevokeTokens)

lemma keep_SetPassword: "preserves (\<lambda>w. I (w_store w)) (account_SetPassword svc k p)"
  unfolding account_SetPassword_def by (intro preserves_rules keep_GetUser keep_setPassword)

lemma keep_getDummyHash: "preserves (\<lambda>w. I (w_store w)) (account_getDummyHash svc)"
  by (rule preservesI) (auto simp: account_getDummyHash_def andThen_def handle_def ret_def hash_secret_def
      fail_def NewToken_def RandomToken_def RandomBytes_def split: option.splits sum.splits prod.splits)

lemma keep_Authenticate: "preserves (\<lambda>w. I (w_store w)) (account_Authenticate svc login p)"
  unfolding account_Authenticate_def
  by (intro preserves_rules calls keep_FindUser keep_getDummyHash)

lemma keep_lookupUserToken: "preserves (\<lambda>w. I (w_store w)) (account_lookupUserToken svc p token)"
  unfolding account_lookupUserToken_def by (intro preserves_rules calls)

lemma keep_ResendActivation: "preserves (\<lambda>w. I (w_store w)) (account_ResendActivation svc email)"
  unfolding account_ResendActivation_def by (intro preserves_rules calls keep_SendActivation)

lemma keep_Activate: "preserves (\<lambda>w. I (w_store w)) (account_Activate svc token)"
  unfolding account_Activate_def by (intro preserves_rules calls keep_lookupUserToken)

lemma keep_RequestPasswordReset: "preserves (\<lambda>w. I (w_store w)) (account_RequestPasswordReset svc email)"
  unfolding account_RequestPasswordReset_def by (intro preserves_rules calls keep_createUserToken)

lemma keep_ResetPassword: "preserves (\<lambda>w. I (w_store w)) (account_ResetPassword svc token p)"
  unfolding account_ResetPassword_def
  by (intro preserves_rules calls keep_lookupUserToken keep_setPassword)

lemma keep_Register: "preserves (\<lambda>w. I (w_store w)) (account_Register svc n e p)"
  unfolding account_Register_def by (rule keep_CreateUser)

text \<open>What a successful lookup says.\<close>

lemma FindUser_ok:
  assumes "account_FindUser svc login w = (Inr u, w')" and "I (w_store w)"
  shows "I (w_store w') \<and> view (w_store w') = view (w_store w) \<and> w_ticks w' = w_ticks w \<and> w_clock w' = w_clock w
     \<and> u \<in> ran (tb_users (view (w_store w)))
     \<and> (u_NormalizedUsername u = NormalizeUsername (ao_Lib svc) login
        \<or> CHR ''@'' \<in> set login \<and> u_NormalizedEmail u = NormalizeEmail (ao_Lib svc) login)"
proof -
  let ?name = "GetUserByNormalizedUsername (ao_Store svc) (NormalizeUsername (ao_Lib svc) login)"
  let ?mail = "GetUserByNormalizedEmail (ao_Store svc) (NormalizeEmail (ao_Lib svc) login)"
  from assms(1) consider (name) "on_store ?name w = (Inr u, w')"
    | (mail) w1 e where "on_store ?name w = (Inl e, w1)" "on_store ?mail w1 = (Inr u, w')" "CHR ''@'' \<in> set login"
    unfolding account_FindUser_def by (auto simp: handle_eq contains_single split: if_splits)
  then show ?thesis
  proof cases
    case name
    show ?thesis using on_store_ok [OF name st_GetUserByNormalizedUsername assms(2)] on_store_frame [OF name]
      by (simp add: find_spec_ok)
  next
    case mail
    from on_store_err [OF mail(1) st_GetUserByNormalizedUsername assms(2)]
    have 1: "I (w_store w1)" "view (w_store w1) = view (w_store w)" by (auto dest: spec_err)
    show ?thesis using on_store_ok [OF mail(2) st_GetUserByNormalizedEmail 1(1)] 1 mail(3)
        on_store_frame [OF mail(1)] on_store_frame [OF mail(2)] by (simp add: find_spec_ok)
  qed
qed

text \<open>
  A successful authentication: the stored account of that name was not locked, has a password that
  the hasher accepts, is enabled and, where required, activated; only this account is changed.
\<close>

lemma Authenticate_ok:
  assumes "account_Authenticate svc login password w = (Inr u, w')" and "I (w_store w)"
  shows "\<exists>u0. tb_users (view (w_store w)) (u_Id u0) = Some u0
     \<and> (u_NormalizedUsername u0 = NormalizeUsername (ao_Lib svc) login
        \<or> CHR ''@'' \<in> set login \<and> u_NormalizedEmail u0 = NormalizeEmail (ao_Lib svc) login)
     \<and> \<not> IsLockedOut u0 (truncate_ms (w_clock w (w_ticks w)))
     \<and> u_PasswordHash u0 \<noteq> '''' \<and> h_Verify (ao_Hasher svc) (u_PasswordHash u0) password = None
     \<and> account_CanSignIn svc u0 = None
     \<and> u = u0\<lparr>u_FailedLoginCount := 0, u_LockoutEnd := None,
             u_LastLoginAt := Some (truncate_ms (w_clock w (w_ticks w))),
             u_UpdatedAt := truncate_ms (w_clock w (w_ticks w))\<rparr>
     \<and> view (w_store w') = tb_users_update (\<lambda>m. m(u_Id u0 \<mapsto> u)) (view (w_store w))"
proof -
  define now where "now = truncate_ms (w_clock w (w_ticks w))"
  let ?u = "\<lambda>u0. u0\<lparr>u_FailedLoginCount := 0, u_LockoutEnd := None, u_LastLoginAt := Some now, u_UpdatedAt := now\<rparr>"
  from assms(1) obtain u0 w1 where
    find: "account_FindUser svc login (w\<lparr>w_ticks := Suc (w_ticks w)\<rparr>) = (Inr u0, w1)"
    and c: "\<not> IsLockedOut u0 now" "u_PasswordHash u0 \<noteq> ''''"
      "h_Verify (ao_Hasher svc) (u_PasswordHash u0) password = None" "account_CanSignIn svc u0 = None"
    and u: "u = ?u u0" and upd: "on_store (UpdateUser (ao_Store svc) (?u u0)) w1 = (Inr (), w')"
    unfolding account_Authenticate_def
    by (auto simp: andThen_eq_Inr handle_eq clock_now_eq account_CanSignIn_def Let_def now_def
        split: if_splits)
  from FindUser_ok [OF find] assms(2) have f: "I (w_store w1)" "view (w_store w1) = view (w_store w)"
    "u0 \<in> ran (tb_users (view (w_store w)))"
    "u_NormalizedUsername u0 = NormalizeUsername (ao_Lib svc) login
        \<or> CHR ''@'' \<in> set login \<and> u_NormalizedEmail u0 = NormalizeEmail (ao_Lib svc) login" by simp_all
  have "keyed u_Id (tb_users (view (w_store w)))" using view_ok [OF assms(2)] by (simp add: tables_ok_def)
  from keyed_ranD [OF this f(3)] have k: "tb_users (view (w_store w)) (u_Id u0) = Some u0" by blast
  from on_store_ok [OF upd st_UpdateUser f(1)]
  have "view (w_store w') = tb_users_update (\<lambda>m. m(u_Id u0 \<mapsto> ?u u0)) (view (w_store w))"
    by (simp add: update_spec_ok f(2))
  with k c u f(4) show ?thesis unfolding now_def by blast
qed

text \<open>The steps shared by several operations.\<close>

lemma RevokeTokens_ok:
  assumes "account_RevokeTokens svc k w = (Inr x, w')" and "I (w_store w)" and "k \<noteq> ''''"
  shows "I (w_store w') \<and> view (w_store w') = (view (w_store w))
     \<lparr>tb_accessTokens := keep (\<lambda>t. at_UserId t \<noteq> k) (tb_accessTokens (view (w_store w))),
      tb_refreshTokens := keep (\<lambda>t. rt_UserId t \<noteq> k) (tb_refreshTokens (view (w_store w)))\<rparr>"
proof -
  let ?f = "empty_filter\<lparr>tf_UserId := k\<rparr>"
  from assms(1) obtain n1 n2 w1 where
    r: "on_store (DeleteRefreshTokens (ao_Store svc) ?f) w = (Inr n1, w1)"
      "on_store (DeleteAccessTokens (ao_Store svc) ?f) w1 = (Inr n2, w')"
    unfolding account_RevokeTokens_def Let_def by (auto simp: andThen_eq_Inr)
  have m: "(\<lambda>x. \<not> at_matches ?f x) = (\<lambda>t. at_UserId t \<noteq> k)" "(\<lambda>x. \<not> rt_matches ?f x) = (\<lambda>t. rt_UserId t \<noteq> k)"
    using assms(3) by (auto simp: at_matches_def rt_matches_def filter_matches_def empty_filter_def fun_eq_iff)
  from on_store_ok [OF r(1) st_DeleteRefreshTokens assms(2)] have 1: "I (w_store w1)"
    "view (w_store w1) = tb_refreshTokens_update (keep (\<lambda>t. rt_UserId t \<noteq> k)) (view (w_store w))"
    by (simp_all add: delete_where_spec_ok m)
  from on_store_ok [OF r(2) st_DeleteAccessTokens 1(1)] show ?thesis
    by (simp add: delete_where_spec_ok m 1(2))
qed

lemma lookupUserToken_ok:
  assumes "account_lookupUserToken svc p token w = (Inr (t, u), w')" and "I (w_store w)"
  shows "I (w_store w') \<and> view (w_store w') = view (w_store w)
     \<and> token \<noteq> '''' \<and> t \<in> ran (tb_userTokens (view (w_store w))) \<and> ut_Purpose t = p
     \<and> ut_TokenHash t = HashToken (ao_Lib svc) token
     \<and> \<not> user_token_HasExpired t (truncate_ms (w_clock w (w_ticks w)))
     \<and> tb_users (view (w_store w)) (ut_UserId t) = Some u \<and> u_Id u = ut_UserId t \<and> u_Id u \<noteq> ''''"
proof -
  from assms(1) obtain w1 w2 where
    r: "on_store (GetUserTokenByHash (ao_Store svc) p (HashToken (ao_Lib svc) token)) w = (Inr t, w1)"
      "clock_now w1 = (Inr (truncate_ms (w_clock w1 (w_ticks w1))), w2)"
      "on_store (GetUserById (ao_Store svc) (ut_UserId t)) w2 = (Inr u, w')"
    and c: "token \<noteq> ''''" "\<not> user_token_HasExpired t (truncate_ms (w_clock w1 (w_ticks w1)))"
    unfolding account_lookupUserToken_def
    by (auto simp: handle_eq andThen_eq_Inr clock_now_eq split: if_splits)
  from on_store_ok [OF r(1) st_GetUserTokenByHash assms(2)] have 1: "I (w_store w1)"
    "view (w_store w1) = view (w_store w)" "t \<in> ran (tb_userTokens (view (w_store w)))"
    "ut_Purpose t = p" "ut_TokenHash t = HashToken (ao_Lib svc) token" by (simp_all add: find_spec_ok)
  have 2: "w_store w2 = w_store w1" using r(2) by (auto simp: clock_now_eq)
  from on_store_ok [OF r(3) st_GetUserById] 1 2 have 3: "I (w_store w')" "view (w_store w') = view (w_store w)"
    "tb_users (view (w_store w)) (ut_UserId t) = Some u" by (simp_all add: get_spec_ok)
  have "keyed u_Id (tb_users (view (w_store w)))" using view_ok [OF assms(2)] by (simp add: tables_ok_def)
  with 3(3) have "u_Id u = ut_UserId t \<and> u_Id u \<noteq> ''''" by (auto simp: keyed_def)
  with 1 3 c on_store_frame [OF r(1)] show ?thesis by auto
qed

lemma setPassword_ok:
  assumes "account_setPassword svc u0 password w = (Inr u, w')" and "I (w_store w)" and "u_Id u0 \<noteq> ''''"
  shows "I (w_store w') \<and> account_ValidatePassword svc password = None
     \<and> (\<exists>salt. h_Hash (ao_Hasher svc) password salt = Inr (u_PasswordHash u))
     \<and> u_Id u = u_Id u0 \<and> u_EmailVerified u = u_EmailVerified u0 \<and> u_Enabled u = u_Enabled u0
     \<and> u_FailedLoginCount u = 0 \<and> u_LockoutEnd u = None
     \<and> view (w_store w') = (view (w_store w))
       \<lparr>tb_users := (tb_users (view (w_store w)))(u_Id u0 \<mapsto> u),
        tb_accessTokens := keep (\<lambda>t. at_UserId t \<noteq> u_Id u0) (tb_accessTokens (view (w_store w))),
        tb_refreshTokens := keep (\<lambda>t. rt_UserId t \<noteq> u_Id u0) (tb_refreshTokens (view (w_store w)))\<rparr>"
proof -
  have v: "account_ValidatePassword svc password = None"
    using assms(1) by (auto simp: account_setPassword_def split: option.splits)
  with assms(1) obtain hash stamp now wa wb w1 w2 x y where
    e: "hash_secret (ao_Hasher svc) password w = (Inr hash, wa)" "NewToken wa = (Inr stamp :: account_error + string, wb)"
      "clock_now wb = (Inr now :: account_error + time, w1)"
    and u: "u = u0\<lparr>u_PasswordHash := hash, u_SecurityStamp := stamp, u_FailedLoginCount := 0,
                       u_LockoutEnd := None, u_UpdatedAt := now\<rparr>"
    and r: "on_store (UpdateUser (ao_Store svc) u) w1 = (Inr x, w2)"
      "account_RevokeTokens svc (u_Id u0) w2 = (Inr y, w')"
    unfolding account_setPassword_def Let_def
    by (simp add: andThen_eq_Inr) blast
  from e have w1: "w_store w1 = w_store w" and h: "\<exists>salt. h_Hash (ao_Hasher svc) password salt = Inr hash"
    by (auto simp: hash_secret_eq NewToken_eq clock_now_eq dest: sym)
  from on_store_ok [OF r(1) st_UpdateUser] assms(2) w1 have 1: "I (w_store w2)"
    "view (w_store w2) = tb_users_update (\<lambda>m. m(u_Id u0 \<mapsto> u)) (view (w_store w))"
    by (simp_all add: update_spec_ok u)
  from RevokeTokens_ok [OF r(2) 1(1) assms(3)] 1(2) v h show ?thesis by (simp add: u)
qed

text \<open>
  Password reset: it needs an unexpired reset token of an enabled account, sets the password,
  and ends every token of the account, the reset tokens included.
\<close>

lemma ResetPassword_ok:
  assumes "account_ResetPassword svc token password w = (Inr u, w')" and "I (w_store w)"
  shows "\<exists>t u0. t \<in> ran (tb_userTokens (view (w_store w))) \<and> ut_Purpose t = UserTokenPurposePasswordReset
     \<and> ut_TokenHash t = HashToken (ao_Lib svc) token \<and> ut_UserId t = u_Id u
     \<and> \<not> user_token_HasExpired t (truncate_ms (w_clock w (w_ticks w)))
     \<and> tb_users (view (w_store w)) (u_Id u) = Some u0 \<and> u_Enabled u0 \<and> u_Enabled u \<and> u_EmailVerified u
     \<and> account_ValidatePassword svc password = None
     \<and> (\<exists>salt. h_Hash (ao_Hasher svc) password salt = Inr (u_PasswordHash u))
     \<and> u_FailedLoginCount u = 0 \<and> u_LockoutEnd u = None
     \<and> I (w_store w') \<and> view (w_store w') = (view (w_store w))
       \<lparr>tb_users := (tb_users (view (w_store w)))(u_Id u \<mapsto> u),
        tb_accessTokens := keep (\<lambda>t. at_UserId t \<noteq> u_Id u) (tb_accessTokens (view (w_store w))),
        tb_refreshTokens := keep (\<lambda>t. rt_UserId t \<noteq> u_Id u) (tb_refreshTokens (view (w_store w))),
        tb_userTokens := keep (\<lambda>t. \<not> (ut_UserId t = u_Id u \<and> ut_Purpose t = UserTokenPurposePasswordReset))
          (tb_userTokens (view (w_store w)))\<rparr>"
proof -
  from assms(1) obtain t u0 w1 w2 n where
    look: "account_lookupUserToken svc UserTokenPurposePasswordReset token w = (Inr (t, u0), w1)"
    and en: "u_Enabled u0"
    and set: "account_setPassword svc (u0\<lparr>u_EmailVerified := True\<rparr>) password w1 = (Inr u, w2)"
    and del: "on_store (DeleteUserTokens (ao_Store svc) (u_Id u) UserTokenPurposePasswordReset) w2 = (Inr n, w')"
    unfolding account_ResetPassword_def
    by (auto simp: andThen_eq_Inr split: option.splits if_splits)
  note l = lookupUserToken_ok [OF look assms(2)]
  then have i: "I (w_store w1)" and k: "u_Id (u0\<lparr>u_EmailVerified := True\<rparr>) \<noteq> ''''" by auto
  note s = setPassword_ok [OF set i k]
  then have "I (w_store w2)" by blast
  from on_store_ok [OF del st_DeleteUserTokens this]
  have d: "I (w_store w')" "view (w_store w') = tb_userTokens_update
     (keep (\<lambda>t. \<not> (ut_UserId t = u_Id u \<and> ut_Purpose t = UserTokenPurposePasswordReset))) (view (w_store w2))"
    by (simp_all add: delete_where_spec_ok)
  from s have uid: "u_Id u = u_Id u0" by simp
  show ?thesis
    by (intro exI [of _ t] exI [of _ u0]) (use l s d en uid in auto)
qed

lemma GetUser_ok:
  assumes "account_GetUser svc k w = (Inr u, w')" and "I (w_store w)"
  shows "I (w_store w') \<and> view (w_store w') = view (w_store w) \<and> tb_users (view (w_store w)) k = Some u
     \<and> u_Id u = k \<and> k \<noteq> ''''"
proof -
  from assms(1) have r: "on_store (GetUserById (ao_Store svc) k) w = (Inr u, w')"
    unfolding account_GetUser_def by (auto simp: handle_eq split: if_splits)
  have "keyed u_Id (tb_users (view (w_store w)))" using view_ok [OF assms(2)] by (simp add: tables_ok_def)
  with on_store_ok [OF r st_GetUserById assms(2)] show ?thesis by (auto simp: get_spec_ok keyed_def)
qed

lemma ensureUnique_ok:
  assumes "account_ensureUnique svc u w = (Inr x, w')" and "I (w_store w)"
  shows "I (w_store w') \<and> view (w_store w') = view (w_store w)"
proof -
  let ?n = "GetUserByNormalizedUsername (ao_Store svc) (u_NormalizedUsername u)"
  let ?m = "GetUserByNormalizedEmail (ao_Store svc) (u_NormalizedEmail u)"
  have step: "I (w_store w2) \<and> view (w_store w2) = view (w_store w1)"
    if "obeys I view (find_spec tb_users P) m" "on_store m w1 = (r, w2)" "I (w_store w1)" for P m w1 r w2
  proof (cases r)
    case (Inl e)
    with on_store_err [OF that(2) [unfolded Inl] that(1,3)] show ?thesis by (auto dest: spec_err)
  next
    case (Inr y)
    with on_store_ok [OF that(2) [unfolded Inr] that(1,3)] show ?thesis by (simp add: find_spec_ok)
  qed
  from assms(1) obtain r1 r2 w1 where "on_store ?n w = (r1, w1)" "on_store ?m w1 = (r2, w')"
    unfolding account_ensureUnique_def Let_def by (auto simp: handle_eq split: if_splits)
  with step [OF st_GetUserByNormalizedUsername _ assms(2)] step [OF st_GetUserByNormalizedEmail]
  show ?thesis by metis
qed

text \<open>
  \<open>UpdateUser\<close> keeps the password and the creation time; disabling the account or changing the
  address draws a new security stamp, and disabling it ends every token of the account.
\<close>

lemma UpdateUser_ok:
  assumes "account_UpdateUser svc user w = (Inr u, w')" and "I (w_store w)"
  shows "\<exists>u0. tb_users (view (w_store w)) (u_Id user) = Some u0 \<and> u_Id u = u_Id user
     \<and> user_Validate (ao_Lib svc) (user_Normalize (ao_Lib svc) user) = None
     \<and> u_PasswordHash u = u_PasswordHash u0 \<and> u_CreatedAt u = u_CreatedAt u0 \<and> u_Enabled u = u_Enabled user
     \<and> u_NormalizedEmail u = u_NormalizedEmail (user_Normalize (ao_Lib svc) user)
     \<and> (\<not> u_Enabled u \<and> u_Enabled u0 \<or> u_NormalizedEmail u \<noteq> u_NormalizedEmail u0 \<longrightarrow>
          (\<exists>bs. length bs = 32 \<and> u_SecurityStamp u = RandomToken_of bs))
     \<and> I (w_store w')
     \<and> tb_users (view (w_store w')) = (tb_users (view (w_store w)))(u_Id user \<mapsto> u)
     \<and> tb_accessTokens (view (w_store w')) = (if \<not> u_Enabled u \<and> u_Enabled u0
          then keep (\<lambda>t. at_UserId t \<noteq> u_Id user) (tb_accessTokens (view (w_store w)))
          else tb_accessTokens (view (w_store w)))
     \<and> tb_refreshTokens (view (w_store w')) = (if \<not> u_Enabled u \<and> u_Enabled u0
          then keep (\<lambda>t. rt_UserId t \<noteq> u_Id user) (tb_refreshTokens (view (w_store w)))
          else tb_refreshTokens (view (w_store w)))"
proof -
  let ?n = "user_Normalize (ao_Lib svc) user"
  have v: "user_Validate (ao_Lib svc) ?n = None"
    using assms(1) by (auto simp: account_UpdateUser_def andThen_eq_Inr Let_def split: option.splits)
  with assms(1) obtain u0 wa x wb now wc ux wd y we where
    get: "account_GetUser svc (u_Id user) w = (Inr u0, wa)"
    and uniq: "account_ensureUnique svc ?n wa = (Inr x, wb)"
    and clock: "clock_now wb = (Inr now :: account_error + time, wc)"
    and stamp: "(let u3 = mergeUpdate u0 now ?n in if \<not> u_Enabled u3 \<and> u_Enabled u0 \<or> u_NormalizedEmail u3 \<noteq> u_NormalizedEmail u0
          then andThen NewToken (\<lambda>stamp. ret (u3\<lparr>u_SecurityStamp := stamp\<rparr>))
          else ret u3) wc = (Inr ux :: account_error + user, wd)"
    and upd: "on_store (UpdateUser (ao_Store svc) ux) wd = (Inr y, we)"
    and rev: "(if \<not> u_Enabled ux \<and> u_Enabled u0
       then andThen (account_RevokeTokens svc (u_Id ux)) (\<lambda>_. ret ux) else ret ux) we = (Inr u, w')"
    unfolding account_UpdateUser_def Let_def by (simp add: andThen_eq_Inr) blast
  have ux: "ux = u" using rev by (auto simp: andThen_eq_Inr split: if_splits)
  note stamp = stamp [unfolded ux] and upd = upd [unfolded ux] and rev = rev [unfolded ux]
  note g = GetUser_ok [OF get assms(2)]
  with ensureUnique_ok [OF uniq] have b: "I (w_store wb)" "view (w_store wb) = view (w_store w)" by simp_all
  have u: "u_Id u = u_Id user" "u_PasswordHash u = u_PasswordHash u0" "u_CreatedAt u = u_CreatedAt u0"
    "u_Enabled u = u_Enabled user" "u_NormalizedEmail u = u_NormalizedEmail ?n"
    and new: "\<not> u_Enabled u \<and> u_Enabled u0 \<or> u_NormalizedEmail u \<noteq> u_NormalizedEmail u0 \<longrightarrow>
          (\<exists>bs. length bs = 32 \<and> u_SecurityStamp u = RandomToken_of bs)"
    and d: "w_store wd = w_store wb"
    using stamp clock by (auto simp: mergeUpdate_def Let_def andThen_eq_Inr NewToken_eq clock_now_eq user_Normalize_def split: if_splits
      intro!: exI [of _ "map _ [0..<32]"])
  from on_store_ok [OF upd st_UpdateUser] b d have e: "I (w_store we)"
    "view (w_store we) = tb_users_update (\<lambda>m. m(u_Id user \<mapsto> u)) (view (w_store w))"
    by (simp_all add: update_spec_ok u(1))
  show ?thesis
  proof (cases "\<not> u_Enabled u \<and> u_Enabled u0")
    case True
    with rev obtain z where r: "account_RevokeTokens svc (u_Id user) we = (Inr z, w')"
      by (auto simp: andThen_eq_Inr u(1))
    from g have "u_Id user \<noteq> ''''" by blast
    from RevokeTokens_ok [OF r e(1) this] e(2) True v g u new show ?thesis by (intro exI [of _ u0]) simp
  next
    case False
    then have "w' = we" using rev by auto
    with e False v g u new show ?thesis by (intro exI [of _ u0]) auto
  qed
qed

lemma DeleteUser_ok:
  assumes "account_DeleteUser svc k w = (Inr x, w')" and "I (w_store w)"
  shows "k \<in> dom (tb_users (view (w_store w))) \<and> I (w_store w') \<and> view (w_store w') = (view (w_store w))
     \<lparr>tb_users := (tb_users (view (w_store w)))(k := None),
      tb_accessTokens := keep (\<lambda>t. at_UserId t \<noteq> k) (tb_accessTokens (view (w_store w))),
      tb_refreshTokens := keep (\<lambda>t. rt_UserId t \<noteq> k) (tb_refreshTokens (view (w_store w))),
      tb_userTokens := keep (\<lambda>t. \<not> (ut_UserId t = k \<and> ut_Purpose t = UserTokenPurposePasswordReset))
        (keep (\<lambda>t. \<not> (ut_UserId t = k \<and> ut_Purpose t = UserTokenPurposeActivation))
          (tb_userTokens (view (w_store w))))\<rparr>"
proof -
  from assms(1) obtain y1 y2 n1 n2 w1 w2 w3 where
    r: "on_store (DeleteUser (ao_Store svc) k) w = (Inr y1, w1)" "account_RevokeTokens svc k w1 = (Inr y2, w2)"
      "on_store (DeleteUserTokens (ao_Store svc) k UserTokenPurposeActivation) w2 = (Inr n1, w3)"
      "on_store (DeleteUserTokens (ao_Store svc) k UserTokenPurposePasswordReset) w3 = (Inr n2, w')"
    unfolding account_DeleteUser_def by (simp add: andThen_eq_Inr) blast
  from on_store_ok [OF r(1) st_DeleteUser assms(2)] have 1: "I (w_store w1)" "k \<in> dom (tb_users (view (w_store w)))"
    "view (w_store w1) = tb_users_update (\<lambda>m. m(k := None)) (view (w_store w))"
    by (simp_all add: delete_spec_ok)
  have "keyed u_Id (tb_users (view (w_store w)))" using view_ok [OF assms(2)] by (simp add: tables_ok_def)
  with 1(2) have "k \<noteq> ''''" by (auto simp: keyed_def)
  note 2 = RevokeTokens_ok [OF r(2) 1(1) this]
  then have i2: "I (w_store w2)" by blast
  note 3 = on_store_ok [OF r(3) st_DeleteUserTokens i2, unfolded delete_where_spec_ok]
  then have i3: "I (w_store w3)" by blast
  note 4 = on_store_ok [OF r(4) st_DeleteUserTokens i3, unfolded delete_where_spec_ok]
  from 1 2 3 4 show ?thesis by simp
qed

lemma createUserToken_ok:
  assumes "account_createUserToken svc u p d w = (Inr token, w')" and "I (w_store w)"
  shows "\<exists>t. ut_UserId t = u_Id u \<and> ut_Purpose t = p \<and> ut_TokenHash t = HashToken (ao_Lib svc) token
     \<and> ut_ExpiresAt t = truncate_ms (w_clock w (w_ticks w)) + d
     \<and> I (w_store w') \<and> view (w_store w') = tb_userTokens_update
         (\<lambda>m. (keep (\<lambda>t. \<not> (ut_UserId t = u_Id u \<and> ut_Purpose t = p)) m)(ut_Id t \<mapsto> t)) (view (w_store w))"
proof -
  from assms(1) obtain n w1 now w2 w3 k w4 t y where
    r: "on_store (DeleteUserTokens (ao_Store svc) (u_Id u) p) w = (Inr n, w1)"
      "clock_now w1 = (Inr now :: account_error + time, w2)"
      "NewToken w2 = (Inr token :: account_error + string, w3)"
      "NewId w3 = (Inr k :: account_error + string, w4)"
    and t: "t = \<lparr>ut_Id = k, ut_UserId = u_Id u, ut_Purpose = p, ut_TokenHash = HashToken (ao_Lib svc) token,
        ut_CreatedAt = now, ut_ExpiresAt = now + d\<rparr>"
    and c: "on_store (CreateUserToken (ao_Store svc) t) w4 = (Inr y, w')"
    unfolding account_createUserToken_def by (simp add: andThen_eq_Inr) blast
  from on_store_ok [OF r(1) st_DeleteUserTokens assms(2)] have 1: "I (w_store w1)"
    "view (w_store w1) = tb_userTokens_update (keep (\<lambda>t. \<not> (ut_UserId t = u_Id u \<and> ut_Purpose t = p))) (view (w_store w))"
    by (simp_all add: delete_where_spec_ok)
  from r on_store_frame [OF r(1)] have w4: "w_store w4 = w_store w1" and now: "now = truncate_ms (w_clock w (w_ticks w))"
    and k: "ut_Id t \<noteq> ''''"
    by (auto simp: clock_now_eq NewToken_eq NewId_eq NewId_not_empty t)
  from on_store_ok [OF c st_CreateUserToken [OF k]] 1 w4
  have "I (w_store w')" "view (w_store w') = tb_userTokens_update (\<lambda>m. m(ut_Id t \<mapsto> t)) (view (w_store w1))"
    by (simp_all add: create_spec_ok)
  with 1(2) t now show ?thesis by (intro exI [of _ t]) simp
qed

lemma SendActivation_frame:
  assumes "account_SendActivation svc u w = (r, w')" and "I (w_store w)"
  shows "I (w_store w')"
  using preservesD [OF keep_SendActivation assms(1)] assms(2) by simp

text \<open>
  \<open>CreateUser\<close> stores one new account under a fresh id, normalized and valid, with the flags of the
  input and the hash of the password if one is given.
\<close>

lemma CreateUser_ok:
  assumes "account_CreateUser svc input w = (Inr u, w')" and "I (w_store w)"
  shows "u_Id u \<notin> dom (tb_users (view (w_store w)))
     \<and> (\<forall>v \<in> ran (tb_users (view (w_store w))). u_NormalizedUsername v \<noteq> u_NormalizedUsername u
           \<and> u_NormalizedEmail v \<noteq> u_NormalizedEmail u)
     \<and> u_NormalizedUsername u = NormalizeUsername (ao_Lib svc) (trim_space (ci_Username input))
     \<and> u_NormalizedEmail u = NormalizeEmail (ao_Lib svc) (trim_space (ci_Email input))
     \<and> user_Validate (ao_Lib svc) (u\<lparr>u_PasswordHash := ''''\<rparr>) = None
     \<and> (if ci_Password input = '''' then u_PasswordHash u = '''' else
          account_ValidatePassword svc (ci_Password input) = None
          \<and> (\<exists>salt. h_Hash (ao_Hasher svc) (ci_Password input) salt = Inr (u_PasswordHash u)))
     \<and> u_EmailVerified u = ci_EmailVerified input \<and> u_Enabled u = ci_Enabled input
     \<and> u_FailedLoginCount u = 0 \<and> u_LockoutEnd u = None
     \<and> I (w_store w') \<and> (ci_SendActivation input \<longrightarrow> u_EmailVerified u \<longrightarrow>
           view (w_store w') = tb_users_update (\<lambda>m. m(u_Id u \<mapsto> u)) (view (w_store w)))
     \<and> (\<not> ci_SendActivation input \<longrightarrow>
           view (w_store w') = tb_users_update (\<lambda>m. m(u_Id u \<mapsto> u)) (view (w_store w)))"
proof -
  define U where "U = (\<lambda>now k stamp. newUser (ao_Lib svc) input now k stamp)"
  from assms(1) obtain now k stamp wa wb wc where
    r: "clock_now w = (Inr now :: account_error + time, wa)" "NewId wa = (Inr k :: account_error + string, wb)"
      "NewToken wb = (Inr stamp :: account_error + string, wc)"
    and rest: "(case user_Validate (ao_Lib svc) (U now k stamp) of Some e \<Rightarrow> fail (ErrValidation e) | None \<Rightarrow>
       andThen (withPassword svc (ci_Password input) (U now k stamp)) (\<lambda>user.
       andThen (account_ensureUnique svc user) (\<lambda>_.
       andThen (renamed ErrDuplicate ErrUserExists (CreateUser (ao_Store svc) user)) (\<lambda>_.
       if ci_SendActivation input \<and> \<not> u_EmailVerified user
       then handle (account_SendActivation svc user) (\<lambda>_. ret user) (\<lambda>_. ret user)
       else ret user)))) wc = (Inr u, w')"
    unfolding account_CreateUser_def Let_def U_def by (simp add: andThen_eq_Inr) blast
  have v: "user_Validate (ao_Lib svc) (U now k stamp) = None" using rest by (auto split: option.splits)
  with rest obtain u1 wd we wf x y where
    p: "withPassword svc (ci_Password input) (U now k stamp) wc = (Inr u1, wd)"
    and q: "account_ensureUnique svc u1 wd = (Inr x, we)"
    and c: "on_store (CreateUser (ao_Store svc) u1) we = (Inr y, wf)"
    and f: "(if ci_SendActivation input \<and> \<not> u_EmailVerified u1
       then handle (account_SendActivation svc u1) (\<lambda>_. ret u1) (\<lambda>_. ret u1) else ret u1) wf
        = (Inr u :: account_error + user, w')"
    by (simp add: andThen_eq_Inr) blast
  have u1: "u1 = u" using f by (auto simp: handle_eq split: if_splits)
  note c = c [unfolded u1] and p = withPassword_ok [OF p [unfolded u1]] and f = f [unfolded u1]
  have wc: "w_store wc = w_store w" and k: "k \<noteq> ''''"
    using r by (auto simp: clock_now_eq NewToken_eq NewId_eq NewId_not_empty)
  have U: "u_Id (U now k stamp) = k" "u_PasswordHash (U now k stamp) = ''''"
    "u_NormalizedUsername (U now k stamp) = NormalizeUsername (ao_Lib svc) (trim_space (ci_Username input))"
    "u_NormalizedEmail (U now k stamp) = NormalizeEmail (ao_Lib svc) (trim_space (ci_Email input))"
    "u_EmailVerified (U now k stamp) = ci_EmailVerified input" "u_Enabled (U now k stamp) = ci_Enabled input"
    "u_FailedLoginCount (U now k stamp) = 0" "u_LockoutEnd (U now k stamp) = None"
    "(U now k stamp)\<lparr>u_PasswordHash := ''''\<rparr> = U now k stamp"
    by (simp_all add: U_def newUser_def user_Normalize_def Let_def)
  from p obtain h where h: "u = (U now k stamp)\<lparr>u_PasswordHash := h\<rparr>" by blast
  from p wc have wd: "w_store wd = w_store w" by simp
  from ensureUnique_ok [OF q] assms(2) wd have we: "I (w_store we)" "view (w_store we) = view (w_store w)" by simp_all
  from h U k have uk: "u_Id u \<noteq> ''''" by simp
  note d = on_store_ok [OF c st_CreateUser [OF uk] we(1), unfolded create_spec_ok we(2)]
  have last: "I (w_store w')" "\<not> (ci_SendActivation input \<and> \<not> u_EmailVerified u) \<longrightarrow> w' = wf"
    using f d SendActivation_frame by (auto simp: handle_eq split: if_splits)
  from p have pw: "(if ci_Password input = '''' then u_PasswordHash u = '''' else
          account_ValidatePassword svc (ci_Password input) = None
          \<and> (\<exists>salt. h_Hash (ao_Hasher svc) (ci_Password input) salt = Inr (u_PasswordHash u)))"
    by (auto simp: U split: if_splits)
  from d have d1: "u_Id u \<notin> dom (tb_users (view (w_store w)))" "view (w_store wf) = tb_users_update (\<lambda>m. m(u_Id u \<mapsto> u)) (view (w_store w))"
    "\<forall>v \<in> ran (tb_users (view (w_store w))). u_NormalizedUsername v \<noteq> u_NormalizedUsername u
           \<and> u_NormalizedEmail v \<noteq> u_NormalizedEmail u"
    by (auto simp: user_clash_def)
  have hv: "user_Validate (ao_Lib svc) (u\<lparr>u_PasswordHash := ''''\<rparr>) = None" using v U(9) by (simp add: h)
  show ?thesis
    using d1 pw last hv by (intro conjI) (simp_all add: h U)
qed

end

section \<open>On a store that does not fail\<close>

text \<open>A sequence of login attempts, with the results in order.\<close>

fun login_attempts ::
  "'s account_options \<Rightarrow> string \<Rightarrow> string list \<Rightarrow> 's world \<Rightarrow> (account_error + user) list \<times> 's world" where
  "login_attempts svc login [] w = ([], w)"
| "login_attempts svc login (p # ps) w =
     (let (r, w1) = account_Authenticate svc login p w; (rs, w2) = login_attempts svc login ps w1
      in (r # rs, w2))"

lemma getDummyHash_total:
  "\<exists>h w'. account_getDummyHash svc w = (Inr h, w') \<and> w_store w' = w_store w
     \<and> w_clock w' = w_clock w \<and> w_ticks w' = w_ticks w"
  by (cases "w_accountDummy w")
    (auto simp: account_getDummyHash_def andThen_def handle_def ret_def hash_secret_def fail_def
      NewToken_def RandomToken_def RandomBytes_def split: sum.splits)

locale reliable_account = account_service + reliable_store "ao_Store svc" I view lower
begin

lemma FindUser_exact:
  assumes "I (w_store w)" and "u \<in> ran (tb_users (view (w_store w)))"
    and "u_NormalizedUsername u = NormalizeUsername (ao_Lib svc) login"
  shows "\<exists>w'. account_FindUser svc login w = (Inr u, w') \<and> I (w_store w') \<and> view (w_store w') = view (w_store w)
     \<and> w_clock w' = w_clock w \<and> w_ticks w' = w_ticks w"
proof -
  let ?m = "GetUserByNormalizedUsername (ao_Store svc) (NormalizeUsername (ao_Lib svc) login)"
  obtain r w1 where r: "on_store ?m w = (r, w1)" by (cases "on_store ?m w")
  note e = on_store_exact [OF r st_GetUserByNormalizedUsername rel_GetUserByNormalizedUsername assms(1)]
  have "unique_field u_NormalizedUsername (tb_users (view (w_store w)))"
    using view_ok [OF assms(1)] by (simp add: tables_ok_def)
  then have uniq: "x = u" if "x \<in> ran (tb_users (view (w_store w)))"
    "u_NormalizedUsername x = NormalizeUsername (ao_Lib svc) login" for x
    using that assms(2,3) unfolding unique_field_def by metis
  have "r = Inr u"
  proof (cases r)
    case (Inl x)
    with e have "\<forall>y \<in> ran (tb_users (view (w_store w))). u_NormalizedUsername y \<noteq> NormalizeUsername (ao_Lib svc) login"
      by (simp add: find_spec_def)
    with assms(2,3) show ?thesis by blast
  next
    case (Inr x)
    with e have "x \<in> ran (tb_users (view (w_store w)))"
      "u_NormalizedUsername x = NormalizeUsername (ao_Lib svc) login" by (simp_all add: find_spec_def)
    with uniq Inr show ?thesis by simp
  qed
  with r e on_store_frame [OF r] show ?thesis
    by (simp add: account_FindUser_def handle_def find_spec_def ret_def)
qed

lemma Authenticate_locked:
  assumes "I (w_store w)" and "u \<in> ran (tb_users (view (w_store w)))"
    and "u_NormalizedUsername u = NormalizeUsername (ao_Lib svc) login"
    and "IsLockedOut u (truncate_ms (w_clock w (w_ticks w)))"
  shows "\<exists>w'. account_Authenticate svc login p w = (Inl ErrLockedOut, w') \<and> I (w_store w')
     \<and> view (w_store w') = view (w_store w) \<and> w_clock w' = w_clock w \<and> w_ticks w' = Suc (w_ticks w)"
proof -
  let ?w = "w\<lparr>w_ticks := Suc (w_ticks w)\<rparr>"
  have "I (w_store ?w)" "u \<in> ran (tb_users (view (w_store ?w)))" using assms(1,2) by simp_all
  from FindUser_exact [OF this assms(3)] obtain w' where
    "account_FindUser svc login ?w = (Inr u, w')" "I (w_store w')" "view (w_store w') = view (w_store w)"
    "w_clock w' = w_clock w" "w_ticks w' = Suc (w_ticks w)" by auto
  with assms(4) show ?thesis
    by (simp add: account_Authenticate_def andThen_def clock_now_def handle_def fail_def)
qed

lemma Authenticate_wrong:
  assumes "I (w_store w)" and "u \<in> ran (tb_users (view (w_store w)))"
    and "u_NormalizedUsername u = NormalizeUsername (ao_Lib svc) login"
    and "\<not> IsLockedOut u (truncate_ms (w_clock w (w_ticks w)))"
    and "u_PasswordHash u = '''' \<or> h_Verify (ao_Hasher svc) (u_PasswordHash u) p \<noteq> None"
    and "0 < ao_MaxFailedAttempts svc"
  shows "\<exists>w'. account_Authenticate svc login p w = (Inl ErrInvalidCredentials, w') \<and> I (w_store w')
     \<and> view (w_store w') = tb_users_update
         (\<lambda>m. m(u_Id u \<mapsto> failedLogin svc (truncate_ms (w_clock w (w_ticks w))) u)) (view (w_store w))
     \<and> w_clock w' = w_clock w \<and> w_ticks w' = Suc (w_ticks w)"
proof -
  define now where "now = truncate_ms (w_clock w (w_ticks w))"
  let ?w = "w\<lparr>w_ticks := Suc (w_ticks w)\<rparr>" and ?u = "failedLogin svc now u"
  have "I (w_store ?w)" "u \<in> ran (tb_users (view (w_store ?w)))" using assms(1,2) by simp_all
  from FindUser_exact [OF this assms(3)] obtain w1 where
    f: "account_FindUser svc login ?w = (Inr u, w1)" "I (w_store w1)" "view (w_store w1) = view (w_store w)"
    "w_clock w1 = w_clock w" "w_ticks w1 = Suc (w_ticks w)" by auto
  obtain w2 where d: "(if u_PasswordHash u = '''' then andThen (account_getDummyHash svc) (\<lambda>_. ret ()) else ret ()) w1
      = (Inr () :: account_error + unit, w2)"
    and w2: "w_store w2 = w_store w1" "w_clock w2 = w_clock w" "w_ticks w2 = Suc (w_ticks w)"
  proof (cases "u_PasswordHash u = ''''")
    case True
    from getDummyHash_total [of svc w1] obtain h w2 where
      "account_getDummyHash svc w1 = (Inr h, w2)" "w_store w2 = w_store w1" "w_clock w2 = w_clock w1"
      "w_ticks w2 = w_ticks w1" by blast
    with True f(4,5) show thesis by (intro that [of w2]) (simp_all add: andThen_def ret_def)
  qed (use that [of w1] f(4,5) in \<open>simp add: ret_def\<close>)
  let ?m = "UpdateUser (ao_Store svc) ?u"
  obtain r w3 where r: "on_store ?m w2 = (r, w3)" by (cases "on_store ?m w2")
  have "I (w_store w2)" using w2(1) f(2) by simp
  note e = on_store_exact [OF r st_UpdateUser rel_UpdateUser this]
  have u: "u_Id ?u = u_Id u" "u_NormalizedUsername ?u = u_NormalizedUsername u" "u_NormalizedEmail ?u = u_NormalizedEmail u"
    by (simp_all add: failedLogin_def Let_def)
  have ok: "keyed u_Id (tb_users (view (w_store w)))" "unique_field u_NormalizedUsername (tb_users (view (w_store w)))"
    "unique_field u_NormalizedEmail (tb_users (view (w_store w)))"
    using view_ok [OF assms(1)] by (simp_all add: tables_ok_def)
  have dom: "u_Id u \<in> dom (tb_users (view (w_store w)))" using keyed_ranD [OF ok(1) assms(2)] by blast
  have free: "\<not> (\<exists>y \<in> ran (tb_users (view (w_store w))). u_Id y \<noteq> u_Id u \<and> user_clash ?u y)"
    using ok(2,3) assms(2) unfolding user_clash_def u unique_field_def by blast
  have ru: "r = Inr ()" "view (w_store w3) = tb_users_update (\<lambda>m. m(u_Id u \<mapsto> ?u)) (view (w_store w))"
    using e dom free by (simp_all add: update_spec_def u(1) w2(1) f(3) split: if_splits)
  have "account_Authenticate svc login p w = (Inl ErrInvalidCredentials, w3)"
    using assms(4-6) f(1) d r ru(1)
    by (simp add: account_Authenticate_def andThen_def clock_now_def handle_def store_call_def mapErr_def
        fail_def ret_def flip: now_def split: if_splits)
  with e ru(2) w2 on_store_frame [OF r] show ?thesis by (simp add: now_def)
qed

lemma locked_attempts:
  assumes "I (w_store w)" and "u \<in> ran (tb_users (view (w_store w)))"
    and "u_NormalizedUsername u = NormalizeUsername (ao_Lib svc) login" and "u_LockoutEnd u = Some e"
    and "\<forall>i < length qs. truncate_ms (w_clock w (w_ticks w + i)) < e"
  shows "\<exists>w'. login_attempts svc login qs w = (replicate (length qs) (Inl ErrLockedOut), w')
     \<and> I (w_store w') \<and> view (w_store w') = view (w_store w)"
  using assms
proof (induction qs arbitrary: w)
  case Nil
  then show ?case by simp
next
  case (Cons q qs)
  from Cons.prems(5) have "truncate_ms (w_clock w (w_ticks w)) < e" by (metis add_0_right length_greater_0_conv list.distinct(1))
  with Cons.prems(4) have "IsLockedOut u (truncate_ms (w_clock w (w_ticks w)))" by (simp add: IsLockedOut_def)
  from Authenticate_locked [OF Cons.prems(1-3) this, of q] obtain w1 where
    1: "account_Authenticate svc login q w = (Inl ErrLockedOut, w1)" "I (w_store w1)"
    "view (w_store w1) = view (w_store w)" "w_clock w1 = w_clock w" "w_ticks w1 = Suc (w_ticks w)" by blast
  have t: "\<forall>i < length qs. truncate_ms (w_clock w1 (w_ticks w1 + i)) < e"
    using Cons.prems(5) by (auto simp: 1 dest: spec [of _ "Suc _"])
  have "u \<in> ran (tb_users (view (w_store w1)))" using Cons.prems(2) 1(3) by simp
  from Cons.IH [OF 1(2) this Cons.prems(3,4) t] 1 show ?case by auto
qed

lemma failed_attempts:
  assumes "I (w_store w)" and "u \<in> ran (tb_users (view (w_store w)))"
    and "u_NormalizedUsername u = NormalizeUsername (ao_Lib svc) login" and "u_LockoutEnd u = None"
    and "0 \<le> u_FailedLoginCount u" and "u_FailedLoginCount u + int (length ps) = ao_MaxFailedAttempts svc"
    and "ps \<noteq> []" and "u_PasswordHash u = '''' \<or> (\<forall>p \<in> set ps. h_Verify (ao_Hasher svc) (u_PasswordHash u) p \<noteq> None)"
  shows "\<exists>w' u'. login_attempts svc login ps w = (replicate (length ps) (Inl ErrInvalidCredentials), w')
     \<and> I (w_store w') \<and> w_clock w' = w_clock w \<and> w_ticks w' = w_ticks w + length ps
     \<and> u' \<in> ran (tb_users (view (w_store w'))) \<and> u_NormalizedUsername u' = u_NormalizedUsername u
     \<and> u_LockoutEnd u' = Some (truncate_ms (w_clock w (w_ticks w + length ps - 1)) + ao_LockoutDuration svc)"
  using assms
proof (induction ps arbitrary: w u)
  case Nil
  then show ?case by simp
next
  case (Cons p ps)
  let ?now = "truncate_ms (w_clock w (w_ticks w))"
  let ?u = "failedLogin svc ?now u"
  have "\<not> IsLockedOut u ?now" using Cons.prems(4) by (simp add: IsLockedOut_def)
  moreover have "u_PasswordHash u = '''' \<or> h_Verify (ao_Hasher svc) (u_PasswordHash u) p \<noteq> None"
    using Cons.prems(8) by auto
  moreover have "0 < ao_MaxFailedAttempts svc" using Cons.prems(5,6) by simp
  ultimately obtain w1 where
    1: "account_Authenticate svc login p w = (Inl ErrInvalidCredentials, w1)" "I (w_store w1)"
    "view (w_store w1) = tb_users_update (\<lambda>m. m(u_Id u \<mapsto> ?u)) (view (w_store w))"
    "w_clock w1 = w_clock w" "w_ticks w1 = Suc (w_ticks w)"
    using Authenticate_wrong [OF Cons.prems(1-3)] by blast
  have r: "?u \<in> ran (tb_users (view (w_store w1)))" by (simp add: 1(3) ran_def) (rule exI [of _ "u_Id u"], simp)
  have n: "u_NormalizedUsername ?u = u_NormalizedUsername u" "u_PasswordHash ?u = u_PasswordHash u"
    by (simp_all add: failedLogin_def Let_def)
  show ?case
  proof (cases ps)
    case Nil
    with Cons.prems(6) have "u_LockoutEnd ?u = Some (?now + ao_LockoutDuration svc)"
      by (simp add: failedLogin_def Let_def)
    with 1(1,2,4,5) r n Nil show ?thesis by (intro exI [of _ w1] exI [of _ ?u]) simp
  next
    case (Cons q qs)
    with Cons.prems(4-6) have c: "u_LockoutEnd ?u = None" "0 \<le> u_FailedLoginCount ?u"
      "u_FailedLoginCount ?u + int (length ps) = ao_MaxFailedAttempts svc" "ps \<noteq> []"
      by (simp_all add: failedLogin_def Let_def)
    have pw: "u_PasswordHash ?u = '''' \<or> (\<forall>p \<in> set ps. h_Verify (ao_Hasher svc) (u_PasswordHash ?u) p \<noteq> None)"
      using Cons.prems(8) n(2) by auto
    from Cons.IH [OF 1(2) r _ c pw] n(1) Cons.prems(3) obtain w2 u2 where
      "login_attempts svc login ps w1 = (replicate (length ps) (Inl ErrInvalidCredentials), w2)" "I (w_store w2)"
      "w_clock w2 = w_clock w1" "w_ticks w2 = w_ticks w1 + length ps"
      "u2 \<in> ran (tb_users (view (w_store w2)))" "u_NormalizedUsername u2 = u_NormalizedUsername u"
      "u_LockoutEnd u2 = Some (truncate_ms (w_clock w1 (w_ticks w1 + length ps - 1)) + ao_LockoutDuration svc)"
      by auto
    with 1(1,2,4,5) c(4) show ?thesis by (intro exI [of _ w2] exI [of _ u2]) (simp add: Let_def)
  qed
qed

text \<open>A reset token is spent by the reset it made.\<close>

lemma ResetPassword_once:
  assumes "account_ResetPassword svc token password w = (Inr u, w')" and "I (w_store w)"
  shows "\<exists>e w2. account_ResetPassword svc token password' w' = (Inl e, w2)
     \<and> (e = ErrInvalidToken \<or> (\<exists>v. e = ErrValidation v \<and> account_ValidatePassword svc password' = Some v))"
proof -
  from ResetPassword_ok [OF assms] obtain t where
    t: "t \<in> ran (tb_userTokens (view (w_store w)))" "ut_TokenHash t = HashToken (ao_Lib svc) token" "ut_UserId t = u_Id u"
    "ut_Purpose t = UserTokenPurposePasswordReset"
    and i: "I (w_store w')"
    and v: "tb_userTokens (view (w_store w')) =
      keep (\<lambda>t. \<not> (ut_UserId t = u_Id u \<and> ut_Purpose t = UserTokenPurposePasswordReset)) (tb_userTokens (view (w_store w)))"
    by auto
  have "unique_field ut_TokenHash (tb_userTokens (view (w_store w)))"
    using view_ok [OF assms(2)] by (simp add: tables_ok_def)
  with t(1) have same: "x = t" if "x \<in> ran (tb_userTokens (view (w_store w)))" "ut_TokenHash x = ut_TokenHash t" for x
    using that unfolding unique_field_def by blast
  have none: "\<forall>x \<in> ran (tb_userTokens (view (w_store w'))). ut_TokenHash x \<noteq> HashToken (ao_Lib svc) token"
  proof (intro ballI notI)
    fix x assume x: "x \<in> ran (tb_userTokens (view (w_store w')))" "ut_TokenHash x = HashToken (ao_Lib svc) token"
    from x(1) have old: "x \<in> ran (tb_userTokens (view (w_store w)))"
      "\<not> (ut_UserId x = u_Id u \<and> ut_Purpose x = UserTokenPurposePasswordReset)"
      unfolding v ran_keep by blast+
    from same [OF old(1)] x(2) t(2) have "x = t" by simp
    with old(2) t(3,4) show False by blast
  qed
  let ?m = "GetUserTokenByHash (ao_Store svc) UserTokenPurposePasswordReset (HashToken (ao_Lib svc) token)"
  obtain r w1 where r: "on_store ?m w' = (r, w1)" by (cases "on_store ?m w'")
  note e = on_store_exact [OF r st_GetUserTokenByHash rel_GetUserTokenByHash i]
  have "r = Inl ErrNotFound"
  proof (cases r)
    case (Inl x)
    with e show ?thesis by (simp add: find_spec_def)
  next
    case (Inr x)
    with e have "x \<in> ran (tb_userTokens (view (w_store w')))" "ut_TokenHash x = HashToken (ao_Lib svc) token"
      by (simp_all add: find_spec_def)
    with none show ?thesis by blast
  qed
  with r have l: "account_lookupUserToken svc UserTokenPurposePasswordReset token w' = (Inl ErrInvalidToken, if token = '''' then w' else w1)"
    by (simp add: account_lookupUserToken_def andThen_def renamed_def mapErr_def handle_def fail_def)
  show ?thesis
    by (cases "account_ValidatePassword svc password'") (simp_all add: account_ResetPassword_def andThen_def l fail_def
        del: UserTokenPurposePasswordReset_def)
qed

end

section \<open>The service on the in-memory store\<close>

abbreviation on_memory :: "(string \<Rightarrow> string) \<Rightarrow> mem account_options \<Rightarrow> mem account_options" where
  "on_memory ul svc \<equiv> svc\<lparr>ao_Store := memory_ops ul\<rparr>"

interpretation acc: reliable_account "on_memory ul svc" mem_inv mem_view "to_lower ul" for ul svc
  by (simp add: reliable_account_def account_service_def memory.store_axioms memory.reliable_store_axioms)

text \<open>A service with a transparent hasher, and a world with one account, for closed instances.\<close>

definition sample_hasher :: hasher where
  "sample_hasher =
     \<lparr>h_Hash = (\<lambda>secret salt. Inr (''h'' @ secret)),
      h_Verify = (\<lambda>hash secret. if hash = ''h'' @ secret then None else Some ErrMismatch)\<rparr>"

definition sample_account :: "mem account_options" where
  "sample_account =
     \<lparr>ao_Store = memory_ops (\<lambda>x. x), ao_Hasher = sample_hasher, ao_Mailer = MemorySender_Send,
      ao_ActivationURL = (\<lambda>t. ''/a?'' @ t), ao_PasswordResetURL = (\<lambda>t. ''/r?'' @ t),
      ao_ApplicationName = ''App'', ao_RequireActivation = True, ao_ActivationTokenLifetime = hour,
      ao_PasswordResetTokenLifetime = hour, ao_MinPasswordLength = 8, ao_MaxFailedAttempts = 2,
      ao_LockoutDuration = hour, ao_Lib = sample_lib, ao_Html = (\<lambda>d. '''')\<rparr>"

definition sample_user :: user where
  "sample_user =
     \<lparr>u_Id = ''u-1'', u_Username = ''Alice'', u_NormalizedUsername = ''alice'', u_Email = ''a@x'',
      u_NormalizedEmail = ''a@x'', u_PasswordHash = ''hpassword1'', u_EmailVerified = True, u_Enabled = True,
      u_SecurityStamp = ''s'', u_FailedLoginCount = 0, u_LockoutEnd = None, u_LastLoginAt = None,
      u_CreatedAt = 0, u_UpdatedAt = 0\<rparr>"

definition sample_reset_token :: user_token where
  "sample_reset_token =
     \<lparr>ut_Id = ''t-1'', ut_UserId = ''u-1'', ut_Purpose = ''password_reset'', ut_TokenHash = HashToken sample_lib ''tok'',
      ut_CreatedAt = 0, ut_ExpiresAt = hour\<rparr>"

definition sample_access_token :: access_token where
  "sample_access_token =
     \<lparr>at_Id = ''a-1'', at_TokenHash = HashToken sample_lib ''atok'', at_ClientId = ''c-1'', at_UserId = ''u-1'',
      at_Scopes = [''a''], at_AuthorizationCodeId = '''', at_CreatedAt = 0, at_ExpiresAt = hour\<rparr>"

definition sample_world :: "mem world" where
  "sample_world =
     \<lparr>w_store = sample_mem\<lparr>m_users := [(''u-1'', sample_user)], m_accessTokens := [(''a-1'', sample_access_token)],
                           m_userTokens := [(''t-1'', sample_reset_token)]\<rparr>,
      w_random = (\<lambda>n. word_of_nat n), w_pos = 0, w_clock = (\<lambda>n. int n * second), w_ticks = 0,
      w_outbox = [], w_accountDummy = None, w_oauthDummy = None\<rparr>"

lemma sample_world_inv: "mem_inv (w_store sample_world)"
proof -
  have "keyed u_Id [''u-1'' \<mapsto> sample_user]" "keyed at_Id [''a-1'' \<mapsto> sample_access_token]"
    "keyed ut_Id [''t-1'' \<mapsto> sample_reset_token]"
    by (simp_all add: keyed_def sample_user_def sample_access_token_def sample_reset_token_def)
  with sample_mem_inv show ?thesis
    by (simp add: sample_world_def mem_defs unique_field_def gm_ok_def sample_user_def
        sample_access_token_def sample_reset_token_def)
qed

definition succeeded :: "(account_error + 'a) \<times> 's \<Rightarrow> bool" where
  "succeeded x = (case fst x of Inl e \<Rightarrow> False | Inr y \<Rightarrow> True)"

lemma succeededE: "succeeded x \<Longrightarrow> \<exists>y s. x = (Inr y, s)"
  by (cases x) (auto simp: succeeded_def split: sum.splits)

text \<open>Definitions for running a service on a concrete world with the simplifier.\<close>

lemmas run_defs = andThen_def handle_def ret_def fail_def mapErr_def store_call_def renamed_def on_store_def zoom_def
  RandomBytes_def RandomToken_def NewToken_def NewId_def clock_now_def hash_secret_def send_mail_def mem_op_defs
  range_find_def range_exists_def range_delete_eq userTaken_def clientIdTaken_def matchToken_def
  accessTokenFields_def refreshTokenFields_def Let_def truncate_ms_def

lemmas sample_defs = sample_account_def sample_world_def sample_user_def sample_hasher_def sample_mem_def mem_New_def
  sample_reset_token_def sample_access_token_def sample_code_def

lemma sample_account_memory: "on_memory (\<lambda>x. x) sample_account = sample_account"
  by (simp add: sample_account_def)

lemma sample_rune_count: "rune_count ''newpassword'' = 11" "rune_count ''password1'' = 9"
  by code_simp+

lemma sample_login: "NormalizeUsername sample_lib ''ALICE'' = ''alice''"
  by code_simp

section \<open>Properties\<close>

text \<open>
  C13: \<open>Authenticate\<close> returns a user only for a stored account of that username or email address that is
  not locked at the time of the call, whose password hash is set and accepts the password, that is enabled
  and, where activation is required, has a verified address. The only change of the store is that
  account's record: the failure count and the lockout are cleared, login and update times set.
\<close>

theorem Authenticate_sound:
  assumes "account_Authenticate (on_memory ul svc) login password w = (Inr u, w')" and "mem_inv (w_store w)"
  shows "\<exists>u0. tb_users (mem_view (w_store w)) (u_Id u0) = Some u0
     \<and> (u_NormalizedUsername u0 = NormalizeUsername (ao_Lib svc) login
        \<or> CHR ''@'' \<in> set login \<and> u_NormalizedEmail u0 = NormalizeEmail (ao_Lib svc) login)
     \<and> \<not> IsLockedOut u0 (truncate_ms (w_clock w (w_ticks w)))
     \<and> u_PasswordHash u0 \<noteq> '''' \<and> h_Verify (ao_Hasher svc) (u_PasswordHash u0) password = None
     \<and> account_CanSignIn svc u0 = None
     \<and> u = u0\<lparr>u_FailedLoginCount := 0, u_LockoutEnd := None,
             u_LastLoginAt := Some (truncate_ms (w_clock w (w_ticks w))),
             u_UpdatedAt := truncate_ms (w_clock w (w_ticks w))\<rparr>
     \<and> mem_view (w_store w') = tb_users_update (\<lambda>m. m(u_Id u0 \<mapsto> u)) (mem_view (w_store w))"
  using acc.Authenticate_ok [OF assms] by simp

theorem Authenticate_sound_witness:
  "\<exists>u w' u0. account_Authenticate sample_account ''ALICE'' ''password1'' sample_world = (Inr u, w')
     \<and> mem_inv (w_store sample_world) \<and> tb_users (mem_view (w_store sample_world)) (u_Id u0) = Some u0
     \<and> u_LastLoginAt u = Some 0"
proof -
  have "succeeded (account_Authenticate sample_account ''ALICE'' ''password1'' sample_world)"
    by (simp add: account_Authenticate_def account_FindUser_def sample_login IsLockedOut_def run_defs sample_defs succeeded_def)
  then obtain u w' where r: "account_Authenticate (on_memory (\<lambda>x. x) sample_account) ''ALICE'' ''password1'' sample_world = (Inr u, w')"
    unfolding sample_account_memory by (blast dest: succeededE)
  from Authenticate_sound [OF r sample_world_inv] obtain u0 where
    "tb_users (mem_view (w_store sample_world)) (u_Id u0) = Some u0"
    "u_LastLoginAt u = Some (truncate_ms (w_clock sample_world (w_ticks sample_world)))" by auto
  then show ?thesis using r sample_world_inv unfolding sample_account_memory
    by (intro exI conjI) (assumption | simp add: sample_world_def truncate_ms_def)+
qed

text \<open>
  C14: brute force is bounded: \<open>MaxFailedAttempts\<close> wrong passwords in a row lock an account that had no
  failures; every one of them is answered with \<open>ErrInvalidCredentials\<close>, and after them every attempt whose
  clock reading lies before the last failure plus \<open>LockoutDuration\<close> is answered with \<open>ErrLockedOut\<close>,
  the right password included, without changing the store.
\<close>

theorem lockout_bounds_guessing:
  assumes "mem_inv (w_store w)" and "u \<in> ran (tb_users (mem_view (w_store w)))"
    and "u_NormalizedUsername u = NormalizeUsername (ao_Lib svc) login"
    and "u_LockoutEnd u = None" and "u_FailedLoginCount u = 0"
    and "0 < ao_MaxFailedAttempts svc" and "int (length ps) = ao_MaxFailedAttempts svc"
    and "\<forall>p \<in> set ps. h_Verify (ao_Hasher svc) (u_PasswordHash u) p \<noteq> None"
    and "\<forall>i < length qs. truncate_ms (w_clock w (w_ticks w + length ps + i))
           < truncate_ms (w_clock w (w_ticks w + length ps - 1)) + ao_LockoutDuration svc"
  shows "\<exists>w1 w2. login_attempts (on_memory ul svc) login ps w = (replicate (length ps) (Inl ErrInvalidCredentials), w1)
     \<and> login_attempts (on_memory ul svc) login qs w1 = (replicate (length qs) (Inl ErrLockedOut), w2)
     \<and> mem_view (w_store w2) = mem_view (w_store w1)"
proof -
  have c: "0 \<le> u_FailedLoginCount u" "ps \<noteq> []"
    "u_FailedLoginCount u + int (length ps) = ao_MaxFailedAttempts (on_memory ul svc)"
    "u_NormalizedUsername u = NormalizeUsername (ao_Lib (on_memory ul svc)) login"
    "u_PasswordHash u = '''' \<or> (\<forall>p \<in> set ps. h_Verify (ao_Hasher (on_memory ul svc)) (u_PasswordHash u) p \<noteq> None)"
    using assms by auto
  from acc.failed_attempts [OF assms(1,2) c(4) assms(4) c(1,3,2,5)] obtain w1 u1 where
    1: "login_attempts (on_memory ul svc) login ps w = (replicate (length ps) (Inl ErrInvalidCredentials), w1)"
    "mem_inv (w_store w1)" "w_clock w1 = w_clock w" "w_ticks w1 = w_ticks w + length ps"
    "u1 \<in> ran (tb_users (mem_view (w_store w1)))" "u_NormalizedUsername u1 = u_NormalizedUsername u"
    "u_LockoutEnd u1 = Some (truncate_ms (w_clock w (w_ticks w + length ps - 1)) + ao_LockoutDuration (on_memory ul svc))"
    by blast
  have n: "u_NormalizedUsername u1 = NormalizeUsername (ao_Lib (on_memory ul svc)) login" using 1(6) c(4) by simp
  have t: "\<forall>i < length qs. truncate_ms (w_clock w1 (w_ticks w1 + i))
      < truncate_ms (w_clock w (w_ticks w + length ps - 1)) + ao_LockoutDuration (on_memory ul svc)"
    using assms(9) by (simp add: 1(3,4))
  from acc.locked_attempts [OF 1(2,5) n 1(7) t] 1(1) show ?thesis by blast
qed

theorem lockout_bounds_guessing_witness:
  "\<exists>w1 w2. login_attempts sample_account ''ALICE'' [''wrong'', ''guess''] sample_world
       = ([Inl ErrInvalidCredentials, Inl ErrInvalidCredentials], w1)
     \<and> login_attempts sample_account ''ALICE'' [''password1''] w1 = ([Inl ErrLockedOut], w2)"
proof -
  have "sample_user \<in> ran (tb_users (mem_view (w_store sample_world)))" by (simp add: sample_world_def)
  moreover have "u_NormalizedUsername sample_user = NormalizeUsername (ao_Lib sample_account) ''ALICE''"
    "u_LockoutEnd sample_user = None" "u_FailedLoginCount sample_user = 0" "0 < ao_MaxFailedAttempts sample_account"
    "int (length [''wrong'', ''guess'']) = ao_MaxFailedAttempts sample_account"
    "\<forall>p \<in> set [''wrong'', ''guess'']. h_Verify (ao_Hasher sample_account) (u_PasswordHash sample_user) p \<noteq> None"
    "\<forall>i < length [''password1'']. truncate_ms (w_clock sample_world (w_ticks sample_world + length [''wrong'', ''guess''] + i))
       < truncate_ms (w_clock sample_world (w_ticks sample_world + length [''wrong'', ''guess''] - 1)) + ao_LockoutDuration sample_account"
    by (simp_all add: sample_login sample_defs truncate_ms_def)
  ultimately obtain w1 w2 where
    "login_attempts (on_memory (\<lambda>x. x) sample_account) ''ALICE'' [''wrong'', ''guess''] sample_world
       = (replicate (length [''wrong'', ''guess'']) (Inl ErrInvalidCredentials), w1)"
    "login_attempts (on_memory (\<lambda>x. x) sample_account) ''ALICE'' [''password1''] w1
       = (replicate (length [''password1'']) (Inl ErrLockedOut), w2)"
    using lockout_bounds_guessing [OF sample_world_inv] by blast
  then show ?thesis
    unfolding sample_account_memory by (intro exI conjI) (simp_all only: list.size replicate.simps add_0_right add_Suc_right)
qed

text \<open>
  C15: \<open>ResetPassword\<close> succeeds only with an unexpired, unspent reset token of an enabled account, and then the
  account has the hash of the new password, a verified address and no lockout, and no access token,
  refresh token or reset token of the account is left; other accounts and their tokens are untouched.
\<close>

theorem ResetPassword_effect:
  assumes "account_ResetPassword (on_memory ul svc) token password w = (Inr u, w')" and "mem_inv (w_store w)"
  shows "\<exists>t u0. t \<in> ran (tb_userTokens (mem_view (w_store w))) \<and> ut_Purpose t = UserTokenPurposePasswordReset
     \<and> ut_TokenHash t = HashToken (ao_Lib svc) token \<and> ut_UserId t = u_Id u
     \<and> truncate_ms (w_clock w (w_ticks w)) < ut_ExpiresAt t
     \<and> tb_users (mem_view (w_store w)) (u_Id u) = Some u0 \<and> u_Enabled u0 \<and> u_Enabled u \<and> u_EmailVerified u
     \<and> account_ValidatePassword svc password = None
     \<and> (\<exists>salt. h_Hash (ao_Hasher svc) password salt = Inr (u_PasswordHash u))
     \<and> u_FailedLoginCount u = 0 \<and> u_LockoutEnd u = None
     \<and> mem_view (w_store w') = (mem_view (w_store w))
       \<lparr>tb_users := (tb_users (mem_view (w_store w)))(u_Id u \<mapsto> u),
        tb_accessTokens := keep (\<lambda>t. at_UserId t \<noteq> u_Id u) (tb_accessTokens (mem_view (w_store w))),
        tb_refreshTokens := keep (\<lambda>t. rt_UserId t \<noteq> u_Id u) (tb_refreshTokens (mem_view (w_store w))),
        tb_userTokens := keep (\<lambda>t. \<not> (ut_UserId t = u_Id u \<and> ut_Purpose t = UserTokenPurposePasswordReset))
          (tb_userTokens (mem_view (w_store w)))\<rparr>"
proof -
  from acc.ResetPassword_ok [OF assms] obtain t u0 where
    "t \<in> ran (tb_userTokens (mem_view (w_store w)))" and r: "ut_Purpose t = UserTokenPurposePasswordReset"
    "ut_TokenHash t = HashToken (ao_Lib svc) token" "ut_UserId t = u_Id u"
    "\<not> user_token_HasExpired t (truncate_ms (w_clock w (w_ticks w)))"
    "tb_users (mem_view (w_store w)) (u_Id u) = Some u0" "u_Enabled u0" "u_Enabled u" "u_EmailVerified u"
    "account_ValidatePassword svc password = None" "\<exists>salt. h_Hash (ao_Hasher svc) password salt = Inr (u_PasswordHash u)"
    "u_FailedLoginCount u = 0" "u_LockoutEnd u = None"
    and v: "mem_view (w_store w') = (mem_view (w_store w))
       \<lparr>tb_users := (tb_users (mem_view (w_store w)))(u_Id u \<mapsto> u),
        tb_accessTokens := keep (\<lambda>t. at_UserId t \<noteq> u_Id u) (tb_accessTokens (mem_view (w_store w))),
        tb_refreshTokens := keep (\<lambda>t. rt_UserId t \<noteq> u_Id u) (tb_refreshTokens (mem_view (w_store w))),
        tb_userTokens := keep (\<lambda>t. \<not> (ut_UserId t = u_Id u \<and> ut_Purpose t = UserTokenPurposePasswordReset))
          (tb_userTokens (mem_view (w_store w)))\<rparr>"
    by auto
  then show ?thesis by (intro exI [of _ t] exI [of _ u0] conjI v) (simp_all add: user_token_HasExpired_def)
qed

lemma sample_reset: "succeeded (account_ResetPassword sample_account ''tok'' ''newpassword'' sample_world)"
  by (simp add: account_ResetPassword_def account_ValidatePassword_def sample_rune_count MaxSecretLength_def
      account_lookupUserToken_def account_setPassword_def account_RevokeTokens_def empty_filter_def run_defs
      sample_defs succeeded_def user_token_HasExpired_def)

theorem ResetPassword_effect_witness:
  "\<exists>u w'. account_ResetPassword sample_account ''tok'' ''newpassword'' sample_world = (Inr u, w')
     \<and> mem_inv (w_store sample_world) \<and> u_Enabled u \<and> tb_accessTokens (mem_view (w_store w')) = keep (\<lambda>t. at_UserId t \<noteq> u_Id u)
        (tb_accessTokens (mem_view (w_store sample_world)))"
proof -
  from sample_reset obtain u w' where
    r: "account_ResetPassword (on_memory (\<lambda>x. x) sample_account) ''tok'' ''newpassword'' sample_world = (Inr u, w')"
    unfolding sample_account_memory by (blast dest: succeededE)
  from ResetPassword_effect [OF r sample_world_inv] have "u_Enabled u" and
    v: "tb_accessTokens (mem_view (w_store w')) = keep (\<lambda>t. at_UserId t \<noteq> u_Id u) (tb_accessTokens (mem_view (w_store sample_world)))"
    by (metis, metis (no_types, lifting) tables.select_convs(3) tables.surjective tables.update_convs(1-6))
  with r show ?thesis unfolding sample_account_memory using sample_world_inv by blast
qed

text \<open>
  A password reset token works once: after a reset with it, a second reset with the same token is refused,
  whatever the password.
\<close>

lemma ResetPassword_single_use:
  assumes "account_ResetPassword (on_memory ul svc) token password w = (Inr u, w')" and "mem_inv (w_store w)"
  shows "\<exists>e w2. account_ResetPassword (on_memory ul svc) token password' w' = (Inl e, w2)
     \<and> (e = ErrInvalidToken \<or> (\<exists>v. e = ErrValidation v \<and> account_ValidatePassword svc password' = Some v))"
  using acc.ResetPassword_once [OF assms, of password'] by simp

lemma ResetPassword_single_use_witness:
  "\<exists>u w' e w2. account_ResetPassword sample_account ''tok'' ''newpassword'' sample_world = (Inr u, w')
     \<and> account_ResetPassword sample_account ''tok'' ''newpassword'' w' = (Inl e, w2)"
proof -
  from sample_reset obtain u w' where
    r: "account_ResetPassword (on_memory (\<lambda>x. x) sample_account) ''tok'' ''newpassword'' sample_world = (Inr u, w')"
    unfolding sample_account_memory by (blast dest: succeededE)
  from ResetPassword_single_use [OF r sample_world_inv, of "''newpassword''"] r show ?thesis
    unfolding sample_account_memory by blast
qed

text \<open>
  \<open>UpdateUser\<close> cannot change the password or the creation time; an account that it disables, or whose
  address it changes, gets a fresh random security stamp, and disabling an account ends every access and
  refresh token of it; no other account or token changes.
\<close>

theorem UpdateUser_effect:
  assumes "account_UpdateUser (on_memory ul svc) user w = (Inr u, w')" and "mem_inv (w_store w)"
  shows "\<exists>u0. tb_users (mem_view (w_store w)) (u_Id user) = Some u0 \<and> u_Id u = u_Id user
     \<and> user_Validate (ao_Lib svc) (user_Normalize (ao_Lib svc) user) = None
     \<and> u_PasswordHash u = u_PasswordHash u0 \<and> u_CreatedAt u = u_CreatedAt u0 \<and> u_Enabled u = u_Enabled user
     \<and> u_NormalizedEmail u = u_NormalizedEmail (user_Normalize (ao_Lib svc) user)
     \<and> (\<not> u_Enabled u \<and> u_Enabled u0 \<or> u_NormalizedEmail u \<noteq> u_NormalizedEmail u0 \<longrightarrow>
          (\<exists>bs. length bs = 32 \<and> u_SecurityStamp u = RandomToken_of bs))
     \<and> tb_users (mem_view (w_store w')) = (tb_users (mem_view (w_store w)))(u_Id user \<mapsto> u)
     \<and> tb_accessTokens (mem_view (w_store w')) = (if \<not> u_Enabled u \<and> u_Enabled u0
          then keep (\<lambda>t. at_UserId t \<noteq> u_Id user) (tb_accessTokens (mem_view (w_store w)))
          else tb_accessTokens (mem_view (w_store w)))
     \<and> tb_refreshTokens (mem_view (w_store w')) = (if \<not> u_Enabled u \<and> u_Enabled u0
          then keep (\<lambda>t. rt_UserId t \<noteq> u_Id user) (tb_refreshTokens (mem_view (w_store w)))
          else tb_refreshTokens (mem_view (w_store w)))"
proof -
  have l: "ao_Lib (on_memory ul svc) = ao_Lib svc" by simp
  show ?thesis using acc.UpdateUser_ok [OF assms] unfolding l by blast
qed

lemma sample_profile:
  "user_Normalize sample_lib (sample_user\<lparr>u_Enabled := False\<rparr>) = sample_user\<lparr>u_Enabled := False\<rparr>"
  "user_Validate sample_lib (sample_user\<lparr>u_Enabled := False\<rparr>) = None"
  by code_simp+

theorem UpdateUser_effect_witness:
  "\<exists>u w'. account_UpdateUser sample_account (sample_user\<lparr>u_Enabled := False\<rparr>) sample_world = (Inr u, w')
     \<and> mem_inv (w_store sample_world) \<and> \<not> u_Enabled u \<and> u_PasswordHash u = ''hpassword1''"
proof -
  have "succeeded (account_UpdateUser sample_account (sample_user\<lparr>u_Enabled := False\<rparr>) sample_world)"
    unfolding account_UpdateUser_def
    by (simp add: sample_profile [unfolded sample_user_def, simplified] account_GetUser_def account_ensureUnique_def
        mergeUpdate_def account_RevokeTokens_def empty_filter_def run_defs sample_defs succeeded_def)
  then obtain u w' where
    r: "account_UpdateUser (on_memory (\<lambda>x. x) sample_account) (sample_user\<lparr>u_Enabled := False\<rparr>) sample_world = (Inr u, w')"
    unfolding sample_account_memory by (blast dest: succeededE)
  from UpdateUser_effect [OF r sample_world_inv] obtain u0 where
    "tb_users (mem_view (w_store sample_world)) (u_Id (sample_user\<lparr>u_Enabled := False\<rparr>)) = Some u0"
    "u_PasswordHash u = u_PasswordHash u0" "u_Enabled u = u_Enabled (sample_user\<lparr>u_Enabled := False\<rparr>)" by blast
  then have "\<not> u_Enabled u" "u_PasswordHash u = ''hpassword1''"
    by (auto simp: sample_world_def sample_user_def)
  with r sample_world_inv show ?thesis unfolding sample_account_memory by blast
qed

text \<open>
  \<open>CreateUser\<close> (and \<open>Register\<close>, which calls it) adds exactly one account: its id is new, no other account
  has its normalized username or email address, it passed validation, has no lockout, and has the hash of
  the password given, which satisfies the policy, or no password at all.
\<close>

theorem CreateUser_effect:
  assumes "account_CreateUser (on_memory ul svc) input w = (Inr u, w')" and "mem_inv (w_store w)"
  shows "u_Id u \<notin> dom (tb_users (mem_view (w_store w)))
     \<and> (\<forall>v \<in> ran (tb_users (mem_view (w_store w))). u_NormalizedUsername v \<noteq> u_NormalizedUsername u
           \<and> u_NormalizedEmail v \<noteq> u_NormalizedEmail u)
     \<and> u_NormalizedUsername u = NormalizeUsername (ao_Lib svc) (trim_space (ci_Username input))
     \<and> u_NormalizedEmail u = NormalizeEmail (ao_Lib svc) (trim_space (ci_Email input))
     \<and> user_Validate (ao_Lib svc) (u\<lparr>u_PasswordHash := ''''\<rparr>) = None
     \<and> (if ci_Password input = '''' then u_PasswordHash u = '''' else
          account_ValidatePassword svc (ci_Password input) = None
          \<and> (\<exists>salt. h_Hash (ao_Hasher svc) (ci_Password input) salt = Inr (u_PasswordHash u)))
     \<and> u_EmailVerified u = ci_EmailVerified input \<and> u_Enabled u = ci_Enabled input
     \<and> u_FailedLoginCount u = 0 \<and> u_LockoutEnd u = None \<and> mem_inv (w_store w')
     \<and> (\<not> ci_SendActivation input \<longrightarrow>
           mem_view (w_store w') = tb_users_update (\<lambda>m. m(u_Id u \<mapsto> u)) (mem_view (w_store w)))"
proof -
  have l: "ao_Lib (on_memory ul svc) = ao_Lib svc" "ao_Hasher (on_memory ul svc) = ao_Hasher svc" by simp_all
  show ?thesis using acc.CreateUser_ok [OF assms] unfolding l options_memory by blast
qed

definition sample_input :: CreateUserInput where
  "sample_input = \<lparr>ci_Username = ''Bob'', ci_Email = ''b@x'', ci_Password = '''', ci_EmailVerified = False,
     ci_Enabled = True, ci_SendActivation = False\<rparr>"

lemma sample_new:
  "trim_space ''Bob'' = ''Bob''" "trim_space ''b@x'' = ''b@x''"
  "NormalizeUsername sample_lib ''Bob'' = ''bob''" "NormalizeEmail sample_lib ''b@x'' = ''b@x''"
  "ValidateUsername ''Bob'' = None" "ValidateEmail sample_lib ''b@x'' = None"
  by code_simp+

theorem CreateUser_effect_witness:
  "\<exists>u w'. account_CreateUser sample_account sample_input sample_world = (Inr u, w')
     \<and> mem_inv (w_store sample_world) \<and> u_NormalizedUsername u = ''bob'' \<and> u_PasswordHash u = ''''"
proof -
  have id: "NewId_of (map word_of_nat [0..<16]) \<noteq> ''u-1''" using NewId_shape(1) [of "map word_of_nat [0..<16]"] by auto
  have "succeeded (account_CreateUser sample_account sample_input sample_world)"
    using id
    by (simp add: account_CreateUser_def sample_input_def newUser_def user_Normalize_def user_Validate_def sample_new
        withPassword_def account_ensureUnique_def run_defs sample_defs succeeded_def)
  then obtain u w' where r: "account_CreateUser (on_memory (\<lambda>x. x) sample_account) sample_input sample_world = (Inr u, w')"
    unfolding sample_account_memory by (blast dest: succeededE)
  from CreateUser_effect [OF r sample_world_inv] have "u_PasswordHash u = ''''"
    "u_NormalizedUsername u = NormalizeUsername (ao_Lib sample_account) (trim_space (ci_Username sample_input))"
    by (simp_all only: sample_input_def CreateUserInput.select_convs simp_thms if_True)
  then have "u_PasswordHash u = ''''" "u_NormalizedUsername u = ''bob''"
    by (simp_all add: sample_input_def sample_account_def sample_new)
  with r sample_world_inv show ?thesis unfolding sample_account_memory by blast
qed

text \<open>
  \<open>DeleteUser\<close> leaves nothing of the account behind that could sign in: the record, its access and refresh
  tokens and its activation and reset tokens are gone, and nothing else changes.
\<close>

lemma DeleteUser_effect:
  assumes "account_DeleteUser (on_memory ul svc) k w = (Inr x, w')" and "mem_inv (w_store w)"
  shows "k \<in> dom (tb_users (mem_view (w_store w))) \<and> mem_view (w_store w') = (mem_view (w_store w))
     \<lparr>tb_users := (tb_users (mem_view (w_store w)))(k := None),
      tb_accessTokens := keep (\<lambda>t. at_UserId t \<noteq> k) (tb_accessTokens (mem_view (w_store w))),
      tb_refreshTokens := keep (\<lambda>t. rt_UserId t \<noteq> k) (tb_refreshTokens (mem_view (w_store w))),
      tb_userTokens := keep (\<lambda>t. \<not> (ut_UserId t = k \<and> ut_Purpose t = UserTokenPurposePasswordReset))
        (keep (\<lambda>t. \<not> (ut_UserId t = k \<and> ut_Purpose t = UserTokenPurposeActivation))
          (tb_userTokens (mem_view (w_store w))))\<rparr>"
  using acc.DeleteUser_ok [OF assms] by blast

lemma DeleteUser_effect_witness:
  "\<exists>w'. account_DeleteUser sample_account ''u-1'' sample_world = (Inr (), w')
     \<and> tb_users (mem_view (w_store w')) ''u-1'' = None"
proof -
  have "succeeded (account_DeleteUser sample_account ''u-1'' sample_world)"
    by (simp add: account_DeleteUser_def account_RevokeTokens_def empty_filter_def run_defs sample_defs succeeded_def)
  then obtain w' where r: "account_DeleteUser (on_memory (\<lambda>x. x) sample_account) ''u-1'' sample_world = (Inr (), w')"
    unfolding sample_account_memory by (auto dest: succeededE)
  from DeleteUser_effect [OF r sample_world_inv] have
    "tb_users (mem_view (w_store w')) = (tb_users (mem_view (w_store sample_world)))(''u-1'' := None)"
    by (metis (no_types, lifting) tables.select_convs(2) tables.surjective tables.update_convs(2-6))
  with r show ?thesis unfolding sample_account_memory by auto
qed

text \<open>
  Whatever its result, an error included, no operation of the account service breaks the invariant of the
  store (unique ids, usernames, email addresses and token hashes, every entity under its own id).
\<close>

lemma account_keeps_store:
  "preserves (\<lambda>w. mem_inv (w_store w)) (account_Register (on_memory ul svc) n e p)
   \<and> preserves (\<lambda>w. mem_inv (w_store w)) (account_CreateUser (on_memory ul svc) input)
   \<and> preserves (\<lambda>w. mem_inv (w_store w)) (account_UpdateUser (on_memory ul svc) u)
   \<and> preserves (\<lambda>w. mem_inv (w_store w)) (account_DeleteUser (on_memory ul svc) k)
   \<and> preserves (\<lambda>w. mem_inv (w_store w)) (account_SetPassword (on_memory ul svc) k p)
   \<and> preserves (\<lambda>w. mem_inv (w_store w)) (account_Authenticate (on_memory ul svc) n p)
   \<and> preserves (\<lambda>w. mem_inv (w_store w)) (account_ResendActivation (on_memory ul svc) e)
   \<and> preserves (\<lambda>w. mem_inv (w_store w)) (account_Activate (on_memory ul svc) token)
   \<and> preserves (\<lambda>w. mem_inv (w_store w)) (account_RequestPasswordReset (on_memory ul svc) e)
   \<and> preserves (\<lambda>w. mem_inv (w_store w)) (account_ResetPassword (on_memory ul svc) token p)"
  by (intro conjI acc.keep_Register acc.keep_CreateUser acc.keep_UpdateUser acc.keep_DeleteUser acc.keep_SetPassword
      acc.keep_Authenticate acc.keep_ResendActivation acc.keep_Activate acc.keep_RequestPasswordReset acc.keep_ResetPassword)

end
