(* ===== verification/OAuthProofs.thy ===== *)
theory OAuthProofs
  imports OAuthToken AccountProofs
begin

text \<open>
  The guarantees of the token endpoint. The locale \<open>oauth_service\<close> is the authorization server on any store
  that meets the contract, shared with the account service, with any token generator that does not
  touch the store.
\<close>

text \<open>
  What issuing tokens does to the tables: one access token with the given client, user, scopes and code is
  added, and with \<open>refresh\<close>, if the client may use the refresh token grant, one refresh token that points to
  it; the response carries the values whose hashes are stored.
\<close>

definition issued ::
  "golib \<Rightarrow> client \<Rightarrow> string \<Rightarrow> string list \<Rightarrow> string \<Rightarrow> bool \<Rightarrow> TokenResponse \<Rightarrow> tables \<Rightarrow> tables \<Rightarrow> bool" where
  "issued lib c userId scopes codeId refresh resp T T' \<longleftrightarrow>
     (\<exists>a. at_TokenHash a = HashToken lib (tr_AccessToken resp) \<and> at_ClientId a = c_Id c \<and> at_UserId a = userId
        \<and> at_Scopes a = scopes \<and> at_AuthorizationCodeId a = codeId \<and> at_Id a \<notin> dom (tb_accessTokens T)
        \<and> at_CreatedAt a < at_ExpiresAt a \<and> tr_Scope resp = FormatScope scopes
        \<and> (if refresh \<and> GrantTypeRefreshToken \<in> set (c_AllowedGrantTypes c) then
            (\<exists>t. rt_TokenHash t = HashToken lib (tr_RefreshToken resp) \<and> rt_ClientId t = c_Id c
              \<and> rt_UserId t = userId \<and> rt_Scopes t = scopes \<and> rt_AccessTokenId t = at_Id a
              \<and> rt_AuthorizationCodeId t = codeId \<and> rt_Id t \<notin> dom (tb_refreshTokens T)
              \<and> T' = T\<lparr>tb_accessTokens := (tb_accessTokens T)(at_Id a \<mapsto> a),
                       tb_refreshTokens := (tb_refreshTokens T)(rt_Id t \<mapsto> t)\<rparr>)
          else tr_RefreshToken resp = '''' \<and> T' = tb_accessTokens_update (\<lambda>m. m(at_Id a \<mapsto> a)) T))"

text \<open>
  What the refresh token grant does to the refresh tokens: a one-time token is deleted and replaced by one
  that keeps its client, user, code, full scope, policy and lifetime, with the expiry \<open>rotatedExpiresAt\<close>; a
  reusable token stays, now points to the new access token and is touched.
\<close>

definition renewed ::
  "golib \<Rightarrow> refresh_token \<Rightarrow> access_token \<Rightarrow> time \<Rightarrow> string \<Rightarrow> (string \<rightharpoonup> refresh_token) \<Rightarrow> (string \<rightharpoonup> refresh_token) \<Rightarrow> bool"
  where
  "renewed lib t a now newValue R R' \<longleftrightarrow>
     (if rt_TokenUsage t = RefreshTokenUsageOneTime then
        (\<exists>t'. R' = (R(rt_Id t := None))(rt_Id t' \<mapsto> t') \<and> rt_TokenHash t' = HashToken lib newValue
           \<and> rt_Scopes t' = rt_Scopes t \<and> rt_ClientId t' = rt_ClientId t \<and> rt_UserId t' = rt_UserId t
           \<and> rt_AuthorizationCodeId t' = rt_AuthorizationCodeId t \<and> rt_AccessTokenId t' = at_Id a
           \<and> rt_TokenUsage t' = rt_TokenUsage t \<and> rt_TokenExpiration t' = rt_TokenExpiration t
           \<and> rt_Lifetime t' = rt_Lifetime t \<and> rt_ExpiresAt t' = rotatedExpiresAt t now)
      else newValue = '''' \<and> R' = R(rt_Id t \<mapsto> Touch (t\<lparr>rt_AccessTokenId := at_Id a\<rparr>) now))"

locale oauth_service = account_service "oo_Accounts opts" I view lower
  for opts :: "'s oauth_options" and I :: "'s \<Rightarrow> bool" and view :: "'s \<Rightarrow> tables" and lower :: "string \<Rightarrow> string" +
  assumes same_store [simp]: "ao_Store (oo_Accounts opts) = oo_Store opts"
    and generator: "oo_TokenGenerator opts t c u w = (r, w') \<Longrightarrow> w_store w' = w_store w"
begin

lemmas st = st_GetClientById [simplified] st_GetClientByClientId [simplified] st_GetUserById [simplified]
  st_GetAccessTokenById [simplified] st_GetAccessTokenByHash [simplified] st_CreateAccessToken [simplified]
  st_DeleteAccessToken [simplified] st_DeleteAccessTokens [simplified]
  st_GetRefreshTokenById [simplified] st_GetRefreshTokenByHash [simplified] st_CreateRefreshToken [simplified]
  st_UpdateRefreshToken [simplified] st_DeleteRefreshToken [simplified] st_DeleteRefreshTokens [simplified]
  st_GetAuthorizationCodeByHash [simplified] st_CreateAuthorizationCode [simplified]
  st_ConsumeAuthorizationCode [simplified]

text \<open>Every grant keeps the invariant of the store, whatever it returns.\<close>

lemmas ocalls = st [THEN preserves_call]

lemma keep_generator: "preserves (\<lambda>w. I (w_store w)) (oo_TokenGenerator opts t c u)"
  by (rule preservesI) (auto dest: generator)

lemma keep_RevokeGrant: "preserves (\<lambda>w. I (w_store w)) (RevokeGrant opts k)"
  unfolding RevokeGrant_def by (intro preserves_rules ocalls)

lemma keep_lookupUser: "preserves (\<lambda>w. I (w_store w)) (lookupUser opts k)"
  unfolding lookupUser_def by (intro preserves_rules ocalls)

lemma keep_createAccessToken: "preserves (\<lambda>w. I (w_store w)) (createAccessToken opts c u scopes k)"
  unfolding createAccessToken_def by (intro preserves_rules ocalls preserves_NewId keep_generator) simp_all

lemma newRefreshToken_id: "newRefreshToken c a w = (Inr t, w') \<Longrightarrow> rt_Id t \<noteq> '''' \<and> w_store w' = w_store w"
  unfolding newRefreshToken_def Let_def by (auto simp: andThen_eq_Inr clock_now_eq NewId_eq NewId_not_empty)

lemma keep_newRefreshToken: "preserves (\<lambda>w. I (w_store w)) (newRefreshToken c a)"
  unfolding newRefreshToken_def by (intro preserves_rules)

lemma keep_storeRefreshToken: "rt_Id t \<noteq> '''' \<Longrightarrow> preserves (\<lambda>w. I (w_store w)) (storeRefreshToken opts t)"
  unfolding storeRefreshToken_def by (intro preserves_rules ocalls) simp_all

lemma keep_IssueTokens: "preserves (\<lambda>w. I (w_store w)) (IssueTokens opts c u scopes io)"
proof -
  have tail: "preserves (\<lambda>w. I (w_store w)) (andThen (newRefreshToken c a) (\<lambda>t. andThen (storeRefreshToken opts t) f))"
    if "\<And>x. preserves (\<lambda>w. I (w_store w)) (f x)" for a :: access_token and f :: "string \<Rightarrow> ('s world, grant_error, TokenResponse) act"
    by (rule preserves_andThen_result [OF keep_newRefreshToken])
      (auto intro!: preserves_andThen [OF keep_storeRefreshToken] that dest: newRefreshToken_id)
  show ?thesis
    unfolding IssueTokens_def
    by (rule preserves_andThen [OF keep_createAccessToken])
      (auto simp: Let_def intro!: preserves_rules tail split: prod.split)
qed

lemma keep_authorizationCodeGrant: "preserves (\<lambda>w. I (w_store w)) (authorizationCodeGrant opts req)"
  unfolding authorizationCodeGrant_def
  by (intro preserves_rules ocalls keep_RevokeGrant keep_lookupUser keep_IssueTokens)

lemma keep_passwordGrant: "preserves (\<lambda>w. I (w_store w)) (passwordGrant opts req)"
  unfolding passwordGrant_def by (intro preserves_rules keep_Authenticate keep_IssueTokens)

lemma keep_clientCredentialsGrant: "preserves (\<lambda>w. I (w_store w)) (clientCredentialsGrant opts req)"
  unfolding clientCredentialsGrant_def by (intro preserves_rules keep_IssueTokens)

lemma keep_renewRefreshToken: "preserves (\<lambda>w. I (w_store w)) (renewRefreshToken opts t a now)"
  unfolding renewRefreshToken_def
  by (intro preserves_rules ocalls preserves_NewId keep_storeRefreshToken) simp_all

lemma keep_refreshTokenGrant: "preserves (\<lambda>w. I (w_store w)) (refreshTokenGrant opts req)"
  unfolding refreshTokenGrant_def
  by (intro preserves_rules ocalls keep_lookupUser keep_createAccessToken keep_renewRefreshToken)

lemma keep_dummySecret: "preserves (\<lambda>w. I (w_store w)) (dummySecret opts)"
  by (rule preservesI) (auto simp: dummySecret_def andThen_def handle_def ret_def hash_secret_def
      fail_def NewToken_def RandomToken_def RandomBytes_def split: option.splits sum.splits prod.splits)

lemma keep_AuthenticateClient: "preserves (\<lambda>w. I (w_store w)) (AuthenticateClient opts r form)"
  unfolding AuthenticateClient_def by (intro preserves_rules ocalls keep_dummySecret)

text \<open>The steps of the grants.\<close>

lemma lookupUser_ok:
  assumes "lookupUser opts k w = (Inr u, w')" and "I (w_store w)"
  shows "I (w_store w') \<and> view (w_store w') = view (w_store w) \<and> tb_users (view (w_store w)) k = Some u
     \<and> u_Id u = k \<and> account_CanSignIn (oo_Accounts opts) u = None"
proof -
  from assms(1) have r: "on_store (GetUserById (oo_Store opts) k) w = (Inr u, w')"
    and c: "account_CanSignIn (oo_Accounts opts) u = None"
    unfolding lookupUser_def by (auto simp: andThen_eq_Inr split: if_splits)
  have "keyed u_Id (tb_users (view (w_store w)))" using view_ok [OF assms(2)] by (simp add: tables_ok_def)
  with on_store_ok [OF r st(3) assms(2)] c show ?thesis by (auto simp: get_spec_ok keyed_def)
qed

lemma createAccessToken_ok:
  assumes "createAccessToken opts c u scopes k w = (Inr (a, value), w')" and "I (w_store w)"
  shows "I (w_store w') \<and> at_Id a \<noteq> '''' \<and> at_Id a \<notin> dom (tb_accessTokens (view (w_store w)))
     \<and> at_TokenHash a = HashToken (oo_Lib opts) value \<and> at_ClientId a = c_Id c
     \<and> at_UserId a = (case u of None \<Rightarrow> '''' | Some x \<Rightarrow> u_Id x) \<and> at_Scopes a = scopes
     \<and> at_AuthorizationCodeId a = k \<and> at_CreatedAt a < at_ExpiresAt a
     \<and> view (w_store w') = tb_accessTokens_update (\<lambda>m. m(at_Id a \<mapsto> a)) (view (w_store w))"
proof -
  from assms(1) obtain now wa i wb wc t x where
    r: "clock_now w = (Inr now :: grant_error + time, wa)" "NewId wa = (Inr i :: grant_error + string, wb)"
    and t: "t = \<lparr>at_Id = i, at_TokenHash = '''', at_ClientId = c_Id c,
                      at_UserId = (case u of None \<Rightarrow> '''' | Some u \<Rightarrow> u_Id u), at_Scopes = scopes,
                      at_AuthorizationCodeId = k, at_CreatedAt = now,
                      at_ExpiresAt = now + (if c_AccessTokenLifetime c \<le> 0 then DefaultAccessTokenLifetime else c_AccessTokenLifetime c)\<rparr>"
    and g: "oo_TokenGenerator opts t c u wb = (Inr value, wc)"
    and a: "a = t\<lparr>at_TokenHash := HashToken (oo_Lib opts) value\<rparr>"
    and s: "on_store (CreateAccessToken (oo_Store opts) a) wc = (Inr x, w')"
    unfolding createAccessToken_def Let_def by (simp add: andThen_eq_Inr) blast
  have wc: "w_store wc = w_store w" and i: "i \<noteq> ''''"
    using r generator [OF g] by (auto simp: clock_now_eq NewId_eq NewId_not_empty)
  have "at_Id a \<noteq> ''''" using i by (simp add: a t)
  from on_store_ok [OF s st(6) [OF this]] wc assms(2) have
    "I (w_store w')" "at_Id a \<notin> dom (tb_accessTokens (view (w_store w)))"
    "view (w_store w') = tb_accessTokens_update (\<lambda>m. m(at_Id a \<mapsto> a)) (view (w_store w))"
    by (simp_all add: create_spec_ok)
  with i show ?thesis by (auto simp: a t DefaultAccessTokenLifetime_def)
qed

lemma storeRefreshToken_ok:
  assumes "storeRefreshToken opts t w = (Inr v, w')" and "I (w_store w)" and "rt_Id t \<noteq> ''''"
  shows "I (w_store w') \<and> rt_Id t \<notin> dom (tb_refreshTokens (view (w_store w)))
     \<and> view (w_store w') = tb_refreshTokens_update
         (\<lambda>m. m(rt_Id t \<mapsto> t\<lparr>rt_TokenHash := HashToken (oo_Lib opts) v\<rparr>)) (view (w_store w))"
proof -
  let ?t = "t\<lparr>rt_TokenHash := HashToken (oo_Lib opts) v\<rparr>"
  from assms(1) obtain wc x where nt: "NewToken w = (Inr v :: grant_error + string, wc)"
    and cr: "on_store (CreateRefreshToken (oo_Store opts) ?t) wc = (Inr x, w')"
    unfolding storeRefreshToken_def by (simp add: andThen_eq_Inr) blast
  from nt have wc: "w_store wc = w_store w" by (auto simp: NewToken_eq)
  have "I (w_store wc)" "rt_Id ?t \<noteq> ''''" using assms(2,3) wc by simp_all
  from on_store_ok [OF cr st(11) [OF this(2)] this(1)] show ?thesis by (simp add: create_spec_ok wc)
qed

text \<open>
  \<open>IssueTokens\<close> adds one access token and, only if it is asked for and the client may use the refresh token
  grant, one refresh token, both for the client, user, scopes and code given.
\<close>

lemma IssueTokens_ok:
  assumes "IssueTokens opts c u scopes io w = (Inr resp, w')" and "I (w_store w)"
  shows "I (w_store w') \<and> issued (oo_Lib opts) c (case u of None \<Rightarrow> '''' | Some x \<Rightarrow> u_Id x) scopes
     (io_AuthorizationCodeId io) (io_RefreshToken io) resp (view (w_store w)) (view (w_store w'))"
proof -
  let ?resp = "\<lambda>a value. \<lparr>tr_AccessToken = value, tr_TokenType = TokenTypeBearer,
                     tr_ExpiresIn = whole_seconds (at_ExpiresAt a - at_CreatedAt a),
                     tr_RefreshToken = '''', tr_Scope = FormatScope scopes\<rparr>"
  from assms(1) obtain a av wa where
    c: "createAccessToken opts c u scopes (io_AuthorizationCodeId io) w = (Inr (a, av), wa)"
    and rest: "(if io_RefreshToken io \<and> ValidateGrantType c GrantTypeRefreshToken
        then andThen (newRefreshToken c a) (\<lambda>refreshToken.
             andThen (storeRefreshToken opts refreshToken) (\<lambda>refreshValue.
             ret ((?resp a av)\<lparr>tr_RefreshToken := refreshValue\<rparr>)))
        else ret (?resp a av)) wa = (Inr resp, w')"
    unfolding IssueTokens_def Let_def by (auto simp: andThen_eq_Inr)
  note a = createAccessToken_ok [OF c assms(2)]
  show ?thesis
  proof (cases "io_RefreshToken io \<and> ValidateGrantType c GrantTypeRefreshToken")
    case False
    with rest a show ?thesis unfolding issued_def by (intro conjI exI [of _ a]) auto
  next
    case True
    with rest obtain t wb v where
      n: "newRefreshToken c a wa = (Inr t, wb)" and s: "storeRefreshToken opts t wb = (Inr v, w')"
      and resp: "resp = (?resp a av)\<lparr>tr_RefreshToken := v\<rparr>"
      by (auto simp: andThen_eq_Inr)
    have t: "rt_Id t \<noteq> ''''" "w_store wb = w_store wa" using newRefreshToken_id [OF n] by simp_all
    have tf: "rt_ClientId t = c_Id c" "rt_UserId t = at_UserId a" "rt_Scopes t = at_Scopes a"
      "rt_AccessTokenId t = at_Id a" "rt_AuthorizationCodeId t = at_AuthorizationCodeId a"
      using n unfolding newRefreshToken_def Let_def by (auto simp: andThen_eq_Inr)
    let ?t = "t\<lparr>rt_TokenHash := HashToken (oo_Lib opts) v\<rparr>"
    from a t(2) have "I (w_store wb)" by simp
    note sr = storeRefreshToken_ok [OF s this t(1)]
    have fresh: "rt_Id t \<notin> dom (tb_refreshTokens (view (w_store w)))" using sr a t(2) by simp
    have v': "view (w_store w') = (view (w_store w))\<lparr>tb_accessTokens := (tb_accessTokens (view (w_store w)))(at_Id a \<mapsto> a),
        tb_refreshTokens := (tb_refreshTokens (view (w_store w)))(rt_Id t \<mapsto> ?t)\<rparr>" using sr a t(2) by simp
    have "I (w_store w')" using sr by blast
    with fresh v' a tf True show ?thesis
      unfolding issued_def by (intro conjI exI [of _ a]) (simp_all add: resp, intro exI [of _ ?t], simp)
  qed
qed

lemma RevokeGrant_ok:
  assumes "RevokeGrant opts k w = (Inr x, w')" and "I (w_store w)" and "k \<noteq> ''''"
  shows "I (w_store w') \<and> view (w_store w') = (view (w_store w))
     \<lparr>tb_accessTokens := keep (\<lambda>t. at_AuthorizationCodeId t \<noteq> k) (tb_accessTokens (view (w_store w))),
      tb_refreshTokens := keep (\<lambda>t. rt_AuthorizationCodeId t \<noteq> k) (tb_refreshTokens (view (w_store w)))\<rparr>"
proof -
  let ?f = "empty_filter\<lparr>tf_AuthorizationCodeId := k\<rparr>"
  from assms(1) obtain n1 n2 w1 where
    r: "on_store (DeleteRefreshTokens (oo_Store opts) ?f) w = (Inr n1, w1)"
      "on_store (DeleteAccessTokens (oo_Store opts) ?f) w1 = (Inr n2, w')"
    unfolding RevokeGrant_def Let_def by (auto simp: andThen_eq_Inr)
  have m: "(\<lambda>x. \<not> at_matches ?f x) = (\<lambda>t. at_AuthorizationCodeId t \<noteq> k)"
    "(\<lambda>x. \<not> rt_matches ?f x) = (\<lambda>t. rt_AuthorizationCodeId t \<noteq> k)"
    using assms(3) by (auto simp: at_matches_def rt_matches_def filter_matches_def empty_filter_def fun_eq_iff)
  from on_store_ok [OF r(1) st(14) assms(2)] have 1: "I (w_store w1)"
    "view (w_store w1) = tb_refreshTokens_update (keep (\<lambda>t. rt_AuthorizationCodeId t \<noteq> k)) (view (w_store w))"
    by (simp_all add: delete_where_spec_ok m)
  from on_store_ok [OF r(2) st(8) 1(1)] show ?thesis
    by (simp add: delete_where_spec_ok m 1(2))
qed

text \<open>
  A successful exchange: the code was stored for this client, unused and unexpired, every check passed, the
  resource owner may sign in; the code is consumed now and the new tokens belong to it.
\<close>

lemma authorizationCodeGrant_ok:
  assumes "authorizationCodeGrant opts req w = (Inr resp, w')" and "I (w_store w)"
  shows "\<exists>codeValue redirectUri verifier code now u.
     RequiredParam (tq_Form req) ''code'' = Inr codeValue \<and> Param (tq_Form req) ''redirect_uri'' = Inr redirectUri
     \<and> Param (tq_Form req) ''code_verifier'' = Inr verifier \<and> now = truncate_ms (w_clock w (w_ticks w))
     \<and> tb_authorizationCodes (view (w_store w)) (ac_Id code) = Some code
     \<and> ac_CodeHash code = HashToken (oo_Lib opts) codeValue \<and> ac_ClientId code = c_Id (tq_Client req)
     \<and> ac_ConsumedAt code = None \<and> checkCode (oo_Lib opts) (tq_Client req) code now redirectUri verifier = None
     \<and> tb_users (view (w_store w)) (ac_UserId code) = Some u \<and> account_CanSignIn (oo_Accounts opts) u = None
     \<and> issued (oo_Lib opts) (tq_Client req) (ac_UserId code) (ac_Scopes code) (ac_Id code) True resp
         (tb_authorizationCodes_update (\<lambda>m. m(ac_Id code \<mapsto> code\<lparr>ac_ConsumedAt := Some now\<rparr>)) (view (w_store w)))
         (view (w_store w'))
     \<and> I (w_store w')"
proof -
  from assms(1) obtain codeValue redirectUri verifier where
    p: "RequiredParam (tq_Form req) ''code'' = Inr codeValue" "Param (tq_Form req) ''redirect_uri'' = Inr redirectUri"
      "Param (tq_Form req) ''code_verifier'' = Inr verifier"
    unfolding authorizationCodeGrant_def by (simp add: andThen_eq_Inr) metis
  with assms(1) obtain code wa where
    get: "on_store (GetAuthorizationCodeByHash (oo_Store opts) (HashToken (oo_Lib opts) codeValue)) w = (Inr code, wa)"
    and cl: "ac_ClientId code = c_Id (tq_Client req)"
    and un: "\<not> IsConsumed code" and ck: "checkCode (oo_Lib opts) (tq_Client req) code (truncate_ms (w_clock wa (w_ticks wa))) redirectUri verifier = None"
    and rest: "handle (on_store (ConsumeAuthorizationCode (oo_Store opts) (ac_Id code) (truncate_ms (w_clock wa (w_ticks wa)))))
       (\<lambda>e. if e = ErrConflict
            then andThen (RevokeGrant opts (ac_Id code)) (\<lambda>_. fail (invalid_grant ''the authorization code was already used''))
            else if e = ErrNotFound then fail (invalid_grant ''the authorization code is invalid'')
            else fail (GStore e)) (\<lambda>_.
     andThen (lookupUser opts (ac_UserId code)) (\<lambda>user.
     IssueTokens opts (tq_Client req) (Some user) (ac_Scopes code)
       \<lparr>io_RefreshToken = True, io_AuthorizationCodeId = ac_Id code\<rparr>)) (wa\<lparr>w_ticks := Suc (w_ticks wa)\<rparr>) = (Inr resp, w')"
    unfolding authorizationCodeGrant_def
    by (auto simp: andThen_eq_Inr clock_now_eq split: if_splits option.splits)
  let ?now = "truncate_ms (w_clock w (w_ticks w))"
  have now: "truncate_ms (w_clock wa (w_ticks wa)) = ?now" using on_store_frame [OF get] by simp
  from rest obtain x wb u wc where
    con: "on_store (ConsumeAuthorizationCode (oo_Store opts) (ac_Id code) ?now) (wa\<lparr>w_ticks := Suc (w_ticks wa)\<rparr>) = (Inr x, wb)"
    and look: "lookupUser opts (ac_UserId code) wb = (Inr u, wc)"
    and iss: "IssueTokens opts (tq_Client req) (Some u) (ac_Scopes code)
       \<lparr>io_RefreshToken = True, io_AuthorizationCodeId = ac_Id code\<rparr> wc = (Inr resp, w')"
    by (auto simp: handle_eq andThen_eq_Inr now split: if_splits)
  from on_store_ok [OF get st(15) assms(2)] have 1: "I (w_store wa)" "view (w_store wa) = view (w_store w)"
    "code \<in> ran (tb_authorizationCodes (view (w_store w)))" "ac_CodeHash code = HashToken (oo_Lib opts) codeValue"
    by (simp_all add: find_spec_ok)
  have "keyed ac_Id (tb_authorizationCodes (view (w_store w)))" using view_ok [OF assms(2)] by (simp add: tables_ok_def)
  from keyed_ranD [OF this 1(3)] have k: "tb_authorizationCodes (view (w_store w)) (ac_Id code) = Some code" by blast
  have "I (w_store (wa\<lparr>w_ticks := Suc (w_ticks wa)\<rparr>))" using 1 by simp
  from on_store_ok [OF con st(17) this] k 1(2) have 2: "I (w_store wb)" "ac_ConsumedAt code = None"
    "view (w_store wb) = tb_authorizationCodes_update (\<lambda>m. m(ac_Id code \<mapsto> code\<lparr>ac_ConsumedAt := Some ?now\<rparr>)) (view (w_store w))"
    by (simp_all add: consume_spec_ok)
  note 3 = lookupUser_ok [OF look 2(1)]
  then have i3: "I (w_store wc)" by blast
  note 4 = IssueTokens_ok [OF iss i3]
  have "view (w_store wc) = tb_authorizationCodes_update (\<lambda>m. m(ac_Id code \<mapsto> code\<lparr>ac_ConsumedAt := Some ?now\<rparr>)) (view (w_store w))"
    using 3 2(3) by simp
  with 4 3 have 5: "issued (oo_Lib opts) (tq_Client req) (ac_UserId code) (ac_Scopes code) (ac_Id code) True resp
         (tb_authorizationCodes_update (\<lambda>m. m(ac_Id code \<mapsto> code\<lparr>ac_ConsumedAt := Some ?now\<rparr>)) (view (w_store w)))
         (view (w_store w'))" "I (w_store w')" by simp_all
  show ?thesis
    by (intro exI [of _ codeValue] exI [of _ redirectUri] exI [of _ verifier] exI [of _ code] exI [of _ ?now]
        exI [of _ u] conjI)
      (use p k 1(4) cl 2 ck 3 5 in \<open>simp_all add: now\<close>)
qed

lemma renewRefreshToken_ok:
  assumes "renewRefreshToken opts t a now w = (Inr v, w')" and "I (w_store w)"
  shows "I (w_store w') \<and> (\<exists>R. renewed (oo_Lib opts) t a now v (tb_refreshTokens (view (w_store w))) R
     \<and> view (w_store w') = tb_refreshTokens_update (\<lambda>_. R) (view (w_store w)))"
proof (cases "rt_TokenUsage t = RefreshTokenUsageOneTime")
  case True
  with assms(1) obtain x wa k wb t' where
    d: "on_store (DeleteRefreshToken (oo_Store opts) (rt_Id t)) w = (Inr x, wa)"
    and n: "NewId wa = (Inr k :: grant_error + string, wb)"
    and t': "t' = \<lparr>rt_Id = k, rt_TokenHash = '''', rt_ClientId = rt_ClientId t, rt_UserId = rt_UserId t,
           rt_AccessTokenId = at_Id a, rt_AuthorizationCodeId = rt_AuthorizationCodeId t,
           rt_Scopes = rt_Scopes t, rt_TokenExpiration = rt_TokenExpiration t,
           rt_TokenUsage = rt_TokenUsage t, rt_Lifetime = rt_Lifetime t, rt_CreatedAt = now,
           rt_UpdatedAt = now, rt_ExpiresAt = rotatedExpiresAt t now\<rparr>"
    and s: "storeRefreshToken opts t' wb = (Inr v, w')"
    unfolding renewRefreshToken_def
    by (auto simp: handle_eq andThen_eq_Inr split: if_splits)
  from on_store_ok [OF d st(13) assms(2)] have 1: "I (w_store wa)"
    "view (w_store wa) = tb_refreshTokens_update (\<lambda>m. m(rt_Id t := None)) (view (w_store w))"
    by (simp_all add: delete_spec_ok)
  from n have wb: "w_store wb = w_store wa" and k: "k \<noteq> ''''" by (auto simp: NewId_eq NewId_not_empty)
  have "I (w_store wb)" "rt_Id t' \<noteq> ''''" using 1 wb k by (simp_all add: t')
  note s' = storeRefreshToken_ok [OF s this]
  let ?t' = "t'\<lparr>rt_TokenHash := HashToken (oo_Lib opts) v\<rparr>"
  let ?R = "((tb_refreshTokens (view (w_store w)))(rt_Id t := None))(rt_Id ?t' \<mapsto> ?t')"
  have "renewed (oo_Lib opts) t a now v (tb_refreshTokens (view (w_store w))) ?R"
    unfolding renewed_def if_P [OF True] by (intro exI [of _ ?t']) (simp add: t')
  moreover have "view (w_store w') = tb_refreshTokens_update (\<lambda>_. ?R) (view (w_store w))"
    using s' wb 1 by simp
  ultimately show ?thesis using s' by blast
next
  case False
  let ?t = "Touch (t\<lparr>rt_AccessTokenId := at_Id a\<rparr>) now"
  from False assms(1) have u: "on_store (UpdateRefreshToken (oo_Store opts) ?t) w = (Inr (), w')" and v: "v = ''''"
    unfolding renewRefreshToken_def by (auto simp: andThen_eq_Inr)
  from on_store_ok [OF u st(12) assms(2)] have "I (w_store w')"
    "view (w_store w') = tb_refreshTokens_update (\<lambda>m. m(rt_Id t \<mapsto> ?t)) (view (w_store w))"
    by (simp_all add: update_spec_ok)
  with False v show ?thesis
    by (intro conjI exI [of _ "(tb_refreshTokens (view (w_store w)))(rt_Id t \<mapsto> ?t)"]) (simp_all add: renewed_def)
qed

lemma refreshScopes_ok:
  "refreshScopes c t scope = Inr scopes \<Longrightarrow>
     set scopes \<subseteq> set (rt_Scopes t) \<and> set scopes \<subseteq> set (c_AllowedScopes c) \<and> (scope = '''' \<longrightarrow> scopes = rt_Scopes t)"
  by (auto simp: refreshScopes_def Let_def split: if_splits)

lemma refreshTokenGrant_ok:
  assumes "refreshTokenGrant opts req w = (Inr resp, w')" and "I (w_store w)"
  shows "\<exists>tokenValue scope t now scopes a.
     RequiredParam (tq_Form req) ''refresh_token'' = Inr tokenValue \<and> Param (tq_Form req) ''scope'' = Inr scope
     \<and> now = truncate_ms (w_clock w (w_ticks w))
     \<and> tb_refreshTokens (view (w_store w)) (rt_Id t) = Some t \<and> rt_TokenHash t = HashToken (oo_Lib opts) tokenValue
     \<and> rt_ClientId t = c_Id (tq_Client req) \<and> \<not> refresh_token_HasExpired t now
     \<and> refreshScopes (tq_Client req) t scope = Inr scopes
     \<and> (rt_UserId t \<noteq> '''' \<longrightarrow> (\<exists>u. tb_users (view (w_store w)) (rt_UserId t) = Some u
           \<and> account_CanSignIn (oo_Accounts opts) u = None))
     \<and> at_TokenHash a = HashToken (oo_Lib opts) (tr_AccessToken resp) \<and> at_ClientId a = c_Id (tq_Client req)
     \<and> at_UserId a = rt_UserId t \<and> at_Scopes a = scopes \<and> at_AuthorizationCodeId a = rt_AuthorizationCodeId t
     \<and> tb_accessTokens (view (w_store w')) =
         ((tb_accessTokens (view (w_store w)))(rt_AccessTokenId t := None))(at_Id a \<mapsto> a)
     \<and> renewed (oo_Lib opts) t a now (tr_RefreshToken resp)
         (tb_refreshTokens (view (w_store w))) (tb_refreshTokens (view (w_store w')))
     \<and> tb_authorizationCodes (view (w_store w')) = tb_authorizationCodes (view (w_store w))
     \<and> tb_users (view (w_store w')) = tb_users (view (w_store w)) \<and> I (w_store w')"
proof -
  from assms(1) obtain tokenValue scope where
    p: "RequiredParam (tq_Form req) ''refresh_token'' = Inr tokenValue" "Param (tq_Form req) ''scope'' = Inr scope"
    unfolding refreshTokenGrant_def by (simp add: andThen_eq_Inr) metis
  with assms(1) obtain t wa scopes user wb x wc a av wd v where
    get: "on_store (GetRefreshTokenByHash (oo_Store opts) (HashToken (oo_Lib opts) tokenValue)) w = (Inr t, wa)"
    and cl: "rt_ClientId t = c_Id (tq_Client req)"
    and ex': "\<not> refresh_token_HasExpired t (truncate_ms (w_clock wa (w_ticks wa)))"
    and sc: "Inr scopes = refreshScopes (tq_Client req) t scope"
    and us: "(if rt_UserId t \<noteq> '''' then andThen (lookupUser opts (rt_UserId t)) (\<lambda>u. ret (Some u)) else ret None)
      (wa\<lparr>w_ticks := Suc (w_ticks wa)\<rparr>) = (Inr user, wb)"
    and de: "(if rt_AccessTokenId t \<noteq> ''''
              then handle (on_store (DeleteAccessToken (oo_Store opts) (rt_AccessTokenId t)))
                     (\<lambda>e. if e \<noteq> ErrNotFound then fail (GStore e) else ret ()) ret
              else ret ()) wb = (Inr x, wc)"
    and cr: "createAccessToken opts (tq_Client req) user scopes (rt_AuthorizationCodeId t) wc = (Inr (a, av), wd)"
    and re': "renewRefreshToken opts t a (truncate_ms (w_clock wa (w_ticks wa))) wd = (Inr v, w')"
    and resp: "resp = \<lparr>tr_AccessToken = av, tr_TokenType = TokenTypeBearer,
          tr_ExpiresIn = whole_seconds (at_ExpiresAt a - at_CreatedAt a), tr_RefreshToken = v,
          tr_Scope = FormatScope scopes\<rparr>"
    unfolding refreshTokenGrant_def
    by (simp add: andThen_eq_Inr guard_eq_Inr clock_now_eq split_paired_Ex) blast
  let ?now = "truncate_ms (w_clock w (w_ticks w))" and ?wa = "wa\<lparr>w_ticks := Suc (w_ticks wa)\<rparr>"
  have now: "truncate_ms (w_clock wa (w_ticks wa)) = ?now" using on_store_frame [OF get] by simp
  note ex = ex' [unfolded now] and re = re' [unfolded now]
  from on_store_ok [OF get st(10) assms(2)] have 1: "I (w_store wa)" "view (w_store wa) = view (w_store w)"
    "t \<in> ran (tb_refreshTokens (view (w_store w)))" "rt_TokenHash t = HashToken (oo_Lib opts) tokenValue"
    by (simp_all add: find_spec_ok)
  have keyed: "keyed rt_Id (tb_refreshTokens (view (w_store w)))" "keyed at_Id (tb_accessTokens (view (w_store w)))"
    using view_ok [OF assms(2)] by (simp_all add: tables_ok_def)
  from keyed_ranD [OF keyed(1) 1(3)] have k: "tb_refreshTokens (view (w_store w)) (rt_Id t) = Some t" by blast
  have 2: "I (w_store wb) \<and> view (w_store wb) = view (w_store w)
    \<and> (rt_UserId t \<noteq> '''' \<longrightarrow> (\<exists>u. user = Some u \<and> tb_users (view (w_store w)) (rt_UserId t) = Some u
         \<and> account_CanSignIn (oo_Accounts opts) u = None \<and> u_Id u = rt_UserId t))
    \<and> (case user of None \<Rightarrow> '''' | Some u \<Rightarrow> u_Id u) = rt_UserId t"
  proof (cases "rt_UserId t = ''''")
    case False
    with us obtain u where "lookupUser opts (rt_UserId t) ?wa = (Inr u, wb)" "user = Some u" by (auto simp: andThen_eq_Inr)
    with lookupUser_ok [OF this(1)] 1 False show ?thesis by simp
  qed (use us 1 in auto)
  have 3: "I (w_store wc) \<and> view (w_store wc) = tb_accessTokens_update (\<lambda>m. m(rt_AccessTokenId t := None)) (view (w_store w))"
  proof (cases "rt_AccessTokenId t = ''''")
    case True
    have "(tb_accessTokens (view (w_store w)))('''' := None) = tb_accessTokens (view (w_store w))"
      using keyed(2) by (auto simp: keyed_def fun_eq_iff) (metis not_Some_eq)
    with True de 2 show ?thesis by simp
  next
    case False
    with de consider (gone) "on_store (DeleteAccessToken (oo_Store opts) (rt_AccessTokenId t)) wb = (Inl ErrNotFound, wc)"
      | (ok) "on_store (DeleteAccessToken (oo_Store opts) (rt_AccessTokenId t)) wb = (Inr (), wc)"
      by (auto simp: handle_eq split: if_splits)
    then show ?thesis
    proof cases
      case gone
      from on_store_err [OF gone st(7)] 2 show ?thesis
        by (auto simp: delete_spec_def split: if_splits intro!: tables.equality)
    next
      case ok
      from on_store_ok [OF ok st(7)] 2 show ?thesis by (simp add: delete_spec_ok)
    qed
  qed
  then have i3: "I (w_store wc)" by blast
  have us1: "rt_UserId t \<noteq> '''' \<longrightarrow> (\<exists>u. tb_users (view (w_store w)) (rt_UserId t) = Some u
    \<and> account_CanSignIn (oo_Accounts opts) u = None)" using 2 by blast
  have us2: "(case user of None \<Rightarrow> '''' | Some u \<Rightarrow> u_Id u) = rt_UserId t" using 2 by blast
  note 4 = createAccessToken_ok [OF cr i3, unfolded us2]
  then have i4: "I (w_store wd)" by blast
  from renewRefreshToken_ok [OF re i4] obtain R where 5: "I (w_store w')"
    "renewed (oo_Lib opts) t a ?now v (tb_refreshTokens (view (w_store wd))) R"
    "view (w_store w') = tb_refreshTokens_update (\<lambda>_. R) (view (w_store wd))" by blast
  show ?thesis
    by (intro exI [of _ tokenValue] exI [of _ scope] exI [of _ t] exI [of _ ?now] exI [of _ scopes] exI [of _ a] conjI)
      (use p k 1(4) cl ex sc [symmetric] us1 3 4 5 resp in \<open>simp_all\<close>)
qed

end

end
