(* ===== verification/TokenProofs.thy ===== *)
theory TokenProofs
  imports OAuthProofs
begin

text \<open>
  The token endpoint: the password and client credentials grants, client authentication and the dispatch,
  on any store that meets the contract; and, on a store that reports no failures, what a replayed
  authorization code or refresh token does.
\<close>

text \<open>Running a handler: the steps that succeed, taken one at a time.\<close>

lemma run_param: "x = Inr v \<Longrightarrow> andThen (mapErr h (lift x)) f = f v"
  by (simp add: lift_def mapErr_def)

lemma run_clock: "andThen clock_now f w = f (truncate_ms (w_clock w (w_ticks w))) (w\<lparr>w_ticks := Suc (w_ticks w)\<rparr>)"
  by (simp add: andThen_def clock_now_def)

lemma run_call: "m w = (Inr x, w') \<Longrightarrow> andThen (mapErr h m) f w = f x w'"
  by (simp add: andThen_def mapErr_def handle_def ret_def)

lemma run_failed: "m w = (Inl e, w') \<Longrightarrow> andThen (mapErr h m) f w = (Inl (h e), w')"
  by (simp add: andThen_def mapErr_def handle_def fail_def)

context oauth_service
begin

lemma passwordGrant_ok:
  assumes "passwordGrant opts req w = (Inr resp, w')" and "I (w_store w)"
  shows "\<exists>username password scope scopes u0 u w1.
     RequiredParam (tq_Form req) ''username'' = Inr username \<and> RequiredParam (tq_Form req) ''password'' = Inr password
     \<and> Param (tq_Form req) ''scope'' = Inr scope \<and> resolveScopes (tq_Client req) scope = Inr scopes
     \<and> account_Authenticate (oo_Accounts opts) username password w = (Inr u, w1)
     \<and> tb_users (view (w_store w)) (u_Id u) = Some u0
     \<and> h_Verify (ao_Hasher (oo_Accounts opts)) (u_PasswordHash u0) password = None
     \<and> account_CanSignIn (oo_Accounts opts) u0 = None
     \<and> issued (oo_Lib opts) (tq_Client req) (u_Id u) scopes '''' True resp
         (tb_users_update (\<lambda>m. m(u_Id u \<mapsto> u)) (view (w_store w))) (view (w_store w'))
     \<and> I (w_store w')"
proof -
  from assms(1) obtain username password scope scopes u w1 where
    p: "RequiredParam (tq_Form req) ''username'' = Inr username" "RequiredParam (tq_Form req) ''password'' = Inr password"
      "Inr scope = Param (tq_Form req) ''scope''" "Inr scopes = resolveScopes (tq_Client req) scope"
    and au: "account_Authenticate (oo_Accounts opts) username password w = (Inr u, w1)"
    and iss: "IssueTokens opts (tq_Client req) (Some u) scopes \<lparr>io_RefreshToken = True, io_AuthorizationCodeId = ''''\<rparr> w1 = (Inr resp, w')"
    unfolding passwordGrant_def by (simp add: andThen_eq_Inr) metis
  have i1: "I (w_store w1)" using preservesD [OF keep_Authenticate au] assms(2) by simp
  from Authenticate_ok [OF au assms(2)] obtain u0 where
    a: "tb_users (view (w_store w)) (u_Id u0) = Some u0" "h_Verify (ao_Hasher (oo_Accounts opts)) (u_PasswordHash u0) password = None"
      "account_CanSignIn (oo_Accounts opts) u0 = None" "u_Id u = u_Id u0"
      "view (w_store w1) = tb_users_update (\<lambda>m. m(u_Id u0 \<mapsto> u)) (view (w_store w))" by auto
  from IssueTokens_ok [OF iss i1] have "I (w_store w')" and
    tk: "issued (oo_Lib opts) (tq_Client req) (u_Id u) scopes '''' True resp (view (w_store w1)) (view (w_store w'))" by simp_all
  show ?thesis
    by (rule exI [of _ username], rule exI [of _ password], rule exI [of _ scope], rule exI [of _ scopes],
        rule exI [of _ u0], rule exI [of _ u], rule exI [of _ w1])
      (use p au a tk \<open>I (w_store w')\<close> in simp)
qed

lemma clientCredentialsGrant_ok:
  assumes "clientCredentialsGrant opts req w = (Inr resp, w')" and "I (w_store w)"
  shows "\<exists>scope scopes. \<not> client_IsPublic (tq_Client req) \<and> Param (tq_Form req) ''scope'' = Inr scope
     \<and> resolveScopes (tq_Client req) scope = Inr scopes
     \<and> issued (oo_Lib opts) (tq_Client req) '''' scopes '''' False resp (view (w_store w)) (view (w_store w'))
     \<and> I (w_store w')"
proof -
  from assms(1) obtain scope scopes where
    p: "\<not> client_IsPublic (tq_Client req)" "Inr scope = Param (tq_Form req) ''scope''"
      "Inr scopes = resolveScopes (tq_Client req) scope"
    and iss: "IssueTokens opts (tq_Client req) None scopes \<lparr>io_RefreshToken = False, io_AuthorizationCodeId = ''''\<rparr> w = (Inr resp, w')"
    unfolding clientCredentialsGrant_def by (simp add: guard_eq_Inr andThen_eq_Inr) metis
  from IssueTokens_ok [OF iss assms(2)] p show ?thesis
    by (intro exI [of _ scope] exI [of _ scopes]) auto
qed

text \<open>Client authentication succeeds only with the credentials of an enabled client, and changes nothing.\<close>

lemma AuthenticateClient_ok:
  assumes "AuthenticateClient opts r form w = (Inr c, w')" and "I (w_store w)"
  shows "\<exists>id0 secret0 secret basic.
     Param form ''client_id'' = Inr id0 \<and> Param form ''client_secret'' = Inr secret0
     \<and> basicCredentials (oo_Lib opts) (r_Authorization r) id0 secret0 = Inr (c_ClientId c, secret, basic)
     \<and> tb_clients (view (w_store w)) (c_Id c) = Some c \<and> c_Enabled c
     \<and> (if client_IsPublic c then \<not> basic \<and> secret = ''''
        else secret \<noteq> '''' \<and> c_SecretHash c \<noteq> '''' \<and> h_Verify (oo_Hasher opts) (c_SecretHash c) secret = None)
     \<and> on_store (GetClientByClientId (oo_Store opts) (c_ClientId c)) w = (Inr c, w')
     \<and> view (w_store w') = view (w_store w) \<and> I (w_store w')"
proof -
  have unk: "(if b then andThen (dummySecret opts) (\<lambda>_. fail e) else fail e) wx \<noteq> (Inr y, wy)" for b e wx y wy
    by (auto simp: andThen_eq_Inr)
  from assms(1) obtain id0 secret0 k secret basic where
    p: "Param form ''client_id'' = Inr id0" "Param form ''client_secret'' = Inr secret0"
      "basicCredentials (oo_Lib opts) (r_Authorization r) id0 secret0 = Inr (k, secret, basic)"
    unfolding AuthenticateClient_def by (simp add: andThen_eq_Inr split_paired_Ex) metis
  with assms(1) have get: "on_store (GetClientByClientId (oo_Store opts) k) w = (Inr c, w')" and en: "c_Enabled c"
    and au: "if client_IsPublic c then \<not> basic \<and> secret = ''''
        else secret \<noteq> '''' \<and> c_SecretHash c \<noteq> '''' \<and> h_Verify (oo_Hasher opts) (c_SecretHash c) secret = None"
    unfolding AuthenticateClient_def Let_def
    by (auto simp: andThen_eq_Inr handle_eq unk split: if_splits)
  from on_store_ok [OF get st(2) assms(2)] have
    1: "I (w_store w')" "view (w_store w') = view (w_store w)" "c \<in> ran (tb_clients (view (w_store w)))" "c_ClientId c = k"
    by (simp_all add: find_spec_ok)
  have "keyed c_Id (tb_clients (view (w_store w)))" using view_ok [OF assms(2)] by (simp add: tables_ok_def)
  from keyed_ranD [OF this 1(3)] p 1 en au get show ?thesis by blast
qed

text \<open>The dispatch of the token endpoint: the client is authenticated and may use the grant type it names.\<close>

lemma token_ok:
  assumes "token s r w = (Inr resp, w')" and "sv_opts s = opts"
  shows "\<exists>form c w1 g h. parsePostForm (oo_Lib opts) r = Inr form \<and> AuthenticateClient opts r form w = (Inr c, w1)
     \<and> RequiredParam form ''grant_type'' = Inr g \<and> map_of (sv_grants s) g = Some h \<and> ValidateGrantType c g
     \<and> h \<lparr>tq_Client = c, tq_GrantType = g, tq_Form = form, tq_HTTPRequest = r\<rparr> w1 = (Inr resp, w')"
proof -
  from assms obtain form c w1 g where
    1: "parsePostForm (oo_Lib opts) r = Inr form" "AuthenticateClient opts r form w = (Inr c, w1)"
      "RequiredParam form ''grant_type'' = Inr g"
    unfolding token_def by (simp add: andThen_eq_Inr) metis
  with assms show ?thesis
    unfolding token_def by (auto simp: andThen_eq_Inr split: option.splits if_splits)
qed

lemma keep_token:
  assumes "sv_opts s = opts" and "\<And>g h req. map_of (sv_grants s) g = Some h \<Longrightarrow> preserves (\<lambda>w. I (w_store w)) (h req)"
  shows "preserves (\<lambda>w. I (w_store w)) (token s r)"
  unfolding token_def assms(1) by (intro preserves_rules keep_AuthenticateClient assms(2))

end

locale reliable_oauth = oauth_service opts I view lower + reliable_account "oo_Accounts opts" I view lower
  for opts :: "'s oauth_options" and I :: "'s \<Rightarrow> bool" and view :: "'s \<Rightarrow> tables" and lower :: "string \<Rightarrow> string"
begin

lemmas rel = rel_GetAccessTokenByHash [simplified] rel_GetRefreshTokenByHash [simplified]
  rel_GetAuthorizationCodeByHash [simplified] rel_DeleteAccessTokens [simplified] rel_DeleteRefreshTokens [simplified]
  rel_GetClientById [simplified] rel_GetUserById [simplified] rel_DeleteAccessToken [simplified]
  rel_DeleteRefreshToken [simplified]

lemma RevokeGrant_exact:
  assumes "I (w_store w)" and "k \<noteq> ''''"
  shows "\<exists>w'. RevokeGrant opts k w = (Inr (), w') \<and> I (w_store w') \<and> view (w_store w') = (view (w_store w))
     \<lparr>tb_accessTokens := keep (\<lambda>t. at_AuthorizationCodeId t \<noteq> k) (tb_accessTokens (view (w_store w))),
      tb_refreshTokens := keep (\<lambda>t. rt_AuthorizationCodeId t \<noteq> k) (tb_refreshTokens (view (w_store w)))\<rparr>"
proof -
  let ?f = "empty_filter\<lparr>tf_AuthorizationCodeId := k\<rparr>"
  obtain r1 w1 where r1: "on_store (DeleteRefreshTokens (oo_Store opts) ?f) w = (r1, w1)" by fastforce
  obtain r2 w2 where r2: "on_store (DeleteAccessTokens (oo_Store opts) ?f) w1 = (r2, w2)" by fastforce
  note e1 = on_store_exact [OF r1 st(14) rel(5) assms(1)]
  then have "I (w_store w1)" by blast
  note e2 = on_store_exact [OF r2 st(8) rel(4) this]
  have "RevokeGrant opts k w = (Inr (), w2)"
    using r1 r2 e1 e2 by (auto simp: RevokeGrant_def Let_def andThen_def mapErr_def handle_def ret_def delete_where_spec_def)
  with RevokeGrant_ok [OF this assms] show ?thesis by blast
qed

text \<open>A consumed code presented again by its client ends every token that was issued for it.\<close>

lemma code_replay:
  assumes "I (w_store w)" and "tb_authorizationCodes (view (w_store w)) (ac_Id code) = Some code" and "IsConsumed code"
    and "RequiredParam (tq_Form req) ''code'' = Inr codeValue" and "ac_CodeHash code = HashToken (oo_Lib opts) codeValue"
    and "Param (tq_Form req) ''redirect_uri'' = Inr redirectUri" and "Param (tq_Form req) ''code_verifier'' = Inr verifier"
    and "ac_ClientId code = c_Id (tq_Client req)"
  shows "\<exists>w'. authorizationCodeGrant opts req w = (Inl (invalid_grant ''the authorization code was already used''), w')
     \<and> I (w_store w') \<and> view (w_store w') = (view (w_store w))
     \<lparr>tb_accessTokens := keep (\<lambda>t. at_AuthorizationCodeId t \<noteq> ac_Id code) (tb_accessTokens (view (w_store w))),
      tb_refreshTokens := keep (\<lambda>t. rt_AuthorizationCodeId t \<noteq> ac_Id code) (tb_refreshTokens (view (w_store w)))\<rparr>"
proof -
  have ok: "unique_field ac_CodeHash (tb_authorizationCodes (view (w_store w)))" "keyed ac_Id (tb_authorizationCodes (view (w_store w)))"
    using view_ok [OF assms(1)] by (simp_all add: tables_ok_def)
  have rn: "code \<in> ran (tb_authorizationCodes (view (w_store w)))" using assms(2) by (rule ranI)
  from keyed_ranD [OF ok(2) rn] have k: "ac_Id code \<noteq> ''''" by blast
  obtain r w1 where r: "on_store (GetAuthorizationCodeByHash (oo_Store opts) (HashToken (oo_Lib opts) codeValue)) w = (r, w1)" by fastforce
  note e = on_store_exact [OF r st(15) rel(3) assms(1)]
  with find_spec_exact [OF conjunct2 [OF e] ok(1) rn assms(5)] have e1: "r = Inr code" "view (w_store w1) = view (w_store w)" "I (w_store w1)" by simp_all
  let ?w1 = "w1\<lparr>w_ticks := Suc (w_ticks w1)\<rparr>"
  have "I (w_store ?w1)" using e1 by simp
  from RevokeGrant_exact [OF this k] obtain w2 where
    2: "RevokeGrant opts (ac_Id code) ?w1 = (Inr (), w2)" "I (w_store w2)"
    and v: "view (w_store w2) = (view (w_store ?w1))
     \<lparr>tb_accessTokens := keep (\<lambda>t. at_AuthorizationCodeId t \<noteq> ac_Id code) (tb_accessTokens (view (w_store ?w1))),
      tb_refreshTokens := keep (\<lambda>t. rt_AuthorizationCodeId t \<noteq> ac_Id code) (tb_refreshTokens (view (w_store ?w1)))\<rparr>" by blast
  have "authorizationCodeGrant opts req w = (Inl (invalid_grant ''the authorization code was already used''), w2)"
    using assms(3,8)
    by (simp only: authorizationCodeGrant_def run_param [OF assms(4)] run_param [OF assms(6)] run_param [OF assms(7)]
        run_call r e1(1) run_clock andThen_Inr 2(1) simp_thms if_False if_True fail_def)
  with 2 v e1(2) show ?thesis by simp
qed

text \<open>A one-time refresh token that was used is unknown, unless the new random value has the same hash.\<close>

lemma refresh_replay:
  assumes "refreshTokenGrant opts req w = (Inr resp, w')" and "I (w_store w)"
    and "RequiredParam (tq_Form req) ''refresh_token'' = Inr tokenValue"
    and "\<forall>t \<in> ran (tb_refreshTokens (view (w_store w))). rt_TokenHash t = HashToken (oo_Lib opts) tokenValue \<longrightarrow>
           rt_TokenUsage t = RefreshTokenUsageOneTime"
    and "HashToken (oo_Lib opts) (tr_RefreshToken resp) \<noteq> HashToken (oo_Lib opts) tokenValue"
    and "RequiredParam (tq_Form req') ''refresh_token'' = Inr tokenValue" and "Param (tq_Form req') ''scope'' = Inr scope"
  shows "\<exists>w2. refreshTokenGrant opts req' w' = (Inl (invalid_grant ''the refresh token is invalid''), w2)
     \<and> view (w_store w2) = view (w_store w')"
proof -
  let ?h = "HashToken (oo_Lib opts) tokenValue" and ?R = "tb_refreshTokens (view (w_store w))"
  from refreshTokenGrant_ok [OF assms(1,2)] obtain t a where
    t: "?R (rt_Id t) = Some t" "rt_TokenHash t = ?h" and i: "I (w_store w')"
    and re: "renewed (oo_Lib opts) t a (truncate_ms (w_clock w (w_ticks w))) (tr_RefreshToken resp) ?R (tb_refreshTokens (view (w_store w')))"
    unfolding assms(3) sum.inject by blast
  have rn: "t \<in> ran ?R" using t(1) by (rule ranI)
  with t(2) assms(4) have one: "rt_TokenUsage t = RefreshTokenUsageOneTime" by blast
  from re obtain t' where
    R': "tb_refreshTokens (view (w_store w')) = (?R(rt_Id t := None))(rt_Id t' \<mapsto> t')"
    and h': "rt_TokenHash t' \<noteq> ?h"
    unfolding renewed_def if_P [OF one] using assms(5) by metis
  have ok: "unique_field rt_TokenHash ?R" "keyed rt_Id ?R" using view_ok [OF assms(2)] by (simp_all add: tables_ok_def)
  have gone: "\<forall>x \<in> ran (tb_refreshTokens (view (w_store w'))). rt_TokenHash x \<noteq> ?h"
  proof
    fix x assume "x \<in> ran (tb_refreshTokens (view (w_store w')))"
    then consider "x = t'" | "x \<in> ran (?R(rt_Id t := None))" unfolding R' by (auto dest: ran_updD intro: ranI)
    then show "rt_TokenHash x \<noteq> ?h"
    proof cases
      case 2
      then obtain k where k: "k \<noteq> rt_Id t" "?R k = Some x" by (auto simp: ran_def split: if_splits)
      with ok(2) have "rt_Id x = k" unfolding keyed_def by blast
      moreover from k(2) have "x \<in> ran ?R" by (rule ranI)
      ultimately show ?thesis using k(1) rn t(2) ok(1) unfolding unique_field_def by metis
    qed (use h' in simp)
  qed
  obtain r w2 where r: "on_store (GetRefreshTokenByHash (oo_Store opts) ?h) w' = (r, w2)" by fastforce
  note e = on_store_exact [OF r st(10) rel(2) i]
  with find_spec_none [OF conjunct2 [OF e] gone] have e1: "r = Inl ErrNotFound" "view (w_store w2) = view (w_store w')" by simp_all
  have "refreshTokenGrant opts req' w' = (Inl (invalid_grant ''the refresh token is invalid''), w2)"
    by (simp only: refreshTokenGrant_def run_param [OF assms(6)] run_param [OF assms(7)] run_failed r e1(1) simp_thms if_True)
  with e1(2) show ?thesis by blast
qed

end

section \<open>The server on the in-memory store\<close>

text \<open>The server with the in-memory store for itself and its accounts, and opaque tokens.\<close>

abbreviation oauth_on_memory :: "(string \<Rightarrow> string) \<Rightarrow> mem oauth_options \<Rightarrow> mem oauth_options" where
  "oauth_on_memory ul opts \<equiv> opts\<lparr>oo_Store := memory_ops ul, oo_Accounts := on_memory ul (oo_Accounts opts),
     oo_TokenGenerator := OpaqueTokenGenerator\<rparr>"

lemma oauth_memory:
  "oo_Lib (oauth_on_memory ul opts) = oo_Lib opts" "oo_Hasher (oauth_on_memory ul opts) = oo_Hasher opts"
  "oo_Accounts (oauth_on_memory ul opts) = on_memory ul (oo_Accounts opts)" "oo_Store (oauth_on_memory ul opts) = memory_ops ul"
  "oo_BasePath (oauth_on_memory ul opts) = oo_BasePath opts" "oo_Issuer (oauth_on_memory ul opts) = oo_Issuer opts"
  by simp_all

interpretation srv: reliable_oauth "oauth_on_memory ul opts" mem_inv mem_view "to_lower ul" for ul opts
  by (simp add: reliable_oauth_def oauth_service_def oauth_service_axioms_def acc.account_service_axioms
      acc.reliable_account_axioms OpaqueTokenGenerator_def NewToken_eq)

end
