(* ===== verification/TokenLiveness.thy ===== *)
theory TokenLiveness
  imports TokenProofs
begin

text \<open>
  That the grants succeed: on a store that reports no failures, with opaque tokens and fresh random values, an
  exchange of a code or of a refresh token that passes every check returns tokens.
\<close>

section \<open>Fresh random values\<close>

text \<open>The next \<open>n\<close> random bytes at a position, and the values an issue of tokens draws: id and value of the access
  token, id and value of the refresh token. They are fresh when no stored token has that id or that hash.\<close>

definition tape :: "'s world \<Rightarrow> nat \<Rightarrow> nat \<Rightarrow> byte list" where
  "tape w p n = map (\<lambda>i. w_random w (p + i)) [0..<n]"

definition freshTokens :: "golib \<Rightarrow> tables \<Rightarrow> 's world \<Rightarrow> bool" where
  "freshTokens lib T w \<longleftrightarrow>
     NewId_of (tape w (w_pos w) 16) \<notin> dom (tb_accessTokens T)
     \<and> HashToken lib (RandomToken_of (tape w (w_pos w + 16) 32)) \<notin> at_TokenHash ` ran (tb_accessTokens T)
     \<and> NewId_of (tape w (w_pos w + 48) 16) \<notin> dom (tb_refreshTokens T)
     \<and> HashToken lib (RandomToken_of (tape w (w_pos w + 64) 32)) \<notin> rt_TokenHash ` ran (tb_refreshTokens T)"

lemma run_NewId: "andThen NewId f w = f (NewId_of (tape w (w_pos w) 16)) (w\<lparr>w_pos := w_pos w + 16\<rparr>)"
  by (simp add: andThen_def NewId_def RandomBytes_def ret_def tape_def)

lemma run_NewToken: "andThen NewToken f w = f (RandomToken_of (tape w (w_pos w) 32)) (w\<lparr>w_pos := w_pos w + 32\<rparr>)"
  by (simp add: andThen_def NewToken_def RandomToken_def RandomBytes_def ret_def tape_def)

lemma tape_length [simp]: "length (tape w p n) = n"
  by (simp add: tape_def)

lemma tape_frame [simp]:
  "tape (w\<lparr>w_pos := x\<rparr>) p n = tape w p n" "tape (w\<lparr>w_ticks := t\<rparr>) p n = tape w p n" "tape (w\<lparr>w_store := s\<rparr>) p n = tape w p n"
  by (simp_all add: tape_def)

lemma run_ret: "ret x w = (Inr x, w)"
  by simp

lemmas run_rules = run_param run_call run_clock run_NewId run_NewToken andThen_Inr andThen_ret simp_thms if_False if_True
  option.case sum.case prod.case Let_def

lemma create_spec_fresh:
  "create_spec tb upd key clash x T r T' \<Longrightarrow> key x \<notin> dom (tb T) \<Longrightarrow> (\<And>y. y \<in> ran (tb T) \<Longrightarrow> \<not> clash x y) \<Longrightarrow>
     r = Inr () \<and> T' = upd (\<lambda>m. m(key x \<mapsto> x)) T"
  by (auto simp: create_spec_def)

context reliable_oauth
begin

lemma createAccessToken_exact:
  assumes "oo_TokenGenerator opts = OpaqueTokenGenerator" and "I (w_store w)"
    and "NewId_of (tape w (w_pos w) 16) \<notin> dom (tb_accessTokens (view (w_store w)))"
    and "HashToken (oo_Lib opts) (RandomToken_of (tape w (w_pos w + 16) 32)) \<notin> at_TokenHash ` ran (tb_accessTokens (view (w_store w)))"
  shows "\<exists>a w'. createAccessToken opts c u scopes k w = (Inr (a, RandomToken_of (tape w (w_pos w + 16) 32)), w')
     \<and> w_pos w' = w_pos w + 48 \<and> w_random w' = w_random w \<and> w_clock w' = w_clock w \<and> w_ticks w' = Suc (w_ticks w)"
proof -
  let ?life = "if c_AccessTokenLifetime c \<le> 0 then DefaultAccessTokenLifetime else c_AccessTokenLifetime c"
  let ?v = "RandomToken_of (tape w (w_pos w + 16) 32)" and ?i = "NewId_of (tape w (w_pos w) 16)"
    and ?now = "truncate_ms (w_clock w (w_ticks w))"
  let ?a = "\<lparr>at_Id = ?i, at_TokenHash = HashToken (oo_Lib opts) ?v, at_ClientId = c_Id c,
                      at_UserId = (case u of None \<Rightarrow> '''' | Some u \<Rightarrow> u_Id u), at_Scopes = scopes,
                      at_AuthorizationCodeId = k, at_CreatedAt = ?now, at_ExpiresAt = ?now + ?life\<rparr>"
  let ?w = "w\<lparr>w_ticks := Suc (w_ticks w), w_pos := w_pos w + 48\<rparr>"
  have "at_Id ?a \<noteq> ''''" using NewId_not_empty [of "tape w (w_pos w) 16"] by simp
  note ob = st(6) [OF this]
  obtain r w' where r: "on_store (CreateAccessToken (oo_Store opts) ?a) ?w = (r, w')" by fastforce
  have "I (w_store ?w)" using assms(2) by simp
  note e = on_store_exact [OF r ob rel_CreateAccessToken [simplified] this]
  have "r = Inr ()"
    using create_spec_fresh [OF conjunct2 [OF e]] assms(3,4) by (fastforce simp: access_token_clash_def image_iff)
  with r have "andThen (gstore (CreateAccessToken (oo_Store opts) ?a)) (\<lambda>_. ret (?a, ?v)) ?w = (Inr (?a, ?v), w')"
    by (simp add: run_call)
  then have "createAccessToken opts c u scopes k w = (Inr (?a, ?v), w')"
    unfolding createAccessToken_def Let_def assms(1) OpaqueTokenGenerator_def run_clock run_NewId run_NewToken
    by (simp add: add.commute)
  with on_store_frame [OF r] show ?thesis by simp
qed

lemma storeRefreshToken_exact:
  assumes "I (w_store w)" and "rt_Id t \<noteq> ''''" and "rt_Id t \<notin> dom (tb_refreshTokens (view (w_store w)))"
    and "HashToken (oo_Lib opts) (RandomToken_of (tape w (w_pos w) 32)) \<notin> rt_TokenHash ` ran (tb_refreshTokens (view (w_store w)))"
  shows "\<exists>w'. storeRefreshToken opts t w = (Inr (RandomToken_of (tape w (w_pos w) 32)), w')"
proof -
  let ?v = "RandomToken_of (tape w (w_pos w) 32)" and ?w = "w\<lparr>w_pos := w_pos w + 32\<rparr>"
  let ?t = "t\<lparr>rt_TokenHash := HashToken (oo_Lib opts) ?v\<rparr>"
  have "rt_Id ?t \<noteq> ''''" using assms(2) by simp
  note ob = st(11) [OF this]
  obtain r w' where r: "on_store (CreateRefreshToken (oo_Store opts) ?t) ?w = (r, w')" by fastforce
  have "I (w_store ?w)" using assms(1) by simp
  note e = on_store_exact [OF r ob rel_CreateRefreshToken [simplified] this]
  have "r = Inr ()"
    using create_spec_fresh [OF conjunct2 [OF e]] assms(3,4) by (fastforce simp: refresh_token_clash_def image_iff)
  with r show ?thesis by (simp add: storeRefreshToken_def run_NewToken run_call)
qed

lemma IssueTokens_exact:
  assumes "oo_TokenGenerator opts = OpaqueTokenGenerator" and "I (w_store w)"
    and "freshTokens (oo_Lib opts) (view (w_store w)) w"
  shows "\<exists>resp w'. IssueTokens opts c u scopes io w = (Inr resp, w')"
proof -
  note f = assms(3) [unfolded freshTokens_def]
  from createAccessToken_exact [OF assms(1,2)] f obtain a v wa where
    a: "createAccessToken opts c u scopes (io_AuthorizationCodeId io) w = (Inr (a, v), wa)"
    and fr: "w_pos wa = w_pos w + 48" "w_random wa = w_random w" by meson
  note ok = createAccessToken_ok [OF a assms(2)]
  have tp: "tape wa q n = tape w q n" for q n
    by (simp add: tape_def fr)
  have "\<exists>t w1. newRefreshToken c a wa = (Inr t, w1) \<and> rt_Id t = NewId_of (tape w (w_pos w + 48) 16)
     \<and> w_pos w1 = w_pos w + 64 \<and> w_random w1 = w_random w \<and> w_store w1 = w_store wa"
    by (simp add: newRefreshToken_def Let_def run_clock run_NewId tp fr)
  then obtain t w1 where t: "newRefreshToken c a wa = (Inr t, w1)" "rt_Id t = NewId_of (tape w (w_pos w + 48) 16)"
     "w_pos w1 = w_pos w + 64" "w_random w1 = w_random w" "w_store w1 = w_store wa" by blast
  have tp1: "tape w1 q n = tape w q n" for q n by (simp add: tape_def t)
  have "I (w_store w1)" "rt_Id t \<noteq> ''''" using ok t(5) t(2) NewId_not_empty [of "tape w (w_pos w + 48) 16"] by simp_all
  from storeRefreshToken_exact [OF this] f ok obtain w2 v' where
    s: "storeRefreshToken opts t w1 = (Inr v', w2)" by (auto simp: t tp1)
  show ?thesis
  proof (cases "io_RefreshToken io \<and> ValidateGrantType c GrantTypeRefreshToken")
    case True
    then show ?thesis by (simp add: IssueTokens_def andThen_def a t(1) s Let_def)
  next
    case False
    then show ?thesis by (auto simp: IssueTokens_def andThen_def a Let_def)
  qed
qed

lemma lookupUser_exact:
  assumes "I (w_store w)" and "tb_users (view (w_store w)) k = Some u" and "account_CanSignIn (oo_Accounts opts) u = None"
  shows "\<exists>w'. lookupUser opts k w = (Inr u, w') \<and> I (w_store w') \<and> view (w_store w') = view (w_store w)
     \<and> w_pos w' = w_pos w \<and> w_random w' = w_random w"
proof -
  obtain r w' where r: "on_store (GetUserById (oo_Store opts) k) w = (r, w')" by fastforce
  note e = on_store_exact [OF r st(3) rel(7) assms(1)]
  then have ru: "r = Inr u" "view (w_store w') = view (w_store w)" using assms(2) by (simp_all add: get_spec_def)
  have "lookupUser opts k w = (Inr u, w')"
    using assms(3) by (simp only: lookupUser_def run_call r ru(1) simp_thms if_False ret_def)
  with e ru on_store_frame [OF r] show ?thesis by blast
qed

text \<open>Everything that is checked holds, and the random values are fresh: then the exchange succeeds.\<close>

lemma code_exchange_exact:
  assumes "oo_TokenGenerator opts = OpaqueTokenGenerator" and "I (w_store w)"
    and "tb_authorizationCodes (view (w_store w)) (ac_Id code) = Some code" and "\<not> IsConsumed code"
    and "RequiredParam (tq_Form req) ''code'' = Inr codeValue" and "ac_CodeHash code = HashToken (oo_Lib opts) codeValue"
    and "Param (tq_Form req) ''redirect_uri'' = Inr redirectUri" and "Param (tq_Form req) ''code_verifier'' = Inr verifier"
    and "ac_ClientId code = c_Id (tq_Client req)"
    and "checkCode (oo_Lib opts) (tq_Client req) code (truncate_ms (w_clock w (w_ticks w))) redirectUri verifier = None"
    and "tb_users (view (w_store w)) (ac_UserId code) = Some u" and "account_CanSignIn (oo_Accounts opts) u = None"
    and "freshTokens (oo_Lib opts) (view (w_store w)) w"
  shows "\<exists>resp w'. authorizationCodeGrant opts req w = (Inr resp, w')"
proof -
  let ?now = "truncate_ms (w_clock w (w_ticks w))"
  have ok: "unique_field ac_CodeHash (tb_authorizationCodes (view (w_store w)))"
    using view_ok [OF assms(2)] by (simp add: tables_ok_def)
  have rn: "code \<in> ran (tb_authorizationCodes (view (w_store w)))" using assms(3) by (rule ranI)
  obtain r w1 where r: "on_store (GetAuthorizationCodeByHash (oo_Store opts) (HashToken (oo_Lib opts) codeValue)) w = (r, w1)" by fastforce
  note e = on_store_exact [OF r st(15) rel(3) assms(2)]
  with find_spec_exact [OF conjunct2 [OF e] ok rn assms(6)] have e1: "r = Inr code" "view (w_store w1) = view (w_store w)" "I (w_store w1)" by simp_all
  have now: "truncate_ms (w_clock w1 (w_ticks w1)) = ?now" using on_store_frame [OF r] by simp
  let ?w1 = "w1\<lparr>w_ticks := Suc (w_ticks w1)\<rparr>"
  obtain q w2 where q: "on_store (ConsumeAuthorizationCode (oo_Store opts) (ac_Id code) ?now) ?w1 = (q, w2)" by fastforce
  have "I (w_store ?w1)" using e1 by simp
  note c = on_store_exact [OF q st(17) rel_ConsumeAuthorizationCode [simplified] this]
  then have c1: "q = Inr ()" "I (w_store w2)" "tb_users (view (w_store w2)) = tb_users (view (w_store w))"
    "tb_accessTokens (view (w_store w2)) = tb_accessTokens (view (w_store w))"
    "tb_refreshTokens (view (w_store w2)) = tb_refreshTokens (view (w_store w))"
    using assms(3,4) e1(2) by (simp_all add: consume_spec_def IsConsumed_def)
  have "tb_users (view (w_store w2)) (ac_UserId code) = Some u" using assms(11) c1(3) by simp
  from lookupUser_exact [OF c1(2) this assms(12)] obtain w3 where
    3: "lookupUser opts (ac_UserId code) w2 = (Inr u, w3)" "I (w_store w3)" "view (w_store w3) = view (w_store w2)"
      "w_pos w3 = w_pos w2" "w_random w3 = w_random w2" by blast
  have tp: "tape w3 p n = tape w p n" "w_pos w3 = w_pos w" for p n
    using on_store_frame [OF q] on_store_frame [OF r] 3(4,5) by (simp_all add: tape_def)
  have "freshTokens (oo_Lib opts) (view (w_store w3)) w3"
    using assms(13) by (simp add: freshTokens_def tp 3(3) c1(4,5))
  from IssueTokens_exact [OF assms(1) 3(2) this] obtain resp w4 where
    4: "IssueTokens opts (tq_Client req) (Some u) (ac_Scopes code)
      \<lparr>io_RefreshToken = True, io_AuthorizationCodeId = ac_Id code\<rparr> w3 = (Inr resp, w4)" by blast
  have "authorizationCodeGrant opts req w = (Inr resp, w4)"
    using assms(4,9,10)
    by (simp only: authorizationCodeGrant_def run_param [OF assms(5)] run_param [OF assms(7)] run_param [OF assms(8)]
        run_call r e1(1) run_clock now handle_Inr q c1(1) andThen_Inr 3(1) 4 simp_thms if_False if_True option.case)
  then show ?thesis by blast
qed

lemma renewRefreshToken_exact:
  assumes "I (w_store w)" and "tb_refreshTokens (view (w_store w)) (rt_Id t) = Some t"
    and "NewId_of (tape w (w_pos w) 16) \<notin> dom (tb_refreshTokens (view (w_store w)))"
    and "HashToken (oo_Lib opts) (RandomToken_of (tape w (w_pos w + 16) 32)) \<notin> rt_TokenHash ` ran (tb_refreshTokens (view (w_store w)))"
  shows "\<exists>w'. renewRefreshToken opts t a now w =
     (Inr (if rt_TokenUsage t = RefreshTokenUsageOneTime then RandomToken_of (tape w (w_pos w + 16) 32) else ''''), w')"
proof (cases "rt_TokenUsage t = RefreshTokenUsageOneTime")
  case True
  let ?R = "tb_refreshTokens (view (w_store w))" and ?i = "NewId_of (tape w (w_pos w) 16)"
  obtain r w1 where r: "on_store (DeleteRefreshToken (oo_Store opts) (rt_Id t)) w = (r, w1)" by fastforce
  note e = on_store_exact [OF r st(13) rel(9) assms(1)]
  then have e1: "r = Inr ()" "tb_refreshTokens (view (w_store w1)) = ?R(rt_Id t := None)" "I (w_store w1)"
    using assms(2) by (simp_all add: delete_spec_def domI)
  have tp: "tape w1 p n = tape w p n" "w_pos w1 = w_pos w" for p n
    using on_store_frame [OF r] by (simp_all add: tape_def)
  let ?t = "\<lparr>rt_Id = ?i, rt_TokenHash = '''', rt_ClientId = rt_ClientId t, rt_UserId = rt_UserId t,
           rt_AccessTokenId = at_Id a, rt_AuthorizationCodeId = rt_AuthorizationCodeId t,
           rt_Scopes = rt_Scopes t, rt_TokenExpiration = rt_TokenExpiration t,
           rt_TokenUsage = rt_TokenUsage t, rt_Lifetime = rt_Lifetime t, rt_CreatedAt = now,
           rt_UpdatedAt = now, rt_ExpiresAt = rotatedExpiresAt t now\<rparr>"
  have sub: "ran (?R(rt_Id t := None)) \<subseteq> ran ?R" by (auto simp: ran_def)
  have "I (w_store (w1\<lparr>w_pos := w_pos w1 + 16\<rparr>))" "rt_Id ?t \<noteq> ''''"
    "rt_Id ?t \<notin> dom (tb_refreshTokens (view (w_store (w1\<lparr>w_pos := w_pos w1 + 16\<rparr>))))"
    "HashToken (oo_Lib opts) (RandomToken_of (tape (w1\<lparr>w_pos := w_pos w1 + 16\<rparr>) (w_pos (w1\<lparr>w_pos := w_pos w1 + 16\<rparr>)) 32))
       \<notin> rt_TokenHash ` ran (tb_refreshTokens (view (w_store (w1\<lparr>w_pos := w_pos w1 + 16\<rparr>))))"
    using e1 assms(3,4) sub NewId_not_empty [of "tape w (w_pos w) 16"] by (auto simp: tp)
  from storeRefreshToken_exact [OF this] obtain w2 where
    "storeRefreshToken opts ?t (w1\<lparr>w_pos := w_pos w1 + 16\<rparr>) = (Inr (RandomToken_of (tape w (w_pos w + 16) 32)), w2)"
    by (auto simp: tp)
  then have "renewRefreshToken opts t a now w = (Inr (RandomToken_of (tape w (w_pos w + 16) 32)), w2)"
    by (simp only: renewRefreshToken_def if_P [OF True] handle_Inr r e1(1) run_NewId tp)
  then show ?thesis unfolding if_P [OF True] by blast
next
  case False
  let ?t = "Touch (t\<lparr>rt_AccessTokenId := at_Id a\<rparr>) now" and ?R = "tb_refreshTokens (view (w_store w))"
  obtain r w1 where r: "on_store (UpdateRefreshToken (oo_Store opts) ?t) w = (r, w1)" by fastforce
  note e = on_store_exact [OF r st(12) rel_UpdateRefreshToken [simplified] assms(1)]
  have ok: "unique_field rt_TokenHash ?R" using view_ok [OF assms(1)] by (simp add: tables_ok_def)
  have rn: "t \<in> ran ?R" using assms(2) by (rule ranI)
  have "\<not> (\<exists>y \<in> ran ?R. rt_Id y \<noteq> rt_Id ?t \<and> refresh_token_clash ?t y)"
  proof
    assume "\<exists>y \<in> ran ?R. rt_Id y \<noteq> rt_Id ?t \<and> refresh_token_clash ?t y"
    then obtain y where y: "y \<in> ran ?R" "rt_Id y \<noteq> rt_Id t" "rt_TokenHash y = rt_TokenHash t"
      by (auto simp: refresh_token_clash_def)
    with rn ok have "y = t" unfolding unique_field_def by blast
    with y(2) show False by blast
  qed
  with e have "r = Inr ()" using assms(2) by (simp add: update_spec_def domI)
  with r False have "renewRefreshToken opts t a now w = (Inr '''', w1)"
    by (simp only: renewRefreshToken_def if_False run_call ret_def)
  then show ?thesis unfolding if_not_P [OF False] by blast
qed

lemma refresh_exchange_exact:
  assumes "oo_TokenGenerator opts = OpaqueTokenGenerator" and "I (w_store w)"
    and "tb_refreshTokens (view (w_store w)) (rt_Id t) = Some t"
    and "RequiredParam (tq_Form req) ''refresh_token'' = Inr tokenValue" and "rt_TokenHash t = HashToken (oo_Lib opts) tokenValue"
    and "Param (tq_Form req) ''scope'' = Inr scope" and "refreshScopes (tq_Client req) t scope = Inr scopes"
    and "rt_ClientId t = c_Id (tq_Client req)" and "\<not> refresh_token_HasExpired t (truncate_ms (w_clock w (w_ticks w)))"
    and "tb_users (view (w_store w)) (rt_UserId t) = Some u" and "account_CanSignIn (oo_Accounts opts) u = None"
    and "freshTokens (oo_Lib opts) (view (w_store w)) w"
  shows "\<exists>resp w'. refreshTokenGrant opts req w = (Inr resp, w') \<and> tr_RefreshToken resp =
     (if rt_TokenUsage t = RefreshTokenUsageOneTime then RandomToken_of (tape w (w_pos w + 64) 32) else '''')"
proof -
  let ?now = "truncate_ms (w_clock w (w_ticks w))"
  have ok: "unique_field rt_TokenHash (tb_refreshTokens (view (w_store w)))" "keyed u_Id (tb_users (view (w_store w)))"
    using view_ok [OF assms(2)] by (simp_all add: tables_ok_def)
  have rn: "t \<in> ran (tb_refreshTokens (view (w_store w)))" using assms(3) by (rule ranI)
  have un: "u \<in> ran (tb_users (view (w_store w)))" using assms(10) by (rule ranI)
  have uid: "rt_UserId t \<noteq> ''''" using ok(2) assms(10) unfolding keyed_def by blast
  obtain r w1 where r: "on_store (GetRefreshTokenByHash (oo_Store opts) (HashToken (oo_Lib opts) tokenValue)) w = (r, w1)" by fastforce
  note e = on_store_exact [OF r st(10) rel(2) assms(2)]
  with find_spec_exact [OF conjunct2 [OF e] ok(1) rn assms(5)] have e1: "r = Inr t" "view (w_store w1) = view (w_store w)" "I (w_store w1)" by simp_all
  have now: "truncate_ms (w_clock w1 (w_ticks w1)) = ?now" using on_store_frame [OF r] by simp
  let ?w1 = "w1\<lparr>w_ticks := Suc (w_ticks w1)\<rparr>"
  have "I (w_store ?w1)" "tb_users (view (w_store ?w1)) (rt_UserId t) = Some u" using e1 assms(10) by simp_all
  from lookupUser_exact [OF this assms(11)] obtain w2 where
    2: "lookupUser opts (rt_UserId t) ?w1 = (Inr u, w2)" "I (w_store w2)" "view (w_store w2) = view (w_store w)"
      "w_pos w2 = w_pos w" "w_random w2 = w_random w" using e1(2) on_store_frame [OF r] by auto
  let ?del = "handle (on_store (DeleteAccessToken (oo_Store opts) (rt_AccessTokenId t)))
                     (\<lambda>e. if e \<noteq> ErrNotFound then fail (GStore e) else ret ()) ret"
  obtain q wq where q: "on_store (DeleteAccessToken (oo_Store opts) (rt_AccessTokenId t)) w2 = (q, wq)" by fastforce
  note d = on_store_exact [OF q st(7) rel(8) 2(2)]
  let ?w3 = "if rt_AccessTokenId t \<noteq> '''' then wq else w2"
  have del: "(if rt_AccessTokenId t \<noteq> '''' then ?del else ret ()) w2 = (Inr (), ?w3)"
    using d by (auto simp: handle_def q delete_spec_def fail_def ret_def split: if_splits)
  have 3: "I (w_store ?w3)" "tb_refreshTokens (view (w_store ?w3)) = tb_refreshTokens (view (w_store w))"
    "ran (tb_accessTokens (view (w_store ?w3))) \<subseteq> ran (tb_accessTokens (view (w_store w)))"
    "dom (tb_accessTokens (view (w_store ?w3))) \<subseteq> dom (tb_accessTokens (view (w_store w)))"
    "w_pos ?w3 = w_pos w" "w_random ?w3 = w_random w"
    using d 2 on_store_frame [OF q] by (auto simp: delete_spec_def ran_def split: if_splits)
  have tp: "tape ?w3 p n = tape w p n" for p n using 3(6) by (simp add: tape_def)
  note f = assms(12) [unfolded freshTokens_def]
  have f3: "NewId_of (tape ?w3 (w_pos ?w3) 16) \<notin> dom (tb_accessTokens (view (w_store ?w3)))"
    "HashToken (oo_Lib opts) (RandomToken_of (tape ?w3 (w_pos ?w3 + 16) 32)) \<notin> at_TokenHash ` ran (tb_accessTokens (view (w_store ?w3)))"
    unfolding tp 3(5) using f 3(3,4) by blast+
  from createAccessToken_exact [OF assms(1) 3(1) f3] obtain a v w4 where
    4: "createAccessToken opts (tq_Client req) (Some u) scopes (rt_AuthorizationCodeId t) ?w3 = (Inr (a, v), w4)"
      "w_pos w4 = w_pos w + 48" "w_random w4 = w_random w" using 3(5,6) by metis
  note a = createAccessToken_ok [OF 4(1) 3(1)]
  have tp4: "tape w4 p n = tape w p n" for p n using 4(3) by (simp add: tape_def)
  have i4: "I (w_store w4)" and rt4: "tb_refreshTokens (view (w_store w4)) = tb_refreshTokens (view (w_store w))"
    using a 3(2) by simp_all
  have t4: "tb_refreshTokens (view (w_store w4)) (rt_Id t) = Some t"
    "NewId_of (tape w4 (w_pos w4) 16) \<notin> dom (tb_refreshTokens (view (w_store w4)))"
    "HashToken (oo_Lib opts) (RandomToken_of (tape w4 (w_pos w4 + 16) 32)) \<notin> rt_TokenHash ` ran (tb_refreshTokens (view (w_store w4)))"
    unfolding tp4 rt4 4(2) using assms(3) f by (simp_all add: add.commute add.left_commute)
  let ?v = "if rt_TokenUsage t = RefreshTokenUsageOneTime then RandomToken_of (tape w (w_pos w + 64) 32) else ''''"
  have "w_pos w + 48 + 16 = w_pos w + 64" by simp
  from renewRefreshToken_exact [OF i4 t4, of a ?now, unfolded tp4 4(2) this] obtain w5 where
    5: "renewRefreshToken opts t a ?now w4 = (Inr ?v, w5)" by blast
  have us: "(if rt_UserId t \<noteq> '''' then andThen (lookupUser opts (rt_UserId t)) (\<lambda>u. ret (Some u)) else ret None) ?w1 = (Inr (Some u), w2)"
    using uid 2(1) by (simp add: andThen_def ret_def)
  have "\<exists>resp. refreshTokenGrant opts req w = (Inr resp, w5) \<and> tr_RefreshToken resp = ?v"
    using assms(8,9)
    by (simp only: refreshTokenGrant_def run_param [OF assms(4)] run_param [OF assms(6)] run_param [OF assms(7)]
        run_call r e1(1) run_clock now andThen_Inr us del 4(1) 5 prod.case simp_thms if_False run_ret) (rule exI, rule conjI, rule refl, simp only: TokenResponse.simps)
  then show ?thesis by blast
qed

lemma passwordGrant_exact:
  assumes "oo_TokenGenerator opts = OpaqueTokenGenerator" and "I (w_store w)"
    and "RequiredParam (tq_Form req) ''username'' = Inr username" and "RequiredParam (tq_Form req) ''password'' = Inr password"
    and "Param (tq_Form req) ''scope'' = Inr scope" and "resolveScopes (tq_Client req) scope = Inr scopes"
    and "account_Authenticate (oo_Accounts opts) username password w = (Inr u, w1)"
    and "freshTokens (oo_Lib opts) (view (w_store w1)) w1"
  shows "\<exists>resp w'. passwordGrant opts req w = (Inr resp, w')"
proof -
  have "I (w_store w1)" using preservesD [OF keep_Authenticate assms(7)] assms(2) by simp
  from IssueTokens_exact [OF assms(1) this assms(8)] obtain resp w' where
    "IssueTokens opts (tq_Client req) (Some u) scopes \<lparr>io_RefreshToken = True, io_AuthorizationCodeId = ''''\<rparr> w1 = (Inr resp, w')" by blast
  then have "passwordGrant opts req w = (Inr resp, w')"
    by (simp only: passwordGrant_def run_param [OF assms(3)] run_param [OF assms(4)] run_param [OF assms(5)]
        run_param [OF assms(6)] run_call assms(7))
  then show ?thesis by blast
qed

lemma clientCredentialsGrant_exact:
  assumes "oo_TokenGenerator opts = OpaqueTokenGenerator" and "I (w_store w)" and "\<not> client_IsPublic (tq_Client req)"
    and "Param (tq_Form req) ''scope'' = Inr scope" and "resolveScopes (tq_Client req) scope = Inr scopes"
    and "freshTokens (oo_Lib opts) (view (w_store w)) w"
  shows "\<exists>resp w'. clientCredentialsGrant opts req w = (Inr resp, w')"
  using IssueTokens_exact [OF assms(1,2,6)] assms(3)
  by (simp only: clientCredentialsGrant_def run_param [OF assms(4)] run_param [OF assms(5)] simp_thms if_False)

end

end
