(* ===== verification/OAuthSamples.thy ===== *)
theory OAuthSamples
  imports TokenLiveness
begin

text \<open>
  A sample authorization server with an account, a public and a confidential client, a code and tokens, and the
  evaluation of the grants on it, for the closed instances of the properties.
\<close>

section \<open>A sample server\<close>

definition sample_oauth :: "mem oauth_options" where
  "sample_oauth =
     \<lparr>oo_Store = memory_ops (\<lambda>x. x), oo_Accounts = sample_account, oo_Hasher = sample_hasher, oo_Interaction = None,
      oo_Issuer = ''https://id'', oo_BasePath = '''', oo_TokenGenerator = OpaqueTokenGenerator,
      oo_ScopesSupported = [], oo_Lib = sample_lib\<rparr>"

definition sample_pkce_code :: authorization_code where
  "sample_pkce_code = sample_code\<lparr>ac_Id := ''k2'', ac_CodeHash := HashToken sample_lib ''code'',
     ac_CodeChallenge := replicate 43 CHR ''v'', ac_CodeChallengeMethod := ''plain''\<rparr>"

definition sample_refresh_token :: refresh_token where
  "sample_refresh_token =
     \<lparr>rt_Id = ''r-1'', rt_TokenHash = HashToken sample_lib ''rtok'', rt_ClientId = ''c-1'', rt_UserId = ''u-1'',
      rt_AccessTokenId = ''a-1'', rt_AuthorizationCodeId = ''k0'', rt_Scopes = [''a'', ''b''],
      rt_TokenExpiration = ''absolute'', rt_TokenUsage = ''onetime'', rt_Lifetime = hour,
      rt_CreatedAt = 0, rt_UpdatedAt = 0, rt_ExpiresAt = hour\<rparr>"

definition sample_confidential :: client where
  "sample_confidential = sample_client\<lparr>c_Id := ''c-2'', c_ClientId := ''svc'', c_Type := ''confidential'',
     c_SecretHash := ''hsecret'', c_AllowedGrantTypes := [''client_credentials'', ''password''], c_RequireConsent := False\<rparr>"

definition sample_server_world :: "mem world" where
  "sample_server_world = sample_world
     \<lparr>w_store := (w_store sample_world)\<lparr>m_clients := [(''c-1'', sample_client), (''c-2'', sample_confidential)],
        m_authorizationCodes := [(''k2'', sample_pkce_code)], m_refreshTokens := [(''r-1'', sample_refresh_token)]\<rparr>\<rparr>"

definition sample_token_request :: TokenRequest where
  "sample_token_request =
     \<lparr>tq_Client = sample_client, tq_GrantType = ''authorization_code'',
      tq_Form = [(''code'', [''code'']), (''redirect_uri'', [''app:/cb'']), (''code_verifier'', [replicate 43 CHR ''v'']),
                 (''refresh_token'', [''rtok'']), (''scope'', [''b'']), (''username'', [''ALICE'']), (''password'', [''password1''])],
      tq_HTTPRequest = \<lparr>r_Method = ''POST'', r_ContentType = form_type, r_Authorization = '''', r_ParseForm = None, r_Query = [], r_FailedForm = [],
      r_CSRFHeader = '''', r_Cookies = []\<rparr>\<rparr>"

lemma sample_oauth_memory: "oauth_on_memory (\<lambda>x. x) sample_oauth = sample_oauth"
  by (simp add: sample_oauth_def sample_account_memory)

lemma sample_hash_neq: "HashToken sample_lib ''rtok'' \<noteq> HashToken sample_lib ''atok''"
  by code_simp

lemma sample_server_inv: "mem_inv (w_store sample_server_world)"
  unfolding mem_inv_def tables_ok_def mem_view_def tables.simps
  by (intro conjI sample_inv_intros) (simp_all add: sample_server_world_def sample_world_def sample_mem_def mem_New_def
      sample_client_def sample_confidential_def sample_user_def sample_access_token_def sample_reset_token_def
      sample_pkce_code_def sample_code_def sample_refresh_token_def)

lemma sample_fresh: "freshTokens sample_lib (mem_view (w_store sample_server_world)) sample_server_world"
proof -
  have tp: "tape sample_server_world p n = map (\<lambda>i. word_of_nat (p + i)) [0..<n]" for p n
    by (simp add: tape_def sample_server_world_def sample_world_def)
  have id: "NewId_of (map (\<lambda>i. word_of_nat (p + i)) [0..<16]) \<notin> {''a-1'', ''r-1''}" for p
    using NewId_shape(1) [of "map (\<lambda>i. word_of_nat (p + i)) [0..<16]"] by auto
  have h: "HashToken sample_lib (RandomToken_of (map (\<lambda>i. word_of_nat (16 + i)) [0..<32])) \<noteq> HashToken sample_lib ''atok''"
    "HashToken sample_lib (RandomToken_of (map (\<lambda>i. word_of_nat (64 + i)) [0..<32])) \<noteq> HashToken sample_lib ''rtok''"
    by code_simp+
  show ?thesis
    using id [of 0] id [of 48] h
    by (simp add: freshTokens_def tp)
       (simp add: sample_server_world_def sample_world_def mem_defs sample_access_token_def sample_refresh_token_def)
qed

lemma checkCode_None:
  "checkCode lib c code now redirectUri verifier = None \<longleftrightarrow>
     now < ac_ExpiresAt code
     \<and> (if ac_RedirectUri code \<noteq> '''' then redirectUri = ac_RedirectUri code
        else redirectUri = '''' \<or> redirectUri \<in> set (c_RedirectUris c))
     \<and> (if ac_CodeChallenge code \<noteq> ''''
        then verifier \<noteq> '''' \<and> VerifyCodeChallenge lib (ac_CodeChallenge code) (ac_CodeChallengeMethod code) verifier
        else verifier = '''')"
  by (auto simp: checkCode_def code_HasExpired_def code_ValidateRedirectUri_def)

text \<open>The four grants on the sample server succeed.\<close>

lemma sample_store: "oo_Store sample_oauth = memory_ops (\<lambda>x. x)" "oo_Lib sample_oauth = sample_lib"
  "oo_TokenGenerator sample_oauth = OpaqueTokenGenerator" "oo_Accounts sample_oauth = sample_account"
  by (simp_all add: sample_oauth_def)

lemma sample_params:
  "RequiredParam (tq_Form sample_token_request) ''code'' = Inr ''code''"
  "RequiredParam (tq_Form sample_token_request) ''refresh_token'' = Inr ''rtok''"
  "Param (tq_Form sample_token_request) ''redirect_uri'' = Inr ''app:/cb''"
  "Param (tq_Form sample_token_request) ''code_verifier'' = Inr (replicate 43 CHR ''v'')"
  "Param (tq_Form sample_token_request) ''scope'' = Inr ''b''"
  by (simp_all add: RequiredParam_def Param_def sample_token_request_def values_get_def)

lemma sample_check:
  "checkCode sample_lib (tq_Client sample_token_request) sample_pkce_code 0 ''app:/cb'' (replicate 43 CHR ''v'') = None"
  "refreshScopes (tq_Client sample_token_request) sample_refresh_token ''b'' = Inr [''b'']"
  by code_simp+

lemma sample_tables:
  "tb_authorizationCodes (mem_view (w_store sample_server_world)) ''k2'' = Some sample_pkce_code"
  "tb_refreshTokens (mem_view (w_store sample_server_world)) ''r-1'' = Some sample_refresh_token"
  "tb_users (mem_view (w_store sample_server_world)) ''u-1'' = Some sample_user"
  "truncate_ms (w_clock sample_server_world (w_ticks sample_server_world)) = 0"
  "account_CanSignIn sample_account sample_user = None"
  by (simp_all add: mem_view_def sample_server_world_def sample_world_def truncate_ms_def account_CanSignIn_def
      sample_user_def)

lemma sample_fields:
  "ac_Id sample_pkce_code = ''k2''" "ac_CodeHash sample_pkce_code = HashToken sample_lib ''code''"
  "ac_ClientId sample_pkce_code = ''c-1''" "ac_UserId sample_pkce_code = ''u-1''" "\<not> IsConsumed sample_pkce_code"
  "rt_Id sample_refresh_token = ''r-1''" "rt_TokenHash sample_refresh_token = HashToken sample_lib ''rtok''"
  "rt_ClientId sample_refresh_token = ''c-1''" "rt_UserId sample_refresh_token = ''u-1''"
  "\<not> refresh_token_HasExpired sample_refresh_token 0" "c_Id (tq_Client sample_token_request) = ''c-1''"
  by (simp_all add: sample_pkce_code_def sample_code_def sample_refresh_token_def IsConsumed_def
      refresh_token_HasExpired_def sample_token_request_def sample_client_def)

lemma sample_exchange: "\<exists>resp w'. authorizationCodeGrant sample_oauth sample_token_request sample_server_world = (Inr resp, w')"
  by (rule srv.code_exchange_exact [where ul = "\<lambda>x. x" and opts = sample_oauth, unfolded sample_oauth_memory, unfolded sample_store, where code = sample_pkce_code and u = sample_user and codeValue = "''code''"
        and redirectUri = "''app:/cb''" and verifier = "replicate 43 CHR ''v''"])
    (simp_all only: sample_params sample_check sample_fresh sample_server_inv
        sample_tables sample_fields not_False_eq_True)

lemma sample_refresh: "\<exists>resp w'. refreshTokenGrant sample_oauth sample_token_request sample_server_world = (Inr resp, w')
     \<and> tr_RefreshToken resp = RandomToken_of (tape sample_server_world (w_pos sample_server_world + 64) 32)"
proof -
  have one: "rt_TokenUsage sample_refresh_token = RefreshTokenUsageOneTime" by (simp add: sample_refresh_token_def)
  show ?thesis
  by (rule srv.refresh_exchange_exact [where ul = "\<lambda>x. x" and opts = sample_oauth and t = sample_refresh_token, unfolded sample_oauth_memory,
        unfolded sample_store if_P [OF one], where u = sample_user and tokenValue = "''rtok''"
        and scope = "''b''" and scopes = "[''b'']"])
    (simp_all only: sample_params sample_check sample_fresh sample_server_inv
        sample_tables sample_fields not_False_eq_True)
qed

text \<open>Requests of the confidential client.\<close>

definition sample_form :: url_values where
  "sample_form = [(''client_id'', [''svc'']), (''client_secret'', [''secret'']), (''grant_type'', [''client_credentials'']),
     (''username'', [''ALICE'']), (''password'', [''password1''])]"

definition sample_http :: http_request where
  "sample_http = \<lparr>r_Method = ''POST'', r_ContentType = form_type, r_Authorization = '''', r_ParseForm = Some (sample_form, sample_form), r_Query = [], r_FailedForm = [],
      r_CSRFHeader = '''', r_Cookies = []\<rparr>"

definition sample_client_request :: TokenRequest where
  "sample_client_request =
     \<lparr>tq_Client = sample_confidential, tq_GrantType = ''client_credentials'', tq_Form = sample_form, tq_HTTPRequest = sample_http\<rparr>"

lemma sample_client_params:
  "RequiredParam (tq_Form sample_client_request) ''username'' = Inr ''ALICE''"
  "RequiredParam (tq_Form sample_client_request) ''password'' = Inr ''password1''"
  "Param (tq_Form sample_client_request) ''scope'' = Inr ''''"
  "resolveScopes (tq_Client sample_client_request) '''' = Inr [''a'']"
  "\<not> client_IsPublic (tq_Client sample_client_request)"
  by (simp_all add: RequiredParam_def Param_def sample_client_request_def sample_form_def values_get_def resolveScopes_def
      sample_confidential_def sample_client_def client_IsPublic_def)

lemma sample_client_credentials: "\<exists>resp w'. clientCredentialsGrant sample_oauth sample_client_request sample_server_world = (Inr resp, w')"
  by (rule srv.clientCredentialsGrant_exact [where ul = "\<lambda>x. x" and opts = sample_oauth, unfolded sample_oauth_memory,
        unfolded sample_store, where scope = "''''" and scopes = "[''a'']"])
    (simp_all only: sample_client_params sample_fresh sample_server_inv not_False_eq_True)

definition sample_logged_in :: user where
  "sample_logged_in = sample_user\<lparr>u_LastLoginAt := Some 0\<rparr>"

lemma sample_authenticate:
  "account_Authenticate sample_account ''ALICE'' ''password1'' sample_server_world =
     (Inr sample_logged_in, sample_server_world\<lparr>w_ticks := 1,
        w_store := (w_store sample_server_world)\<lparr>m_users := [(''u-1'', sample_logged_in)]\<rparr>\<rparr>)"
  by (simp add: account_Authenticate_def account_FindUser_def sample_login IsLockedOut_def run_defs sample_defs
      sample_server_world_def sample_logged_in_def)

lemma sample_password: "\<exists>resp w'. passwordGrant sample_oauth sample_client_request sample_server_world = (Inr resp, w')"
proof -
  have "freshTokens sample_lib (mem_view (w_store (sample_server_world\<lparr>w_ticks := 1,
        w_store := (w_store sample_server_world)\<lparr>m_users := [(''u-1'', sample_logged_in)]\<rparr>\<rparr>)))
      (sample_server_world\<lparr>w_ticks := 1, w_store := (w_store sample_server_world)\<lparr>m_users := [(''u-1'', sample_logged_in)]\<rparr>\<rparr>)"
    using sample_fresh by (simp add: freshTokens_def)
  then show ?thesis
    by (rule srv.passwordGrant_exact [where ul = "\<lambda>x. x" and opts = sample_oauth, unfolded sample_oauth_memory,
        unfolded sample_store, rotated -1, where username = "''ALICE''" and password = "''password1''"
        and scope = "''''" and scopes = "[''a'']"])
      (simp_all only: sample_client_params sample_server_inv sample_authenticate)
qed

text \<open>Client authentication and the token endpoint.\<close>

lemma sample_client_auth:
  "\<exists>w'. AuthenticateClient sample_oauth sample_http sample_form sample_server_world = (Inr sample_confidential, w')"
  by (simp add: AuthenticateClient_def lift_def basicCredentials_def Param_def sample_form_def sample_http_def values_get_def
      sample_server_world_def sample_oauth_def mem_GetClientByClientId_def sample_confidential_def sample_client_def
      client_IsPublic_def sample_hasher_def run_defs)

end
