(* ===== verification/TokenProperties.thy ===== *)
theory TokenProperties
  imports OAuthSamples
begin

text \<open>
  The properties of the token endpoint on the in-memory store, with their instances on a sample server: what a
  successful grant needed and did, that exchanges succeed, and that codes and refresh tokens cannot be replayed.
\<close>

section \<open>The authorization code grant\<close>

text \<open>
  C4: an authorization code is exchanged for tokens only by the client it was issued to, unused and unexpired,
  with the redirect URI of the authorization request (or one the client registered, if that request had none)
  and, if the request had a PKCE challenge, with the verifier of it; a verifier for a code without challenge is
  refused. The resource owner is a stored account that may sign in. The exchange consumes the code and adds one
  access token, and one refresh token if the client may use it, for exactly the user and scopes of the code,
  tied to the code; nothing else changes.
\<close>

theorem code_exchange_sound:
  assumes "authorizationCodeGrant (oauth_on_memory ul opts) req w = (Inr resp, w')" and "mem_inv (w_store w)"
  shows "\<exists>codeValue redirectUri verifier code now u.
     RequiredParam (tq_Form req) ''code'' = Inr codeValue \<and> Param (tq_Form req) ''redirect_uri'' = Inr redirectUri
     \<and> Param (tq_Form req) ''code_verifier'' = Inr verifier \<and> now = truncate_ms (w_clock w (w_ticks w))
     \<and> tb_authorizationCodes (mem_view (w_store w)) (ac_Id code) = Some code
     \<and> ac_CodeHash code = HashToken (oo_Lib opts) codeValue \<and> ac_ClientId code = c_Id (tq_Client req)
     \<and> ac_ConsumedAt code = None \<and> now < ac_ExpiresAt code
     \<and> (if ac_RedirectUri code \<noteq> '''' then redirectUri = ac_RedirectUri code
        else redirectUri = '''' \<or> redirectUri \<in> set (c_RedirectUris (tq_Client req)))
     \<and> (if ac_CodeChallenge code \<noteq> ''''
        then VerifyCodeChallenge (oo_Lib opts) (ac_CodeChallenge code) (ac_CodeChallengeMethod code) verifier
        else verifier = '''')
     \<and> tb_users (mem_view (w_store w)) (ac_UserId code) = Some u \<and> account_CanSignIn (oo_Accounts opts) u = None
     \<and> issued (oo_Lib opts) (tq_Client req) (ac_UserId code) (ac_Scopes code) (ac_Id code) True resp
         (tb_authorizationCodes_update (\<lambda>m. m(ac_Id code \<mapsto> code\<lparr>ac_ConsumedAt := Some now\<rparr>)) (mem_view (w_store w)))
         (mem_view (w_store w'))
     \<and> mem_inv (w_store w')"
  using srv.authorizationCodeGrant_ok [OF assms]
  unfolding checkCode_None oauth_options.simps options_memory by (elim exE conjE, intro exI conjI) (assumption | simp split: if_splits)+

theorem code_exchange_sound_witness:
  "\<exists>resp w'. authorizationCodeGrant sample_oauth sample_token_request sample_server_world = (Inr resp, w')
     \<and> mem_inv (w_store sample_server_world) \<and> mem_inv (w_store w')"
proof -
  from sample_exchange obtain resp w' where
    r: "authorizationCodeGrant (oauth_on_memory (\<lambda>x. x) sample_oauth) sample_token_request sample_server_world = (Inr resp, w')"
    unfolding sample_oauth_memory by blast
  from code_exchange_sound [OF r sample_server_inv] have "mem_inv (w_store w')" by blast
  with r sample_server_inv show ?thesis unfolding sample_oauth_memory by blast
qed

text \<open>
  C24: a valid code can be exchanged: if a stored, unused code is presented by its client, every check of it passes
  at the time of the call, its user may sign in, and the next random values are fresh, the grant returns tokens.
\<close>

theorem code_exchange_succeeds:
  assumes "mem_inv (w_store w)" and "tb_authorizationCodes (mem_view (w_store w)) (ac_Id code) = Some code"
    and "ac_ConsumedAt code = None" and "ac_ClientId code = c_Id (tq_Client req)"
    and "RequiredParam (tq_Form req) ''code'' = Inr codeValue" and "ac_CodeHash code = HashToken (oo_Lib opts) codeValue"
    and "Param (tq_Form req) ''redirect_uri'' = Inr redirectUri" and "Param (tq_Form req) ''code_verifier'' = Inr verifier"
    and "checkCode (oo_Lib opts) (tq_Client req) code (truncate_ms (w_clock w (w_ticks w))) redirectUri verifier = None"
    and "tb_users (mem_view (w_store w)) (ac_UserId code) = Some u" and "account_CanSignIn (oo_Accounts opts) u = None"
    and "freshTokens (oo_Lib opts) (mem_view (w_store w)) w"
  shows "\<exists>resp w'. authorizationCodeGrant (oauth_on_memory ul opts) req w = (Inr resp, w')"
  by (rule srv.code_exchange_exact [OF _ assms(1,2) _ assms(5)]) (use assms in \<open>simp_all add: IsConsumed_def\<close>)

theorem code_exchange_succeeds_witness:
  "\<exists>resp w'. authorizationCodeGrant sample_oauth sample_token_request sample_server_world = (Inr resp, w')"
proof -
  have "\<exists>resp w'. authorizationCodeGrant (oauth_on_memory (\<lambda>x. x) sample_oauth) sample_token_request sample_server_world = (Inr resp, w')"
    by (rule code_exchange_succeeds [where code = sample_pkce_code and u = sample_user and codeValue = "''code''"
        and redirectUri = "''app:/cb''" and verifier = "replicate 43 CHR ''v''"])
      (simp_all only: sample_store sample_params sample_check sample_fresh sample_server_inv sample_tables sample_fields,
       simp add: sample_pkce_code_def sample_code_def)
  then show ?thesis unfolding sample_oauth_memory .
qed

text \<open>The tokens of a response are found under their hash only, and carry the code they were issued for.\<close>

lemma issued_parts:
  assumes "issued lib c userId scopes k refresh resp T T'"
  shows "(\<exists>a. tb_accessTokens T' (at_Id a) = Some a \<and> at_TokenHash a = HashToken lib (tr_AccessToken resp)
       \<and> at_AuthorizationCodeId a = k)
     \<and> (tr_RefreshToken resp = '''' \<or> (\<exists>t. tb_refreshTokens T' (rt_Id t) = Some t
       \<and> rt_TokenHash t = HashToken lib (tr_RefreshToken resp) \<and> rt_AuthorizationCodeId t = k))
     \<and> tb_authorizationCodes T' = tb_authorizationCodes T"
proof (cases "refresh \<and> GrantTypeRefreshToken \<in> set (c_AllowedGrantTypes c)")
  case True
  with assms obtain a t where "at_TokenHash a = HashToken lib (tr_AccessToken resp)" "at_AuthorizationCodeId a = k"
    "rt_TokenHash t = HashToken lib (tr_RefreshToken resp)" "rt_AuthorizationCodeId t = k"
    "T' = T\<lparr>tb_accessTokens := (tb_accessTokens T)(at_Id a \<mapsto> a), tb_refreshTokens := (tb_refreshTokens T)(rt_Id t \<mapsto> t)\<rparr>"
    unfolding issued_def if_P [OF True] by blast
  then show ?thesis by (intro conjI disjI2 exI [of _ a] exI [of _ t]) simp_all
next
  case False
  with assms obtain a where "at_TokenHash a = HashToken lib (tr_AccessToken resp)" "at_AuthorizationCodeId a = k"
    "tr_RefreshToken resp = ''''" "T' = tb_accessTokens_update (\<lambda>m. m(at_Id a \<mapsto> a)) T"
    unfolding issued_def if_not_P [OF False] by blast
  then show ?thesis by (intro conjI disjI1 exI [of _ a]) simp_all
qed

lemma unique_ranD:
  "unique_field f m \<Longrightarrow> m k = Some x \<Longrightarrow> y \<in> ran m \<Longrightarrow> f y = f x \<Longrightarrow> y = x"
  unfolding unique_field_def by (metis ranI)

lemma issued_hashes:
  assumes "issued lib c userId scopes k refresh resp T T'" and "tables_ok T'"
  shows "(\<forall>a \<in> ran (tb_accessTokens T'). at_TokenHash a = HashToken lib (tr_AccessToken resp) \<longrightarrow> at_AuthorizationCodeId a = k)
     \<and> (\<forall>t \<in> ran (tb_refreshTokens T'). tr_RefreshToken resp \<noteq> '''' \<and> rt_TokenHash t = HashToken lib (tr_RefreshToken resp)
          \<longrightarrow> rt_AuthorizationCodeId t = k)"
proof -
  from assms(2) have u: "unique_field at_TokenHash (tb_accessTokens T')" "unique_field rt_TokenHash (tb_refreshTokens T')"
    by (simp_all add: tables_ok_def)
  note p = issued_parts [OF assms(1)]
  then obtain a where a: "tb_accessTokens T' (at_Id a) = Some a" "at_TokenHash a = HashToken lib (tr_AccessToken resp)"
    "at_AuthorizationCodeId a = k" by blast
  have 1: "at_AuthorizationCodeId x = k" if "x \<in> ran (tb_accessTokens T')" "at_TokenHash x = HashToken lib (tr_AccessToken resp)" for x
    using unique_ranD [OF u(1) a(1) that(1)] that(2) a(2,3) by simp
  have 2: "rt_AuthorizationCodeId x = k" if "x \<in> ran (tb_refreshTokens T')" "tr_RefreshToken resp \<noteq> ''''"
    "rt_TokenHash x = HashToken lib (tr_RefreshToken resp)" for x
  proof -
    from p that(2) obtain t where t: "tb_refreshTokens T' (rt_Id t) = Some t"
      "rt_TokenHash t = HashToken lib (tr_RefreshToken resp)" "rt_AuthorizationCodeId t = k" by blast
    from unique_ranD [OF u(2) t(1) that(1)] that(3) t(2,3) show ?thesis by simp
  qed
  from 1 2 show ?thesis by blast
qed

text \<open>
  A code that was used, presented once more by its client, is refused, and every access and refresh token that
  was issued for it is deleted (RFC 6749 section 4.1.2); nothing else changes.
\<close>

lemma code_replay_revokes:
  assumes "mem_inv (w_store w)" and "tb_authorizationCodes (mem_view (w_store w)) (ac_Id code) = Some code"
    and "ac_ConsumedAt code \<noteq> None" and "ac_ClientId code = c_Id (tq_Client req)"
    and "RequiredParam (tq_Form req) ''code'' = Inr codeValue" and "ac_CodeHash code = HashToken (oo_Lib opts) codeValue"
    and "Param (tq_Form req) ''redirect_uri'' = Inr redirectUri" and "Param (tq_Form req) ''code_verifier'' = Inr verifier"
  shows "\<exists>w'. authorizationCodeGrant (oauth_on_memory ul opts) req w =
       (Inl (GOAuth (NewError ErrorInvalidGrant ''the authorization code was already used'')), w')
     \<and> mem_inv (w_store w') \<and> mem_view (w_store w') = (mem_view (w_store w))
     \<lparr>tb_accessTokens := keep (\<lambda>t. at_AuthorizationCodeId t \<noteq> ac_Id code) (tb_accessTokens (mem_view (w_store w))),
      tb_refreshTokens := keep (\<lambda>t. rt_AuthorizationCodeId t \<noteq> ac_Id code) (tb_refreshTokens (mem_view (w_store w)))\<rparr>"
proof -
  have "IsConsumed code" using assms(3) by (simp add: IsConsumed_def)
  moreover have "ac_CodeHash code = HashToken (oo_Lib (oauth_on_memory ul opts)) codeValue" using assms(6) by simp
  ultimately show ?thesis by (intro srv.code_replay [OF assms(1,2) _ assms(5) _ assms(7,8,4)])
qed

text \<open>
  C7: replay of a code ends the session it started: after a successful exchange, presenting the same code again
  fails, and then neither the access token nor the refresh token of the first response is stored any more.
\<close>

theorem code_replay_ends_tokens:
  assumes "authorizationCodeGrant (oauth_on_memory ul opts) req w = (Inr resp, w1)" and "mem_inv (w_store w)"
    and "RequiredParam (tq_Form req) ''code'' = Inr codeValue" and "RequiredParam (tq_Form req') ''code'' = Inr codeValue"
    and "Param (tq_Form req') ''redirect_uri'' = Inr redirectUri" and "Param (tq_Form req') ''code_verifier'' = Inr verifier"
    and "c_Id (tq_Client req') = c_Id (tq_Client req)"
  shows "\<exists>e w2. authorizationCodeGrant (oauth_on_memory ul opts) req' w1 = (Inl e, w2)
     \<and> (\<forall>a \<in> ran (tb_accessTokens (mem_view (w_store w2))). at_TokenHash a \<noteq> HashToken (oo_Lib opts) (tr_AccessToken resp))
     \<and> (\<forall>t \<in> ran (tb_refreshTokens (mem_view (w_store w2))). tr_RefreshToken resp \<noteq> '''' \<longrightarrow>
          rt_TokenHash t \<noteq> HashToken (oo_Lib opts) (tr_RefreshToken resp))"
proof -
  let ?opts = "oauth_on_memory ul opts"
  from srv.authorizationCodeGrant_ok [OF assms(1,2)] obtain code u where
    code: "tb_authorizationCodes (mem_view (w_store w)) (ac_Id code) = Some code" "ac_CodeHash code = HashToken (oo_Lib ?opts) codeValue"
      "ac_ClientId code = c_Id (tq_Client req)"
    and is_: "issued (oo_Lib ?opts) (tq_Client req) (ac_UserId code) (ac_Scopes code) (ac_Id code) True resp
         (tb_authorizationCodes_update (\<lambda>m. m(ac_Id code \<mapsto> code\<lparr>ac_ConsumedAt := Some (truncate_ms (w_clock w (w_ticks w)))\<rparr>)) (mem_view (w_store w)))
         (mem_view (w_store w1))" and i: "mem_inv (w_store w1)"
    unfolding assms(3) sum.inject by metis
  let ?c = "code\<lparr>ac_ConsumedAt := Some (truncate_ms (w_clock w (w_ticks w)))\<rparr>"
  have c: "tb_authorizationCodes (mem_view (w_store w1)) (ac_Id ?c) = Some ?c"
    using issued_parts [OF is_] by simp
  have "IsConsumed ?c" "ac_CodeHash ?c = HashToken (oo_Lib ?opts) codeValue" "ac_ClientId ?c = c_Id (tq_Client req')"
    using code assms(7) by (simp_all add: IsConsumed_def)
  from srv.code_replay [OF i c this(1) assms(4) this(2) assms(5,6) this(3)] obtain w2 where
    2: "authorizationCodeGrant ?opts req' w1 = (Inl (invalid_grant ''the authorization code was already used''), w2)"
    and m: "mem_view (w_store w2) = (mem_view (w_store w1))
     \<lparr>tb_accessTokens := keep (\<lambda>t. at_AuthorizationCodeId t \<noteq> ac_Id ?c) (tb_accessTokens (mem_view (w_store w1))),
      tb_refreshTokens := keep (\<lambda>t. rt_AuthorizationCodeId t \<noteq> ac_Id ?c) (tb_refreshTokens (mem_view (w_store w1)))\<rparr>"
    by blast
  have 3: "tb_accessTokens (mem_view (w_store w2)) = keep (\<lambda>t. at_AuthorizationCodeId t \<noteq> ac_Id code) (tb_accessTokens (mem_view (w_store w1)))"
    "tb_refreshTokens (mem_view (w_store w2)) = keep (\<lambda>t. rt_AuthorizationCodeId t \<noteq> ac_Id code) (tb_refreshTokens (mem_view (w_store w1)))"
    unfolding m by simp_all
  note h = issued_hashes [OF is_ memory.view_ok [OF i]]
  then have l: "(\<forall>a \<in> ran (tb_accessTokens (mem_view (w_store w1))). at_TokenHash a = HashToken (oo_Lib opts) (tr_AccessToken resp) \<longrightarrow> at_AuthorizationCodeId a = ac_Id code)
     \<and> (\<forall>t \<in> ran (tb_refreshTokens (mem_view (w_store w1))). tr_RefreshToken resp \<noteq> '''' \<and> rt_TokenHash t = HashToken (oo_Lib opts) (tr_RefreshToken resp)
          \<longrightarrow> rt_AuthorizationCodeId t = ac_Id code)" unfolding oauth_memory .
  show ?thesis
    by (intro exI conjI, rule 2) (use l in \<open>auto simp only: 3 ran_keep\<close>)
qed

theorem code_replay_ends_tokens_witness:
  "\<exists>resp w1 e w2. authorizationCodeGrant sample_oauth sample_token_request sample_server_world = (Inr resp, w1)
     \<and> authorizationCodeGrant sample_oauth sample_token_request w1 = (Inl e, w2)
     \<and> (\<forall>a \<in> ran (tb_accessTokens (mem_view (w_store w2))). at_TokenHash a \<noteq> HashToken sample_lib (tr_AccessToken resp))"
proof -
  from sample_exchange obtain resp w1 where
    r: "authorizationCodeGrant (oauth_on_memory (\<lambda>x. x) sample_oauth) sample_token_request sample_server_world = (Inr resp, w1)"
    unfolding sample_oauth_memory by blast
  from code_replay_ends_tokens [OF r sample_server_inv sample_params(1,1,3,4) refl, unfolded sample_oauth_memory, unfolded sample_store]
    r [unfolded sample_oauth_memory] show ?thesis by blast
qed

text \<open>A world in which the sample code is already consumed.\<close>

definition sample_consumed_world :: "mem world" where
  "sample_consumed_world = sample_server_world\<lparr>w_store := (w_store sample_server_world)
     \<lparr>m_authorizationCodes := [(''k2'', sample_pkce_code\<lparr>ac_ConsumedAt := Some 0\<rparr>)]\<rparr>\<rparr>"

lemma sample_consumed_inv: "mem_inv (w_store sample_consumed_world)"
  unfolding mem_inv_def tables_ok_def mem_view_def tables.simps
  by (intro conjI sample_inv_intros) (simp_all add: sample_consumed_world_def sample_server_world_def sample_world_def
      sample_mem_def mem_New_def sample_client_def sample_confidential_def sample_user_def sample_access_token_def
      sample_reset_token_def sample_pkce_code_def sample_code_def sample_refresh_token_def)

lemma code_replay_revokes_witness:
  "\<exists>e w'. authorizationCodeGrant sample_oauth sample_token_request sample_consumed_world = (Inl e, w')
     \<and> tb_refreshTokens (mem_view (w_store w')) ''r-1'' = Some sample_refresh_token"
proof -
  let ?c = "sample_pkce_code\<lparr>ac_ConsumedAt := Some 0\<rparr>"
  have t: "tb_authorizationCodes (mem_view (w_store sample_consumed_world)) (ac_Id ?c) = Some ?c"
    "tb_refreshTokens (mem_view (w_store sample_consumed_world)) ''r-1'' = Some sample_refresh_token"
    by (simp_all add: mem_view_def sample_consumed_world_def sample_server_world_def sample_world_def sample_pkce_code_def sample_code_def)
  have f: "ac_ConsumedAt ?c \<noteq> None" "ac_ClientId ?c = c_Id (tq_Client sample_token_request)"
    "ac_CodeHash ?c = HashToken (oo_Lib sample_oauth) ''code''"
    by (simp_all add: sample_fields sample_store)
  from code_replay_revokes [OF sample_consumed_inv t(1) f(1,2) sample_params(1) f(3) sample_params(3,4), of "\<lambda>x. x"]
  obtain e w' where r: "authorizationCodeGrant sample_oauth sample_token_request sample_consumed_world = (Inl e, w')"
    and m: "mem_view (w_store w') = (mem_view (w_store sample_consumed_world))
     \<lparr>tb_accessTokens := keep (\<lambda>t. at_AuthorizationCodeId t \<noteq> ac_Id ?c) (tb_accessTokens (mem_view (w_store sample_consumed_world))),
      tb_refreshTokens := keep (\<lambda>t. rt_AuthorizationCodeId t \<noteq> ac_Id ?c) (tb_refreshTokens (mem_view (w_store sample_consumed_world)))\<rparr>"
    unfolding sample_oauth_memory by blast
  have v: "tb_refreshTokens (mem_view (w_store w')) = keep (\<lambda>t. rt_AuthorizationCodeId t \<noteq> ''k2'')
      (tb_refreshTokens (mem_view (w_store sample_consumed_world)))"
    unfolding m by (simp add: sample_fields)
  have "rt_AuthorizationCodeId sample_refresh_token \<noteq> ''k2''" by (simp add: sample_refresh_token_def)
  with t(2) have "tb_refreshTokens (mem_view (w_store w')) ''r-1'' = Some sample_refresh_token" unfolding v keep_Some by blast
  with r show ?thesis by blast
qed

section \<open>The refresh token grant\<close>

text \<open>
  C8: a refresh token gives tokens only to the client it was issued to, before it expires, while its resource
  owner may sign in, and never more scope than it has: the new access token has the scopes asked for, which are
  among those of the refresh token and those still allowed for the client. The previous access token is replaced.
  A one-time token is deleted and replaced by one with the same client, user, code, scopes and policy (an absolute
  expiry is inherited, so rotation cannot extend it); a reusable token is kept and linked to the new access token.
\<close>

theorem refresh_exchange_sound:
  assumes "refreshTokenGrant (oauth_on_memory ul opts) req w = (Inr resp, w')" and "mem_inv (w_store w)"
  shows "\<exists>tokenValue t now scopes a.
     RequiredParam (tq_Form req) ''refresh_token'' = Inr tokenValue \<and> now = truncate_ms (w_clock w (w_ticks w))
     \<and> tb_refreshTokens (mem_view (w_store w)) (rt_Id t) = Some t \<and> rt_TokenHash t = HashToken (oo_Lib opts) tokenValue
     \<and> rt_ClientId t = c_Id (tq_Client req) \<and> now < rt_ExpiresAt t
     \<and> set scopes \<subseteq> set (rt_Scopes t) \<and> set scopes \<subseteq> set (c_AllowedScopes (tq_Client req))
     \<and> (rt_UserId t \<noteq> '''' \<longrightarrow> (\<exists>u. tb_users (mem_view (w_store w)) (rt_UserId t) = Some u
           \<and> account_CanSignIn (oo_Accounts opts) u = None))
     \<and> at_TokenHash a = HashToken (oo_Lib opts) (tr_AccessToken resp) \<and> at_ClientId a = c_Id (tq_Client req)
     \<and> at_UserId a = rt_UserId t \<and> at_Scopes a = scopes \<and> at_AuthorizationCodeId a = rt_AuthorizationCodeId t
     \<and> tb_accessTokens (mem_view (w_store w')) =
         ((tb_accessTokens (mem_view (w_store w)))(rt_AccessTokenId t := None))(at_Id a \<mapsto> a)
     \<and> renewed (oo_Lib opts) t a now (tr_RefreshToken resp)
         (tb_refreshTokens (mem_view (w_store w))) (tb_refreshTokens (mem_view (w_store w')))
     \<and> mem_inv (w_store w')"
proof -
  from srv.refreshTokenGrant_ok [OF assms, unfolded oauth_memory options_memory] obtain tokenValue scope t scopes a where
    r: "RequiredParam (tq_Form req) ''refresh_token'' = Inr tokenValue"
      "tb_refreshTokens (mem_view (w_store w)) (rt_Id t) = Some t" "rt_TokenHash t = HashToken (oo_Lib opts) tokenValue"
      "rt_ClientId t = c_Id (tq_Client req)" "\<not> refresh_token_HasExpired t (truncate_ms (w_clock w (w_ticks w)))"
      "(rt_UserId t \<noteq> '''' \<longrightarrow> (\<exists>u. tb_users (mem_view (w_store w)) (rt_UserId t) = Some u
           \<and> account_CanSignIn (oo_Accounts opts) u = None))"
      "at_TokenHash a = HashToken (oo_Lib opts) (tr_AccessToken resp)" "at_ClientId a = c_Id (tq_Client req)"
      "at_UserId a = rt_UserId t" "at_Scopes a = scopes" "at_AuthorizationCodeId a = rt_AuthorizationCodeId t"
      "tb_accessTokens (mem_view (w_store w')) =
         ((tb_accessTokens (mem_view (w_store w)))(rt_AccessTokenId t := None))(at_Id a \<mapsto> a)"
      "renewed (oo_Lib opts) t a (truncate_ms (w_clock w (w_ticks w))) (tr_RefreshToken resp)
         (tb_refreshTokens (mem_view (w_store w))) (tb_refreshTokens (mem_view (w_store w')))"
      "mem_inv (w_store w')"
    and sc: "refreshScopes (tq_Client req) t scope = Inr scopes" by metis
  from srv.refreshScopes_ok [OF sc] have "set scopes \<subseteq> set (rt_Scopes t)" "set scopes \<subseteq> set (c_AllowedScopes (tq_Client req))" by simp_all
  moreover have "truncate_ms (w_clock w (w_ticks w)) < rt_ExpiresAt t" using r(5) by (simp add: refresh_token_HasExpired_def)
  ultimately show ?thesis using r by blast
qed

theorem refresh_exchange_sound_witness:
  "\<exists>resp w'. refreshTokenGrant sample_oauth sample_token_request sample_server_world = (Inr resp, w')
     \<and> mem_inv (w_store sample_server_world) \<and> mem_inv (w_store w')"
proof -
  from sample_refresh obtain resp w' where
    r: "refreshTokenGrant (oauth_on_memory (\<lambda>x. x) sample_oauth) sample_token_request sample_server_world = (Inr resp, w')"
    unfolding sample_oauth_memory by blast
  from refresh_exchange_sound [OF r sample_server_inv] have "mem_inv (w_store w')" by blast
  with r sample_server_inv show ?thesis unfolding sample_oauth_memory by blast
qed

text \<open>
  A valid refresh token can be used: presented by its client before it expires, for a scope it covers, while
  its user may sign in, and with fresh random values, it gives new tokens.
\<close>

lemma refresh_exchange_succeeds:
  assumes "mem_inv (w_store w)" and "tb_refreshTokens (mem_view (w_store w)) (rt_Id t) = Some t"
    and "RequiredParam (tq_Form req) ''refresh_token'' = Inr tokenValue" and "rt_TokenHash t = HashToken (oo_Lib opts) tokenValue"
    and "Param (tq_Form req) ''scope'' = Inr scope" and "refreshScopes (tq_Client req) t scope = Inr scopes"
    and "rt_ClientId t = c_Id (tq_Client req)" and "truncate_ms (w_clock w (w_ticks w)) < rt_ExpiresAt t"
    and "tb_users (mem_view (w_store w)) (rt_UserId t) = Some u" and "account_CanSignIn (oo_Accounts opts) u = None"
    and "freshTokens (oo_Lib opts) (mem_view (w_store w)) w"
  shows "\<exists>resp w'. refreshTokenGrant (oauth_on_memory ul opts) req w = (Inr resp, w')"
  using srv.refresh_exchange_exact [OF _ assms(1,2,3) _ assms(5,6,7) _ assms(9)] assms
  by (simp add: refresh_token_HasExpired_def) blast

lemma refresh_exchange_succeeds_witness:
  "\<exists>resp w'. refreshTokenGrant sample_oauth sample_token_request sample_server_world = (Inr resp, w')"
proof -
  have "\<exists>resp w'. refreshTokenGrant (oauth_on_memory (\<lambda>x. x) sample_oauth) sample_token_request sample_server_world = (Inr resp, w')"
    by (rule refresh_exchange_succeeds [where t = sample_refresh_token and u = sample_user and tokenValue = "''rtok''"
        and scope = "''b''" and scopes = "[''b'']"])
      (simp_all only: sample_store sample_params sample_check sample_fresh sample_server_inv sample_tables sample_fields,
       simp add: sample_refresh_token_def)
  then show ?thesis unfolding sample_oauth_memory .
qed

text \<open>
  C9: a one-time refresh token works once: after it was used, a second use of the same value is refused and
  changes nothing, unless the hash of the new random token happens to be the same.
\<close>

theorem refresh_single_use:
  assumes "refreshTokenGrant (oauth_on_memory ul opts) req w = (Inr resp, w1)" and "mem_inv (w_store w)"
    and "RequiredParam (tq_Form req) ''refresh_token'' = Inr tokenValue"
    and "\<forall>t \<in> ran (tb_refreshTokens (mem_view (w_store w))). rt_TokenHash t = HashToken (oo_Lib opts) tokenValue \<longrightarrow>
           rt_TokenUsage t = RefreshTokenUsageOneTime"
    and "HashToken (oo_Lib opts) (tr_RefreshToken resp) \<noteq> HashToken (oo_Lib opts) tokenValue"
    and "RequiredParam (tq_Form req') ''refresh_token'' = Inr tokenValue" and "Param (tq_Form req') ''scope'' = Inr scope"
  shows "\<exists>w2. refreshTokenGrant (oauth_on_memory ul opts) req' w1 =
       (Inl (GOAuth (NewError ErrorInvalidGrant ''the refresh token is invalid'')), w2)
     \<and> mem_view (w_store w2) = mem_view (w_store w1)"
  by (rule srv.refresh_replay [OF assms(1-3) _ _ assms(6,7)]) (use assms(4,5) in simp_all)

theorem refresh_single_use_witness:
  "\<exists>resp w1 e w2. refreshTokenGrant sample_oauth sample_token_request sample_server_world = (Inr resp, w1)
     \<and> refreshTokenGrant sample_oauth sample_token_request w1 = (Inl e, w2)"
proof -
  from sample_refresh obtain resp w1 where
    r: "refreshTokenGrant (oauth_on_memory (\<lambda>x. x) sample_oauth) sample_token_request sample_server_world = (Inr resp, w1)"
    and v: "tr_RefreshToken resp = RandomToken_of (tape sample_server_world (w_pos sample_server_world + 64) 32)"
    unfolding sample_oauth_memory by blast
  have rn: "sample_refresh_token \<in> ran (tb_refreshTokens (mem_view (w_store sample_server_world)))"
    using sample_tables(2) by (rule ranI)
  have ne: "HashToken (oo_Lib sample_oauth) (tr_RefreshToken resp) \<noteq> HashToken (oo_Lib sample_oauth) ''rtok''"
    using sample_fresh rn sample_fields(7) unfolding freshTokens_def v sample_store by (metis imageI)
  have one: "\<forall>t \<in> ran (tb_refreshTokens (mem_view (w_store sample_server_world))). rt_TokenHash t = HashToken (oo_Lib sample_oauth) ''rtok'' \<longrightarrow>
           rt_TokenUsage t = RefreshTokenUsageOneTime"
    by (simp add: mem_view_def sample_server_world_def sample_refresh_token_def)
  from refresh_single_use [OF r sample_server_inv sample_params(2) one ne sample_params(2,5)] r
  show ?thesis unfolding sample_oauth_memory by blast
qed

section \<open>The password and client credentials grants\<close>

text \<open>
  The password grant issues tokens only after the account service authenticated the username and password of
  the form: the stored account accepts the password and may sign in. The scopes are ones the client is allowed
  (its default scopes if none are asked for), and the tokens are for that user, tied to no authorization code.
\<close>

theorem password_grant_sound:
  assumes "passwordGrant (oauth_on_memory ul opts) req w = (Inr resp, w')" and "mem_inv (w_store w)"
  shows "\<exists>username password scope scopes u0 u w1.
     RequiredParam (tq_Form req) ''username'' = Inr username \<and> RequiredParam (tq_Form req) ''password'' = Inr password
     \<and> Param (tq_Form req) ''scope'' = Inr scope
     \<and> (if scope = '''' then scopes = c_DefaultScopes (tq_Client req)
        else scopes = ParseScope scope \<and> set scopes \<subseteq> set (c_AllowedScopes (tq_Client req)))
     \<and> account_Authenticate (on_memory ul (oo_Accounts opts)) username password w = (Inr u, w1)
     \<and> tb_users (mem_view (w_store w)) (u_Id u) = Some u0
     \<and> h_Verify (ao_Hasher (oo_Accounts opts)) (u_PasswordHash u0) password = None
     \<and> account_CanSignIn (oo_Accounts opts) u0 = None
     \<and> issued (oo_Lib opts) (tq_Client req) (u_Id u) scopes '''' True resp
         (tb_users_update (\<lambda>m. m(u_Id u \<mapsto> u)) (mem_view (w_store w))) (mem_view (w_store w'))
     \<and> mem_inv (w_store w')"
proof -
  from srv.passwordGrant_ok [OF assms] obtain username password scope scopes u0 u w1 where
    r: "RequiredParam (tq_Form req) ''username'' = Inr username" "RequiredParam (tq_Form req) ''password'' = Inr password"
      "Param (tq_Form req) ''scope'' = Inr scope" "resolveScopes (tq_Client req) scope = Inr scopes"
      "account_Authenticate (on_memory ul (oo_Accounts opts)) username password w = (Inr u, w1)"
      "tb_users (mem_view (w_store w)) (u_Id u) = Some u0"
      "h_Verify (ao_Hasher (oo_Accounts opts)) (u_PasswordHash u0) password = None"
      "account_CanSignIn (oo_Accounts opts) u0 = None"
      "issued (oo_Lib opts) (tq_Client req) (u_Id u) scopes '''' True resp
         (tb_users_update (\<lambda>m. m(u_Id u \<mapsto> u)) (mem_view (w_store w))) (mem_view (w_store w'))" "mem_inv (w_store w')"
    unfolding oauth_memory options_memory by auto
  have sc: "if scope = '''' then scopes = c_DefaultScopes (tq_Client req)
     else scopes = ParseScope scope \<and> set scopes \<subseteq> set (c_AllowedScopes (tq_Client req))"
    using r(4) by (auto simp: resolveScopes_def Let_def split: if_splits)
  show ?thesis
    by (rule exI [of _ username], rule exI [of _ password], rule exI [of _ scope], rule exI [of _ scopes],
        rule exI [of _ u0], rule exI [of _ u], rule exI [of _ w1]) (intro conjI r sc)
qed

theorem password_grant_sound_witness:
  "\<exists>resp w'. passwordGrant sample_oauth sample_client_request sample_server_world = (Inr resp, w')
     \<and> mem_inv (w_store sample_server_world) \<and> mem_inv (w_store w')"
proof -
  from sample_password obtain resp w' where
    r: "passwordGrant (oauth_on_memory (\<lambda>x. x) sample_oauth) sample_client_request sample_server_world = (Inr resp, w')"
    unfolding sample_oauth_memory by blast
  from password_grant_sound [OF r sample_server_inv] have "mem_inv (w_store w')" by blast
  with r sample_server_inv show ?thesis unfolding sample_oauth_memory by blast
qed

text \<open>
  The client credentials grant is for confidential clients only; it issues one access token for no user, with
  scopes the client is allowed, and never a refresh token.
\<close>

theorem client_credentials_sound:
  assumes "clientCredentialsGrant (oauth_on_memory ul opts) req w = (Inr resp, w')" and "mem_inv (w_store w)"
  shows "\<exists>scopes a. \<not> client_IsPublic (tq_Client req)
     \<and> (scopes = c_DefaultScopes (tq_Client req) \<or> set scopes \<subseteq> set (c_AllowedScopes (tq_Client req)))
     \<and> at_TokenHash a = HashToken (oo_Lib opts) (tr_AccessToken resp) \<and> at_ClientId a = c_Id (tq_Client req)
     \<and> at_UserId a = '''' \<and> at_Scopes a = scopes \<and> at_AuthorizationCodeId a = '''' \<and> tr_RefreshToken resp = ''''
     \<and> at_Id a \<notin> dom (tb_accessTokens (mem_view (w_store w)))
     \<and> mem_view (w_store w') = tb_accessTokens_update (\<lambda>m. m(at_Id a \<mapsto> a)) (mem_view (w_store w)) \<and> mem_inv (w_store w')"
proof -
  from srv.clientCredentialsGrant_ok [OF assms] obtain scope scopes where
    r: "\<not> client_IsPublic (tq_Client req)" "resolveScopes (tq_Client req) scope = Inr scopes"
    and i: "issued (oo_Lib opts) (tq_Client req) '''' scopes '''' False resp (mem_view (w_store w)) (mem_view (w_store w'))"
      "mem_inv (w_store w')" unfolding oauth_memory by blast
  have sc: "scopes = c_DefaultScopes (tq_Client req) \<or> set scopes \<subseteq> set (c_AllowedScopes (tq_Client req))"
    using r(2) by (auto simp: resolveScopes_def Let_def split: if_splits)
  from i(1) obtain a where "at_TokenHash a = HashToken (oo_Lib opts) (tr_AccessToken resp)" "at_ClientId a = c_Id (tq_Client req)"
    "at_UserId a = ''''" "at_Scopes a = scopes" "at_AuthorizationCodeId a = ''''" "tr_RefreshToken resp = ''''"
    "at_Id a \<notin> dom (tb_accessTokens (mem_view (w_store w)))"
    "mem_view (w_store w') = tb_accessTokens_update (\<lambda>m. m(at_Id a \<mapsto> a)) (mem_view (w_store w))"
    unfolding issued_def by auto
  with r(1) sc i(2) show ?thesis by blast
qed

theorem client_credentials_sound_witness:
  "\<exists>resp w'. clientCredentialsGrant sample_oauth sample_client_request sample_server_world = (Inr resp, w')
     \<and> mem_inv (w_store sample_server_world) \<and> tr_RefreshToken resp = ''''"
proof -
  from sample_client_credentials obtain resp w' where
    r: "clientCredentialsGrant (oauth_on_memory (\<lambda>x. x) sample_oauth) sample_client_request sample_server_world = (Inr resp, w')"
    unfolding sample_oauth_memory by blast
  from client_credentials_sound [OF r sample_server_inv] have "tr_RefreshToken resp = ''''" by blast
  with r sample_server_inv show ?thesis unfolding sample_oauth_memory by blast
qed

section \<open>Client authentication and the token endpoint\<close>

text \<open>
  C11: client authentication returns only a stored, enabled client with the client id of the request. A confidential
  client gave a secret its hash accepts, in the header or in the form, never in both; a public client gave none.
  Nothing in the store changes.
\<close>

theorem client_authentication_sound:
  assumes "AuthenticateClient (oauth_on_memory ul opts) r form w = (Inr c, w')" and "mem_inv (w_store w)"
  shows "\<exists>id0 secret0 secret basic.
     Param form ''client_id'' = Inr id0 \<and> Param form ''client_secret'' = Inr secret0
     \<and> basicCredentials (oo_Lib opts) (r_Authorization r) id0 secret0 = Inr (c_ClientId c, secret, basic)
     \<and> (if r_Authorization r = '''' then \<not> basic \<and> secret = secret0 \<and> c_ClientId c = id0
        else basic \<and> secret0 = '''' \<and> (id0 = '''' \<or> id0 = c_ClientId c))
     \<and> tb_clients (mem_view (w_store w)) (c_Id c) = Some c \<and> c_Enabled c
     \<and> (if client_IsPublic c then \<not> basic \<and> secret = ''''
        else secret \<noteq> '''' \<and> c_SecretHash c \<noteq> '''' \<and> h_Verify (oo_Hasher opts) (c_SecretHash c) secret = None)
     \<and> mem_view (w_store w') = mem_view (w_store w)"
proof -
  from srv.AuthenticateClient_ok [OF assms, unfolded oauth_memory] obtain id0 secret0 secret basic where
    a: "Param form ''client_id'' = Inr id0" "Param form ''client_secret'' = Inr secret0"
      "basicCredentials (oo_Lib opts) (r_Authorization r) id0 secret0 = Inr (c_ClientId c, secret, basic)"
      "tb_clients (mem_view (w_store w)) (c_Id c) = Some c" "c_Enabled c"
      "if client_IsPublic c then \<not> basic \<and> secret = ''''
        else secret \<noteq> '''' \<and> c_SecretHash c \<noteq> '''' \<and> h_Verify (oo_Hasher opts) (c_SecretHash c) secret = None"
      "mem_view (w_store w') = mem_view (w_store w)" by blast
  have "if r_Authorization r = '''' then \<not> basic \<and> secret = secret0 \<and> c_ClientId c = id0
        else basic \<and> secret0 = '''' \<and> (id0 = '''' \<or> id0 = c_ClientId c)"
    using a(3) by (auto simp: basicCredentials_def split: if_splits option.splits prod.splits)
  with a show ?thesis by blast
qed

theorem client_authentication_sound_witness:
  "\<exists>w'. AuthenticateClient sample_oauth sample_http sample_form sample_server_world = (Inr sample_confidential, w')
     \<and> c_Enabled sample_confidential \<and> mem_view (w_store w') = mem_view (w_store sample_server_world)"
proof -
  from sample_client_auth obtain w' where
    r: "AuthenticateClient (oauth_on_memory (\<lambda>x. x) sample_oauth) sample_http sample_form sample_server_world = (Inr sample_confidential, w')"
    unfolding sample_oauth_memory by blast
  from client_authentication_sound [OF r sample_server_inv] r show ?thesis unfolding sample_oauth_memory by blast
qed

text \<open>The server \<open>New\<close> builds: the options with trimmed paths, and the four grants.\<close>

abbreviation trimmed :: "'s oauth_options \<Rightarrow> 's oauth_options" where
  "trimmed opts \<equiv> opts\<lparr>oo_BasePath := trim_suffix (oo_BasePath opts) ''/'', oo_Issuer := trim_suffix (oo_Issuer opts) ''/''\<rparr>"

lemma NewServer_eq:
  "NewServer opts = \<lparr>sv_opts = trimmed opts,
     sv_grants = [(GrantTypeAuthorizationCode, authorizationCodeGrant (trimmed opts)), (GrantTypePassword, passwordGrant (trimmed opts)),
                  (GrantTypeClientCredentials, clientCredentialsGrant (trimmed opts)), (GrantTypeRefreshToken, refreshTokenGrant (trimmed opts))]\<rparr>"
  by (simp add: NewServer_def server_New_def builtinGrants_def RegisterGrant_def Let_def)

lemma trimmed_memory: "trimmed (oauth_on_memory ul opts) = oauth_on_memory ul (trimmed opts)"
  by simp

lemmas NewServer_memory = NewServer_eq [of "oauth_on_memory ul opts" for ul opts, unfolded trimmed_memory]

text \<open>
  C12: the token endpoint answers with tokens only a POST request whose client authenticated, is enabled and is
  allowed the grant type it names, and then it is one of the four grants that ran for that client with that form,
  in a state of the store that authentication left unchanged.
\<close>

theorem token_endpoint_sound:
  assumes "token (NewServer (oauth_on_memory ul opts)) r w = (Inr resp, w')" and "mem_inv (w_store w)"
  shows "\<exists>form c w1 g. r_Method r = ''POST'' \<and> parsePostForm (oo_Lib opts) r = Inr form
     \<and> AuthenticateClient (oauth_on_memory ul (trimmed opts)) r form w = (Inr c, w1)
     \<and> tb_clients (mem_view (w_store w)) (c_Id c) = Some c \<and> c_Enabled c
     \<and> mem_view (w_store w1) = mem_view (w_store w) \<and> mem_inv (w_store w1)
     \<and> RequiredParam form ''grant_type'' = Inr g \<and> g \<in> set (c_AllowedGrantTypes c)
     \<and> (g, (Inr resp, w')) \<in>
        (\<lambda>(g, h). (g, h \<lparr>tq_Client = c, tq_GrantType = g, tq_Form = form, tq_HTTPRequest = r\<rparr> w1)) `
          {(''authorization_code'', authorizationCodeGrant (oauth_on_memory ul (trimmed opts))),
           (''password'', passwordGrant (oauth_on_memory ul (trimmed opts))),
           (''client_credentials'', clientCredentialsGrant (oauth_on_memory ul (trimmed opts))),
           (''refresh_token'', refreshTokenGrant (oauth_on_memory ul (trimmed opts)))}"
proof -
  let ?s = "NewServer (oauth_on_memory ul opts)" and ?o = "oauth_on_memory ul (trimmed opts)"
  have so: "sv_opts ?s = ?o" unfolding NewServer_memory by (simp only: server.simps)
  from srv.token_ok [OF assms(1) so] obtain form c w1 g h where
    t: "parsePostForm (oo_Lib opts) r = Inr form" "AuthenticateClient ?o r form w = (Inr c, w1)"
      "RequiredParam form ''grant_type'' = Inr g" "map_of (sv_grants ?s) g = Some h" "g \<in> set (c_AllowedGrantTypes c)"
      "h \<lparr>tq_Client = c, tq_GrantType = g, tq_Form = form, tq_HTTPRequest = r\<rparr> w1 = (Inr resp, w')"
    by auto
  from srv.AuthenticateClient_ok [OF t(2) assms(2)] have a: "tb_clients (mem_view (w_store w)) (c_Id c) = Some c" "c_Enabled c"
    "mem_view (w_store w1) = mem_view (w_store w)" "mem_inv (w_store w1)" by blast+
  have "(g, h) \<in> {(''authorization_code'', authorizationCodeGrant ?o), (''password'', passwordGrant ?o),
      (''client_credentials'', clientCredentialsGrant ?o), (''refresh_token'', refreshTokenGrant ?o)}"
    using map_of_SomeD [OF t(4)] unfolding NewServer_memory server.simps by simp
  then have "(g, (Inr resp, w')) \<in>
        (\<lambda>(g, h). (g, h \<lparr>tq_Client = c, tq_GrantType = g, tq_Form = form, tq_HTTPRequest = r\<rparr> w1)) `
          {(''authorization_code'', authorizationCodeGrant ?o), (''password'', passwordGrant ?o),
           (''client_credentials'', clientCredentialsGrant ?o), (''refresh_token'', refreshTokenGrant ?o)}"
    by (rule rev_image_eqI) (simp add: t(6))
  moreover have "r_Method r = ''POST''" using t(1) by (simp add: parsePostForm_def split: if_splits)
  ultimately show ?thesis using t(1-3,5) a by blast
qed

lemma sample_token: "\<exists>resp w'. token (NewServer (oauth_on_memory (\<lambda>x. x) sample_oauth)) sample_http sample_server_world = (Inr resp, w')"
proof -
  have tr: "trimmed sample_oauth = sample_oauth" by (simp add: sample_oauth_def trim_suffix_def has_suffix_def has_prefix_def)
  have p: "parsePostForm (oo_Lib sample_oauth) sample_http = Inr sample_form"
    "RequiredParam sample_form ''grant_type'' = Inr ''client_credentials''"
    "ValidateGrantType sample_confidential ''client_credentials''"
    by (simp_all add: parsePostForm_def sample_http_def sample_oauth_def sample_lib_def form_type_def RequiredParam_def Param_def
        sample_form_def values_get_def sample_confidential_def sample_client_def)
  from sample_client_auth obtain w1 where a: "AuthenticateClient sample_oauth sample_http sample_form sample_server_world = (Inr sample_confidential, w1)" by blast
  from srv.AuthenticateClient_ok [where ul = "\<lambda>x. x" and opts = sample_oauth, unfolded sample_oauth_memory, OF a sample_server_inv]
  have v: "mem_view (w_store w1) = mem_view (w_store sample_server_world)" and i: "mem_inv (w_store w1)" by blast+
  have fr: "w_pos w1 = w_pos sample_server_world" "w_random w1 = w_random sample_server_world"
    using on_store_frame [of "GetClientByClientId (memory_ops (\<lambda>x. x)) ''svc''" sample_server_world]
      srv.AuthenticateClient_ok [where ul = "\<lambda>x. x" and opts = sample_oauth, unfolded sample_oauth_memory, OF a sample_server_inv]
    by (auto simp: sample_store sample_confidential_def)
  have "freshTokens sample_lib (mem_view (w_store w1)) w1" using sample_fresh unfolding freshTokens_def v tape_def fr .
  then have "\<exists>resp w'. clientCredentialsGrant sample_oauth sample_client_request w1 = (Inr resp, w')"
    by (intro srv.clientCredentialsGrant_exact [where ul = "\<lambda>x. x" and opts = sample_oauth, unfolded sample_oauth_memory,
        unfolded sample_store, where scope = "''''" and scopes = "[''a'']"])
      (simp_all only: sample_client_params i not_False_eq_True)
  then obtain resp w' where c: "clientCredentialsGrant sample_oauth sample_client_request w1 = (Inr resp, w')" by blast
  have "token (NewServer sample_oauth) sample_http sample_server_world = (Inr resp, w')"
    using p a c by (simp add: token_def NewServer_eq tr andThen_def mapErr_def handle_def lift_def ret_def sample_client_request_def)
  then show ?thesis unfolding sample_oauth_memory by blast
qed

theorem token_endpoint_sound_witness:
  "\<exists>resp w' form c. token (NewServer sample_oauth) sample_http sample_server_world = (Inr resp, w')
     \<and> mem_inv (w_store sample_server_world) \<and> parsePostForm (oo_Lib sample_oauth) sample_http = Inr form
     \<and> tb_clients (mem_view (w_store sample_server_world)) (c_Id c) = Some c \<and> c_Enabled c"
proof -
  from sample_token obtain resp w' where
    r: "token (NewServer (oauth_on_memory (\<lambda>x. x) sample_oauth)) sample_http sample_server_world = (Inr resp, w')" by blast
  from token_endpoint_sound [OF r sample_server_inv] r sample_server_inv show ?thesis unfolding sample_oauth_memory by blast
qed

text \<open>
  The token endpoint always answers, never to be cached: status 200 with the tokens, or the OAuth error with its
  status (400 if it has none) and, when the client failed to authenticate, the challenge RFC 6749 asks for.
\<close>

lemma token_response_shape:
  "\<exists>p w'. HandleToken s r w = (Inr p, w') \<and> (''Cache-Control'', ''no-store'') \<in> set (p_Headers p)
     \<and> (case token s r w of
          (Inr resp, w1) \<Rightarrow> w' = w1 \<and> p_Status p = 200 \<and> p_Body p = TokenBody resp
        | (Inl e, w1) \<Rightarrow> w' = w1 \<and> p_Body p = TokenErrorBody e \<and> p_Status p = (if oe_Status e = 0 then 400 else oe_Status e)
            \<and> (oe_Code e = ErrorInvalidClient \<longleftrightarrow> (''WWW-Authenticate'', ''Basic realm=\"oauth\"'') \<in> set (p_Headers p)))"
  by (cases "token s r w" rule: prod.exhaust; cases "fst (token s r w)")
    (auto simp: HandleToken_def handle_def ret_def WriteError_def WriteJSON_def Let_def)

text \<open>
  No request to the token endpoint, whatever the answer, breaks the invariant of the store.
\<close>

lemma token_endpoint_keeps_store:
  "preserves (\<lambda>w. mem_inv (w_store w)) (token (NewServer (oauth_on_memory ul opts)) r)"
proof (rule srv.keep_token [where opts = "trimmed opts" and ul = ul])
  show "sv_opts (NewServer (oauth_on_memory ul opts)) = oauth_on_memory ul (trimmed opts)"
    unfolding NewServer_memory by (simp only: server.simps)
  fix g h req
  assume "map_of (sv_grants (NewServer (oauth_on_memory ul opts))) g = Some h"
  note map_of_SomeD [OF this]
  then have "h \<in> {authorizationCodeGrant (oauth_on_memory ul (trimmed opts)), passwordGrant (oauth_on_memory ul (trimmed opts)),
      clientCredentialsGrant (oauth_on_memory ul (trimmed opts)), refreshTokenGrant (oauth_on_memory ul (trimmed opts))}"
    unfolding NewServer_memory server.simps by (simp del: oauth_memory) blast
  then show "preserves (\<lambda>w. mem_inv (w_store w)) (h req)"
    using srv.keep_authorizationCodeGrant srv.keep_passwordGrant srv.keep_clientCredentialsGrant srv.keep_refreshTokenGrant by blast
qed

end
