(* ===== verification/OAuthBearer.thy ===== *)
theory OAuthBearer
  imports OAuthToken
begin

text \<open>
  Package \<open>pkg/oauth\<close>, files \<open>revoke.go\<close> and \<open>bearer.go\<close>: token revocation (RFC 7009), introspection
  (RFC 7662) and the validation of bearer tokens (RFC 6750).
\<close>

definition TokenTypeHintAccessToken :: string where [simp]: "TokenTypeHintAccessToken = ''access_token''"
definition TokenTypeHintRefreshToken :: string where [simp]: "TokenTypeHintRefreshToken = ''refresh_token''"

section \<open>Revocation\<close>

definition ignoreNotFound :: "('s, store_error, unit) act \<Rightarrow> ('s, store_error, unit) act" where
  "ignoreNotFound m = handle m (\<lambda>e. if e = ErrNotFound then ret () else fail e) ret"

text \<open>The two lookups: whether the token was found, revoked if it belongs to the client.\<close>

definition revokeAccess :: "'s oauth_options \<Rightarrow> client \<Rightarrow> string \<Rightarrow> ('s world, store_error, bool) act" where
  "revokeAccess opts client hash =
     handle (on_store (GetAccessTokenByHash (oo_Store opts) hash))
       (\<lambda>e. if e = ErrNotFound then ret False else fail e) (\<lambda>accessToken.
     if at_ClientId accessToken = c_Id client
     then andThen (ignoreNotFound (on_store (DeleteAccessToken (oo_Store opts) (at_Id accessToken)))) (\<lambda>_. ret True)
     else ret True)"

definition revokeRefresh :: "'s oauth_options \<Rightarrow> client \<Rightarrow> string \<Rightarrow> ('s world, store_error, bool) act" where
  "revokeRefresh opts client hash =
     handle (on_store (GetRefreshTokenByHash (oo_Store opts) hash))
       (\<lambda>e. if e = ErrNotFound then ret False else fail e) (\<lambda>refreshToken.
     if rt_ClientId refreshToken = c_Id client
     then andThen (ignoreNotFound (on_store (DeleteRefreshToken (oo_Store opts) (rt_Id refreshToken)))) (\<lambda>_.
       if rt_AccessTokenId refreshToken \<noteq> ''''
       then andThen (ignoreNotFound (on_store (DeleteAccessToken (oo_Store opts) (rt_AccessTokenId refreshToken)))) (\<lambda>_. ret True)
       else ret True)
     else ret True)"

fun first_found :: "('s, store_error, bool) act list \<Rightarrow> ('s, store_error, unit) act" where
  "first_found [] = ret ()"
| "first_found (m # ms) = andThen m (\<lambda>found. if found then ret () else first_found ms)"

definition revoke :: "'s oauth_options \<Rightarrow> client \<Rightarrow> string \<Rightarrow> string \<Rightarrow> ('s world, store_error, unit) act" where
  "revoke opts client tok hint =
     (let hash = HashToken (oo_Lib opts) tok;
          lookups = (if hint = TokenTypeHintRefreshToken
                     then [revokeRefresh opts client hash, revokeAccess opts client hash]
                     else [revokeAccess opts client hash, revokeRefresh opts client hash])
      in first_found lookups)"

datatype revoke_body = RevokeErrorBody oauth_error | RevokeOk

text \<open>The part of the handler up to the response.\<close>

definition revokeRequest :: "'s server \<Rightarrow> http_request \<Rightarrow> ('s world, oauth_error, unit) act" where
  "revokeRequest s r =
     andThen (lift (parsePostForm (oo_Lib (sv_opts s)) r)) (\<lambda>form.
     andThen (AuthenticateClient (sv_opts s) r form) (\<lambda>client.
     andThen (lift (RequiredParam form ''token'')) (\<lambda>tok.
     andThen (lift (Param form ''token_type_hint'')) (\<lambda>hint.
     mapErr (\<lambda>e. serverError (GStore e)) (revoke (sv_opts s) client tok hint)))))"

definition HandleRevoke :: "'s server \<Rightarrow> http_request \<Rightarrow> ('s world, unit, revoke_body http_response) act" where
  "HandleRevoke s r =
     handle (revokeRequest s r) (\<lambda>e. ret (WriteError RevokeErrorBody e))
       (\<lambda>_. ret \<lparr>p_Status = 200, p_Headers = [(''Cache-Control'', ''no-store'')], p_Body = RevokeOk\<rparr>)"

section \<open>Introspection\<close>

record IntrospectionResponse =
  ir_Active :: bool
  ir_Scope :: string
  ir_ClientId :: string
  ir_Username :: string
  ir_TokenType :: string
  ir_ExpiresAt :: int
  ir_IssuedAt :: int
  ir_Subject :: string
  ir_Issuer :: string

definition inactive :: IntrospectionResponse where
  "inactive = \<lparr>ir_Active = False, ir_Scope = '''', ir_ClientId = '''', ir_Username = '''', ir_TokenType = '''',
     ir_ExpiresAt = 0, ir_IssuedAt = 0, ir_Subject = '''', ir_Issuer = ''''\<rparr>"

record foundToken =
  fn_tokenType :: string
  fn_clientId :: string
  fn_userId :: string
  fn_scopes :: "string list"
  fn_createdAt :: int
  fn_expiresAt :: int
  fn_expired :: bool

definition foundAccess :: "time \<Rightarrow> access_token \<Rightarrow> foundToken" where
  "foundAccess now t = \<lparr>fn_tokenType = TokenTypeBearer, fn_clientId = at_ClientId t, fn_userId = at_UserId t,
     fn_scopes = at_Scopes t, fn_createdAt = unix (at_CreatedAt t), fn_expiresAt = unix (at_ExpiresAt t),
     fn_expired = access_token_HasExpired t now\<rparr>"

definition foundRefresh :: "time \<Rightarrow> refresh_token \<Rightarrow> foundToken" where
  "foundRefresh now t = \<lparr>fn_tokenType = TokenTypeHintRefreshToken, fn_clientId = rt_ClientId t, fn_userId = rt_UserId t,
     fn_scopes = rt_Scopes t, fn_createdAt = unix (rt_CreatedAt t), fn_expiresAt = unix (rt_ExpiresAt t),
     fn_expired = refresh_token_HasExpired t now\<rparr>"

fun first_token :: "('s, store_error, foundToken) act list \<Rightarrow> ('s, store_error, foundToken option) act" where
  "first_token [] = ret None"
| "first_token (m # ms) =
     handle m (\<lambda>e. if e = ErrNotFound then first_token ms else fail e) (\<lambda>f. ret (Some f))"

text \<open>The answer of \<open>Introspect\<close> about a token that was found.\<close>

definition introspectFound :: "'s oauth_options \<Rightarrow> foundToken \<Rightarrow> ('s world, store_error, IntrospectionResponse) act" where
  "introspectFound opts f =
     (if fn_expired f then ret inactive
      else handle (on_store (GetClientById (oo_Store opts) (fn_clientId f)))
        (\<lambda>e. if e = ErrNotFound then ret inactive else fail e) (\<lambda>client.
      if \<not> c_Enabled client then ret inactive
      else
        let response = \<lparr>ir_Active = True, ir_Scope = FormatScope (fn_scopes f), ir_ClientId = c_ClientId client,
              ir_Username = '''', ir_TokenType = fn_tokenType f, ir_ExpiresAt = fn_expiresAt f,
              ir_IssuedAt = fn_createdAt f, ir_Subject = '''', ir_Issuer = oo_Issuer opts\<rparr>
        in if fn_userId f \<noteq> ''''
           then handle (on_store (GetUserById (oo_Store opts) (fn_userId f)))
             (\<lambda>e. if e = ErrNotFound then ret inactive else fail e) (\<lambda>user.
             if account_CanSignIn (oo_Accounts opts) user \<noteq> None then ret inactive
             else ret (response\<lparr>ir_Subject := u_Id user, ir_Username := u_Username user\<rparr>))
           else ret response))"

definition Introspect :: "'s oauth_options \<Rightarrow> string \<Rightarrow> string \<Rightarrow> ('s world, store_error, IntrospectionResponse) act" where
  "Introspect opts tok hint =
     (let hash = HashToken (oo_Lib opts) tok
      in andThen clock_now (\<lambda>now.
         let access = andThen (on_store (GetAccessTokenByHash (oo_Store opts) hash)) (\<lambda>t. ret (foundAccess now t));
             refresh = andThen (on_store (GetRefreshTokenByHash (oo_Store opts) hash)) (\<lambda>t. ret (foundRefresh now t))
         in andThen (first_token (if hint = TokenTypeHintRefreshToken then [refresh, access] else [access, refresh])) (\<lambda>found.
         case found of None \<Rightarrow> ret inactive | Some f \<Rightarrow> introspectFound opts f)))"

datatype introspect_body = IntrospectErrorBody oauth_error | IntrospectBody IntrospectionResponse

definition introspectRequest :: "'s server \<Rightarrow> http_request \<Rightarrow> ('s world, oauth_error, IntrospectionResponse) act" where
  "introspectRequest s r =
     andThen (lift (parsePostForm (oo_Lib (sv_opts s)) r)) (\<lambda>form.
     andThen (AuthenticateClient (sv_opts s) r form) (\<lambda>client.
     if client_IsPublic client
     then fail (NewError ErrorInvalidClient (''public clients can'' @ [CHR 0x27] @ ''t introspect tokens''))
     else andThen (lift (RequiredParam form ''token'')) (\<lambda>tok.
       andThen (lift (Param form ''token_type_hint'')) (\<lambda>hint.
       mapErr (\<lambda>e. serverError (GStore e)) (Introspect (sv_opts s) tok hint)))))"

definition HandleIntrospect :: "'s server \<Rightarrow> http_request \<Rightarrow> ('s world, unit, introspect_body http_response) act" where
  "HandleIntrospect s r =
     handle (introspectRequest s r) (\<lambda>e. ret (WriteError IntrospectErrorBody e))
       (\<lambda>response. ret (WriteJSON [] 200 (IntrospectBody response)))"

section \<open>Bearer tokens\<close>

record TokenInfo =
  ti_Token :: access_token
  ti_Client :: client
  ti_User :: "user option"

abbreviation invalid_token :: "string \<Rightarrow> grant_error" where
  "invalid_token msg \<equiv> GOAuth (NewError ErrorOAuthInvalidToken msg)"

definition ValidateAccessToken :: "'s oauth_options \<Rightarrow> string \<Rightarrow> ('s world, grant_error, TokenInfo) act" where
  "ValidateAccessToken opts tok =
     andThen (mapErr (\<lambda>e. if e = ErrNotFound then invalid_token ''the access token is invalid'' else GStore e)
       (on_store (GetAccessTokenByHash (oo_Store opts) (HashToken (oo_Lib opts) tok)))) (\<lambda>accessToken.
     andThen clock_now (\<lambda>now.
     if access_token_HasExpired accessToken now then fail (invalid_token ''the access token has expired'')
     else andThen (mapErr (\<lambda>e. if e = ErrNotFound
                              then invalid_token ''the client of the access token is not active'' else GStore e)
       (on_store (GetClientById (oo_Store opts) (at_ClientId accessToken)))) (\<lambda>client.
     if \<not> c_Enabled client then fail (invalid_token ''the client of the access token is not active'')
     else if at_UserId accessToken \<noteq> '''' then
       andThen (mapErr (\<lambda>e. if e = ErrNotFound
                            then invalid_token ''the resource owner of the access token is not active'' else GStore e)
         (on_store (GetUserById (oo_Store opts) (at_UserId accessToken)))) (\<lambda>user.
       if account_CanSignIn (oo_Accounts opts) user \<noteq> None
       then fail (invalid_token ''the resource owner of the access token is not active'')
       else ret \<lparr>ti_Token = accessToken, ti_Client = client, ti_User = Some user\<rparr>)
     else ret \<lparr>ti_Token = accessToken, ti_Client = client, ti_User = None\<rparr>)))"

definition bearerError :: "grant_error \<Rightarrow> oauth_error" where
  "bearerError err = (case err of GOAuth e \<Rightarrow> e | _ \<Rightarrow> serverError err)"

definition writeBearerError :: "oauth_error \<Rightarrow> string list \<Rightarrow> oauth_error http_response" where
  "writeBearerError err scopes =
     (let c0 = ''Bearer realm=\"identity\", error=\"'' @ oe_Code err @ ''\"'';
          c1 = (if oe_Description err \<noteq> '''' then c0 @ '', error_description=\"'' @ oe_Description err @ ''\"'' else c0);
          c2 = (if 0 < length scopes then c1 @ '', scope=\"'' @ FormatScope scopes @ ''\"'' else c1)
      in WriteJSON (if oe_Code err \<noteq> ErrorServerError then [(''WWW-Authenticate'', c2)] else []) (oe_Status err) err)"

text \<open>What the middleware does with a request: answer it, or pass it on with the validated token.\<close>

datatype bearer_outcome = Rejected "oauth_error http_response" | Served TokenInfo

definition RequireBearer :: "'s oauth_options \<Rightarrow> string list \<Rightarrow> http_request \<Rightarrow> ('s world, unit, bearer_outcome) act" where
  "RequireBearer opts scopes r =
     (let header = r_Authorization r
      in if header = '''' then
           ret (Rejected (WriteJSON [(''WWW-Authenticate'', ''Bearer realm=\"identity\"'')] 401
             (NewError ErrorOAuthInvalidToken ''an access token is required'')))
         else
           let malformed = ret (Rejected (writeBearerError
                 (NewError ErrorInvalidRequest ''the authorization header is malformed'') []))
           in case cut_at CHR '' '' header of
                None \<Rightarrow> malformed
              | Some (scheme, tok) \<Rightarrow>
                  if \<not> equal_fold scheme ''Bearer'' \<or> trim_space tok = '''' then malformed
                  else handle (ValidateAccessToken opts (trim_space tok))
                    (\<lambda>e. ret (Rejected (writeBearerError (bearerError e) []))) (\<lambda>info.
                  if list_ex (\<lambda>scope. \<not> HasScope (at_Scopes (ti_Token info)) scope) scopes
                  then ret (Rejected (writeBearerError
                    (NewError ErrorInsufficientScope (''the access token doesn'' @ [CHR 0x27] @ ''t have the required scope'')) scopes))
                  else ret (Served info)))"

end
