(* ===== verification/Session.thy ===== *)
theory Session
  imports World Http
begin

text \<open>
  Package \<open>pkg/session\<close>: the signed session cookie and the double submit protection against forged requests. HMAC is
  defined over the SHA-256 of the library; the JSON encoding of a session is a parameter of the manager.
\<close>

section \<open>HMAC\<close>

text \<open>\<open>hmac.New(sha256.New, key)\<close> with a block of 64 bytes.\<close>

definition hmac_block :: "golib \<Rightarrow> string \<Rightarrow> byte list" where
  "hmac_block lib key =
     (let k = (if 64 < length key then lib_sha256 lib key else map (\<lambda>c. word_of_nat (byte_of c)) key)
      in k @ replicate (64 - length k) 0)"

definition hmac_sha256 :: "golib \<Rightarrow> string \<Rightarrow> string \<Rightarrow> byte list" where
  "hmac_sha256 lib key msg =
     (let k = hmac_block lib key;
          ipad = string_of_bytes (map (\<lambda>b. xor b 0x36) k);
          opad = string_of_bytes (map (\<lambda>b. xor b 0x5c) k)
      in lib_sha256 lib (opad @ string_of_bytes (lib_sha256 lib (ipad @ msg))))"

section \<open>The manager\<close>

definition DefaultCookieName :: string where [simp]: "DefaultCookieName = ''identity_session''"
definition DefaultCSRFCookieName :: string where [simp]: "DefaultCSRFCookieName = ''identity_csrf''"
definition session_CSRFFieldName :: string where [simp]: "session_CSRFFieldName = ''csrf_token''"
definition CSRFHeaderName :: string where [simp]: "CSRFHeaderName = ''X-CSRF-Token''"

record Session =
  ss_UserId :: string
  ss_SecurityStamp :: string
  ss_AuthTime :: int
  ss_ExpiresAt :: int

text \<open>
  The options. \<open>so_Marshal\<close> and \<open>so_Unmarshal\<close> are \<open>encoding/json\<close> on the type \<open>Session\<close>, the second with
  \<^const>\<open>None\<close> for an error; the clock is the one of the world.
\<close>

record session_options =
  so_Key :: string
  so_CookieName :: string
  so_CSRFCookieName :: string
  so_Path :: string
  so_Domain :: string
  so_Secure :: bool
  so_Lifetime :: duration
  so_Lib :: golib
  so_Marshal :: "Session \<Rightarrow> byte list"
  so_Unmarshal :: "byte list \<Rightarrow> Session option"

definition NewManager :: "session_options \<Rightarrow> string + session_options" where
  "NewManager opts =
     (if length (so_Key opts) < 32 then Inl ''session: the key must have at least 32 bytes''
      else Inr (opts
        \<lparr>so_CookieName := (if so_CookieName opts = '''' then DefaultCookieName else so_CookieName opts),
         so_CSRFCookieName := (if so_CSRFCookieName opts = '''' then DefaultCSRFCookieName else so_CSRFCookieName opts),
         so_Path := (if so_Path opts = '''' then ''/'' else so_Path opts),
         so_Lifetime := (if so_Lifetime opts \<le> 0 then 8 * hour else so_Lifetime opts)\<rparr>))"

definition mac_input :: "string \<Rightarrow> string \<Rightarrow> string" where
  "mac_input purpose payload = purpose @ [CHR 0x00] @ payload"

definition sign :: "session_options \<Rightarrow> string \<Rightarrow> string \<Rightarrow> string" where
  "sign m purpose payload = b64_encode (hmac_sha256 (so_Lib m) (so_Key m) (mac_input purpose payload))"

record http_cookie =
  ck_Name :: string
  ck_Value :: string
  ck_Path :: string
  ck_Domain :: string
  ck_MaxAge :: int
  ck_Secure :: bool
  ck_HttpOnly :: bool
  ck_SameSite :: string

definition cookie :: "session_options \<Rightarrow> string \<Rightarrow> string \<Rightarrow> int \<Rightarrow> http_cookie" where
  "cookie m name v maxAge =
     \<lparr>ck_Name = name, ck_Value = v, ck_Path = so_Path m, ck_Domain = so_Domain m, ck_MaxAge = maxAge,
      ck_Secure = so_Secure m, ck_HttpOnly = True, ck_SameSite = ''Lax''\<rparr>"

text \<open>\<open>opts.Now()\<close>, without the truncation of the services.\<close>

definition clock_read :: "('s, 'e, time) wact" where
  "clock_read = (\<lambda>w. (Inr (w_clock w (w_ticks w)), w\<lparr>w_ticks := Suc (w_ticks w)\<rparr>))"

section \<open>Sessions\<close>

text \<open>\<open>Create\<close> returns the session and the cookie it sets.\<close>

definition session_Create :: "session_options \<Rightarrow> string \<Rightarrow> string \<Rightarrow> ('s, 'e, Session \<times> http_cookie) wact" where
  "session_Create m userId securityStamp =
     andThen clock_read (\<lambda>now.
       let s = \<lparr>ss_UserId = userId, ss_SecurityStamp = securityStamp, ss_AuthTime = unix now,
                ss_ExpiresAt = unix (now + so_Lifetime m)\<rparr>;
           payload = b64_encode (so_Marshal m s);
           v = payload @ ''.'' @ sign m ''session'' payload
       in ret (s, cookie m (so_CookieName m) v (whole_seconds (so_Lifetime m))))"

definition session_Get :: "session_options \<Rightarrow> http_request \<Rightarrow> ('s, 'e, Session option) wact" where
  "session_Get m r =
     (case map_of (r_Cookies r) (so_CookieName m) of
        None \<Rightarrow> ret None
      | Some c \<Rightarrow>
          (case cut_at CHR ''.'' c of
             None \<Rightarrow> ret None
           | Some (payload, signature) \<Rightarrow>
               if signature \<noteq> sign m ''session'' payload then ret None
               else (case b64_decode payload of
                       None \<Rightarrow> ret None
                     | Some data \<Rightarrow>
                         (case so_Unmarshal m data of
                            None \<Rightarrow> ret None
                          | Some s \<Rightarrow>
                              if ss_UserId s = '''' then ret None
                              else andThen clock_read (\<lambda>now.
                                if ss_ExpiresAt s \<le> unix now then ret None else ret (Some s))))))"

definition session_Destroy :: "session_options \<Rightarrow> http_cookie" where
  "session_Destroy m = cookie m (so_CookieName m) '''' (- 1)"

section \<open>Forged requests\<close>

definition csrfCookieValue :: "session_options \<Rightarrow> http_request \<Rightarrow> string" where
  "csrfCookieValue m r =
     foldl (\<lambda>v c. if fst c = so_CSRFCookieName m \<and> 32 \<le> length (snd c) then snd c else v) '''' (r_Cookies r)"

text \<open>\<open>CSRFToken\<close> returns the token, the cookies it sets, and the request with the cookie it adds.\<close>

definition CSRFToken :: "session_options \<Rightarrow> http_request \<Rightarrow> ('s, 'e, string \<times> http_cookie list \<times> http_request) wact" where
  "CSRFToken m r =
     (let v0 = csrfCookieValue m r
      in if v0 = '''' then andThen (RandomToken 32) (\<lambda>v.
           ret (sign m ''csrf'' v, [cookie m (so_CSRFCookieName m) v 0],
                r\<lparr>r_Cookies := r_Cookies r @ [(so_CSRFCookieName m, v)]\<rparr>))
         else ret (sign m ''csrf'' v0, [], r))"

definition VerifyCSRF :: "session_options \<Rightarrow> http_request \<Rightarrow> bool" where
  "VerifyCSRF m r \<longleftrightarrow>
     (let v = csrfCookieValue m r
      in if v = '''' then False
         else let tok = (if r_CSRFHeader r = '''' then Values_Get (PostForm r) session_CSRFFieldName else r_CSRFHeader r)
              in tok \<noteq> '''' \<and> tok = sign m ''csrf'' v)"

section \<open>Properties\<close>

lemma clock_read_eq:
  "clock_read w = (r, w') \<longleftrightarrow> r = Inr (w_clock w (w_ticks w)) \<and> w' = w\<lparr>w_ticks := Suc (w_ticks w)\<rparr>"
  by (auto simp: clock_read_def)

lemma b64_no_dot: "CHR ''.'' \<notin> set (b64_encode bs)"
proof
  assume "CHR ''.'' \<in> set (b64_encode bs)"
  from b64_encode_alphabet [OF this] obtain n where "n < 64" "CHR ''.'' = b64_char n" by blast
  with b64_value_char [of n] have "b64_value CHR ''.'' = Some n" by simp
  moreover have "b64_value CHR ''.'' = None" by code_simp
  ultimately show False by simp
qed

text \<open>A request with the cookie of \<open>Create\<close> has the session, until the clock of the manager reaches the expiry.\<close>

lemma session_Get_Create:
  assumes "session_Create m userId stamp w = (Inr (s, c), w1)" and "map_of (r_Cookies r) (so_CookieName m) = Some (ck_Value c)"
    and "so_Unmarshal m (so_Marshal m s) = Some s" and "userId \<noteq> ''''"
  shows "session_Get m r v =
       (Inr (if unix (w_clock v (w_ticks v)) < ss_ExpiresAt s then Some s else None), v\<lparr>w_ticks := Suc (w_ticks v)\<rparr>)
     \<and> ss_UserId s = userId \<and> ss_SecurityStamp s = stamp
     \<and> ss_ExpiresAt s = unix (w_clock w (w_ticks w) + so_Lifetime m) \<and> w_store w1 = w_store w"
proof -
  let ?p = "b64_encode (so_Marshal m s)"
  from assms(1) have s: "ss_UserId s = userId" "ss_SecurityStamp s = stamp"
    "ss_ExpiresAt s = unix (w_clock w (w_ticks w) + so_Lifetime m)" "w_store w1 = w_store w"
    and c: "ck_Value c = ?p @ CHR ''.'' # sign m ''session'' ?p"
    by (auto simp: session_Create_def andThen_eq_Inr clock_read_eq Let_def cookie_def)
  have "cut_at CHR ''.'' (ck_Value c) = Some (?p, sign m ''session'' ?p)" unfolding c by (rule cut_at_append) (rule b64_no_dot)
  with assms s show ?thesis
    by (simp add: session_Get_def b64_decode_encode andThen_def clock_read_def ret_def)
qed

text \<open>
  A session is read back as it was created: a request that carries the cookie of \<open>Create\<close> has, as long as the
  clock of the manager is before the expiry, exactly this session, and none afterwards; the expiry is the lifetime
  after the creation. The hypothesis on the codec is that \<open>encoding/json\<close> reads what it wrote for this session.
\<close>

lemma session_roundtrip:
  assumes "session_Create m userId stamp w = (Inr (s, c), w1)" and "map_of (r_Cookies r) (so_CookieName m) = Some (ck_Value c)"
    and "so_Unmarshal m (so_Marshal m s) = Some s" and "userId \<noteq> ''''"
  shows "session_Get m r v =
       (Inr (if unix (w_clock v (w_ticks v)) < ss_ExpiresAt s then Some s else None), v\<lparr>w_ticks := Suc (w_ticks v)\<rparr>)
     \<and> ss_UserId s = userId \<and> ss_SecurityStamp s = stamp
     \<and> ss_ExpiresAt s = unix (w_clock w (w_ticks w) + so_Lifetime m)"
  using session_Get_Create [OF assms] by blast

text \<open>
  C21: the manager only returns sessions it signed: the first session cookie of the request is a payload with the
  signature of the manager over it for the purpose of sessions, the payload encodes the session, which names a user
  and has not expired at the time of the call. Nothing but the clock is read.
\<close>

theorem session_authentic:
  assumes "session_Get m r w = (Inr (Some s), w')"
  shows "\<exists>payload data. map_of (r_Cookies r) (so_CookieName m) = Some (payload @ ''.'' @ sign m ''session'' payload)
     \<and> CHR ''.'' \<notin> set payload \<and> b64_decode payload = Some data \<and> so_Unmarshal m data = Some s
     \<and> ss_UserId s \<noteq> '''' \<and> unix (w_clock w (w_ticks w)) < ss_ExpiresAt s \<and> w' = w\<lparr>w_ticks := Suc (w_ticks w)\<rparr>"
  using assms unfolding session_Get_def
  by (auto simp: andThen_eq_Inr clock_read_eq split: option.splits prod.splits if_splits dest!: cut_at_Some)

text \<open>The value of the cookie is the last long enough one.\<close>

lemma csrfCookieValue_append:
  "csrfCookieValue m (r\<lparr>r_Cookies := cs @ [(so_CSRFCookieName m, v)]\<rparr>) =
     (if 32 \<le> length v then v else csrfCookieValue m (r\<lparr>r_Cookies := cs\<rparr>))"
  by (simp add: csrfCookieValue_def)

lemma sign_not_empty:
  assumes "\<And>x. length (lib_sha256 (so_Lib m) x) = 32"
  shows "sign m p x \<noteq> ''''"
proof -
  have "lib_sha256 (so_Lib m) y \<noteq> []" for y using assms [of y] by auto
  then show ?thesis by (simp add: sign_def b64_encode_Nil_iff hmac_sha256_def Let_def)
qed

text \<open>
  A form gets through exactly with the token the server gave out: \<open>CSRFToken\<close> leaves a CSRF cookie in the
  request, and a request with these cookies is accepted if and only if it carries the returned token, in the header
  or, without the header, in the form field. SHA-256 digests have 32 bytes.
\<close>

lemma csrf_token_exact:
  assumes "CSRFToken m r w = (Inr (tok, cs, r1), w')" and "\<forall>x. length (lib_sha256 (so_Lib m) x) = 32"
    and "r_Cookies r2 = r_Cookies r1"
  shows "VerifyCSRF m r2 \<longleftrightarrow>
     (if r_CSRFHeader r2 \<noteq> '''' then r_CSRFHeader r2 = tok else Values_Get (PostForm r2) session_CSRFFieldName = tok)"
proof -
  have "csrfCookieValue m r1 \<noteq> '''' \<and> tok = sign m ''csrf'' (csrfCookieValue m r1)"
  proof (cases "csrfCookieValue m r = ''''")
    case True
    let ?b = "map (\<lambda>i. w_random w (w_pos w + i)) [0..<32]"
    from assms(1) True have r: "tok = sign m ''csrf'' (RandomToken_of ?b)"
      "r1 = r\<lparr>r_Cookies := r_Cookies r @ [(so_CSRFCookieName m, RandomToken_of ?b)]\<rparr>"
      by (auto simp: CSRFToken_def Let_def andThen_eq_Inr RandomToken_eq)
    have l: "length (RandomToken_of ?b) = 43" by (simp add: RandomToken_of_def length_b64_encode)
    then have "csrfCookieValue m r1 = RandomToken_of ?b" unfolding r(2) by (simp add: csrfCookieValue_append)
    with r(1) l show ?thesis by auto
  next
    case False
    with assms(1) show ?thesis by (auto simp: CSRFToken_def Let_def)
  qed
  moreover have "csrfCookieValue m r2 = csrfCookieValue m r1" by (simp add: csrfCookieValue_def assms(3))
  ultimately show ?thesis using sign_not_empty [of m "''csrf''" "csrfCookieValue m r1"] assms(2)
    by (auto simp: VerifyCSRF_def Let_def)
qed

section \<open>A sample manager\<close>

text \<open>A codec for the instances: the fields are separated by a zero byte, the times are written in unary.\<close>

definition sample_manager :: session_options where
  "sample_manager =
     \<lparr>so_Key = replicate 32 CHR ''k'', so_CookieName = ''s'', so_CSRFCookieName = ''x'', so_Path = ''/'', so_Domain = '''',
      so_Secure = True, so_Lifetime = 10 * second, so_Lib = sample_lib,
      so_Marshal = (\<lambda>s. map (\<lambda>c. word_of_nat (byte_of c)) (join [CHR 0x00] [ss_UserId s, ss_SecurityStamp s,
         replicate (nat (ss_AuthTime s)) CHR ''i'', replicate (nat (ss_ExpiresAt s)) CHR ''i''])),
      so_Unmarshal = (\<lambda>d. case split_on CHR 0x00 (string_of_bytes d) of
         [u, st, a, e] \<Rightarrow> Some \<lparr>ss_UserId = u, ss_SecurityStamp = st, ss_AuthTime = int (length a), ss_ExpiresAt = int (length e)\<rparr>
       | _ \<Rightarrow> None)\<rparr>"

definition sample_session_world :: "unit world" where
  "sample_session_world =
     \<lparr>w_store = (), w_random = (\<lambda>n. word_of_nat n), w_pos = 0, w_clock = (\<lambda>n. int n * second), w_ticks = 0,
      w_outbox = [], w_accountDummy = None, w_oauthDummy = None\<rparr>"

definition sample_session :: Session where
  "sample_session = \<lparr>ss_UserId = ''u-1'', ss_SecurityStamp = ''s'', ss_AuthTime = 0, ss_ExpiresAt = 10\<rparr>"

definition sample_session_cookie :: string where
  "sample_session_cookie = b64_encode (so_Marshal sample_manager sample_session)
     @ ''.'' @ sign sample_manager ''session'' (b64_encode (so_Marshal sample_manager sample_session))"

lemma sample_codec: "so_Unmarshal sample_manager (so_Marshal sample_manager sample_session) = Some sample_session"
  by code_simp

lemma sample_Create:
  "\<exists>c. session_Create sample_manager ''u-1'' ''s'' sample_session_world =
     (Inr (sample_session, c), sample_session_world\<lparr>w_ticks := 1\<rparr>) \<and> ck_Value c = sample_session_cookie"
  by (simp add: session_Create_def clock_read_def andThen_def ret_def sample_session_world_def unix_def sample_session_def
      sample_session_cookie_def cookie_def)
     (simp add: sample_manager_def)

definition sample_session_request :: http_request where
  "sample_session_request = \<lparr>r_Method = ''POST'', r_ContentType = form_type, r_Authorization = '''', r_ParseForm = None,
     r_Query = [], r_FailedForm = [], r_CSRFHeader = '''', r_Cookies = [(''s'', sample_session_cookie)]\<rparr>"

lemma sample_clock: "w_clock sample_session_world k = int k * second"
  by (simp add: sample_session_world_def)

lemma session_roundtrip_witness:
  "session_Get sample_manager sample_session_request (sample_session_world\<lparr>w_ticks := 9\<rparr>) =
     (Inr (Some sample_session) :: unit + Session option, sample_session_world\<lparr>w_ticks := 10\<rparr>)
   \<and> session_Get sample_manager sample_session_request (sample_session_world\<lparr>w_ticks := 10\<rparr>) =
     (Inr None :: unit + Session option, sample_session_world\<lparr>w_ticks := 11\<rparr>)"
proof -
  from sample_Create obtain c where
    c: "session_Create sample_manager ''u-1'' ''s'' sample_session_world = (Inr (sample_session, c), sample_session_world\<lparr>w_ticks := 1\<rparr>)"
      "ck_Value c = sample_session_cookie" by blast
  have r: "map_of (r_Cookies sample_session_request) (so_CookieName sample_manager) = Some (ck_Value c)"
    by (simp add: sample_session_request_def sample_manager_def c(2))
  have u: "''u-1'' \<noteq> ''''" by simp
  show ?thesis
    using session_roundtrip [where 'c = unit, OF c(1) r sample_codec u, where v = "sample_session_world\<lparr>w_ticks := 9\<rparr>"]
      session_roundtrip [where 'c = unit, OF c(1) r sample_codec u, where v = "sample_session_world\<lparr>w_ticks := 10\<rparr>"]
    by (simp add: sample_clock unix_def sample_session_def)
qed

lemma sample_Get: "\<exists>w'. session_Get sample_manager sample_session_request sample_session_world = (Inr (Some sample_session) :: unit + Session option, w')"
proof -
  have c: "cut_at CHR ''.'' sample_session_cookie = Some (b64_encode (so_Marshal sample_manager sample_session),
      sign sample_manager ''session'' (b64_encode (so_Marshal sample_manager sample_session)))"
    unfolding sample_session_cookie_def append_Cons append_Nil by (rule cut_at_append) (rule b64_no_dot)
  have n: "map_of (r_Cookies sample_session_request) (so_CookieName sample_manager) = Some sample_session_cookie"
    by (simp add: sample_session_request_def sample_manager_def)
  show ?thesis
    by (simp add: session_Get_def n c b64_decode_encode sample_codec andThen_def clock_read_def ret_def)
       (simp add: sample_session_def sample_session_world_def unix_def)
qed

theorem session_authentic_witness:
  "\<exists>w' payload. session_Get sample_manager sample_session_request sample_session_world = (Inr (Some sample_session) :: unit + Session option, w')
     \<and> map_of (r_Cookies sample_session_request) ''s'' = Some (payload @ ''.'' @ sign sample_manager ''session'' payload)"
proof -
  from sample_Get obtain w' where
    g: "session_Get sample_manager sample_session_request sample_session_world = (Inr (Some sample_session) :: unit + Session option, w')" by blast
  have n: "so_CookieName sample_manager = ''s''" by (simp add: sample_manager_def)
  from session_authentic [OF g, unfolded n] obtain payload where
    "map_of (r_Cookies sample_session_request) ''s'' = Some (payload @ ''.'' @ sign sample_manager ''session'' payload)" by blast
  with g show ?thesis by blast
qed

lemma csrf_token_exact_witness:
  "\<exists>tok cs r1 w'. CSRFToken sample_manager sample_session_request sample_session_world = (Inr (tok, cs, r1) :: unit + string \<times> http_cookie list \<times> http_request, w')
     \<and> VerifyCSRF sample_manager (r1\<lparr>r_CSRFHeader := '''', r_ParseForm := Some ([], [(''csrf_token'', [tok])])\<rparr>)"
proof -
  obtain tok cs r1 w' where r: "CSRFToken sample_manager sample_session_request sample_session_world = (Inr (tok, cs, r1) :: unit + string \<times> http_cookie list \<times> http_request, w')"
    by (cases "csrfCookieValue sample_manager sample_session_request = ''''")
      (auto simp: CSRFToken_def Let_def andThen_def RandomToken_def RandomBytes_def ret_def)
  have h: "\<forall>x. length (lib_sha256 (so_Lib sample_manager) x) = 32" by (auto simp: sample_manager_def sample_lib_def min_def)
  have c: "r_Cookies (r1\<lparr>r_CSRFHeader := '''', r_ParseForm := Some ([], [(''csrf_token'', [tok])])\<rparr>) = r_Cookies r1" by simp
  from csrf_token_exact [OF r h c] r show ?thesis
    by (simp add: Values_Get_def values_get_def PostForm_def)
qed

end
