(* ===== verification/OAuthAuthorize.thy ===== *)
theory OAuthAuthorize
  imports OAuthToken
begin

text \<open>
  Package \<open>pkg/oauth\<close>, file \<open>authorize.go\<close>: the authorization endpoint. Its outcome is a redirection of the
  user agent or one of the three pages of the \<open>Interaction\<close>.
\<close>

definition ParamConsent :: string where [simp]: "ParamConsent = ''consent''"
definition ConsentAllow :: string where [simp]: "ConsentAllow = ''allow''"
definition ConsentDeny :: string where [simp]: "ConsentDeny = ''deny''"
definition CSRFFieldName :: string where [simp]: "CSRFFieldName = ''csrf_token''"

record authorizeRequest =
  ar_client :: client
  ar_redirectUri :: string
  ar_redirectUriParam :: string
  ar_responseType :: string
  ar_state :: string
  ar_scopes :: "string list"
  ar_codeChallenge :: string
  ar_codeChallengeMethod :: string

record ConsentRequest =
  cr_Client :: client
  cr_User :: user
  cr_Scopes :: "string list"
  cr_Action :: string
  cr_Params :: url_values

datatype authorize_outcome =
    RedirectTo "unit http_response"
  | ErrorPage oauth_error
  | LoginPage string
  | ConsentPage ConsentRequest
  | NothingWritten

section \<open>Redirections\<close>

definition redirect_target :: "string \<Rightarrow> url_values \<Rightarrow> bool \<Rightarrow> string" where
  "redirect_target redirectUri values fragment =
     (if fragment then redirectUri @ ''#'' @ Values_Encode values
      else if contains_str redirectUri ''?'' then redirectUri @ ''&'' @ Values_Encode values
      else redirectUri @ ''?'' @ Values_Encode values)"

definition redirect :: "string \<Rightarrow> url_values \<Rightarrow> bool \<Rightarrow> authorize_outcome" where
  "redirect redirectUri values fragment =
     RedirectTo \<lparr>p_Status = 302,
       p_Headers = [(''Cache-Control'', ''no-store''), (''Location'', redirect_target redirectUri values fragment)],
       p_Body = ()\<rparr>"

definition withState :: "authorizeRequest \<Rightarrow> url_values \<Rightarrow> url_values" where
  "withState req values = (if ar_state req \<noteq> '''' then Values_Set values ''state'' (ar_state req) else values)"

definition redirectError :: "authorizeRequest \<Rightarrow> oauth_error \<Rightarrow> authorize_outcome" where
  "redirectError req err =
     (let v0 = [(''error'', [oe_Code err])];
          v1 = (if oe_Description err \<noteq> '''' then Values_Set v0 ''error_description'' (oe_Description err) else v0);
          v2 = (if oe_URI err \<noteq> '''' then Values_Set v1 ''error_uri'' (oe_URI err) else v1)
      in redirect (ar_redirectUri req) (withState req v2) (ar_responseType req = ResponseTypeToken))"

definition authorizeParams :: "url_values \<Rightarrow> url_values" where
  "authorizeParams params = filter (\<lambda>(k, v). \<not> (k = ParamConsent \<or> k = CSRFFieldName)) params"

definition authorizeURL :: "'s oauth_options \<Rightarrow> url_values \<Rightarrow> string" where
  "authorizeURL opts params = oo_BasePath opts @ ''/authorize'' @ ''?'' @ Values_Encode (authorizeParams params)"

section \<open>Validation of the request\<close>

definition validateClientAndRedirect ::
  "'s oauth_options \<Rightarrow> url_values \<Rightarrow> ('s world, oauth_error, authorizeRequest) act" where
  "validateClientAndRedirect opts params =
     andThen (lift (RequiredParam params ''client_id'')) (\<lambda>clientId.
     handle (on_store (GetClientByClientId (oo_Store opts) clientId))
       (\<lambda>e. if e = ErrNotFound then fail (NewError ErrorInvalidClient ''the client is unknown'')
            else fail (serverError (GStore e))) (\<lambda>client.
     if \<not> c_Enabled client then fail (NewError ErrorInvalidClient ''the client is unknown'')
     else andThen (lift (Param params ''redirect_uri'')) (\<lambda>redirectUri.
       let req = \<lparr>ar_client = client, ar_redirectUri = '''', ar_redirectUriParam = redirectUri, ar_responseType = '''',
                  ar_state = '''', ar_scopes = [], ar_codeChallenge = '''', ar_codeChallengeMethod = ''''\<rparr>
       in if redirectUri = '''' then
            (if length (c_RedirectUris client) \<noteq> 1
             then fail (NewError ErrorInvalidRequest ''the redirect_uri parameter is missing'')
             else ret (req\<lparr>ar_redirectUri := c_RedirectUris client ! 0\<rparr>))
          else case MatchRedirectUri client redirectUri of
            Some registered \<Rightarrow> ret (req\<lparr>ar_redirectUri := registered\<rparr>)
          | None \<Rightarrow> fail (NewError ErrorInvalidRequest ''the redirect_uri is not registered for this client''))))"

definition checkResponseType :: "client \<Rightarrow> string \<Rightarrow> oauth_error option" where
  "checkResponseType client responseType =
     (if responseType = '''' then Some (NewError ErrorInvalidRequest ''the response_type parameter is missing'')
      else if responseType = ResponseTypeCode then
        (if \<not> ValidateGrantType client GrantTypeAuthorizationCode
         then Some (NewError ErrorUnauthorizedClient ''the client is not authorized to use the authorization code grant'')
         else None)
      else if responseType = ResponseTypeToken then
        (if \<not> ValidateGrantType client GrantTypeImplicit
         then Some (NewError ErrorUnauthorizedClient ''the client is not authorized to use the implicit grant'')
         else None)
      else Some (NewError ErrorUnsupportedResponseType ''the response_type is not supported''))"

text \<open>The PKCE block: the challenge and its method, both empty when the client sent none.\<close>

definition challengeOf :: "client \<Rightarrow> url_values \<Rightarrow> oauth_error + string \<times> string" where
  "challengeOf client params =
     (case Param params ''code_challenge'' of Inl e \<Rightarrow> Inl e | Inr challenge \<Rightarrow>
     (case Param params ''code_challenge_method'' of Inl e \<Rightarrow> Inl e | Inr method0 \<Rightarrow>
      if challenge = '''' then
        (if c_RequirePkce client \<or> client_IsPublic client
         then Inl (NewError ErrorInvalidRequest ''the code_challenge parameter is required'')
         else Inr ('''', ''''))
      else
        let method = (if method0 = '''' then CodeChallengeMethodPlain else method0)
        in if \<not> IsSupportedCodeChallengeMethod method
           then Inl (NewError ErrorInvalidRequest ''the code_challenge_method is not supported'')
           else if \<not> IsValidCodeVerifier challenge
           then Inl (NewError ErrorInvalidRequest ''the code_challenge is malformed'')
           else Inr (challenge, method)))"

text \<open>
  \<open>validateAuthorizeRequest\<close> fills the request in as it goes, so an error comes with the fields read
  before it.
\<close>

definition validateAuthorizeRequest :: "authorizeRequest \<Rightarrow> url_values \<Rightarrow> authorizeRequest \<times> oauth_error option" where
  "validateAuthorizeRequest req params =
     (case Param params ''state'' of Inl e \<Rightarrow> (req, Some e) | Inr state \<Rightarrow>
      let req1 = req\<lparr>ar_state := state\<rparr> in
      (case Param params ''response_type'' of Inl e \<Rightarrow> (req1, Some e) | Inr responseType \<Rightarrow>
      let req2 = req1\<lparr>ar_responseType := responseType\<rparr> in
      (case checkResponseType (ar_client req2) responseType of Some e \<Rightarrow> (req2, Some e) | None \<Rightarrow>
      (case Param params ''scope'' of Inl e \<Rightarrow> (req2, Some e) | Inr scope \<Rightarrow>
      (case resolveScopes (ar_client req2) scope of Inl e \<Rightarrow> (req2, Some e) | Inr scopes \<Rightarrow>
      let req3 = req2\<lparr>ar_scopes := scopes\<rparr> in
      if responseType = ResponseTypeCode then
        (case challengeOf (ar_client req3) params of Inl e \<Rightarrow> (req3, Some e) | Inr (challenge, method) \<Rightarrow>
           (req3\<lparr>ar_codeChallenge := challenge, ar_codeChallengeMethod := method\<rparr>, None))
      else (req3, None))))))"

section \<open>Issuing the response\<close>

definition issueCode ::
  "'s oauth_options \<Rightarrow> authorizeRequest \<Rightarrow> user \<Rightarrow> ('s world, unit, authorize_outcome) act" where
  "issueCode opts req user =
     (let lifetime = (if c_AuthorizationCodeLifetime (ar_client req) \<le> 0 then DefaultAuthorizationCodeLifetime
                      else c_AuthorizationCodeLifetime (ar_client req))
      in andThen clock_now (\<lambda>now.
         andThen NewToken (\<lambda>value.
         andThen NewId (\<lambda>k.
         handle (on_store (CreateAuthorizationCode (oo_Store opts)
             \<lparr>ac_Id = k, ac_CodeHash = HashToken (oo_Lib opts) value, ac_ClientId = c_Id (ar_client req),
              ac_UserId = u_Id user, ac_Scopes = ar_scopes req, ac_RedirectUri = ar_redirectUriParam req,
              ac_CodeChallenge = ar_codeChallenge req, ac_CodeChallengeMethod = ar_codeChallengeMethod req,
              ac_CreatedAt = now, ac_ExpiresAt = now + lifetime, ac_ConsumedAt = None\<rparr>))
           (\<lambda>e. ret (redirectError req (serverError (GStore e))))
           (\<lambda>_. ret (redirect (ar_redirectUri req) (withState req [(''code'', [value])]) False))))))"

definition issueImplicitToken ::
  "'s oauth_options \<Rightarrow> authorizeRequest \<Rightarrow> user \<Rightarrow> ('s world, unit, authorize_outcome) act" where
  "issueImplicitToken opts req user =
     handle (IssueTokens opts (ar_client req) (Some user) (ar_scopes req)
         \<lparr>io_RefreshToken = False, io_AuthorizationCodeId = ''''\<rparr>)
       (\<lambda>e. ret (redirectError req (serverError e)))
       (\<lambda>response.
          let v0 = [(''access_token'', [tr_AccessToken response]), (''token_type'', [tr_TokenType response]),
                    (''expires_in'', [int_to_string (tr_ExpiresIn response)])];
              v1 = (if tr_Scope response \<noteq> '''' then Values_Set v0 ''scope'' (tr_Scope response) else v0)
          in ret (redirect (ar_redirectUri req) (withState req v1) True))"

section \<open>The endpoint\<close>

text \<open>The decision of the resource owner, once a user is logged in: a page or a refusal, or \<^const>\<open>None\<close> to go on.\<close>

definition consentStep ::
  "'s oauth_options \<Rightarrow> 's interaction \<Rightarrow> http_request \<Rightarrow> url_values \<Rightarrow> url_values \<Rightarrow> authorizeRequest \<Rightarrow> user \<Rightarrow>
   authorize_outcome option" where
  "consentStep opts interaction r params postForm req user =
     (if c_RequireConsent (ar_client req) then
        (let decision = (if r_Method r = ''POST'' then Values_Get postForm ParamConsent else '''')
         in if decision = '''' then
              Some (ConsentPage \<lparr>cr_Client = ar_client req, cr_User = user, cr_Scopes = ar_scopes req,
                cr_Action = oo_BasePath opts @ ''/authorize'', cr_Params = authorizeParams params\<rparr>)
            else if \<not> in_VerifyConsent interaction r then
              Some (ErrorPage (NewError ErrorInvalidRequest ''the consent form has expired, please try again''))
            else if decision \<noteq> ConsentAllow then
              Some (redirectError req (NewError ErrorAccessDenied ''the resource owner denied the request''))
            else None)
      else None)"

definition HandleAuthorize ::
  "'s oauth_options \<Rightarrow> 's interaction \<Rightarrow> http_request \<Rightarrow> ('s world, unit, authorize_outcome) act" where
  "HandleAuthorize opts interaction r =
     (case r_ParseForm r of
        None \<Rightarrow> ret (ErrorPage (NewError ErrorInvalidRequest ''the request is malformed''))
      | Some (params, postForm) \<Rightarrow>
     handle (validateClientAndRedirect opts params) (\<lambda>pageErr. ret (ErrorPage pageErr)) (\<lambda>req0.
     case validateAuthorizeRequest req0 params of
       (req, Some e) \<Rightarrow> ret (redirectError req e)
     | (req, None) \<Rightarrow>
     handle (in_CurrentUser interaction r) (\<lambda>e. ret (redirectError req (serverError e))) (\<lambda>current.
     case current of
       None \<Rightarrow> ret (LoginPage (authorizeURL opts params))
     | Some user \<Rightarrow>
         if account_CanSignIn (oo_Accounts opts) user \<noteq> None
         then ret (redirectError req (NewError ErrorAccessDenied ''the resource owner account is not active''))
         else case consentStep opts interaction r params postForm req user of
           Some outcome \<Rightarrow> ret outcome
         | None \<Rightarrow>
             if ar_responseType req = ResponseTypeCode then issueCode opts req user
             else if ar_responseType req = ResponseTypeToken then issueImplicitToken opts req user
             else ret NothingWritten)))"

end
