(* ===== verification/Router.thy ===== *)
theory Router
  imports GoLib
begin

text \<open>
  Package \<open>pkg/router\<close>: the abstraction of the HTTP router. A router is what \<open>Handle\<close> does with a method, a
  canonical pattern and a handler of a type of its own, to a state of the router behind it. The mux of \<open>net/http\<close>
  is the list of the registrations it got.
\<close>

section \<open>Routers\<close>

type_synonym ('h, 'r) router = "string \<Rightarrow> string \<Rightarrow> 'h \<Rightarrow> 'r \<Rightarrow> 'r"

definition WithPrefix :: "('h, 'r) router \<Rightarrow> string \<Rightarrow> ('h, 'r) router" where
  "WithPrefix r prefix0 =
     (let prefix = trim_suffix prefix0 ''/''
      in if prefix = '''' then r else (\<lambda>method pattern handler. r method (prefix @ pattern) handler))"

text \<open>The loop of \<open>WithMiddleware\<close>, with \<open>i + 1\<close> as its argument.\<close>

fun wrap_loop :: "('h \<Rightarrow> 'h) list \<Rightarrow> nat \<Rightarrow> 'h \<Rightarrow> 'h" where
  "wrap_loop middleware 0 handler = handler"
| "wrap_loop middleware (Suc i) handler = wrap_loop middleware i ((middleware ! i) handler)"

definition WithMiddleware :: "('h, 'r) router \<Rightarrow> ('h \<Rightarrow> 'h) list \<Rightarrow> ('h, 'r) router" where
  "WithMiddleware r middleware =
     (\<lambda>method pattern handler. r method pattern (wrap_loop middleware (length middleware) handler))"

text \<open>\<open>ServeMux\<close>: what reaches \<open>http.ServeMux.Handle\<close>, in order.\<close>

type_synonym 'h serve_mux = "(string \<times> 'h) list"

definition NewServeMux :: "'h serve_mux" where "NewServeMux = []"

definition ServeMux_Handle :: "('h, 'h serve_mux) router" where
  "ServeMux_Handle method pattern0 handler mux =
     (let pattern = (if has_suffix pattern0 ''/'' then pattern0 @ ''{$}'' else pattern0)
      in mux @ [(method @ '' '' @ pattern, handler)])"

section \<open>Path parameters\<close>

text \<open>The context of a request holds the parameters an adapter attached; \<open>pathValue\<close> are those of the mux.\<close>

definition WithParams :: "string gomap option \<Rightarrow> string gomap \<Rightarrow> string gomap option" where
  "WithParams context params = (if length params = 0 then context else Some params)"

definition router_Param :: "string gomap option \<Rightarrow> (string \<Rightarrow> string) \<Rightarrow> string \<Rightarrow> string" where
  "router_Param context pathValue name =
     (case context of
        Some params \<Rightarrow> (case map_of params name of Some v \<Rightarrow> v | None \<Rightarrow> pathValue name)
      | None \<Rightarrow> pathValue name)"

section \<open>Patterns\<close>

text \<open>
  The loops of \<open>ColonPattern\<close> and \<open>ParamNames\<close>: each round cuts the pattern at the next opening brace and at the
  closing brace after it.
\<close>

function ColonPattern :: "string \<Rightarrow> string" where
  "ColonPattern pattern =
     (case cut_at CHR ''{'' pattern of
        None \<Rightarrow> pattern
      | Some (before, rest) \<Rightarrow>
          (case cut_at CHR ''}'' rest of
             None \<Rightarrow> pattern
           | Some (name, after) \<Rightarrow> before @ '':'' @ name @ ColonPattern after))"
  by pat_completeness auto
termination
  by (relation "measure length") (auto dest!: cut_at_Some)

function ParamNames :: "string \<Rightarrow> string list" where
  "ParamNames pattern =
     (case cut_at CHR ''{'' pattern of
        None \<Rightarrow> []
      | Some (before, rest) \<Rightarrow>
          (case cut_at CHR ''}'' rest of
             None \<Rightarrow> []
           | Some (name, after) \<Rightarrow> name # ParamNames after))"
  by pat_completeness auto
termination
  by (relation "measure length") (auto dest!: cut_at_Some)

declare ColonPattern.simps [simp del] ParamNames.simps [simp del]

section \<open>Properties\<close>

lemma wrap_loop_foldr: "i \<le> length ms \<Longrightarrow> wrap_loop ms i h = foldr (\<lambda>m. m) (take i ms) h"
proof (induction i arbitrary: h)
  case (Suc i)
  then show ?case by (simp add: take_Suc_conv_app_nth)
qed simp

lemma cut_at_None: "cut_at c s = None \<longleftrightarrow> c \<notin> set s"
  by (induction s) (auto split: option.splits)

text \<open>
  The middlewares wrap the handler in their order, the first outermost, and prefixes add up: a route below two
  prefixes is registered under their concatenation.
\<close>

lemma router_composition:
  "WithMiddleware r (m # ms) method pattern handler = r method pattern (m (foldr (\<lambda>f. f) ms handler))
   \<and> WithPrefix (WithPrefix r a) b method pattern handler =
       r method (trim_suffix a ''/'' @ trim_suffix b ''/'' @ pattern) handler"
  by (simp add: WithMiddleware_def WithPrefix_def Let_def wrap_loop_foldr del: wrap_loop.simps)

text \<open>A canonical pattern: literal parts, each followed by a placeholder, and a last literal part.\<close>

definition canonical :: "(string \<times> string) list \<Rightarrow> string \<Rightarrow> string" where
  "canonical segs end_part = concat (map (\<lambda>(l, n). l @ ''{'' @ n @ ''}'') segs) @ end_part"

text \<open>
  \<open>ColonPattern\<close> and \<open>ParamNames\<close> read a canonical pattern the same way: every placeholder becomes a colon and
  its name, the text between them stays, and the names come in order.
\<close>

lemma pattern_conversion:
  assumes "\<forall>(l, n) \<in> set segs. CHR ''{'' \<notin> set l \<and> CHR ''}'' \<notin> set n" and "CHR ''{'' \<notin> set end_part"
  shows "ColonPattern (canonical segs end_part) = concat (map (\<lambda>(l, n). l @ '':'' @ n) segs) @ end_part
     \<and> ParamNames (canonical segs end_part) = map snd segs"
  using assms(1)
proof (induction segs)
  case Nil
  from assms(2) have "cut_at CHR ''{'' end_part = None" by (simp add: cut_at_None)
  then show ?case by (simp add: canonical_def ColonPattern.simps [of end_part] ParamNames.simps [of end_part])
next
  case (Cons s segs)
  obtain l n where s: "s = (l, n)" by (cases s)
  have p: "canonical (s # segs) end_part = l @ CHR ''{'' # n @ CHR ''}'' # canonical segs end_part"
    by (simp add: canonical_def s)
  from Cons.prems have "cut_at CHR ''{'' (canonical (s # segs) end_part) = Some (l, n @ CHR ''}'' # canonical segs end_part)"
    "cut_at CHR ''}'' (n @ CHR ''}'' # canonical segs end_part) = Some (n, canonical segs end_part)"
    unfolding p by (simp_all add: s cut_at_append)
  then show ?case
    using Cons.IH Cons.prems
    by (simp add: s ColonPattern.simps [of "canonical ((l, n) # segs) end_part"] ParamNames.simps [of "canonical ((l, n) # segs) end_part"])
qed

lemma pattern_conversion_witness:
  "ColonPattern ''/api/clients/{id}/secret'' = ''/api/clients/:id/secret''
     \<and> ParamNames ''/api/clients/{id}/secret'' = [''id'']"
  using pattern_conversion [of "[(''/api/clients/'', ''id'')]" "''/secret''"] by (simp add: canonical_def)

end
