(* ===== verification/Ui.thy ===== *)
theory Ui
  imports Account Session OAuthAuthorize Router
begin

text \<open>
  Package \<open>pkg/ui\<close>: the pages of login, logout, registration, activation and password reset, the session of the
  current user, and the interaction of the authorization endpoint. A response is a page with its data, for the
  templates to render, or a redirection; the templates themselves are rendering.
\<close>

section \<open>Pages and responses\<close>

definition PathHome :: string where [simp]: "PathHome = ''/''"
definition PathLogin :: string where [simp]: "PathLogin = ''/login''"
definition PathLogout :: string where [simp]: "PathLogout = ''/logout''"
definition PathRegister :: string where [simp]: "PathRegister = ''/register''"
definition PathActivate :: string where [simp]: "PathActivate = ''/activate''"
definition PathActivationResend :: string where [simp]: "PathActivationResend = ''/activation/resend''"
definition PathPasswordForgot :: string where [simp]: "PathPasswordForgot = ''/password/forgot''"
definition PathPasswordReset :: string where [simp]: "PathPasswordReset = ''/password/reset''"

text \<open>The data of the pages; a link is its target and text.\<close>

datatype page_data =
    NoData
  | MessageData string "(string \<times> string) list"
  | ConsentData string string "string list" string url_values
  | LoginData bool bool
  | PasswordData int
  | EmailFormData string string string

record Page =
  pg_AppName :: string
  pg_Title :: string
  pg_CSRF :: string
  pg_Error :: string
  pg_User :: "user option"
  pg_Form :: "string gomap"
  pg_Data :: page_data

text \<open>\<open>Redirected\<close> holds the target given to \<open>http.Redirect\<close>, \<open>Rendered\<close> the name of the template.\<close>

datatype ui_body = Rendered string Page | Redirected string

record ui_response =
  up_Status :: int
  up_Headers :: "(string \<times> string) list"
  up_Cookies :: "http_cookie list"
  up_Body :: ui_body

record 's ui_options =
  ui_Accounts :: "'s account_options"
  ui_Sessions :: session_options
  ui_BasePath :: string
  ui_ApplicationName :: string
  ui_AllowRegistration :: bool

type_synonym 's ui_act = "('s world, unit, ui_response) act"

text \<open>\<open>New\<close> up to the parsing of the templates.\<close>

definition ui_New :: "'s ui_options \<Rightarrow> 's ui_options" where
  "ui_New u = u\<lparr>ui_BasePath := trim_suffix (ui_BasePath u) ''/'',
     ui_ApplicationName := (if ui_ApplicationName u = '''' then ''Identity'' else ui_ApplicationName u)\<rparr>"

definition ui_url :: "'s ui_options \<Rightarrow> string \<Rightarrow> string" where
  "ui_url u path = ui_BasePath u @ path"

definition blank_page :: "string \<Rightarrow> Page" where
  "blank_page title = \<lparr>pg_AppName = '''', pg_Title = title, pg_CSRF = '''', pg_Error = '''', pg_User = None, pg_Form = [],
     pg_Data = NoData\<rparr>"

definition page_headers :: "(string \<times> string) list" where
  "page_headers = [(''Content-Type'', ''text/html; charset=utf-8''), (''Cache-Control'', ''no-store''),
     (''X-Content-Type-Options'', ''nosniff''), (''X-Frame-Options'', ''DENY''), (''Referrer-Policy'', ''no-referrer''),
     (''Content-Security-Policy'', ''default-src 'none'; style-src 'unsafe-inline'; img-src 'self' data:; frame-ancestors 'none'; base-uri 'none'' @ [CHR 0x27])]"

text \<open>\<open>cs\<close> are the cookies the handler has set before.\<close>

definition render ::
  "'s ui_options \<Rightarrow> http_request \<Rightarrow> http_cookie list \<Rightarrow> int \<Rightarrow> string \<Rightarrow> Page \<Rightarrow> 's ui_act" where
  "render u r cs status name p =
     andThen (CSRFToken (ui_Sessions u) r) (\<lambda>(tok, cs2, r2). ret
       \<lparr>up_Status = status, up_Headers = page_headers, up_Cookies = cs @ cs2,
        up_Body = Rendered name (p\<lparr>pg_AppName := ui_ApplicationName u, pg_CSRF := tok\<rparr>)\<rparr>)"

definition show_message ::
  "'s ui_options \<Rightarrow> http_request \<Rightarrow> http_cookie list \<Rightarrow> int \<Rightarrow> string \<Rightarrow> string \<Rightarrow> (string \<times> string) list \<Rightarrow> 's ui_act" where
  "show_message u r cs status title msg links =
     render u r cs status ''message'' ((blank_page title)\<lparr>pg_Data := MessageData msg links\<rparr>)"

definition ui_serverError :: "'s ui_options \<Rightarrow> http_request \<Rightarrow> account_error \<Rightarrow> 's ui_act" where
  "ui_serverError u r err =
     show_message u r [] 500 ''Something went wrong'' ''An unexpected error occurred. Please try again later.'' []"

definition ui_redirect :: "http_cookie list \<Rightarrow> string \<Rightarrow> 's ui_act" where
  "ui_redirect cs target =
     ret \<lparr>up_Status = 303, up_Headers = [(''Cache-Control'', ''no-store'')], up_Cookies = cs, up_Body = Redirected target\<rparr>"

definition safeReturnTo :: "'s ui_options \<Rightarrow> string \<Rightarrow> string" where
  "safeReturnTo u returnTo =
     (if length returnTo = 0 \<or> returnTo ! 0 \<noteq> CHR ''/''
         \<or> 1 < length returnTo \<and> (returnTo ! 1 = CHR ''/'' \<or> returnTo ! 1 = CHR 0x5C)
         \<or> list_ex (\<lambda>c. c \<in> {CHR 0x5C, CHR 0x0D, CHR 0x0A, CHR 0x09}) returnTo
      then ui_url u PathHome
      else case lib_url_parse (so_Lib (ui_Sessions u)) returnTo of
        None \<Rightarrow> ui_url u PathHome
      | Some parsed \<Rightarrow> if url_Scheme parsed \<noteq> '''' \<or> url_Host parsed \<noteq> '''' then ui_url u PathHome else returnTo)"

definition ui_verifyCSRF :: "'s ui_options \<Rightarrow> http_request \<Rightarrow> bool" where
  "ui_verifyCSRF u r \<longleftrightarrow> r_ParseForm r \<noteq> None \<and> VerifyCSRF (ui_Sessions u) r"

definition csrfMessage :: string where "csrfMessage = ''Your form has expired. Please try again.''"

section \<open>The current user\<close>

text \<open>The user of the session, and the cookies that remove it.\<close>

definition ui_CurrentUser :: "'s ui_options \<Rightarrow> http_request \<Rightarrow> ('s, user option \<times> http_cookie list) account_act" where
  "ui_CurrentUser u r =
     andThen (session_Get (ui_Sessions u) r) (\<lambda>found.
     case found of
       None \<Rightarrow> ret (None, [])
     | Some s \<Rightarrow>
         handle (account_GetUser (ui_Accounts u) (ss_UserId s))
           (\<lambda>e. if e = ErrUserNotFound then ret (None, [session_Destroy (ui_Sessions u)]) else fail e) (\<lambda>user.
         if u_SecurityStamp user \<noteq> ss_SecurityStamp s \<or> account_CanSignIn (ui_Accounts u) user \<noteq> None
         then ret (None, [session_Destroy (ui_Sessions u)]) else ret (Some user, [])))"

text \<open>The idiom \<open>user, err := u.CurrentUser(w, r); if err != nil { u.serverError(w, r, err); return }\<close>.\<close>

definition withUser :: "'s ui_options \<Rightarrow> http_request \<Rightarrow> (user option \<Rightarrow> http_cookie list \<Rightarrow> 's ui_act) \<Rightarrow> 's ui_act" where
  "withUser u r f = handle (ui_CurrentUser u r) (ui_serverError u r) (\<lambda>(user, cs). f user cs)"

section \<open>The interaction of the authorization endpoint\<close>

definition ui_interaction :: "'s ui_options \<Rightarrow> 's interaction" where
  "ui_interaction u =
     \<lparr>in_CurrentUser = (\<lambda>r. andThen (mapErr GAccount (ui_CurrentUser u r)) (\<lambda>(user, cs). ret user)),
      in_VerifyConsent = VerifyCSRF (ui_Sessions u)\<rparr>"

definition ui_Login :: "'s ui_options \<Rightarrow> string \<Rightarrow> 's ui_act" where
  "ui_Login u returnTo = ui_redirect [] (ui_url u PathLogin @ ''?'' @ Values_Encode [(''return_to'', [returnTo])])"

definition ui_Consent :: "'s ui_options \<Rightarrow> http_request \<Rightarrow> ConsentRequest \<Rightarrow> 's ui_act" where
  "ui_Consent u r req =
     (let name = (if c_Name (cr_Client req) = '''' then c_ClientId (cr_Client req) else c_Name (cr_Client req))
      in render u r [] 200 ''consent'' ((blank_page (''Authorize '' @ name))
           \<lparr>pg_User := Some (cr_User req),
            pg_Data := ConsentData name (c_Description (cr_Client req)) (cr_Scopes req) (cr_Action req) (cr_Params req)\<rparr>))"

definition ui_Error :: "'s ui_options \<Rightarrow> http_request \<Rightarrow> oauth_error \<Rightarrow> 's ui_act" where
  "ui_Error u r err =
     (let status = (if oe_Status err = 0 \<or> oe_Status err = 401 then 400 else oe_Status err);
          msg = (if oe_Description err = '''' then oe_Code err else oe_Description err)
      in show_message u r [] status ''Authorization failed'' (''The authorization request is invalid: '' @ msg @ ''.'') [])"

section \<open>Login and logout\<close>

definition home :: "'s ui_options \<Rightarrow> http_request \<Rightarrow> 's ui_act" where
  "home u r = withUser u r (\<lambda>user cs.
     case user of
       None \<Rightarrow> ui_redirect cs (ui_url u PathLogin)
     | Some x \<Rightarrow> render u r cs 200 ''home'' ((blank_page ''Your account'')\<lparr>pg_User := Some x\<rparr>))"

definition renderLogin ::
  "'s ui_options \<Rightarrow> http_request \<Rightarrow> http_cookie list \<Rightarrow> int \<Rightarrow> string gomap \<Rightarrow> string \<Rightarrow> bool \<Rightarrow> 's ui_act" where
  "renderLogin u r cs status form errMsg showResend =
     render u r cs status ''login'' ((blank_page ''Sign in'')
       \<lparr>pg_Error := errMsg, pg_Form := form, pg_Data := LoginData (ui_AllowRegistration u) showResend\<rparr>)"

definition loginPage :: "'s ui_options \<Rightarrow> http_request \<Rightarrow> 's ui_act" where
  "loginPage u r =
     (let returnTo = safeReturnTo u (Values_Get (r_Query r) ''return_to'')
      in withUser u r (\<lambda>user cs.
         if user \<noteq> None \<and> Values_Get (r_Query r) ''prompt'' \<noteq> ''login'' then ui_redirect cs returnTo
         else renderLogin u r cs 200 [(''return_to'', returnTo)] '''' False))"

definition loginSubmit :: "'s ui_options \<Rightarrow> http_request \<Rightarrow> 's ui_act" where
  "loginSubmit u r =
     (let login = trim_space (Values_Get (PostForm r) ''login'');
          returnTo = safeReturnTo u (Values_Get (PostForm r) ''return_to'');
          form = [(''login'', login), (''return_to'', returnTo)]
      in if \<not> ui_verifyCSRF u r then renderLogin u r [] 400 form csrfMessage False
         else handle (account_Authenticate (ui_Accounts u) login (Values_Get (PostForm r) ''password''))
           (\<lambda>e. if e = ErrInvalidCredentials then renderLogin u r [] 401 form ''Invalid username or password.'' False
                else if e = ErrLockedOut then renderLogin u r [] 401 form
                  ''Your account is temporarily locked because of too many failed sign in attempts. Please try again later.'' False
                else if e = ErrDisabled then renderLogin u r [] 401 form ''Your account is disabled.'' False
                else if e = ErrNotActivated then renderLogin u r [] 401 form
                  ''Your account is not activated yet. Please use the link in the activation email.'' True
                else ui_serverError u r e)
           (\<lambda>user. andThen (session_Create (ui_Sessions u) (u_Id user) (u_SecurityStamp user)) (\<lambda>(s, c).
              ui_redirect [c] returnTo)))"

definition logoutPage :: "'s ui_options \<Rightarrow> http_request \<Rightarrow> 's ui_act" where
  "logoutPage u r = withUser u r (\<lambda>user cs.
     case user of
       None \<Rightarrow> show_message u r cs 200 ''Signed out'' ''You are signed out.'' [(ui_url u PathLogin, ''Sign in'')]
     | Some x \<Rightarrow> render u r cs 200 ''logout'' ((blank_page ''Sign out'')\<lparr>pg_User := Some x\<rparr>))"

definition logoutSubmit :: "'s ui_options \<Rightarrow> http_request \<Rightarrow> 's ui_act" where
  "logoutSubmit u r =
     (if \<not> ui_verifyCSRF u r then render u r [] 400 ''logout'' ((blank_page ''Sign out'')\<lparr>pg_Error := csrfMessage\<rparr>)
      else show_message u r [session_Destroy (ui_Sessions u)] 200 ''Signed out'' ''You have been signed out.''
        [(ui_url u PathLogin, ''Sign in again'')])"

section \<open>Registration and activation\<close>

definition passwordData :: "'s ui_options \<Rightarrow> page_data" where
  "passwordData u = PasswordData (ao_MinPasswordLength (ui_Accounts u))"

text \<open>\<open>strings.ToUpper\<close> of the first byte; a byte that is no character becomes U+FFFD.\<close>

definition capitalize :: "string \<Rightarrow> string" where
  "capitalize s =
     (case s of [] \<Rightarrow> []
      | c # cs \<Rightarrow> (if byte_of c < 128 then [ascii_upper c] else [CHR 0xEF, CHR 0xBF, CHR 0xBD]) @ cs)"

definition registerPage :: "'s ui_options \<Rightarrow> http_request \<Rightarrow> 's ui_act" where
  "registerPage u r = render u r [] 200 ''register'' ((blank_page ''Create an account'')\<lparr>pg_Data := passwordData u\<rparr>)"

definition registerSubmit :: "'s ui_options \<Rightarrow> http_request \<Rightarrow> 's ui_act" where
  "registerSubmit u r =
     (let username = trim_space (Values_Get (PostForm r) ''username''); email = trim_space (Values_Get (PostForm r) ''email'');
          failed = (\<lambda>status msg. render u r [] status ''register'' ((blank_page ''Create an account'')
            \<lparr>pg_Error := msg, pg_Form := [(''username'', username), (''email'', email)], pg_Data := passwordData u\<rparr>));
          password = Values_Get (PostForm r) ''password''
      in if \<not> ui_verifyCSRF u r then failed 400 csrfMessage
         else if password \<noteq> Values_Get (PostForm r) ''password_confirm''
         then failed 400 (''The passwords don'' @ [CHR 0x27] @ ''t match.'')
         else handle (account_Register (ui_Accounts u) username email password)
           (\<lambda>e. case e of
                  ErrValidation v \<Rightarrow> failed 400 (capitalize (validation_error_Error v) @ ''.'')
                | ErrUserExists \<Rightarrow> failed 409 ''The username or email address is already in use.''
                | _ \<Rightarrow> ui_serverError u r e)
           (\<lambda>_. if ao_RequireActivation (ui_Accounts u)
              then show_message u r [] 200 ''Check your email''
                (''Your account has been created. We sent an activation link to '' @ email
                  @ ''. Please follow the link to activate your account.'')
                [(ui_url u PathActivationResend, ''Didn'' @ [CHR 0x27] @ ''t receive the email?'')]
              else show_message u r [] 200 ''Account created'' ''Your account has been created.''
                [(ui_url u PathLogin, ''Sign in'')]))"

definition ui_activate :: "'s ui_options \<Rightarrow> http_request \<Rightarrow> 's ui_act" where
  "ui_activate u r =
     handle (account_Activate (ui_Accounts u) (Values_Get (r_Query r) ''token''))
       (\<lambda>e. if e = ErrInvalidToken
            then show_message u r [] 400 ''Activation failed'' ''The activation link is invalid or has expired.''
              [(ui_url u PathActivationResend, ''Send a new activation link'')]
            else ui_serverError u r e)
       (\<lambda>_. show_message u r [] 200 ''Account activated'' ''Your account is activated. You can now sign in.''
          [(ui_url u PathLogin, ''Sign in'')])"

definition resendData :: page_data where
  "resendData = EmailFormData
     (''Enter the email address of your account and we'' @ [CHR 0x27] @ ''ll send you a new activation link.'')
     PathActivationResend ''Send activation link''"

definition resendPage :: "'s ui_options \<Rightarrow> http_request \<Rightarrow> 's ui_act" where
  "resendPage u r = render u r [] 200 ''email_form'' ((blank_page ''Activate your account'')\<lparr>pg_Data := resendData\<rparr>)"

definition resendSubmit :: "'s ui_options \<Rightarrow> http_request \<Rightarrow> 's ui_act" where
  "resendSubmit u r =
     (let email = trim_space (Values_Get (PostForm r) ''email'')
      in if \<not> ui_verifyCSRF u r
         then render u r [] 400 ''email_form'' ((blank_page ''Activate your account'')
           \<lparr>pg_Error := csrfMessage, pg_Form := [(''email'', email)], pg_Data := resendData\<rparr>)
         else handle (account_ResendActivation (ui_Accounts u) email) (ui_serverError u r)
           (\<lambda>_. show_message u r [] 200 ''Check your email''
              (''If an account that is not activated yet exists for '' @ email @ '', we sent a new activation link to it.'')
              [(ui_url u PathLogin, ''Back to sign in'')]))"

section \<open>Password reset\<close>

definition forgotData :: page_data where
  "forgotData = EmailFormData
     (''Enter the email address of your account and we'' @ [CHR 0x27] @ ''ll send you a link to choose a new password.'')
     PathPasswordForgot ''Send reset link''"

definition forgotTitle :: string where "forgotTitle = ''Forgot your password?''"

definition forgotPage :: "'s ui_options \<Rightarrow> http_request \<Rightarrow> 's ui_act" where
  "forgotPage u r = render u r [] 200 ''email_form'' ((blank_page forgotTitle)\<lparr>pg_Data := forgotData\<rparr>)"

definition forgotSubmit :: "'s ui_options \<Rightarrow> http_request \<Rightarrow> 's ui_act" where
  "forgotSubmit u r =
     (let email = trim_space (Values_Get (PostForm r) ''email'')
      in if \<not> ui_verifyCSRF u r
         then render u r [] 400 ''email_form'' ((blank_page forgotTitle)
           \<lparr>pg_Error := csrfMessage, pg_Form := [(''email'', email)], pg_Data := forgotData\<rparr>)
         else handle (account_RequestPasswordReset (ui_Accounts u) email) (ui_serverError u r)
           (\<lambda>_. show_message u r [] 200 ''Check your email''
              (''If an account exists for '' @ email @ '', we sent a link to reset the password.'')
              [(ui_url u PathLogin, ''Back to sign in'')]))"

definition invalidResetLink :: "'s ui_options \<Rightarrow> http_request \<Rightarrow> 's ui_act" where
  "invalidResetLink u r =
     show_message u r [] 400 ''Reset your password'' ''The password reset link is invalid or has expired.''
       [(ui_url u PathPasswordForgot, ''Request a new link'')]"

definition resetPage :: "'s ui_options \<Rightarrow> http_request \<Rightarrow> 's ui_act" where
  "resetPage u r =
     (let tok = Values_Get (r_Query r) ''token''
      in handle (account_VerifyPasswordResetToken (ui_Accounts u) tok)
           (\<lambda>e. if e = ErrInvalidToken then invalidResetLink u r else ui_serverError u r e)
           (\<lambda>_. render u r [] 200 ''password_reset'' ((blank_page ''Choose a new password'')
              \<lparr>pg_Form := [(''token'', tok)], pg_Data := passwordData u\<rparr>)))"

definition resetSubmit :: "'s ui_options \<Rightarrow> http_request \<Rightarrow> 's ui_act" where
  "resetSubmit u r =
     (let tok = Values_Get (PostForm r) ''token'';
          failed = (\<lambda>status msg. render u r [] status ''password_reset'' ((blank_page ''Choose a new password'')
            \<lparr>pg_Error := msg, pg_Form := [(''token'', tok)], pg_Data := passwordData u\<rparr>));
          password = Values_Get (PostForm r) ''password''
      in if \<not> ui_verifyCSRF u r then failed 400 csrfMessage
         else if password \<noteq> Values_Get (PostForm r) ''password_confirm''
         then failed 400 (''The passwords don'' @ [CHR 0x27] @ ''t match.'')
         else handle (account_ResetPassword (ui_Accounts u) tok password)
           (\<lambda>e. case e of
                  ErrValidation v \<Rightarrow> failed 400 (capitalize (validation_error_Error v) @ ''.'')
                | ErrInvalidToken \<Rightarrow> invalidResetLink u r
                | _ \<Rightarrow> ui_serverError u r e)
           (\<lambda>_. show_message u r [session_Destroy (ui_Sessions u)] 200 ''Password changed''
              ''Your password has been changed. You can now sign in with your new password.''
              [(ui_url u PathLogin, ''Sign in'')]))"

section \<open>Routes\<close>

definition ui_routes :: "'s ui_options \<Rightarrow> (string \<times> string \<times> (http_request \<Rightarrow> 's ui_act)) list" where
  "ui_routes u =
     [(''GET'', PathHome, home u), (''GET'', PathLogin, loginPage u), (''POST'', PathLogin, loginSubmit u),
      (''GET'', PathLogout, logoutPage u), (''POST'', PathLogout, logoutSubmit u)]
     @ (if ui_AllowRegistration u
        then [(''GET'', PathRegister, registerPage u), (''POST'', PathRegister, registerSubmit u)] else [])
     @ [(''GET'', PathActivate, ui_activate u), (''GET'', PathActivationResend, resendPage u),
        (''POST'', PathActivationResend, resendSubmit u), (''GET'', PathPasswordForgot, forgotPage u),
        (''POST'', PathPasswordForgot, forgotSubmit u), (''GET'', PathPasswordReset, resetPage u),
        (''POST'', PathPasswordReset, resetSubmit u)]"

definition ui_RegisterRoutes :: "'s ui_options \<Rightarrow> (http_request \<Rightarrow> 's ui_act, 'r) router \<Rightarrow> 'r \<Rightarrow> 'r" where
  "ui_RegisterRoutes u router s0 = foldl (\<lambda>s (method, pattern, h). router method pattern h s) s0 (ui_routes u)"

end
