(* ===== verification/Api.thy ===== *)
theory Api
  imports Account OAuthBase Router
begin

text \<open>
  Package \<open>pkg/api\<close>: the management API over the store and the account service. A handler is an action that
  returns its response; a failing call inside it is a response already, because the code writes it and returns.
  The decoding of request bodies by \<open>encoding/json\<close> is a parameter of the options.
\<close>

section \<open>Requests and responses\<close>

text \<open>Integers of the requests have 64 bits; a duration is their product with the nanoseconds of a second.\<close>

definition wrap64 :: "int \<Rightarrow> int" where
  "wrap64 i = sint (word_of_int i :: 64 word)"

definition seconds :: "duration \<Rightarrow> int" where
  "seconds d = quot d second"

definition api_duration :: "int \<Rightarrow> duration" where
  "api_duration s = wrap64 (s * second)"

record ClientRequest =
  cr_ClientId :: string
  cr_Name :: string
  cr_Description :: string
  cr_Type :: string
  cr_RedirectUris :: "string list"
  cr_AllowedScopes :: "string list"
  cr_DefaultScopes :: "string list"
  cr_GrantTypes :: "string list"
  cr_RequireConsent :: bool
  cr_RequirePkce :: bool
  cr_Enabled :: "bool option"
  cr_AccessTokenLifetime :: int
  cr_AuthorizationCodeLifetime :: int
  cr_RefreshTokenLifetime :: int
  cr_RefreshTokenUsage :: string
  cr_RefreshTokenExpiration :: string

record CreateUserRequest =
  cu_Username :: string
  cu_Email :: string
  cu_Password :: string
  cu_EmailVerified :: bool
  cu_Enabled :: "bool option"
  cu_SendActivation :: bool

record UpdateUserRequest =
  uu_Username :: string
  uu_Email :: string
  uu_EmailVerified :: bool
  uu_Enabled :: bool

record PasswordRequest =
  pr_Password :: string

text \<open>The representations the API returns; nil slices and empty ones are the same list.\<close>

record api_Client =
  xc_Id :: string
  xc_ClientId :: string
  xc_Name :: string
  xc_Description :: string
  xc_Type :: string
  xc_HasSecret :: bool
  xc_RedirectUris :: "string list"
  xc_AllowedScopes :: "string list"
  xc_DefaultScopes :: "string list"
  xc_GrantTypes :: "string list"
  xc_RequireConsent :: bool
  xc_RequirePkce :: bool
  xc_Enabled :: bool
  xc_AccessTokenLifetime :: int
  xc_AuthorizationCodeLifetime :: int
  xc_RefreshTokenLifetime :: int
  xc_RefreshTokenUsage :: string
  xc_RefreshTokenExpiration :: string
  xc_CreatedAt :: time
  xc_UpdatedAt :: time

record api_User =
  xu_Id :: string
  xu_Username :: string
  xu_Email :: string
  xu_EmailVerified :: bool
  xu_Enabled :: bool
  xu_HasPassword :: bool
  xu_LockedOut :: bool
  xu_LockoutEnd :: "time option"
  xu_FailedLoginCount :: int
  xu_LastLoginAt :: "time option"
  xu_CreatedAt :: time
  xu_UpdatedAt :: time

record api_AccessToken =
  xa_Id :: string
  xa_ClientId :: string
  xa_UserId :: string
  xa_Scopes :: "string list"
  xa_AuthorizationCodeId :: string
  xa_Expired :: bool
  xa_CreatedAt :: time
  xa_ExpiresAt :: time

record api_RefreshToken =
  xr_Id :: string
  xr_ClientId :: string
  xr_UserId :: string
  xr_AccessTokenId :: string
  xr_AuthorizationCodeId :: string
  xr_Scopes :: "string list"
  xr_Usage :: string
  xr_Expiration :: string
  xr_Expired :: bool
  xr_CreatedAt :: time
  xr_UpdatedAt :: time
  xr_ExpiresAt :: time

record api_Error =
  xe_Code :: string
  xe_Description :: string
  xe_Field :: string

record 'a ListResponse =
  lr_Items :: "'a list"
  lr_Total :: nat
  lr_Offset :: int
  lr_Limit :: int

datatype api_body =
    ErrorBody api_Error | BearerErrorBody oauth_error
  | ClientBody api_Client | ClientWithSecret api_Client string | SecretResponse string
  | ClientList "api_Client ListResponse"
  | UserBody api_User | UserList "api_User ListResponse" | RevokeResponse nat nat
  | AccessTokenBody api_AccessToken | AccessTokenList "api_AccessToken ListResponse"
  | RefreshTokenBody api_RefreshToken | RefreshTokenList "api_RefreshToken ListResponse"
  | DeleteResponse nat | NoBody

type_synonym api_response = "api_body http_response"

text \<open>
  A request: the path and its parameter \<open>id\<close>, the query, two headers and the body. The decoders of the
  options give for a body the error text of \<open>Decode\<close>, or the value and whether the body ends after it.
\<close>

record api_request =
  aq_Path :: string
  aq_Id :: string
  aq_Query :: url_values
  aq_ContentType :: string
  aq_Authorization :: string
  aq_Body :: string

type_synonym 'v decoder = "string \<Rightarrow> string + ('v \<times> bool)"

record 's api_options =
  ap_Store :: "'s store_ops"
  ap_Accounts :: "'s account_options"
  ap_Hasher :: hasher
  ap_Lib :: golib
  ap_DecodeClient :: "ClientRequest decoder"
  ap_DecodeCreateUser :: "CreateUserRequest decoder"
  ap_DecodeUpdateUser :: "UpdateUserRequest decoder"
  ap_DecodePassword :: "PasswordRequest decoder"

type_synonym ('s, 'a) api_act = "('s world, api_response, 'a) act"

definition api_writeError :: "int \<Rightarrow> string \<Rightarrow> string \<Rightarrow> api_response" where
  "api_writeError status code description =
     WriteJSON [] status (ErrorBody \<lparr>xe_Code = code, xe_Description = description, xe_Field = ''''\<rparr>)"

text \<open>\<open>w.WriteHeader(status)\<close> without a body.\<close>

definition WriteHeader :: "int \<Rightarrow> api_response" where
  "WriteHeader status = \<lparr>p_Status = status, p_Headers = [], p_Body = NoBody\<rparr>"

definition handleError :: "account_error \<Rightarrow> api_response" where
  "handleError err =
     (case err of
        ErrValidation v \<Rightarrow> WriteJSON [] 400 (ErrorBody
          \<lparr>xe_Code = ''validation_failed'', xe_Description = validation_error_Error v, xe_Field = ve_Field v\<rparr>)
      | ErrStore ErrNotFound \<Rightarrow> api_writeError 404 ''not_found'' (''the resource doesn'' @ [CHR 0x27] @ ''t exist'')
      | ErrUserNotFound \<Rightarrow> api_writeError 404 ''not_found'' (''the resource doesn'' @ [CHR 0x27] @ ''t exist'')
      | ErrStore ErrDuplicate \<Rightarrow> api_writeError 409 ''conflict'' ''a resource with the same unique value already exists''
      | ErrUserExists \<Rightarrow> api_writeError 409 ''conflict'' ''a resource with the same unique value already exists''
      | _ \<Rightarrow> api_writeError 500 ''server_error'' ''an unexpected error occurred'')"

text \<open>The idiom \<open>if err != nil { a.handleError(w, r, err); return }\<close>, for the service and for the store.\<close>

definition tried :: "('s, 'a) account_act \<Rightarrow> ('s, 'a) api_act" where
  "tried m = mapErr handleError m"

definition tried_store :: "('s, store_error, 'a) act \<Rightarrow> ('s, 'a) api_act" where
  "tried_store m = tried (store_call m)"

text \<open>A handler answers with the response it fails with or returns.\<close>

definition answer :: "('s, api_response) api_act \<Rightarrow> ('s world, unit, api_response) act" where
  "answer m = handle m ret ret"

definition decode :: "'s api_options \<Rightarrow> 'v decoder \<Rightarrow> api_request \<Rightarrow> ('s, 'v) api_act" where
  "decode a dec r =
     (if lib_parse_media_type (ap_Lib a) (aq_ContentType r) \<noteq> Some ''application/json''
      then fail (api_writeError 415 ''invalid_request'' ''the content type must be application/json'')
      else case dec (aq_Body r) of
        Inl err \<Rightarrow> fail (api_writeError 400 ''invalid_request'' (''the request body is invalid: '' @ err))
      | Inr (v, single) \<Rightarrow>
          if \<not> single then fail (api_writeError 400 ''invalid_request'' ''the request body must contain a single JSON object'')
          else ret v)"

section \<open>Lists\<close>

text \<open>\<open>strconv.Atoi\<close>, \<^const>\<open>None\<close> for its error.\<close>

definition digit :: "char \<Rightarrow> nat option" where
  "digit c = (if 48 \<le> byte_of c \<and> byte_of c \<le> 57 then Some (byte_of c - 48) else None)"

definition atoi :: "string \<Rightarrow> int option" where
  "atoi s =
     (let neg = (s \<noteq> [] \<and> hd s = CHR ''-'');
          ds = (if s \<noteq> [] \<and> (hd s = CHR ''-'' \<or> hd s = CHR ''+'') then tl s else s);
          n = foldl (\<lambda>x c. 10 * x + (case digit c of Some d \<Rightarrow> int d | None \<Rightarrow> 0)) 0 ds;
          i = (if neg then - n else n)
      in if ds = [] \<or> list_ex (\<lambda>c. digit c = None) ds \<or> i < - (2 ^ 63) \<or> 2 ^ 63 \<le> i then None else Some i)"

text \<open>
  The loop of \<open>listOptions\<close> over a map with two keys: Go chooses the order of the iteration, so it is an argument.
\<close>

fun read_options :: "string list \<Rightarrow> url_values \<Rightarrow> ListOptions \<Rightarrow> api_response + ListOptions" where
  "read_options [] q opts = Inr opts"
| "read_options (name # names) q opts =
     (let v = Values_Get q name
      in if v = '''' then read_options names q opts
         else case atoi v of
             None \<Rightarrow> Inl (api_writeError 400 ''invalid_request'' (''the '' @ name @ '' parameter must be a positive number''))
           | Some n \<Rightarrow>
               if n < 0 then Inl (api_writeError 400 ''invalid_request'' (''the '' @ name @ '' parameter must be a positive number''))
               else read_options names q
                 (if name = ''offset'' then opts\<lparr>lo_Offset := n\<rparr> else opts\<lparr>lo_Limit := n\<rparr>))"

definition listOptions :: "string list \<Rightarrow> api_request \<Rightarrow> ('s, ListOptions) api_act" where
  "listOptions order r =
     (case read_options order (aq_Query r) \<lparr>lo_Offset = 0, lo_Limit = 0\<rparr> of
        Inl e \<Rightarrow> fail e | Inr opts \<Rightarrow> ret (ListOptions_Normalize opts))"

fun convert_all :: "('a \<Rightarrow> ('s, 'b) api_act) \<Rightarrow> 'a list \<Rightarrow> ('s, 'b list) api_act" where
  "convert_all convert [] = ret []"
| "convert_all convert (x # xs) =
     andThen (convert x) (\<lambda>y. andThen (convert_all convert xs) (\<lambda>ys. ret (y # ys)))"

definition respondList ::
  "('b ListResponse \<Rightarrow> api_body) \<Rightarrow> 'a list \<Rightarrow> nat \<Rightarrow> ListOptions \<Rightarrow> ('a \<Rightarrow> ('s, 'b) api_act) \<Rightarrow> ('s, api_response) api_act"
  where
  "respondList body items n opts convert =
     andThen (convert_all convert items) (\<lambda>result.
     ret (WriteJSON [] 200 (body \<lparr>lr_Items = result, lr_Total = n, lr_Offset = lo_Offset opts, lr_Limit = lo_Limit opts\<rparr>)))"

section \<open>Clients\<close>

definition toClient :: "client \<Rightarrow> api_Client" where
  "toClient c =
     \<lparr>xc_Id = c_Id c, xc_ClientId = c_ClientId c, xc_Name = c_Name c, xc_Description = c_Description c, xc_Type = c_Type c,
      xc_HasSecret = (c_SecretHash c \<noteq> ''''), xc_RedirectUris = c_RedirectUris c, xc_AllowedScopes = c_AllowedScopes c,
      xc_DefaultScopes = c_DefaultScopes c, xc_GrantTypes = c_AllowedGrantTypes c, xc_RequireConsent = c_RequireConsent c,
      xc_RequirePkce = c_RequirePkce c, xc_Enabled = c_Enabled c, xc_AccessTokenLifetime = seconds (c_AccessTokenLifetime c),
      xc_AuthorizationCodeLifetime = seconds (c_AuthorizationCodeLifetime c),
      xc_RefreshTokenLifetime = seconds (c_RefreshTokenLifetime c), xc_RefreshTokenUsage = c_RefreshTokenUsage c,
      xc_RefreshTokenExpiration = c_RefreshTokenExpiration c, xc_CreatedAt = c_CreatedAt c, xc_UpdatedAt = c_UpdatedAt c\<rparr>"

text \<open>The assignments of \<open>apply\<close>, and the method.\<close>

definition copyRequest :: "ClientRequest \<Rightarrow> client \<Rightarrow> client" where
  "copyRequest req c = c
     \<lparr>c_ClientId := cr_ClientId req, c_Name := cr_Name req, c_Description := cr_Description req, c_Type := cr_Type req,
      c_RedirectUris := cr_RedirectUris req, c_AllowedScopes := cr_AllowedScopes req,
      c_DefaultScopes := cr_DefaultScopes req, c_AllowedGrantTypes := cr_GrantTypes req,
      c_RequireConsent := cr_RequireConsent req, c_RequirePkce := cr_RequirePkce req,
      c_Enabled := (case cr_Enabled req of Some b \<Rightarrow> b | None \<Rightarrow> c_Enabled c),
      c_AccessTokenLifetime := api_duration (cr_AccessTokenLifetime req),
      c_AuthorizationCodeLifetime := api_duration (cr_AuthorizationCodeLifetime req),
      c_RefreshTokenLifetime := api_duration (cr_RefreshTokenLifetime req),
      c_RefreshTokenUsage := cr_RefreshTokenUsage req, c_RefreshTokenExpiration := cr_RefreshTokenExpiration req\<rparr>"

definition applyRequest :: "golib \<Rightarrow> ClientRequest \<Rightarrow> client \<Rightarrow> validation_error + client" where
  "applyRequest lib req c0 =
     (let c = EnsureDefaults (copyRequest req c0)
      in if 10 * minute < c_AuthorizationCodeLifetime c
         then Inl (NewValidationError ''authorization_code_lifetime'' ''must not exceed 600 seconds'')
         else case client_Validate lib c of Some e \<Rightarrow> Inl e | None \<Rightarrow> Inr c)"

definition apply_request :: "'s api_options \<Rightarrow> ClientRequest \<Rightarrow> client \<Rightarrow> ('s, client) api_act" where
  "apply_request a req c =
     (case applyRequest (ap_Lib a) req c of Inl e \<Rightarrow> fail (handleError (ErrValidation e)) | Inr c' \<Rightarrow> ret c')"

definition api_revokeTokens :: "'s api_options \<Rightarrow> TokenFilter \<Rightarrow> ('s, unit) account_act" where
  "api_revokeTokens a flt =
     andThen (store_call (DeleteRefreshTokens (ap_Store a) flt)) (\<lambda>_.
     andThen (store_call (DeleteAccessTokens (ap_Store a) flt)) (\<lambda>_. ret ()))"

definition listClients :: "'s api_options \<Rightarrow> string list \<Rightarrow> api_request \<Rightarrow> ('s, api_response) api_act" where
  "listClients a order r =
     andThen (listOptions order r) (\<lambda>opts.
     andThen (tried_store (ListClients (ap_Store a) opts)) (\<lambda>(clients, n).
     respondList ClientList clients n opts (\<lambda>c. ret (toClient c))))"

definition getClient :: "'s api_options \<Rightarrow> api_request \<Rightarrow> ('s, api_response) api_act" where
  "getClient a r =
     andThen (tried_store (GetClientById (ap_Store a) (aq_Id r))) (\<lambda>client.
     ret (WriteJSON [] 200 (ClientBody (toClient client))))"

text \<open>The client that \<open>createClient\<close> starts from, and the block that gives a confidential client its secret.\<close>

definition emptyClient :: "string \<Rightarrow> time \<Rightarrow> client" where
  "emptyClient k now =
     \<lparr>c_Id = k, c_ClientId = '''', c_Name = '''', c_Description = '''', c_Type = '''', c_SecretHash = '''', c_RedirectUris = [],
      c_AllowedScopes = [], c_DefaultScopes = [], c_AllowedGrantTypes = [], c_RequireConsent = False, c_RequirePkce = False,
      c_Enabled = True, c_AccessTokenLifetime = 0, c_AuthorizationCodeLifetime = 0, c_RefreshTokenUsage = '''',
      c_RefreshTokenExpiration = '''', c_RefreshTokenLifetime = 0, c_CreatedAt = now, c_UpdatedAt = now\<rparr>"

definition newSecret :: "'s api_options \<Rightarrow> client \<Rightarrow> ('s, client \<times> string) api_act" where
  "newSecret a client =
     andThen NewToken (\<lambda>secret.
     andThen (tried (mapErr ErrHasher (hash_secret (ap_Hasher a) secret))) (\<lambda>hash.
     ret (client\<lparr>c_SecretHash := hash\<rparr>, secret)))"

definition createClient :: "'s api_options \<Rightarrow> api_request \<Rightarrow> ('s, api_response) api_act" where
  "createClient a r =
     andThen (decode a (ap_DecodeClient a) r) (\<lambda>req.
     andThen clock_now (\<lambda>now.
     andThen NewId (\<lambda>k.
     andThen (apply_request a req (emptyClient k now)) (\<lambda>client0.
     andThen (if \<not> client_IsPublic client0 then newSecret a client0 else ret (client0, '''')) (\<lambda>(client, secret).
     andThen (tried_store (CreateClient (ap_Store a) client)) (\<lambda>_.
     ret (WriteJSON [(''Location'', aq_Path r @ ''/'' @ c_Id client)] 201 (ClientWithSecret (toClient client) secret))))))))"

text \<open>The assignments of \<open>updateClient\<close> after \<open>apply\<close>.\<close>

definition touchClient :: "time \<Rightarrow> client \<Rightarrow> client" where
  "touchClient now c = (if client_IsPublic c then c\<lparr>c_SecretHash := ''''\<rparr> else c)\<lparr>c_UpdatedAt := now\<rparr>"

definition updateClient :: "'s api_options \<Rightarrow> api_request \<Rightarrow> ('s, api_response) api_act" where
  "updateClient a r =
     andThen (decode a (ap_DecodeClient a) r) (\<lambda>req.
     andThen (tried_store (GetClientById (ap_Store a) (aq_Id r))) (\<lambda>current.
     andThen (apply_request a req current) (\<lambda>client0.
     andThen clock_now (\<lambda>now.
     let client = touchClient now client0
     in andThen (tried_store (UpdateClient (ap_Store a) client)) (\<lambda>_.
        andThen (if c_Enabled current \<and> \<not> c_Enabled client
                 then tried (api_revokeTokens a (empty_filter\<lparr>tf_ClientId := c_Id client\<rparr>)) else ret ()) (\<lambda>_.
        ret (WriteJSON [] 200 (ClientBody (toClient client)))))))))"

definition deleteClient :: "'s api_options \<Rightarrow> api_request \<Rightarrow> ('s, api_response) api_act" where
  "deleteClient a r =
     andThen (tried_store (DeleteClient (ap_Store a) (aq_Id r))) (\<lambda>_.
     andThen (tried (api_revokeTokens a (empty_filter\<lparr>tf_ClientId := aq_Id r\<rparr>))) (\<lambda>_. ret (WriteHeader 204)))"

definition regenerateClientSecret :: "'s api_options \<Rightarrow> api_request \<Rightarrow> ('s, api_response) api_act" where
  "regenerateClientSecret a r =
     andThen (tried_store (GetClientById (ap_Store a) (aq_Id r))) (\<lambda>client0.
     if client_IsPublic client0
     then fail (api_writeError 400 ''invalid_request'' (''public clients don'' @ [CHR 0x27] @ ''t have a secret''))
     else andThen (newSecret a client0) (\<lambda>(client1, secret).
       andThen clock_now (\<lambda>now.
       andThen (tried_store (UpdateClient (ap_Store a) (client1\<lparr>c_UpdatedAt := now\<rparr>))) (\<lambda>_.
       ret (WriteJSON [] 200 (SecretResponse secret))))))"

section \<open>Users\<close>

definition toUser :: "user \<Rightarrow> ('s, api_User) api_act" where
  "toUser u =
     andThen clock_now (\<lambda>now. ret
       \<lparr>xu_Id = u_Id u, xu_Username = u_Username u, xu_Email = u_Email u, xu_EmailVerified = u_EmailVerified u,
        xu_Enabled = u_Enabled u, xu_HasPassword = (u_PasswordHash u \<noteq> ''''), xu_LockedOut = IsLockedOut u now,
        xu_LockoutEnd = u_LockoutEnd u, xu_FailedLoginCount = u_FailedLoginCount u, xu_LastLoginAt = u_LastLoginAt u,
        xu_CreatedAt = u_CreatedAt u, xu_UpdatedAt = u_UpdatedAt u\<rparr>)"

definition respondUser :: "(string \<times> string) list \<Rightarrow> int \<Rightarrow> user \<Rightarrow> ('s, api_response) api_act" where
  "respondUser headers status user = andThen (toUser user) (\<lambda>x. ret (WriteJSON headers status (UserBody x)))"

definition listUsers :: "'s api_options \<Rightarrow> string list \<Rightarrow> api_request \<Rightarrow> ('s, api_response) api_act" where
  "listUsers a order r =
     andThen (listOptions order r) (\<lambda>opts.
     andThen (tried_store (ListUsers (ap_Store a) \<lparr>uf_Search = Values_Get (aq_Query r) ''search''\<rparr> opts)) (\<lambda>(users, n).
     respondList UserList users n opts toUser))"

definition getUser :: "'s api_options \<Rightarrow> api_request \<Rightarrow> ('s, api_response) api_act" where
  "getUser a r = andThen (tried (account_GetUser (ap_Accounts a) (aq_Id r))) (respondUser [] 200)"

definition createUser :: "'s api_options \<Rightarrow> api_request \<Rightarrow> ('s, api_response) api_act" where
  "createUser a r =
     andThen (decode a (ap_DecodeCreateUser a) r) (\<lambda>req.
     andThen (tried (account_CreateUser (ap_Accounts a)
       \<lparr>ci_Username = cu_Username req, ci_Email = cu_Email req, ci_Password = cu_Password req,
        ci_EmailVerified = cu_EmailVerified req, ci_Enabled = (case cu_Enabled req of Some b \<Rightarrow> b | None \<Rightarrow> True),
        ci_SendActivation = cu_SendActivation req\<rparr>)) (\<lambda>user.
     respondUser [(''Location'', aq_Path r @ ''/'' @ u_Id user)] 201 user))"

definition updateUser :: "'s api_options \<Rightarrow> api_request \<Rightarrow> ('s, api_response) api_act" where
  "updateUser a r =
     andThen (decode a (ap_DecodeUpdateUser a) r) (\<lambda>req.
     andThen (tried (account_GetUser (ap_Accounts a) (aq_Id r))) (\<lambda>user.
     andThen (tried (account_UpdateUser (ap_Accounts a)
       (user\<lparr>u_Username := uu_Username req, u_Email := uu_Email req, u_EmailVerified := uu_EmailVerified req,
             u_Enabled := uu_Enabled req\<rparr>))) (respondUser [] 200)))"

definition deleteUser :: "'s api_options \<Rightarrow> api_request \<Rightarrow> ('s, api_response) api_act" where
  "deleteUser a r = andThen (tried (account_DeleteUser (ap_Accounts a) (aq_Id r))) (\<lambda>_. ret (WriteHeader 204))"

definition setUserPassword :: "'s api_options \<Rightarrow> api_request \<Rightarrow> ('s, api_response) api_act" where
  "setUserPassword a r =
     andThen (decode a (ap_DecodePassword a) r) (\<lambda>req.
     andThen (tried (account_SetPassword (ap_Accounts a) (aq_Id r) (pr_Password req))) (\<lambda>_. ret (WriteHeader 204)))"

definition unlockUser :: "'s api_options \<Rightarrow> api_request \<Rightarrow> ('s, api_response) api_act" where
  "unlockUser a r =
     andThen (tried (account_GetUser (ap_Accounts a) (aq_Id r))) (\<lambda>user.
     andThen (tried (account_UpdateUser (ap_Accounts a) (user\<lparr>u_LockoutEnd := None, u_FailedLoginCount := 0\<rparr>)))
       (respondUser [] 200))"

definition sendUserActivation :: "'s api_options \<Rightarrow> api_request \<Rightarrow> ('s, api_response) api_act" where
  "sendUserActivation a r =
     andThen (tried (account_GetUser (ap_Accounts a) (aq_Id r))) (\<lambda>user.
     if u_EmailVerified user then fail (api_writeError 409 ''conflict'' ''the email address is already verified'')
     else andThen (tried (account_SendActivation (ap_Accounts a) user)) (\<lambda>_. ret (WriteHeader 202)))"

definition sendUserPasswordReset :: "'s api_options \<Rightarrow> api_request \<Rightarrow> ('s, api_response) api_act" where
  "sendUserPasswordReset a r =
     andThen (tried (account_GetUser (ap_Accounts a) (aq_Id r))) (\<lambda>user.
     if \<not> u_Enabled user then fail (api_writeError 409 ''conflict'' ''the user is disabled'')
     else andThen (tried (account_RequestPasswordReset (ap_Accounts a) (u_Email user))) (\<lambda>_. ret (WriteHeader 202)))"

definition revokeUserTokens :: "'s api_options \<Rightarrow> api_request \<Rightarrow> ('s, api_response) api_act" where
  "revokeUserTokens a r =
     andThen (tried (account_GetUser (ap_Accounts a) (aq_Id r))) (\<lambda>user.
     let flt = empty_filter\<lparr>tf_UserId := u_Id user\<rparr>
     in andThen (tried_store (DeleteRefreshTokens (ap_Store a) flt)) (\<lambda>refreshTokens.
        andThen (tried_store (DeleteAccessTokens (ap_Store a) flt)) (\<lambda>accessTokens.
        ret (WriteJSON [] 200 (RevokeResponse accessTokens refreshTokens)))))"

section \<open>Tokens\<close>

definition toAccessToken :: "access_token \<Rightarrow> ('s, api_AccessToken) api_act" where
  "toAccessToken t =
     andThen clock_now (\<lambda>now. ret
       \<lparr>xa_Id = at_Id t, xa_ClientId = at_ClientId t, xa_UserId = at_UserId t, xa_Scopes = at_Scopes t,
        xa_AuthorizationCodeId = at_AuthorizationCodeId t, xa_Expired = access_token_HasExpired t now,
        xa_CreatedAt = at_CreatedAt t, xa_ExpiresAt = at_ExpiresAt t\<rparr>)"

definition toRefreshToken :: "refresh_token \<Rightarrow> ('s, api_RefreshToken) api_act" where
  "toRefreshToken t =
     andThen clock_now (\<lambda>now. ret
       \<lparr>xr_Id = rt_Id t, xr_ClientId = rt_ClientId t, xr_UserId = rt_UserId t, xr_AccessTokenId = rt_AccessTokenId t,
        xr_AuthorizationCodeId = rt_AuthorizationCodeId t, xr_Scopes = rt_Scopes t, xr_Usage = rt_TokenUsage t,
        xr_Expiration = rt_TokenExpiration t, xr_Expired = refresh_token_HasExpired t now, xr_CreatedAt = rt_CreatedAt t,
        xr_UpdatedAt = rt_UpdatedAt t, xr_ExpiresAt = rt_ExpiresAt t\<rparr>)"

definition tokenFilter :: "api_request \<Rightarrow> ('s, TokenFilter) api_act" where
  "tokenFilter r =
     (let q = aq_Query r;
          flt = empty_filter\<lparr>tf_ClientId := Values_Get q ''client_id'', tf_UserId := Values_Get q ''user_id''\<rparr>
      in if Values_Get q ''expired'' = ''true''
         then andThen clock_now (\<lambda>now. ret (flt\<lparr>tf_ExpiredBefore := Some now\<rparr>)) else ret flt)"

definition listAccessTokens :: "'s api_options \<Rightarrow> string list \<Rightarrow> api_request \<Rightarrow> ('s, api_response) api_act" where
  "listAccessTokens a order r =
     andThen (listOptions order r) (\<lambda>opts.
     andThen (tokenFilter r) (\<lambda>flt.
     andThen (tried_store (ListAccessTokens (ap_Store a) flt opts)) (\<lambda>(tokens, n).
     respondList AccessTokenList tokens n opts toAccessToken)))"

definition getAccessToken :: "'s api_options \<Rightarrow> api_request \<Rightarrow> ('s, api_response) api_act" where
  "getAccessToken a r =
     andThen (tried_store (GetAccessTokenById (ap_Store a) (aq_Id r))) (\<lambda>t.
     andThen (toAccessToken t) (\<lambda>x. ret (WriteJSON [] 200 (AccessTokenBody x))))"

definition api_deleteAccessToken :: "'s api_options \<Rightarrow> api_request \<Rightarrow> ('s, api_response) api_act" where
  "api_deleteAccessToken a r =
     andThen (tried_store (DeleteAccessToken (ap_Store a) (aq_Id r))) (\<lambda>_. ret (WriteHeader 204))"

definition filter_required :: api_response where
  "filter_required = api_writeError 400 ''invalid_request'' ''a client_id, user_id or expired filter is required''"

definition api_deleteAccessTokens :: "'s api_options \<Rightarrow> api_request \<Rightarrow> ('s, api_response) api_act" where
  "api_deleteAccessTokens a r =
     andThen (tokenFilter r) (\<lambda>flt.
     if TokenFilter_IsEmpty flt then fail filter_required
     else andThen (tried_store (DeleteAccessTokens (ap_Store a) flt)) (\<lambda>n. ret (WriteJSON [] 200 (DeleteResponse n))))"

definition listRefreshTokens :: "'s api_options \<Rightarrow> string list \<Rightarrow> api_request \<Rightarrow> ('s, api_response) api_act" where
  "listRefreshTokens a order r =
     andThen (listOptions order r) (\<lambda>opts.
     andThen (tokenFilter r) (\<lambda>flt.
     andThen (tried_store (ListRefreshTokens (ap_Store a) flt opts)) (\<lambda>(tokens, n).
     respondList RefreshTokenList tokens n opts toRefreshToken)))"

definition getRefreshToken :: "'s api_options \<Rightarrow> api_request \<Rightarrow> ('s, api_response) api_act" where
  "getRefreshToken a r =
     andThen (tried_store (GetRefreshTokenById (ap_Store a) (aq_Id r))) (\<lambda>t.
     andThen (toRefreshToken t) (\<lambda>x. ret (WriteJSON [] 200 (RefreshTokenBody x))))"

definition api_deleteRefreshToken :: "'s api_options \<Rightarrow> api_request \<Rightarrow> ('s, api_response) api_act" where
  "api_deleteRefreshToken a r =
     andThen (tried_store (GetRefreshTokenById (ap_Store a) (aq_Id r))) (\<lambda>t.
     andThen (tried_store (DeleteRefreshToken (ap_Store a) (rt_Id t))) (\<lambda>_.
     andThen (if rt_AccessTokenId t \<noteq> ''''
              then handle (on_store (DeleteAccessToken (ap_Store a) (rt_AccessTokenId t)))
                (\<lambda>e. if e \<noteq> ErrNotFound then fail (handleError (ErrStore e)) else ret ()) ret
              else ret ()) (\<lambda>_.
     ret (WriteHeader 204))))"

definition api_deleteRefreshTokens :: "'s api_options \<Rightarrow> api_request \<Rightarrow> ('s, api_response) api_act" where
  "api_deleteRefreshTokens a r =
     andThen (tokenFilter r) (\<lambda>flt.
     if TokenFilter_IsEmpty flt then fail filter_required
     else andThen (tried_store (DeleteRefreshTokens (ap_Store a) flt)) (\<lambda>n. ret (WriteJSON [] 200 (DeleteResponse n))))"

section \<open>Routes\<close>

type_synonym 's api_handler = "api_request \<Rightarrow> ('s world, unit, api_response) act"

definition PathPrefix :: string where [simp]: "PathPrefix = ''/api''"

text \<open>The routes of \<open>RegisterRoutes\<close>, in order; the lists take the order of the map iteration.\<close>

definition api_routes :: "'s api_options \<Rightarrow> string list \<Rightarrow> (string \<times> string \<times> 's api_handler) list" where
  "api_routes a order = map (\<lambda>(method, pattern, h). (method, pattern, \<lambda>r. answer (h r)))
     [(''GET'', ''/clients'', listClients a order), (''POST'', ''/clients'', createClient a),
      (''GET'', ''/clients/{id}'', getClient a), (''PUT'', ''/clients/{id}'', updateClient a),
      (''DELETE'', ''/clients/{id}'', deleteClient a), (''POST'', ''/clients/{id}/secret'', regenerateClientSecret a),
      (''GET'', ''/users'', listUsers a order), (''POST'', ''/users'', createUser a),
      (''GET'', ''/users/{id}'', getUser a), (''PUT'', ''/users/{id}'', updateUser a),
      (''DELETE'', ''/users/{id}'', deleteUser a), (''POST'', ''/users/{id}/password'', setUserPassword a),
      (''POST'', ''/users/{id}/unlock'', unlockUser a), (''POST'', ''/users/{id}/activation'', sendUserActivation a),
      (''POST'', ''/users/{id}/password-reset'', sendUserPasswordReset a),
      (''DELETE'', ''/users/{id}/tokens'', revokeUserTokens a),
      (''GET'', ''/tokens'', listAccessTokens a order), (''DELETE'', ''/tokens'', api_deleteAccessTokens a),
      (''GET'', ''/tokens/{id}'', getAccessToken a), (''DELETE'', ''/tokens/{id}'', api_deleteAccessToken a),
      (''GET'', ''/refresh-tokens'', listRefreshTokens a order), (''DELETE'', ''/refresh-tokens'', api_deleteRefreshTokens a),
      (''GET'', ''/refresh-tokens/{id}'', getRefreshToken a), (''DELETE'', ''/refresh-tokens/{id}'', api_deleteRefreshToken a)]"

definition api_RegisterRoutes ::
  "'s api_options \<Rightarrow> string list \<Rightarrow> ('s api_handler \<Rightarrow> 's api_handler) list \<Rightarrow> ('s api_handler, 'r) router \<Rightarrow> 'r \<Rightarrow> 'r" where
  "api_RegisterRoutes a order middleware r0 s0 =
     (let r = WithPrefix (WithMiddleware r0 middleware) PathPrefix
      in foldl (\<lambda>s (method, pattern, h). r method pattern h s) s0 (api_routes a order))"

end
