(* ===== verification/Server.thy ===== *)
theory Server
  imports OAuthBearer Ui Api
begin

text \<open>
  Package \<open>pkg/server\<close>: the identity server assembled from the account service, the session manager, the pages, the
  authorization server and the management API; its routes; the cleanup of expired tokens; and the provisioning of
  clients. The middleware of package \<open>oauth\<close> that protects the API is here as a function on handlers.
\<close>

section \<open>Configuration\<close>

definition DefaultAdminScope :: string where [simp]: "DefaultAdminScope = ''identity.admin''"

text \<open>
  The fields of \<open>Config\<close>, an interface or slice that may be nil as an option. The clock is the one of the world;
  the templates and the logger are left out.
\<close>

record 's Config =
  cf_Store :: "'s store_ops option"
  cf_PublicURL :: string
  cf_BasePath :: string
  cf_ApplicationName :: string
  cf_SessionKey :: string
  cf_SessionLifetime :: duration
  cf_InsecureCookies :: bool
  cf_Mailer :: "sender option"
  cf_PasswordHasher :: "hasher option"
  cf_AllowRegistration :: bool
  cf_DisableActivation :: bool
  cf_MinPasswordLength :: int
  cf_MaxFailedAttempts :: int
  cf_LockoutDuration :: duration
  cf_AdminScope :: string
  cf_DisableAPI :: bool
  cf_TokenGenerator :: "(access_token \<Rightarrow> client \<Rightarrow> user option \<Rightarrow> ('s world, grant_error, string) act) option"
  cf_ScopesSupported :: "string list"

text \<open>The library code the server calls: the parameters of the parts it is assembled from.\<close>

record libraries =
  lb_Lib :: golib
  lb_Generate :: "byte list \<Rightarrow> int \<Rightarrow> string \<Rightarrow> string + string"
  lb_Compare :: "string \<Rightarrow> string \<Rightarrow> bool"
  lb_Html :: "emailData \<Rightarrow> string"
  lb_Marshal :: "Session \<Rightarrow> byte list"
  lb_Unmarshal :: "byte list \<Rightarrow> Session option"
  lb_DecodeClient :: "ClientRequest decoder"
  lb_DecodeCreateUser :: "CreateUserRequest decoder"
  lb_DecodeUpdateUser :: "UpdateUserRequest decoder"
  lb_DecodePassword :: "PasswordRequest decoder"

text \<open>The links of the emails.\<close>

definition links_ActivationURL :: "string \<Rightarrow> string \<Rightarrow> string" where
  "links_ActivationURL publicURL tok = publicURL @ PathActivate @ ''?'' @ Values_Encode [(''token'', [tok])]"

definition links_PasswordResetURL :: "string \<Rightarrow> string \<Rightarrow> string" where
  "links_PasswordResetURL publicURL tok = publicURL @ PathPasswordReset @ ''?'' @ Values_Encode [(''token'', [tok])]"

section \<open>The middleware\<close>

text \<open>The request of the API as the bearer middleware reads it: by its header.\<close>

definition bearer_request :: "api_request \<Rightarrow> http_request" where
  "bearer_request r =
     \<lparr>r_Method = '''', r_ContentType = aq_ContentType r, r_Authorization = aq_Authorization r, r_ParseForm = None, r_Query = aq_Query r,
      r_FailedForm = [], r_CSRFHeader = '''', r_Cookies = []\<rparr>"

definition bearer_response :: "oauth_error http_response \<Rightarrow> api_response" where
  "bearer_response x = \<lparr>p_Status = p_Status x, p_Headers = p_Headers x, p_Body = BearerErrorBody (p_Body x)\<rparr>"

definition bearer_middleware :: "'s oauth_options \<Rightarrow> string list \<Rightarrow> 's api_handler \<Rightarrow> 's api_handler" where
  "bearer_middleware opts scopes next r =
     andThen (RequireBearer opts scopes (bearer_request r)) (\<lambda>outcome.
     case outcome of Rejected x \<Rightarrow> ret (bearer_response x) | Served info \<Rightarrow> next r)"

section \<open>The server\<close>

record 's Server =
  sr_cfg :: "'s Config"
  sr_Store :: "'s store_ops"
  sr_Hasher :: hasher
  sr_Lib :: golib
  sr_Accounts :: "'s account_options"
  sr_Sessions :: session_options
  sr_OAuth :: "'s server"
  sr_UI :: "'s ui_options"
  sr_API :: "('s api_options \<times> ('s api_handler \<Rightarrow> 's api_handler) list) option"

datatype config_error = StoreRequired | PublicURLNotAbsolute string | BasePathNotAbsolute | SessionError string

definition effectiveHasher :: "libraries \<Rightarrow> 's Config \<Rightarrow> hasher" where
  "effectiveHasher lb cfg =
     (case cf_PasswordHasher cfg of None \<Rightarrow> NewBcryptHasher (lb_Generate lb) (lb_Compare lb) 0 | Some h \<Rightarrow> h)"

definition effectiveMailer :: "'s Config \<Rightarrow> sender" where
  "effectiveMailer cfg = (case cf_Mailer cfg of None \<Rightarrow> LogSender_Send | Some m \<Rightarrow> m)"

text \<open>\<open>New\<close> up to the session key: the checked configuration with its defaults, the store and the parsed public URL.\<close>

definition normalizeConfig :: "libraries \<Rightarrow> 's Config \<Rightarrow> config_error + ('s Config \<times> 's store_ops \<times> url)" where
  "normalizeConfig lb cfg =
     (case cf_Store cfg of None \<Rightarrow> Inl StoreRequired | Some st \<Rightarrow>
      case lib_url_parse (lb_Lib lb) (cf_PublicURL cfg) of None \<Rightarrow> Inl (PublicURLNotAbsolute (cf_PublicURL cfg)) | Some publicURL \<Rightarrow>
      if url_Scheme publicURL = '''' \<or> url_Host publicURL = '''' then Inl (PublicURLNotAbsolute (cf_PublicURL cfg))
      else let base = trim_suffix (if cf_BasePath cfg = '''' then url_Path publicURL else cf_BasePath cfg) ''/''
        in if base \<noteq> '''' \<and> \<not> has_prefix base ''/'' then Inl BasePathNotAbsolute
           else Inr (cfg
             \<lparr>cf_PublicURL := trim_suffix (cf_PublicURL cfg) ''/'', cf_BasePath := base,
              cf_ApplicationName := (if cf_ApplicationName cfg = '''' then ''Identity'' else cf_ApplicationName cfg),
              cf_AdminScope := (if cf_AdminScope cfg = '''' then DefaultAdminScope else cf_AdminScope cfg),
              cf_PasswordHasher := Some (effectiveHasher lb cfg), cf_Mailer := Some (effectiveMailer cfg),
              cf_MaxFailedAttempts := (if cf_MaxFailedAttempts cfg = 0 then 5
                 else if cf_MaxFailedAttempts cfg < 0 then 0 else cf_MaxFailedAttempts cfg)\<rparr>, st, publicURL))"

definition randomKey :: "'s Config \<Rightarrow> ('s world, 'e, 's Config) act" where
  "randomKey cfg =
     (if length (cf_SessionKey cfg) = 0
      then andThen (RandomBytes 32) (\<lambda>b. ret (cfg\<lparr>cf_SessionKey := string_of_bytes b\<rparr>)) else ret cfg)"

text \<open>The options of the parts.\<close>

definition accountOptions :: "libraries \<Rightarrow> 's Config \<Rightarrow> 's store_ops \<Rightarrow> 's account_options" where
  "accountOptions lb cfg st =
     \<lparr>ao_Store = st, ao_Hasher = effectiveHasher lb cfg, ao_Mailer = effectiveMailer cfg,
      ao_ActivationURL = links_ActivationURL (cf_PublicURL cfg), ao_PasswordResetURL = links_PasswordResetURL (cf_PublicURL cfg),
      ao_ApplicationName = cf_ApplicationName cfg, ao_RequireActivation = (\<not> cf_DisableActivation cfg),
      ao_ActivationTokenLifetime = 0, ao_PasswordResetTokenLifetime = 0, ao_MinPasswordLength = cf_MinPasswordLength cfg,
      ao_MaxFailedAttempts = cf_MaxFailedAttempts cfg, ao_LockoutDuration = cf_LockoutDuration cfg, ao_Lib = lb_Lib lb,
      ao_Html = lb_Html lb\<rparr>"

definition sessionOptions :: "libraries \<Rightarrow> 's Config \<Rightarrow> url \<Rightarrow> session_options" where
  "sessionOptions lb cfg publicURL =
     \<lparr>so_Key = cf_SessionKey cfg, so_CookieName = '''', so_CSRFCookieName = '''',
      so_Path = (if cf_BasePath cfg = '''' then ''/'' else cf_BasePath cfg), so_Domain = '''',
      so_Secure = (url_Scheme publicURL = ''https'' \<and> \<not> cf_InsecureCookies cfg), so_Lifetime = cf_SessionLifetime cfg,
      so_Lib = lb_Lib lb, so_Marshal = lb_Marshal lb, so_Unmarshal = lb_Unmarshal lb\<rparr>"

definition apiOptions :: "libraries \<Rightarrow> 's Config \<Rightarrow> 's store_ops \<Rightarrow> 's account_options \<Rightarrow> 's api_options" where
  "apiOptions lb cfg st accounts =
     \<lparr>ap_Store = st, ap_Accounts = accounts, ap_Hasher = effectiveHasher lb cfg, ap_Lib = lb_Lib lb,
      ap_DecodeClient = lb_DecodeClient lb, ap_DecodeCreateUser = lb_DecodeCreateUser lb,
      ap_DecodeUpdateUser = lb_DecodeUpdateUser lb, ap_DecodePassword = lb_DecodePassword lb\<rparr>"

text \<open>The parts around a session manager.\<close>

definition server_of :: "libraries \<Rightarrow> 's Config \<Rightarrow> 's store_ops \<Rightarrow> session_options \<Rightarrow> 's Server" where
  "server_of lb cfg st sessions =
     (let accounts = account_New (accountOptions lb cfg st);
          ui = ui_New \<lparr>ui_Accounts = accounts, ui_Sessions = sessions, ui_BasePath = cf_BasePath cfg,
            ui_ApplicationName = cf_ApplicationName cfg, ui_AllowRegistration = cf_AllowRegistration cfg\<rparr>;
          oauth = NewServer \<lparr>oo_Store = st, oo_Accounts = accounts, oo_Hasher = effectiveHasher lb cfg,
            oo_Interaction = Some (ui_interaction ui), oo_Issuer = cf_PublicURL cfg, oo_BasePath = cf_BasePath cfg,
            oo_TokenGenerator = (case cf_TokenGenerator cfg of None \<Rightarrow> OpaqueTokenGenerator | Some g \<Rightarrow> g),
            oo_ScopesSupported = cf_ScopesSupported cfg, oo_Lib = lb_Lib lb\<rparr>
      in \<lparr>sr_cfg = cfg, sr_Store = st, sr_Hasher = effectiveHasher lb cfg, sr_Lib = lb_Lib lb, sr_Accounts = accounts,
          sr_Sessions = sessions, sr_OAuth = oauth, sr_UI = ui,
          sr_API = (if cf_DisableAPI cfg then None
                    else Some (apiOptions lb cfg st accounts, [bearer_middleware (sv_opts oauth) [cf_AdminScope cfg]]))\<rparr>)"

definition New :: "libraries \<Rightarrow> 's Config \<Rightarrow> ('s world, config_error, 's Server) act" where
  "New lb cfg0 =
     andThen (lift (normalizeConfig lb cfg0)) (\<lambda>(cfg1, st, publicURL).
     andThen (randomKey cfg1) (\<lambda>cfg.
     case NewManager (sessionOptions lb cfg publicURL) of
       Inl e \<Rightarrow> fail (SessionError e)
     | Inr sessions \<Rightarrow> ret (server_of lb cfg st sessions)))"

section \<open>Routes\<close>

text \<open>What a route is registered with: the handlers of the three parts.\<close>

datatype 's endpoint =
    AuthorizeEndpoint "http_request \<Rightarrow> ('s world, unit, authorize_outcome) act"
  | TokenEndpoint "http_request \<Rightarrow> ('s world, unit, token_body http_response) act"
  | RevokeEndpoint "http_request \<Rightarrow> ('s world, unit, revoke_body http_response) act"
  | IntrospectEndpoint "http_request \<Rightarrow> ('s world, unit, introspect_body http_response) act"
  | MetadataEndpoint "Metadata http_response"
  | UiEndpoint "http_request \<Rightarrow> 's ui_act"
  | ApiEndpoint "'s api_handler"

definition oauth_routes :: "'s server \<Rightarrow> (string \<times> string \<times> 's endpoint) list" where
  "oauth_routes s =
     (case oo_Interaction (sv_opts s) of
        None \<Rightarrow> []
      | Some i \<Rightarrow> [(''GET'', ''/authorize'', AuthorizeEndpoint (HandleAuthorize (sv_opts s) i)),
                   (''POST'', ''/authorize'', AuthorizeEndpoint (HandleAuthorize (sv_opts s) i))])
     @ [(''POST'', ''/token'', TokenEndpoint (HandleToken s)), (''POST'', ''/revoke'', RevokeEndpoint (HandleRevoke s)),
        (''POST'', ''/introspect'', IntrospectEndpoint (HandleIntrospect s)),
        (''GET'', ''/.well-known/oauth-authorization-server'', MetadataEndpoint (HandleMetadata s))]"

definition oauth_RegisterRoutes :: "'s server \<Rightarrow> ('s endpoint, 'r) router \<Rightarrow> 'r \<Rightarrow> 'r" where
  "oauth_RegisterRoutes s r s0 = foldl (\<lambda>st (method, pattern, h). r method pattern h st) s0 (oauth_routes s)"

definition server_RegisterRoutes :: "'s Server \<Rightarrow> string list \<Rightarrow> ('s endpoint, 'r) router \<Rightarrow> 'r \<Rightarrow> 'r" where
  "server_RegisterRoutes s order r0 s0 =
     (let r = WithPrefix r0 (cf_BasePath (sr_cfg s));
          s1 = oauth_RegisterRoutes (sr_OAuth s) r s0;
          s2 = ui_RegisterRoutes (sr_UI s) (\<lambda>method pattern h. r method pattern (UiEndpoint h)) s1
      in case sr_API s of
           None \<Rightarrow> s2
         | Some (api, middleware) \<Rightarrow>
             api_RegisterRoutes api order middleware (\<lambda>method pattern h. r method pattern (ApiEndpoint h)) s2)"

definition Handler :: "'s Server \<Rightarrow> string list \<Rightarrow> 's endpoint serve_mux" where
  "Handler s order = server_RegisterRoutes s order ServeMux_Handle NewServeMux"

section \<open>Cleanup\<close>

definition Cleanup :: "'s Server \<Rightarrow> ('s world, store_error, unit) act" where
  "Cleanup s = andThen clock_read (\<lambda>now. on_store (DeleteExpired (sr_Store s) now))"

text \<open>
  The loop of \<open>RunCleanup\<close> over the events its \<open>select\<close> receives: a tick of the ticker, or the end of the context.
  An error of a cleanup is logged, and the loop goes on.
\<close>

datatype cleanup_event = Tick | ContextDone

fun RunCleanup :: "'s Server \<Rightarrow> cleanup_event list \<Rightarrow> ('s world, unit, unit) act" where
  "RunCleanup s [] = ret ()"
| "RunCleanup s (ContextDone # events) = ret ()"
| "RunCleanup s (Tick # events) = handle (Cleanup s) (\<lambda>_. RunCleanup s events) (\<lambda>_. RunCleanup s events)"

section \<open>Provisioning of clients\<close>

text \<open>The client to store, before the validation.\<close>

definition provisionedClient ::
  "'s Server \<Rightarrow> client \<Rightarrow> string \<Rightarrow> client option \<Rightarrow> ('s, client) account_act" where
  "provisionedClient s client0 secret existing =
     (let c = EnsureDefaults client0
      in if secret \<noteq> ''''
         then andThen (mapErr ErrHasher (hash_secret (sr_Hasher s) secret)) (\<lambda>hash. ret (c\<lparr>c_SecretHash := hash\<rparr>))
         else case existing of Some e \<Rightarrow> ret (c\<lparr>c_SecretHash := c_SecretHash e\<rparr>) | None \<Rightarrow> ret c)"

definition EnsureClient :: "'s Server \<Rightarrow> client \<Rightarrow> string \<Rightarrow> ('s, client) account_act" where
  "EnsureClient s client0 secret =
     andThen clock_now (\<lambda>now.
     andThen (handle (on_store (GetClientByClientId (sr_Store s) (c_ClientId client0)))
       (\<lambda>e. if e \<noteq> ErrNotFound then fail (ErrStore e) else ret None) (\<lambda>x. ret (Some x))) (\<lambda>existing.
     andThen (provisionedClient s client0 secret existing) (\<lambda>c0.
     case client_Validate (sr_Lib s) c0 of Some e \<Rightarrow> fail (ErrValidation e) | None \<Rightarrow>
     (case existing of
        Some e \<Rightarrow>
          (let c = c0\<lparr>c_UpdatedAt := now, c_Id := c_Id e, c_CreatedAt := c_CreatedAt e\<rparr>
           in andThen (store_call (UpdateClient (sr_Store s) c)) (\<lambda>_. ret c))
      | None \<Rightarrow>
          andThen (if c_Id c0 = '''' then NewId else ret (c_Id c0)) (\<lambda>k.
          let c = c0\<lparr>c_UpdatedAt := now, c_Id := k, c_CreatedAt := now\<rparr>
          in andThen (store_call (CreateClient (sr_Store s) c)) (\<lambda>_. ret c))))))"

end
