(* ===== verification/AuthorizeProofs.thy ===== *)
theory AuthorizeProofs
  imports OAuthAuthorize TokenProperties
begin

text \<open>
  The guarantees of the authorization endpoint: where it redirects, what it needs before it issues a code or a
  token, and what the code then carries.
\<close>

section \<open>Validation\<close>

lemma validateAuthorizeRequest_frame:
  assumes "validateAuthorizeRequest req0 params = (req, e)"
  shows "ar_client req = ar_client req0 \<and> ar_redirectUri req = ar_redirectUri req0
     \<and> ar_redirectUriParam req = ar_redirectUriParam req0"
  using assms unfolding validateAuthorizeRequest_def Let_def
  by (auto split: sum.splits option.splits if_splits prod.splits)

lemma challengeOf_ok:
  assumes "challengeOf c params = Inr (challenge, method)"
  shows "if challenge = '''' then \<not> c_RequirePkce c \<and> \<not> client_IsPublic c \<and> method = ''''
     else IsValidCodeVerifier challenge \<and> IsSupportedCodeChallengeMethod method \<and> Param params ''code_challenge'' = Inr challenge"
  using assms unfolding challengeOf_def Let_def
  by (auto split: sum.splits if_splits)

text \<open>An accepted request has a response type its client may use, and scopes the client is allowed.\<close>

definition authorized :: "url_values \<Rightarrow> authorizeRequest \<Rightarrow> bool" where
  "authorized params req \<longleftrightarrow>
     (\<exists>scope. Param params ''scope'' = Inr scope \<and> resolveScopes (ar_client req) scope = Inr (ar_scopes req))
     \<and> Param params ''state'' = Inr (ar_state req)
     \<and> (ar_responseType req = ResponseTypeCode \<and> GrantTypeAuthorizationCode \<in> set (c_AllowedGrantTypes (ar_client req))
          \<and> (if ar_codeChallenge req = ''''
             then \<not> c_RequirePkce (ar_client req) \<and> \<not> client_IsPublic (ar_client req) \<and> ar_codeChallengeMethod req = ''''
             else IsValidCodeVerifier (ar_codeChallenge req) \<and> IsSupportedCodeChallengeMethod (ar_codeChallengeMethod req)
               \<and> Param params ''code_challenge'' = Inr (ar_codeChallenge req))
        \<or> ar_responseType req = ResponseTypeToken \<and> GrantTypeImplicit \<in> set (c_AllowedGrantTypes (ar_client req)))"

lemma checkResponseType_None:
  "checkResponseType c t = None \<longleftrightarrow>
     t = ResponseTypeCode \<and> GrantTypeAuthorizationCode \<in> set (c_AllowedGrantTypes c)
     \<or> t = ResponseTypeToken \<and> GrantTypeImplicit \<in> set (c_AllowedGrantTypes c)"
  by (auto simp: checkResponseType_def)

lemma validateAuthorizeRequest_ok:
  assumes "validateAuthorizeRequest req0 params = (req, None)"
  shows "authorized params req"
proof -
  from assms obtain state rt scope scopes where
    p: "Param params ''state'' = Inr state" "Param params ''response_type'' = Inr rt" "Param params ''scope'' = Inr scope"
    and t: "checkResponseType (ar_client req0) rt = None" and s: "resolveScopes (ar_client req0) scope = Inr scopes"
    unfolding validateAuthorizeRequest_def Let_def by (auto split: sum.splits option.splits)
  from t consider (code) "rt = ResponseTypeCode" "GrantTypeAuthorizationCode \<in> set (c_AllowedGrantTypes (ar_client req0))"
    | (tok) "rt = ResponseTypeToken" "GrantTypeImplicit \<in> set (c_AllowedGrantTypes (ar_client req0))"
    unfolding checkResponseType_None by blast
  then show ?thesis
  proof cases
    case code
    with assms p t s obtain challenge meth where
      "challengeOf (ar_client req0) params = Inr (challenge, meth)"
      "req = req0\<lparr>ar_state := state, ar_responseType := rt, ar_scopes := scopes,
         ar_codeChallenge := challenge, ar_codeChallengeMethod := meth\<rparr>"
      unfolding validateAuthorizeRequest_def Let_def by (auto split: sum.splits prod.splits)
    with challengeOf_ok [OF this(1)] code p s show ?thesis by (simp add: authorized_def)
  next
    case tok
    with assms p t s have "req = req0\<lparr>ar_state := state, ar_responseType := rt, ar_scopes := scopes\<rparr>"
      unfolding validateAuthorizeRequest_def Let_def by auto
    with tok p s show ?thesis by (simp add: authorized_def)
  qed
qed

text \<open>The consent step lets a request pass only with the decision to allow it, where consent is required.\<close>

lemma consentStep_None:
  "consentStep opts i r params postForm req user = None \<longleftrightarrow>
     (c_RequireConsent (ar_client req) \<longrightarrow>
        r_Method r = ''POST'' \<and> Values_Get postForm ''consent'' = ''allow'' \<and> in_VerifyConsent i r)"
  by (auto simp: consentStep_def Let_def)

lemma consentStep_target:
  "consentStep opts i r params postForm req user = Some (RedirectTo p) \<Longrightarrow>
     RedirectTo p = redirectError req (NewError ErrorAccessDenied ''the resource owner denied the request'')"
  by (auto simp: consentStep_def Let_def split: if_splits)

lemma redirectError_target:
  "\<exists>vals frag. redirectError req e = redirect (ar_redirectUri req) vals frag"
  unfolding redirectError_def Let_def by blast

text \<open>
  What a request did that came through the whole endpoint: the tables are unchanged, or a code or a token was
  issued as asked for by an accepted request of a logged in user who may sign in and consented.
\<close>

definition granted ::
  "'s oauth_options \<Rightarrow> 's interaction \<Rightarrow> http_request \<Rightarrow> url_values \<Rightarrow> url_values \<Rightarrow> authorizeRequest \<Rightarrow> user \<Rightarrow>
   authorize_outcome \<Rightarrow> tables \<Rightarrow> tables \<Rightarrow> bool" where
  "granted opts i r params postForm req u out T T' \<longleftrightarrow>
     authorized params req \<and> account_CanSignIn (oo_Accounts opts) u = None
     \<and> (c_RequireConsent (ar_client req) \<longrightarrow>
          r_Method r = ''POST'' \<and> Values_Get postForm ''consent'' = ''allow'' \<and> in_VerifyConsent i r)
     \<and> (if ar_responseType req = ResponseTypeCode then
          (\<exists>code value. out = redirect (ar_redirectUri req) (withState req [(''code'', [value])]) False
            \<and> ac_Id code \<notin> dom (tb_authorizationCodes T) \<and> ac_CodeHash code = HashToken (oo_Lib opts) value
            \<and> ac_ClientId code = c_Id (ar_client req) \<and> ac_UserId code = u_Id u \<and> ac_Scopes code = ar_scopes req
            \<and> ac_RedirectUri code = ar_redirectUriParam req \<and> ac_CodeChallenge code = ar_codeChallenge req
            \<and> ac_CodeChallengeMethod code = ar_codeChallengeMethod req \<and> ac_ConsumedAt code = None
            \<and> ac_CreatedAt code < ac_ExpiresAt code
            \<and> T' = tb_authorizationCodes_update (\<lambda>m. m(ac_Id code \<mapsto> code)) T)
        else ar_responseType req = ResponseTypeToken \<and>
          (\<exists>resp v1. out = redirect (ar_redirectUri req) (withState req v1) True
            \<and> (''access_token'', [tr_AccessToken resp]) \<in> set v1
            \<and> issued (oo_Lib opts) (ar_client req) (u_Id u) (ar_scopes req) '''' False resp T T'))"

text \<open>An action that leaves the state of the store alone, as looking up who is logged in does.\<close>

definition reads_store :: "('s world, 'e, 'a) act \<Rightarrow> bool" where
  "reads_store m \<longleftrightarrow> (\<forall>w. w_store (snd (m w)) = w_store w)"

section \<open>The endpoint\<close>

context oauth_service
begin

lemma validateClientAndRedirect_ok:
  assumes "validateClientAndRedirect opts params w = (Inr req, w')" and "I (w_store w)"
  shows "I (w_store w') \<and> view (w_store w') = view (w_store w)
     \<and> tb_clients (view (w_store w)) (c_Id (ar_client req)) = Some (ar_client req) \<and> c_Enabled (ar_client req)
     \<and> RequiredParam params ''client_id'' = Inr (c_ClientId (ar_client req))
     \<and> Param params ''redirect_uri'' = Inr (ar_redirectUriParam req) \<and> ar_redirectUri req \<in> set (c_RedirectUris (ar_client req))
     \<and> (ar_redirectUriParam req = '''' \<or> ar_redirectUriParam req = ar_redirectUri req)"
proof -
  let ?req = "\<lambda>c ru. \<lparr>ar_client = c, ar_redirectUri = '''', ar_redirectUriParam = ru, ar_responseType = '''',
                  ar_state = '''', ar_scopes = [], ar_codeChallenge = '''', ar_codeChallengeMethod = ''''\<rparr>"
  from assms(1) obtain k where k: "RequiredParam params ''client_id'' = Inr k"
    unfolding validateClientAndRedirect_def by (simp add: andThen_eq_Inr) metis
  with assms(1) obtain c wa ru where get: "on_store (GetClientByClientId (oo_Store opts) k) w = (Inr c, wa)" and en: "c_Enabled c"
    and ru: "Inr ru = Param params ''redirect_uri''"
    and rest: "(if ru = '''' then
            (if length (c_RedirectUris c) \<noteq> 1
             then fail (NewError ErrorInvalidRequest ''the redirect_uri parameter is missing'')
             else ret ((?req c ru)\<lparr>ar_redirectUri := c_RedirectUris c ! 0\<rparr>))
          else case MatchRedirectUri c ru of
            Some registered \<Rightarrow> ret ((?req c ru)\<lparr>ar_redirectUri := registered\<rparr>)
          | None \<Rightarrow> fail (NewError ErrorInvalidRequest ''the redirect_uri is not registered for this client'')) wa = (Inr req, w')"
    unfolding validateClientAndRedirect_def Let_def by (simp add: andThen_eq_Inr handle_eq guard_eq_Inr) blast
  from on_store_ok [OF get st(2) assms(2)] have
    1: "I (w_store wa)" "view (w_store wa) = view (w_store w)" "c \<in> ran (tb_clients (view (w_store w)))" "c_ClientId c = k"
    by (simp_all add: find_spec_ok)
  have "keyed c_Id (tb_clients (view (w_store w)))" using view_ok [OF assms(2)] by (simp add: tables_ok_def)
  from keyed_ranD [OF this 1(3)] have tb: "tb_clients (view (w_store w)) (c_Id c) = Some c" by blast
  from rest have "w' = wa \<and> ar_client req = c \<and> Param params ''redirect_uri'' = Inr (ar_redirectUriParam req)
     \<and> ar_redirectUri req \<in> set (c_RedirectUris c) \<and> (ar_redirectUriParam req = '''' \<or> ar_redirectUriParam req = ar_redirectUri req)"
    using ru by (auto simp: MatchRedirectUri_Some split: if_splits option.splits)
  with 1 tb en k show ?thesis by simp
qed

lemma issueCode_ok:
  assumes "issueCode opts req u w = (Inr out, w')" and "I (w_store w)"
  shows "I (w_store w') \<and> (\<exists>vals frag. out = redirect (ar_redirectUri req) vals frag)
     \<and> (view (w_store w') = view (w_store w) \<or>
       (\<exists>code value. out = redirect (ar_redirectUri req) (withState req [(''code'', [value])]) False
         \<and> ac_Id code \<notin> dom (tb_authorizationCodes (view (w_store w))) \<and> ac_CodeHash code = HashToken (oo_Lib opts) value
         \<and> ac_ClientId code = c_Id (ar_client req) \<and> ac_UserId code = u_Id u \<and> ac_Scopes code = ar_scopes req
         \<and> ac_RedirectUri code = ar_redirectUriParam req \<and> ac_CodeChallenge code = ar_codeChallenge req
         \<and> ac_CodeChallengeMethod code = ar_codeChallengeMethod req \<and> ac_ConsumedAt code = None
         \<and> ac_CreatedAt code < ac_ExpiresAt code
         \<and> view (w_store w') = tb_authorizationCodes_update (\<lambda>m. m(ac_Id code \<mapsto> code)) (view (w_store w))))"
proof -
  let ?life = "if c_AuthorizationCodeLifetime (ar_client req) \<le> 0 then DefaultAuthorizationCodeLifetime
                      else c_AuthorizationCodeLifetime (ar_client req)"
  let ?now = "truncate_ms (w_clock w (w_ticks w))" and ?v = "RandomToken_of (tape w (w_pos w) 32)"
    and ?i = "NewId_of (tape w (w_pos w + 32) 16)"
  let ?c = "\<lparr>ac_Id = ?i, ac_CodeHash = HashToken (oo_Lib opts) ?v, ac_ClientId = c_Id (ar_client req),
              ac_UserId = u_Id u, ac_Scopes = ar_scopes req, ac_RedirectUri = ar_redirectUriParam req,
              ac_CodeChallenge = ar_codeChallenge req, ac_CodeChallengeMethod = ar_codeChallengeMethod req,
              ac_CreatedAt = ?now, ac_ExpiresAt = ?now + ?life, ac_ConsumedAt = None\<rparr>"
  let ?w = "w\<lparr>w_ticks := Suc (w_ticks w), w_pos := w_pos w + 48\<rparr>"
  have id: "ac_Id ?c \<noteq> ''''" using NewId_not_empty [of "tape w (w_pos w + 32) 16"] by simp
  have iw: "I (w_store ?w)" using assms(2) by simp
  have "issueCode opts req u w = handle (on_store (CreateAuthorizationCode (oo_Store opts) ?c))
           (\<lambda>e. ret (redirectError req (serverError (GStore e))))
           (\<lambda>_. ret (redirect (ar_redirectUri req) (withState req [(''code'', [?v])]) False)) ?w"
    unfolding issueCode_def Let_def run_clock run_NewToken run_NewId by (simp add: add.commute)
  with assms(1) consider
    (err) e where "on_store (CreateAuthorizationCode (oo_Store opts) ?c) ?w = (Inl e, w')" "out = redirectError req (serverError (GStore e))"
  | (ok) x where "on_store (CreateAuthorizationCode (oo_Store opts) ?c) ?w = (Inr x, w')"
      "out = redirect (ar_redirectUri req) (withState req [(''code'', [?v])]) False"
    by (auto simp: handle_eq)
  then show ?thesis
  proof cases
    case err
    from on_store_err [OF err(1) st(16) [OF id] iw] have "I (w_store w')" "view (w_store w') = view (w_store w)"
      using spec_err(3) by fastforce+
    with redirectError_target [of req] show ?thesis unfolding err(2) by blast
  next
    case ok
    from on_store_ok [OF ok(1) st(16) [OF id] iw] have
      1: "I (w_store w')" "ac_Id ?c \<notin> dom (tb_authorizationCodes (view (w_store w)))"
      "view (w_store w') = tb_authorizationCodes_update (\<lambda>m. m(ac_Id ?c \<mapsto> ?c)) (view (w_store w))"
      by (simp_all add: create_spec_ok)
    have life: "ac_CreatedAt ?c < ac_ExpiresAt ?c" by (simp add: DefaultAuthorizationCodeLifetime_def)
    show ?thesis
    proof (intro conjI disjI2 exI [of _ ?c] exI [of _ ?v])
      show "\<exists>vals frag. out = redirect (ar_redirectUri req) vals frag" using ok(2) by blast
    qed (use 1 ok(2) life in simp_all)
  qed
qed

lemma read_validateClientAndRedirect:
  "preserves (\<lambda>w. I (w_store w) \<and> view (w_store w) = V) (validateClientAndRedirect opts params)"
  unfolding validateClientAndRedirect_def
  by (intro preserves_rules preserves_lookup [OF st(2)])

lemma createAccessToken_err:
  assumes "createAccessToken opts c u scopes k w = (Inl e, w')" and "I (w_store w)"
  shows "I (w_store w') \<and> view (w_store w') = view (w_store w)"
proof -
  let ?w = "w\<lparr>w_ticks := Suc (w_ticks w), w_pos := w_pos w + 16\<rparr>"
  let ?life = "if c_AccessTokenLifetime c \<le> 0 then DefaultAccessTokenLifetime else c_AccessTokenLifetime c"
  let ?i = "NewId_of (tape w (w_pos w) 16)" and ?now = "truncate_ms (w_clock w (w_ticks w))"
  let ?t = "\<lparr>at_Id = ?i, at_TokenHash = '''', at_ClientId = c_Id c,
                      at_UserId = (case u of None \<Rightarrow> '''' | Some u \<Rightarrow> u_Id u), at_Scopes = scopes,
                      at_AuthorizationCodeId = k, at_CreatedAt = ?now, at_ExpiresAt = ?now + ?life\<rparr>"
  let ?a = "\<lambda>v. ?t\<lparr>at_TokenHash := HashToken (oo_Lib opts) v\<rparr>"
  have "andThen (oo_TokenGenerator opts ?t c u) (\<lambda>v.
      andThen (gstore (CreateAccessToken (oo_Store opts) (?a v))) (\<lambda>_. ret (?a v, v))) ?w = (Inl e, w')"
    using assms(1) unfolding createAccessToken_def Let_def run_clock run_NewId by simp
  then consider (gen) "oo_TokenGenerator opts ?t c u ?w = (Inl e, w')"
    | (create) v wg e' where "oo_TokenGenerator opts ?t c u ?w = (Inr v, wg)"
        "on_store (CreateAccessToken (oo_Store opts) (?a v)) wg = (Inl e', w')"
    unfolding andThen_eq_Inl mapErr_eq_Inl by auto
  then show ?thesis
  proof cases
    case gen
    from generator [OF this] assms(2) show ?thesis by simp
  next
    case create
    have "at_Id (?a v) \<noteq> ''''" using NewId_not_empty [of "tape w (w_pos w) 16"] by simp
    note ob = st(6) [OF this]
    have "I (w_store wg)" "view (w_store wg) = view (w_store w)" using generator [OF create(1)] assms(2) by simp_all
    with on_store_err [OF create(2) ob this(1)] show ?thesis using spec_err(3) by metis
  qed
qed

lemma issueImplicitToken_ok:
  assumes "issueImplicitToken opts req u w = (Inr out, w')" and "I (w_store w)"
  shows "I (w_store w') \<and> (\<exists>vals frag. out = redirect (ar_redirectUri req) vals frag)
     \<and> (view (w_store w') = view (w_store w) \<or>
        (\<exists>resp v1. out = redirect (ar_redirectUri req) (withState req v1) True
            \<and> (''access_token'', [tr_AccessToken resp]) \<in> set v1
            \<and> issued (oo_Lib opts) (ar_client req) (u_Id u) (ar_scopes req) '''' False resp (view (w_store w)) (view (w_store w'))))"
proof -
  let ?io = "\<lparr>io_RefreshToken = False, io_AuthorizationCodeId = ''''\<rparr>"
  let ?v0 = "\<lambda>resp. [(''access_token'', [tr_AccessToken resp]), (''token_type'', [tr_TokenType resp]),
                    (''expires_in'', [int_to_string (tr_ExpiresIn resp)])]"
  let ?v1 = "\<lambda>resp. if tr_Scope resp \<noteq> '''' then Values_Set (?v0 resp) ''scope'' (tr_Scope resp) else ?v0 resp"
  from assms(1) consider
    (err) e where "IssueTokens opts (ar_client req) (Some u) (ar_scopes req) ?io w = (Inl e, w')" "out = redirectError req (serverError e)"
  | (ok) resp where "IssueTokens opts (ar_client req) (Some u) (ar_scopes req) ?io w = (Inr resp, w')"
      "out = redirect (ar_redirectUri req) (withState req (?v1 resp)) True"
    unfolding issueImplicitToken_def Let_def by (auto simp: handle_eq)
  then show ?thesis
  proof cases
    case err
    then have "createAccessToken opts (ar_client req) (Some u) (ar_scopes req) '''' w = (Inl e, w')"
      unfolding IssueTokens_def by (auto simp: andThen_eq_Inl Let_def)
    with createAccessToken_err [OF this assms(2)] redirectError_target [of req] show ?thesis unfolding err(2) by blast
  next
    case ok
    have "(''access_token'', [tr_AccessToken resp]) \<in> set (?v1 resp)" by (simp add: Values_Set_def)
    moreover from IssueTokens_ok [OF ok(1) assms(2)] have "I (w_store w')"
      "issued (oo_Lib opts) (ar_client req) (u_Id u) (ar_scopes req) '''' False resp (view (w_store w)) (view (w_store w'))"
      by simp_all
    ultimately show ?thesis using ok(2) by blast
  qed
qed

lemma HandleAuthorize_ok:
  assumes "HandleAuthorize opts i r w = (Inr out, w')" and "I (w_store w)"
    and cur: "reads_store (in_CurrentUser i r)"
  shows "I (w_store w')
     \<and> ((\<forall>p. out \<noteq> RedirectTo p) \<and> view (w_store w') = view (w_store w)
       \<or> (\<exists>params postForm req vals frag. r_ParseForm r = Some (params, postForm)
          \<and> out = redirect (ar_redirectUri req) vals frag
          \<and> tb_clients (view (w_store w)) (c_Id (ar_client req)) = Some (ar_client req) \<and> c_Enabled (ar_client req)
          \<and> RequiredParam params ''client_id'' = Inr (c_ClientId (ar_client req))
          \<and> Param params ''redirect_uri'' = Inr (ar_redirectUriParam req) \<and> ar_redirectUri req \<in> set (c_RedirectUris (ar_client req))
          \<and> (ar_redirectUriParam req = '''' \<or> ar_redirectUriParam req = ar_redirectUri req)
          \<and> (view (w_store w') = view (w_store w) \<or>
             (\<exists>u w0 w1. in_CurrentUser i r w0 = (Inr (Some u), w1)
                \<and> granted opts i r params postForm req u out (view (w_store w)) (view (w_store w'))))))"
proof (cases "r_ParseForm r")
  case None
  with assms(1,2) show ?thesis by (simp add: HandleAuthorize_def)
next
  case (Some f)
  obtain params postForm where f: "f = (params, postForm)" by (cases f)
  obtain x w1 where v: "validateClientAndRedirect opts params w = (x, w1)" by fastforce
  from preservesD [OF read_validateClientAndRedirect v] assms(2) have
    1: "I (w_store w1)" "view (w_store w1) = view (w_store w)" by auto
  show ?thesis
  proof (cases x)
    case (Inl e)
    with assms(1) Some f v 1 show ?thesis by (auto simp: HandleAuthorize_def handle_eq)
  next
    case (Inr req0)
    obtain req e where ve: "validateAuthorizeRequest req0 params = (req, e)" by fastforce
    note fr = validateAuthorizeRequest_frame [OF ve]
    note ok = validateClientAndRedirect_ok [OF v [unfolded Inr] assms(2), folded fr [THEN conjunct1]]
    have ok': "tb_clients (view (w_store w)) (c_Id (ar_client req)) = Some (ar_client req)" "c_Enabled (ar_client req)"
      "RequiredParam params ''client_id'' = Inr (c_ClientId (ar_client req))"
      "Param params ''redirect_uri'' = Inr (ar_redirectUriParam req)" "ar_redirectUri req \<in> set (c_RedirectUris (ar_client req))"
      "ar_redirectUriParam req = '''' \<or> ar_redirectUriParam req = ar_redirectUri req"
      using ok fr by auto
    let ?user = "\<lambda>current. case current of
       None \<Rightarrow> ret (LoginPage (authorizeURL opts params))
     | Some user \<Rightarrow>
         if account_CanSignIn (oo_Accounts opts) user \<noteq> None
         then ret (redirectError req (NewError ErrorAccessDenied ''the resource owner account is not active''))
         else case consentStep opts i r params postForm req user of
           Some outcome \<Rightarrow> ret outcome
         | None \<Rightarrow>
             if ar_responseType req = ResponseTypeCode then issueCode opts req user
             else if ar_responseType req = ResponseTypeToken then issueImplicitToken opts req user
             else ret NothingWritten"
    have run: "(case e of Some e \<Rightarrow> ret (redirectError req e) | None \<Rightarrow>
        handle (in_CurrentUser i r) (\<lambda>e. ret (redirectError req (serverError e))) ?user) w1 = (Inr out, w')"
      using assms(1) Some f v Inr ve by (cases e) (simp_all add: HandleAuthorize_def handle_def)
    have same: ?thesis if "w_store w' = w_store w1" "\<And>p. out = RedirectTo p \<Longrightarrow> \<exists>vals frag. out = redirect (ar_redirectUri req) vals frag"
    proof (cases "\<exists>p. out = RedirectTo p")
      case True
      with that(2) obtain vals frag where "out = redirect (ar_redirectUri req) vals frag" by blast
      with Some f ok' that(1) 1 show ?thesis by auto
    qed (use that(1) 1 in auto)
    show ?thesis
    proof (cases e)
      case e: (Some err)
      with run redirectError_target [of req] show ?thesis by (intro same) auto
    next
      case None
      obtain c w2 where c: "in_CurrentUser i r w1 = (c, w2)" by fastforce
      from cur c have s2: "w_store w2 = w_store w1" unfolding reads_store_def by (metis snd_conv)
      show ?thesis
      proof (cases c)
        case (Inl e')
        with run c None s2 redirectError_target [of req] show ?thesis by (intro same) (auto simp: handle_def)
      next
        case cr: (Inr cu)
        with run c None have run2: "?user cu w2 = (Inr out, w')" by (simp add: handle_def del: not_None_eq)
        show ?thesis
        proof (cases "\<exists>u. cu = Some u \<and> account_CanSignIn (oo_Accounts opts) u = None \<and> consentStep opts i r params postForm req u = None")
          case False
          then consider "cu = None" | u where "cu = Some u" "account_CanSignIn (oo_Accounts opts) u \<noteq> None"
            | u o' where "cu = Some u" "account_CanSignIn (oo_Accounts opts) u = None" "consentStep opts i r params postForm req u = Some o'"
            by (metis not_None_eq)
          then show ?thesis
          proof cases
            case 3
            with run2 s2 consentStep_target redirectError_target [of req] show ?thesis by (intro same) (simp, fastforce)
          qed (use run2 s2 redirectError_target [of req] in \<open>(intro same; auto)+\<close>)
        next
          case True
          then obtain u where u: "cu = Some u" "account_CanSignIn (oo_Accounts opts) u = None"
            "consentStep opts i r params postForm req u = None" by blast
          from validateAuthorizeRequest_ok [OF ve [unfolded None]] have au: "authorized params req" .
          have i2: "I (w_store w2)" "view (w_store w2) = view (w_store w)" using 1 s2 by simp_all
          note cons = u(3) [unfolded consentStep_None]
          from au consider (code) "ar_responseType req = ResponseTypeCode" | (tok) "ar_responseType req = ResponseTypeToken"
            unfolding authorized_def by blast
          then show ?thesis
          proof cases
            case code
            with run2 u have "issueCode opts req u w2 = (Inr out, w')" by simp
            note g = issueCode_ok [OF this i2(1), unfolded i2(2)]
            then have "view (w_store w') = view (w_store w)
              \<or> granted opts i r params postForm req u out (view (w_store w)) (view (w_store w'))"
              unfolding granted_def if_P [OF code] using au u(2) cons by blast
            with g Some f ok' c cr u(1) show ?thesis by metis
          next
            case tok
            then have nc: "ar_responseType req \<noteq> ResponseTypeCode" by simp
            with tok run2 u have "issueImplicitToken opts req u w2 = (Inr out, w')" by simp
            note g = issueImplicitToken_ok [OF this i2(1), unfolded i2(2)]
            then have "view (w_store w') = view (w_store w)
              \<or> granted opts i r params postForm req u out (view (w_store w)) (view (w_store w'))"
              unfolding granted_def if_not_P [OF nc] using au u(2) cons tok by blast
            with g Some f ok' c cr u(1) show ?thesis by metis
          qed
        qed
      qed
    qed
  qed
qed

end

section \<open>A sample request\<close>

definition sample_interaction :: "mem interaction" where
  "sample_interaction = \<lparr>in_CurrentUser = (\<lambda>r. ret (Some sample_user)), in_VerifyConsent = (\<lambda>r. True)\<rparr>"

definition sample_params_form :: url_values where
  "sample_params_form = [(''client_id'', [''spa'']), (''response_type'', [''code'']), (''redirect_uri'', [''app:/cb'']),
     (''scope'', [''a'']), (''state'', [''xyz'']), (''code_challenge'', [replicate 43 CHR ''v'']), (''consent'', [''allow''])]"

definition sample_authorize :: http_request where
  "sample_authorize = \<lparr>r_Method = ''POST'', r_ContentType = form_type, r_Authorization = '''',
     r_ParseForm = Some (sample_params_form, sample_params_form), r_Query = [], r_FailedForm = [],
      r_CSRFHeader = '''', r_Cookies = []\<rparr>"

lemma sample_interaction_reads: "reads_store (in_CurrentUser sample_interaction r)"
  by (simp add: reads_store_def sample_interaction_def ret_def)

lemma sample_authorize_run:
  "\<exists>w' p. HandleAuthorize sample_oauth sample_interaction sample_authorize sample_server_world = (Inr (RedirectTo p), w')
     \<and> dom (tb_authorizationCodes (mem_view (w_store w'))) \<noteq> dom (tb_authorizationCodes (mem_view (w_store sample_server_world)))"
proof -
  let ?now = 0 and ?v = "RandomToken_of (tape sample_server_world (w_pos sample_server_world) 32)"
    and ?i = "NewId_of (tape sample_server_world (w_pos sample_server_world + 32) 16)"
  let ?req = "\<lparr>ar_client = sample_client, ar_redirectUri = ''app:/cb'', ar_redirectUriParam = ''app:/cb'', ar_responseType = ''code'',
     ar_state = ''xyz'', ar_scopes = [''a''], ar_codeChallenge = replicate 43 CHR ''v'', ar_codeChallengeMethod = ''plain''\<rparr>"
  let ?start = "\<lparr>ar_client = sample_client, ar_redirectUri = ''app:/cb'', ar_redirectUriParam = ''app:/cb'', ar_responseType = '''',
     ar_state = '''', ar_scopes = [], ar_codeChallenge = '''', ar_codeChallengeMethod = ''''\<rparr>"
  have val: "validateClientAndRedirect sample_oauth sample_params_form sample_server_world = (Inr ?start, sample_server_world)"
  proof -
    have p: "RequiredParam sample_params_form ''client_id'' = Inr ''spa''" "Param sample_params_form ''redirect_uri'' = Inr ''app:/cb''"
      by (simp_all add: RequiredParam_def Param_def sample_params_form_def values_get_def)
    have c: "c_Enabled sample_client" "MatchRedirectUri sample_client ''app:/cb'' = Some ''app:/cb''"
      by (simp_all add: sample_client_def MatchRedirectUri_Some)
    have get: "on_store (GetClientByClientId (oo_Store sample_oauth) ''spa'') sample_server_world = (Inr sample_client, sample_server_world)"
      by (simp add: sample_oauth_def run_defs) (simp add: sample_server_world_def sample_client_def)
    show ?thesis
      by (simp add: validateClientAndRedirect_def p lift_def handle_def get c Let_def)
  qed
  have req: "validateAuthorizeRequest ?start sample_params_form = (?req, None)"
  proof -
    have p: "Param sample_params_form ''state'' = Inr ''xyz''" "Param sample_params_form ''response_type'' = Inr ''code''"
      "Param sample_params_form ''scope'' = Inr ''a''"
      by (simp_all add: Param_def sample_params_form_def values_get_def)
    have c: "checkResponseType sample_client ''code'' = None" "resolveScopes sample_client ''a'' = Inr [''a'']"
      "challengeOf sample_client sample_params_form = Inr (replicate 43 CHR ''v'', ''plain'')"
      by code_simp+
    show ?thesis unfolding validateAuthorizeRequest_def
      by (simp only: p c Let_def sum.case option.case prod.case authorizeRequest.simps ResponseTypeCode_def simp_thms if_True)
  qed
  have can: "account_CanSignIn (oo_Accounts sample_oauth) sample_user = None" by (simp add: sample_store sample_tables)
  have pf: "r_ParseForm sample_authorize = Some (sample_params_form, sample_params_form)" by (simp add: sample_authorize_def)
  have cu: "in_CurrentUser sample_interaction r = ret (Some sample_user)" for r by (simp add: sample_interaction_def)
  have con: "consentStep sample_oauth sample_interaction sample_authorize sample_params_form sample_params_form ?req sample_user = None"
    by (simp add: consentStep_None sample_authorize_def sample_params_form_def Values_Get_def values_get_def sample_interaction_def)
  have id: "?i \<noteq> ''k2''" using NewId_shape(1) [of "tape sample_server_world (w_pos sample_server_world + 32) 16"] by auto
  have h: "HashToken sample_lib ?v \<noteq> HashToken sample_lib ''code''" by (simp add: tape_def sample_server_world_def sample_world_def) code_simp
  have "\<exists>w' p. issueCode sample_oauth ?req sample_user sample_server_world = (Inr (RedirectTo p), w')
     \<and> ?i \<in> dom (tb_authorizationCodes (mem_view (w_store w')))"
    using id h unfolding issueCode_def Let_def run_clock run_NewToken run_NewId
    by (simp add: sample_oauth_def run_defs redirect_def mem_view_def)
       (simp add: sample_server_world_def sample_pkce_code_def sample_code_def)
  then obtain w' p where i: "issueCode sample_oauth ?req sample_user sample_server_world = (Inr (RedirectTo p), w')"
    "?i \<in> dom (tb_authorizationCodes (mem_view (w_store w')))" by blast
  have "HandleAuthorize sample_oauth sample_interaction sample_authorize sample_server_world =
      issueCode sample_oauth ?req sample_user sample_server_world"
    by (simp only: HandleAuthorize_def pf option.case prod.case handle_Inr val req cu handle_ret can con simp_thms
        if_True if_False authorizeRequest.simps ResponseTypeCode_def)
  moreover have "?i \<notin> dom (tb_authorizationCodes (mem_view (w_store sample_server_world)))"
    using id by (simp add: mem_view_def sample_server_world_def)
  ultimately show ?thesis using i by (metis (no_types, lifting))
qed

lemma sample_granted:
  "\<exists>w' p params postForm req u. HandleAuthorize sample_oauth sample_interaction sample_authorize sample_server_world = (Inr (RedirectTo p), w')
     \<and> granted sample_oauth sample_interaction sample_authorize params postForm req u (RedirectTo p)
         (mem_view (w_store sample_server_world)) (mem_view (w_store w'))
     \<and> ar_responseType req = ResponseTypeCode"
proof -
  from sample_authorize_run obtain p w' where
    r: "HandleAuthorize sample_oauth sample_interaction sample_authorize sample_server_world = (Inr (RedirectTo p), w')"
    and d: "dom (tb_authorizationCodes (mem_view (w_store w'))) \<noteq> dom (tb_authorizationCodes (mem_view (w_store sample_server_world)))"
    by blast
  from srv.HandleAuthorize_ok [where ul = "\<lambda>x. x" and opts = sample_oauth, unfolded sample_oauth_memory,
      OF r sample_server_inv sample_interaction_reads] d
  obtain params postForm req u where
    g: "granted sample_oauth sample_interaction sample_authorize params postForm req u (RedirectTo p)
         (mem_view (w_store sample_server_world)) (mem_view (w_store w'))" by metis
  have "ar_responseType req = ResponseTypeCode"
  proof (rule ccontr)
    assume n: "ar_responseType req \<noteq> ResponseTypeCode"
    from g obtain resp where "issued sample_lib (ar_client req) (u_Id u) (ar_scopes req) '''' False resp
        (mem_view (w_store sample_server_world)) (mem_view (w_store w'))"
      unfolding granted_def if_not_P [OF n] sample_store by blast
    from issued_parts [OF this] d show False by simp
  qed
  with r g show ?thesis by blast
qed

section \<open>Properties\<close>

text \<open>
  C10: the authorization endpoint is no open redirector: whenever it redirects, with a code, a token or an error, the
  request named a stored, enabled client, and the target is a redirect URI that client registered, the one the
  request asked for if it asked for one, with the parameters appended as query or fragment.
\<close>

theorem authorize_redirects_registered:
  assumes "HandleAuthorize (oauth_on_memory ul opts) i r w = (Inr (RedirectTo p), w')" and "mem_inv (w_store w)"
    and "reads_store (in_CurrentUser i r)"
  shows "\<exists>params postForm c redirectUri uri vals frag. r_ParseForm r = Some (params, postForm)
     \<and> tb_clients (mem_view (w_store w)) (c_Id c) = Some c \<and> c_Enabled c
     \<and> RequiredParam params ''client_id'' = Inr (c_ClientId c)
     \<and> Param params ''redirect_uri'' = Inr redirectUri \<and> uri \<in> set (c_RedirectUris c)
     \<and> (redirectUri = '''' \<or> redirectUri = uri)
     \<and> p_Status p = 302 \<and> (''Location'', redirect_target uri vals frag) \<in> set (p_Headers p)"
proof -
  from srv.HandleAuthorize_ok [OF assms] obtain params postForm and req :: authorizeRequest and vals frag where
    r: "r_ParseForm r = Some (params, postForm)" "RedirectTo p = redirect (ar_redirectUri req) vals frag"
      "tb_clients (mem_view (w_store w)) (c_Id (ar_client req)) = Some (ar_client req)" "c_Enabled (ar_client req)"
      "RequiredParam params ''client_id'' = Inr (c_ClientId (ar_client req))"
      "Param params ''redirect_uri'' = Inr (ar_redirectUriParam req)" "ar_redirectUri req \<in> set (c_RedirectUris (ar_client req))"
      "ar_redirectUriParam req = '''' \<or> ar_redirectUriParam req = ar_redirectUri req" by blast
  have "p_Status p = 302" "(''Location'', redirect_target (ar_redirectUri req) vals frag) \<in> set (p_Headers p)"
    using r(2) by (simp_all add: redirect_def)
  with r show ?thesis by blast
qed

theorem authorize_redirects_registered_witness:
  "\<exists>p w' (c :: client). HandleAuthorize sample_oauth sample_interaction sample_authorize sample_server_world = (Inr (RedirectTo p), w')
     \<and> mem_inv (w_store sample_server_world) \<and> c_Enabled c \<and> p_Status p = 302"
proof -
  from sample_authorize_run obtain p w' where
    r: "HandleAuthorize (oauth_on_memory (\<lambda>x. x) sample_oauth) sample_interaction sample_authorize sample_server_world = (Inr (RedirectTo p), w')"
    unfolding sample_oauth_memory by blast
  from authorize_redirects_registered [OF r sample_server_inv sample_interaction_reads] obtain c :: client where
    "c_Enabled c" "p_Status p = 302" by blast
  with r [unfolded sample_oauth_memory] sample_server_inv show ?thesis by blast
qed





end
