(* ===== verification/BearerProofs.thy ===== *)
theory BearerProofs
  imports OAuthBearer TokenProperties
begin

text \<open>
  The guarantees of bearer validation, introspection and revocation. \<open>valid_token\<close> says when an access token is
  good; the middleware and the introspection endpoint are both measured by it.
\<close>

definition live_user :: "'s oauth_options \<Rightarrow> tables \<Rightarrow> string \<Rightarrow> bool" where
  "live_user opts T k \<longleftrightarrow> k = '''' \<or> (\<exists>u. tb_users T k = Some u \<and> account_CanSignIn (oo_Accounts opts) u = None)"

definition valid_token :: "'s oauth_options \<Rightarrow> tables \<Rightarrow> time \<Rightarrow> string \<Rightarrow> access_token \<Rightarrow> bool" where
  "valid_token opts T now tok a \<longleftrightarrow>
     a \<in> ran (tb_accessTokens T) \<and> at_TokenHash a = HashToken (oo_Lib opts) tok \<and> now < at_ExpiresAt a
     \<and> (\<exists>c. tb_clients T (at_ClientId a) = Some c \<and> c_Enabled c) \<and> live_user opts T (at_UserId a)"

text \<open>
  What revocation of the token with hash \<open>h\<close> by a client does to the tables: the token goes if it is the client's,
  and with a refresh token goes the access token linked to it.
\<close>

definition revoked_access :: "client \<Rightarrow> string \<Rightarrow> tables \<Rightarrow> tables" where
  "revoked_access c h T = T\<lparr>tb_accessTokens := keep (\<lambda>a. \<not> (at_TokenHash a = h \<and> at_ClientId a = c_Id c)) (tb_accessTokens T)\<rparr>"

definition revoked_refresh :: "client \<Rightarrow> string \<Rightarrow> tables \<Rightarrow> tables" where
  "revoked_refresh c h T = T
     \<lparr>tb_accessTokens := keep (\<lambda>a. \<not> (\<exists>t \<in> ran (tb_refreshTokens T).
        rt_TokenHash t = h \<and> rt_ClientId t = c_Id c \<and> rt_AccessTokenId t = at_Id a)) (tb_accessTokens T),
      tb_refreshTokens := keep (\<lambda>t. \<not> (rt_TokenHash t = h \<and> rt_ClientId t = c_Id c)) (tb_refreshTokens T)\<rparr>"

definition revoked :: "client \<Rightarrow> string \<Rightarrow> tables \<Rightarrow> tables" where
  "revoked c h T = revoked_access c h (revoked_refresh c h T)"

text \<open>No access token has the hash of a refresh token.\<close>

definition hashes_apart :: "tables \<Rightarrow> bool" where
  "hashes_apart T \<longleftrightarrow>
     (\<forall>a \<in> ran (tb_accessTokens T). \<forall>t \<in> ran (tb_refreshTokens T). at_TokenHash a \<noteq> rt_TokenHash t)"

lemma keep_all: "\<forall>x \<in> ran m. P x \<Longrightarrow> keep P m = m"
proof
  fix k
  assume "\<forall>x \<in> ran m. P x"
  then show "keep P m k = m k" by (cases "m k") (auto simp: keep_None ran_def)
qed

lemma keyed_inj: "keyed key m \<Longrightarrow> x \<in> ran m \<Longrightarrow> y \<in> ran m \<Longrightarrow> key x = key y \<Longrightarrow> x = y"
  by (metis keyed_ranD option.inject)

lemma delete_keep:
  assumes "keyed key m" and "x \<in> ran m" and "\<And>y. y \<in> ran m \<Longrightarrow> P y \<longleftrightarrow> y \<noteq> x"
  shows "m(key x := None) = keep P m"
proof
  fix k
  show "(m(key x := None)) k = keep P m k"
  proof (cases "m k")
    case None
    then show ?thesis by (simp add: keep_def)
  next
    case (Some y)
    then have r: "y \<in> ran m" by (rule ranI)
    from assms(3) [OF r] keyed_inj [OF assms(1) r assms(2)] have "P y \<longleftrightarrow> key y \<noteq> key x" by blast
    moreover from Some assms(1) have "key y = k" unfolding keyed_def by blast
    ultimately show ?thesis using Some by (cases "k = key x") (simp_all add: keep_def)
  qed
qed

lemma delete_key: "keyed key m \<Longrightarrow> m(k := None) = keep (\<lambda>y. key y \<noteq> k) m"
  by (auto simp: fun_eq_iff keep_None keyed_def keep_def split: option.splits)

lemma revoked_access_none: "\<forall>a \<in> ran (tb_accessTokens T). at_TokenHash a \<noteq> h \<Longrightarrow> revoked_access c h T = T"
  unfolding revoked_access_def by (subst keep_all) auto

lemma revoked_refresh_none:
  assumes "\<forall>t \<in> ran (tb_refreshTokens T). \<not> (rt_TokenHash t = h \<and> rt_ClientId t = c_Id c)"
  shows "revoked_refresh c h T = T"
proof -
  have "keep (\<lambda>a. \<not> (\<exists>t \<in> ran (tb_refreshTokens T). rt_TokenHash t = h \<and> rt_ClientId t = c_Id c \<and> rt_AccessTokenId t = at_Id a))
      (tb_accessTokens T) = tb_accessTokens T"
    "keep (\<lambda>t. \<not> (rt_TokenHash t = h \<and> rt_ClientId t = c_Id c)) (tb_refreshTokens T) = tb_refreshTokens T"
    using assms by (intro keep_all; blast)+
  then show ?thesis unfolding revoked_refresh_def by simp
qed

lemma revoked_access_after:
  "\<forall>a \<in> ran (tb_accessTokens T). at_TokenHash a \<noteq> h \<Longrightarrow> revoked c h T = revoked_refresh c h T"
  unfolding revoked_def by (rule revoked_access_none) (auto simp: revoked_refresh_def ran_keep)

context oauth_service
begin

lemma read_ValidateAccessToken:
  "preserves (\<lambda>w. I (w_store w) \<and> view (w_store w) = V) (ValidateAccessToken opts tok)"
  unfolding ValidateAccessToken_def
  by (intro preserves_rules preserves_lookup [OF st(5)] preserves_get [OF st(1)] preserves_get [OF st(3)]
      preserves_world [where P = "\<lambda>s. I s \<and> view s = V"])

lemma ValidateAccessToken_ok:
  assumes "ValidateAccessToken opts tok w = (Inr info, w')" and "I (w_store w)"
  shows "valid_token opts (view (w_store w)) (truncate_ms (w_clock w (w_ticks w))) tok (ti_Token info)
     \<and> tb_clients (view (w_store w)) (at_ClientId (ti_Token info)) = Some (ti_Client info)
     \<and> (case ti_User info of None \<Rightarrow> at_UserId (ti_Token info) = ''''
        | Some u \<Rightarrow> tb_users (view (w_store w)) (at_UserId (ti_Token info)) = Some u)
     \<and> I (w_store w') \<and> view (w_store w') = view (w_store w)"
proof -
  let ?uget = "\<lambda>a. mapErr (\<lambda>e. if e = ErrNotFound
                            then invalid_token ''the resource owner of the access token is not active'' else GStore e)
         (on_store (GetUserById (oo_Store opts) (at_UserId a)))"
  from assms(1) obtain a wa c wc where
    g: "on_store (GetAccessTokenByHash (oo_Store opts) (HashToken (oo_Lib opts) tok)) w = (Inr a, wa)"
    and ex: "\<not> access_token_HasExpired a (truncate_ms (w_clock wa (w_ticks wa)))"
    and gc: "on_store (GetClientById (oo_Store opts) (at_ClientId a)) (wa\<lparr>w_ticks := Suc (w_ticks wa)\<rparr>) = (Inr c, wc)"
    and en: "c_Enabled c"
    and rest: "(if at_UserId a \<noteq> '''' then
       andThen (?uget a) (\<lambda>user.
       if account_CanSignIn (oo_Accounts opts) user \<noteq> None
       then fail (invalid_token ''the resource owner of the access token is not active'')
       else ret \<lparr>ti_Token = a, ti_Client = c, ti_User = Some user\<rparr>)
     else ret \<lparr>ti_Token = a, ti_Client = c, ti_User = None\<rparr>) wc = (Inr info, w')"
    unfolding ValidateAccessToken_def by (simp add: andThen_eq_Inr guard_eq_Inr clock_now_eq del: not_None_eq) blast
  from on_store_ok [OF g st(5) assms(2)] have 1: "I (w_store wa)" "view (w_store wa) = view (w_store w)"
    "a \<in> ran (tb_accessTokens (view (w_store w)))" "at_TokenHash a = HashToken (oo_Lib opts) tok"
    by (simp_all add: find_spec_ok)
  have i2: "I (w_store (wa\<lparr>w_ticks := Suc (w_ticks wa)\<rparr>))" using 1 by simp
  from on_store_ok [OF gc st(1) i2] have 2: "I (w_store wc)" "view (w_store wc) = view (w_store w)"
    "tb_clients (view (w_store w)) (at_ClientId a) = Some c" using 1(2) by (simp_all add: get_spec_ok)
  have now: "truncate_ms (w_clock wa (w_ticks wa)) = truncate_ms (w_clock w (w_ticks w))" using on_store_frame [OF g] by simp
  have 3: "ti_Token info = a \<and> ti_Client info = c
     \<and> (case ti_User info of None \<Rightarrow> at_UserId a = '''' | Some u \<Rightarrow> tb_users (view (w_store w)) (at_UserId a) = Some u)
     \<and> live_user opts (view (w_store w)) (at_UserId a) \<and> I (w_store w') \<and> view (w_store w') = view (w_store w)"
  proof (cases "at_UserId a = ''''")
    case True
    with rest 2 show ?thesis by (simp add: live_user_def)
  next
    case False
    with rest obtain u where u: "on_store (GetUserById (oo_Store opts) (at_UserId a)) wc = (Inr u, w')"
      "account_CanSignIn (oo_Accounts opts) u = None" "info = \<lparr>ti_Token = a, ti_Client = c, ti_User = Some u\<rparr>"
      by (auto simp: andThen_eq_Inr split: if_splits)
    from on_store_ok [OF u(1) st(3) 2(1)] u 2 show ?thesis by (simp add: get_spec_ok live_user_def)
  qed
  with 1 2 en ex show ?thesis by (auto simp: valid_token_def access_token_HasExpired_def now)
qed

lemma RequireBearer_ok:
  assumes "RequireBearer opts scopes r w = (Inr (Served info), w')" and "I (w_store w)"
  shows "\<exists>scheme tok. cut_at CHR '' '' (r_Authorization r) = Some (scheme, tok) \<and> equal_fold scheme ''Bearer''
     \<and> valid_token opts (view (w_store w)) (truncate_ms (w_clock w (w_ticks w))) (trim_space tok) (ti_Token info)
     \<and> tb_clients (view (w_store w)) (at_ClientId (ti_Token info)) = Some (ti_Client info)
     \<and> (case ti_User info of None \<Rightarrow> at_UserId (ti_Token info) = ''''
        | Some u \<Rightarrow> tb_users (view (w_store w)) (at_UserId (ti_Token info)) = Some u)
     \<and> set scopes \<subseteq> set (at_Scopes (ti_Token info)) \<and> I (w_store w') \<and> view (w_store w') = view (w_store w)"
proof -
  from assms(1) obtain scheme tok where
    1: "cut_at CHR '' '' (r_Authorization r) = Some (scheme, tok)" "equal_fold scheme ''Bearer''"
      "ValidateAccessToken opts (trim_space tok) w = (Inr info, w')"
      "\<forall>scope \<in> set scopes. HasScope (at_Scopes (ti_Token info)) scope"
    unfolding RequireBearer_def Let_def
    by (auto simp: handle_eq list_ex_iff split: if_splits option.splits)
  from ValidateAccessToken_ok [OF 1(3) assms(2)] 1 show ?thesis
    by (auto simp: HasScope_def)
qed

end

context reliable_oauth
begin

text \<open>On a store that reports no failures a valid token is accepted.\<close>

lemma ValidateAccessToken_complete:
  assumes "valid_token opts (view (w_store w)) (truncate_ms (w_clock w (w_ticks w))) tok a" and "I (w_store w)"
  shows "\<exists>info w'. ValidateAccessToken opts tok w = (Inr info, w') \<and> ti_Token info = a"
proof -
  note v = assms(1) [unfolded valid_token_def]
  have un: "unique_field at_TokenHash (tb_accessTokens (view (w_store w)))" using view_ok [OF assms(2)] by (simp add: tables_ok_def)
  obtain r wa where r: "on_store (GetAccessTokenByHash (oo_Store opts) (HashToken (oo_Lib opts) tok)) w = (r, wa)" by fastforce
  note e = on_store_exact [OF r st(5) rel(1) assms(2)]
  with find_spec_exact [OF conjunct2 [OF e] un] v have r1: "r = Inr a" "view (w_store wa) = view (w_store w)" "I (w_store wa)" by blast+
  have now: "truncate_ms (w_clock wa (w_ticks wa)) = truncate_ms (w_clock w (w_ticks w))" using on_store_frame [OF r] by simp
  let ?wa = "wa\<lparr>w_ticks := Suc (w_ticks wa)\<rparr>"
  have nx: "\<not> access_token_HasExpired a (truncate_ms (w_clock w (w_ticks w)))" using v by (simp add: access_token_HasExpired_def)
  from v obtain c where c: "tb_clients (view (w_store w)) (at_ClientId a) = Some c" "c_Enabled c" by blast
  obtain q wc where q: "on_store (GetClientById (oo_Store opts) (at_ClientId a)) ?wa = (q, wc)" by fastforce
  have "I (w_store ?wa)" using r1 by simp
  note e2 = on_store_exact [OF q st(1) rel(6) this]
  then have q1: "q = Inr c" "I (w_store wc)" "view (w_store wc) = view (w_store w)" using c r1 by (simp_all add: get_spec_def)
  show ?thesis
  proof (cases "at_UserId a = ''''")
    case True
    have "ValidateAccessToken opts tok w = (Inr \<lparr>ti_Token = a, ti_Client = c, ti_User = None\<rparr>, wc)"
      using nx c(2) by (simp only: ValidateAccessToken_def run_call r r1(1) run_clock now q q1(1) simp_thms if_False True run_ret)
    then show ?thesis by simp
  next
    case False
    with v obtain u where u: "tb_users (view (w_store w)) (at_UserId a) = Some u" "account_CanSignIn (oo_Accounts opts) u = None"
      by (auto simp: live_user_def)
    obtain z wu where z: "on_store (GetUserById (oo_Store opts) (at_UserId a)) wc = (z, wu)" by fastforce
    note e3 = on_store_exact [OF z st(3) rel(7) q1(2)]
    then have z1: "z = Inr u" using u q1 by (simp add: get_spec_def)
    have "ValidateAccessToken opts tok w = (Inr \<lparr>ti_Token = a, ti_Client = c, ti_User = Some u\<rparr>, wu)"
      using nx c(2) False u(2)
      by (simp only: ValidateAccessToken_def run_call r r1(1) run_clock now q q1(1) z z1 simp_thms if_False if_True run_ret)
    then show ?thesis by simp
  qed
qed

text \<open>The answer of introspection about a token that was found.\<close>

lemma found_exact:
  assumes "I (w_store w)"
  shows "\<exists>resp w'. introspectFound opts f w = (Inr resp, w')
     \<and> (if \<not> fn_expired f \<and> (\<exists>c. tb_clients (view (w_store w)) (fn_clientId f) = Some c \<and> c_Enabled c)
           \<and> live_user opts (view (w_store w)) (fn_userId f)
        then ir_Active resp \<and> ir_TokenType resp = fn_tokenType f \<and> ir_Scope resp = FormatScope (fn_scopes f)
           \<and> ir_Subject resp = fn_userId f \<and> ir_ExpiresAt resp = fn_expiresAt f
           \<and> (\<exists>c. tb_clients (view (w_store w)) (fn_clientId f) = Some c \<and> ir_ClientId resp = c_ClientId c)
        else resp = inactive)"
proof (cases "fn_expired f")
  case True
  then show ?thesis by (simp add: introspectFound_def)
next
  case False
  obtain q w1 where q: "on_store (GetClientById (oo_Store opts) (fn_clientId f)) w = (q, w1)" by fastforce
  note e = on_store_exact [OF q st(1) rel(6) assms]
  show ?thesis
  proof (cases "\<exists>c. tb_clients (view (w_store w)) (fn_clientId f) = Some c \<and> c_Enabled c")
    case no: False
    then consider "q = Inl ErrNotFound" | c where "q = Inr c" "\<not> c_Enabled c"
      using e by (auto simp: get_spec_def split: option.splits)
    then show ?thesis using no False q by cases (auto simp: introspectFound_def handle_def)
  next
    case yes: True
    then obtain c where c: "tb_clients (view (w_store w)) (fn_clientId f) = Some c" "c_Enabled c" by blast
    from e c have q1: "q = Inr c" "I (w_store w1)" "view (w_store w1) = view (w_store w)" by (simp_all add: get_spec_def)
    obtain z w2 where z: "on_store (GetUserById (oo_Store opts) (fn_userId f)) w1 = (z, w2)" by fastforce
    note e2 = on_store_exact [OF z st(3) rel(7) q1(2)]
    have ku: "keyed u_Id (tb_users (view (w_store w)))" using view_ok [OF assms] by (simp add: tables_ok_def)
    consider (none) "fn_userId f = ''''" | (gone) "fn_userId f \<noteq> ''''" "tb_users (view (w_store w)) (fn_userId f) = None"
      | (usr) u where "fn_userId f \<noteq> ''''" "tb_users (view (w_store w)) (fn_userId f) = Some u" by blast
    then show ?thesis
    proof cases
      case none
      with False q q1 c show ?thesis by (simp add: introspectFound_def handle_def live_user_def Let_def)
    next
      case gone
      then have "z = Inl ErrNotFound" using e2 q1(3) by (simp add: get_spec_def)
      with gone False q q1 c z show ?thesis by (simp add: introspectFound_def handle_def live_user_def Let_def)
    next
      case usr
      then have "z = Inr u" using e2 q1(3) by (simp add: get_spec_def)
      moreover have "u_Id u = fn_userId f" using ku usr(2) unfolding keyed_def by blast
      ultimately show ?thesis using usr False q q1 c z
        by (cases "account_CanSignIn (oo_Accounts opts) u") (simp_all add: introspectFound_def handle_def live_user_def Let_def)
    qed
  qed
qed

lemma Introspect_exact:
  assumes "I (w_store w)" and "hint \<noteq> TokenTypeHintRefreshToken"
  shows "\<exists>resp w'. Introspect opts tok hint w = (Inr resp, w')
     \<and> (ir_Active resp \<and> ir_TokenType resp = TokenTypeBearer \<longleftrightarrow>
          (\<exists>a. valid_token opts (view (w_store w)) (truncate_ms (w_clock w (w_ticks w))) tok a))
     \<and> (\<forall>a. valid_token opts (view (w_store w)) (truncate_ms (w_clock w (w_ticks w))) tok a \<longrightarrow>
          ir_Scope resp = FormatScope (at_Scopes a) \<and> ir_Subject resp = at_UserId a)"
proof -
  let ?h = "HashToken (oo_Lib opts) tok" and ?now = "truncate_ms (w_clock w (w_ticks w))" and ?w = "w\<lparr>w_ticks := Suc (w_ticks w)\<rparr>"
  let ?A = "tb_accessTokens (view (w_store w))"
  have un: "unique_field at_TokenHash ?A" using view_ok [OF assms(1)] by (simp add: tables_ok_def)
  obtain r wa where r: "on_store (GetAccessTokenByHash (oo_Store opts) ?h) ?w = (r, wa)" by fastforce
  have iw: "I (w_store ?w)" using assms(1) by simp
  note e = on_store_exact [OF r st(5) rel(1) iw]
  have e1: "I (w_store wa)" "view (w_store wa) = view (w_store w)" using e by (simp_all add: find_spec_def)
  show ?thesis
  proof (cases r)
    case (Inr a)
    with e have a: "a \<in> ran ?A" "at_TokenHash a = ?h" by (simp_all add: find_spec_ok)
    have valid: "valid_token opts (view (w_store w)) ?now tok b \<longleftrightarrow> b = a \<and> \<not> fn_expired (foundAccess ?now a)
        \<and> (\<exists>c. tb_clients (view (w_store wa)) (fn_clientId (foundAccess ?now a)) = Some c \<and> c_Enabled c)
        \<and> live_user opts (view (w_store wa)) (fn_userId (foundAccess ?now a))" for b
      using a un unfolding valid_token_def e1 by (auto simp: foundAccess_def access_token_HasExpired_def unique_field_def)
    let ?f = "foundAccess ?now a"
    from found_exact [OF e1(1), of ?f] obtain resp w' where f: "introspectFound opts ?f wa = (Inr resp, w')"
      and s0: "if \<not> fn_expired ?f \<and> (\<exists>c. tb_clients (view (w_store wa)) (fn_clientId ?f) = Some c \<and> c_Enabled c)
           \<and> live_user opts (view (w_store wa)) (fn_userId ?f)
        then ir_Active resp \<and> ir_TokenType resp = fn_tokenType ?f \<and> ir_Scope resp = FormatScope (fn_scopes ?f)
           \<and> ir_Subject resp = fn_userId ?f \<and> ir_ExpiresAt resp = fn_expiresAt ?f
           \<and> (\<exists>c. tb_clients (view (w_store wa)) (fn_clientId ?f) = Some c \<and> ir_ClientId resp = c_ClientId c)
        else resp = inactive" by blast
    have f': "fn_tokenType ?f = TokenTypeBearer" "fn_scopes ?f = at_Scopes a" "fn_userId ?f = at_UserId a"
      by (simp_all add: foundAccess_def)
    have s: "if \<exists>b. valid_token opts (view (w_store w)) ?now tok b
        then ir_Active resp \<and> ir_TokenType resp = TokenTypeBearer \<and> ir_Scope resp = FormatScope (at_Scopes a)
           \<and> ir_Subject resp = at_UserId a
        else resp = inactive"
      using s0 [unfolded f'] unfolding valid f' by (simp split: if_split_asm)
    have "Introspect opts tok hint w = (Inr resp, w')"
      using f r Inr assms(2) unfolding Introspect_def Let_def run_clock by (simp add: andThen_def handle_def ret_def)
    with s valid show ?thesis by (auto simp: inactive_def split: if_splits)
  next
    case (Inl e')
    with e have none: "e' = ErrNotFound" "\<forall>a \<in> ran ?A. at_TokenHash a \<noteq> ?h" by (simp_all add: find_spec_def)
    obtain q wb where q: "on_store (GetRefreshTokenByHash (oo_Store opts) ?h) wa = (q, wb)" by fastforce
    note e2 = on_store_exact [OF q st(10) rel(2) e1(1)]
    have nv: "\<not> valid_token opts (view (w_store w)) ?now tok b" for b using none(2) by (auto simp: valid_token_def)
    show ?thesis
    proof (cases q)
      case q': (Inl e'')
      with e2 have "e'' = ErrNotFound" by (simp add: find_spec_def)
      then have "Introspect opts tok hint w = (Inr inactive, wb)"
        using r Inl none(1) q q' assms(2) unfolding Introspect_def Let_def run_clock by (simp add: andThen_def handle_def ret_def)
      with nv show ?thesis by (auto simp: inactive_def)
    next
      case q': (Inr t)
      let ?f = "foundRefresh ?now t"
      from e2 have "I (w_store wb)" by blast
      from found_exact [OF this, of ?f] obtain resp w' where f: "introspectFound opts ?f wb = (Inr resp, w')"
        and s: "resp = inactive \<or> ir_TokenType resp = fn_tokenType ?f" by (auto split: if_split_asm)
      have g: "Introspect opts tok hint w = (Inr resp, w')"
        using f r Inl none(1) q q' assms(2) unfolding Introspect_def Let_def run_clock
        by (simp add: andThen_def handle_def ret_def)
      have "fn_tokenType ?f \<noteq> TokenTypeBearer" by (simp add: foundRefresh_def)
      with g s nv show ?thesis by (auto simp: inactive_def)
    qed
  qed
qed

section \<open>Revocation\<close>

text \<open>Deleting a token that may be gone already takes its id out of the table.\<close>

lemma drop_absent: "k \<notin> dom m \<Longrightarrow> m(k := None) = m"
  by (auto simp: fun_eq_iff domIff)

lemma deleteAccess_exact:
  assumes "I (w_store w)"
  shows "\<exists>w'. ignoreNotFound (on_store (DeleteAccessToken (oo_Store opts) k)) w = (Inr (), w') \<and> I (w_store w')
     \<and> view (w_store w') = tb_accessTokens_update (\<lambda>m. m(k := None)) (view (w_store w))"
proof -
  obtain r w' where r: "on_store (DeleteAccessToken (oo_Store opts) k) w = (r, w')" by fastforce
  from on_store_exact [OF r st(7) rel(8) assms] have e: "I (w_store w')"
    "r = Inr () \<or> r = Inl ErrNotFound"
    "view (w_store w') = tb_accessTokens_update (\<lambda>m. m(k := None)) (view (w_store w))"
    by (auto simp: delete_spec_def drop_absent split: if_splits)
  from e(2) r have "ignoreNotFound (on_store (DeleteAccessToken (oo_Store opts) k)) w = (Inr (), w')"
    by (auto simp: ignoreNotFound_def handle_def)
  with e show ?thesis by blast
qed

lemma deleteRefresh_exact:
  assumes "I (w_store w)"
  shows "\<exists>w'. ignoreNotFound (on_store (DeleteRefreshToken (oo_Store opts) k)) w = (Inr (), w') \<and> I (w_store w')
     \<and> view (w_store w') = tb_refreshTokens_update (\<lambda>m. m(k := None)) (view (w_store w))"
proof -
  obtain r w' where r: "on_store (DeleteRefreshToken (oo_Store opts) k) w = (r, w')" by fastforce
  from on_store_exact [OF r st(13) rel(9) assms] have e: "I (w_store w')"
    "r = Inr () \<or> r = Inl ErrNotFound"
    "view (w_store w') = tb_refreshTokens_update (\<lambda>m. m(k := None)) (view (w_store w))"
    by (auto simp: delete_spec_def drop_absent split: if_splits)
  from e(2) r have "ignoreNotFound (on_store (DeleteRefreshToken (oo_Store opts) k)) w = (Inr (), w')"
    by (auto simp: ignoreNotFound_def handle_def)
  with e show ?thesis by blast
qed

lemma revokeAccess_exact:
  assumes "I (w_store w)"
  shows "\<exists>w'. revokeAccess opts c h w = (Inr (\<exists>a \<in> ran (tb_accessTokens (view (w_store w))). at_TokenHash a = h), w')
     \<and> I (w_store w') \<and> view (w_store w') = revoked_access c h (view (w_store w))"
proof -
  let ?A = "tb_accessTokens (view (w_store w))"
  have ok: "keyed at_Id ?A" "unique_field at_TokenHash ?A" using view_ok [OF assms] by (simp_all add: tables_ok_def)
  obtain r wa where r: "on_store (GetAccessTokenByHash (oo_Store opts) h) w = (r, wa)" by fastforce
  note e = on_store_exact [OF r st(5) rel(1) assms]
  have e1: "I (w_store wa)" "view (w_store wa) = view (w_store w)" using e by (simp_all add: find_spec_def)
  show ?thesis
  proof (cases r)
    case (Inl x)
    with e have n: "x = ErrNotFound" "\<not> (\<exists>a \<in> ran ?A. at_TokenHash a = h)" by (auto simp: find_spec_def)
    then have "revoked_access c h (view (w_store w)) = view (w_store w)" by (intro revoked_access_none) blast
    with n e1 show ?thesis using r Inl by (auto simp: revokeAccess_def handle_def ret_def)
  next
    case (Inr a)
    with e have a: "a \<in> ran ?A" "at_TokenHash a = h" by (simp_all add: find_spec_ok)
    then have ex: "(\<exists>a \<in> ran ?A. at_TokenHash a = h) = True" by blast
    show ?thesis
    proof (cases "at_ClientId a = c_Id c")
      case True
      from deleteAccess_exact [OF e1(1), of "at_Id a"] obtain w' where
        d: "ignoreNotFound (on_store (DeleteAccessToken (oo_Store opts) (at_Id a))) wa = (Inr (), w')" "I (w_store w')"
          "view (w_store w') = tb_accessTokens_update (\<lambda>m. m(at_Id a := None)) (view (w_store w))" unfolding e1(2) by blast
      have "?A(at_Id a := None) = keep (\<lambda>a. \<not> (at_TokenHash a = h \<and> at_ClientId a = c_Id c)) ?A"
        by (rule delete_keep [OF ok(1) a(1)]) (use a True ok(2) in \<open>auto simp: unique_field_def\<close>)
      then have "view (w_store w') = revoked_access c h (view (w_store w))" unfolding d(3) revoked_access_def by simp
      with d(1,2) r Inr True show ?thesis unfolding ex by (auto simp: revokeAccess_def handle_def ret_def andThen_def)
    next
      case False
      then have "keep (\<lambda>a. \<not> (at_TokenHash a = h \<and> at_ClientId a = c_Id c)) ?A = ?A"
        using a ok(2) by (intro keep_all) (auto simp: unique_field_def)
      then have "revoked_access c h (view (w_store w)) = view (w_store w)" unfolding revoked_access_def by simp
      with e1 r Inr False show ?thesis unfolding ex by (auto simp: revokeAccess_def handle_def ret_def)
    qed
  qed
qed

lemma revokeRefresh_exact:
  assumes "I (w_store w)"
  shows "\<exists>w'. revokeRefresh opts c h w = (Inr (\<exists>t \<in> ran (tb_refreshTokens (view (w_store w))). rt_TokenHash t = h), w')
     \<and> I (w_store w') \<and> view (w_store w') = revoked_refresh c h (view (w_store w))"
proof -
  let ?A = "tb_accessTokens (view (w_store w))" and ?R = "tb_refreshTokens (view (w_store w))"
  let ?P = "\<lambda>a. \<not> (\<exists>t \<in> ran ?R. rt_TokenHash t = h \<and> rt_ClientId t = c_Id c \<and> rt_AccessTokenId t = at_Id a)"
  let ?Q = "\<lambda>t. \<not> (rt_TokenHash t = h \<and> rt_ClientId t = c_Id c)"
  have ok: "keyed rt_Id ?R" "unique_field rt_TokenHash ?R" "keyed at_Id ?A"
    using view_ok [OF assms] by (simp_all add: tables_ok_def)
  obtain r wa where r: "on_store (GetRefreshTokenByHash (oo_Store opts) h) w = (r, wa)" by fastforce
  note e = on_store_exact [OF r st(10) rel(2) assms]
  have e1: "I (w_store wa)" "view (w_store wa) = view (w_store w)" using e by (simp_all add: find_spec_def)
  show ?thesis
  proof (cases r)
    case (Inl x)
    with e have n: "x = ErrNotFound" "\<not> (\<exists>t \<in> ran ?R. rt_TokenHash t = h)" by (auto simp: find_spec_def)
    then have "\<forall>t \<in> ran ?R. \<not> (rt_TokenHash t = h \<and> rt_ClientId t = c_Id c)" by blast
    note revoked_refresh_none [OF this]
    with n e1 show ?thesis using r Inl by (auto simp: revokeRefresh_def handle_def ret_def)
  next
    case (Inr t)
    with e have t: "t \<in> ran ?R" "rt_TokenHash t = h" by (simp_all add: find_spec_ok)
    then have ex: "(\<exists>t \<in> ran ?R. rt_TokenHash t = h) = True" by blast
    have only: "s = t" if "s \<in> ran ?R" "rt_TokenHash s = h" for s using that t ok(2) unfolding unique_field_def by blast
    show ?thesis
    proof (cases "rt_ClientId t = c_Id c")
      case False
      then have "\<forall>t \<in> ran ?R. \<not> (rt_TokenHash t = h \<and> rt_ClientId t = c_Id c)" using only by blast
      note revoked_refresh_none [OF this]
      with e1 r Inr False show ?thesis unfolding ex by (auto simp: revokeRefresh_def handle_def ret_def)
    next
      case own: True
      from deleteRefresh_exact [OF e1(1), of "rt_Id t"] obtain w1 where
        d: "ignoreNotFound (on_store (DeleteRefreshToken (oo_Store opts) (rt_Id t))) wa = (Inr (), w1)" "I (w_store w1)"
          "view (w_store w1) = tb_refreshTokens_update (\<lambda>m. m(rt_Id t := None)) (view (w_store w))" unfolding e1(2) by blast
      have R: "?R(rt_Id t := None) = keep ?Q ?R"
        by (rule delete_keep [OF ok(1) t(1)]) (use t own only in blast)
      have P: "\<not> (\<exists>t \<in> ran ?R. rt_TokenHash t = h \<and> rt_ClientId t = c_Id c \<and> rt_AccessTokenId t = at_Id a)
          \<longleftrightarrow> at_Id a \<noteq> rt_AccessTokenId t" for a
        using t own only by metis
      show ?thesis
      proof (cases "rt_AccessTokenId t = ''''")
        case True
        have "keep ?P ?A = ?A" unfolding P True by (rule keep_all) (use ok(3) in \<open>auto dest: keyed_ranD\<close>)
        then have v: "view (w_store w1) = revoked_refresh c h (view (w_store w))"
          unfolding d(3) revoked_refresh_def by (simp add: R)
        have "revokeRefresh opts c h w = (Inr True, w1)"
          using d(1) r Inr own True by (simp add: revokeRefresh_def handle_def ret_def andThen_def)
        with v d(2) show ?thesis unfolding ex by blast
      next
        case False
        from deleteAccess_exact [OF d(2), of "rt_AccessTokenId t"] obtain w2 where
          d2: "ignoreNotFound (on_store (DeleteAccessToken (oo_Store opts) (rt_AccessTokenId t))) w1 = (Inr (), w2)" "I (w_store w2)"
            "view (w_store w2) = tb_accessTokens_update (\<lambda>m. m(rt_AccessTokenId t := None)) (view (w_store w1))" by blast
        have "?A(rt_AccessTokenId t := None) = keep ?P ?A" unfolding P by (rule delete_key [OF ok(3)])
        then have v: "view (w_store w2) = revoked_refresh c h (view (w_store w))"
          unfolding d2(3) d(3) revoked_refresh_def by (simp add: R)
        have "revokeRefresh opts c h w = (Inr True, w2)"
          using d(1) d2(1) r Inr own False by (simp add: revokeRefresh_def handle_def ret_def andThen_def)
        with v d2(2) show ?thesis unfolding ex by blast
      qed
    qed
  qed
qed

text \<open>Whatever the hint, revocation succeeds and has the effect of \<open>revoked\<close>.\<close>

lemma revoke_exact:
  assumes "I (w_store w)" and "hashes_apart (view (w_store w))"
  shows "\<exists>w'. revoke opts c tok hint w = (Inr (), w') \<and> I (w_store w')
     \<and> view (w_store w') = revoked c (HashToken (oo_Lib opts) tok) (view (w_store w))"
proof -
  let ?h = "HashToken (oo_Lib opts) tok" and ?T = "view (w_store w)"
  let ?A = "\<exists>a \<in> ran (tb_accessTokens ?T). at_TokenHash a = ?h" and ?R = "\<exists>t \<in> ran (tb_refreshTokens ?T). rt_TokenHash t = ?h"
  from revokeAccess_exact [OF assms(1), of c ?h] obtain wa where
    a: "revokeAccess opts c ?h w = (Inr ?A, wa)" "I (w_store wa)" "view (w_store wa) = revoked_access c ?h ?T" by blast
  from revokeRefresh_exact [OF assms(1), of c ?h] obtain wr where
    r: "revokeRefresh opts c ?h w = (Inr ?R, wr)" "I (w_store wr)" "view (w_store wr) = revoked_refresh c ?h ?T" by blast
  have noR: "revoked_refresh c ?h ?T = ?T" if "\<not> ?R" by (rule revoked_refresh_none) (use that in blast)
  have noA: "revoked_access c ?h ?T = ?T" "revoked c ?h ?T = revoked_refresh c ?h ?T" if "\<not> ?A"
    using that by (intro revoked_access_none revoked_access_after; blast)+
  have apart: "\<not> ?A \<or> \<not> ?R" using assms(2) unfolding hashes_apart_def by fastforce
  show ?thesis
  proof (cases "hint = TokenTypeHintRefreshToken")
    case hint: True
    show ?thesis
    proof (cases ?R)
      case True
      with apart have "\<not> ?A" by blast
      from noA(2) [OF this] r(3) have "view (w_store wr) = revoked c ?h ?T" by simp
      with True r(1,2) hint show ?thesis by (simp add: revoke_def Let_def andThen_def ret_def)
    next
      case False
      from revokeAccess_exact [OF r(2), of c ?h] obtain b w' where
        n: "revokeAccess opts c ?h wr = (Inr b, w')" "I (w_store w')" "view (w_store w') = revoked c ?h ?T"
        unfolding r(3) revoked_def by blast
      with False r(1) hint show ?thesis by (simp add: revoke_def Let_def andThen_def ret_def)
    qed
  next
    case hint: False
    show ?thesis
    proof (cases ?A)
      case True
      with apart have "\<not> ?R" by blast
      from noR [OF this] a(3) have "view (w_store wa) = revoked c ?h ?T" by (simp only: revoked_def)
      with True a(1,2) hint show ?thesis by (simp add: revoke_def Let_def andThen_def ret_def)
    next
      case False
      from revokeRefresh_exact [OF a(2), of c ?h] obtain b w' where
        n: "revokeRefresh opts c ?h wa = (Inr b, w')" "I (w_store w')" "view (w_store w') = revoked c ?h ?T"
        unfolding a(3) noA [OF False] by blast
      with False a(1) hint show ?thesis by (simp add: revoke_def Let_def andThen_def ret_def)
    qed
  qed
qed

lemma ValidateAccessToken_unknown:
  assumes "I (w_store w)" and "\<forall>a \<in> ran (tb_accessTokens (view (w_store w))). at_TokenHash a \<noteq> HashToken (oo_Lib opts) tok"
  shows "\<exists>w'. ValidateAccessToken opts tok w = (Inl (invalid_token ''the access token is invalid''), w')"
proof -
  obtain r wa where r: "on_store (GetAccessTokenByHash (oo_Store opts) (HashToken (oo_Lib opts) tok)) w = (r, wa)" by fastforce
  note e = on_store_exact [OF r st(5) rel(1) assms(1)]
  with find_spec_none [OF conjunct2 [OF e] assms(2)] have "r = Inl ErrNotFound" by blast
  then show ?thesis by (simp only: ValidateAccessToken_def run_failed r simp_thms if_True) blast
qed

end

end
