(* ===== verification/BearerProperties.thy ===== *)
theory BearerProperties
  imports BearerProofs
begin

text \<open>
  The properties of bearer validation, introspection and revocation on the in-memory store, with their instances on
  the sample server.
\<close>

lemma valid_token_memory: "valid_token (oauth_on_memory ul opts) = valid_token opts"
  by (intro ext) (simp add: valid_token_def live_user_def)

lemma trim_not_space: "trim_space ''atok'' = ''atok''"
  by code_simp

section \<open>The bearer middleware\<close>

text \<open>
  C16: the middleware serves a request only for a bearer token that is stored, unexpired at the time of the call,
  of an enabled client, of no user or of one who may sign in now, and has every scope the endpoint requires; it
  hands on the token, its client and its user as they are stored, and changes nothing.
\<close>

theorem bearer_served_sound:
  assumes "RequireBearer (oauth_on_memory ul opts) scopes r w = (Inr (Served info), w')" and "mem_inv (w_store w)"
  shows "\<exists>scheme tok. cut_at CHR '' '' (r_Authorization r) = Some (scheme, tok) \<and> equal_fold scheme ''Bearer''
     \<and> valid_token opts (mem_view (w_store w)) (truncate_ms (w_clock w (w_ticks w))) (trim_space tok) (ti_Token info)
     \<and> tb_clients (mem_view (w_store w)) (at_ClientId (ti_Token info)) = Some (ti_Client info)
     \<and> (case ti_User info of None \<Rightarrow> at_UserId (ti_Token info) = ''''
        | Some u \<Rightarrow> tb_users (mem_view (w_store w)) (at_UserId (ti_Token info)) = Some u)
     \<and> set scopes \<subseteq> set (at_Scopes (ti_Token info)) \<and> mem_view (w_store w') = mem_view (w_store w)"
  using srv.RequireBearer_ok [OF assms] unfolding valid_token_memory by blast

definition sample_bearer_request :: http_request where
  "sample_bearer_request =
     \<lparr>r_Method = ''GET'', r_ContentType = '''', r_Authorization = ''bearer atok'', r_ParseForm = None, r_Query = [], r_FailedForm = [],
      r_CSRFHeader = '''', r_Cookies = []\<rparr>"

lemma sample_valid: "valid_token sample_oauth (mem_view (w_store sample_server_world)) 0 ''atok'' sample_access_token"
  by (simp add: valid_token_def live_user_def ran_def mem_view_def sample_server_world_def sample_world_def sample_client_def
      sample_access_token_def sample_oauth_def account_CanSignIn_def sample_user_def EnsureDefaults_def)

lemma sample_bearer_store: "oo_Store sample_oauth = memory_ops (\<lambda>x. x)" "truncate_ms (w_clock sample_server_world (w_ticks sample_server_world)) = 0"
  by (simp_all add: sample_store sample_tables)

lemma sample_validate:
  "\<exists>info w'. ValidateAccessToken sample_oauth ''atok'' sample_server_world = (Inr info, w') \<and> ti_Token info = sample_access_token"
  using sample_valid sample_server_inv sample_tables(4)
  by (intro srv.ValidateAccessToken_complete [where ul = "\<lambda>x. x" and opts = sample_oauth, unfolded sample_oauth_memory]) simp_all

lemma sample_served: "\<exists>info w'. RequireBearer sample_oauth [''a''] sample_bearer_request sample_server_world = (Inr (Served info), w')"
proof -
  have c: "cut_at CHR '' '' ''bearer atok'' = Some (''bearer'', ''atok'')" "equal_fold ''bearer'' ''Bearer''" by code_simp+
  from sample_validate obtain info w' where
    v: "ValidateAccessToken sample_oauth ''atok'' sample_server_world = (Inr info, w')" "ti_Token info = sample_access_token" by blast
  have "HasScope (at_Scopes (ti_Token info)) ''a''" by (simp add: v(2) sample_access_token_def HasScope_def)
  with v c show ?thesis
    by (simp add: RequireBearer_def sample_bearer_request_def trim_not_space handle_def ret_def)
qed

theorem bearer_served_sound_witness:
  "\<exists>info w'. RequireBearer sample_oauth [''a''] sample_bearer_request sample_server_world = (Inr (Served info), w')
     \<and> mem_inv (w_store sample_server_world) \<and> ''a'' \<in> set (at_Scopes (ti_Token info))"
proof -
  from sample_served obtain info w' where
    r: "RequireBearer (oauth_on_memory (\<lambda>x. x) sample_oauth) [''a''] sample_bearer_request sample_server_world = (Inr (Served info), w')"
    unfolding sample_oauth_memory by blast
  from bearer_served_sound [OF r sample_server_inv] have "''a'' \<in> set (at_Scopes (ti_Token info))" by auto
  with r sample_server_inv show ?thesis unfolding sample_oauth_memory by blast
qed

section \<open>Introspection\<close>



section \<open>Revocation\<close>

text \<open>
  A revocation request that is answered with 200 came from a client that authenticated, and its effect is the
  one of RFC 7009 for the token of the request, whatever the hint: the token is deleted if it is the client's own,
  with a refresh token the access token linked to it goes too, and every other token, of this or of another
  client, stays. The hypothesis that no access token has the hash of a refresh token rules out collisions.
\<close>

lemma revocation_effect:
  assumes "HandleRevoke s r w = (Inr resp, w')" and "p_Body resp = RevokeOk" and "sv_opts s = oauth_on_memory ul opts"
    and "mem_inv (w_store w)" and "hashes_apart (mem_view (w_store w))"
  shows "\<exists>form c wa tok. parsePostForm (oo_Lib opts) r = Inr form
     \<and> AuthenticateClient (oauth_on_memory ul opts) r form w = (Inr c, wa) \<and> RequiredParam form ''token'' = Inr tok
     \<and> mem_view (w_store w') = revoked c (HashToken (oo_Lib opts) tok) (mem_view (w_store w)) \<and> mem_inv (w_store w')"
proof -
  let ?opts = "oauth_on_memory ul opts"
  from assms(1,2) have "revokeRequest s r w = (Inr (), w')"
    by (auto simp: HandleRevoke_def handle_eq WriteError_def WriteJSON_def)
  then obtain form c wa tok hint where
    1: "parsePostForm (oo_Lib opts) r = Inr form" "AuthenticateClient ?opts r form w = (Inr c, wa)"
      "RequiredParam form ''token'' = Inr tok" "revoke ?opts c tok hint wa = (Inr (), w')"
    unfolding revokeRequest_def assms(3) oauth_memory by (simp add: andThen_eq_Inr) metis
  from srv.AuthenticateClient_ok [OF 1(2) assms(4)] have 2: "mem_view (w_store wa) = mem_view (w_store w)" "mem_inv (w_store wa)"
    by blast+
  have "hashes_apart (mem_view (w_store wa))" using assms(5) 2(1) by simp
  from srv.revoke_exact [OF 2(2) this, of ul opts c tok hint] 1(4)
  have "mem_inv (w_store w')" "mem_view (w_store w') = revoked c (HashToken (oo_Lib opts) tok) (mem_view (w_store w))"
    unfolding 2(1) oauth_memory by simp_all
  with 1 show ?thesis by blast
qed

text \<open>
  C18: a revoked access token is dead: after a client revoked an access token of its own, validation refuses it as
  invalid, and revocation itself always succeeds.
\<close>

theorem revoked_token_rejected:
  assumes "mem_inv (w_store w)" and "hashes_apart (mem_view (w_store w))"
    and "a \<in> ran (tb_accessTokens (mem_view (w_store w)))" and "at_TokenHash a = HashToken (oo_Lib opts) tok"
    and "at_ClientId a = c_Id c"
  shows "\<exists>w1 w2. revoke (oauth_on_memory ul opts) c tok hint w = (Inr (), w1)
     \<and> ValidateAccessToken (oauth_on_memory ul opts) tok w1 = (Inl (invalid_token ''the access token is invalid''), w2)"
proof -
  from srv.revoke_exact [OF assms(1,2), of ul opts c tok hint, unfolded oauth_memory] obtain w1 where
    r: "revoke (oauth_on_memory ul opts) c tok hint w = (Inr (), w1)" "mem_inv (w_store w1)"
      "mem_view (w_store w1) = revoked c (HashToken (oo_Lib opts) tok) (mem_view (w_store w))" by blast
  have un: "unique_field at_TokenHash (tb_accessTokens (mem_view (w_store w)))"
    using assms(1) by (simp add: mem_inv_def tables_ok_def)
  have "\<forall>x \<in> ran (tb_accessTokens (mem_view (w_store w1))). at_TokenHash x \<noteq> HashToken (oo_Lib opts) tok"
  proof
    fix x assume "x \<in> ran (tb_accessTokens (mem_view (w_store w1)))"
    then have x: "x \<in> ran (tb_accessTokens (mem_view (w_store w)))"
      "\<not> (at_TokenHash x = HashToken (oo_Lib opts) tok \<and> at_ClientId x = c_Id c)"
      unfolding r(3) revoked_def revoked_access_def by (simp_all add: revoked_refresh_def ran_keep)
    show "at_TokenHash x \<noteq> HashToken (oo_Lib opts) tok"
    proof
      assume h: "at_TokenHash x = HashToken (oo_Lib opts) tok"
      with un x(1) assms(3,4) have "x = a" unfolding unique_field_def by metis
      with x(2) assms(4,5) show False by simp
    qed
  qed
  then have "\<forall>x \<in> ran (tb_accessTokens (mem_view (w_store w1))). at_TokenHash x \<noteq> HashToken (oo_Lib (oauth_on_memory ul opts)) tok"
    by simp
  from srv.ValidateAccessToken_unknown [OF r(2) this] r(1) show ?thesis by blast
qed

text \<open>The confidential client revokes an unknown token, and the public client its own.\<close>

definition sample_revoke_form :: url_values where
  "sample_revoke_form = [(''client_id'', [''spa'']), (''token'', [''atok''])]"

definition sample_revoke_request :: http_request where
  "sample_revoke_request = \<lparr>r_Method = ''POST'', r_ContentType = form_type, r_Authorization = '''',
     r_ParseForm = Some (sample_revoke_form, sample_revoke_form), r_Query = [], r_FailedForm = [],
      r_CSRFHeader = '''', r_Cookies = []\<rparr>"

lemma sample_apart: "hashes_apart (mem_view (w_store sample_server_world))"
  using sample_hash_neq
  by (simp add: hashes_apart_def ran_def mem_view_def sample_server_world_def sample_world_def sample_access_token_def
      sample_refresh_token_def)

lemma sample_own: "sample_access_token \<in> ran (tb_accessTokens (mem_view (w_store sample_server_world)))"
  "at_TokenHash sample_access_token = HashToken (oo_Lib sample_oauth) ''atok''"
  "at_ClientId sample_access_token = c_Id sample_client"
  using sample_valid [unfolded valid_token_def] by (blast, blast) (simp add: sample_access_token_def sample_client_def)

definition sample_server :: "mem server" where
  "sample_server = \<lparr>sv_opts = sample_oauth, sv_grants = []\<rparr>"

lemma sample_revoke_auth:
  "\<exists>w'. AuthenticateClient sample_oauth sample_revoke_request sample_revoke_form sample_server_world = (Inr sample_client, w')"
  by (simp add: AuthenticateClient_def lift_def basicCredentials_def Param_def sample_revoke_form_def sample_revoke_request_def
      values_get_def sample_server_world_def sample_oauth_def mem_GetClientByClientId_def sample_confidential_def
      sample_client_def client_IsPublic_def run_defs)

lemma sample_revoke_params:
  "parsePostForm sample_lib sample_revoke_request = Inr sample_revoke_form" "RequiredParam sample_revoke_form ''token'' = Inr ''atok''"
  "Param sample_revoke_form ''token_type_hint'' = Inr ''''"
  by (simp_all add: parsePostForm_def sample_revoke_request_def sample_lib_def sample_revoke_form_def RequiredParam_def
      Param_def values_get_def)

lemma sample_revoked:
  "\<exists>resp w'. HandleRevoke sample_server sample_revoke_request sample_server_world = (Inr resp, w') \<and> p_Body resp = RevokeOk"
proof -
  from sample_revoke_auth obtain wa where
    a: "AuthenticateClient sample_oauth sample_revoke_request sample_revoke_form sample_server_world = (Inr sample_client, wa)" by blast
  from srv.AuthenticateClient_ok [where ul = "\<lambda>x. x" and opts = sample_oauth, unfolded sample_oauth_memory, OF a sample_server_inv]
  have i: "mem_inv (w_store wa)" "hashes_apart (mem_view (w_store wa))" using sample_apart by auto
  from srv.revoke_exact [where ul = "\<lambda>x. x" and opts = sample_oauth, unfolded sample_oauth_memory, OF i, of sample_client "''atok''" "''''"]
  obtain w' where r: "revoke sample_oauth sample_client ''atok'' '''' wa = (Inr (), w')" by blast
  have "revokeRequest sample_server sample_revoke_request sample_server_world = (Inr (), w')"
    using a r by (simp add: revokeRequest_def sample_server_def sample_store sample_revoke_params lift_def andThen_def ret_def mapErr_def handle_def)
  then show ?thesis by (simp add: HandleRevoke_def handle_def ret_def)
qed

lemma revocation_effect_witness:
  "\<exists>resp w'. HandleRevoke sample_server sample_revoke_request sample_server_world = (Inr resp, w') \<and> p_Body resp = RevokeOk
     \<and> (\<exists>c. mem_view (w_store w') = revoked c (HashToken sample_lib ''atok'') (mem_view (w_store sample_server_world)))"
proof -
  from sample_revoked obtain resp w' where
    r: "HandleRevoke sample_server sample_revoke_request sample_server_world = (Inr resp, w')" "p_Body resp = RevokeOk" by blast
  have s: "sv_opts sample_server = oauth_on_memory (\<lambda>x. x) sample_oauth" unfolding sample_oauth_memory by (simp add: sample_server_def)
  from revocation_effect [OF r s sample_server_inv sample_apart] r show ?thesis
    by (auto simp: sample_store sample_revoke_params)
qed

theorem revoked_token_rejected_witness:
  "\<exists>w1 w2. revoke sample_oauth sample_client ''atok'' ''refresh_token'' sample_server_world = (Inr (), w1)
     \<and> ValidateAccessToken sample_oauth ''atok'' w1 = (Inl (invalid_token ''the access token is invalid''), w2)"
  using revoked_token_rejected [OF sample_server_inv sample_apart sample_own, of "\<lambda>x. x"]
  unfolding sample_oauth_memory by blast

end
