(* ===== verification/ApiProofs.thy ===== *)
theory ApiProofs
  imports Api AccountProofs
begin

text \<open>
  The management API over any store and account service that meet the contract: every handler keeps the invariant of
  the store, what a successful handler did to the tables, and the exact answers on a store that reports no failures.
\<close>

section \<open>Requests\<close>

lemma tried_ok [simp]: "tried m w = (Inr x, w') \<longleftrightarrow> m w = (Inr x, w')"
  by (simp add: tried_def)

lemma tried_store_ok [simp]: "tried_store m w = (Inr x, w') \<longleftrightarrow> on_store m w = (Inr x, w')"
  by (simp add: tried_store_def)

lemmas run_act = andThen_def handle_def mapErr_def ret_def fail_def

lemma answer_eq: "answer m w = (r, w') \<longleftrightarrow> (\<exists>x. r = Inr x \<and> (m w = (Inl x, w') \<or> m w = (Inr x, w')))"
  by (auto simp: answer_def handle_eq)

lemma preserves_tried: "preserves P m \<Longrightarrow> preserves P (tried m)"
  unfolding tried_def by (rule preserves_mapErr)

lemma preserves_tried_store: "preserves P (on_store m) \<Longrightarrow> preserves P (tried_store m)"
  unfolding tried_store_def by (intro preserves_tried preserves_store_call)

lemma preserves_answer: "preserves P m \<Longrightarrow> preserves P (answer m)"
  unfolding answer_def by (intro preserves_handle preserves_ret)

lemma preserves_decode: "preserves P (decode a dec r)"
  unfolding decode_def by (intro preserves_rules)

lemma preserves_listOptions: "preserves P (listOptions order r)"
  unfolding listOptions_def by (intro preserves_rules)

lemma preserves_apply: "preserves P (apply_request a req c)"
  unfolding apply_request_def by (intro preserves_rules)

lemma preserves_convert_all: "(\<And>x. preserves P (f x)) \<Longrightarrow> preserves P (convert_all f xs)"
  by (induction xs) (auto intro!: preserves_rules)

lemma preserves_respondList: "(\<And>x. preserves P (f x)) \<Longrightarrow> preserves P (respondList body xs n opts f)"
  unfolding respondList_def by (intro preserves_rules preserves_convert_all)

lemma preserves_views:
  "preserves (\<lambda>w. P (w_store w)) (toUser u)" "preserves (\<lambda>w. P (w_store w)) (toAccessToken t)"
  "preserves (\<lambda>w. P (w_store w)) (toRefreshToken rt)" "preserves (\<lambda>w. P (w_store w)) (tokenFilter r)"
  "preserves (\<lambda>w. P (w_store w)) (respondUser hs st u)" "preserves (\<lambda>w. P (w_store w)) (newSecret a c)"
  unfolding toUser_def toAccessToken_def toRefreshToken_def tokenFilter_def respondUser_def newSecret_def
  by (intro preserves_rules preserves_tried)+

lemmas api_rules = preserves_tried preserves_tried_store preserves_answer preserves_decode preserves_listOptions
  preserves_apply preserves_respondList preserves_views

section \<open>Clients of requests\<close>

lemma applyRequest_ok:
  assumes "applyRequest lib req c0 = Inr c"
  shows "c_Id c = c_Id c0 \<and> c_ClientId c = cr_ClientId req \<and> c_SecretHash c = c_SecretHash c0
     \<and> c_Enabled c = (case cr_Enabled req of Some b \<Rightarrow> b | None \<Rightarrow> c_Enabled c0)
     \<and> c_CreatedAt c = c_CreatedAt c0 \<and> client_Validate lib c = None
     \<and> 0 < c_AccessTokenLifetime c \<and> 0 < c_AuthorizationCodeLifetime c \<and> c_AuthorizationCodeLifetime c \<le> 10 * minute
     \<and> 0 < c_RefreshTokenLifetime c"
proof -
  let ?c = "EnsureDefaults (copyRequest req c0)"
  from assms have "c = ?c \<and> c_AuthorizationCodeLifetime ?c \<le> 10 * minute \<and> client_Validate lib ?c = None"
    by (simp add: applyRequest_def Let_def split: if_split_asm option.split_asm)
  then have c: "c = ?c" "c_AuthorizationCodeLifetime ?c \<le> 10 * minute" "client_Validate lib ?c = None" by blast+
  show ?thesis
    unfolding c(1)
    by (intro conjI c(2,3)) (simp_all add: EnsureDefaults_def copyRequest_def DefaultAccessTokenLifetime_def
      DefaultAuthorizationCodeLifetime_def DefaultRefreshTokenLifetime_def)
qed

lemma apply_request_ok: "apply_request a req c0 w = (Inr c, w') \<longleftrightarrow> applyRequest (ap_Lib a) req c0 = Inr c \<and> w' = w"
  by (auto simp: apply_request_def split: sum.splits)

text \<open>A new secret is random and its hash is stored with the client.\<close>

lemma newSecret_ok:
  assumes "newSecret a c w = (Inr (c', secret), w')"
  shows "(\<exists>bs salt. length bs = 32 \<and> secret = RandomToken_of bs \<and> h_Hash (ap_Hasher a) secret salt = Inr (c_SecretHash c'))
     \<and> (\<exists>hash. c' = c\<lparr>c_SecretHash := hash\<rparr>) \<and> w_store w' = w_store w \<and> w_clock w' = w_clock w \<and> w_ticks w' = w_ticks w"
proof -
  let ?bs = "map (\<lambda>i. w_random w (w_pos w + i)) [0..<32]"
  from assms obtain salt hash where
    h: "Inr hash = h_Hash (ap_Hasher a) secret salt" and s: "secret = RandomToken_of ?bs" and c: "c' = c\<lparr>c_SecretHash := hash\<rparr>"
    and w: "w_store w' = w_store w" "w_clock w' = w_clock w" "w_ticks w' = w_ticks w"
    unfolding newSecret_def by (auto simp: andThen_eq_Inr NewToken_eq hash_secret_eq)
  have "length ?bs = 32" by simp
  with h s c w show ?thesis by (intro conjI exI [of _ ?bs] exI [of _ salt] exI [of _ hash]) simp_all
qed

section \<open>Every handler keeps the invariant\<close>

locale management = account_service "ap_Accounts a" I view lower
  for a :: "'s api_options" and I :: "'s \<Rightarrow> bool" and view :: "'s \<Rightarrow> tables" and lower :: "string \<Rightarrow> string" +
  assumes same_store [simp]: "ao_Store (ap_Accounts a) = ap_Store a"
begin

lemmas apicalls = preserves_call [OF st_ListClients [simplified]] preserves_call [OF st_GetClientById [simplified]]
  preserves_call [OF st_UpdateClient [simplified]] preserves_call [OF st_DeleteClient [simplified]]
  preserves_call [OF st_ListUsers [simplified]]
  preserves_call [OF st_ListAccessTokens [simplified]] preserves_call [OF st_GetAccessTokenById [simplified]]
  preserves_call [OF st_DeleteAccessToken [simplified]] preserves_call [OF st_DeleteAccessTokens [simplified]]
  preserves_call [OF st_ListRefreshTokens [simplified]] preserves_call [OF st_GetRefreshTokenById [simplified]]
  preserves_call [OF st_DeleteRefreshToken [simplified]] preserves_call [OF st_DeleteRefreshTokens [simplified]]

lemma keep_revokeTokens: "preserves (\<lambda>w. I (w_store w)) (api_revokeTokens a f)"
  unfolding api_revokeTokens_def by (intro preserves_rules apicalls)

lemma keep_createClient: "preserves (\<lambda>w. I (w_store w)) (createClient a r)"
proof -
  have store: "preserves (\<lambda>w. I (w_store w)) (andThen (if \<not> client_IsPublic c then newSecret a c else ret (c, ''''))
      (\<lambda>(client, secret). andThen (tried_store (CreateClient (ap_Store a) client)) (\<lambda>_.
       ret (WriteJSON [(''Location'', aq_Path r @ ''/'' @ c_Id client)] 201 (ClientWithSecret (toClient client) secret)))))"
    if "c_Id c \<noteq> ''''" for c
  proof (rule preserves_andThen_result)
    fix x s s' assume x: "(if \<not> client_IsPublic c then newSecret a c else ret (c, '''')) s = (Inr x, s')"
    obtain client secret where xs: "x = (client, secret)" by (cases x)
    with x that have "c_Id client \<noteq> ''''" by (auto dest!: newSecret_ok split: if_splits)
    from preserves_call [OF st_CreateClient [simplified, OF this]] show "preserves (\<lambda>w. I (w_store w)) (case x of (client, secret) \<Rightarrow>
        andThen (tried_store (CreateClient (ap_Store a) client)) (\<lambda>_.
        ret (WriteJSON [(''Location'', aq_Path r @ ''/'' @ c_Id client)] 201 (ClientWithSecret (toClient client) secret))))"
      unfolding xs prod.case by (intro preserves_rules api_rules)
  qed (intro preserves_rules api_rules)
  have tail: "preserves (\<lambda>w. I (w_store w)) (andThen (apply_request a req (emptyClient k now)) (\<lambda>client0.
     andThen (if \<not> client_IsPublic client0 then newSecret a client0 else ret (client0, '''')) (\<lambda>(client, secret).
     andThen (tried_store (CreateClient (ap_Store a) client)) (\<lambda>_.
     ret (WriteJSON [(''Location'', aq_Path r @ ''/'' @ c_Id client)] 201 (ClientWithSecret (toClient client) secret))))))"
    if "k \<noteq> ''''" for req k now
    using that by (intro preserves_andThen_result preserves_apply store)
      (auto simp: apply_request_ok emptyClient_def dest: applyRequest_ok)
  show ?thesis unfolding createClient_def by (intro preserves_rules preserves_decode preserves_NewId tail)
qed

lemma keep_clients:
  "preserves (\<lambda>w. I (w_store w)) (listClients a order r)" "preserves (\<lambda>w. I (w_store w)) (getClient a r)"
  "preserves (\<lambda>w. I (w_store w)) (updateClient a r)" "preserves (\<lambda>w. I (w_store w)) (deleteClient a r)"
  "preserves (\<lambda>w. I (w_store w)) (regenerateClientSecret a r)"
  unfolding listClients_def getClient_def updateClient_def deleteClient_def regenerateClientSecret_def
  by (intro preserves_rules api_rules apicalls keep_revokeTokens)+

lemma keep_users:
  "preserves (\<lambda>w. I (w_store w)) (listUsers a order r)" "preserves (\<lambda>w. I (w_store w)) (getUser a r)"
  "preserves (\<lambda>w. I (w_store w)) (createUser a r)" "preserves (\<lambda>w. I (w_store w)) (updateUser a r)"
  "preserves (\<lambda>w. I (w_store w)) (deleteUser a r)" "preserves (\<lambda>w. I (w_store w)) (setUserPassword a r)"
  "preserves (\<lambda>w. I (w_store w)) (unlockUser a r)" "preserves (\<lambda>w. I (w_store w)) (sendUserActivation a r)"
  "preserves (\<lambda>w. I (w_store w)) (sendUserPasswordReset a r)" "preserves (\<lambda>w. I (w_store w)) (revokeUserTokens a r)"
  unfolding listUsers_def getUser_def createUser_def updateUser_def deleteUser_def setUserPassword_def unlockUser_def
    sendUserActivation_def sendUserPasswordReset_def revokeUserTokens_def
  by (intro preserves_rules api_rules apicalls keep_GetUser keep_CreateUser keep_UpdateUser keep_DeleteUser keep_SetPassword
      keep_SendActivation keep_RequestPasswordReset)+

lemma keep_tokens:
  "preserves (\<lambda>w. I (w_store w)) (listAccessTokens a order r)" "preserves (\<lambda>w. I (w_store w)) (getAccessToken a r)"
  "preserves (\<lambda>w. I (w_store w)) (api_deleteAccessToken a r)" "preserves (\<lambda>w. I (w_store w)) (api_deleteAccessTokens a r)"
  "preserves (\<lambda>w. I (w_store w)) (listRefreshTokens a order r)" "preserves (\<lambda>w. I (w_store w)) (getRefreshToken a r)"
  "preserves (\<lambda>w. I (w_store w)) (api_deleteRefreshToken a r)" "preserves (\<lambda>w. I (w_store w)) (api_deleteRefreshTokens a r)"
  unfolding listAccessTokens_def getAccessToken_def api_deleteAccessToken_def api_deleteAccessTokens_def listRefreshTokens_def
    getRefreshToken_def api_deleteRefreshToken_def api_deleteRefreshTokens_def
  by (intro preserves_rules api_rules apicalls)+

lemma keep_routes: "(method, pattern, h) \<in> set (api_routes a order) \<Longrightarrow> preserves (\<lambda>w. I (w_store w)) (h r)"
  unfolding api_routes_def
  by (auto intro!: preserves_answer keep_clients keep_users keep_tokens keep_createClient)

section \<open>Effects\<close>

lemmas cst = st_GetClientById [simplified] st_CreateClient [simplified] st_UpdateClient [simplified]
  st_DeleteClient [simplified] st_DeleteAccessTokens [simplified] st_DeleteRefreshTokens [simplified]

lemma revokeTokens_ok:
  assumes "api_revokeTokens a (empty_filter\<lparr>tf_ClientId := k\<rparr>) w = (Inr x, w')" and "I (w_store w)" and "k \<noteq> ''''"
  shows "I (w_store w') \<and> view (w_store w') = (view (w_store w))
     \<lparr>tb_accessTokens := keep (\<lambda>t. at_ClientId t \<noteq> k) (tb_accessTokens (view (w_store w))),
      tb_refreshTokens := keep (\<lambda>t. rt_ClientId t \<noteq> k) (tb_refreshTokens (view (w_store w)))\<rparr>"
proof -
  let ?f = "empty_filter\<lparr>tf_ClientId := k\<rparr>"
  have m: "at_matches ?f t \<longleftrightarrow> at_ClientId t = k" "rt_matches ?f u \<longleftrightarrow> rt_ClientId u = k" for t u
    using assms(3) by (auto simp: at_matches_def rt_matches_def filter_matches_def empty_filter_def)
  from assms(1) obtain n1 n2 w1 where
    r: "on_store (DeleteRefreshTokens (ap_Store a) ?f) w = (Inr n1, w1)"
      "on_store (DeleteAccessTokens (ap_Store a) ?f) w1 = (Inr n2, w')"
    unfolding api_revokeTokens_def by (auto simp: andThen_eq_Inr)
  from on_store_ok [OF r(1) cst(6) assms(2)] have 1: "I (w_store w1)"
    "view (w_store w1) = tb_refreshTokens_update (keep (\<lambda>t. rt_ClientId t \<noteq> k)) (view (w_store w))"
    by (simp_all add: delete_where_spec_ok m)
  from on_store_ok [OF r(2) cst(5) 1(1)] show ?thesis by (simp add: delete_where_spec_ok m 1(2))
qed

lemma createClient_ok:
  assumes "createClient a r w = (Inr resp, w')" and "I (w_store w)"
  shows "\<exists>req c secret. ap_DecodeClient a (aq_Body r) = Inr (req, True)
     \<and> resp = WriteJSON [(''Location'', aq_Path r @ ''/'' @ c_Id c)] 201 (ClientWithSecret (toClient c) secret)
     \<and> c_ClientId c = cr_ClientId req \<and> client_Validate (ap_Lib a) (c\<lparr>c_SecretHash := ''''\<rparr>) = None
     \<and> c_Enabled c = (case cr_Enabled req of Some b \<Rightarrow> b | None \<Rightarrow> True)
     \<and> 0 < c_AccessTokenLifetime c \<and> 0 < c_RefreshTokenLifetime c
     \<and> 0 < c_AuthorizationCodeLifetime c \<and> c_AuthorizationCodeLifetime c \<le> 10 * minute
     \<and> (if client_IsPublic c then secret = '''' \<and> c_SecretHash c = ''''
        else \<exists>bs salt. length bs = 32 \<and> secret = RandomToken_of bs \<and> h_Hash (ap_Hasher a) secret salt = Inr (c_SecretHash c))
     \<and> c_Id c \<notin> dom (tb_clients (view (w_store w)))
     \<and> (\<forall>d \<in> ran (tb_clients (view (w_store w))). c_ClientId d \<noteq> c_ClientId c)
     \<and> view (w_store w') = tb_clients_update (\<lambda>m. m(c_Id c \<mapsto> c)) (view (w_store w)) \<and> I (w_store w')"
proof -
  from assms(1) obtain req w1 now w2 k w3 c0 w4 c secret w5 x where
    d: "decode a (ap_DecodeClient a) r w = (Inr req, w1)"
    and n: "clock_now w1 = (Inr now :: api_response + time, w2)" and k: "NewId w2 = (Inr k :: api_response + string, w3)"
    and ap: "apply_request a req (emptyClient k now) w3 = (Inr c0, w4)"
    and sec: "(if \<not> client_IsPublic c0 then newSecret a c0 else ret (c0, '''')) w4 = (Inr (c, secret), w5)"
    and cr: "on_store (CreateClient (ap_Store a) c) w5 = (Inr x, w')"
    and resp: "resp = WriteJSON [(''Location'', aq_Path r @ ''/'' @ c_Id c)] 201 (ClientWithSecret (toClient c) secret)"
    unfolding createClient_def by (auto simp: andThen_eq_Inr split_paired_Ex)
  from d have dec: "ap_DecodeClient a (aq_Body r) = Inr (req, True)" "w1 = w"
    by (auto simp: decode_def split: if_splits sum.splits prod.splits)
  from n k have w3: "w_store w3 = w_store w" "k \<noteq> ''''" using dec(2) by (auto simp: clock_now_eq NewId_eq NewId_not_empty)
  from ap have ar: "applyRequest (ap_Lib a) req (emptyClient k now) = Inr c0" and w4: "w4 = w3" by (simp_all add: apply_request_ok)
  from applyRequest_ok [OF ar] w4 have c0: "c_Id c0 = k" "c_ClientId c0 = cr_ClientId req" "c_SecretHash c0 = ''''"
    "c_Enabled c0 = (case cr_Enabled req of Some b \<Rightarrow> b | None \<Rightarrow> True)" "client_Validate (ap_Lib a) c0 = None"
    "0 < c_AccessTokenLifetime c0" "0 < c_RefreshTokenLifetime c0" "0 < c_AuthorizationCodeLifetime c0"
    "c_AuthorizationCodeLifetime c0 \<le> 10 * minute" "w4 = w3" by (simp_all add: emptyClient_def cong: option.case_cong)
  have s: "(\<exists>h. c = c0\<lparr>c_SecretHash := h\<rparr>) \<and> w_store w5 = w_store w4
     \<and> (if client_IsPublic c0 then secret = '''' \<and> c = c0
        else \<exists>bs salt. length bs = 32 \<and> secret = RandomToken_of bs \<and> h_Hash (ap_Hasher a) secret salt = Inr (c_SecretHash c))"
  proof (cases "client_IsPublic c0")
    case True
    with sec have "c = c0" "secret = ''''" "w5 = w4" by simp_all
    with True show ?thesis by (metis client.surjective client.update_convs(6))
  next
    case False
    with sec have "newSecret a c0 w4 = (Inr (c, secret), w5)" by simp
    from newSecret_ok [OF this] False show ?thesis by simp
  qed
  then obtain h where ch: "c = c0\<lparr>c_SecretHash := h\<rparr>" by blast
  have "c_Id c \<noteq> ''''" "I (w_store w5)" using ch c0 w3 s assms(2) by simp_all
  from on_store_ok [OF cr cst(2) [OF this(1)] this(2)] have
    st: "c_Id c \<notin> dom (tb_clients (view (w_store w)))" "\<forall>d \<in> ran (tb_clients (view (w_store w))). c_ClientId d \<noteq> c_ClientId c"
      "view (w_store w') = tb_clients_update (\<lambda>m. m(c_Id c \<mapsto> c)) (view (w_store w))" "I (w_store w')"
    using s c0(10) w3(1) by (auto simp: create_spec_ok client_clash_def)
  have pub: "client_IsPublic c = client_IsPublic c0" by (simp add: ch client_IsPublic_def)
  have v: "client_Validate (ap_Lib a) (c\<lparr>c_SecretHash := ''''\<rparr>) = None"
    using c0(3,5) by (metis ch client.surjective client.update_convs(6))
  have "c_SecretHash c = h" by (simp add: ch)
  then have hp: "client_IsPublic c0 \<longrightarrow> h = ''''" using s c0(3) by metis
  show ?thesis
    using dec(1) resp c0(2-9) s st v pub hp
    by (intro exI [of _ req] exI [of _ c] exI [of _ secret]) (simp add: ch split: if_split_asm)
qed

lemma updateClient_ok:
  assumes "updateClient a r w = (Inr resp, w')" and "I (w_store w)"
  shows "\<exists>req c0 c. ap_DecodeClient a (aq_Body r) = Inr (req, True) \<and> tb_clients (view (w_store w)) (aq_Id r) = Some c0
     \<and> resp = WriteJSON [] 200 (ClientBody (toClient c)) \<and> c_Id c = aq_Id r \<and> c_ClientId c = cr_ClientId req
     \<and> c_CreatedAt c = c_CreatedAt c0 \<and> c_Enabled c = (case cr_Enabled req of Some b \<Rightarrow> b | None \<Rightarrow> c_Enabled c0)
     \<and> c_SecretHash c = (if client_IsPublic c then '''' else c_SecretHash c0)
     \<and> 0 < c_AuthorizationCodeLifetime c \<and> c_AuthorizationCodeLifetime c \<le> 10 * minute
     \<and> view (w_store w') = (view (w_store w))
       \<lparr>tb_clients := (tb_clients (view (w_store w)))(aq_Id r \<mapsto> c),
        tb_accessTokens := (if c_Enabled c0 \<and> \<not> c_Enabled c then keep (\<lambda>t. at_ClientId t \<noteq> aq_Id r) else (\<lambda>m. m))
          (tb_accessTokens (view (w_store w))),
        tb_refreshTokens := (if c_Enabled c0 \<and> \<not> c_Enabled c then keep (\<lambda>t. rt_ClientId t \<noteq> aq_Id r) else (\<lambda>m. m))
          (tb_refreshTokens (view (w_store w)))\<rparr> \<and> I (w_store w')"
proof -
  from assms(1) obtain req w1 c0 w2 c1 w3 now w4 x w5 y where
    d: "decode a (ap_DecodeClient a) r w = (Inr req, w1)"
    and g: "on_store (GetClientById (ap_Store a) (aq_Id r)) w1 = (Inr c0, w2)"
    and ap: "apply_request a req c0 w2 = (Inr c1, w3)" and n: "clock_now w3 = (Inr now :: api_response + time, w4)"
    and u: "on_store (UpdateClient (ap_Store a) (touchClient now c1)) w4 = (Inr x, w5)"
    and rv: "(if c_Enabled c0 \<and> \<not> c_Enabled (touchClient now c1)
       then tried (api_revokeTokens a (empty_filter\<lparr>tf_ClientId := c_Id (touchClient now c1)\<rparr>)) else ret ()) w5 = (Inr y, w')"
    and resp: "resp = WriteJSON [] 200 (ClientBody (toClient (touchClient now c1)))"
    unfolding updateClient_def Let_def by (auto simp only: andThen_eq_Inr tried_store_ok ret_eq sum.inject)
  let ?c = "touchClient now c1"
  from d have dec: "ap_DecodeClient a (aq_Body r) = Inr (req, True)" "w1 = w"
    by (auto simp: decode_def split: if_splits sum.splits prod.splits)
  from on_store_ok [OF g cst(1)] assms(2) dec(2) have 1: "I (w_store w2)" "view (w_store w2) = view (w_store w)"
    "tb_clients (view (w_store w)) (aq_Id r) = Some c0" by (simp_all add: get_spec_ok)
  have "keyed c_Id (tb_clients (view (w_store w)))" using view_ok [OF assms(2)] by (simp add: tables_ok_def)
  with 1(3) have k: "c_Id c0 = aq_Id r" "aq_Id r \<noteq> ''''" unfolding keyed_def by blast+
  from ap have ar: "applyRequest (ap_Lib a) req c0 = Inr c1" and w3: "w3 = w2" by (simp_all add: apply_request_ok)
  from applyRequest_ok [OF ar] k have c: "c_Id ?c = aq_Id r" "c_ClientId ?c = cr_ClientId req" "c_CreatedAt ?c = c_CreatedAt c0"
    "c_Enabled ?c = (case cr_Enabled req of Some b \<Rightarrow> b | None \<Rightarrow> c_Enabled c0)"
    "c_SecretHash ?c = (if client_IsPublic ?c then '''' else c_SecretHash c0)"
    "0 < c_AuthorizationCodeLifetime ?c" "c_AuthorizationCodeLifetime ?c \<le> 10 * minute"
    by (simp_all add: touchClient_def client_IsPublic_def)
  have "I (w_store w4)" "view (w_store w4) = view (w_store w)" using n w3 1 by (simp_all add: clock_now_eq)
  with on_store_ok [OF u cst(3)] have 2: "I (w_store w5)"
    "view (w_store w5) = tb_clients_update (\<lambda>m. m(aq_Id r \<mapsto> ?c)) (view (w_store w))"
    by (simp_all add: update_spec_ok c(1))
  have v: "view (w_store w') = (view (w_store w))
       \<lparr>tb_clients := (tb_clients (view (w_store w)))(aq_Id r \<mapsto> ?c),
        tb_accessTokens := (if c_Enabled c0 \<and> \<not> c_Enabled ?c then keep (\<lambda>t. at_ClientId t \<noteq> aq_Id r) else (\<lambda>m. m))
          (tb_accessTokens (view (w_store w))),
        tb_refreshTokens := (if c_Enabled c0 \<and> \<not> c_Enabled ?c then keep (\<lambda>t. rt_ClientId t \<noteq> aq_Id r) else (\<lambda>m. m))
          (tb_refreshTokens (view (w_store w)))\<rparr> \<and> I (w_store w')"
  proof (cases "c_Enabled c0 \<and> \<not> c_Enabled ?c")
    case True
    with rv have "api_revokeTokens a (empty_filter\<lparr>tf_ClientId := aq_Id r\<rparr>) w5 = (Inr y, w')" by (simp add: c(1))
    from revokeTokens_ok [OF this 2(1) k(2)] True 2(2) show ?thesis by simp
  next
    case False
    from rv have "w' = w5" unfolding if_not_P [OF False] by simp
    with 2 show ?thesis unfolding if_not_P [OF False] by (cases "view (w_store w)") simp
  qed
  show ?thesis
    by (intro exI [of _ req] exI [of _ c0] exI [of _ ?c] conjI dec(1) 1(3) resp c v [THEN conjunct1] v [THEN conjunct2])
qed

end

section \<open>On a store that reports no failures\<close>

text \<open>The tables without the tokens of a client.\<close>

definition without_tokens_of_client :: "string \<Rightarrow> tables \<Rightarrow> tables" where
  "without_tokens_of_client k T = T
     \<lparr>tb_accessTokens := keep (\<lambda>t. at_ClientId t \<noteq> k) (tb_accessTokens T),
      tb_refreshTokens := keep (\<lambda>t. rt_ClientId t \<noteq> k) (tb_refreshTokens T)\<rparr>"

locale reliable_management = management a I view lower + reliable_account "ap_Accounts a" I view lower
  for a :: "'s api_options" and I :: "'s \<Rightarrow> bool" and view :: "'s \<Rightarrow> tables" and lower :: "string \<Rightarrow> string"
begin

lemmas rst = rel_DeleteClient [simplified] rel_DeleteAccessTokens [simplified] rel_DeleteRefreshTokens [simplified]

lemma revokeTokens_exact:
  assumes "I (w_store w)" and "k \<noteq> ''''"
  shows "\<exists>w'. api_revokeTokens a (empty_filter\<lparr>tf_ClientId := k\<rparr>) w = (Inr (), w') \<and> I (w_store w')
     \<and> view (w_store w') = without_tokens_of_client k (view (w_store w))"
proof -
  let ?f = "empty_filter\<lparr>tf_ClientId := k\<rparr>"
  obtain q w1 where q: "on_store (DeleteRefreshTokens (ap_Store a) ?f) w = (q, w1)" by fastforce
  note e1 = on_store_exact [OF q cst(6) rst(3) assms(1)]
  then obtain n where n: "q = Inr n" by (auto simp: delete_where_spec_def)
  from e1 have "I (w_store w1)" by blast
  obtain z w2 where z: "on_store (DeleteAccessTokens (ap_Store a) ?f) w1 = (z, w2)" by fastforce
  note e2 = on_store_exact [OF z cst(5) rst(2) \<open>I (w_store w1)\<close>]
  then obtain m where m: "z = Inr m" by (auto simp: delete_where_spec_def)
  have r: "api_revokeTokens a ?f w = (Inr (), w2)"
    using q n z m by (simp add: api_revokeTokens_def store_call_def run_act)
  from revokeTokens_ok [OF r assms] r show ?thesis unfolding without_tokens_of_client_def by blast
qed

lemma deleteClient_exact:
  assumes "I (w_store w)"
  shows "\<exists>w'. answer (deleteClient a r) w =
       (Inr (if aq_Id r \<in> dom (tb_clients (view (w_store w))) then WriteHeader 204 else handleError (ErrStore ErrNotFound)), w')
     \<and> I (w_store w') \<and> view (w_store w') = (if aq_Id r \<in> dom (tb_clients (view (w_store w)))
        then without_tokens_of_client (aq_Id r) (tb_clients_update (\<lambda>m. m(aq_Id r := None)) (view (w_store w)))
        else view (w_store w))"
proof -
  obtain q w1 where q: "on_store (DeleteClient (ap_Store a) (aq_Id r)) w = (q, w1)" by fastforce
  note e = on_store_exact [OF q cst(4) rst(1) assms]
  show ?thesis
  proof (cases "aq_Id r \<in> dom (tb_clients (view (w_store w)))")
    case True
    with e have q1: "q = Inr ()" "I (w_store w1)" "view (w_store w1) = tb_clients_update (\<lambda>m. m(aq_Id r := None)) (view (w_store w))"
      by (simp_all add: delete_spec_def)
    have "keyed c_Id (tb_clients (view (w_store w)))" using view_ok [OF assms] by (simp add: tables_ok_def)
    with True have "aq_Id r \<noteq> ''''" unfolding keyed_def by blast
    from revokeTokens_exact [OF q1(2) this] obtain w2 where
      w2: "api_revokeTokens a (empty_filter\<lparr>tf_ClientId := aq_Id r\<rparr>) w1 = (Inr (), w2)" "I (w_store w2)"
        "view (w_store w2) = without_tokens_of_client (aq_Id r) (view (w_store w1))" by blast
    have "answer (deleteClient a r) w = (Inr (WriteHeader 204), w2)"
      using q q1(1) w2(1) by (simp add: answer_def deleteClient_def tried_store_def tried_def store_call_def run_act)
    with True w2 q1(3) show ?thesis by simp
  next
    case False
    with e have q1: "q = Inl ErrNotFound" "I (w_store w1)" "view (w_store w1) = view (w_store w)"
      by (auto simp: delete_spec_def)
    have "answer (deleteClient a r) w = (Inr (handleError (ErrStore ErrNotFound)), w1)"
      using q q1(1) by (simp add: answer_def deleteClient_def tried_store_def tried_def store_call_def run_act)
    with False q1 show ?thesis by simp
  qed
qed

text \<open>The bulk deletions, from the filter on.\<close>

lemma deleteAccessTokens_exact:
  assumes "I (w_store w)" and "tokenFilter r w = (Inr flt :: api_response + TokenFilter, w1)" and "w_store w1 = w_store w"
  shows "\<exists>w'. answer (api_deleteAccessTokens a r) w =
       (Inr (if TokenFilter_IsEmpty flt then filter_required
             else WriteJSON [] 200 (DeleteResponse (card {k. \<exists>t. tb_accessTokens (view (w_store w)) k = Some t \<and> at_matches flt t}))), w')
     \<and> view (w_store w') = (if TokenFilter_IsEmpty flt then view (w_store w)
        else tb_accessTokens_update (keep (\<lambda>t. \<not> at_matches flt t)) (view (w_store w)))"
proof -
  obtain q w2 where q: "on_store (DeleteAccessTokens (ap_Store a) flt) w1 = (q, w2)" by fastforce
  note e = on_store_exact [OF q cst(5) rst(2), unfolded assms(3), OF assms(1)]
  show ?thesis
  proof (cases "TokenFilter_IsEmpty flt")
    case True
    then show ?thesis
      using assms(2,3) by (simp add: answer_def api_deleteAccessTokens_def run_act)
  next
    case False
    with e q assms(2) show ?thesis
      by (simp add: answer_def api_deleteAccessTokens_def run_act tried_store_def tried_def store_call_def delete_where_spec_def)
  qed
qed

lemma deleteRefreshTokens_exact:
  assumes "I (w_store w)" and "tokenFilter r w = (Inr flt :: api_response + TokenFilter, w1)" and "w_store w1 = w_store w"
  shows "\<exists>w'. answer (api_deleteRefreshTokens a r) w =
       (Inr (if TokenFilter_IsEmpty flt then filter_required
             else WriteJSON [] 200 (DeleteResponse (card {k. \<exists>t. tb_refreshTokens (view (w_store w)) k = Some t \<and> rt_matches flt t}))), w')
     \<and> view (w_store w') = (if TokenFilter_IsEmpty flt then view (w_store w)
        else tb_refreshTokens_update (keep (\<lambda>t. \<not> rt_matches flt t)) (view (w_store w)))"
proof -
  obtain q w2 where q: "on_store (DeleteRefreshTokens (ap_Store a) flt) w1 = (q, w2)" by fastforce
  note e = on_store_exact [OF q cst(6) rst(3), unfolded assms(3), OF assms(1)]
  show ?thesis
  proof (cases "TokenFilter_IsEmpty flt")
    case True
    then show ?thesis
      using assms(2,3) by (simp add: answer_def api_deleteRefreshTokens_def run_act)
  next
    case False
    with e q assms(2) show ?thesis
      by (simp add: answer_def api_deleteRefreshTokens_def run_act tried_store_def tried_def store_call_def delete_where_spec_def)
  qed
qed

end

text \<open>The filter of a request: what it holds, at the time the clock gives if the request asks for expired tokens.\<close>

definition filter_of :: "api_request \<Rightarrow> time \<Rightarrow> TokenFilter" where
  "filter_of r now = \<lparr>tf_ClientId = Values_Get (aq_Query r) ''client_id'', tf_UserId = Values_Get (aq_Query r) ''user_id'',
     tf_AuthorizationCodeId = '''', tf_ExpiredBefore = (if Values_Get (aq_Query r) ''expired'' = ''true'' then Some now else None)\<rparr>"

lemma tokenFilter_eq:
  "\<exists>w1. tokenFilter r w = (Inr (filter_of r (truncate_ms (w_clock w (w_ticks w)))) :: api_response + TokenFilter, w1)
     \<and> w_store w1 = w_store w"
  by (simp add: tokenFilter_def filter_of_def empty_filter_def Let_def run_act clock_now_def)

section \<open>Integers of requests\<close>

lemma wrap64_range: "- (2 ^ 63) \<le> wrap64 i" "wrap64 i < 2 ^ 63"
  using sint_greater_eq [of "word_of_int i :: 64 word"] sint_less [of "word_of_int i :: 64 word"] by (simp_all add: wrap64_def)

lemma wrap64_small: "- (2 ^ 63) \<le> i \<Longrightarrow> i < 2 ^ 63 \<Longrightarrow> wrap64 i = i"
  by (simp add: wrap64_def signed_take_bit_int_eq_self_iff sint_sbintrunc')

lemma seconds_duration: "seconds (api_duration s) = s \<longleftrightarrow> \<bar>s\<bar> \<le> 9223372036"
proof
  assume "seconds (api_duration s) = s"
  moreover have "\<bar>seconds (api_duration s)\<bar> \<le> 9223372036"
  proof -
    have "\<bar>api_duration s\<bar> \<le> 2 ^ 63" using wrap64_range [of "s * second"] by (simp add: api_duration_def)
    then have "\<bar>api_duration s\<bar> div second \<le> 2 ^ 63 div second" by (intro zdiv_mono1) simp_all
    moreover have "\<bar>seconds (api_duration s)\<bar> \<le> \<bar>api_duration s\<bar> div second" by (simp add: seconds_def quot_def abs_mult sgn_if)
    ultimately show ?thesis by simp
  qed
  ultimately show "\<bar>s\<bar> \<le> 9223372036" by simp
next
  assume "\<bar>s\<bar> \<le> 9223372036"
  then have "api_duration s = s * second" by (simp add: api_duration_def wrap64_small)
  then show "seconds (api_duration s) = s" by (simp add: seconds_def quot_def abs_mult sgn_mult sgn_mult_abs)
qed

end
