(* ===== verification/ApiProperties.thy ===== *)
theory ApiProperties
  imports ApiProofs OAuthSamples
begin

text \<open>
  The properties of the management API on the in-memory store, with their instances on a sample API.
\<close>

abbreviation api_on_memory :: "(string \<Rightarrow> string) \<Rightarrow> mem api_options \<Rightarrow> mem api_options" where
  "api_on_memory ul a \<equiv> a\<lparr>ap_Store := memory_ops ul, ap_Accounts := on_memory ul (ap_Accounts a)\<rparr>"

interpretation adm: reliable_management "api_on_memory ul a" mem_inv mem_view "to_lower ul" for ul a
  by (simp add: reliable_management_def management_def management_axioms_def acc.account_service_axioms
      acc.reliable_account_axioms)

lemma api_memory:
  "ap_DecodeClient (api_on_memory ul a) = ap_DecodeClient a" "ap_Lib (api_on_memory ul a) = ap_Lib a"
  "ap_Hasher (api_on_memory ul a) = ap_Hasher a"
  by simp_all

text \<open>A sample API whose decoders give one request each.\<close>

definition sample_client_body :: ClientRequest where
  "sample_client_body =
     \<lparr>cr_ClientId = ''new'', cr_Name = ''New'', cr_Description = '''', cr_Type = ''confidential'', cr_RedirectUris = [],
      cr_AllowedScopes = [''a''], cr_DefaultScopes = [''a''], cr_GrantTypes = [''client_credentials''],
      cr_RequireConsent = False, cr_RequirePkce = False, cr_Enabled = None, cr_AccessTokenLifetime = 60,
      cr_AuthorizationCodeLifetime = 0, cr_RefreshTokenLifetime = 0, cr_RefreshTokenUsage = '''',
      cr_RefreshTokenExpiration = ''''\<rparr>"

definition sample_api :: "mem api_options" where
  "sample_api =
     \<lparr>ap_Store = memory_ops (\<lambda>x. x), ap_Accounts = sample_account, ap_Hasher = sample_hasher, ap_Lib = sample_lib,
      ap_DecodeClient = (\<lambda>b. if b = ''new'' then Inr (sample_client_body, True)
         else Inr (sample_client_body\<lparr>cr_ClientId := ''svc'', cr_Enabled := Some False\<rparr>, True)),
      ap_DecodeCreateUser = (\<lambda>b. Inl ''x''), ap_DecodeUpdateUser = (\<lambda>b. Inl ''x''), ap_DecodePassword = (\<lambda>b. Inl ''x'')\<rparr>"

definition sample_api_request :: "string \<Rightarrow> string \<Rightarrow> api_request" where
  "sample_api_request k body =
     \<lparr>aq_Path = ''/api/clients'', aq_Id = k, aq_Query = [], aq_ContentType = ''application/json'', aq_Authorization = '''',
      aq_Body = body\<rparr>"

lemma sample_api_memory: "api_on_memory (\<lambda>x. x) sample_api = sample_api"
  by (simp add: sample_api_def sample_account_memory)

section \<open>Clients\<close>

text \<open>
  C34: creating a client stores exactly one new client: under a fresh id and client id, enabled unless the request
  says otherwise, valid, with positive lifetimes and an authorization code lifetime of at most 10 minutes. A
  confidential client gets the hash of the random secret that is returned, a public one no secret. Nothing else
  in the store changes.
\<close>

theorem client_creation_sound:
  assumes "createClient (api_on_memory ul a) r w = (Inr resp, w')" and "mem_inv (w_store w)"
  shows "\<exists>req c secret. ap_DecodeClient a (aq_Body r) = Inr (req, True)
     \<and> resp = WriteJSON [(''Location'', aq_Path r @ ''/'' @ c_Id c)] 201 (ClientWithSecret (toClient c) secret)
     \<and> c_ClientId c = cr_ClientId req \<and> client_Validate (ap_Lib a) (c\<lparr>c_SecretHash := ''''\<rparr>) = None
     \<and> c_Enabled c = (case cr_Enabled req of Some b \<Rightarrow> b | None \<Rightarrow> True)
     \<and> 0 < c_AccessTokenLifetime c \<and> 0 < c_RefreshTokenLifetime c
     \<and> 0 < c_AuthorizationCodeLifetime c \<and> c_AuthorizationCodeLifetime c \<le> 10 * minute
     \<and> (if client_IsPublic c then secret = '''' \<and> c_SecretHash c = ''''
        else \<exists>bs salt. length bs = 32 \<and> secret = RandomToken_of bs \<and> h_Hash (ap_Hasher a) secret salt = Inr (c_SecretHash c))
     \<and> c_Id c \<notin> dom (tb_clients (mem_view (w_store w)))
     \<and> (\<forall>d \<in> ran (tb_clients (mem_view (w_store w))). c_ClientId d \<noteq> c_ClientId c)
     \<and> mem_view (w_store w') = tb_clients_update (\<lambda>m. m(c_Id c \<mapsto> c)) (mem_view (w_store w)) \<and> mem_inv (w_store w')"
  using adm.createClient_ok [OF assms] unfolding api_memory by blast

text \<open>
  C32: disabling a client through the API revokes its tokens: an update keeps the id, the creation time and, for a
  confidential client, the secret; if it turns an enabled client off, no access or refresh token of the client is
  left, otherwise every token stays, and tokens of other clients stay always.
\<close>

theorem client_update_sound:
  assumes "updateClient (api_on_memory ul a) r w = (Inr resp, w')" and "mem_inv (w_store w)"
  shows "\<exists>req c0 c. ap_DecodeClient a (aq_Body r) = Inr (req, True) \<and> tb_clients (mem_view (w_store w)) (aq_Id r) = Some c0
     \<and> resp = WriteJSON [] 200 (ClientBody (toClient c)) \<and> c_Id c = aq_Id r \<and> c_ClientId c = cr_ClientId req
     \<and> c_CreatedAt c = c_CreatedAt c0 \<and> c_Enabled c = (case cr_Enabled req of Some b \<Rightarrow> b | None \<Rightarrow> c_Enabled c0)
     \<and> c_SecretHash c = (if client_IsPublic c then '''' else c_SecretHash c0)
     \<and> mem_view (w_store w') =
        (if c_Enabled c0 \<and> \<not> c_Enabled c then without_tokens_of_client (aq_Id r) else (\<lambda>T. T))
          (tb_clients_update (\<lambda>m. m(aq_Id r \<mapsto> c)) (mem_view (w_store w)))"
proof -
  from adm.updateClient_ok [OF assms, unfolded api_memory] obtain req c0 c where
    1: "ap_DecodeClient a (aq_Body r) = Inr (req, True)" "tb_clients (mem_view (w_store w)) (aq_Id r) = Some c0"
      "resp = WriteJSON [] 200 (ClientBody (toClient c))" "c_Id c = aq_Id r" "c_ClientId c = cr_ClientId req"
      "c_CreatedAt c = c_CreatedAt c0" "c_Enabled c = (case cr_Enabled req of Some b \<Rightarrow> b | None \<Rightarrow> c_Enabled c0)"
      "c_SecretHash c = (if client_IsPublic c then '''' else c_SecretHash c0)"
    and v: "mem_view (w_store w') = (mem_view (w_store w))
       \<lparr>tb_clients := (tb_clients (mem_view (w_store w)))(aq_Id r \<mapsto> c),
        tb_accessTokens := (if c_Enabled c0 \<and> \<not> c_Enabled c then keep (\<lambda>t. at_ClientId t \<noteq> aq_Id r) else (\<lambda>m. m))
          (tb_accessTokens (mem_view (w_store w))),
        tb_refreshTokens := (if c_Enabled c0 \<and> \<not> c_Enabled c then keep (\<lambda>t. rt_ClientId t \<noteq> aq_Id r) else (\<lambda>m. m))
          (tb_refreshTokens (mem_view (w_store w)))\<rparr>"
    by blast
  have "mem_view (w_store w') =
        (if c_Enabled c0 \<and> \<not> c_Enabled c then without_tokens_of_client (aq_Id r) else (\<lambda>T. T))
          (tb_clients_update (\<lambda>m. m(aq_Id r \<mapsto> c)) (mem_view (w_store w)))"
  proof (cases "c_Enabled c0 \<and> \<not> c_Enabled c")
    case True
    show ?thesis unfolding v if_P [OF True] by (simp add: without_tokens_of_client_def)
  next
    case False
    show ?thesis unfolding v if_not_P [OF False] by (cases "mem_view (w_store w)") simp
  qed
  with 1 show ?thesis by (intro exI [of _ req] exI [of _ c0] exI [of _ c] conjI)
qed

text \<open>
  C33: deleting a client answers 204 and removes the client with all its access and refresh tokens if the client
  exists, and answers 404 and changes nothing if it does not; other clients and their tokens stay.
\<close>

theorem client_deletion_exact:
  assumes "mem_inv (w_store w)"
  shows "\<exists>w'. answer (deleteClient (api_on_memory ul a) r) w =
       (Inr (if aq_Id r \<in> dom (tb_clients (mem_view (w_store w))) then WriteHeader 204 else handleError (ErrStore ErrNotFound)), w')
     \<and> mem_view (w_store w') = (if aq_Id r \<in> dom (tb_clients (mem_view (w_store w)))
        then without_tokens_of_client (aq_Id r) (tb_clients_update (\<lambda>m. m(aq_Id r := None)) (mem_view (w_store w)))
        else mem_view (w_store w))"
  using adm.deleteClient_exact [OF assms, of ul a r] by blast

theorem client_deletion_exact_witness:
  "\<exists>w'. answer (deleteClient sample_api (sample_api_request ''c-1'' '''')) sample_server_world = (Inr (WriteHeader 204), w')
     \<and> tb_clients (mem_view (w_store w')) ''c-1'' = None \<and> tb_accessTokens (mem_view (w_store w')) ''a-1'' = None"
proof -
  have k: "aq_Id (sample_api_request ''c-1'' '''') = ''c-1''" by (simp add: sample_api_request_def)
  have d: "(''c-1'' \<in> dom (tb_clients (mem_view (w_store sample_server_world)))) = True"
    by (simp add: mem_view_def sample_server_world_def)
  have t: "tb_accessTokens (mem_view (w_store sample_server_world)) ''a-1'' = Some sample_access_token"
    by (simp add: mem_view_def sample_server_world_def sample_world_def)
  from client_deletion_exact [OF sample_server_inv, of "\<lambda>x. x" sample_api "sample_api_request ''c-1'' ''''", unfolded sample_api_memory k d if_True]
  show ?thesis using t by (fastforce simp: without_tokens_of_client_def keep_None sample_access_token_def)
qed

section \<open>Instances\<close>

text \<open>The two requests of the sample API: a new confidential client, and the end of a client.\<close>

lemma sample_apply:
  "\<exists>c. applyRequest sample_lib sample_client_body (emptyClient k now) = Inr c \<and> c_Id c = k \<and> c_ClientId c = ''new'' \<and> \<not> client_IsPublic c"
  "\<exists>c. applyRequest sample_lib (sample_client_body\<lparr>cr_ClientId := ''svc'', cr_Enabled := Some False\<rparr>) sample_confidential = Inr c
     \<and> c_Id c = ''c-2'' \<and> c_ClientId c = ''svc'' \<and> \<not> c_Enabled c"
proof -
  have "IsValidScopeToken ''a''" by code_simp
  moreover have "api_duration 60 = 60 * second" "api_duration 0 = 0" by code_simp+
  ultimately show "\<exists>c. applyRequest sample_lib sample_client_body (emptyClient k now) = Inr c \<and> c_Id c = k \<and> c_ClientId c = ''new''
      \<and> \<not> client_IsPublic c"
    by (simp add: applyRequest_def EnsureDefaults_def copyRequest_def emptyClient_def sample_client_body_def client_Validate_def
        check_scope_syntax_def check_default_scope_def check_grant_type_def client_ValidateScope_def
        client_IsPublic_def DefaultAuthorizationCodeLifetime_def)
  have "case applyRequest sample_lib (sample_client_body\<lparr>cr_ClientId := ''svc'', cr_Enabled := Some False\<rparr>) sample_confidential of
      Inl e \<Rightarrow> False | Inr c \<Rightarrow> c_Id c = ''c-2'' \<and> c_ClientId c = ''svc'' \<and> \<not> c_Enabled c"
    by code_simp
  then show "\<exists>c. applyRequest sample_lib (sample_client_body\<lparr>cr_ClientId := ''svc'', cr_Enabled := Some False\<rparr>) sample_confidential = Inr c
     \<and> c_Id c = ''c-2'' \<and> c_ClientId c = ''svc'' \<and> \<not> c_Enabled c"
    by (auto split: sum.splits)
qed

lemma sample_decode:
  "decode sample_api (ap_DecodeClient sample_api) (sample_api_request k ''new'') w = (Inr sample_client_body, w)"
  "decode sample_api (ap_DecodeClient sample_api) (sample_api_request k ''off'') w
     = (Inr (sample_client_body\<lparr>cr_ClientId := ''svc'', cr_Enabled := Some False\<rparr>), w)"
proof -
  have "lib_parse_media_type sample_lib ''application/json'' = Some ''application/json''" by code_simp
  then show "decode sample_api (ap_DecodeClient sample_api) (sample_api_request k ''new'') w = (Inr sample_client_body, w)"
    "decode sample_api (ap_DecodeClient sample_api) (sample_api_request k ''off'') w
       = (Inr (sample_client_body\<lparr>cr_ClientId := ''svc'', cr_Enabled := Some False\<rparr>), w)"
    by (simp_all add: decode_def sample_api_def sample_api_request_def)
qed

lemma sample_create: "\<exists>resp w'. createClient sample_api (sample_api_request '''' ''new'') sample_server_world = (Inr resp, w')"
proof -
  let ?w = "sample_server_world"
  let ?k = "NewId_of (map (\<lambda>i. w_random ?w (w_pos ?w + i)) [0..<16])"
  have k: "?k \<notin> {''c-1'', ''c-2''}" using NewId_shape(1) [of "map (\<lambda>i. w_random ?w (w_pos ?w + i)) [0..<16]"] by auto
  from sample_apply(1) obtain c where c: "applyRequest sample_lib sample_client_body
      (emptyClient ?k (truncate_ms (w_clock ?w (w_ticks ?w)))) = Inr c" "c_Id c = ?k" "c_ClientId c = ''new''" "\<not> client_IsPublic c"
    by blast
  have cl: "m_clients (w_store ?w) = [(''c-1'', sample_client), (''c-2'', sample_confidential)]"
    by (simp add: sample_server_world_def)
  have a: "ap_Lib sample_api = sample_lib" "ap_Store sample_api = memory_ops (\<lambda>x. x)" "ap_Hasher sample_api = sample_hasher"
    by (simp_all add: sample_api_def)
  have ids: "c_ClientId sample_client = ''spa''" "c_ClientId sample_confidential = ''svc''"
    by (simp_all add: sample_client_def sample_confidential_def)
  show ?thesis
    using k c
    by (simp add: createClient_def andThen_def sample_decode clock_now_def NewId_def RandomBytes_def ret_def apply_request_def a
        newSecret_def NewToken_def RandomToken_def tried_def mapErr_def handle_def hash_secret_def sample_hasher_def
        tried_store_def store_call_def on_store_def zoom_def mem_CreateClient_def clientIdTaken_def range_exists_def cl ids)
qed

lemma sample_update: "\<exists>resp w'. updateClient sample_api (sample_api_request ''c-2'' ''off'') sample_server_world = (Inr resp, w')"
proof -
  let ?w = "sample_server_world"
  from sample_apply(2) obtain c where c: "applyRequest sample_lib (sample_client_body\<lparr>cr_ClientId := ''svc'', cr_Enabled := Some False\<rparr>)
      sample_confidential = Inr c" "c_Id c = ''c-2''" "c_ClientId c = ''svc''" "\<not> c_Enabled c"
    by blast
  have cl: "m_clients (w_store ?w) = [(''c-1'', sample_client), (''c-2'', sample_confidential)]"
    by (simp add: sample_server_world_def)
  have a: "ap_Lib sample_api = sample_lib" "ap_Store sample_api = memory_ops (\<lambda>x. x)" "aq_Id (sample_api_request k b) = k" for k b
    by (simp_all add: sample_api_def sample_api_request_def)
  have ids: "c_ClientId sample_client = ''spa''" "c_Id sample_confidential = ''c-2''" "c_Enabled sample_confidential"
    by (simp_all add: sample_client_def sample_confidential_def)
  have t: "c_Id (touchClient now c) = ''c-2''" "c_ClientId (touchClient now c) = ''svc''" "\<not> c_Enabled (touchClient now c)" for now
    using c by (simp_all add: touchClient_def)
  show ?thesis
    using c(1)
    by (simp add: updateClient_def andThen_def sample_decode clock_now_def ret_def apply_request_def a
        tried_def mapErr_def handle_def tried_store_def store_call_def on_store_def zoom_def mem_GetClientById_def
        mem_UpdateClient_def clientIdTaken_def range_exists_def cl ids t Let_def api_revokeTokens_def
        mem_DeleteRefreshTokens_def mem_DeleteAccessTokens_def split: prod.split)
qed

theorem client_creation_sound_witness:
  "\<exists>resp w' c. createClient sample_api (sample_api_request '''' ''new'') sample_server_world = (Inr resp, w')
     \<and> tb_clients (mem_view (w_store w')) (c_Id c) = Some c \<and> c_ClientId c = ''new'' \<and> c_Enabled c"
proof -
  from sample_create obtain resp w' where
    r: "createClient sample_api (sample_api_request '''' ''new'') sample_server_world = (Inr resp, w')" by blast
  have b: "ap_DecodeClient sample_api (aq_Body (sample_api_request '''' ''new'')) = Inr (sample_client_body, True)"
    by (simp add: sample_api_def sample_api_request_def)
  have n: "cr_ClientId sample_client_body = ''new''" "cr_Enabled sample_client_body = None" by (simp_all add: sample_client_body_def)
  from client_creation_sound [where ul = "\<lambda>x. x" and a = sample_api, unfolded sample_api_memory, OF r sample_server_inv]
  obtain c where "c_ClientId c = ''new''" "c_Enabled c"
    "mem_view (w_store w') = tb_clients_update (\<lambda>m. m(c_Id c \<mapsto> c)) (mem_view (w_store sample_server_world))"
    unfolding b using n by force
  with r show ?thesis by (intro exI [of _ resp] exI [of _ w'] exI [of _ c]) simp
qed

theorem client_update_sound_witness:
  "\<exists>resp w' c. updateClient sample_api (sample_api_request ''c-2'' ''off'') sample_server_world = (Inr resp, w')
     \<and> tb_clients (mem_view (w_store w')) ''c-2'' = Some c \<and> \<not> c_Enabled c
     \<and> (\<forall>t \<in> ran (tb_accessTokens (mem_view (w_store w'))). at_ClientId t \<noteq> ''c-2'')"
proof -
  from sample_update obtain resp w' where
    r: "updateClient sample_api (sample_api_request ''c-2'' ''off'') sample_server_world = (Inr resp, w')" by blast
  have b: "ap_DecodeClient sample_api (aq_Body (sample_api_request ''c-2'' ''off''))
      = Inr (sample_client_body\<lparr>cr_ClientId := ''svc'', cr_Enabled := Some False\<rparr>, True)"
    "aq_Id (sample_api_request ''c-2'' ''off'') = ''c-2''"
    by (simp_all add: sample_api_def sample_api_request_def)
  have t: "tb_clients (mem_view (w_store sample_server_world)) ''c-2'' = Some sample_confidential" "c_Enabled sample_confidential"
    by (simp_all add: mem_view_def sample_server_world_def sample_confidential_def sample_client_def)
  from client_update_sound [where ul = "\<lambda>x. x" and a = sample_api, unfolded sample_api_memory, OF r sample_server_inv]
  obtain c where c: "\<not> c_Enabled c" "mem_view (w_store w')
      = without_tokens_of_client ''c-2'' (tb_clients_update (\<lambda>m. m(''c-2'' \<mapsto> c)) (mem_view (w_store sample_server_world)))"
    unfolding b t(1) using t(2) by auto
  with r show ?thesis
    by (intro exI [of _ resp] exI [of _ w'] exI [of _ c]) (auto simp: without_tokens_of_client_def ran_def)
qed

section \<open>Tokens\<close>

text \<open>
  A bulk deletion needs a filter. A request that names no client, no user and no expiry is answered with status
  400 and deletes nothing; otherwise exactly the tokens that match all of the given filters are deleted (expired ones
  at the time of the request), and the answer is their number.
\<close>

lemma bulk_deletion_exact:
  assumes "mem_inv (w_store w)" and "flt = filter_of r (truncate_ms (w_clock w (w_ticks w)))"
    and "T = mem_view (w_store w)"
  shows "(\<exists>w'. answer (api_deleteAccessTokens (api_on_memory ul a) r) w =
       (Inr (if TokenFilter_IsEmpty flt then filter_required
             else WriteJSON [] 200 (DeleteResponse (card {k. \<exists>t. tb_accessTokens T k = Some t \<and> at_matches flt t}))), w')
     \<and> mem_view (w_store w') = (if TokenFilter_IsEmpty flt then T
        else tb_accessTokens_update (keep (\<lambda>t. \<not> at_matches flt t)) T))
   \<and> (\<exists>w'. answer (api_deleteRefreshTokens (api_on_memory ul a) r) w =
       (Inr (if TokenFilter_IsEmpty flt then filter_required
             else WriteJSON [] 200 (DeleteResponse (card {k. \<exists>t. tb_refreshTokens T k = Some t \<and> rt_matches flt t}))), w')
     \<and> mem_view (w_store w') = (if TokenFilter_IsEmpty flt then T
        else tb_refreshTokens_update (keep (\<lambda>t. \<not> rt_matches flt t)) T))"
proof -
  obtain w1 where t: "tokenFilter r w = (Inr flt :: api_response + TokenFilter, w1)" "w_store w1 = w_store w"
    using tokenFilter_eq [of r w] unfolding assms(2) by blast
  show ?thesis
    using adm.deleteAccessTokens_exact [OF assms(1) t, of ul a] adm.deleteRefreshTokens_exact [OF assms(1) t, of ul a]
    unfolding assms(3) by blast
qed

lemma bulk_deletion_exact_witness:
  "\<exists>w'. answer (api_deleteAccessTokens sample_api (sample_api_request '''' '''')) sample_server_world = (Inr filter_required, w')
     \<and> mem_view (w_store w') = mem_view (w_store sample_server_world)"
proof -
  have "TokenFilter_IsEmpty (filter_of (sample_api_request '''' '''') now) = True" for now
    by (simp add: TokenFilter_IsEmpty_def filter_of_def sample_api_request_def Values_Get_def values_get_def)
  from bulk_deletion_exact [OF sample_server_inv refl refl, of "\<lambda>x. x" sample_api "sample_api_request '''' ''''",
      unfolded sample_api_memory this if_True]
  show ?thesis by blast
qed

text \<open>
  C39: a lifetime in seconds survives the API exactly when it is at most 9223372036 in absolute value, the range of a
  duration: a larger number of a request wraps around in 64 bits and is stored as another lifetime, without an error.
\<close>

theorem lifetime_in_range: "seconds (api_duration s) = s \<longleftrightarrow> \<bar>s\<bar> \<le> 9223372036"
  by (rule seconds_duration)

section \<open>Lists\<close>

text \<open>
  The page of a list request is well formed and does not depend on the order in which Go iterates over the map of
  the two parameters: if one order accepts the request, the other gives the same page, whose offset is not negative
  and whose limit is between 1 and 500.
\<close>

lemma list_options_ordered:
  assumes "listOptions order r w = (Inr opts :: api_response + ListOptions, w')" and "set order = {''offset'', ''limit''}" and "length order = 2"
  shows "listOptions (rev order) r w = (Inr opts :: api_response + ListOptions, w')
     \<and> 0 \<le> lo_Offset opts \<and> 1 \<le> lo_Limit opts \<and> lo_Limit opts \<le> 500 \<and> w' = w"
proof -
  from assms(1) obtain o1 where o: "read_options order (aq_Query r) \<lparr>lo_Offset = 0, lo_Limit = 0\<rparr> = Inr o1"
    "opts = ListOptions_Normalize o1" "w' = w"
    by (auto simp: listOptions_def split: sum.splits)
  have n: "0 \<le> lo_Offset opts \<and> 1 \<le> lo_Limit opts \<and> lo_Limit opts \<le> 500"
    by (auto simp: o(2) ListOptions_Normalize_def Let_def DefaultLimit_def MaxLimit_def)
  from assms(3) obtain x y where xy: "order = [x, y]" by (auto simp: numeral_2_eq_2 length_Suc_conv)
  with assms(2) have "order = [''offset'', ''limit''] \<or> order = [''limit'', ''offset'']"
    by (auto simp: doubleton_eq_iff)
  then have "read_options (rev order) (aq_Query r) \<lparr>lo_Offset = 0, lo_Limit = 0\<rparr> = Inr o1"
    using o(1) by (elim disjE) (auto simp: Let_def split: if_splits option.splits)
  with o n show ?thesis by (simp add: listOptions_def)
qed

lemma list_options_ordered_witness:
  "listOptions [''limit'', ''offset''] ((sample_api_request '''' '''')\<lparr>aq_Query := [(''limit'', [''10''])]\<rparr>) sample_server_world
     = (Inr \<lparr>lo_Offset = 0, lo_Limit = 10\<rparr> :: api_response + ListOptions, sample_server_world)"
proof -
  have n: "atoi ''10'' = Some 10" by code_simp
  have "listOptions [''offset'', ''limit''] ((sample_api_request '''' '''')\<lparr>aq_Query := [(''limit'', [''10''])]\<rparr>) sample_server_world
     = (Inr \<lparr>lo_Offset = 0, lo_Limit = 10\<rparr> :: api_response + ListOptions, sample_server_world)"
    by (simp add: listOptions_def Let_def Values_Get_def values_get_def sample_api_request_def n ListOptions_Normalize_def MaxLimit_def)
  from list_options_ordered [OF this] show ?thesis by simp
qed

section \<open>The invariant\<close>

text \<open>No request to the management API, whatever it is answered, breaks the invariant of the store.\<close>

lemma management_keeps_store:
  assumes "(method, pattern, h) \<in> set (api_routes (api_on_memory ul a) order)" and "mem_inv (w_store w)" and "h r w = (x, w')"
  shows "mem_inv (w_store w')"
  using preservesD [OF adm.keep_routes [OF assms(1)] assms(3)] assms(2) by simp

lemma management_keeps_store_witness:
  "mem_inv (w_store (snd (answer (deleteClient sample_api (sample_api_request ''c-1'' '''')) sample_server_world)))"
proof -
  obtain x w' where h: "answer (deleteClient sample_api (sample_api_request ''c-1'' '''')) sample_server_world = (x, w')" by fastforce
  have "(''DELETE'', ''/clients/{id}'', \<lambda>r. answer (deleteClient sample_api r)) \<in> set (api_routes sample_api [])"
    by (simp add: api_routes_def)
  from management_keeps_store [where ul = "\<lambda>x. x" and a = sample_api, unfolded sample_api_memory, OF this sample_server_inv h]
  show ?thesis by (simp add: h)
qed

end
