(* ===== verification/UiProofs.thy ===== *)
theory UiProofs
  imports Ui AccountProofs
begin

text \<open>
  The guarantees of the pages: forged forms change nothing, redirections stay on the site, sessions identify the
  current user, and every page keeps the invariant of the store.
\<close>

section \<open>What the pages leave unchanged\<close>

lemma preserves_clock_read: "preserves (\<lambda>w. P (w_store w)) clock_read"
  by (rule preservesI) (auto simp: clock_read_eq)

lemma preserves_CSRFToken: "preserves (\<lambda>w. P (w_store w)) (CSRFToken m r)"
  unfolding CSRFToken_def by (intro preserves_rules)

lemma preserves_session:
  "preserves (\<lambda>w. P (w_store w)) (session_Get m r)" "preserves (\<lambda>w. P (w_store w)) (session_Create m k stamp)"
  unfolding session_Get_def session_Create_def by (intro preserves_rules preserves_clock_read)+

lemma preserves_pages:
  "preserves (\<lambda>w. P (w_store w)) (render u r cs status name p)"
  "preserves (\<lambda>w. P (w_store w)) (show_message u r cs status title msg links)"
  "preserves (\<lambda>w. P (w_store w)) (ui_serverError u r e)" "preserves (\<lambda>w. P (w_store w)) (ui_redirect cs target)"
  "preserves (\<lambda>w. P (w_store w)) (renderLogin u r cs status form errMsg b)"
  "preserves (\<lambda>w. P (w_store w)) (invalidResetLink u r)"
  unfolding render_def show_message_def ui_serverError_def ui_redirect_def renderLogin_def invalidResetLink_def
  by (intro preserves_rules preserves_CSRFToken)+

lemma preserves_account_error:
  "(\<And>v. preserves P (f v)) \<Longrightarrow> preserves P m \<Longrightarrow> preserves P n \<Longrightarrow>
     preserves P (case e of ErrValidation v \<Rightarrow> f v | ErrUserExists \<Rightarrow> m | _ \<Rightarrow> n)"
  "(\<And>v. preserves P (f v)) \<Longrightarrow> preserves P m \<Longrightarrow> preserves P n \<Longrightarrow>
     preserves P (case e of ErrValidation v \<Rightarrow> f v | ErrInvalidToken \<Rightarrow> m | _ \<Rightarrow> n)"
  by (cases e; simp)+

context account_service
begin

lemma keep_CurrentUser:
  assumes "ui_Accounts u = svc"
  shows "preserves (\<lambda>w. I (w_store w)) (ui_CurrentUser u r)"
  unfolding ui_CurrentUser_def assms by (intro preserves_rules preserves_session keep_GetUser)

lemma keep_withUser:
  "ui_Accounts u = svc \<Longrightarrow> (\<And>x cs. preserves (\<lambda>w. I (w_store w)) (f x cs)) \<Longrightarrow> preserves (\<lambda>w. I (w_store w)) (withUser u r f)"
  unfolding withUser_def by (intro preserves_rules preserves_pages keep_CurrentUser)

lemma keep_ui_routes:
  assumes "ui_Accounts u = svc" and "(method, pattern, h) \<in> set (ui_routes u)"
  shows "preserves (\<lambda>w. I (w_store w)) (h r)"
proof -
  note acts = home_def loginPage_def loginSubmit_def logoutPage_def logoutSubmit_def registerPage_def registerSubmit_def
    ui_activate_def resendPage_def resendSubmit_def forgotPage_def forgotSubmit_def resetPage_def resetSubmit_def
  note ks = keep_Authenticate keep_Register keep_Activate keep_ResendActivation keep_RequestPasswordReset
    keep_lookupUserToken keep_ResetPassword
  have vt: "preserves (\<lambda>w. I (w_store w)) (account_VerifyPasswordResetToken svc t)" for t
    unfolding account_VerifyPasswordResetToken_def by (intro preserves_rules keep_lookupUserToken)
  have k: "preserves (\<lambda>w. I (w_store w)) (home u r)" "preserves (\<lambda>w. I (w_store w)) (loginPage u r)"
    "preserves (\<lambda>w. I (w_store w)) (loginSubmit u r)" "preserves (\<lambda>w. I (w_store w)) (logoutPage u r)"
    "preserves (\<lambda>w. I (w_store w)) (logoutSubmit u r)" "preserves (\<lambda>w. I (w_store w)) (registerPage u r)"
    "preserves (\<lambda>w. I (w_store w)) (registerSubmit u r)" "preserves (\<lambda>w. I (w_store w)) (ui_activate u r)"
    "preserves (\<lambda>w. I (w_store w)) (resendPage u r)" "preserves (\<lambda>w. I (w_store w)) (resendSubmit u r)"
    "preserves (\<lambda>w. I (w_store w)) (forgotPage u r)" "preserves (\<lambda>w. I (w_store w)) (forgotSubmit u r)"
    "preserves (\<lambda>w. I (w_store w)) (resetPage u r)" "preserves (\<lambda>w. I (w_store w)) (resetSubmit u r)"
    unfolding acts assms(1)
    by (intro preserves_rules preserves_pages preserves_session preserves_account_error keep_withUser assms(1) ks vt)+
  from assms(2) k show ?thesis by (auto simp: ui_routes_def split: if_split_asm)
qed

end

section \<open>Forged forms\<close>

text \<open>A page that is shown changes nothing but the random source, for a new CSRF cookie.\<close>

definition shown :: "int \<Rightarrow> http_cookie list \<Rightarrow> 's world \<Rightarrow> (unit + ui_response) \<times> 's world \<Rightarrow> bool" where
  "shown status cs w res \<longleftrightarrow> (case res of
     (Inr resp, w') \<Rightarrow> up_Status resp = status \<and> take (length cs) (up_Cookies resp) = cs
       \<and> (\<exists>name p. up_Body resp = Rendered name p) \<and> w_store w' = w_store w \<and> w_outbox w' = w_outbox w
       \<and> w_clock w' = w_clock w \<and> w_ticks w' = w_ticks w
   | _ \<Rightarrow> False)"

lemma shown_pages:
  "shown status cs w (render u r cs status name p w)" "shown status cs w (show_message u r cs status title msg links w)"
  "shown status cs w (renderLogin u r cs status form errMsg b w)" "shown 400 [] w (invalidResetLink u r w)"
  "shown 500 [] w (ui_serverError u r e w)"
  unfolding show_message_def renderLogin_def invalidResetLink_def ui_serverError_def render_def CSRFToken_def Let_def shown_def
  by (auto simp: andThen_def RandomToken_def RandomBytes_def ret_def)

lemma forged_form:
  assumes "(''POST'', pattern, h) \<in> set (ui_routes u)" and "\<not> ui_verifyCSRF u r"
  shows "shown 400 [] w (h r w)"
  using assms(1)
  by (auto simp: ui_routes_def loginSubmit_def logoutSubmit_def registerSubmit_def resendSubmit_def forgotSubmit_def resetSubmit_def
      assms(2) shown_pages split: if_split_asm)

section \<open>Redirections\<close>

text \<open>A path a browser resolves on the same host.\<close>

definition local_path :: "string \<Rightarrow> bool" where
  "local_path t \<longleftrightarrow> (\<exists>rest. t = CHR ''/'' # rest \<and> (rest = [] \<or> hd rest \<noteq> CHR ''/'' \<and> hd rest \<noteq> CHR 0x5C))
     \<and> CHR 0x5C \<notin> set t \<and> CHR 0x0D \<notin> set t \<and> CHR 0x0A \<notin> set t \<and> CHR 0x09 \<notin> set t"

lemma safeReturnTo_local: "safeReturnTo u t = ui_url u PathHome \<or> safeReturnTo u t = t \<and> local_path t"
proof (cases t)
  case (Cons c cs)
  then show ?thesis
    by (cases cs) (auto simp: safeReturnTo_def local_path_def list_ex_iff split: option.splits if_splits)
qed (simp add: safeReturnTo_def)

text \<open>Where the pages send the user agent.\<close>

definition on_site :: "'s ui_options \<Rightarrow> string \<Rightarrow> bool" where
  "on_site u t \<longleftrightarrow> t = ui_url u PathHome \<or> t = ui_url u PathLogin \<or> local_path t"

lemma on_site_safe: "on_site u (safeReturnTo u t)"
  using safeReturnTo_local [of u t] by (auto simp: on_site_def)

definition stays :: "'s ui_options \<Rightarrow> 's ui_act \<Rightarrow> bool" where
  "stays u m \<longleftrightarrow> (\<forall>w resp w' t. m w = (Inr resp, w') \<longrightarrow> up_Body resp = Redirected t \<longrightarrow> on_site u t)"

lemma shown_stays: "(\<And>w. shown status cs w (m w)) \<Longrightarrow> stays u m"
  unfolding stays_def
proof (intro allI impI)
  fix w resp w' t
  assume sh: "\<And>w. shown status cs w (m w)" and m: "m w = (Inr resp, w')" and t: "up_Body resp = Redirected t"
  from sh [of w] show "on_site u t" unfolding m by (auto simp: shown_def t)
qed

lemma stays_pages:
  "stays u (render u r cs status name p)" "stays u (show_message u r cs status title msg links)"
  "stays u (renderLogin u r cs status form errMsg b)" "stays u (invalidResetLink u r)" "stays u (ui_serverError u r e)"
  by (rule shown_stays, rule shown_pages)+

lemma stays_redirect: "on_site u t \<Longrightarrow> stays u (ui_redirect cs t)"
  by (auto simp: stays_def ui_redirect_def)

lemma stays_handle: "(\<And>e. stays u (g e)) \<Longrightarrow> (\<And>x. stays u (f x)) \<Longrightarrow> stays u (handle m g f)"
  unfolding stays_def handle_eq by blast

lemma stays_andThen: "(\<And>x. stays u (f x)) \<Longrightarrow> stays u (andThen m f)"
  unfolding stays_def andThen_eq_Inr by blast

lemma stays_cases:
  "(b \<Longrightarrow> stays u m1) \<Longrightarrow> (\<not> b \<Longrightarrow> stays u m2) \<Longrightarrow> stays u (if b then m1 else m2)"
  "stays u (f y) \<Longrightarrow> stays u (let z = y in f z)"
  "(\<And>a c. stays u (k a c)) \<Longrightarrow> stays u (case q of (a, c) \<Rightarrow> k a c)"
  "stays u m1 \<Longrightarrow> (\<And>v. stays u (f2 v)) \<Longrightarrow> stays u (case o1 of None \<Rightarrow> m1 | Some v \<Rightarrow> f2 v)"
  "(\<And>v. stays u (f3 v)) \<Longrightarrow> stays u m1 \<Longrightarrow> stays u m2 \<Longrightarrow>
     stays u (case e of ErrValidation v \<Rightarrow> f3 v | ErrUserExists \<Rightarrow> m1 | _ \<Rightarrow> m2)"
  "(\<And>v. stays u (f3 v)) \<Longrightarrow> stays u m1 \<Longrightarrow> stays u m2 \<Longrightarrow>
     stays u (case e of ErrValidation v \<Rightarrow> f3 v | ErrInvalidToken \<Rightarrow> m1 | _ \<Rightarrow> m2)"
  by (simp_all split: prod.split option.split account_error.split)

lemma on_site_urls: "on_site u (ui_url u PathHome)" "on_site u (ui_url u PathLogin)"
  by (simp_all add: on_site_def)

lemma routes_stay: "(method, pattern, h) \<in> set (ui_routes u) \<Longrightarrow> stays u (h r)"
proof -
  have "stays u (home u r)" "stays u (loginPage u r)" "stays u (loginSubmit u r)" "stays u (logoutPage u r)"
    "stays u (logoutSubmit u r)" "stays u (registerPage u r)" "stays u (registerSubmit u r)" "stays u (ui_activate u r)"
    "stays u (resendPage u r)" "stays u (resendSubmit u r)" "stays u (forgotPage u r)" "stays u (forgotSubmit u r)"
    "stays u (resetPage u r)" "stays u (resetSubmit u r)"
    unfolding home_def loginPage_def loginSubmit_def logoutPage_def logoutSubmit_def registerPage_def registerSubmit_def
      ui_activate_def resendPage_def resendSubmit_def forgotPage_def forgotSubmit_def resetPage_def resetSubmit_def withUser_def
    by (intro stays_pages stays_redirect stays_handle stays_andThen stays_cases on_site_urls on_site_safe)+
  then show "(method, pattern, h) \<in> set (ui_routes u) \<Longrightarrow> stays u (h r)"
    by (auto simp: ui_routes_def split: if_split_asm)
qed

section \<open>Sessions and the current user\<close>

lemma session_Get_frame:
  "session_Get m r w = (q, w') \<Longrightarrow> w_store w' = w_store w \<and> w_clock w' = w_clock w \<and> (\<exists>found. q = Inr found)"
  unfolding session_Get_def
  by (auto simp: andThen_def clock_read_def ret_def split: option.splits prod.splits if_splits)

text \<open>What the current user of a request is, given the session of it and the stored users.\<close>

definition user_of_session :: "'s ui_options \<Rightarrow> tables \<Rightarrow> Session option \<Rightarrow> user option \<times> http_cookie list" where
  "user_of_session u T found =
     (case found of None \<Rightarrow> (None, []) | Some s \<Rightarrow>
      (case tb_users T (ss_UserId s) of
         Some x \<Rightarrow> if u_SecurityStamp x = ss_SecurityStamp s \<and> account_CanSignIn (ui_Accounts u) x = None
                  then (Some x, []) else (None, [session_Destroy (ui_Sessions u)])
       | None \<Rightarrow> (None, [session_Destroy (ui_Sessions u)])))"

context reliable_account
begin

lemma CurrentUser_exact:
  assumes "ui_Accounts u = svc" and "I (w_store w)" and "session_Get (ui_Sessions u) r w = (Inr found :: account_error + Session option, ws)"
  shows "\<exists>w'. ui_CurrentUser u r w = (Inr (user_of_session u (view (w_store w)) found), w') \<and> I (w_store w')
     \<and> view (w_store w') = view (w_store w)"
proof (cases found)
  case None
  with assms session_Get_frame [OF assms(3)] show ?thesis
    by (simp add: ui_CurrentUser_def andThen_def ret_def user_of_session_def)
next
  case (Some s)
  have ws: "w_store ws = w_store w" using session_Get_frame [OF assms(3)] by blast
  then have i: "I (w_store ws)" using assms(2) by simp
  obtain q w1 where q: "on_store (GetUserById (ao_Store svc) (ss_UserId s)) ws = (q, w1)" by fastforce
  note e = on_store_exact [OF q st_GetUserById rel_GetUserById i]
  show ?thesis
  proof (cases "tb_users (view (w_store w)) (ss_UserId s)")
    case None
    with e ws have q1: "q = Inl ErrNotFound" "I (w_store w1)" "view (w_store w1) = view (w_store w)" by (simp_all add: get_spec_def)
    have "account_GetUser svc (ss_UserId s) ws = (Inl ErrUserNotFound, w1)"
      using q q1(1) by (simp add: account_GetUser_def renamed_def mapErr_def handle_def fail_def)
    with assms Some None q1 show ?thesis
      by (simp add: ui_CurrentUser_def andThen_def handle_def ret_def user_of_session_def)
  next
    case x: (Some x)
    with e ws have q1: "q = Inr x" "I (w_store w1)" "view (w_store w1) = view (w_store w)" by (simp_all add: get_spec_def)
    have "account_GetUser svc (ss_UserId s) ws = (Inr x, w1)" using q q1(1) by (simp add: account_GetUser_def)
    with assms Some x q1 show ?thesis
      by (simp add: ui_CurrentUser_def andThen_def handle_def ret_def user_of_session_def)
  qed
qed

end

end
