(* ===== verification/UiProperties.thy ===== *)
theory UiProperties
  imports UiProofs OAuthSamples
begin

text \<open>
  The properties of the pages, on the in-memory store where they depend on it, with their instances on a sample site.
\<close>

definition sample_ui :: "mem ui_options" where
  "sample_ui = \<lparr>ui_Accounts = sample_account, ui_Sessions = sample_manager, ui_BasePath = '''', ui_ApplicationName = ''App'',
     ui_AllowRegistration = True\<rparr>"

definition sample_blank_request :: http_request where
  "sample_blank_request = \<lparr>r_Method = ''POST'', r_ContentType = form_type, r_Authorization = '''',
     r_ParseForm = Some ([], []), r_Query = [], r_FailedForm = [], r_CSRFHeader = '''', r_Cookies = []\<rparr>"

text \<open>
  C22: a forged form changes nothing: a POST to any page of the UI without a valid CSRF token, or with a form that
  does not parse, is answered by a page with status 400 and leaves the store, the messages sent and the clock as
  they were.
\<close>

theorem forged_forms_change_nothing:
  assumes "(''POST'', pattern, h) \<in> set (ui_routes u)" and "r_ParseForm r = None \<or> \<not> VerifyCSRF (ui_Sessions u) r"
    and "h r w = (x, w')"
  shows "\<exists>resp name p. x = Inr resp \<and> up_Status resp = 400 \<and> up_Body resp = Rendered name p
     \<and> w_store w' = w_store w \<and> w_outbox w' = w_outbox w \<and> w_ticks w' = w_ticks w"
proof -
  have "\<not> ui_verifyCSRF u r" using assms(2) by (auto simp: ui_verifyCSRF_def)
  from forged_form [OF assms(1) this, of w] show ?thesis
    unfolding assms(3) shown_def by (auto split: sum.splits)
qed

theorem forged_forms_change_nothing_witness:
  "\<exists>resp w'. resetSubmit sample_ui sample_blank_request sample_world = (Inr resp, w') \<and> up_Status resp = 400
     \<and> w_store w' = w_store sample_world"
proof -
  have r: "(''POST'', ''/password/reset'', resetSubmit sample_ui) \<in> set (ui_routes sample_ui)" by (simp add: ui_routes_def)
  have n: "r_ParseForm sample_blank_request = None \<or> \<not> VerifyCSRF (ui_Sessions sample_ui) sample_blank_request"
    by (simp add: VerifyCSRF_def csrfCookieValue_def sample_blank_request_def)
  obtain x w' where h: "resetSubmit sample_ui sample_blank_request sample_world = (x, w')" by fastforce
  from forged_forms_change_nothing [OF r n h] h show ?thesis by blast
qed

text \<open>
  C23: the pages are no open redirector: wherever a page of the UI redirects the user agent, also with a target
  taken from the request, it is the home or login page of the site, or a path that starts with exactly one slash and
  holds no backslash or line break, which a browser resolves on the same host.
\<close>

theorem no_open_redirect:
  assumes "(method, pattern, h) \<in> set (ui_routes u)" and "h r w = (Inr resp, w')" and "up_Body resp = Redirected t"
  shows "t = ui_BasePath u @ ''/'' \<or> t = ui_BasePath u @ ''/login'' \<or> local_path t"
  using routes_stay [OF assms(1), of r] assms(2,3) unfolding stays_def on_site_def ui_url_def by auto

theorem no_open_redirect_witness:
  "\<exists>resp w' t. home sample_ui sample_blank_request sample_world = (Inr resp, w') \<and> up_Body resp = Redirected t
     \<and> (t = ''/'' \<or> t = ''/login'' \<or> local_path t)"
proof -
  have r: "(''GET'', ''/'', home sample_ui) \<in> set (ui_routes sample_ui)" by (simp add: ui_routes_def)
  have b: "ui_BasePath sample_ui = ''''" by (simp add: sample_ui_def)
  have h: "home sample_ui sample_blank_request sample_world = (Inr \<lparr>up_Status = 303,
      up_Headers = [(''Cache-Control'', ''no-store'')], up_Cookies = [], up_Body = Redirected ''/login''\<rparr>, sample_world)"
    by (simp add: home_def withUser_def ui_CurrentUser_def session_Get_def sample_blank_request_def andThen_def ret_def handle_def
        ui_redirect_def sample_ui_def ui_url_def)
  from no_open_redirect [OF r h, of "''/login''", unfolded b] h show ?thesis by fastforce
qed

text \<open>
  C20: the current user of a request is the stored user its session names, as long as the security stamp of the
  session is the one stored and the user may sign in; in every other case with a session, the user deleted
  included, there is no current user and the session cookie is removed. The lookup changes no table.
\<close>

theorem current_user_exact:
  assumes "ui_Accounts u = on_memory ul svc" and "mem_inv (w_store w)"
    and "session_Get (ui_Sessions u) r w = (Inr found :: account_error + Session option, ws)"
  shows "\<exists>w'. ui_CurrentUser u r w = (Inr (case found of None \<Rightarrow> (None, []) | Some s \<Rightarrow>
        (case tb_users (mem_view (w_store w)) (ss_UserId s) of
           Some x \<Rightarrow> if u_SecurityStamp x = ss_SecurityStamp s \<and> account_CanSignIn svc x = None
                    then (Some x, []) else (None, [session_Destroy (ui_Sessions u)])
         | None \<Rightarrow> (None, [session_Destroy (ui_Sessions u)]))), w')
     \<and> mem_view (w_store w') = mem_view (w_store w)"
  using acc.CurrentUser_exact [OF assms] unfolding user_of_session_def assms(1) options_memory by blast

theorem current_user_exact_witness:
  "\<exists>w'. ui_CurrentUser sample_ui sample_session_request sample_world =
       (Inr (Some sample_user, []), w')
     \<and> mem_inv (w_store sample_world)"
proof -
  have a: "ui_Accounts sample_ui = on_memory (\<lambda>x. x) sample_account" unfolding sample_account_memory by (simp add: sample_ui_def)
  have m: "ui_Sessions sample_ui = sample_manager" by (simp add: sample_ui_def)
  have c: "cut_at CHR ''.'' sample_session_cookie = Some (b64_encode (so_Marshal sample_manager sample_session),
      sign sample_manager ''session'' (b64_encode (so_Marshal sample_manager sample_session)))"
    unfolding sample_session_cookie_def append_Cons append_Nil by (rule cut_at_append) (rule b64_no_dot)
  have n: "map_of (r_Cookies sample_session_request) (so_CookieName sample_manager) = Some sample_session_cookie"
    by (simp add: sample_session_request_def sample_manager_def)
  have x: "ss_UserId sample_session \<noteq> ''''" "\<not> ss_ExpiresAt sample_session \<le> unix (w_clock sample_world (w_ticks sample_world))"
    by (simp_all add: sample_session_def sample_world_def unix_def)
  have g: "session_Get (ui_Sessions sample_ui) sample_session_request sample_world
      = (Inr (Some sample_session) :: account_error + Session option, sample_world\<lparr>w_ticks := Suc (w_ticks sample_world)\<rparr>)"
    using x by (simp add: session_Get_def m n c b64_decode_encode sample_codec andThen_def clock_read_def ret_def)
  have t: "tb_users (mem_view (w_store sample_world)) (ss_UserId sample_session) = Some sample_user"
    "ss_SecurityStamp sample_session = u_SecurityStamp sample_user"
    by (simp_all add: mem_view_def sample_world_def sample_session_def sample_user_def)
  from current_user_exact [OF a sample_world_inv g] sample_world_inv show ?thesis unfolding option.case t by (auto simp: sample_tables)
qed


definition sample_login_request :: http_request where
  "sample_login_request = \<lparr>r_Method = ''POST'', r_ContentType = form_type, r_Authorization = '''',
     r_ParseForm = Some ([], [(''login'', [''ALICE'']), (''password'', [''password1'']), (''return_to'', [''//evil''])]),
     r_Query = [], r_FailedForm = [], r_CSRFHeader = sign sample_manager ''csrf'' (replicate 32 CHR ''v''),
     r_Cookies = [(''x'', replicate 32 CHR ''v'')]\<rparr>"

lemma sample_csrf: "ui_verifyCSRF sample_ui sample_login_request"
proof -
  have m: "ui_Sessions sample_ui = sample_manager" by (simp add: sample_ui_def)
  have l: "length (lib_sha256 (so_Lib sample_manager) x) = 32" for x by (auto simp: sample_manager_def sample_lib_def min_def)
  have v: "csrfCookieValue sample_manager sample_login_request = replicate 32 CHR ''v''"
    by (simp add: csrfCookieValue_def sample_login_request_def sample_manager_def)
  show ?thesis
    using sign_not_empty [of sample_manager "''csrf''" "replicate 32 CHR ''v''", OF l]
    by (simp add: ui_verifyCSRF_def m VerifyCSRF_def v Let_def) (simp add: sample_login_request_def)
qed

lemma sample_login_submit:
  "\<exists>resp w'. loginSubmit sample_ui sample_login_request sample_server_world = (Inr resp, w') \<and> up_Status resp = 303
     \<and> up_Body resp = Redirected ''/''"
proof -
  have f: "trim_space (Values_Get (PostForm sample_login_request) ''login'') = ''ALICE''"
    "Values_Get (PostForm sample_login_request) ''password'' = ''password1''"
    "safeReturnTo sample_ui (Values_Get (PostForm sample_login_request) ''return_to'') = ''/''"
    by (simp_all add: PostForm_def sample_login_request_def Values_Get_def values_get_def safeReturnTo_def ui_url_def sample_ui_def)
      code_simp
  have a: "ui_Accounts sample_ui = sample_account" by (simp add: sample_ui_def)
  show ?thesis
    by (simp add: loginSubmit_def f sample_csrf a sample_authenticate handle_def andThen_def session_Create_def clock_read_def
        ret_def ui_redirect_def Let_def)
qed


end
