(* ===== verification/ServerProofs.thy ===== *)
theory ServerProofs
  imports Server AuthorizeProofs BearerProperties ApiProperties UiProperties
begin

text \<open>
  The assembled server: what its routes are, and that every handler, the cleanup and the provisioning of clients keep
  the invariant of the store. The locale \<open>assembled\<close> states how the parts share the store and the accounts; it is
  interpreted on the servers \<open>New\<close> returns for the in-memory store.
\<close>

section \<open>Routes\<close>

text \<open>The registration of a list of routes with the mux, below a prefix.\<close>

definition mux_entry :: "string \<Rightarrow> ('h \<Rightarrow> 'g) \<Rightarrow> string \<times> string \<times> 'h \<Rightarrow> string \<times> 'g" where
  "mux_entry prefix0 f = (\<lambda>(verb, pattern, h).
     (verb @ '' '' @ prefix0 @ pattern @ (if has_suffix (prefix0 @ pattern) ''/'' then ''{$}'' else ''''), f h))"

lemma WithPrefix_mux:
  "WithPrefix ServeMux_Handle p verb pattern (f h) mux = mux @ [mux_entry (trim_suffix p ''/'') f (verb, pattern, h)]"
  by (simp add: WithPrefix_def ServeMux_Handle_def mux_entry_def Let_def)

lemma foldl_snoc: "foldl (\<lambda>st x. st @ [g x]) mux xs = mux @ map g xs"
  by (induction xs arbitrary: mux) simp_all

lemma register_mux:
  "foldl (\<lambda>st (verb, pattern, h). WithPrefix ServeMux_Handle p verb pattern (f h) st) mux routes
     = mux @ map (mux_entry (trim_suffix p ''/'') f) routes"
  by (simp add: WithPrefix_mux [of _ _ _ f] case_prod_unfold foldl_snoc)

lemma trim_api: "trim_suffix ''/api'' ''/'' = ''/api''"
  by code_simp

text \<open>The routes of the assembled server, in the order they are registered.\<close>

lemma Handler_routes:
  "Handler s order =
     map (mux_entry (trim_suffix (cf_BasePath (sr_cfg s)) ''/'') (\<lambda>h. h)) (oauth_routes (sr_OAuth s))
     @ map (mux_entry (trim_suffix (cf_BasePath (sr_cfg s)) ''/'') UiEndpoint) (ui_routes (sr_UI s))
     @ (case sr_API s of None \<Rightarrow> []
        | Some (api, ms) \<Rightarrow> map (\<lambda>(verb, pattern, h).
            mux_entry (trim_suffix (cf_BasePath (sr_cfg s)) ''/'') ApiEndpoint (verb, ''/api'' @ pattern, foldr (\<lambda>m. m) ms h))
            (api_routes api order))"
proof -
  let ?p = "cf_BasePath (sr_cfg s)"
  have api: "foldl (\<lambda>st (verb, pattern, h). WithPrefix (WithMiddleware (\<lambda>verb pattern h.
        WithPrefix ServeMux_Handle ?p verb pattern (ApiEndpoint h)) ms) ''/api'' verb pattern h st) mux routes
      = mux @ map (\<lambda>(verb, pattern, h). mux_entry (trim_suffix ?p ''/'') ApiEndpoint (verb, ''/api'' @ pattern, foldr (\<lambda>m. m) ms h)) routes"
    for mux routes and ms :: "('a api_handler \<Rightarrow> 'a api_handler) list"
  proof -
    have w: "WithPrefix (WithMiddleware (\<lambda>verb pattern h. WithPrefix ServeMux_Handle ?p verb pattern (ApiEndpoint h)) ms)
        ''/api'' verb pattern h mux = mux @ [mux_entry (trim_suffix ?p ''/'') ApiEndpoint (verb, ''/api'' @ pattern, foldr (\<lambda>m. m) ms h)]"
      for verb pattern h mux
      by (simp add: WithPrefix_def [of _ "''/api''"] trim_api WithMiddleware_def wrap_loop_foldr WithPrefix_mux [of _ _ _ ApiEndpoint]
          del: wrap_loop.simps)
    show ?thesis unfolding w case_prod_unfold by (rule foldl_snoc)
  qed
  show ?thesis
    unfolding Handler_def server_RegisterRoutes_def oauth_RegisterRoutes_def ui_RegisterRoutes_def NewServeMux_def Let_def
      api_RegisterRoutes_def PathPrefix_def register_mux [where f = "\<lambda>h. h"] register_mux [where f = UiEndpoint] api
    by (simp split: option.split prod.split)
qed

section \<open>Every endpoint keeps the invariant\<close>

context oauth_service
begin

lemma preserves_ignoreNotFound: "preserves P m \<Longrightarrow> preserves P (ignoreNotFound m)"
  unfolding ignoreNotFound_def by (intro preserves_rules)

lemma preserves_first_found: "(\<And>m. m \<in> set ms \<Longrightarrow> preserves P m) \<Longrightarrow> preserves P (first_found ms)"
  by (induction ms) (auto intro!: preserves_rules)

lemma preserves_first_token: "(\<And>m. m \<in> set ms \<Longrightarrow> preserves P m) \<Longrightarrow> preserves P (first_token ms)"
  by (induction ms) (auto intro!: preserves_rules)

lemma keep_revoke: "preserves (\<lambda>w. I (w_store w)) (revoke opts c tok hint)"
proof -
  have "preserves (\<lambda>w. I (w_store w)) (revokeAccess opts c h)" "preserves (\<lambda>w. I (w_store w)) (revokeRefresh opts c h)" for h
    unfolding revokeAccess_def revokeRefresh_def by (intro preserves_rules preserves_ignoreNotFound ocalls)+
  then show ?thesis unfolding revoke_def Let_def by (intro preserves_first_found) (auto split: if_splits)
qed

lemma keep_Introspect: "preserves (\<lambda>w. I (w_store w)) (Introspect opts tok hint)"
proof -
  have f: "preserves (\<lambda>w. I (w_store w)) (introspectFound opts f)" for f
    unfolding introspectFound_def Let_def by (intro preserves_rules ocalls)
  have "preserves (\<lambda>w. I (w_store w)) (andThen (on_store (GetAccessTokenByHash (oo_Store opts) h)) (\<lambda>t. ret (foundAccess now t)))"
    "preserves (\<lambda>w. I (w_store w)) (andThen (on_store (GetRefreshTokenByHash (oo_Store opts) h)) (\<lambda>t. ret (foundRefresh now t)))"
    for h now by (intro preserves_rules ocalls)+
  then show ?thesis
    unfolding Introspect_def Let_def by (intro preserves_rules f preserves_first_token) (auto split: if_splits)
qed

lemma keep_ValidateAccessToken: "preserves (\<lambda>w. I (w_store w)) (ValidateAccessToken opts tok)"
  unfolding ValidateAccessToken_def by (intro preserves_rules ocalls)

lemma keep_RequireBearer: "preserves (\<lambda>w. I (w_store w)) (RequireBearer opts scopes r)"
  unfolding RequireBearer_def Let_def by (intro preserves_rules keep_ValidateAccessToken)

text \<open>The middleware reads the store and never changes it.\<close>

lemma look_RequireBearer: "preserves (\<lambda>w. I (w_store w) \<and> view (w_store w) = V) (RequireBearer opts scopes r)"
  unfolding RequireBearer_def Let_def by (intro preserves_rules read_ValidateAccessToken)

lemma keep_HandleAuthorize:
  assumes "\<And>r. preserves (\<lambda>w. I (w_store w)) (in_CurrentUser i r)"
  shows "preserves (\<lambda>w. I (w_store w)) (HandleAuthorize opts i r)"
proof -
  have v: "preserves (\<lambda>w. I (w_store w)) (validateClientAndRedirect opts params)" for params
    unfolding validateClientAndRedirect_def Let_def by (intro preserves_rules ocalls)
  have c: "preserves (\<lambda>w. I (w_store w)) (issueCode opts req u)" for req u
    unfolding issueCode_def Let_def by (intro preserves_rules preserves_NewId ocalls) simp_all
  have t: "preserves (\<lambda>w. I (w_store w)) (issueImplicitToken opts req u)" for req u
    unfolding issueImplicitToken_def Let_def by (intro preserves_rules keep_IssueTokens)
  show ?thesis unfolding HandleAuthorize_def by (intro preserves_rules v c t assms)
qed

end

text \<open>
  What changes the world while a server runs: a request that one of its registered handlers answers, a cleanup, and the
  provisioning of a client. \<open>server_step\<close> relates the worlds before and after; the requests, the order in which Go
  iterates over the map of the list options, and the client to provision are arbitrary.
\<close>

inductive server_step :: "'s Server \<Rightarrow> 's world \<Rightarrow> 's world \<Rightarrow> bool" for s where
  step_authorize: "(p, AuthorizeEndpoint h1) \<in> set (Handler s order) \<Longrightarrow> h1 r w = (x1, w') \<Longrightarrow> server_step s w w'"
| step_token: "(p, TokenEndpoint h2) \<in> set (Handler s order) \<Longrightarrow> h2 r w = (x2, w') \<Longrightarrow> server_step s w w'"
| step_revoke: "(p, RevokeEndpoint h3) \<in> set (Handler s order) \<Longrightarrow> h3 r w = (x3, w') \<Longrightarrow> server_step s w w'"
| step_introspect: "(p, IntrospectEndpoint h4) \<in> set (Handler s order) \<Longrightarrow> h4 r w = (x4, w') \<Longrightarrow> server_step s w w'"
| step_ui: "(p, UiEndpoint h5) \<in> set (Handler s order) \<Longrightarrow> h5 r w = (x5, w') \<Longrightarrow> server_step s w w'"
| step_api: "(p, ApiEndpoint h6) \<in> set (Handler s order) \<Longrightarrow> h6 q w = (x6, w') \<Longrightarrow> server_step s w w'"
| step_cleanup: "Cleanup s w = (x7, w') \<Longrightarrow> server_step s w w'"
| step_provision: "EnsureClient s c secret w = (x8, w') \<Longrightarrow> server_step s w w'"

inductive_cases server_stepE: "server_step s w w'"

abbreviation reachable :: "'s Server \<Rightarrow> 's world \<Rightarrow> 's world \<Rightarrow> bool" where
  "reachable s \<equiv> (server_step s)\<^sup>*\<^sup>*"

text \<open>What the handlers behind the routes are.\<close>

lemma Handler_oauth:
  "(p, AuthorizeEndpoint h1) \<in> set (Handler s order) \<Longrightarrow> \<exists>i. oo_Interaction (sv_opts (sr_OAuth s)) = Some i \<and> h1 = HandleAuthorize (sv_opts (sr_OAuth s)) i"
  "(p, TokenEndpoint h2) \<in> set (Handler s order) \<Longrightarrow> h2 = HandleToken (sr_OAuth s)"
  "(p, RevokeEndpoint h3) \<in> set (Handler s order) \<Longrightarrow> h3 = HandleRevoke (sr_OAuth s)"
  "(p, IntrospectEndpoint h4) \<in> set (Handler s order) \<Longrightarrow> h4 = HandleIntrospect (sr_OAuth s)"
  unfolding Handler_routes oauth_routes_def
  by (cases "oo_Interaction (sv_opts (sr_OAuth s))"; cases "sr_API s"; auto simp: mux_entry_def)+

lemma Handler_ui: "(p, UiEndpoint h) \<in> set (Handler s order) \<Longrightarrow> \<exists>verb pattern. (verb, pattern, h) \<in> set (ui_routes (sr_UI s))"
  unfolding Handler_routes oauth_routes_def
  by (cases "oo_Interaction (sv_opts (sr_OAuth s))"; cases "sr_API s"; force simp: mux_entry_def)

lemma Handler_api:
  "(p, ApiEndpoint h) \<in> set (Handler s order) \<Longrightarrow>
     \<exists>a ms verb pattern h0. sr_API s = Some (a, ms) \<and> (verb, pattern, h0) \<in> set (api_routes a order) \<and> h = foldr (\<lambda>m. m) ms h0"
  unfolding Handler_routes oauth_routes_def
  by (cases "oo_Interaction (sv_opts (sr_OAuth s))"; cases "sr_API s"; fastforce simp: mux_entry_def)

text \<open>The parts of a server work on one store and one account service, and the API is behind the middleware.\<close>

locale assembled = oauth_service "sv_opts (sr_OAuth s)" I view lower
  for s :: "'s Server" and I :: "'s \<Rightarrow> bool" and view :: "'s \<Rightarrow> tables" and lower :: "string \<Rightarrow> string" +
  assumes server_store: "sr_Store s = oo_Store (sv_opts (sr_OAuth s))"
    and server_accounts: "sr_Accounts s = oo_Accounts (sv_opts (sr_OAuth s))"
    and server_ui: "ui_Accounts (sr_UI s) = oo_Accounts (sv_opts (sr_OAuth s))"
    and server_interaction: "oo_Interaction (sv_opts (sr_OAuth s)) = Some i \<Longrightarrow> i = ui_interaction (sr_UI s)"
    and server_grants: "sv_grants (sr_OAuth s) = map (\<lambda>(g, h). (g, h (sv_opts (sr_OAuth s)))) builtinGrants"
    and server_api: "sr_API s = Some (a, ms) \<Longrightarrow> ap_Store a = oo_Store (sv_opts (sr_OAuth s))
        \<and> ap_Accounts a = oo_Accounts (sv_opts (sr_OAuth s))
        \<and> ms = [bearer_middleware (sv_opts (sr_OAuth s)) [cf_AdminScope (sr_cfg s)]]"
begin

abbreviation "opts \<equiv> sv_opts (sr_OAuth s)"

lemma keep_interaction:
  assumes "oo_Interaction opts = Some i"
  shows "preserves (\<lambda>w. I (w_store w)) (in_CurrentUser i r)"
  unfolding server_interaction [OF assms] ui_interaction_def
  by (simp, intro preserves_rules keep_CurrentUser server_ui)

lemma keep_HandleToken: "preserves (\<lambda>w. I (w_store w)) (HandleToken (sr_OAuth s) r)"
proof -
  have "preserves (\<lambda>w. I (w_store w)) (h req)" if "map_of (sv_grants (sr_OAuth s)) k = Some h" for k h req
    using map_of_SomeD [OF that] keep_authorizationCodeGrant keep_passwordGrant keep_clientCredentialsGrant keep_refreshTokenGrant
    unfolding server_grants builtinGrants_def by auto
  then have "preserves (\<lambda>w. I (w_store w)) (token (sr_OAuth s) r)" by (rule keep_token [OF refl])
  then show ?thesis unfolding HandleToken_def by (intro preserves_rules)
qed

lemma keep_HandleRevoke: "preserves (\<lambda>w. I (w_store w)) (HandleRevoke (sr_OAuth s) r)"
  unfolding HandleRevoke_def revokeRequest_def by (intro preserves_rules keep_AuthenticateClient keep_revoke)

lemma keep_HandleIntrospect: "preserves (\<lambda>w. I (w_store w)) (HandleIntrospect (sr_OAuth s) r)"
  unfolding HandleIntrospect_def introspectRequest_def by (intro preserves_rules keep_AuthenticateClient keep_Introspect)

lemma keep_middleware:
  "(\<And>r. preserves (\<lambda>w. I (w_store w)) (h r)) \<Longrightarrow> preserves (\<lambda>w. I (w_store w)) (bearer_middleware opts scopes h r)"
  unfolding bearer_middleware_def
  by (rule preserves_andThen [OF keep_RequireBearer]) (auto split: bearer_outcome.split intro: preserves_ret)

lemma keep_api:
  assumes "sr_API s = Some (a, ms)" and "(verb, pattern, h) \<in> set (api_routes a order)"
  shows "preserves (\<lambda>w. I (w_store w)) (h r)"
proof -
  note m = server_api [OF assms(1)]
  have "management a I view lower"
    using account_service_axioms m by (simp add: management_def management_axioms_def)
  then show ?thesis by (rule management.keep_routes [OF _ assms(2)])
qed

text \<open>The middleware in front of a handler of the API: what it let pass, or that nothing happened.\<close>

lemma middleware_ok:
  assumes "bearer_middleware opts [scope] h r w = (x, w')" and "I (w_store w)"
  shows "(\<exists>resp e. x = Inr resp \<and> p_Body resp = BearerErrorBody e) \<and> view (w_store w') = view (w_store w)
     \<or> (\<exists>scheme tok a w1. cut_at CHR '' '' (aq_Authorization r) = Some (scheme, tok) \<and> equal_fold scheme ''Bearer''
          \<and> valid_token opts (view (w_store w)) (truncate_ms (w_clock w (w_ticks w))) (trim_space tok) a
          \<and> scope \<in> set (at_Scopes a) \<and> I (w_store w1) \<and> view (w_store w1) = view (w_store w) \<and> h r w1 = (x, w'))"
proof -
  obtain q w1 where q: "RequireBearer opts [scope] (bearer_request r) w = (q, w1)" by fastforce
  from preservesD [OF look_RequireBearer q] assms(2) have v: "I (w_store w1)" "view (w_store w1) = view (w_store w)" by blast+
  show ?thesis
  proof (cases q)
    case (Inl e)
    then show ?thesis
      using q by (auto simp: RequireBearer_def Let_def handle_def ret_def split: if_splits option.splits prod.splits sum.splits)
  next
    case (Inr out)
    show ?thesis
    proof (cases out)
      case (Rejected y)
      with q Inr assms(1) v show ?thesis by (auto simp: bearer_middleware_def andThen_def bearer_response_def)
    next
      case (Served info)
      with q Inr have s: "RequireBearer opts [scope] (bearer_request r) w = (Inr (Served info), w1)" by simp
      from s assms(1) Served have "h r w1 = (x, w')" by (simp add: bearer_middleware_def andThen_def)
      with RequireBearer_ok [OF s assms(2)] v show ?thesis by (auto simp: bearer_request_def)
    qed
  qed
qed

lemma keep_Cleanup: "preserves (\<lambda>w. I (w_store w)) (Cleanup s)"
proof -
  have "preserves (\<lambda>w. I (w_store w)) (clock_read :: ('s world, store_error, time) act)"
    by (rule preservesI) (auto simp: clock_read_def)
  moreover have "preserves I (DeleteExpired (oo_Store opts) now)" for now
    using obeys_preserves [OF st_DeleteAccessTokens] obeys_preserves [OF st_DeleteRefreshTokens]
      obeys_preserves [OF st_DeleteExpiredAuthorizationCodes] obeys_preserves [OF st_DeleteExpiredUserTokens]
    unfolding DeleteExpired_def Let_def same_store by (intro preserves_rules) simp_all
  ultimately show ?thesis
    unfolding Cleanup_def server_store by (intro preserves_andThen preserves_on_store)
qed

lemma keep_EnsureClient: "preserves (\<lambda>w. I (w_store w)) (EnsureClient s c secret)"
proof -
  have p: "preserves (\<lambda>w. I (w_store w)) (provisionedClient s c secret e)" for e
    unfolding provisionedClient_def by (intro preserves_rules)
  have upd: "preserves (\<lambda>w. I (w_store w)) (store_call (UpdateClient (oo_Store opts) x))" for x
    by (intro preserves_store_call preserves_call [OF st_UpdateClient [simplified]])
  have cr: "preserves (\<lambda>w. I (w_store w)) (store_call (CreateClient (oo_Store opts) x))" if "c_Id x \<noteq> ''''" for x
    by (intro preserves_store_call preserves_call [OF st_CreateClient [simplified, OF that]])
  have new: "preserves (\<lambda>w. I (w_store w)) (andThen (if c_Id c0 = '''' then NewId else ret (c_Id c0)) (\<lambda>k.
      let x = c0\<lparr>c_UpdatedAt := now, c_Id := k, c_CreatedAt := now\<rparr>
      in andThen (store_call (CreateClient (oo_Store opts) x)) (\<lambda>_. ret x)))" for c0 and now :: time
    by (rule preserves_andThen_result)
      (auto simp: Let_def NewId_eq NewId_not_empty split: if_splits intro!: preserves_rules cr)
  show ?thesis
    unfolding EnsureClient_def server_store by (intro preserves_rules ocalls p upd new)
qed

text \<open>What a successful provisioning did.\<close>

lemma provisionedClient_ok:
  assumes "provisionedClient s c secret existing w = (Inr c0, w')"
  shows "(\<exists>h. c0 = (EnsureDefaults c)\<lparr>c_SecretHash := h\<rparr>
       \<and> (if secret \<noteq> '''' then \<exists>salt. h_Hash (sr_Hasher s) secret salt = Inr h
          else h = (case existing of Some e \<Rightarrow> c_SecretHash e | None \<Rightarrow> c_SecretHash c)))
     \<and> w_store w' = w_store w"
proof (cases "secret = ''''")
  case True
  have "EnsureDefaults c = (EnsureDefaults c)\<lparr>c_SecretHash := c_SecretHash c\<rparr>" by (simp add: EnsureDefaults_def)
  with assms True show ?thesis by (auto simp: provisionedClient_def Let_def split: option.splits)
next
  case False
  with assms show ?thesis
    by (auto simp: provisionedClient_def Let_def andThen_eq_Inr hash_secret_eq) (metis)
qed

lemma EnsureClient_ok:
  assumes "EnsureClient s c secret w = (Inr c', w')" and "I (w_store w)"
  shows "\<exists>h. client_Validate (sr_Lib s) ((EnsureDefaults c)\<lparr>c_SecretHash := h\<rparr>) = None
     \<and> c' = (EnsureDefaults c)\<lparr>c_SecretHash := h, c_UpdatedAt := truncate_ms (w_clock w (w_ticks w)), c_Id := c_Id c', c_CreatedAt := c_CreatedAt c'\<rparr>
     \<and> (secret \<noteq> '''' \<longrightarrow> (\<exists>salt. h_Hash (sr_Hasher s) secret salt = Inr h))
     \<and> ((\<exists>e. tb_clients (view (w_store w)) (c_Id e) = Some e \<and> c_ClientId e = c_ClientId c
            \<and> c_Id c' = c_Id e \<and> c_CreatedAt c' = c_CreatedAt e \<and> (secret = '''' \<longrightarrow> h = c_SecretHash e))
        \<or> (\<forall>e \<in> ran (tb_clients (view (w_store w))). c_ClientId e \<noteq> c_ClientId c)
            \<and> c_Id c' \<notin> dom (tb_clients (view (w_store w))) \<and> (c_Id c \<noteq> '''' \<longrightarrow> c_Id c' = c_Id c)
            \<and> c_CreatedAt c' = truncate_ms (w_clock w (w_ticks w)) \<and> (secret = '''' \<longrightarrow> h = c_SecretHash c))
     \<and> view (w_store w') = tb_clients_update (\<lambda>m. m(c_Id c' \<mapsto> c')) (view (w_store w))"
proof -
  let ?now = "truncate_ms (w_clock w (w_ticks w))" and ?T = "view (w_store w)"
  define w0 where "w0 = w\<lparr>w_ticks := Suc (w_ticks w)\<rparr>"
  have n: "clock_now w = (Inr ?now :: account_error + time, w0)" by (simp add: clock_now_eq w0_def)
  have w0: "w_store w0 = w_store w" by (simp add: w0_def)
  let ?tail = "\<lambda>existing c0. case client_Validate (sr_Lib s) c0 of Some e \<Rightarrow> fail (ErrValidation e) | None \<Rightarrow>
     (case existing of
        Some e \<Rightarrow>
          (let c = c0\<lparr>c_UpdatedAt := ?now, c_Id := c_Id e, c_CreatedAt := c_CreatedAt e\<rparr>
           in andThen (store_call (UpdateClient (sr_Store s) c)) (\<lambda>_. ret c))
      | None \<Rightarrow>
          andThen (if c_Id c0 = '''' then NewId else ret (c_Id c0)) (\<lambda>k.
          let c = c0\<lparr>c_UpdatedAt := ?now, c_Id := k, c_CreatedAt := ?now\<rparr>
          in andThen (store_call (CreateClient (sr_Store s) c)) (\<lambda>_. ret c)))"
  from assms(1) obtain existing w1 c0 w2 where
    g: "handle (on_store (GetClientByClientId (sr_Store s) (c_ClientId c)))
       (\<lambda>e. if e \<noteq> ErrNotFound then fail (ErrStore e) else ret None) (\<lambda>x. ret (Some x)) w0 = (Inr existing :: account_error + client option, w1)"
    and p: "provisionedClient s c secret existing w1 = (Inr c0, w2)" and t: "?tail existing c0 w2 = (Inr c', w')"
    unfolding EnsureClient_def by (auto simp only: andThen_eq_Inr n sum.inject prod.inject)
  from g have found: "I (w_store w1) \<and> view (w_store w1) = ?T \<and> (case existing of
      Some e \<Rightarrow> e \<in> ran (tb_clients ?T) \<and> c_ClientId e = c_ClientId c
    | None \<Rightarrow> \<forall>e \<in> ran (tb_clients ?T). c_ClientId e \<noteq> c_ClientId c)"
  proof (rule handleE)
    fix e v
    assume e: "on_store (GetClientByClientId (sr_Store s) (c_ClientId c)) w0 = (Inl e, v)"
      and r: "(if e \<noteq> ErrNotFound then fail (ErrStore e) else ret None) v = (Inr existing :: account_error + client option, w1)"
    from r have "e = ErrNotFound" "existing = None" "w1 = v" by (auto split: if_splits)
    with on_store_err [OF e [unfolded server_store] st(2)] assms(2) show ?thesis by (auto simp: find_spec_def w0)
  next
    fix e v
    assume e: "on_store (GetClientByClientId (sr_Store s) (c_ClientId c)) w0 = (Inr e, v)"
      and r: "ret (Some e) v = (Inr existing :: account_error + client option, w1)"
    with on_store_ok [OF e [unfolded server_store] st(2)] assms(2) show ?thesis by (auto simp: find_spec_ok w0)
  qed
  from provisionedClient_ok [OF p] obtain h where
    c0: "c0 = (EnsureDefaults c)\<lparr>c_SecretHash := h\<rparr>" and w2: "w_store w2 = w_store w1"
    and h: "secret \<noteq> '''' \<Longrightarrow> \<exists>salt. h_Hash (sr_Hasher s) secret salt = Inr h"
      "secret = '''' \<Longrightarrow> h = (case existing of Some e \<Rightarrow> c_SecretHash e | None \<Rightarrow> c_SecretHash c)"
    by (auto split: if_splits)
  from t have v: "client_Validate (sr_Lib s) c0 = None" by (cases "client_Validate (sr_Lib s) c0") simp_all
  have i: "I (w_store w2)" "view (w_store w2) = ?T" using found w2 by simp_all
  have cid: "c_ClientId c0 = c_ClientId c" "c_Id c0 = c_Id c" by (simp_all add: c0 EnsureDefaults_def)
  show ?thesis
  proof (cases existing)
    case (Some e)
    let ?c = "c0\<lparr>c_UpdatedAt := ?now, c_Id := c_Id e, c_CreatedAt := c_CreatedAt e\<rparr>"
    from t v Some obtain x where u: "on_store (UpdateClient (oo_Store opts) ?c) w2 = (Inr x, w')" and c': "c' = ?c"
      by (auto simp: Let_def andThen_eq_Inr store_call_def server_store)
    from on_store_ok [OF u st_UpdateClient [simplified] i(1)] i(2) have
      V: "view (w_store w') = tb_clients_update (\<lambda>m. m(c_Id e \<mapsto> ?c)) ?T" by (simp add: update_spec_ok)
    have "keyed c_Id (tb_clients ?T)" using view_ok [OF assms(2)] by (simp add: tables_ok_def)
    with found Some have e: "tb_clients ?T (c_Id e) = Some e" "c_ClientId e = c_ClientId c" by (auto dest: keyed_ranD)
    from h Some have "(secret \<noteq> '''' \<longrightarrow> (\<exists>salt. h_Hash (sr_Hasher s) secret salt = Inr h))" "(secret = '''' \<longrightarrow> h = c_SecretHash e)"
      by simp_all
    with v e V c' show ?thesis by (intro exI [of _ h]) (auto simp: c0)
  next
    case None
    with t v obtain k w3 x where k: "(if c_Id c0 = '''' then NewId else ret (c_Id c0)) w2 = (Inr k :: account_error + string, w3)"
      and cr: "on_store (CreateClient (oo_Store opts) (c0\<lparr>c_UpdatedAt := ?now, c_Id := k, c_CreatedAt := ?now\<rparr>)) w3 = (Inr x, w')"
      and c': "c' = c0\<lparr>c_UpdatedAt := ?now, c_Id := k, c_CreatedAt := ?now\<rparr>"
      by (auto simp: Let_def andThen_eq_Inr store_call_def server_store)
    from k have k2: "w_store w3 = w_store w2" "k \<noteq> ''''" "c_Id c \<noteq> '''' \<longrightarrow> k = c_Id c"
      by (auto simp: NewId_eq NewId_not_empty cid split: if_splits)
    have "c_Id (c0\<lparr>c_UpdatedAt := ?now, c_Id := k, c_CreatedAt := ?now\<rparr>) \<noteq> ''''" using k2(2) by simp
    from on_store_ok [OF cr st_CreateClient [simplified, OF this]] i k2(1) have
      V: "view (w_store w') = tb_clients_update (\<lambda>m. m(k \<mapsto> c')) ?T" "k \<notin> dom (tb_clients ?T)"
      by (simp_all add: create_spec_ok c')
    from h None have "(secret \<noteq> '''' \<longrightarrow> (\<exists>salt. h_Hash (sr_Hasher s) secret salt = Inr h))" "(secret = '''' \<longrightarrow> h = c_SecretHash c)"
      by simp_all
    with v V c' k2(3) found None show ?thesis by (intro exI [of _ h]) (auto simp: c0)
  qed
qed

lemma step_keeps: "server_step s w w' \<Longrightarrow> I (w_store w) \<Longrightarrow> I (w_store w')"
proof (elim server_stepE)
  fix p h order r x
  assume i: "I (w_store w)" and h: "(p, AuthorizeEndpoint h) \<in> set (Handler s order)" "h r w = (x, w')"
  from Handler_oauth(1) [OF h(1)] obtain i where "oo_Interaction opts = Some i" "h = HandleAuthorize opts i" by blast
  with preservesD [OF keep_HandleAuthorize [OF keep_interaction]] h(2) i show ?thesis by blast
next
  fix p h order r x
  assume "I (w_store w)" and "(p, TokenEndpoint h) \<in> set (Handler s order)" "h r w = (x, w')"
  with preservesD [OF keep_HandleToken] Handler_oauth(2) show ?thesis by blast
next
  fix p h order r x
  assume "I (w_store w)" and "(p, RevokeEndpoint h) \<in> set (Handler s order)" "h r w = (x, w')"
  with preservesD [OF keep_HandleRevoke] Handler_oauth(3) show ?thesis by blast
next
  fix p h order r x
  assume "I (w_store w)" and "(p, IntrospectEndpoint h) \<in> set (Handler s order)" "h r w = (x, w')"
  with preservesD [OF keep_HandleIntrospect] Handler_oauth(4) show ?thesis by blast
next
  fix p h order r x
  assume i: "I (w_store w)" and h: "(p, UiEndpoint h) \<in> set (Handler s order)" "h r w = (x, w')"
  from Handler_ui [OF h(1)] obtain verb pattern where "(verb, pattern, h) \<in> set (ui_routes (sr_UI s))" by blast
  from preservesD [OF keep_ui_routes [OF server_ui this] h(2)] i show ?thesis by simp
next
  fix p h order q x
  assume i: "I (w_store w)" and h: "(p, ApiEndpoint h) \<in> set (Handler s order)" "h q w = (x, w')"
  from Handler_api [OF h(1)] obtain a ms verb pattern h0 where a: "sr_API s = Some (a, ms)"
    "(verb, pattern, h0) \<in> set (api_routes a order)" "h = foldr (\<lambda>m. m) ms h0" by blast
  from server_api [OF a(1)] a(3) have "h = bearer_middleware opts [cf_AdminScope (sr_cfg s)] h0" by simp
  with keep_middleware [OF keep_api [OF a(1,2)]] have "preserves (\<lambda>w. I (w_store w)) (h q)" by simp
  from preservesD [OF this h(2)] i show ?thesis by simp
next
  fix x
  assume "I (w_store w)" and "Cleanup s w = (x, w')"
  with preservesD [OF keep_Cleanup] show ?thesis by blast
next
  fix c secret x
  assume "I (w_store w)" and "EnsureClient s c secret w = (x, w')"
  with preservesD [OF keep_EnsureClient] show ?thesis by blast
qed

lemma reachable_keeps: "reachable s w w' \<Longrightarrow> I (w_store w) \<Longrightarrow> I (w_store w')"
  by (induction rule: rtranclp_induct) (auto dest: step_keeps)

end

end
