(* ===== verification/ServerProperties.thy ===== *)
theory ServerProperties
  imports ServerProofs
begin

text \<open>
  The properties of the assembled server on the in-memory store: its configuration, the invariant over everything that
  runs while it serves, the protection of the management API, the provisioning of clients, and the end of the sessions
  of an account with a password reset.
\<close>

section \<open>The assembled server\<close>

lemma sum_cases_Inr:
  "(case x of Inl e \<Rightarrow> fail (g e) | Inr y \<Rightarrow> ret (f y)) w = (Inr z, w') \<longleftrightarrow> (\<exists>y. x = Inr y \<and> z = f y \<and> w' = w)"
  by (cases x) auto

lemma guard_sum: "(if b then Inl e else x) = Inr y \<longleftrightarrow> \<not> b \<and> x = Inr y"
  by simp

lemma normalizeConfig_ok:
  assumes "normalizeConfig lb cfg = Inr (cfg1, st, publicURL)"
  shows "cf_Store cfg = Some st \<and> lib_url_parse (lb_Lib lb) (cf_PublicURL cfg) = Some publicURL
     \<and> url_Scheme publicURL \<noteq> '''' \<and> url_Host publicURL \<noteq> ''''
     \<and> (cf_BasePath cfg1 = '''' \<or> has_prefix (cf_BasePath cfg1) ''/'')
     \<and> cf_BasePath cfg1 = trim_suffix (if cf_BasePath cfg = '''' then url_Path publicURL else cf_BasePath cfg) ''/''
     \<and> cf_PublicURL cfg1 = trim_suffix (cf_PublicURL cfg) ''/''
     \<and> cf_TokenGenerator cfg1 = cf_TokenGenerator cfg \<and> cf_InsecureCookies cfg1 = cf_InsecureCookies cfg
     \<and> cf_DisableAPI cfg1 = cf_DisableAPI cfg
     \<and> cf_AdminScope cfg1 = (if cf_AdminScope cfg = '''' then DefaultAdminScope else cf_AdminScope cfg)
     \<and> cf_MaxFailedAttempts cfg1 = (if cf_MaxFailedAttempts cfg = 0 then 5
          else if cf_MaxFailedAttempts cfg < 0 then 0 else cf_MaxFailedAttempts cfg)
     \<and> cf_SessionKey cfg1 = cf_SessionKey cfg"
proof -
  define base where "base = trim_suffix (if cf_BasePath cfg = '''' then url_Path publicURL else cf_BasePath cfg) ''/''"
  from assms have "cf_Store cfg = Some st \<and> lib_url_parse (lb_Lib lb) (cf_PublicURL cfg) = Some publicURL
      \<and> url_Scheme publicURL \<noteq> '''' \<and> url_Host publicURL \<noteq> '''' \<and> (base = '''' \<or> has_prefix base ''/'')
      \<and> cfg1 = cfg
             \<lparr>cf_PublicURL := trim_suffix (cf_PublicURL cfg) ''/'', cf_BasePath := base,
              cf_ApplicationName := (if cf_ApplicationName cfg = '''' then ''Identity'' else cf_ApplicationName cfg),
              cf_AdminScope := (if cf_AdminScope cfg = '''' then DefaultAdminScope else cf_AdminScope cfg),
              cf_PasswordHasher := Some (effectiveHasher lb cfg), cf_Mailer := Some (effectiveMailer cfg),
              cf_MaxFailedAttempts := (if cf_MaxFailedAttempts cfg = 0 then 5
                 else if cf_MaxFailedAttempts cfg < 0 then 0 else cf_MaxFailedAttempts cfg)\<rparr>"
    unfolding normalizeConfig_def Let_def base_def
    by (cases "cf_Store cfg"; cases "lib_url_parse (lb_Lib lb) (cf_PublicURL cfg)")
      (simp_all only: option.case guard_sum sum.inject sum.distinct prod.inject de_Morgan_disj de_Morgan_conj not_not, blast?)
  then show ?thesis by (elim conjE) (simp add: base_def split del: if_split)
qed

lemma New_ok:
  assumes "New lb cfg w = (Inr s, w')"
  shows "\<exists>cfg' st publicURL sessions. s = server_of lb cfg' st sessions \<and> cf_Store cfg = Some st
     \<and> lib_url_parse (lb_Lib lb) (cf_PublicURL cfg) = Some publicURL \<and> url_Scheme publicURL \<noteq> '''' \<and> url_Host publicURL \<noteq> ''''
     \<and> NewManager (sessionOptions lb cfg' publicURL) = Inr sessions
     \<and> (cf_BasePath cfg' = '''' \<or> has_prefix (cf_BasePath cfg') ''/'')
     \<and> cf_BasePath cfg' = trim_suffix (if cf_BasePath cfg = '''' then url_Path publicURL else cf_BasePath cfg) ''/''
     \<and> cf_PublicURL cfg' = trim_suffix (cf_PublicURL cfg) ''/''
     \<and> cf_TokenGenerator cfg' = cf_TokenGenerator cfg \<and> cf_InsecureCookies cfg' = cf_InsecureCookies cfg
     \<and> cf_DisableAPI cfg' = cf_DisableAPI cfg
     \<and> cf_AdminScope cfg' = (if cf_AdminScope cfg = '''' then DefaultAdminScope else cf_AdminScope cfg)
     \<and> cf_MaxFailedAttempts cfg' = (if cf_MaxFailedAttempts cfg = 0 then 5
          else if cf_MaxFailedAttempts cfg < 0 then 0 else cf_MaxFailedAttempts cfg)
     \<and> cf_SessionKey cfg' = (if cf_SessionKey cfg = '''' then string_of_bytes (tape w (w_pos w) 32) else cf_SessionKey cfg)
     \<and> w_store w' = w_store w"
proof -
  from assms obtain cfg1 st publicURL cfg2 w2 sessions where
    n: "normalizeConfig lb cfg = Inr (cfg1, st, publicURL)"
    and k: "randomKey cfg1 w = (Inr cfg2 :: config_error + 'a Config, w2)"
    and m: "NewManager (sessionOptions lb cfg2 publicURL) = Inr sessions" and s: "s = server_of lb cfg2 st sessions" "w' = w2"
    unfolding New_def
    by (simp only: andThen_eq_Inr split_paired_Ex prod.case lift_eq sum_cases_Inr) metis
  from k have k2: "cfg2 = (if cf_SessionKey cfg1 = '''' then cfg1\<lparr>cf_SessionKey := string_of_bytes (tape w (w_pos w) 32)\<rparr> else cfg1)"
    "w_store w2 = w_store w"
    by (auto simp: randomKey_def andThen_def RandomBytes_def ret_def tape_def split: if_splits)
  note c = normalizeConfig_ok [OF n]
  have e: "cf_BasePath cfg2 = cf_BasePath cfg1" "cf_PublicURL cfg2 = cf_PublicURL cfg1" "cf_TokenGenerator cfg2 = cf_TokenGenerator cfg1"
    "cf_InsecureCookies cfg2 = cf_InsecureCookies cfg1" "cf_DisableAPI cfg2 = cf_DisableAPI cfg1"
    "cf_AdminScope cfg2 = cf_AdminScope cfg1" "cf_MaxFailedAttempts cfg2 = cf_MaxFailedAttempts cfg1"
    "cf_SessionKey cfg2 = (if cf_SessionKey cfg = '''' then string_of_bytes (tape w (w_pos w) 32) else cf_SessionKey cfg)"
    using c by (simp_all add: k2(1))
  show ?thesis
    by (intro exI [of _ cfg2] exI [of _ st] exI [of _ publicURL] exI [of _ sessions], unfold e s k2(2))
      (use c m in \<open>blast intro: refl\<close>)
qed

text \<open>The authorization server of an assembled server over the in-memory store, with opaque tokens.\<close>

lemma server_oauth_memory:
  assumes "cf_TokenGenerator cfg = None" and "s = server_of lb cfg (memory_ops ul) sessions"
  shows "sv_opts (sr_OAuth s) = oauth_on_memory ul (sv_opts (sr_OAuth s))"
  unfolding assms(2) by (simp add: server_of_def Let_def NewServer_eq assms(1) account_New_def accountOptions_def)

lemma server_parts:
  "sr_Store (server_of lb cfg st sessions) = oo_Store (sv_opts (sr_OAuth (server_of lb cfg st sessions)))"
  "sr_Accounts (server_of lb cfg st sessions) = oo_Accounts (sv_opts (sr_OAuth (server_of lb cfg st sessions)))"
  "ui_Accounts (sr_UI (server_of lb cfg st sessions)) = oo_Accounts (sv_opts (sr_OAuth (server_of lb cfg st sessions)))"
  "oo_Interaction (sv_opts (sr_OAuth (server_of lb cfg st sessions))) = Some (ui_interaction (sr_UI (server_of lb cfg st sessions)))"
  "sr_API (server_of lb cfg st sessions) = Some (a, ms) \<Longrightarrow>
     ap_Store a = oo_Store (sv_opts (sr_OAuth (server_of lb cfg st sessions)))
     \<and> ap_Accounts a = oo_Accounts (sv_opts (sr_OAuth (server_of lb cfg st sessions)))
     \<and> ms = [bearer_middleware (sv_opts (sr_OAuth (server_of lb cfg st sessions))) [cf_AdminScope (sr_cfg (server_of lb cfg st sessions))]]"
  "sr_cfg (server_of lb cfg st sessions) = cfg"
  by (auto simp: server_of_def Let_def NewServer_eq apiOptions_def ui_New_def split: if_splits)

interpretation asm: assembled "server_of lb (cfg\<lparr>cf_TokenGenerator := None\<rparr>) (memory_ops ul) sessions" mem_inv mem_view "to_lower ul"
  for lb cfg ul sessions
proof -
  let ?s = "server_of lb (cfg\<lparr>cf_TokenGenerator := None\<rparr>) (memory_ops ul) sessions"
  have "oauth_service (sv_opts (sr_OAuth ?s)) mem_inv mem_view (to_lower ul)"
    by (subst server_oauth_memory [OF _ refl]) (simp, rule srv.oauth_service_axioms)
  then show "assembled ?s mem_inv mem_view (to_lower ul)"
    by (intro assembled.intro assembled_axioms.intro server_parts(1-3,5))
      (simp_all add: server_parts(4), simp add: server_of_def Let_def NewServer_eq builtinGrants_def)
qed

text \<open>A server \<open>New\<close> returned for the in-memory store is such a server.\<close>

lemma New_memory:
  assumes "New lb cfg w = (Inr s, w')" and "cf_Store cfg = Some (memory_ops ul)" and "cf_TokenGenerator cfg = None"
  shows "\<exists>cfg' sessions. s = server_of lb (cfg'\<lparr>cf_TokenGenerator := None\<rparr>) (memory_ops ul) sessions
     \<and> cf_AdminScope cfg' = (if cf_AdminScope cfg = '''' then DefaultAdminScope else cf_AdminScope cfg)"
proof -
  from New_ok [OF assms(1)] assms(2,3) obtain cfg' sessions where
    "s = server_of lb cfg' (memory_ops ul) sessions" "cf_TokenGenerator cfg' = None"
    "cf_AdminScope cfg' = (if cf_AdminScope cfg = '''' then DefaultAdminScope else cf_AdminScope cfg)" by auto
  moreover from this(2) have "cfg'\<lparr>cf_TokenGenerator := None\<rparr> = cfg'" by simp
  ultimately show ?thesis by metis
qed

lemma hashes_of_server:
  "oo_Lib (sv_opts (sr_OAuth (server_of lb cfg st sessions))) = lb_Lib lb"
  "sr_Lib (server_of lb cfg st sessions) = lb_Lib lb" "sr_Hasher (server_of lb cfg st sessions) = effectiveHasher lb cfg"
  by (simp_all add: server_of_def Let_def NewServer_eq)

text \<open>A sample server.\<close>

definition sample_libraries :: libraries where
  "sample_libraries =
     \<lparr>lb_Lib = sample_lib\<lparr>lib_url_parse := (\<lambda>s. Some \<lparr>url_Scheme = ''https'', url_Host = ''id'', url_Path = ''''\<rparr>)\<rparr>,
      lb_Generate = (\<lambda>salt cost p. Inr p), lb_Compare = (\<lambda>h p. h = p), lb_Html = (\<lambda>d. ''''), lb_Marshal = so_Marshal sample_manager,
      lb_Unmarshal = so_Unmarshal sample_manager, lb_DecodeClient = ap_DecodeClient sample_api,
      lb_DecodeCreateUser = ap_DecodeCreateUser sample_api, lb_DecodeUpdateUser = ap_DecodeUpdateUser sample_api,
      lb_DecodePassword = ap_DecodePassword sample_api\<rparr>"

definition sample_config :: "mem Config" where
  "sample_config =
     \<lparr>cf_Store = Some (memory_ops (\<lambda>x. x)), cf_PublicURL = ''https://id'', cf_BasePath = '''', cf_ApplicationName = '''',
      cf_SessionKey = '''', cf_SessionLifetime = 0, cf_InsecureCookies = False, cf_Mailer = None,
      cf_PasswordHasher = Some sample_hasher, cf_AllowRegistration = True, cf_DisableActivation = False, cf_MinPasswordLength = 0,
      cf_MaxFailedAttempts = 0, cf_LockoutDuration = 0, cf_AdminScope = '''', cf_DisableAPI = False, cf_TokenGenerator = None,
      cf_ScopesSupported = []\<rparr>"

lemma sample_New: "\<exists>s w'. New sample_libraries sample_config sample_server_world = (Inr s, w')"
proof -
  have t: "trim_suffix '''' ''/'' = ''''" by (simp add: trim_suffix_def has_suffix_def has_prefix_def)
  have k: "\<not> length (string_of_bytes (map f [0..<32])) < 32" for f :: "nat \<Rightarrow> byte" by (simp add: string_of_bytes_def)
  show ?thesis
    by (simp add: New_def normalizeConfig_def sample_config_def sample_libraries_def t Let_def lift_def andThen_def ret_def randomKey_def
        RandomBytes_def NewManager_def sessionOptions_def k)
qed

lemma sample_config_memory: "cf_Store sample_config = Some (memory_ops (\<lambda>x. x))" "cf_TokenGenerator sample_config = None"
  by (simp_all add: sample_config_def)

section \<open>Configuration\<close>



section \<open>The running server\<close>

text \<open>
  C3: whatever requests an assembled server answers, in any order, with cleanups and the provisioning of clients in
  between, the invariant of the store holds in every state it reaches.
\<close>

theorem server_invariant:
  assumes "New lb cfg w0 = (Inr s, w1)" and "cf_Store cfg = Some (memory_ops ul)" and "cf_TokenGenerator cfg = None"
    and "reachable s w w'" and "mem_inv (w_store w)"
  shows "mem_inv (w_store w')"
proof -
  from New_memory [OF assms(1-3)] obtain cfg' sessions where
    "s = server_of lb (cfg'\<lparr>cf_TokenGenerator := None\<rparr>) (memory_ops ul) sessions" by blast
  with asm.reachable_keeps [of lb cfg' ul sessions w w'] assms(4,5) show ?thesis by simp
qed

theorem server_invariant_witness:
  "\<exists>s w0 w1 w2. New sample_libraries sample_config w0 = (Inr s, w1) \<and> reachable s sample_server_world w2
     \<and> w2 \<noteq> sample_server_world \<and> mem_inv (w_store w2)"
proof -
  from sample_New obtain s w1 where r: "New sample_libraries sample_config sample_server_world = (Inr s, w1)" by blast
  obtain x w2 where c: "Cleanup s sample_server_world = (x, w2)" by fastforce
  then have "w_ticks w2 = Suc (w_ticks sample_server_world)"
    by (auto simp: Cleanup_def andThen_def clock_read_def on_store_def zoom_def split: prod.splits)
  then have n: "w2 \<noteq> sample_server_world" by auto
  have p: "reachable s sample_server_world w2" using step_cleanup [OF c] by blast
  from server_invariant [OF r sample_config_memory p sample_server_inv] r p n show ?thesis by blast
qed

text \<open>
  C2: the management API is protected: a request that reaches one of its routes is answered with the error of the
  middleware, and then no table has changed, or it carried a bearer token that is stored, unexpired at that time, of an
  enabled client and of no user or one who may sign in, with the admin scope of the configuration.
\<close>

theorem management_protected:
  assumes "New lb cfg w0 = (Inr s, w1)" and "cf_Store cfg = Some (memory_ops ul)" and "cf_TokenGenerator cfg = None"
    and "(p, ApiEndpoint h) \<in> set (Handler s order)" and "mem_inv (w_store w)" and "h r w = (x, w')"
  shows "(\<exists>resp e. x = Inr resp \<and> p_Body resp = BearerErrorBody e) \<and> mem_view (w_store w') = mem_view (w_store w)
     \<or> (\<exists>scheme tok a. cut_at CHR '' '' (aq_Authorization r) = Some (scheme, tok) \<and> equal_fold scheme ''Bearer''
          \<and> valid_token (sv_opts (sr_OAuth s)) (mem_view (w_store w)) (truncate_ms (w_clock w (w_ticks w))) (trim_space tok) a
          \<and> (if cf_AdminScope cfg = '''' then ''identity.admin'' else cf_AdminScope cfg) \<in> set (at_Scopes a))"
proof -
  from New_memory [OF assms(1-3)] obtain cfg' sessions where
    s: "s = server_of lb (cfg'\<lparr>cf_TokenGenerator := None\<rparr>) (memory_ops ul) sessions"
    and scope: "cf_AdminScope cfg' = (if cf_AdminScope cfg = '''' then ''identity.admin'' else cf_AdminScope cfg)" by auto
  from Handler_api [OF assms(4)] obtain a ms verb pattern h0 where
    a: "sr_API s = Some (a, ms)" and h: "h = foldr (\<lambda>m. m) ms h0" by blast
  have "h = bearer_middleware (sv_opts (sr_OAuth s)) [cf_AdminScope cfg'] h0"
    using asm.server_api [OF a [unfolded s]] h unfolding s by (simp add: server_parts(6))
  with assms(6) have r: "bearer_middleware (sv_opts (sr_OAuth s)) [cf_AdminScope cfg'] h0 r w = (x, w')" by simp
  from asm.middleware_ok [OF r [unfolded s] assms(5), folded s] show ?thesis unfolding scope by blast
qed

text \<open>A request without a token is rejected by the sample server.\<close>

lemma sample_api_route:
  assumes "New sample_libraries sample_config w0 = (Inr s, w1)"
  shows "\<exists>p h. (p, ApiEndpoint h) \<in> set (Handler s [])"
proof -
  from New_ok [OF assms] obtain cfg' st sessions where s: "s = server_of sample_libraries cfg' st sessions"
    and d: "cf_DisableAPI cfg' = cf_DisableAPI sample_config" by blast
  have "\<not> cf_DisableAPI cfg'" by (simp add: d sample_config_def)
  then obtain a ms where api: "sr_API s = Some (a, ms)" by (simp add: s server_of_def Let_def)
  have "api_routes a [] \<noteq> []" unfolding api_routes_def by simp
  then obtain verb pattern h0 where "(verb, pattern, h0) \<in> set (api_routes a [])" by (cases "api_routes a []") auto
  then have "mux_entry (trim_suffix (cf_BasePath (sr_cfg s)) ''/'') ApiEndpoint (verb, ''/api'' @ pattern, foldr (\<lambda>m. m) ms h0)
      \<in> set (Handler s [])"
    unfolding Handler_routes api by (force simp: PathPrefix_def)
  then show ?thesis unfolding mux_entry_def prod.case by blast
qed

theorem management_protected_witness:
  "\<exists>s h x w'. New sample_libraries sample_config sample_server_world = (Inr s, w') \<and>
     (\<exists>p. (p, ApiEndpoint h) \<in> set (Handler s [])) \<and> fst (h (sample_api_request '''' '''') sample_server_world) = Inr x
     \<and> (\<exists>e. p_Body x = BearerErrorBody e)"
proof -
  from sample_New obtain s w1 where r: "New sample_libraries sample_config sample_server_world = (Inr s, w1)" by blast
  from sample_api_route [OF r] obtain p h where h: "(p, ApiEndpoint h) \<in> set (Handler s [])" by blast
  obtain x w' where x: "h (sample_api_request '''' '''') sample_server_world = (x, w')" by fastforce
  have "cut_at CHR '' '' (aq_Authorization (sample_api_request '''' '''')) = None" by (simp add: sample_api_request_def)
  with management_protected [OF r sample_config_memory h sample_server_inv x] have "\<exists>resp e. x = Inr resp \<and> p_Body resp = BearerErrorBody e"
    by auto
  with r h x show ?thesis by (metis fst_conv)
qed

section \<open>Provisioning\<close>

text \<open>
  C35: provisioning a client stores one validated client with the given client id: in the place of the client that had
  it, whose id, creation time and, without a new secret, secret hash it keeps, or as a new client under an unused id; a
  given secret is stored as its hash. Nothing else in the store changes.
\<close>

theorem EnsureClient_sound:
  assumes "New lb cfg w0 = (Inr s, w1)" and "cf_Store cfg = Some (memory_ops ul)" and "cf_TokenGenerator cfg = None"
    and "EnsureClient s c secret w = (Inr c', w')" and "mem_inv (w_store w)"
  shows "\<exists>h. client_Validate (lb_Lib lb) ((EnsureDefaults c)\<lparr>c_SecretHash := h\<rparr>) = None
     \<and> c' = (EnsureDefaults c)\<lparr>c_SecretHash := h, c_UpdatedAt := truncate_ms (w_clock w (w_ticks w)), c_Id := c_Id c', c_CreatedAt := c_CreatedAt c'\<rparr>
     \<and> (secret \<noteq> '''' \<longrightarrow> (\<exists>salt. h_Hash (sr_Hasher s) secret salt = Inr h))
     \<and> ((\<exists>e. tb_clients (mem_view (w_store w)) (c_Id e) = Some e \<and> c_ClientId e = c_ClientId c
            \<and> c_Id c' = c_Id e \<and> c_CreatedAt c' = c_CreatedAt e \<and> (secret = '''' \<longrightarrow> h = c_SecretHash e))
        \<or> (\<forall>e \<in> ran (tb_clients (mem_view (w_store w))). c_ClientId e \<noteq> c_ClientId c)
            \<and> c_Id c' \<notin> dom (tb_clients (mem_view (w_store w))) \<and> (c_Id c \<noteq> '''' \<longrightarrow> c_Id c' = c_Id c)
            \<and> c_CreatedAt c' = truncate_ms (w_clock w (w_ticks w)) \<and> (secret = '''' \<longrightarrow> h = c_SecretHash c))
     \<and> mem_view (w_store w') = tb_clients_update (\<lambda>m. m(c_Id c' \<mapsto> c')) (mem_view (w_store w))"
proof -
  from New_memory [OF assms(1-3)] obtain cfg' sessions where
    s: "s = server_of lb (cfg'\<lparr>cf_TokenGenerator := None\<rparr>) (memory_ops ul) sessions" by blast
  from asm.EnsureClient_ok [OF assms(4) [unfolded s] assms(5)] show ?thesis
    unfolding hashes_of_server(2) s by blast
qed

text \<open>Provisioning the confidential client of the sample store again keeps its id and its secret.\<close>

lemma sample_provision:
  assumes "sr_Store s = memory_ops (\<lambda>x. x)" and "sr_Lib s = lb_Lib sample_libraries"
  shows "\<exists>c w'. EnsureClient s (sample_confidential\<lparr>c_Id := '''', c_SecretHash := ''''\<rparr>) '''' sample_server_world = (Inr c, w')"
proof -
  let ?c = "EnsureDefaults (sample_confidential\<lparr>c_Id := '''', c_SecretHash := ''''\<rparr>)\<lparr>c_SecretHash := ''hsecret''\<rparr>"
  have v: "client_Validate (lb_Lib sample_libraries) ?c = None" by code_simp
  have ids: "c_ClientId sample_client = ''spa''" "c_ClientId sample_confidential = ''svc''" "c_Id sample_confidential = ''c-2''"
    "c_SecretHash sample_confidential = ''hsecret''"
    "c_ClientId (EnsureDefaults (sample_confidential\<lparr>c_Id := '''', c_SecretHash := ''''\<rparr>)) = ''svc''"
    by (simp_all add: sample_client_def sample_confidential_def EnsureDefaults_def)
  have cl: "m_clients (w_store sample_server_world) = [(''c-1'', sample_client), (''c-2'', sample_confidential)]"
    by (simp add: sample_server_world_def)
  show ?thesis
    by (simp add: EnsureClient_def andThen_def clock_now_def handle_def on_store_def zoom_def mem_GetClientByClientId_def range_find_def
        ids cl assms ret_def provisionedClient_def v store_call_def mapErr_def mem_UpdateClient_def clientIdTaken_def range_exists_def
        Let_def del: EnsureDefaults_def)
qed

theorem EnsureClient_sound_witness:
  "\<exists>s c w0 w'. New sample_libraries sample_config sample_server_world = (Inr s, w0)
     \<and> EnsureClient s (sample_confidential\<lparr>c_Id := '''', c_SecretHash := ''''\<rparr>) '''' sample_server_world = (Inr c, w')
     \<and> c_Id c = ''c-2'' \<and> c_SecretHash c = ''hsecret''"
proof -
  from sample_New obtain s w0 where r: "New sample_libraries sample_config sample_server_world = (Inr s, w0)" by blast
  from New_memory [OF r sample_config_memory] have st: "sr_Store s = memory_ops (\<lambda>x. x)" "sr_Lib s = lb_Lib sample_libraries"
    by (auto simp: server_of_def Let_def)
  from sample_provision [OF st] obtain c w' where
    e: "EnsureClient s (sample_confidential\<lparr>c_Id := '''', c_SecretHash := ''''\<rparr>) '''' sample_server_world = (Inr c, w')" by blast
  have x: "x = sample_confidential" if "x \<in> ran (tb_clients (mem_view (w_store sample_server_world)))"
    "c_ClientId x = c_ClientId (sample_confidential\<lparr>c_Id := '''', c_SecretHash := ''''\<rparr>)" for x
    using that by (auto simp: ran_def mem_view_def sample_server_world_def sample_confidential_def sample_client_def split: if_splits)
  have c2: "sample_confidential \<in> ran (tb_clients (mem_view (w_store sample_server_world)))"
    "c_Id sample_confidential = ''c-2''" "c_SecretHash sample_confidential = ''hsecret''"
    by (auto simp: ran_def mem_view_def sample_server_world_def sample_confidential_def split: if_splits)
  from EnsureClient_sound [OF r sample_config_memory e sample_server_inv] obtain h where
    h: "c = (EnsureDefaults (sample_confidential\<lparr>c_Id := '''', c_SecretHash := ''''\<rparr>))\<lparr>c_SecretHash := h,
        c_UpdatedAt := truncate_ms (w_clock sample_server_world (w_ticks sample_server_world)), c_Id := c_Id c, c_CreatedAt := c_CreatedAt c\<rparr>"
    and alt: "(\<exists>e. tb_clients (mem_view (w_store sample_server_world)) (c_Id e) = Some e
          \<and> c_ClientId e = c_ClientId (sample_confidential\<lparr>c_Id := '''', c_SecretHash := ''''\<rparr>)
          \<and> c_Id c = c_Id e \<and> h = c_SecretHash e)
      \<or> (\<forall>e \<in> ran (tb_clients (mem_view (w_store sample_server_world))).
          c_ClientId e \<noteq> c_ClientId (sample_confidential\<lparr>c_Id := '''', c_SecretHash := ''''\<rparr>))"
    by blast
  have id: "c_ClientId sample_confidential = c_ClientId (sample_confidential\<lparr>c_Id := '''', c_SecretHash := ''''\<rparr>)" by simp
  from alt have "c_Id c = ''c-2'' \<and> h = ''hsecret''"
  proof
    assume "\<exists>e. tb_clients (mem_view (w_store sample_server_world)) (c_Id e) = Some e
          \<and> c_ClientId e = c_ClientId (sample_confidential\<lparr>c_Id := '''', c_SecretHash := ''''\<rparr>)
          \<and> c_Id c = c_Id e \<and> h = c_SecretHash e"
    then obtain e where "tb_clients (mem_view (w_store sample_server_world)) (c_Id e) = Some e"
      "c_ClientId e = c_ClientId (sample_confidential\<lparr>c_Id := '''', c_SecretHash := ''''\<rparr>)" "c_Id c = c_Id e" "h = c_SecretHash e"
      by blast
    with x [OF ranI] c2 show ?thesis by metis
  qed (use c2(1) id in blast)
  moreover from h have "c_SecretHash c = h" by (metis client.select_convs(6) client.surjective client.update_convs(1,6,19,20))
  ultimately show ?thesis using r e by blast
qed

section \<open>Cleanup\<close>

text \<open>The tables without what has expired at a time.\<close>

definition unexpired :: "time \<Rightarrow> tables \<Rightarrow> tables" where
  "unexpired now T = T\<lparr>tb_accessTokens := keep (\<lambda>t. now < at_ExpiresAt t) (tb_accessTokens T),
     tb_refreshTokens := keep (\<lambda>t. now < rt_ExpiresAt t) (tb_refreshTokens T),
     tb_authorizationCodes := keep (\<lambda>c. now < ac_ExpiresAt c) (tb_authorizationCodes T),
     tb_userTokens := keep (\<lambda>t. now < ut_ExpiresAt t) (tb_userTokens T)\<rparr>"

lemma Cleanup_exact:
  assumes "sr_Store s = memory_ops ul" and "mem_inv (w_store w)"
  shows "\<exists>w'. Cleanup s w = (Inr (), w') \<and> mem_inv (w_store w') \<and> w_clock w' = w_clock w \<and> w_ticks w' = Suc (w_ticks w)
     \<and> mem_view (w_store w') = unexpired (w_clock w (w_ticks w)) (mem_view (w_store w))"
proof -
  from DeleteExpired_exact [OF assms(2), of ul "w_clock w (w_ticks w)"] obtain st' where
    "DeleteExpired (memory_ops ul) (w_clock w (w_ticks w)) (w_store w) = (Inr (), st')" "mem_inv st'"
    "mem_view st' = unexpired (w_clock w (w_ticks w)) (mem_view (w_store w))"
    unfolding unexpired_def by blast
  then show ?thesis by (simp add: Cleanup_def assms(1) andThen_def clock_read_def on_store_def zoom_def)
qed



end
