(* ===== verification/MongoStore.thy ===== *)
theory MongoStore
  imports StoreSpec
begin

text \<open>
  The store on MongoDB (\<open>src/store/mongo\<close>): the documents with their conversions, the filters, and all operations over
  the collections of the driver, which are a parameter. A struct tag is the name of the field in
  \<open>clientDocument_fields\<close> and its siblings, what the driver sends for a document. \<open>regexp.QuoteMeta\<close> and
  \<open>strings.ToLower\<close> are Go's; the Unicode part of the latter is the parameter \<open>ul\<close>.
\<close>

section \<open>Documents\<close>

text \<open>Values of BSON as far as the documents and filters use them. A datetime is the time it stands for.\<close>

datatype bson =
    BString string
  | BStrings "string list"
  | BBool bool
  | BInt int
  | BDate time
  | BNull
  | BArray "bson list"
  | BDoc "(string \<times> bson) list"

type_synonym bson_doc = "(string \<times> bson) list"

definition bson_time_ptr :: "time option \<Rightarrow> bson" where
  "bson_time_ptr t = (case t of None \<Rightarrow> BNull | Some v \<Rightarrow> BDate v)"

record clientDocument =
  cd_Id :: string
  cd_ClientId :: string
  cd_Name :: string
  cd_Description :: string
  cd_Type :: string
  cd_SecretHash :: string
  cd_RedirectUris :: "string list"
  cd_AllowedScopes :: "string list"
  cd_DefaultScopes :: "string list"
  cd_AllowedGrantTypes :: "string list"
  cd_RequireConsent :: bool
  cd_RequirePkce :: bool
  cd_Enabled :: bool
  cd_AccessTokenLifetime :: int
  cd_AuthorizationCodeLifetime :: int
  cd_RefreshTokenUsage :: string
  cd_RefreshTokenExpiration :: string
  cd_RefreshTokenLifetime :: int
  cd_CreatedAt :: time
  cd_UpdatedAt :: time

definition clientDocument_fields :: "clientDocument \<Rightarrow> bson_doc" where
  "clientDocument_fields d =
     [(''_id'', BString (cd_Id d)), (''client_id'', BString (cd_ClientId d)), (''name'', BString (cd_Name d)),
      (''description'', BString (cd_Description d)), (''type'', BString (cd_Type d)),
      (''secret_hash'', BString (cd_SecretHash d)), (''redirect_uris'', BStrings (cd_RedirectUris d)),
      (''allowed_scopes'', BStrings (cd_AllowedScopes d)), (''default_scopes'', BStrings (cd_DefaultScopes d)),
      (''allowed_grant_types'', BStrings (cd_AllowedGrantTypes d)),
      (''require_consent'', BBool (cd_RequireConsent d)), (''require_pkce'', BBool (cd_RequirePkce d)),
      (''enabled'', BBool (cd_Enabled d)), (''access_token_lifetime'', BInt (cd_AccessTokenLifetime d)),
      (''authorization_code_lifetime'', BInt (cd_AuthorizationCodeLifetime d)),
      (''refresh_token_usage'', BString (cd_RefreshTokenUsage d)),
      (''refresh_token_expiration'', BString (cd_RefreshTokenExpiration d)),
      (''refresh_token_lifetime'', BInt (cd_RefreshTokenLifetime d)), (''created_at'', BDate (cd_CreatedAt d)),
      (''updated_at'', BDate (cd_UpdatedAt d))]"

record userDocument =
  ud_Id :: string
  ud_Username :: string
  ud_NormalizedUsername :: string
  ud_Email :: string
  ud_NormalizedEmail :: string
  ud_PasswordHash :: string
  ud_EmailVerified :: bool
  ud_Enabled :: bool
  ud_SecurityStamp :: string
  ud_FailedLoginCount :: int
  ud_LockoutEnd :: "time option"
  ud_LastLoginAt :: "time option"
  ud_CreatedAt :: time
  ud_UpdatedAt :: time

definition userDocument_fields :: "userDocument \<Rightarrow> bson_doc" where
  "userDocument_fields d =
     [(''_id'', BString (ud_Id d)), (''username'', BString (ud_Username d)),
      (''normalized_username'', BString (ud_NormalizedUsername d)), (''email'', BString (ud_Email d)),
      (''normalized_email'', BString (ud_NormalizedEmail d)), (''password_hash'', BString (ud_PasswordHash d)),
      (''email_verified'', BBool (ud_EmailVerified d)), (''enabled'', BBool (ud_Enabled d)),
      (''security_stamp'', BString (ud_SecurityStamp d)), (''failed_login_count'', BInt (ud_FailedLoginCount d)),
      (''lockout_end'', bson_time_ptr (ud_LockoutEnd d)), (''last_login_at'', bson_time_ptr (ud_LastLoginAt d)),
      (''created_at'', BDate (ud_CreatedAt d)), (''updated_at'', BDate (ud_UpdatedAt d))]"

record accessTokenDocument =
  ad_Id :: string
  ad_TokenHash :: string
  ad_ClientId :: string
  ad_UserId :: string
  ad_Scopes :: "string list"
  ad_AuthorizationCodeId :: string
  ad_CreatedAt :: time
  ad_ExpiresAt :: time

definition accessTokenDocument_fields :: "accessTokenDocument \<Rightarrow> bson_doc" where
  "accessTokenDocument_fields d =
     [(''_id'', BString (ad_Id d)), (''token_hash'', BString (ad_TokenHash d)),
      (''client_id'', BString (ad_ClientId d)), (''user_id'', BString (ad_UserId d)),
      (''scopes'', BStrings (ad_Scopes d)), (''authorization_code_id'', BString (ad_AuthorizationCodeId d)),
      (''created_at'', BDate (ad_CreatedAt d)), (''expires_at'', BDate (ad_ExpiresAt d))]"

record refreshTokenDocument =
  rd_Id :: string
  rd_TokenHash :: string
  rd_ClientId :: string
  rd_UserId :: string
  rd_AccessTokenId :: string
  rd_AuthorizationCodeId :: string
  rd_Scopes :: "string list"
  rd_TokenExpiration :: string
  rd_TokenUsage :: string
  rd_Lifetime :: int
  rd_CreatedAt :: time
  rd_UpdatedAt :: time
  rd_ExpiresAt :: time

definition refreshTokenDocument_fields :: "refreshTokenDocument \<Rightarrow> bson_doc" where
  "refreshTokenDocument_fields d =
     [(''_id'', BString (rd_Id d)), (''token_hash'', BString (rd_TokenHash d)),
      (''client_id'', BString (rd_ClientId d)), (''user_id'', BString (rd_UserId d)),
      (''access_token_id'', BString (rd_AccessTokenId d)),
      (''authorization_code_id'', BString (rd_AuthorizationCodeId d)), (''scopes'', BStrings (rd_Scopes d)),
      (''token_expiration'', BString (rd_TokenExpiration d)), (''token_usage'', BString (rd_TokenUsage d)),
      (''lifetime'', BInt (rd_Lifetime d)), (''created_at'', BDate (rd_CreatedAt d)),
      (''updated_at'', BDate (rd_UpdatedAt d)), (''expires_at'', BDate (rd_ExpiresAt d))]"

record authorizationCodeDocument =
  kd_Id :: string
  kd_CodeHash :: string
  kd_ClientId :: string
  kd_UserId :: string
  kd_Scopes :: "string list"
  kd_RedirectUri :: string
  kd_CodeChallenge :: string
  kd_CodeChallengeMethod :: string
  kd_CreatedAt :: time
  kd_ExpiresAt :: time
  kd_ConsumedAt :: "time option"

definition authorizationCodeDocument_fields :: "authorizationCodeDocument \<Rightarrow> bson_doc" where
  "authorizationCodeDocument_fields d =
     [(''_id'', BString (kd_Id d)), (''code_hash'', BString (kd_CodeHash d)),
      (''client_id'', BString (kd_ClientId d)), (''user_id'', BString (kd_UserId d)),
      (''scopes'', BStrings (kd_Scopes d)), (''redirect_uri'', BString (kd_RedirectUri d)),
      (''code_challenge'', BString (kd_CodeChallenge d)),
      (''code_challenge_method'', BString (kd_CodeChallengeMethod d)), (''created_at'', BDate (kd_CreatedAt d)),
      (''expires_at'', BDate (kd_ExpiresAt d)), (''consumed_at'', bson_time_ptr (kd_ConsumedAt d))]"

record userTokenDocument =
  td_Id :: string
  td_UserId :: string
  td_Purpose :: string
  td_TokenHash :: string
  td_CreatedAt :: time
  td_ExpiresAt :: time

definition userTokenDocument_fields :: "userTokenDocument \<Rightarrow> bson_doc" where
  "userTokenDocument_fields d =
     [(''_id'', BString (td_Id d)), (''user_id'', BString (td_UserId d)), (''purpose'', BString (td_Purpose d)),
      (''token_hash'', BString (td_TokenHash d)), (''created_at'', BDate (td_CreatedAt d)),
      (''expires_at'', BDate (td_ExpiresAt d))]"

section \<open>Conversions\<close>

definition toDBTime :: "time \<Rightarrow> time" where
  "toDBTime t = truncate_ms t"

definition toDBTimePtr :: "time option \<Rightarrow> time option" where
  "toDBTimePtr t = (case t of None \<Rightarrow> None | Some v \<Rightarrow> Some (toDBTime v))"

definition fromDBTime :: "time \<Rightarrow> time" where
  "fromDBTime t = t"

definition fromDBTimePtr :: "time option \<Rightarrow> time option" where
  "fromDBTimePtr t = (case t of None \<Rightarrow> None | Some v \<Rightarrow> Some v)"

definition copyStrings :: "string list \<Rightarrow> string list" where
  "copyStrings s = [] @ s"

text \<open>The loops over the grant types; a grant type is its string.\<close>

definition grantTypesToStrings :: "string list \<Rightarrow> string list" where
  "grantTypesToStrings g = foldl (\<lambda>result v. result @ [v]) [] g"

definition stringsToGrantTypes :: "string list \<Rightarrow> string list" where
  "stringsToGrantTypes s = foldl (\<lambda>result v. result @ [v]) [] s"

definition clientToDocument :: "client \<Rightarrow> clientDocument" where
  "clientToDocument x =
     \<lparr>cd_Id = c_Id x, cd_ClientId = c_ClientId x, cd_Name = c_Name x, cd_Description = c_Description x,
      cd_Type = c_Type x, cd_SecretHash = c_SecretHash x, cd_RedirectUris = copyStrings (c_RedirectUris x),
      cd_AllowedScopes = copyStrings (c_AllowedScopes x), cd_DefaultScopes = copyStrings (c_DefaultScopes x),
      cd_AllowedGrantTypes = grantTypesToStrings (c_AllowedGrantTypes x), cd_RequireConsent = c_RequireConsent x,
      cd_RequirePkce = c_RequirePkce x, cd_Enabled = c_Enabled x, cd_AccessTokenLifetime = c_AccessTokenLifetime x,
      cd_AuthorizationCodeLifetime = c_AuthorizationCodeLifetime x, cd_RefreshTokenUsage = c_RefreshTokenUsage x,
      cd_RefreshTokenExpiration = c_RefreshTokenExpiration x, cd_RefreshTokenLifetime = c_RefreshTokenLifetime x,
      cd_CreatedAt = toDBTime (c_CreatedAt x), cd_UpdatedAt = toDBTime (c_UpdatedAt x)\<rparr>"

definition clientDocument_toModel :: "clientDocument \<Rightarrow> client" where
  "clientDocument_toModel d =
     \<lparr>c_Id = cd_Id d, c_ClientId = cd_ClientId d, c_Name = cd_Name d, c_Description = cd_Description d,
      c_Type = cd_Type d, c_SecretHash = cd_SecretHash d, c_RedirectUris = copyStrings (cd_RedirectUris d),
      c_AllowedScopes = copyStrings (cd_AllowedScopes d), c_DefaultScopes = copyStrings (cd_DefaultScopes d),
      c_AllowedGrantTypes = stringsToGrantTypes (cd_AllowedGrantTypes d), c_RequireConsent = cd_RequireConsent d,
      c_RequirePkce = cd_RequirePkce d, c_Enabled = cd_Enabled d, c_AccessTokenLifetime = cd_AccessTokenLifetime d,
      c_AuthorizationCodeLifetime = cd_AuthorizationCodeLifetime d, c_RefreshTokenUsage = cd_RefreshTokenUsage d,
      c_RefreshTokenExpiration = cd_RefreshTokenExpiration d, c_RefreshTokenLifetime = cd_RefreshTokenLifetime d,
      c_CreatedAt = fromDBTime (cd_CreatedAt d), c_UpdatedAt = fromDBTime (cd_UpdatedAt d)\<rparr>"

definition userToDocument :: "user \<Rightarrow> userDocument" where
  "userToDocument x =
     \<lparr>ud_Id = u_Id x, ud_Username = u_Username x, ud_NormalizedUsername = u_NormalizedUsername x,
      ud_Email = u_Email x, ud_NormalizedEmail = u_NormalizedEmail x, ud_PasswordHash = u_PasswordHash x,
      ud_EmailVerified = u_EmailVerified x, ud_Enabled = u_Enabled x, ud_SecurityStamp = u_SecurityStamp x,
      ud_FailedLoginCount = u_FailedLoginCount x, ud_LockoutEnd = toDBTimePtr (u_LockoutEnd x),
      ud_LastLoginAt = toDBTimePtr (u_LastLoginAt x), ud_CreatedAt = toDBTime (u_CreatedAt x),
      ud_UpdatedAt = toDBTime (u_UpdatedAt x)\<rparr>"

definition userDocument_toModel :: "userDocument \<Rightarrow> user" where
  "userDocument_toModel d =
     \<lparr>u_Id = ud_Id d, u_Username = ud_Username d, u_NormalizedUsername = ud_NormalizedUsername d,
      u_Email = ud_Email d, u_NormalizedEmail = ud_NormalizedEmail d, u_PasswordHash = ud_PasswordHash d,
      u_EmailVerified = ud_EmailVerified d, u_Enabled = ud_Enabled d, u_SecurityStamp = ud_SecurityStamp d,
      u_FailedLoginCount = ud_FailedLoginCount d, u_LockoutEnd = fromDBTimePtr (ud_LockoutEnd d),
      u_LastLoginAt = fromDBTimePtr (ud_LastLoginAt d), u_CreatedAt = fromDBTime (ud_CreatedAt d),
      u_UpdatedAt = fromDBTime (ud_UpdatedAt d)\<rparr>"

definition accessTokenToDocument :: "access_token \<Rightarrow> accessTokenDocument" where
  "accessTokenToDocument x =
     \<lparr>ad_Id = at_Id x, ad_TokenHash = at_TokenHash x, ad_ClientId = at_ClientId x, ad_UserId = at_UserId x,
      ad_Scopes = copyStrings (at_Scopes x), ad_AuthorizationCodeId = at_AuthorizationCodeId x,
      ad_CreatedAt = toDBTime (at_CreatedAt x), ad_ExpiresAt = toDBTime (at_ExpiresAt x)\<rparr>"

definition accessTokenDocument_toModel :: "accessTokenDocument \<Rightarrow> access_token" where
  "accessTokenDocument_toModel d =
     \<lparr>at_Id = ad_Id d, at_TokenHash = ad_TokenHash d, at_ClientId = ad_ClientId d, at_UserId = ad_UserId d,
      at_Scopes = copyStrings (ad_Scopes d), at_AuthorizationCodeId = ad_AuthorizationCodeId d,
      at_CreatedAt = fromDBTime (ad_CreatedAt d), at_ExpiresAt = fromDBTime (ad_ExpiresAt d)\<rparr>"

definition refreshTokenToDocument :: "refresh_token \<Rightarrow> refreshTokenDocument" where
  "refreshTokenToDocument x =
     \<lparr>rd_Id = rt_Id x, rd_TokenHash = rt_TokenHash x, rd_ClientId = rt_ClientId x, rd_UserId = rt_UserId x,
      rd_AccessTokenId = rt_AccessTokenId x, rd_AuthorizationCodeId = rt_AuthorizationCodeId x,
      rd_Scopes = copyStrings (rt_Scopes x), rd_TokenExpiration = rt_TokenExpiration x,
      rd_TokenUsage = rt_TokenUsage x, rd_Lifetime = rt_Lifetime x, rd_CreatedAt = toDBTime (rt_CreatedAt x),
      rd_UpdatedAt = toDBTime (rt_UpdatedAt x), rd_ExpiresAt = toDBTime (rt_ExpiresAt x)\<rparr>"

definition refreshTokenDocument_toModel :: "refreshTokenDocument \<Rightarrow> refresh_token" where
  "refreshTokenDocument_toModel d =
     \<lparr>rt_Id = rd_Id d, rt_TokenHash = rd_TokenHash d, rt_ClientId = rd_ClientId d, rt_UserId = rd_UserId d,
      rt_AccessTokenId = rd_AccessTokenId d, rt_AuthorizationCodeId = rd_AuthorizationCodeId d,
      rt_Scopes = copyStrings (rd_Scopes d), rt_TokenExpiration = rd_TokenExpiration d,
      rt_TokenUsage = rd_TokenUsage d, rt_Lifetime = rd_Lifetime d, rt_CreatedAt = fromDBTime (rd_CreatedAt d),
      rt_UpdatedAt = fromDBTime (rd_UpdatedAt d), rt_ExpiresAt = fromDBTime (rd_ExpiresAt d)\<rparr>"

definition authorizationCodeToDocument :: "authorization_code \<Rightarrow> authorizationCodeDocument" where
  "authorizationCodeToDocument x =
     \<lparr>kd_Id = ac_Id x, kd_CodeHash = ac_CodeHash x, kd_ClientId = ac_ClientId x, kd_UserId = ac_UserId x,
      kd_Scopes = copyStrings (ac_Scopes x), kd_RedirectUri = ac_RedirectUri x,
      kd_CodeChallenge = ac_CodeChallenge x, kd_CodeChallengeMethod = ac_CodeChallengeMethod x,
      kd_CreatedAt = toDBTime (ac_CreatedAt x), kd_ExpiresAt = toDBTime (ac_ExpiresAt x),
      kd_ConsumedAt = toDBTimePtr (ac_ConsumedAt x)\<rparr>"

definition authorizationCodeDocument_toModel :: "authorizationCodeDocument \<Rightarrow> authorization_code" where
  "authorizationCodeDocument_toModel d =
     \<lparr>ac_Id = kd_Id d, ac_CodeHash = kd_CodeHash d, ac_ClientId = kd_ClientId d, ac_UserId = kd_UserId d,
      ac_Scopes = copyStrings (kd_Scopes d), ac_RedirectUri = kd_RedirectUri d,
      ac_CodeChallenge = kd_CodeChallenge d, ac_CodeChallengeMethod = kd_CodeChallengeMethod d,
      ac_CreatedAt = fromDBTime (kd_CreatedAt d), ac_ExpiresAt = fromDBTime (kd_ExpiresAt d),
      ac_ConsumedAt = fromDBTimePtr (kd_ConsumedAt d)\<rparr>"

definition userTokenToDocument :: "user_token \<Rightarrow> userTokenDocument" where
  "userTokenToDocument x =
     \<lparr>td_Id = ut_Id x, td_UserId = ut_UserId x, td_Purpose = ut_Purpose x, td_TokenHash = ut_TokenHash x,
      td_CreatedAt = toDBTime (ut_CreatedAt x), td_ExpiresAt = toDBTime (ut_ExpiresAt x)\<rparr>"

definition userTokenDocument_toModel :: "userTokenDocument \<Rightarrow> user_token" where
  "userTokenDocument_toModel d =
     \<lparr>ut_Id = td_Id d, ut_UserId = td_UserId d, ut_Purpose = td_Purpose d, ut_TokenHash = td_TokenHash d,
      ut_CreatedAt = fromDBTime (td_CreatedAt d), ut_ExpiresAt = fromDBTime (td_ExpiresAt d)\<rparr>"

section \<open>The driver\<close>

text \<open>
  A collection of the driver on a database of type \<open>'d\<close>: \<open>FindOne\<close> with \<open>Decode\<close>, \<open>CountDocuments\<close> with an optional
  limit, \<open>Find\<close> with sort, skip and limit and \<open>All\<close>, and the operations that write. \<open>ReplaceOne\<close> and \<open>UpdateOne\<close> return
  \<open>MatchedCount\<close>, the deletions \<open>DeletedCount\<close>.
\<close>

datatype mongo_error = NoDocuments | DuplicateKey | MongoFailure string

record ('d, 'doc) collection =
  coll_FindOne :: "bson_doc \<Rightarrow> ('d, mongo_error, 'doc) act"
  coll_CountDocuments :: "bson_doc \<Rightarrow> nat option \<Rightarrow> ('d, mongo_error, nat) act"
  coll_Find :: "bson_doc \<Rightarrow> (string \<times> int) list \<Rightarrow> int \<Rightarrow> int \<Rightarrow> ('d, mongo_error, 'doc list) act"
  coll_InsertOne :: "'doc \<Rightarrow> ('d, mongo_error, unit) act"
  coll_ReplaceOne :: "bson_doc \<Rightarrow> 'doc \<Rightarrow> ('d, mongo_error, nat) act"
  coll_UpdateOne :: "bson_doc \<Rightarrow> bson_doc \<Rightarrow> ('d, mongo_error, nat) act"
  coll_DeleteOne :: "bson_doc \<Rightarrow> ('d, mongo_error, nat) act"
  coll_DeleteMany :: "bson_doc \<Rightarrow> ('d, mongo_error, nat) act"

definition wrapErr :: "string \<Rightarrow> mongo_error \<Rightarrow> store_error" where
  "wrapErr op e =
     (case e of DuplicateKey \<Rightarrow> ErrDuplicate
      | NoDocuments \<Rightarrow> StoreFailure (''mongostore: '' @ op @ '': mongo: no documents in result'')
      | MongoFailure msg \<Rightarrow> StoreFailure (''mongostore: '' @ op @ '': '' @ msg))"

definition findOne :: "('d, 'doc) collection \<Rightarrow> bson_doc \<Rightarrow> string \<Rightarrow> ('d, store_error, 'doc) act" where
  "findOne coll f op =
     handle (coll_FindOne coll f) (\<lambda>e. if e = NoDocuments then fail ErrNotFound else fail (wrapErr op e)) ret"

definition findPage :: "('d, 'doc) collection \<Rightarrow> bson_doc \<Rightarrow> ListOptions \<Rightarrow> string \<Rightarrow> ('d, store_error, 'doc list \<times> nat) act" where
  "findPage coll f opts0 op =
     (let opts = ListOptions_Normalize opts0
      in andThen (mapErr (wrapErr op) (coll_CountDocuments coll f None)) (\<lambda>total.
         andThen (mapErr (wrapErr op)
           (coll_Find coll f [(''created_at'', 1), (''_id'', 1)] (lo_Offset opts) (lo_Limit opts))) (\<lambda>docs.
         ret (docs, total))))"

definition mongo_insert :: "('d, 'doc) collection \<Rightarrow> 'doc \<Rightarrow> string \<Rightarrow> ('d, store_error, unit) act" where
  "mongo_insert coll doc op = mapErr (wrapErr op) (coll_InsertOne coll doc)"

definition mongo_replace :: "('d, 'doc) collection \<Rightarrow> string \<Rightarrow> 'doc \<Rightarrow> string \<Rightarrow> ('d, store_error, unit) act" where
  "mongo_replace coll k doc op =
     andThen (mapErr (wrapErr op) (coll_ReplaceOne coll [(''_id'', BString k)] doc)) (\<lambda>matched.
     if matched = 0 then fail ErrNotFound else ret ())"

definition deleteById :: "('d, 'doc) collection \<Rightarrow> string \<Rightarrow> string \<Rightarrow> ('d, store_error, unit) act" where
  "deleteById coll k op =
     andThen (mapErr (wrapErr op) (coll_DeleteOne coll [(''_id'', BString k)])) (\<lambda>deleted.
     if deleted = 0 then fail ErrNotFound else ret ())"

definition deleteMany :: "('d, 'doc) collection \<Rightarrow> bson_doc \<Rightarrow> string \<Rightarrow> ('d, store_error, nat) act" where
  "deleteMany coll f op = mapErr (wrapErr op) (coll_DeleteMany coll f)"

definition toModels :: "'doc list \<Rightarrow> ('doc \<Rightarrow> 'v) \<Rightarrow> 'v list" where
  "toModels docs convert = foldl (\<lambda>result d. result @ [convert d]) [] docs"

section \<open>Filters\<close>

definition mongo_tokenFilter :: "TokenFilter \<Rightarrow> bson_doc" where
  "mongo_tokenFilter f =
     (let f0 = [];
          f1 = (if tf_ClientId f \<noteq> '''' then f0 @ [(''client_id'', BString (tf_ClientId f))] else f0);
          f2 = (if tf_UserId f \<noteq> '''' then f1 @ [(''user_id'', BString (tf_UserId f))] else f1);
          f3 = (if tf_AuthorizationCodeId f \<noteq> ''''
                then f2 @ [(''authorization_code_id'', BString (tf_AuthorizationCodeId f))] else f2)
      in case tf_ExpiredBefore f of None \<Rightarrow> f3
         | Some t \<Rightarrow> f3 @ [(''expires_at'', BDoc [(''$lte'', BDate (toDBTime t))])])"

text \<open>\<open>regexp.QuoteMeta\<close>: a backslash before each of \<open>\.+*?()|[]{}^$\<close>.\<close>

definition regexp_special :: "char \<Rightarrow> bool" where
  "regexp_special c \<longleftrightarrow> c \<in> set (CHR 0x5C # ''.+*?()|[]{}^$'')"

definition QuoteMeta :: "string \<Rightarrow> string" where
  "QuoteMeta s = concat (map (\<lambda>c. if regexp_special c then [CHR 0x5C, c] else [c]) s)"

definition mongo_userFilter :: "(string \<Rightarrow> string) \<Rightarrow> UserFilter \<Rightarrow> bson_doc" where
  "mongo_userFilter ul f =
     (if uf_Search f = '''' then []
      else let pattern = QuoteMeta (to_lower ul (uf_Search f))
           in [(''$or'', BArray [BDoc [(''normalized_username'', BDoc [(''$regex'', BString pattern)])],
                               BDoc [(''normalized_email'', BDoc [(''$regex'', BString pattern)])]])])"

section \<open>The store\<close>

record 'd mongo_Store =
  mg_clients :: "('d, clientDocument) collection"
  mg_users :: "('d, userDocument) collection"
  mg_accessTokens :: "('d, accessTokenDocument) collection"
  mg_refreshTokens :: "('d, refreshTokenDocument) collection"
  mg_authorizationCodes :: "('d, authorizationCodeDocument) collection"
  mg_userTokens :: "('d, userTokenDocument) collection"

text \<open>
  The indexes \<open>EnsureIndexes\<close> creates: per collection the name of the index, whether it is unique, and its fields.
\<close>

definition mongo_tokenIndexes :: "(string \<times> bool \<times> string list) list" where
  "mongo_tokenIndexes =
     [(''token_hash_unique'', True, [''token_hash'']), (''client_id'', False, [''client_id'']),
      (''user_id'', False, [''user_id'']), (''authorization_code_id'', False, [''authorization_code_id'']),
      (''expires_at'', False, [''expires_at'']), (''created_at_id'', False, [''created_at'', ''_id''])]"

definition mongo_indexes :: "(string \<times> (string \<times> bool \<times> string list) list) list" where
  "mongo_indexes =
     [(''clients'', [(''client_id_unique'', True, [''client_id'']), (''created_at_id'', False, [''created_at'', ''_id''])]),
      (''users'', [(''normalized_username_unique'', True, [''normalized_username'']),
         (''normalized_email_unique'', True, [''normalized_email'']), (''created_at_id'', False, [''created_at'', ''_id''])]),
      (''access_tokens'', mongo_tokenIndexes),
      (''refresh_tokens'', mongo_tokenIndexes),
      (''authorization_codes'', [(''code_hash_unique'', True, [''code_hash'']), (''expires_at'', False, [''expires_at''])]),
      (''user_tokens'', [(''token_hash_unique'', True, [''token_hash'']), (''user_id_purpose'', False, [''user_id'', ''purpose'']),
         (''expires_at'', False, [''expires_at''])])]"

definition EnsureIndexes ::
  "(string \<Rightarrow> (string \<times> bool \<times> string list) list \<Rightarrow> ('d, string, unit) act) \<Rightarrow> string \<Rightarrow> ('d, string, unit) act" where
  "EnsureIndexes createMany prefix0 =
     foldr (\<lambda>(name, indexes) rest.
        andThen (mapErr (\<lambda>e. ''mongostore: create indexes on '' @ prefix0 @ name @ '': '' @ e) (createMany (prefix0 @ name) indexes))
          (\<lambda>_. rest)) mongo_indexes (ret ())"

text \<open>\<open>New\<close>: \<open>coll\<close> gives the collection with a name for each of the six document types.\<close>

definition mongo_prefix :: "string \<Rightarrow> string" where
  "mongo_prefix opt = (if opt = '''' then ''identity_'' else opt)"

section \<open>Clients\<close>

definition mongo_ListClients :: "'d mongo_Store \<Rightarrow> ListOptions \<Rightarrow> ('d, store_error, client list \<times> nat) act" where
  "mongo_ListClients st opts =
     andThen (findPage (mg_clients st) [] opts ''list clients'') (\<lambda>(docs, total). ret (toModels docs clientDocument_toModel, total))"

definition mongo_GetClientById :: "'d mongo_Store \<Rightarrow> string \<Rightarrow> ('d, store_error, client) act" where
  "mongo_GetClientById st k =
     andThen (findOne (mg_clients st) [(''_id'', BString k)] ''get client'') (\<lambda>doc. ret (clientDocument_toModel doc))"

definition mongo_GetClientByClientId :: "'d mongo_Store \<Rightarrow> string \<Rightarrow> ('d, store_error, client) act" where
  "mongo_GetClientByClientId st clientId =
     andThen (findOne (mg_clients st) [(''client_id'', BString clientId)] ''get client by client id'') (\<lambda>doc. ret (clientDocument_toModel doc))"

definition mongo_CreateClient :: "'d mongo_Store \<Rightarrow> client \<Rightarrow> ('d, store_error, unit) act" where
  "mongo_CreateClient st x =
     mongo_insert (mg_clients st) (clientToDocument x) ''create client''"

definition mongo_UpdateClient :: "'d mongo_Store \<Rightarrow> client \<Rightarrow> ('d, store_error, unit) act" where
  "mongo_UpdateClient st x =
     mongo_replace (mg_clients st) (c_Id x) (clientToDocument x) ''update client''"

definition mongo_DeleteClient :: "'d mongo_Store \<Rightarrow> string \<Rightarrow> ('d, store_error, unit) act" where
  "mongo_DeleteClient st k =
     deleteById (mg_clients st) k ''delete client''"

section \<open>Users\<close>

definition mongo_ListUsers :: "'d mongo_Store \<Rightarrow> (string \<Rightarrow> string) \<Rightarrow> UserFilter \<Rightarrow> ListOptions \<Rightarrow> ('d, store_error, user list \<times> nat) act" where
  "mongo_ListUsers st ul f opts =
     andThen (findPage (mg_users st) (mongo_userFilter ul f) opts ''list users'') (\<lambda>(docs, total). ret (toModels docs userDocument_toModel, total))"

definition mongo_GetUserById :: "'d mongo_Store \<Rightarrow> string \<Rightarrow> ('d, store_error, user) act" where
  "mongo_GetUserById st k =
     andThen (findOne (mg_users st) [(''_id'', BString k)] ''get user'') (\<lambda>doc. ret (userDocument_toModel doc))"

definition mongo_GetUserByNormalizedUsername :: "'d mongo_Store \<Rightarrow> string \<Rightarrow> ('d, store_error, user) act" where
  "mongo_GetUserByNormalizedUsername st n =
     andThen (findOne (mg_users st) [(''normalized_username'', BString n)] ''get user by username'') (\<lambda>doc. ret (userDocument_toModel doc))"

definition mongo_GetUserByNormalizedEmail :: "'d mongo_Store \<Rightarrow> string \<Rightarrow> ('d, store_error, user) act" where
  "mongo_GetUserByNormalizedEmail st n =
     andThen (findOne (mg_users st) [(''normalized_email'', BString n)] ''get user by email'') (\<lambda>doc. ret (userDocument_toModel doc))"

definition mongo_CreateUser :: "'d mongo_Store \<Rightarrow> user \<Rightarrow> ('d, store_error, unit) act" where
  "mongo_CreateUser st x =
     mongo_insert (mg_users st) (userToDocument x) ''create user''"

definition mongo_UpdateUser :: "'d mongo_Store \<Rightarrow> user \<Rightarrow> ('d, store_error, unit) act" where
  "mongo_UpdateUser st x =
     mongo_replace (mg_users st) (u_Id x) (userToDocument x) ''update user''"

definition mongo_DeleteUser :: "'d mongo_Store \<Rightarrow> string \<Rightarrow> ('d, store_error, unit) act" where
  "mongo_DeleteUser st k =
     deleteById (mg_users st) k ''delete user''"

section \<open>Access tokens\<close>

definition mongo_ListAccessTokens :: "'d mongo_Store \<Rightarrow> TokenFilter \<Rightarrow> ListOptions \<Rightarrow> ('d, store_error, access_token list \<times> nat) act" where
  "mongo_ListAccessTokens st f opts =
     andThen (findPage (mg_accessTokens st) (mongo_tokenFilter f) opts ''list access tokens'') (\<lambda>(docs, total). ret (toModels docs accessTokenDocument_toModel, total))"

definition mongo_GetAccessTokenById :: "'d mongo_Store \<Rightarrow> string \<Rightarrow> ('d, store_error, access_token) act" where
  "mongo_GetAccessTokenById st k =
     andThen (findOne (mg_accessTokens st) [(''_id'', BString k)] ''get access token'') (\<lambda>doc. ret (accessTokenDocument_toModel doc))"

definition mongo_GetAccessTokenByHash :: "'d mongo_Store \<Rightarrow> string \<Rightarrow> ('d, store_error, access_token) act" where
  "mongo_GetAccessTokenByHash st h =
     andThen (findOne (mg_accessTokens st) [(''token_hash'', BString h)] ''get access token by hash'') (\<lambda>doc. ret (accessTokenDocument_toModel doc))"

definition mongo_CreateAccessToken :: "'d mongo_Store \<Rightarrow> access_token \<Rightarrow> ('d, store_error, unit) act" where
  "mongo_CreateAccessToken st x =
     mongo_insert (mg_accessTokens st) (accessTokenToDocument x) ''create access token''"

definition mongo_DeleteAccessToken :: "'d mongo_Store \<Rightarrow> string \<Rightarrow> ('d, store_error, unit) act" where
  "mongo_DeleteAccessToken st k =
     deleteById (mg_accessTokens st) k ''delete access token''"

definition mongo_DeleteAccessTokens :: "'d mongo_Store \<Rightarrow> TokenFilter \<Rightarrow> ('d, store_error, nat) act" where
  "mongo_DeleteAccessTokens st f =
     deleteMany (mg_accessTokens st) (mongo_tokenFilter f) ''delete access tokens''"

section \<open>Refresh tokens\<close>

definition mongo_ListRefreshTokens :: "'d mongo_Store \<Rightarrow> TokenFilter \<Rightarrow> ListOptions \<Rightarrow> ('d, store_error, refresh_token list \<times> nat) act" where
  "mongo_ListRefreshTokens st f opts =
     andThen (findPage (mg_refreshTokens st) (mongo_tokenFilter f) opts ''list refresh tokens'') (\<lambda>(docs, total). ret (toModels docs refreshTokenDocument_toModel, total))"

definition mongo_GetRefreshTokenById :: "'d mongo_Store \<Rightarrow> string \<Rightarrow> ('d, store_error, refresh_token) act" where
  "mongo_GetRefreshTokenById st k =
     andThen (findOne (mg_refreshTokens st) [(''_id'', BString k)] ''get refresh token'') (\<lambda>doc. ret (refreshTokenDocument_toModel doc))"

definition mongo_GetRefreshTokenByHash :: "'d mongo_Store \<Rightarrow> string \<Rightarrow> ('d, store_error, refresh_token) act" where
  "mongo_GetRefreshTokenByHash st h =
     andThen (findOne (mg_refreshTokens st) [(''token_hash'', BString h)] ''get refresh token by hash'') (\<lambda>doc. ret (refreshTokenDocument_toModel doc))"

definition mongo_CreateRefreshToken :: "'d mongo_Store \<Rightarrow> refresh_token \<Rightarrow> ('d, store_error, unit) act" where
  "mongo_CreateRefreshToken st x =
     mongo_insert (mg_refreshTokens st) (refreshTokenToDocument x) ''create refresh token''"

definition mongo_UpdateRefreshToken :: "'d mongo_Store \<Rightarrow> refresh_token \<Rightarrow> ('d, store_error, unit) act" where
  "mongo_UpdateRefreshToken st x =
     mongo_replace (mg_refreshTokens st) (rt_Id x) (refreshTokenToDocument x) ''update refresh token''"

definition mongo_DeleteRefreshToken :: "'d mongo_Store \<Rightarrow> string \<Rightarrow> ('d, store_error, unit) act" where
  "mongo_DeleteRefreshToken st k =
     deleteById (mg_refreshTokens st) k ''delete refresh token''"

definition mongo_DeleteRefreshTokens :: "'d mongo_Store \<Rightarrow> TokenFilter \<Rightarrow> ('d, store_error, nat) act" where
  "mongo_DeleteRefreshTokens st f =
     deleteMany (mg_refreshTokens st) (mongo_tokenFilter f) ''delete refresh tokens''"

section \<open>Authorization codes\<close>

definition mongo_GetAuthorizationCodeByHash :: "'d mongo_Store \<Rightarrow> string \<Rightarrow> ('d, store_error, authorization_code) act" where
  "mongo_GetAuthorizationCodeByHash st h =
     andThen (findOne (mg_authorizationCodes st) [(''code_hash'', BString h)] ''get authorization code'') (\<lambda>doc. ret (authorizationCodeDocument_toModel doc))"

definition mongo_CreateAuthorizationCode :: "'d mongo_Store \<Rightarrow> authorization_code \<Rightarrow> ('d, store_error, unit) act" where
  "mongo_CreateAuthorizationCode st x =
     mongo_insert (mg_authorizationCodes st) (authorizationCodeToDocument x) ''create authorization code''"

definition mongo_ConsumeAuthorizationCode :: "'d mongo_Store \<Rightarrow> string \<Rightarrow> time \<Rightarrow> ('d, store_error, unit) act" where
  "mongo_ConsumeAuthorizationCode st k consumedAt =
     andThen (mapErr (wrapErr ''consume authorization code'') (coll_UpdateOne (mg_authorizationCodes st)
       [(''_id'', BString k), (''consumed_at'', BNull)]
       [(''$set'', BDoc [(''consumed_at'', BDate (toDBTime consumedAt))])])) (\<lambda>matched.
     if 0 < matched then ret ()
     else andThen (mapErr (wrapErr ''consume authorization code'')
            (coll_CountDocuments (mg_authorizationCodes st) [(''_id'', BString k)] (Some 1))) (\<lambda>n.
          if n = 0 then fail ErrNotFound else fail ErrConflict))"

definition mongo_DeleteAuthorizationCode :: "'d mongo_Store \<Rightarrow> string \<Rightarrow> ('d, store_error, unit) act" where
  "mongo_DeleteAuthorizationCode st k =
     deleteById (mg_authorizationCodes st) k ''delete authorization code''"

definition mongo_DeleteExpiredAuthorizationCodes :: "'d mongo_Store \<Rightarrow> time \<Rightarrow> ('d, store_error, nat) act" where
  "mongo_DeleteExpiredAuthorizationCodes st before =
     deleteMany (mg_authorizationCodes st) [(''expires_at'', BDoc [(''$lte'', BDate (toDBTime before))])] ''delete expired authorization codes''"

section \<open>User tokens\<close>

definition mongo_GetUserTokenByHash :: "'d mongo_Store \<Rightarrow> string \<Rightarrow> string \<Rightarrow> ('d, store_error, user_token) act" where
  "mongo_GetUserTokenByHash st purpose h =
     andThen (findOne (mg_userTokens st) [(''purpose'', BString purpose), (''token_hash'', BString h)] ''get user token'') (\<lambda>doc. ret (userTokenDocument_toModel doc))"

definition mongo_CreateUserToken :: "'d mongo_Store \<Rightarrow> user_token \<Rightarrow> ('d, store_error, unit) act" where
  "mongo_CreateUserToken st x =
     mongo_insert (mg_userTokens st) (userTokenToDocument x) ''create user token''"

definition mongo_DeleteUserToken :: "'d mongo_Store \<Rightarrow> string \<Rightarrow> ('d, store_error, unit) act" where
  "mongo_DeleteUserToken st k =
     deleteById (mg_userTokens st) k ''delete user token''"

definition mongo_DeleteUserTokens :: "'d mongo_Store \<Rightarrow> string \<Rightarrow> string \<Rightarrow> ('d, store_error, nat) act" where
  "mongo_DeleteUserTokens st userId purpose =
     deleteMany (mg_userTokens st) [(''user_id'', BString userId), (''purpose'', BString purpose)] ''delete user tokens''"

definition mongo_DeleteExpiredUserTokens :: "'d mongo_Store \<Rightarrow> time \<Rightarrow> ('d, store_error, nat) act" where
  "mongo_DeleteExpiredUserTokens st before =
     deleteMany (mg_userTokens st) [(''expires_at'', BDoc [(''$lte'', BDate (toDBTime before))])] ''delete expired user tokens''"

text \<open>The implementation of the interface.\<close>

definition mongo_ops :: "(string \<Rightarrow> string) \<Rightarrow> 'd mongo_Store \<Rightarrow> 'd store_ops" where
  "mongo_ops ul st =
     \<lparr>ListClients = mongo_ListClients st, GetClientById = mongo_GetClientById st,
      GetClientByClientId = mongo_GetClientByClientId st, CreateClient = mongo_CreateClient st,
      UpdateClient = mongo_UpdateClient st, DeleteClient = mongo_DeleteClient st, ListUsers = mongo_ListUsers st ul,
      GetUserById = mongo_GetUserById st, GetUserByNormalizedUsername = mongo_GetUserByNormalizedUsername st,
      GetUserByNormalizedEmail = mongo_GetUserByNormalizedEmail st, CreateUser = mongo_CreateUser st,
      UpdateUser = mongo_UpdateUser st, DeleteUser = mongo_DeleteUser st,
      ListAccessTokens = mongo_ListAccessTokens st, GetAccessTokenById = mongo_GetAccessTokenById st,
      GetAccessTokenByHash = mongo_GetAccessTokenByHash st, CreateAccessToken = mongo_CreateAccessToken st,
      DeleteAccessToken = mongo_DeleteAccessToken st, DeleteAccessTokens = mongo_DeleteAccessTokens st,
      ListRefreshTokens = mongo_ListRefreshTokens st, GetRefreshTokenById = mongo_GetRefreshTokenById st,
      GetRefreshTokenByHash = mongo_GetRefreshTokenByHash st, CreateRefreshToken = mongo_CreateRefreshToken st,
      UpdateRefreshToken = mongo_UpdateRefreshToken st, DeleteRefreshToken = mongo_DeleteRefreshToken st,
      DeleteRefreshTokens = mongo_DeleteRefreshTokens st,
      GetAuthorizationCodeByHash = mongo_GetAuthorizationCodeByHash st,
      CreateAuthorizationCode = mongo_CreateAuthorizationCode st,
      ConsumeAuthorizationCode = mongo_ConsumeAuthorizationCode st,
      DeleteAuthorizationCode = mongo_DeleteAuthorizationCode st,
      DeleteExpiredAuthorizationCodes = mongo_DeleteExpiredAuthorizationCodes st,
      GetUserTokenByHash = mongo_GetUserTokenByHash st, CreateUserToken = mongo_CreateUserToken st,
      DeleteUserToken = mongo_DeleteUserToken st, DeleteUserTokens = mongo_DeleteUserTokens st,
      DeleteExpiredUserTokens = mongo_DeleteExpiredUserTokens st\<rparr>"

end
