(* ===== verification/MongoSpec.thy ===== *)
theory MongoSpec
  imports MongoStore
begin

text \<open>
  What the MongoDB store needs of the database, and what it then owes its callers. The locale \<open>mongo_collection\<close>
  states the documented behaviour of the driver's operations on one collection, for the filters the store uses; the
  locale \<open>mongo_table\<close> adds the conversion to the entities and proves the contract of \<open>StoreSpec\<close> for the generic
  helpers of the store.
\<close>

section \<open>The query language\<close>

text \<open>A condition on the value of a field, \<^const>\<open>None\<close> for a missing field; \<open>rx\<close> matches regular expressions.\<close>

fun cond_matches :: "(string \<Rightarrow> string \<Rightarrow> bool) \<Rightarrow> bson option \<Rightarrow> bson \<Rightarrow> bool" where
  "cond_matches rx v (BDoc [(op, arg)]) =
     (if op = ''$lte'' then (case (v, arg) of (Some (BDate u), BDate t) \<Rightarrow> u \<le> t | _ \<Rightarrow> False)
      else if op = ''$regex'' then (case (v, arg) of (Some (BString s), BString p) \<Rightarrow> rx p s | _ \<Rightarrow> False)
      else v = Some (BDoc [(op, arg)]))"
| "cond_matches rx v BNull = (v = None \<or> v = Some BNull)"
| "cond_matches rx v w = (v = Some w)"

definition doc_matches :: "(string \<Rightarrow> string \<Rightarrow> bool) \<Rightarrow> bson_doc \<Rightarrow> bson_doc \<Rightarrow> bool" where
  "doc_matches rx f d = list_all (\<lambda>(k, w). cond_matches rx (map_of d k) w) f"

definition bson_matches :: "(string \<Rightarrow> string \<Rightarrow> bool) \<Rightarrow> bson_doc \<Rightarrow> bson_doc \<Rightarrow> bool" where
  "bson_matches rx f d =
     list_all (\<lambda>(k, w). case (k = ''$or'', w) of
         (True, BArray alternatives) \<Rightarrow> list_ex (\<lambda>a. case a of BDoc g \<Rightarrow> doc_matches rx g d | _ \<Rightarrow> False) alternatives
       | _ \<Rightarrow> cond_matches rx (map_of d k) w) f"

text \<open>The filters whose meaning this is: values, one of the two operators, and alternatives of such filters.\<close>

definition plain_cond :: "bson \<Rightarrow> bool" where
  "plain_cond w =
     (case w of BDoc [(op, BDate t)] \<Rightarrow> op = ''$lte'' | BDoc [(op, BString p)] \<Rightarrow> op = ''$regex''
      | BString s \<Rightarrow> True | BNull \<Rightarrow> True | _ \<Rightarrow> False)"

definition plain_filter :: "bson_doc \<Rightarrow> bool" where
  "plain_filter f =
     list_all (\<lambda>(k, w). if k = ''$or''
       then (case w of BArray as \<Rightarrow> as \<noteq> [] \<and> list_all (\<lambda>a. case a of BDoc g \<Rightarrow> list_all (\<lambda>(k', w'). plain_cond w') g | _ \<Rightarrow> False) as
             | _ \<Rightarrow> False)
       else plain_cond w) f"

definition set_fields :: "bson_doc \<Rightarrow> bson_doc \<Rightarrow> bson_doc" where
  "set_fields changes d = map (\<lambda>(k, v). (k, case map_of changes k of None \<Rightarrow> v | Some w \<Rightarrow> w)) d"

definition doc_date :: "bson_doc \<Rightarrow> time" where
  "doc_date d = (case map_of d ''created_at'' of Some (BDate t) \<Rightarrow> t | _ \<Rightarrow> 0)"

definition doc_id :: "bson_doc \<Rightarrow> string" where
  "doc_id d = (case map_of d ''_id'' of Some (BString k) \<Rightarrow> k | _ \<Rightarrow> '''')"

lemma matches_id: "map_of d ''_id'' = Some (BString i) \<Longrightarrow> bson_matches rx [(''_id'', BString k)] d \<longleftrightarrow> i = k"
  by (simp add: bson_matches_def)

lemma matches_all [simp]: "bson_matches rx [] d"
  by (simp add: bson_matches_def)

lemma to_lower_Nil [simp]: "to_lower ul '''' = (''''::string)"
  by (simp add: to_lower_def is_ascii_def)

section \<open>A collection\<close>

text \<open>
  The six collections of a database, each by the id of its documents. \<open>data\<close> reads them from the state of the database.
\<close>

record mongo_data =
  md_clients :: "string \<rightharpoonup> clientDocument"
  md_users :: "string \<rightharpoonup> userDocument"
  md_accessTokens :: "string \<rightharpoonup> accessTokenDocument"
  md_refreshTokens :: "string \<rightharpoonup> refreshTokenDocument"
  md_authorizationCodes :: "string \<rightharpoonup> authorizationCodeDocument"
  md_userTokens :: "string \<rightharpoonup> userTokenDocument"

text \<open>
  The unique indexes are \<open>uniq\<close>. A document that is stored has a non-empty id, and its datetimes have the precision of a
  BSON datetime. Writes with a duplicate key, and operations that fail, change nothing.
\<close>

definition clash_on :: "('doc \<Rightarrow> bson_doc) \<Rightarrow> string list \<Rightarrow> 'doc \<Rightarrow> 'doc \<Rightarrow> bool" where
  "clash_on bson_of uniq x y \<longleftrightarrow> list_ex (\<lambda>f. map_of (bson_of y) f = map_of (bson_of x) f) uniq"

locale mongo_collection =
  fixes coll :: "('d, 'doc) collection"
    and I :: "'d \<Rightarrow> bool"
    and data :: "'d \<Rightarrow> mongo_data"
    and get :: "mongo_data \<Rightarrow> string \<rightharpoonup> 'doc"
    and upd :: "((string \<rightharpoonup> 'doc) \<Rightarrow> (string \<rightharpoonup> 'doc)) \<Rightarrow> mongo_data \<Rightarrow> mongo_data"
    and bson_of :: "'doc \<Rightarrow> bson_doc"
    and aligned :: "'doc \<Rightarrow> bool"
    and uniq :: "string list"
    and rx :: "string \<Rightarrow> string \<Rightarrow> bool"
  assumes stored: "I d \<Longrightarrow> get (data d) k = Some x \<Longrightarrow>
        map_of (bson_of x) ''_id'' = Some (BString k) \<and> k \<noteq> '''' \<and> aligned x"
    and finite_docs: "I d \<Longrightarrow> finite (dom (get (data d)))"
    and unique_docs: "I d \<Longrightarrow> get (data d) k = Some x \<Longrightarrow> get (data d) l = Some y \<Longrightarrow> clash_on bson_of uniq x y \<Longrightarrow> k = l"
    and find_one: "I d \<Longrightarrow> plain_filter f \<Longrightarrow> coll_FindOne coll f d = (rd, d') \<Longrightarrow> I d' \<and> data d' = data d \<and>
        (case rd of Inr x \<Rightarrow> x \<in> ran (get (data d)) \<and> bson_matches rx f (bson_of x)
         | Inl NoDocuments \<Rightarrow> (\<forall>x \<in> ran (get (data d)). \<not> bson_matches rx f (bson_of x))
         | Inl DuplicateKey \<Rightarrow> False
         | Inl (MongoFailure msg) \<Rightarrow> True)"
    and counted: "I d \<Longrightarrow> plain_filter f \<Longrightarrow> coll_CountDocuments coll f limit d = (rn, d') \<Longrightarrow> I d' \<and> data d' = data d \<and>
        (case rn of Inr n \<Rightarrow> n = (let c = card {k. \<exists>x. get (data d) k = Some x \<and> bson_matches rx f (bson_of x)}
                                in case limit of None \<Rightarrow> c | Some l \<Rightarrow> min c l)
         | Inl e \<Rightarrow> \<exists>msg. e = MongoFailure msg)"
    and find_page: "I d \<Longrightarrow> plain_filter f \<Longrightarrow> 0 \<le> skip \<Longrightarrow> 0 < lim \<Longrightarrow>
        coll_Find coll f [(''created_at'', 1), (''_id'', 1)] skip lim d = (rp, d') \<Longrightarrow> I d' \<and> data d' = data d \<and>
        (case rp of Inr ys \<Rightarrow> (\<exists>xs. set xs = {x \<in> ran (get (data d)). bson_matches rx f (bson_of x)} \<and> distinct xs
              \<and> sorted (map (\<lambda>x. (doc_date (bson_of x), doc_id (bson_of x))) xs)
              \<and> ys = take (nat lim) (drop (nat skip) xs))
         | Inl e \<Rightarrow> \<exists>msg. e = MongoFailure msg)"
    and inserted: "I d \<Longrightarrow> map_of (bson_of x) ''_id'' = Some (BString k) \<Longrightarrow> k \<noteq> '''' \<Longrightarrow> aligned x \<Longrightarrow>
        coll_InsertOne coll x d = (ru, d') \<Longrightarrow> I d' \<and>
        (if ru = Inr () then k \<notin> dom (get (data d)) \<and> (\<forall>y \<in> ran (get (data d)). \<not> clash_on bson_of uniq x y)
              \<and> data d' = upd (\<lambda>m. m(k \<mapsto> x)) (data d)
         else data d' = data d \<and> ((\<exists>msg. ru = Inl (MongoFailure msg)) \<or> ru = Inl DuplicateKey
              \<and> (k \<in> dom (get (data d)) \<or> (\<exists>y \<in> ran (get (data d)). clash_on bson_of uniq x y))))"
    and replaced: "I d \<Longrightarrow> map_of (bson_of x) ''_id'' = Some (BString k) \<Longrightarrow> aligned x \<Longrightarrow>
        coll_ReplaceOne coll [(''_id'', BString k)] x d = (rn, d') \<Longrightarrow> I d' \<and>
        (case rn of Inr n \<Rightarrow> if k \<in> dom (get (data d))
              then n = 1 \<and> (\<forall>l y. get (data d) l = Some y \<longrightarrow> l \<noteq> k \<longrightarrow> \<not> clash_on bson_of uniq x y)
                \<and> data d' = upd (\<lambda>m. m(k \<mapsto> x)) (data d)
              else n = 0 \<and> data d' = data d
         | Inl DuplicateKey \<Rightarrow> data d' = data d \<and> k \<in> dom (get (data d))
              \<and> (\<exists>l y. get (data d) l = Some y \<and> l \<noteq> k \<and> clash_on bson_of uniq x y)
         | Inl (MongoFailure msg) \<Rightarrow> data d' = data d
         | Inl NoDocuments \<Rightarrow> False)"
    and deleted_one: "I d \<Longrightarrow> coll_DeleteOne coll [(''_id'', BString k)] d = (rn, d') \<Longrightarrow> I d' \<and>
        (case rn of Inr n \<Rightarrow> if k \<in> dom (get (data d)) then n = 1 \<and> data d' = upd (\<lambda>m. m(k := None)) (data d)
              else n = 0 \<and> data d' = data d
         | Inl e \<Rightarrow> (\<exists>msg. e = MongoFailure msg) \<and> data d' = data d)"
    and deleted_many: "I d \<Longrightarrow> plain_filter f \<Longrightarrow> coll_DeleteMany coll f d = (rn, d') \<Longrightarrow> I d' \<and>
        (case rn of Inr n \<Rightarrow> n = card {k. \<exists>x. get (data d) k = Some x \<and> bson_matches rx f (bson_of x)}
              \<and> data d' = upd (keep (\<lambda>x. \<not> bson_matches rx f (bson_of x))) (data d)
         | Inl e \<Rightarrow> (\<exists>msg. e = MongoFailure msg) \<and> data d' = data d)"

begin

text \<open>A lookup, on the documents.\<close>

lemma findOne_spec:
  assumes "I d" and "plain_filter f" and "findOne coll f op d = (r, d')"
  shows "I d' \<and> data d' = data d \<and>
     (case r of Inr x \<Rightarrow> x \<in> ran (get (data d)) \<and> bson_matches rx f (bson_of x)
      | Inl e \<Rightarrow> e = ErrNotFound \<and> (\<forall>x \<in> ran (get (data d)). \<not> bson_matches rx f (bson_of x))
                 \<or> (\<exists>msg. e = StoreFailure msg))"
proof -
  obtain q where q: "coll_FindOne coll f d = (q, d')"
    and r: "r = (case q of Inr x \<Rightarrow> Inr x | Inl e \<Rightarrow> if e = NoDocuments then Inl ErrNotFound else Inl (wrapErr op e))"
    using assms(3) unfolding findOne_def handle_eq by (auto split: if_splits)
  show ?thesis using find_one [OF assms(1,2) q] unfolding r
    by (auto simp: wrapErr_def split: sum.splits mongo_error.splits)
qed

end

section \<open>A table of entities\<close>

text \<open>
  The documents of a collection as entities: \<open>model\<close> converts a document, \<open>tb\<close> and \<open>tbupd\<close> are the table of the
  contract that the collection holds.
\<close>

locale mongo_table = mongo_collection coll I data get upd bson_of aligned uniq rx
  for coll :: "('d, 'doc) collection" and I data get upd bson_of aligned uniq rx +
  fixes V :: "mongo_data \<Rightarrow> tables"
    and tb :: "tables \<Rightarrow> string \<rightharpoonup> 'v"
    and tbupd :: "((string \<rightharpoonup> 'v) \<Rightarrow> (string \<rightharpoonup> 'v)) \<Rightarrow> tables \<Rightarrow> tables"
    and model :: "'doc \<Rightarrow> 'v"
    and doc_of :: "'v \<Rightarrow> 'doc"
    and key :: "'v \<Rightarrow> string"
    and clash :: "'v \<Rightarrow> 'v \<Rightarrow> bool"
    and created :: "'v \<Rightarrow> time"
    and storable :: "'v \<Rightarrow> bool"
  assumes view_get: "tb (V D) = map_option model \<circ> get D"
    and view_upd: "V (upd g D) = tbupd (\<lambda>_. map_option model \<circ> g (get D)) (V D)"
    and tbupd_const: "tbupd h T = tbupd (\<lambda>_. h (tb T)) T"
    and model_id: "map_of (bson_of x) ''_id'' = Some (BString (key (model x)))"
    and model_date: "map_of (bson_of x) ''created_at'' = Some (BDate (created (model x)))"
    and model_clash: "clash_on bson_of uniq x y \<longleftrightarrow> clash (model x) (model y)"
    and model_inj: "model x = model y \<Longrightarrow> x = y"
    and doc_of_model: "storable v \<Longrightarrow> model (doc_of v) = v \<and> aligned (doc_of v)"
    and doc_of_bson: "map_of (bson_of (doc_of v)) ''_id'' = Some (BString (key v))"
begin

lemma table_Some: "tb (V D) k = Some v \<longleftrightarrow> (\<exists>x. get D k = Some x \<and> v = model x)"
  by (auto simp: view_get)

lemma table_dom: "dom (tb (V D)) = dom (get D)"
  by (auto simp: view_get)

lemma table_ran: "ran (tb (V D)) = model ` ran (get D)"
  by (auto simp: view_get ran_def image_def)

lemma view_put: "V (upd (\<lambda>m. m(k \<mapsto> x)) D) = tbupd (\<lambda>m. m(k \<mapsto> model x)) (V D)"
  unfolding view_upd tbupd_const [of "\<lambda>m. m(k \<mapsto> model x)"] view_get by (rule arg_cong2 [of _ _ _ _ tbupd]) (auto simp: fun_eq_iff)

lemma view_remove: "V (upd (\<lambda>m. m(k := None)) D) = tbupd (\<lambda>m. m(k := None)) (V D)"
  unfolding view_upd tbupd_const [of "\<lambda>m. m(k := None)"] view_get by (rule arg_cong2 [of _ _ _ _ tbupd]) (auto simp: fun_eq_iff)

lemma view_keep: "V (upd (keep (\<lambda>x. P (model x))) D) = tbupd (keep P) (V D)"
proof -
  have "map_option model \<circ> keep (\<lambda>x. P (model x)) (get D) = keep P (tb (V D))"
    by (auto simp: view_get keep_def fun_eq_iff split: option.splits)
  then show ?thesis unfolding view_upd tbupd_const [of "keep P"] by simp
qed

lemma stored_key: "I d \<Longrightarrow> get (data d) k = Some x \<Longrightarrow> key (model x) = k \<and> k \<noteq> ''''"
  using stored [of d k x] model_id [of x] by simp

lemma table_keyed: "I d \<Longrightarrow> keyed key (tb (V (data d)))"
  using stored_key by (auto simp: keyed_def table_Some)

lemma table_unique:
  assumes "I d" and "\<And>x y. f (model x) = f (model y) \<Longrightarrow> clash_on bson_of uniq x y"
  shows "unique_field f (tb (V (data d)))"
  using unique_docs [OF assms(1)] assms(2) unfolding unique_field_def table_ran by (fastforce simp: ran_def)

text \<open>The generic helpers of the store meet the contract.\<close>

lemma obeys_find:
  assumes "plain_filter f" and f: "\<And>x. aligned x \<Longrightarrow> bson_matches rx f (bson_of x) \<longleftrightarrow> P (model x)"
  shows "obeys I (V \<circ> data) (find_spec tb P) (andThen (findOne coll f op) (\<lambda>x. ret (model x)))"
  unfolding obeys_def
proof (intro allI impI)
  fix d r d'
  assume i: "I d" and r: "andThen (findOne coll f op) (\<lambda>x. ret (model x)) d = (r, d')"
  have a: "bson_matches rx f (bson_of x) \<longleftrightarrow> P (model x)" if "x \<in> ran (get (data d))" for x
    using that stored [OF i] f by (auto simp: ran_def)
  obtain q where q: "findOne coll f op d = (q, d')" and r: "r = map_sum id model q"
    using r by (auto simp: andThen_def split: prod.splits sum.splits)
  show "I d' \<and> (find_spec tb P ((V \<circ> data) d) r ((V \<circ> data) d') \<or>
      (\<exists>msg. r = Inl (StoreFailure msg)) \<and> (V \<circ> data) d' = (V \<circ> data) d)"
    using findOne_spec [OF i assms(1) q] a unfolding r find_spec_def
    by (cases q) (auto simp: table_ran)
qed

lemma obeys_get:
  "obeys I (V \<circ> data) (get_spec tb k) (andThen (findOne coll [(''_id'', BString k)] op) (\<lambda>x. ret (model x)))"
proof -
  let ?f = "[(''_id'', BString k)]"
  have p: "plain_filter ?f" by (simp add: plain_filter_def plain_cond_def)
  have m: "bson_matches rx ?f (bson_of x) \<longleftrightarrow> key (model x) = k" for x by (rule matches_id) (rule model_id)
  have *: "find_spec tb (\<lambda>v. key v = k) ((V \<circ> data) d) r T' \<longrightarrow> get_spec tb k ((V \<circ> data) d) r T'" if i: "I d" for d r T'
    using stored_key [OF i] unfolding find_spec_def get_spec_def
    by (auto simp: view_get ran_def split: sum.splits option.splits)
  show ?thesis using obeys_find [OF p m] * unfolding obeys_def by blast
qed

lemma obeys_insert:
  assumes "storable v" and "key v \<noteq> ''''"
  shows "obeys I (V \<circ> data) (create_spec tb tbupd key clash v) (mongo_insert coll (doc_of v) op)"
  unfolding obeys_def
proof (intro allI impI)
  fix d r d'
  assume i: "I d" and r: "mongo_insert coll (doc_of v) op d = (r, d')"
  note v = doc_of_model [OF assms(1)]
  obtain q where q: "coll_InsertOne coll (doc_of v) d = (q, d')" and r: "r = map_sum (wrapErr op) id q"
    using r unfolding mongo_insert_def mapErr_def handle_def by (auto split: prod.splits sum.splits)
  have clash: "(\<exists>y \<in> ran (get (data d)). clash_on bson_of uniq (doc_of v) y) \<longleftrightarrow> (\<exists>y \<in> ran (tb (V (data d))). clash v y)"
    by (simp add: table_ran model_clash v)
  show "I d' \<and> (create_spec tb tbupd key clash v ((V \<circ> data) d) r ((V \<circ> data) d') \<or>
      (\<exists>msg. r = Inl (StoreFailure msg)) \<and> (V \<circ> data) d' = (V \<circ> data) d)"
    using inserted [OF i doc_of_bson assms(2) conjunct2 [OF v] q] clash unfolding r create_spec_def
    by (cases q) (auto simp: table_dom view_put v wrapErr_def split: if_splits mongo_error.splits)
qed

lemma obeys_replace:
  assumes "storable v"
  shows "obeys I (V \<circ> data) (update_spec tb tbupd key clash v) (mongo_replace coll (key v) (doc_of v) op)"
  unfolding obeys_def
proof (intro allI impI)
  fix d r d'
  assume i: "I d" and r: "mongo_replace coll (key v) (doc_of v) op d = (r, d')"
  note v = doc_of_model [OF assms(1)]
  obtain q where q: "coll_ReplaceOne coll [(''_id'', BString (key v))] (doc_of v) d = (q, d')"
    and r: "r = (case q of Inl e \<Rightarrow> Inl (wrapErr op e) | Inr n \<Rightarrow> if n = 0 then Inl ErrNotFound else Inr ())"
    using r unfolding mongo_replace_def andThen_def mapErr_def handle_def
    by (auto simp: fail_def ret_def split: prod.splits sum.splits if_splits)
  have clash: "(\<exists>l y. get (data d) l = Some y \<and> l \<noteq> key v \<and> clash_on bson_of uniq (doc_of v) y)
      \<longleftrightarrow> (\<exists>y \<in> ran (tb (V (data d))). key y \<noteq> key v \<and> clash v y)"
    unfolding table_ran using stored_key [OF i] by (fastforce simp: ran_def model_clash v)
  have *: "I d' \<and> (case q of Inr n \<Rightarrow> if key v \<in> dom (tb (V (data d)))
              then n = 1 \<and> \<not> (\<exists>l y. get (data d) l = Some y \<and> l \<noteq> key v \<and> clash_on bson_of uniq (doc_of v) y)
                \<and> V (data d') = tbupd (\<lambda>m. m(key v \<mapsto> v)) (V (data d))
              else n = 0 \<and> data d' = data d
         | Inl DuplicateKey \<Rightarrow> data d' = data d \<and> key v \<in> dom (tb (V (data d)))
              \<and> (\<exists>l y. get (data d) l = Some y \<and> l \<noteq> key v \<and> clash_on bson_of uniq (doc_of v) y)
         | Inl (MongoFailure msg) \<Rightarrow> data d' = data d
         | Inl NoDocuments \<Rightarrow> False)"
    using replaced [OF i doc_of_bson conjunct2 [OF v] q]
    by (auto simp: table_dom view_put v split: sum.splits mongo_error.splits if_splits)
  show "I d' \<and> (update_spec tb tbupd key clash v ((V \<circ> data) d) r ((V \<circ> data) d') \<or>
      (\<exists>msg. r = Inl (StoreFailure msg)) \<and> (V \<circ> data) d' = (V \<circ> data) d)"
    using * unfolding r update_spec_def clash
    by (cases q) (auto simp: wrapErr_def split: if_splits mongo_error.splits)
qed

lemma obeys_deleteById: "obeys I (V \<circ> data) (delete_spec tb tbupd k) (deleteById coll k op)"
  unfolding obeys_def
proof (intro allI impI)
  fix d r d'
  assume i: "I d" and r: "deleteById coll k op d = (r, d')"
  obtain q where q: "coll_DeleteOne coll [(''_id'', BString k)] d = (q, d')"
    and r: "r = (case q of Inl e \<Rightarrow> Inl (wrapErr op e) | Inr n \<Rightarrow> if n = 0 then Inl ErrNotFound else Inr ())"
    using r unfolding deleteById_def andThen_def mapErr_def handle_def
    by (auto simp: fail_def ret_def split: prod.splits sum.splits if_splits)
  show "I d' \<and> (delete_spec tb tbupd k ((V \<circ> data) d) r ((V \<circ> data) d') \<or>
      (\<exists>msg. r = Inl (StoreFailure msg)) \<and> (V \<circ> data) d' = (V \<circ> data) d)"
    using deleted_one [OF i q] unfolding r delete_spec_def
    by (cases q) (auto simp: wrapErr_def table_dom view_remove split: if_splits mongo_error.splits)
qed

lemma obeys_deleteMany:
  assumes "plain_filter f" and f: "\<And>x. aligned x \<Longrightarrow> bson_matches rx f (bson_of x) \<longleftrightarrow> P (model x)"
  shows "obeys I (V \<circ> data) (delete_where_spec tb tbupd P) (deleteMany coll f op)"
  unfolding obeys_def
proof (intro allI impI)
  fix d r d'
  assume i: "I d" and r: "deleteMany coll f op d = (r, d')"
  obtain q where q: "coll_DeleteMany coll f d = (q, d')" and r: "r = map_sum (wrapErr op) id q"
    using r unfolding deleteMany_def mapErr_def handle_def by (auto split: prod.splits sum.splits)
  have a: "bson_matches rx f (bson_of x) \<longleftrightarrow> P (model x)" if "get (data d) k = Some x" for k x
    using stored [OF i that] f by simp
  have keep: "keep (\<lambda>x. \<not> bson_matches rx f (bson_of x)) (get (data d)) = keep (\<lambda>x. \<not> P (model x)) (get (data d))"
    using a by (auto simp: keep_def fun_eq_iff split: option.splits)
  have n: "{k. \<exists>x. get (data d) k = Some x \<and> bson_matches rx f (bson_of x)} = {k. \<exists>v. tb (V (data d)) k = Some v \<and> P v}"
    using a by (auto simp: table_Some)
  have V: "V (upd (keep (\<lambda>x. \<not> bson_matches rx f (bson_of x))) (data d)) = tbupd (keep (\<lambda>v. \<not> P v)) (V (data d))"
    unfolding view_keep [of "\<lambda>v. \<not> P v", symmetric] unfolding view_upd keep ..
  show "I d' \<and> (delete_where_spec tb tbupd P ((V \<circ> data) d) r ((V \<circ> data) d') \<or>
      (\<exists>msg. r = Inl (StoreFailure msg)) \<and> (V \<circ> data) d' = (V \<circ> data) d)"
    using deleted_many [OF i assms(1) q] n V unfolding r delete_where_spec_def
    by (cases q) (auto simp: wrapErr_def)
qed

lemma obeys_findPage:
  assumes "plain_filter f" and f: "\<And>x. aligned x \<Longrightarrow> bson_matches rx f (bson_of x) \<longleftrightarrow> P (model x)"
  shows "obeys I (V \<circ> data) (list_spec tb (\<lambda>v. (created v, key v)) P opts)
     (andThen (findPage coll f opts op) (\<lambda>(docs, total). ret (toModels docs model, total)))"
  unfolding obeys_def
proof (intro allI impI)
  fix d r d'
  let ?o = "ListOptions_Normalize opts"
  assume i: "I d" and r: "andThen (findPage coll f opts op) (\<lambda>(docs, total). ret (toModels docs model, total)) d = (r, d')"
  have o: "0 \<le> lo_Offset ?o" "0 < lo_Limit ?o"
    by (auto simp: ListOptions_Normalize_def Let_def DefaultLimit_def MaxLimit_def)
  have a: "bson_matches rx f (bson_of x) \<longleftrightarrow> P (model x)" if "x \<in> ran (get (data d))" for x
    using that stored [OF i] f by (auto simp: ran_def)
  have tm: "toModels docs model = map model docs" for docs
  proof -
    have "foldl (\<lambda>result d. result @ [model d]) acc docs = acc @ map model docs" for acc
      by (induction docs arbitrary: acc) auto
    then show ?thesis by (simp add: toModels_def)
  qed
  obtain q1 d1 where q1: "coll_CountDocuments coll f None d = (q1, d1)" by fastforce
  note c = counted [OF i assms(1) q1]
  show "I d' \<and> (list_spec tb (\<lambda>v. (created v, key v)) P opts ((V \<circ> data) d) r ((V \<circ> data) d') \<or>
      (\<exists>msg. r = Inl (StoreFailure msg)) \<and> (V \<circ> data) d' = (V \<circ> data) d)"
  proof (cases q1)
    case (Inl e)
    then show ?thesis using c r q1
      by (auto simp: findPage_def Let_def andThen_def mapErr_def handle_def fail_def wrapErr_def)
  next
    case (Inr n)
    obtain q2 where q2: "coll_Find coll f [(''created_at'', 1), (''_id'', 1)] (lo_Offset ?o) (lo_Limit ?o) d1 = (q2, d')"
      and r: "r = (case q2 of Inl e \<Rightarrow> Inl (wrapErr op e) | Inr ys \<Rightarrow> Inr (map model ys, n))"
      using r q1 Inr by (auto simp: findPage_def Let_def andThen_def mapErr_def handle_def fail_def ret_def tm split: prod.splits sum.splits)
    from c have i1: "I d1" and d1: "data d1 = data d" by auto
    note p = find_page [OF i1 assms(1) o q2, unfolded d1]
    show ?thesis
    proof (cases q2)
      case (Inl e)
      with p show ?thesis unfolding r by (auto simp: wrapErr_def)
    next
      case ys: (Inr ys)
      from p ys obtain xs where xs: "set xs = {x \<in> ran (get (data d)). bson_matches rx f (bson_of x)}" "distinct xs"
        "sorted (map (\<lambda>x. (doc_date (bson_of x), doc_id (bson_of x))) xs)"
        "ys = take (nat (lo_Limit ?o)) (drop (nat (lo_Offset ?o)) xs)" and d': "I d'" "data d' = data d" by auto
      have inj: "inj_on model A" for A using model_inj by (auto simp: inj_on_def)
      have s: "set (map model xs) = {v \<in> ran (tb (V (data d))). P v}" using xs(1) a by (auto simp: table_ran)
      have "{k. \<exists>x. get (data d) k = Some x \<and> bson_matches rx f (bson_of x)} = (key \<circ> model) ` set xs"
        unfolding xs(1) using stored_key [OF i] by (force simp: ran_def)
      moreover have "inj_on (key \<circ> model) (set xs)"
        unfolding xs(1) using stored_key [OF i] by (auto simp: inj_on_def ran_def)
      then have "card ((key \<circ> model) ` set xs) = card (set xs)" by (rule card_image)
      ultimately have "n = card (set xs)" using c Inr by simp
      then have n: "n = length xs" using xs(2) by (simp add: distinct_card)
      have k: "map (\<lambda>x. (doc_date (bson_of x), doc_id (bson_of x))) xs = map (\<lambda>v. (created v, key v)) (map model xs)"
        by (simp add: doc_date_def doc_id_def model_date model_id)
      have "list_spec tb (\<lambda>v. (created v, key v)) P opts (V (data d)) r (V (data d'))"
        unfolding list_spec_def r ys d' n
        using xs(3) unfolding k
        by (auto intro!: exI [of _ "map model xs"] simp: s xs(4) take_map drop_map distinct_map inj xs(2)
            simp del: set_map map_map)
      with d' show ?thesis by simp
    qed
  qed
qed

end

end
