(* ===== verification/MongoProofs.thy ===== *)
theory MongoProofs
  imports MongoSpec
begin

text \<open>
  The MongoDB store on a database that behaves as documented: every operation of the interface meets the contract of
  \<open>StoreSpec\<close>, for entities whose times have the precision of the database. The locale \<open>mongo_database\<close> puts the six
  collections together; each is a \<open>mongo_table\<close> by a sublocale.
\<close>

section \<open>Documents and entities\<close>

lemma truncate_ms_idem [simp]: "truncate_ms (truncate_ms t) = truncate_ms t"
  by (simp add: truncate_ms_def)

lemma foldl_append [simp]: "foldl (\<lambda>result v. result @ [v]) acc xs = acc @ xs"
  by (induction xs arbitrary: acc) auto

lemmas mongo_conversions = toDBTime_def toDBTimePtr_def fromDBTime_def fromDBTimePtr_def copyStrings_def
  grantTypesToStrings_def stringsToGrantTypes_def

definition exact_ms :: "time \<Rightarrow> bool" where
  "exact_ms t \<longleftrightarrow> truncate_ms t = t"

definition exact_ms_ptr :: "time option \<Rightarrow> bool" where
  "exact_ms_ptr t \<longleftrightarrow> (case t of None \<Rightarrow> True | Some v \<Rightarrow> exact_ms v)"

text \<open>The entities whose times a document keeps.\<close>

definition storable_client :: "client \<Rightarrow> bool" where
  "storable_client c \<longleftrightarrow> exact_ms (c_CreatedAt c) \<and> exact_ms (c_UpdatedAt c)"

definition storable_user :: "user \<Rightarrow> bool" where
  "storable_user u \<longleftrightarrow> exact_ms_ptr (u_LockoutEnd u) \<and> exact_ms_ptr (u_LastLoginAt u) \<and> exact_ms (u_CreatedAt u)
     \<and> exact_ms (u_UpdatedAt u)"

definition storable_access_token :: "access_token \<Rightarrow> bool" where
  "storable_access_token t \<longleftrightarrow> exact_ms (at_CreatedAt t) \<and> exact_ms (at_ExpiresAt t)"

definition storable_refresh_token :: "refresh_token \<Rightarrow> bool" where
  "storable_refresh_token t \<longleftrightarrow> exact_ms (rt_CreatedAt t) \<and> exact_ms (rt_UpdatedAt t) \<and> exact_ms (rt_ExpiresAt t)"

definition storable_code :: "authorization_code \<Rightarrow> bool" where
  "storable_code c \<longleftrightarrow> exact_ms (ac_CreatedAt c) \<and> exact_ms (ac_ExpiresAt c) \<and> exact_ms_ptr (ac_ConsumedAt c)"

definition storable_user_token :: "user_token \<Rightarrow> bool" where
  "storable_user_token t \<longleftrightarrow> exact_ms (ut_CreatedAt t) \<and> exact_ms (ut_ExpiresAt t)"

lemmas storable_defs = storable_client_def storable_user_def storable_access_token_def storable_refresh_token_def
  storable_code_def storable_user_token_def exact_ms_ptr_def exact_ms_def

lemmas toDocument_defs = clientToDocument_def userToDocument_def accessTokenToDocument_def refreshTokenToDocument_def
  authorizationCodeToDocument_def userTokenToDocument_def

lemmas toModel_defs = clientDocument_toModel_def userDocument_toModel_def accessTokenDocument_toModel_def
  refreshTokenDocument_toModel_def authorizationCodeDocument_toModel_def userTokenDocument_toModel_def

lemmas bson_defs = clientDocument_fields_def userDocument_fields_def accessTokenDocument_fields_def
  refreshTokenDocument_fields_def authorizationCodeDocument_fields_def userTokenDocument_fields_def

text \<open>Reading back what was stored: the entity with its times cut to milliseconds.\<close>

lemma client_document: "clientDocument_toModel (clientToDocument c) =
    c\<lparr>c_CreatedAt := truncate_ms (c_CreatedAt c), c_UpdatedAt := truncate_ms (c_UpdatedAt c)\<rparr>"
  by (simp add: toModel_defs toDocument_defs mongo_conversions)

lemma user_document: "userDocument_toModel (userToDocument u) =
    u\<lparr>u_LockoutEnd := map_option truncate_ms (u_LockoutEnd u), u_LastLoginAt := map_option truncate_ms (u_LastLoginAt u),
      u_CreatedAt := truncate_ms (u_CreatedAt u), u_UpdatedAt := truncate_ms (u_UpdatedAt u)\<rparr>"
  by (simp add: toModel_defs toDocument_defs mongo_conversions split: option.splits)

lemma access_token_document: "accessTokenDocument_toModel (accessTokenToDocument t) =
    t\<lparr>at_CreatedAt := truncate_ms (at_CreatedAt t), at_ExpiresAt := truncate_ms (at_ExpiresAt t)\<rparr>"
  by (simp add: toModel_defs toDocument_defs mongo_conversions)

lemma refresh_token_document: "refreshTokenDocument_toModel (refreshTokenToDocument t) =
    t\<lparr>rt_CreatedAt := truncate_ms (rt_CreatedAt t), rt_UpdatedAt := truncate_ms (rt_UpdatedAt t),
      rt_ExpiresAt := truncate_ms (rt_ExpiresAt t)\<rparr>"
  by (simp add: toModel_defs toDocument_defs mongo_conversions)

lemma code_document: "authorizationCodeDocument_toModel (authorizationCodeToDocument c) =
    c\<lparr>ac_CreatedAt := truncate_ms (ac_CreatedAt c), ac_ExpiresAt := truncate_ms (ac_ExpiresAt c),
      ac_ConsumedAt := map_option truncate_ms (ac_ConsumedAt c)\<rparr>"
  by (simp add: toModel_defs toDocument_defs mongo_conversions split: option.splits)

lemma user_token_document: "userTokenDocument_toModel (userTokenToDocument t) =
    t\<lparr>ut_CreatedAt := truncate_ms (ut_CreatedAt t), ut_ExpiresAt := truncate_ms (ut_ExpiresAt t)\<rparr>"
  by (simp add: toModel_defs toDocument_defs mongo_conversions)

lemmas document_eqs = client_document user_document access_token_document refresh_token_document code_document user_token_document

lemma map_option_truncate [simp]: "exact_ms_ptr t \<Longrightarrow> map_option truncate_ms t = t"
  by (cases t) (auto simp: exact_ms_ptr_def exact_ms_def)

lemma storable_fixed:
  "storable_client c \<Longrightarrow> clientDocument_toModel (clientToDocument c) = c"
  "storable_user u \<Longrightarrow> userDocument_toModel (userToDocument u) = u"
  "storable_access_token a \<Longrightarrow> accessTokenDocument_toModel (accessTokenToDocument a) = a"
  "storable_refresh_token r \<Longrightarrow> refreshTokenDocument_toModel (refreshTokenToDocument r) = r"
  "storable_code k \<Longrightarrow> authorizationCodeDocument_toModel (authorizationCodeToDocument k) = k"
  "storable_user_token t \<Longrightarrow> userTokenDocument_toModel (userTokenToDocument t) = t"
  unfolding document_eqs
  by (simp_all add: storable_client_def storable_user_def storable_access_token_def storable_refresh_token_def
      storable_code_def storable_user_token_def exact_ms_def)

text \<open>A stored document converts to an entity with the precision of the database.\<close>

definition mongo_view :: "mongo_data \<Rightarrow> tables" where
  "mongo_view D =
     \<lparr>tb_clients = map_option clientDocument_toModel \<circ> md_clients D,
      tb_users = map_option userDocument_toModel \<circ> md_users D,
      tb_accessTokens = map_option accessTokenDocument_toModel \<circ> md_accessTokens D,
      tb_refreshTokens = map_option refreshTokenDocument_toModel \<circ> md_refreshTokens D,
      tb_authorizationCodes = map_option authorizationCodeDocument_toModel \<circ> md_authorizationCodes D,
      tb_userTokens = map_option userTokenDocument_toModel \<circ> md_userTokens D\<rparr>"

section \<open>The database\<close>

text \<open>
  The fields with unique indexes are those of \<^const>\<open>mongo_indexes\<close>. The update with \<open>$set\<close> is the one of
  \<open>ConsumeAuthorizationCode\<close>. \<open>rx\<close> finds a quoted text literally.
\<close>

definition unique_of :: "string \<Rightarrow> string list" where
  "unique_of name = (case map_of mongo_indexes name of None \<Rightarrow> []
     | Some ixs \<Rightarrow> concat (map (\<lambda>(n, u, ks). if u then ks else []) ixs))"

locale mongo_database =
  clients: mongo_collection "mg_clients st" I data md_clients md_clients_update clientDocument_fields
    "\<lambda>x. storable_client (clientDocument_toModel x)" "unique_of ''clients''" rx +
  users: mongo_collection "mg_users st" I data md_users md_users_update userDocument_fields
    "\<lambda>x. storable_user (userDocument_toModel x)" "unique_of ''users''" rx +
  access: mongo_collection "mg_accessTokens st" I data md_accessTokens md_accessTokens_update accessTokenDocument_fields
    "\<lambda>x. storable_access_token (accessTokenDocument_toModel x)" "unique_of ''access_tokens''" rx +
  refresh: mongo_collection "mg_refreshTokens st" I data md_refreshTokens md_refreshTokens_update refreshTokenDocument_fields
    "\<lambda>x. storable_refresh_token (refreshTokenDocument_toModel x)" "unique_of ''refresh_tokens''" rx +
  codes: mongo_collection "mg_authorizationCodes st" I data md_authorizationCodes md_authorizationCodes_update authorizationCodeDocument_fields
    "\<lambda>x. storable_code (authorizationCodeDocument_toModel x)" "unique_of ''authorization_codes''" rx +
  tokens: mongo_collection "mg_userTokens st" I data md_userTokens md_userTokens_update userTokenDocument_fields
    "\<lambda>x. storable_user_token (userTokenDocument_toModel x)" "unique_of ''user_tokens''" rx
  for st :: "'d mongo_Store" and I :: "'d \<Rightarrow> bool" and data :: "'d \<Rightarrow> mongo_data"
    and rx :: "string \<Rightarrow> string \<Rightarrow> bool" +
  assumes quoted: "rx (QuoteMeta p) s \<longleftrightarrow> contains_str s p"
    and update_one: "I d \<Longrightarrow> exact_ms t \<Longrightarrow>
        coll_UpdateOne (mg_authorizationCodes st) [(''_id'', BString k), (''consumed_at'', BNull)]
          [(''$set'', BDoc [(''consumed_at'', BDate t)])] d = (r, d') \<Longrightarrow> I d' \<and>
        (case r of Inl e \<Rightarrow> (\<exists>msg. e = MongoFailure msg) \<and> data d' = data d
         | Inr n \<Rightarrow> (case md_authorizationCodes (data d) k of
              Some x \<Rightarrow> if kd_ConsumedAt x = None
                then n = 1 \<and> (\<exists>y. authorizationCodeDocument_fields y
                         = set_fields [(''consumed_at'', BDate t)] (authorizationCodeDocument_fields x)
                       \<and> data d' = md_authorizationCodes_update (\<lambda>m. m(k \<mapsto> y)) (data d))
                else n = 0 \<and> data d' = data d
            | None \<Rightarrow> n = 0 \<and> data d' = data d))"

section \<open>The filters\<close>

lemma exact_ms_le: "exact_ms e \<Longrightarrow> e \<le> truncate_ms t \<longleftrightarrow> e \<le> t"
  using truncate_ms_le [of t] truncate_ms_mono [of e t] by (auto simp: exact_ms_def)

lemma plain_token_filter [simp]: "plain_filter (mongo_tokenFilter f)"
  by (simp add: mongo_tokenFilter_def plain_filter_def plain_cond_def Let_def split: option.split)

lemma plain_user_filter [simp]: "plain_filter (mongo_userFilter ul f)"
  by (simp add: mongo_userFilter_def plain_filter_def plain_cond_def Let_def)

text \<open>The filter of a document that has the four fields, and the search for a quoted text.\<close>

lemma token_filter_matches:
  assumes "map_of d ''client_id'' = Some (BString clientId)" and "map_of d ''user_id'' = Some (BString userId)"
    and "map_of d ''authorization_code_id'' = Some (BString codeId)" and "map_of d ''expires_at'' = Some (BDate e)"
    and "exact_ms e"
  shows "bson_matches rx (mongo_tokenFilter f) d \<longleftrightarrow> filter_matches f clientId userId codeId e"
proof -
  have step: "bson_matches rx ((k, w) # g) d \<longleftrightarrow> cond_matches rx (map_of d k) w \<and> bson_matches rx g d" if "k \<noteq> ''$or''" for k w g
    using that by (simp add: bson_matches_def)
  show ?thesis
    unfolding mongo_tokenFilter_def filter_matches_def Let_def toDBTime_def
    using exact_ms_le [OF assms(5)] by (auto simp: step assms split: option.split)
qed

lemma contains_empty [simp]: "contains_str s ''''"
  unfolding contains_str_iff by (intro exI [of _ "[]"] exI [of _ s]) simp

lemma user_filter_matches:
  assumes "map_of d ''normalized_username'' = Some (BString n)" and "map_of d ''normalized_email'' = Some (BString m)"
    and "\<And>p s. rx (QuoteMeta p) s \<longleftrightarrow> contains_str s p"
  shows "bson_matches rx (mongo_userFilter ul f) d \<longleftrightarrow>
     to_lower ul (uf_Search f) = '''' \<or> contains_str n (to_lower ul (uf_Search f)) \<or> contains_str m (to_lower ul (uf_Search f))"
  by (auto simp: mongo_userFilter_def bson_matches_def doc_matches_def Let_def assms)

section \<open>The tables\<close>

lemmas table_laws = mongo_view_def toModel_defs bson_defs toDocument_defs mongo_conversions clash_on_def unique_of_def
  mongo_indexes_def mongo_tokenIndexes_def client_clash_def user_clash_def access_token_clash_def refresh_token_clash_def
  code_clash_def user_token_clash_def

lemma bson_time_ptr_inj: "bson_time_ptr s = bson_time_ptr t \<longleftrightarrow> s = t"
  by (auto simp: bson_time_ptr_def split: option.splits)

lemma client_model_inj: "clientDocument_toModel x = clientDocument_toModel y \<Longrightarrow> x = y"
  by (cases x; cases y) (simp add: toModel_defs mongo_conversions)

lemma from_ptr [simp]: "(case t of None \<Rightarrow> None | Some v \<Rightarrow> Some v) = t"
  by (cases t) auto

lemma user_model_inj: "userDocument_toModel x = userDocument_toModel y \<Longrightarrow> x = y"
  by (cases x; cases y) (simp add: toModel_defs mongo_conversions)

lemma access_token_model_inj: "accessTokenDocument_toModel x = accessTokenDocument_toModel y \<Longrightarrow> x = y"
  by (cases x; cases y) (simp add: toModel_defs mongo_conversions)

lemma refresh_token_model_inj: "refreshTokenDocument_toModel x = refreshTokenDocument_toModel y \<Longrightarrow> x = y"
  by (cases x; cases y) (simp add: toModel_defs mongo_conversions)

lemma code_model_inj: "authorizationCodeDocument_toModel x = authorizationCodeDocument_toModel y \<Longrightarrow> x = y"
  by (cases x; cases y) (simp add: toModel_defs mongo_conversions)

lemma user_token_model_inj: "userTokenDocument_toModel x = userTokenDocument_toModel y \<Longrightarrow> x = y"
  by (cases x; cases y) (simp add: toModel_defs mongo_conversions)

sublocale mongo_database \<subseteq> client_table: mongo_table "mg_clients st" I data md_clients md_clients_update clientDocument_fields
    "\<lambda>x. storable_client (clientDocument_toModel x)" "unique_of ''clients''" rx mongo_view tb_clients tb_clients_update
    clientDocument_toModel clientToDocument c_Id client_clash c_CreatedAt storable_client
  by (unfold_locales, (erule client_model_inj | (simp add: storable_fixed; fail) | (auto simp: table_laws; fail))+)

sublocale mongo_database \<subseteq> user_table: mongo_table "mg_users st" I data md_users md_users_update userDocument_fields
    "\<lambda>x. storable_user (userDocument_toModel x)" "unique_of ''users''" rx mongo_view tb_users tb_users_update
    userDocument_toModel userToDocument u_Id user_clash u_CreatedAt storable_user
  by (unfold_locales, (erule user_model_inj | (simp add: storable_fixed; fail) | (auto simp: table_laws; fail))+)

sublocale mongo_database \<subseteq> access_table: mongo_table "mg_accessTokens st" I data md_accessTokens md_accessTokens_update accessTokenDocument_fields
    "\<lambda>x. storable_access_token (accessTokenDocument_toModel x)" "unique_of ''access_tokens''" rx mongo_view tb_accessTokens tb_accessTokens_update
    accessTokenDocument_toModel accessTokenToDocument at_Id access_token_clash at_CreatedAt storable_access_token
  by (unfold_locales, (erule access_token_model_inj | (simp add: storable_fixed; fail) | (auto simp: table_laws; fail))+)

sublocale mongo_database \<subseteq> refresh_table: mongo_table "mg_refreshTokens st" I data md_refreshTokens md_refreshTokens_update refreshTokenDocument_fields
    "\<lambda>x. storable_refresh_token (refreshTokenDocument_toModel x)" "unique_of ''refresh_tokens''" rx mongo_view tb_refreshTokens tb_refreshTokens_update
    refreshTokenDocument_toModel refreshTokenToDocument rt_Id refresh_token_clash rt_CreatedAt storable_refresh_token
  by (unfold_locales, (erule refresh_token_model_inj | (simp add: storable_fixed; fail) | (auto simp: table_laws; fail))+)

sublocale mongo_database \<subseteq> code_table: mongo_table "mg_authorizationCodes st" I data md_authorizationCodes md_authorizationCodes_update authorizationCodeDocument_fields
    "\<lambda>x. storable_code (authorizationCodeDocument_toModel x)" "unique_of ''authorization_codes''" rx mongo_view tb_authorizationCodes tb_authorizationCodes_update
    authorizationCodeDocument_toModel authorizationCodeToDocument ac_Id code_clash ac_CreatedAt storable_code
  by (unfold_locales, (erule code_model_inj | (simp add: storable_fixed; fail) | (auto simp: table_laws; fail))+)

sublocale mongo_database \<subseteq> token_table: mongo_table "mg_userTokens st" I data md_userTokens md_userTokens_update userTokenDocument_fields
    "\<lambda>x. storable_user_token (userTokenDocument_toModel x)" "unique_of ''user_tokens''" rx mongo_view tb_userTokens tb_userTokens_update
    userTokenDocument_toModel userTokenToDocument ut_Id user_token_clash ut_CreatedAt storable_user_token
  by (unfold_locales, (erule user_token_model_inj | (simp add: storable_fixed; fail) | (auto simp: table_laws; fail))+)

text \<open>The filters on the documents of the three collections they are used for.\<close>

lemma access_token_filter:
  assumes "storable_access_token (accessTokenDocument_toModel x)"
  shows "bson_matches rx (mongo_tokenFilter f) (accessTokenDocument_fields x) \<longleftrightarrow> at_matches f (accessTokenDocument_toModel x)"
  unfolding at_matches_def using assms by (intro token_filter_matches) (auto simp: table_laws storable_access_token_def)

lemma refresh_token_filter:
  assumes "storable_refresh_token (refreshTokenDocument_toModel x)"
  shows "bson_matches rx (mongo_tokenFilter f) (refreshTokenDocument_fields x) \<longleftrightarrow> rt_matches f (refreshTokenDocument_toModel x)"
  unfolding rt_matches_def using assms by (intro token_filter_matches) (auto simp: table_laws storable_refresh_token_def)

lemma user_filter:
  assumes "\<And>p s. rx (QuoteMeta p) s \<longleftrightarrow> contains_str s p"
  shows "bson_matches rx (mongo_userFilter ul f) (userDocument_fields x) \<longleftrightarrow> user_matches (to_lower ul) f (userDocument_toModel x)"
  unfolding user_matches_def using assms by (intro user_filter_matches) (auto simp: table_laws)

section \<open>The operations\<close>

context mongo_database
begin

lemma mongo_ListClients:
  "obeys I (mongo_view \<circ> data) (list_spec tb_clients (\<lambda>x. (c_CreatedAt x, c_Id x)) (\<lambda>_. True) opts)
     (mongo_ListClients st opts)"
  unfolding mongo_ListClients_def by (rule client_table.obeys_findPage) (simp_all add: plain_filter_def)

lemma mongo_GetClientById:
  "obeys I (mongo_view \<circ> data) (get_spec tb_clients k)
     (mongo_GetClientById st k)"
  unfolding mongo_GetClientById_def by (rule client_table.obeys_get)

lemma mongo_GetClientByClientId:
  "obeys I (mongo_view \<circ> data) (find_spec tb_clients (\<lambda>x. c_ClientId x = clientId))
     (mongo_GetClientByClientId st clientId)"
  unfolding mongo_GetClientByClientId_def by (rule client_table.obeys_find) (simp_all add: plain_filter_def plain_cond_def bson_matches_def table_laws)

lemma mongo_CreateClient:
  "storable_client x \<Longrightarrow> c_Id x \<noteq> '''' \<Longrightarrow> obeys I (mongo_view \<circ> data) (create_spec tb_clients tb_clients_update c_Id client_clash x)
     (mongo_CreateClient st x)"
  unfolding mongo_CreateClient_def by (rule client_table.obeys_insert)

lemma mongo_UpdateClient:
  "storable_client x \<Longrightarrow> obeys I (mongo_view \<circ> data) (update_spec tb_clients tb_clients_update c_Id client_clash x)
     (mongo_UpdateClient st x)"
  unfolding mongo_UpdateClient_def by (rule client_table.obeys_replace)

lemma mongo_DeleteClient:
  "obeys I (mongo_view \<circ> data) (delete_spec tb_clients tb_clients_update k)
     (mongo_DeleteClient st k)"
  unfolding mongo_DeleteClient_def by (rule client_table.obeys_deleteById)

lemma mongo_ListUsers:
  "obeys I (mongo_view \<circ> data) (list_spec tb_users (\<lambda>x. (u_CreatedAt x, u_Id x)) (user_matches (to_lower ul) f) opts)
     (mongo_ListUsers st ul f opts)"
  unfolding mongo_ListUsers_def by (rule user_table.obeys_findPage) (simp_all add: user_filter quoted)

lemma mongo_GetUserById:
  "obeys I (mongo_view \<circ> data) (get_spec tb_users k)
     (mongo_GetUserById st k)"
  unfolding mongo_GetUserById_def by (rule user_table.obeys_get)

lemma mongo_GetUserByNormalizedUsername:
  "obeys I (mongo_view \<circ> data) (find_spec tb_users (\<lambda>x. u_NormalizedUsername x = n))
     (mongo_GetUserByNormalizedUsername st n)"
  unfolding mongo_GetUserByNormalizedUsername_def by (rule user_table.obeys_find) (simp_all add: plain_filter_def plain_cond_def bson_matches_def table_laws)

lemma mongo_GetUserByNormalizedEmail:
  "obeys I (mongo_view \<circ> data) (find_spec tb_users (\<lambda>x. u_NormalizedEmail x = n))
     (mongo_GetUserByNormalizedEmail st n)"
  unfolding mongo_GetUserByNormalizedEmail_def by (rule user_table.obeys_find) (simp_all add: plain_filter_def plain_cond_def bson_matches_def table_laws)

lemma mongo_CreateUser:
  "storable_user x \<Longrightarrow> u_Id x \<noteq> '''' \<Longrightarrow> obeys I (mongo_view \<circ> data) (create_spec tb_users tb_users_update u_Id user_clash x)
     (mongo_CreateUser st x)"
  unfolding mongo_CreateUser_def by (rule user_table.obeys_insert)

lemma mongo_UpdateUser:
  "storable_user x \<Longrightarrow> obeys I (mongo_view \<circ> data) (update_spec tb_users tb_users_update u_Id user_clash x)
     (mongo_UpdateUser st x)"
  unfolding mongo_UpdateUser_def by (rule user_table.obeys_replace)

lemma mongo_DeleteUser:
  "obeys I (mongo_view \<circ> data) (delete_spec tb_users tb_users_update k)
     (mongo_DeleteUser st k)"
  unfolding mongo_DeleteUser_def by (rule user_table.obeys_deleteById)

lemma mongo_ListAccessTokens:
  "obeys I (mongo_view \<circ> data) (list_spec tb_accessTokens (\<lambda>x. (at_CreatedAt x, at_Id x)) (at_matches f) opts)
     (mongo_ListAccessTokens st f opts)"
  unfolding mongo_ListAccessTokens_def by (rule access_table.obeys_findPage) (simp_all add: access_token_filter)

lemma mongo_GetAccessTokenById:
  "obeys I (mongo_view \<circ> data) (get_spec tb_accessTokens k)
     (mongo_GetAccessTokenById st k)"
  unfolding mongo_GetAccessTokenById_def by (rule access_table.obeys_get)

lemma mongo_GetAccessTokenByHash:
  "obeys I (mongo_view \<circ> data) (find_spec tb_accessTokens (\<lambda>x. at_TokenHash x = h))
     (mongo_GetAccessTokenByHash st h)"
  unfolding mongo_GetAccessTokenByHash_def by (rule access_table.obeys_find) (simp_all add: plain_filter_def plain_cond_def bson_matches_def table_laws)

lemma mongo_CreateAccessToken:
  "storable_access_token x \<Longrightarrow> at_Id x \<noteq> '''' \<Longrightarrow> obeys I (mongo_view \<circ> data) (create_spec tb_accessTokens tb_accessTokens_update at_Id access_token_clash x)
     (mongo_CreateAccessToken st x)"
  unfolding mongo_CreateAccessToken_def by (rule access_table.obeys_insert)

lemma mongo_DeleteAccessToken:
  "obeys I (mongo_view \<circ> data) (delete_spec tb_accessTokens tb_accessTokens_update k)
     (mongo_DeleteAccessToken st k)"
  unfolding mongo_DeleteAccessToken_def by (rule access_table.obeys_deleteById)

lemma mongo_DeleteAccessTokens:
  "obeys I (mongo_view \<circ> data) (delete_where_spec tb_accessTokens tb_accessTokens_update (at_matches f))
     (mongo_DeleteAccessTokens st f)"
  unfolding mongo_DeleteAccessTokens_def by (rule access_table.obeys_deleteMany) (simp_all add: access_token_filter)

lemma mongo_ListRefreshTokens:
  "obeys I (mongo_view \<circ> data) (list_spec tb_refreshTokens (\<lambda>x. (rt_CreatedAt x, rt_Id x)) (rt_matches f) opts)
     (mongo_ListRefreshTokens st f opts)"
  unfolding mongo_ListRefreshTokens_def by (rule refresh_table.obeys_findPage) (simp_all add: refresh_token_filter)

lemma mongo_GetRefreshTokenById:
  "obeys I (mongo_view \<circ> data) (get_spec tb_refreshTokens k)
     (mongo_GetRefreshTokenById st k)"
  unfolding mongo_GetRefreshTokenById_def by (rule refresh_table.obeys_get)

lemma mongo_GetRefreshTokenByHash:
  "obeys I (mongo_view \<circ> data) (find_spec tb_refreshTokens (\<lambda>x. rt_TokenHash x = h))
     (mongo_GetRefreshTokenByHash st h)"
  unfolding mongo_GetRefreshTokenByHash_def by (rule refresh_table.obeys_find) (simp_all add: plain_filter_def plain_cond_def bson_matches_def table_laws)

lemma mongo_CreateRefreshToken:
  "storable_refresh_token x \<Longrightarrow> rt_Id x \<noteq> '''' \<Longrightarrow> obeys I (mongo_view \<circ> data) (create_spec tb_refreshTokens tb_refreshTokens_update rt_Id refresh_token_clash x)
     (mongo_CreateRefreshToken st x)"
  unfolding mongo_CreateRefreshToken_def by (rule refresh_table.obeys_insert)

lemma mongo_UpdateRefreshToken:
  "storable_refresh_token x \<Longrightarrow> obeys I (mongo_view \<circ> data) (update_spec tb_refreshTokens tb_refreshTokens_update rt_Id refresh_token_clash x)
     (mongo_UpdateRefreshToken st x)"
  unfolding mongo_UpdateRefreshToken_def by (rule refresh_table.obeys_replace)

lemma mongo_DeleteRefreshToken:
  "obeys I (mongo_view \<circ> data) (delete_spec tb_refreshTokens tb_refreshTokens_update k)
     (mongo_DeleteRefreshToken st k)"
  unfolding mongo_DeleteRefreshToken_def by (rule refresh_table.obeys_deleteById)

lemma mongo_DeleteRefreshTokens:
  "obeys I (mongo_view \<circ> data) (delete_where_spec tb_refreshTokens tb_refreshTokens_update (rt_matches f))
     (mongo_DeleteRefreshTokens st f)"
  unfolding mongo_DeleteRefreshTokens_def by (rule refresh_table.obeys_deleteMany) (simp_all add: refresh_token_filter)

lemma mongo_GetAuthorizationCodeByHash:
  "obeys I (mongo_view \<circ> data) (find_spec tb_authorizationCodes (\<lambda>x. ac_CodeHash x = h))
     (mongo_GetAuthorizationCodeByHash st h)"
  unfolding mongo_GetAuthorizationCodeByHash_def by (rule code_table.obeys_find) (simp_all add: plain_filter_def plain_cond_def bson_matches_def table_laws)

lemma mongo_CreateAuthorizationCode:
  "storable_code x \<Longrightarrow> ac_Id x \<noteq> '''' \<Longrightarrow> obeys I (mongo_view \<circ> data) (create_spec tb_authorizationCodes tb_authorizationCodes_update ac_Id code_clash x)
     (mongo_CreateAuthorizationCode st x)"
  unfolding mongo_CreateAuthorizationCode_def by (rule code_table.obeys_insert)

lemma mongo_DeleteAuthorizationCode:
  "obeys I (mongo_view \<circ> data) (delete_spec tb_authorizationCodes tb_authorizationCodes_update k)
     (mongo_DeleteAuthorizationCode st k)"
  unfolding mongo_DeleteAuthorizationCode_def by (rule code_table.obeys_deleteById)

lemma mongo_DeleteExpiredAuthorizationCodes:
  "obeys I (mongo_view \<circ> data) (delete_where_spec tb_authorizationCodes tb_authorizationCodes_update (\<lambda>x. ac_ExpiresAt x \<le> before))
     (mongo_DeleteExpiredAuthorizationCodes st before)"
  unfolding mongo_DeleteExpiredAuthorizationCodes_def by (rule code_table.obeys_deleteMany) (simp_all add: plain_filter_def plain_cond_def bson_matches_def table_laws storable_defs exact_ms_le [unfolded exact_ms_def])

lemma mongo_GetUserTokenByHash:
  "obeys I (mongo_view \<circ> data) (find_spec tb_userTokens (\<lambda>x. ut_Purpose x = purpose \<and> ut_TokenHash x = h))
     (mongo_GetUserTokenByHash st purpose h)"
  unfolding mongo_GetUserTokenByHash_def by (rule token_table.obeys_find) (simp_all add: plain_filter_def plain_cond_def bson_matches_def table_laws)

lemma mongo_CreateUserToken:
  "storable_user_token x \<Longrightarrow> ut_Id x \<noteq> '''' \<Longrightarrow> obeys I (mongo_view \<circ> data) (create_spec tb_userTokens tb_userTokens_update ut_Id user_token_clash x)
     (mongo_CreateUserToken st x)"
  unfolding mongo_CreateUserToken_def by (rule token_table.obeys_insert)

lemma mongo_DeleteUserToken:
  "obeys I (mongo_view \<circ> data) (delete_spec tb_userTokens tb_userTokens_update k)
     (mongo_DeleteUserToken st k)"
  unfolding mongo_DeleteUserToken_def by (rule token_table.obeys_deleteById)

lemma mongo_DeleteUserTokens:
  "obeys I (mongo_view \<circ> data) (delete_where_spec tb_userTokens tb_userTokens_update (\<lambda>x. ut_UserId x = userId \<and> ut_Purpose x = purpose))
     (mongo_DeleteUserTokens st userId purpose)"
  unfolding mongo_DeleteUserTokens_def by (rule token_table.obeys_deleteMany) (simp_all add: plain_filter_def plain_cond_def bson_matches_def table_laws)

lemma mongo_DeleteExpiredUserTokens:
  "obeys I (mongo_view \<circ> data) (delete_where_spec tb_userTokens tb_userTokens_update (\<lambda>x. ut_ExpiresAt x \<le> before))
     (mongo_DeleteExpiredUserTokens st before)"
  unfolding mongo_DeleteExpiredUserTokens_def by (rule token_table.obeys_deleteMany) (simp_all add: plain_filter_def plain_cond_def bson_matches_def table_laws storable_defs exact_ms_le [unfolded exact_ms_def])

end

text \<open>The update that consumes a code sets one field.\<close>

lemma code_fields_inj: "authorizationCodeDocument_fields x = authorizationCodeDocument_fields y \<Longrightarrow> x = y"
  by (rule authorizationCodeDocument.equality) (simp_all add: authorizationCodeDocument_fields_def bson_time_ptr_inj)

lemma code_set_fields:
  "set_fields [(''consumed_at'', BDate t)] (authorizationCodeDocument_fields x)
     = authorizationCodeDocument_fields (x\<lparr>kd_ConsumedAt := Some t\<rparr>)"
  by (simp add: authorizationCodeDocument_fields_def set_fields_def bson_time_ptr_def)

lemma code_set:
  "authorizationCodeDocument_fields y = set_fields [(''consumed_at'', BDate t)] (authorizationCodeDocument_fields x)
     \<longleftrightarrow> y = x\<lparr>kd_ConsumedAt := Some t\<rparr>"
  unfolding code_set_fields by (auto dest: code_fields_inj)

context mongo_database
begin

lemma mongo_ConsumeAuthorizationCode:
  assumes "exact_ms t"
  shows "obeys I (mongo_view \<circ> data) (consume_spec k t) (mongo_ConsumeAuthorizationCode st k t)"
  unfolding obeys_def
proof (intro allI impI)
  fix d r d'
  assume i: "I d" and r: "mongo_ConsumeAuthorizationCode st k t d = (r, d')"
  let ?f = "[(''_id'', BString k)]"
  let ?m = "md_authorizationCodes (data d)"
  have t: "toDBTime t = t" using assms by (simp add: toDBTime_def exact_ms_def)
  have p: "plain_filter ?f" by (simp add: plain_filter_def plain_cond_def)
  obtain q1 d1 where q1: "coll_UpdateOne (mg_authorizationCodes st) [(''_id'', BString k), (''consumed_at'', BNull)]
      [(''$set'', BDoc [(''consumed_at'', BDate t)])] d = (q1, d1)" by fastforce
  have u: "I d1 \<and> (case q1 of Inl e \<Rightarrow> (\<exists>msg. e = MongoFailure msg) \<and> data d1 = data d
      | Inr n \<Rightarrow> (case ?m k of Some x \<Rightarrow> if kd_ConsumedAt x = None
            then n = 1 \<and> data d1 = md_authorizationCodes_update (\<lambda>m. m(k \<mapsto> x\<lparr>kd_ConsumedAt := Some t\<rparr>)) (data d)
            else n = 0 \<and> data d1 = data d
          | None \<Rightarrow> n = 0 \<and> data d1 = data d))"
    using update_one [OF i assms q1, unfolded code_set simp_thms] .
  note run = r [unfolded mongo_ConsumeAuthorizationCode_def t]
  have view: "tb_authorizationCodes (mongo_view D) k = map_option authorizationCodeDocument_toModel (md_authorizationCodes D k)" for D
    by (simp add: mongo_view_def)
  have put: "mongo_view (md_authorizationCodes_update (\<lambda>m. m(k \<mapsto> x\<lparr>kd_ConsumedAt := Some t\<rparr>)) D)
      = tb_authorizationCodes_update (\<lambda>m. m(k \<mapsto> (authorizationCodeDocument_toModel x)\<lparr>ac_ConsumedAt := Some t\<rparr>)) (mongo_view D)" for x D
    unfolding code_table.view_put by (simp add: toModel_defs mongo_conversions)
  have con: "ac_ConsumedAt (authorizationCodeDocument_toModel x) = kd_ConsumedAt x" for x
    by (simp add: toModel_defs mongo_conversions)
  show "I d' \<and> (consume_spec k t ((mongo_view \<circ> data) d) r ((mongo_view \<circ> data) d') \<or>
      (\<exists>msg. r = Inl (StoreFailure msg)) \<and> (mongo_view \<circ> data) d' = (mongo_view \<circ> data) d)"
  proof (cases q1)
    case (Inl e)
    with u run q1 show ?thesis by (auto simp: andThen_def mapErr_def handle_def fail_def wrapErr_def)
  next
    case (Inr n)
    show ?thesis
    proof (cases "n = 0")
      case False
      with run q1 Inr have r: "r = Inr ()" "d' = d1" by (auto simp: andThen_def mapErr_def handle_def ret_def)
      show ?thesis
      proof (cases "?m k")
        case None
        with u Inr False show ?thesis by simp
      next
        case (Some x)
        with u Inr False r show ?thesis
          by (cases "kd_ConsumedAt x = None") (simp_all add: consume_spec_def view con put)
      qed
    next
      case True
      obtain q2 d2 where q2: "coll_CountDocuments (mg_authorizationCodes st) ?f (Some 1) d1 = (q2, d2)" by fastforce
      have "I d1 \<and> data d1 = data d \<and> (\<forall>x. ?m k = Some x \<longrightarrow> kd_ConsumedAt x \<noteq> None)"
      proof (cases "?m k")
        case None
        with u Inr show ?thesis by simp
      next
        case (Some x)
        with u Inr True show ?thesis by (cases "kd_ConsumedAt x = None") simp_all
      qed
      then have i1: "I d1" and d1: "data d1 = data d" and no: "\<And>x. ?m k = Some x \<Longrightarrow> kd_ConsumedAt x \<noteq> None" by blast+
      have m: "{l. \<exists>x. ?m l = Some x \<and> bson_matches rx ?f (authorizationCodeDocument_fields x)} = {l. l = k \<and> k \<in> dom ?m}"
        using codes.stored [OF i] by (auto simp: matches_id)
      note c = codes.counted [OF i1 p q2, unfolded d1 m]
      have r: "d' = d2" "r = (case q2 of Inl e \<Rightarrow> Inl (wrapErr ''consume authorization code'' e)
          | Inr n \<Rightarrow> if n = 0 then Inl ErrNotFound else Inl ErrConflict)"
        using run q1 q2 Inr True
        by (auto simp: andThen_def mapErr_def handle_def ret_def fail_def split: sum.splits if_splits)
      show ?thesis
      proof (cases q2)
        case (Inl e)
        with c r show ?thesis by (auto simp: wrapErr_def)
      next
        case (Inr n2)
        then show ?thesis using c r no
          by (cases "?m k") (auto simp: consume_spec_def view con dom_def)
      qed
    qed
  qed
qed

lemma mongo_view_ok: "I d \<Longrightarrow> tables_ok (mongo_view (data d))"
  unfolding tables_ok_def
  by (intro conjI client_table.table_keyed client_table.table_unique user_table.table_keyed user_table.table_unique
      access_table.table_keyed access_table.table_unique refresh_table.table_keyed refresh_table.table_unique
      code_table.table_keyed code_table.table_unique token_table.table_keyed token_table.table_unique)
    (simp_all add: table_laws)

lemmas mongo_contract = mongo_ListClients mongo_GetClientById mongo_GetClientByClientId mongo_CreateClient
  mongo_UpdateClient mongo_DeleteClient mongo_ListUsers mongo_GetUserById
  mongo_GetUserByNormalizedUsername mongo_GetUserByNormalizedEmail mongo_CreateUser mongo_UpdateUser
  mongo_DeleteUser mongo_ListAccessTokens mongo_GetAccessTokenById mongo_GetAccessTokenByHash
  mongo_CreateAccessToken mongo_DeleteAccessToken mongo_DeleteAccessTokens mongo_ListRefreshTokens
  mongo_GetRefreshTokenById mongo_GetRefreshTokenByHash mongo_CreateRefreshToken mongo_UpdateRefreshToken
  mongo_DeleteRefreshToken mongo_DeleteRefreshTokens mongo_GetAuthorizationCodeByHash mongo_CreateAuthorizationCode
  mongo_ConsumeAuthorizationCode mongo_DeleteAuthorizationCode mongo_DeleteExpiredAuthorizationCodes mongo_GetUserTokenByHash
  mongo_CreateUserToken mongo_DeleteUserToken mongo_DeleteUserTokens mongo_DeleteExpiredUserTokens
end

end
