(* ===== verification/StoreContract.thy ===== *)
theory StoreContract
  imports StoreSpec
begin

text \<open>
  The contract of \<open>StoreSpec\<close> for a store that keeps only some entities exactly: the same laws for every operation, where
  what is stored satisfies the predicates of \<open>storable\<close>. For the predicates that hold of everything it is the
  locale \<open>store\<close>.
\<close>

record storable =
  sb_client :: "client \<Rightarrow> bool"
  sb_user :: "user \<Rightarrow> bool"
  sb_access_token :: "access_token \<Rightarrow> bool"
  sb_refresh_token :: "refresh_token \<Rightarrow> bool"
  sb_code :: "authorization_code \<Rightarrow> bool"
  sb_user_token :: "user_token \<Rightarrow> bool"
  sb_time :: "time \<Rightarrow> bool"
  sb_cutoff :: "time \<Rightarrow> bool"

text \<open>A time to compare with may have to be one the store can express, too.\<close>

definition filter_on :: "storable \<Rightarrow> TokenFilter \<Rightarrow> bool" where
  "filter_on sb f \<longleftrightarrow> (case tf_ExpiredBefore f of None \<Rightarrow> True | Some t \<Rightarrow> sb_cutoff sb t)"

definition contract_on ::
  "storable \<Rightarrow> 's store_ops \<Rightarrow> ('s \<Rightarrow> bool) \<Rightarrow> ('s \<Rightarrow> tables) \<Rightarrow> (string \<Rightarrow> string) \<Rightarrow> bool" where
  "contract_on sb ops I view lower \<longleftrightarrow>
     (\<forall>s. I s \<longrightarrow> tables_ok (view s))
     \<and> (\<forall>opts. obeys I view (list_spec tb_clients (\<lambda>x. (c_CreatedAt x, c_Id x)) (\<lambda>_. True) opts) (ListClients ops opts))
     \<and> (\<forall>k. obeys I view (get_spec tb_clients k) (GetClientById ops k))
     \<and> (\<forall>clientId. obeys I view (find_spec tb_clients (\<lambda>x. c_ClientId x = clientId)) (GetClientByClientId ops clientId))
     \<and> (\<forall>x. sb_client sb x \<and> c_Id x \<noteq> ''''
          \<longrightarrow> obeys I view (create_spec tb_clients tb_clients_update c_Id client_clash x) (CreateClient ops x))
     \<and> (\<forall>x. sb_client sb x
          \<longrightarrow> obeys I view (update_spec tb_clients tb_clients_update c_Id client_clash x) (UpdateClient ops x))
     \<and> (\<forall>k. obeys I view (delete_spec tb_clients tb_clients_update k) (DeleteClient ops k))
     \<and> (\<forall>f opts. obeys I view (list_spec tb_users (\<lambda>x. (u_CreatedAt x, u_Id x)) (user_matches lower f) opts) (ListUsers ops f opts))
     \<and> (\<forall>k. obeys I view (get_spec tb_users k) (GetUserById ops k))
     \<and> (\<forall>n. obeys I view (find_spec tb_users (\<lambda>x. u_NormalizedUsername x = n)) (GetUserByNormalizedUsername ops n))
     \<and> (\<forall>n. obeys I view (find_spec tb_users (\<lambda>x. u_NormalizedEmail x = n)) (GetUserByNormalizedEmail ops n))
     \<and> (\<forall>x. sb_user sb x \<and> u_Id x \<noteq> ''''
          \<longrightarrow> obeys I view (create_spec tb_users tb_users_update u_Id user_clash x) (CreateUser ops x))
     \<and> (\<forall>x. sb_user sb x
          \<longrightarrow> obeys I view (update_spec tb_users tb_users_update u_Id user_clash x) (UpdateUser ops x))
     \<and> (\<forall>k. obeys I view (delete_spec tb_users tb_users_update k) (DeleteUser ops k))
     \<and> (\<forall>f opts. filter_on sb f \<longrightarrow> obeys I view (list_spec tb_accessTokens (\<lambda>x. (at_CreatedAt x, at_Id x)) (at_matches f) opts) (ListAccessTokens ops f opts))
     \<and> (\<forall>k. obeys I view (get_spec tb_accessTokens k) (GetAccessTokenById ops k))
     \<and> (\<forall>h. obeys I view (find_spec tb_accessTokens (\<lambda>x. at_TokenHash x = h)) (GetAccessTokenByHash ops h))
     \<and> (\<forall>x. sb_access_token sb x \<and> at_Id x \<noteq> ''''
          \<longrightarrow> obeys I view (create_spec tb_accessTokens tb_accessTokens_update at_Id access_token_clash x) (CreateAccessToken ops x))
     \<and> (\<forall>k. obeys I view (delete_spec tb_accessTokens tb_accessTokens_update k) (DeleteAccessToken ops k))
     \<and> (\<forall>f. filter_on sb f \<longrightarrow> obeys I view (delete_where_spec tb_accessTokens tb_accessTokens_update (at_matches f)) (DeleteAccessTokens ops f))
     \<and> (\<forall>f opts. filter_on sb f \<longrightarrow> obeys I view (list_spec tb_refreshTokens (\<lambda>x. (rt_CreatedAt x, rt_Id x)) (rt_matches f) opts) (ListRefreshTokens ops f opts))
     \<and> (\<forall>k. obeys I view (get_spec tb_refreshTokens k) (GetRefreshTokenById ops k))
     \<and> (\<forall>h. obeys I view (find_spec tb_refreshTokens (\<lambda>x. rt_TokenHash x = h)) (GetRefreshTokenByHash ops h))
     \<and> (\<forall>x. sb_refresh_token sb x \<and> rt_Id x \<noteq> ''''
          \<longrightarrow> obeys I view (create_spec tb_refreshTokens tb_refreshTokens_update rt_Id refresh_token_clash x) (CreateRefreshToken ops x))
     \<and> (\<forall>x. sb_refresh_token sb x
          \<longrightarrow> obeys I view (update_spec tb_refreshTokens tb_refreshTokens_update rt_Id refresh_token_clash x) (UpdateRefreshToken ops x))
     \<and> (\<forall>k. obeys I view (delete_spec tb_refreshTokens tb_refreshTokens_update k) (DeleteRefreshToken ops k))
     \<and> (\<forall>f. filter_on sb f \<longrightarrow> obeys I view (delete_where_spec tb_refreshTokens tb_refreshTokens_update (rt_matches f)) (DeleteRefreshTokens ops f))
     \<and> (\<forall>h. obeys I view (find_spec tb_authorizationCodes (\<lambda>x. ac_CodeHash x = h)) (GetAuthorizationCodeByHash ops h))
     \<and> (\<forall>x. sb_code sb x \<and> ac_Id x \<noteq> ''''
          \<longrightarrow> obeys I view (create_spec tb_authorizationCodes tb_authorizationCodes_update ac_Id code_clash x) (CreateAuthorizationCode ops x))
     \<and> (\<forall>k t. sb_time sb t
          \<longrightarrow> obeys I view (consume_spec k t) (ConsumeAuthorizationCode ops k t))
     \<and> (\<forall>k. obeys I view (delete_spec tb_authorizationCodes tb_authorizationCodes_update k) (DeleteAuthorizationCode ops k))
     \<and> (\<forall>before. sb_cutoff sb before \<longrightarrow> obeys I view (delete_where_spec tb_authorizationCodes tb_authorizationCodes_update (\<lambda>x. ac_ExpiresAt x \<le> before)) (DeleteExpiredAuthorizationCodes ops before))
     \<and> (\<forall>h purpose. obeys I view (find_spec tb_userTokens (\<lambda>x. ut_Purpose x = purpose \<and> ut_TokenHash x = h)) (GetUserTokenByHash ops purpose h))
     \<and> (\<forall>x. sb_user_token sb x \<and> ut_Id x \<noteq> ''''
          \<longrightarrow> obeys I view (create_spec tb_userTokens tb_userTokens_update ut_Id user_token_clash x) (CreateUserToken ops x))
     \<and> (\<forall>k. obeys I view (delete_spec tb_userTokens tb_userTokens_update k) (DeleteUserToken ops k))
     \<and> (\<forall>userId purpose. obeys I view (delete_where_spec tb_userTokens tb_userTokens_update (\<lambda>x. ut_UserId x = userId \<and> ut_Purpose x = purpose)) (DeleteUserTokens ops userId purpose))
     \<and> (\<forall>before. sb_cutoff sb before \<longrightarrow> obeys I view (delete_where_spec tb_userTokens tb_userTokens_update (\<lambda>x. ut_ExpiresAt x \<le> before)) (DeleteExpiredUserTokens ops before))"

definition everything :: storable where
  "everything = \<lparr>sb_client = \<lambda>_. True, sb_user = \<lambda>_. True, sb_access_token = \<lambda>_. True, sb_refresh_token = \<lambda>_. True,
     sb_code = \<lambda>_. True, sb_user_token = \<lambda>_. True, sb_time = \<lambda>_. True,
     sb_cutoff = \<lambda>_. True\<rparr>"

lemma everything_storable [simp]:
  "sb_client everything x" "sb_user everything u" "sb_access_token everything a" "sb_refresh_token everything r"
  "sb_code everything c" "sb_user_token everything t" "sb_time everything m"
  "sb_cutoff everything m" "filter_on everything f"
  by (simp_all add: everything_def filter_on_def split: option.split)

context store
begin

lemmas laws = st_ListClients st_GetClientById st_GetClientByClientId st_CreateClient
  st_UpdateClient st_DeleteClient st_ListUsers st_GetUserById
  st_GetUserByNormalizedUsername st_GetUserByNormalizedEmail st_CreateUser st_UpdateUser
  st_DeleteUser st_ListAccessTokens st_GetAccessTokenById st_GetAccessTokenByHash
  st_CreateAccessToken st_DeleteAccessToken st_DeleteAccessTokens st_ListRefreshTokens
  st_GetRefreshTokenById st_GetRefreshTokenByHash st_CreateRefreshToken st_UpdateRefreshToken
  st_DeleteRefreshToken st_DeleteRefreshTokens st_GetAuthorizationCodeByHash st_CreateAuthorizationCode
  st_ConsumeAuthorizationCode st_DeleteAuthorizationCode st_DeleteExpiredAuthorizationCodes st_GetUserTokenByHash
  st_CreateUserToken st_DeleteUserToken st_DeleteUserTokens st_DeleteExpiredUserTokens

lemma on_everything: "contract_on everything ops I view lower"
  unfolding contract_on_def by (intro conjI allI impI view_ok laws) simp_all

end

lemma store_iff_contract: "store ops I view lower \<longleftrightarrow> contract_on everything ops I view lower"
proof
  assume "store ops I view lower"
  then show "contract_on everything ops I view lower" by (rule store.on_everything)
next
  assume "contract_on everything ops I view lower"
  then show "store ops I view lower"
    unfolding contract_on_def by (unfold_locales; elim conjE; simp)
qed

end
