(* ===== verification/MongoProperties.thy ===== *)
theory MongoProperties
  imports MongoProofs MemoryStore StoreContract
begin

text \<open>
  The properties of the MongoDB store. \<open>ref_collection\<close> is a collection with the documented behaviour as executable
  functions on a list of documents; it shows that the laws of \<open>mongo_database\<close> can be met, and on it the operations of
  the store can be run.
\<close>

section \<open>A collection as a list of documents\<close>

definition ref_collection ::
  "('d \<Rightarrow> (string \<times> 'doc) list) \<Rightarrow> (((string \<times> 'doc) list \<Rightarrow> (string \<times> 'doc) list) \<Rightarrow> 'd \<Rightarrow> 'd) \<Rightarrow>
   ('doc \<Rightarrow> bson_doc) \<Rightarrow> string list \<Rightarrow> (string \<Rightarrow> string \<Rightarrow> bool) \<Rightarrow> (bson_doc \<Rightarrow> 'doc \<Rightarrow> 'doc) \<Rightarrow> ('d, 'doc) collection" where
  "ref_collection getl updl bson_of uniq rx setdoc =
     \<lparr>coll_FindOne = (\<lambda>f d. case find (\<lambda>(k, x). bson_matches rx f (bson_of x)) (getl d) of
         None \<Rightarrow> (Inl NoDocuments, d) | Some (k, x) \<Rightarrow> (Inr x, d)),
      coll_CountDocuments = (\<lambda>f limit d.
         let c = length (filter (\<lambda>(k, x). bson_matches rx f (bson_of x)) (getl d))
         in (Inr (case limit of None \<Rightarrow> c | Some l \<Rightarrow> min c l), d)),
      coll_Find = (\<lambda>f order skip limit d. (Inr (take (nat limit) (drop (nat skip)
         (sort_key (\<lambda>x. (doc_date (bson_of x), doc_id (bson_of x)))
           (map snd (filter (\<lambda>(k, x). bson_matches rx f (bson_of x)) (getl d)))))), d)),
      coll_InsertOne = (\<lambda>x d.
         if map_of (getl d) (doc_id (bson_of x)) \<noteq> None \<or> list_ex (\<lambda>(k, y). clash_on bson_of uniq x y) (getl d)
         then (Inl DuplicateKey, d) else (Inr (), updl ((#) (doc_id (bson_of x), x)) d)),
      coll_ReplaceOne = (\<lambda>f x d. case find (\<lambda>(k, x). bson_matches rx f (bson_of x)) (getl d) of
         None \<Rightarrow> (Inr 0, d)
       | Some (k, _) \<Rightarrow> if list_ex (\<lambda>(l, y). l \<noteq> k \<and> clash_on bson_of uniq x y) (getl d)
           then (Inl DuplicateKey, d) else (Inr 1, updl (AList.update k x) d)),
      coll_UpdateOne = (\<lambda>f u d. case find (\<lambda>(k, x). bson_matches rx f (bson_of x)) (getl d) of
         None \<Rightarrow> (Inr 0, d) | Some (k, x) \<Rightarrow> (Inr 1, updl (AList.update k (setdoc u x)) d)),
      coll_DeleteOne = (\<lambda>f d. case find (\<lambda>(k, x). bson_matches rx f (bson_of x)) (getl d) of
         None \<Rightarrow> (Inr 0, d) | Some (k, _) \<Rightarrow> (Inr 1, updl (AList.delete k) d)),
      coll_DeleteMany = (\<lambda>f d.
         (Inr (length (filter (\<lambda>(k, x). bson_matches rx f (bson_of x)) (getl d))),
          updl (filter (\<lambda>(k, x). \<not> bson_matches rx f (bson_of x))) d))\<rparr>"

text \<open>What holds of the documents: keys are the ids, not empty, and the unique fields differ.\<close>

definition docs_inv :: "('doc \<Rightarrow> bson_doc) \<Rightarrow> ('doc \<Rightarrow> bool) \<Rightarrow> string list \<Rightarrow> (string \<times> 'doc) list \<Rightarrow> bool" where
  "docs_inv bson_of aligned uniq m \<longleftrightarrow> gm_ok (\<lambda>x. doc_id (bson_of x)) m
     \<and> (\<forall>k x. map_of m k = Some x \<longrightarrow> k \<noteq> '''' \<and> aligned x)
     \<and> (\<forall>k x l y. map_of m k = Some x \<longrightarrow> map_of m l = Some y \<longrightarrow> clash_on bson_of uniq x y \<longrightarrow> k = l)"

lemma clash_sym: "clash_on bson_of uniq x y \<longleftrightarrow> clash_on bson_of uniq y x"
  unfolding clash_on_def list_ex_iff by metis

lemma docs_inv_sub:
  "docs_inv bson_of aligned uniq m \<Longrightarrow> gm_ok (\<lambda>x. doc_id (bson_of x)) m' \<Longrightarrow>
     (\<And>k x. map_of m' k = Some x \<Longrightarrow> map_of m k = Some x) \<Longrightarrow> docs_inv bson_of aligned uniq m'"
  unfolding docs_inv_def by blast

lemma docs_inv_put:
  assumes "docs_inv bson_of aligned uniq m" and "doc_id (bson_of x) = k" and "k \<noteq> ''''" and "aligned x"
    and new: "\<And>l y. map_of m l = Some y \<Longrightarrow> l \<noteq> k \<Longrightarrow> \<not> clash_on bson_of uniq x y"
  shows "docs_inv bson_of aligned uniq (AList.update k x m)"
proof -
  have "l = k" if "map_of m l = Some y" "clash_on bson_of uniq y x" for l y
    using new [OF that(1)] that(2) clash_sym [of bson_of uniq y x] by blast
  then show ?thesis using assms unfolding docs_inv_def by (auto simp: gm_ok_update update_conv split: if_splits)
qed

text \<open>A list in the state of the database, and what \<open>data\<close> reads from it.\<close>

locale ref_lens =
  fixes getl :: "'d \<Rightarrow> (string \<times> 'doc) list"
    and updl :: "((string \<times> 'doc) list \<Rightarrow> (string \<times> 'doc) list) \<Rightarrow> 'd \<Rightarrow> 'd"
    and I :: "'d \<Rightarrow> bool"
    and data :: "'d \<Rightarrow> mongo_data"
    and get :: "mongo_data \<Rightarrow> string \<rightharpoonup> 'doc"
    and upd :: "((string \<rightharpoonup> 'doc) \<Rightarrow> (string \<rightharpoonup> 'doc)) \<Rightarrow> mongo_data \<Rightarrow> mongo_data"
    and bson_of :: "'doc \<Rightarrow> bson_doc"
    and aligned :: "'doc \<Rightarrow> bool"
    and uniq :: "string list"
    and rx :: "string \<Rightarrow> string \<Rightarrow> bool"
    and setdoc :: "bson_doc \<Rightarrow> 'doc \<Rightarrow> 'doc"
  assumes L_inv: "I d \<Longrightarrow> docs_inv bson_of aligned uniq (getl d)"
    and L_put: "I d \<Longrightarrow> docs_inv bson_of aligned uniq (h (getl d)) \<Longrightarrow> I (updl h d)"
    and L_get: "get (data d) = map_of (getl d)"
    and L_upd: "data (updl h d) = upd (\<lambda>_. map_of (h (getl d))) (data d)"
    and L_const: "upd g D = upd (\<lambda>_. g (get D)) D"
    and L_id: "map_of (bson_of x) ''_id'' = Some (BString (doc_id (bson_of x)))"
begin

abbreviation "P f x \<equiv> bson_matches rx f (bson_of x)"

lemma L_gm: "I d \<Longrightarrow> gm_ok (\<lambda>x. doc_id (bson_of x)) (getl d)"
  using L_inv by (simp add: docs_inv_def)

lemma L_data: "map_of (h (getl d)) = g (map_of (getl d)) \<Longrightarrow> data (updl h d) = upd g (data d)"
  unfolding L_upd L_const [of g] L_get by simp

lemma L_find:
  assumes "I d"
  shows "find (\<lambda>(k, x). Q x) (getl d) = Some (k, x) \<Longrightarrow> map_of (getl d) k = Some x \<and> Q x"
    and "find (\<lambda>(k, x). Q x) (getl d) = None \<longleftrightarrow> (\<forall>x \<in> ran (get (data d)). \<not> Q x)"
  using find_snd_Some [OF L_gm [OF assms]] find_snd_None [OF L_gm [OF assms]] by (fastforce simp: L_get ran_def)+

lemma L_find_id:
  assumes "I d"
  shows "find (\<lambda>(k', x). P [(''_id'', BString k)] x) (getl d) = (case map_of (getl d) k of None \<Rightarrow> None | Some x \<Rightarrow> Some (k, x))"
proof -
  have p: "P [(''_id'', BString k)] x \<longleftrightarrow> doc_id (bson_of x) = k" for x by (rule matches_id) (rule L_id)
  show ?thesis unfolding p
  proof (cases "find (\<lambda>(k', x). doc_id (bson_of x) = k) (getl d)")
    case None
    with L_find(2) [OF assms, of "\<lambda>x. doc_id (bson_of x) = k"] have "map_of (getl d) k = None"
      using gm_ok_key [OF L_gm [OF assms], of k] by (cases "map_of (getl d) k") (auto simp: L_get ran_def)
    with None show "find (\<lambda>(k', x). doc_id (bson_of x) = k) (getl d) = (case map_of (getl d) k of None \<Rightarrow> None | Some x \<Rightarrow> Some (k, x))"
      by simp
  next
    case (Some kx)
    then show "find (\<lambda>(k', x). doc_id (bson_of x) = k) (getl d) = (case map_of (getl d) k of None \<Rightarrow> None | Some x \<Rightarrow> Some (k, x))"
      using L_find(1) [OF assms, of "\<lambda>x. doc_id (bson_of x) = k" "fst kx" "snd kx"] gm_ok_key [OF L_gm [OF assms], of "fst kx" "snd kx"]
      by (cases kx) auto
  qed
qed

lemma L_clash: "I d \<Longrightarrow> list_ex (\<lambda>(l, y). Q l y) (getl d) \<longleftrightarrow> (\<exists>l y. map_of (getl d) l = Some y \<and> Q l y)"
  using gm_ok_distinct [OF L_gm] by (force simp: list_ex_iff map_of_eq_Some_iff)

abbreviation "ref \<equiv> ref_collection getl updl bson_of uniq rx setdoc"

lemma L_stored: "I d \<Longrightarrow> get (data d) k = Some x \<Longrightarrow>
    map_of (bson_of x) ''_id'' = Some (BString k) \<and> k \<noteq> '''' \<and> aligned x"
  using L_inv [of d] L_id [of x] gm_ok_key [OF L_gm, of d k x] unfolding docs_inv_def L_get by auto

lemma L_unique: "I d \<Longrightarrow> get (data d) k = Some x \<Longrightarrow> get (data d) l = Some y \<Longrightarrow> clash_on bson_of uniq x y \<Longrightarrow> k = l"
  using L_inv unfolding docs_inv_def L_get by blast

lemma L_page:
  assumes "I d"
  defines "xs \<equiv> \<lambda>Q. sort_key (\<lambda>x. (doc_date (bson_of x), doc_id (bson_of x))) (map snd (filter (\<lambda>(k, x). Q x) (getl d)))"
  shows "set (xs Q) = {x \<in> ran (get (data d)). Q x} \<and> distinct (xs Q)
     \<and> sorted (map (\<lambda>x. (doc_date (bson_of x), doc_id (bson_of x))) (xs Q))"
proof -
  let ?f = "filter (\<lambda>(k, x). Q x) (getl d)"
  have g: "gm_ok (\<lambda>x. doc_id (bson_of x)) ?f" using L_gm [OF assms(1)] by (rule gm_ok_filter)
  have "set (map snd ?f) = {x \<in> ran (get (data d)). Q x}"
    using gm_ok_ran [OF g] map_of_filter_keep [OF L_gm [OF assms(1)], of Q] by (auto simp: L_get ran_keep)
  then show ?thesis unfolding xs_def using gm_ok_values_distinct [OF g] by (simp del: set_map)
qed

lemma L_insert:
  assumes i: "I d" and x: "map_of (bson_of x) ''_id'' = Some (BString k)" "k \<noteq> ''''" "aligned x"
    and r: "coll_InsertOne ref x d = (r, d')"
  shows "I d' \<and> (if r = Inr () then k \<notin> dom (get (data d)) \<and> (\<forall>y \<in> ran (get (data d)). \<not> clash_on bson_of uniq x y)
        \<and> data d' = upd (\<lambda>m. m(k \<mapsto> x)) (data d)
      else data d' = data d \<and> ((\<exists>msg. r = Inl (MongoFailure msg)) \<or> r = Inl DuplicateKey
        \<and> (k \<in> dom (get (data d)) \<or> (\<exists>y \<in> ran (get (data d)). clash_on bson_of uniq x y))))"
proof -
  have k: "doc_id (bson_of x) = k" using x(1) L_id [of x] by simp
  show ?thesis
  proof (cases "map_of (getl d) k \<noteq> None \<or> list_ex (\<lambda>(k, y). clash_on bson_of uniq x y) (getl d)")
    case True
    with r i show ?thesis using L_clash [OF i, of "\<lambda>_. clash_on bson_of uniq x"]
      by (auto simp: ref_collection_def k L_get dom_def ran_def)
  next
    case False
    have n: "map_of (getl d) k = None" and c: "\<And>l y. map_of (getl d) l = Some y \<Longrightarrow> \<not> clash_on bson_of uniq x y"
      using False L_clash [OF i, of "\<lambda>_. clash_on bson_of uniq x"] by auto
    have f: "k \<notin> fst ` set (getl d)" using n by (simp add: map_of_eq_None_iff)
    have g: "gm_ok (\<lambda>x. doc_id (bson_of x)) ((k, x) # getl d)" using L_gm [OF i] f by (simp add: gm_ok_def k)
    have p: "docs_inv bson_of aligned uniq (AList.update k x (getl d))"
      by (rule docs_inv_put [OF L_inv [OF i] k x(2,3) c])
    have "docs_inv bson_of aligned uniq ((k, x) # getl d)"
      by (rule docs_inv_sub [OF p g]) (simp add: update_conv')
    then have "I (updl ((#) (k, x)) d)" by (rule L_put [OF i])
    moreover have "data (updl ((#) (k, x)) d) = upd (\<lambda>m. m(k \<mapsto> x)) (data d)" by (rule L_data) simp
    moreover have "r = Inr () \<and> d' = updl ((#) (k, x)) d" using r False by (simp add: ref_collection_def k)
    ultimately show ?thesis using c n by (auto simp: L_get ran_def)
  qed
qed

lemma L_replace:
  assumes i: "I d" and x: "map_of (bson_of x) ''_id'' = Some (BString k)" "aligned x"
    and r: "coll_ReplaceOne ref [(''_id'', BString k)] x d = (r, d')"
  shows "I d' \<and> (case r of Inr n \<Rightarrow> if k \<in> dom (get (data d))
        then n = 1 \<and> (\<forall>l y. get (data d) l = Some y \<longrightarrow> l \<noteq> k \<longrightarrow> \<not> clash_on bson_of uniq x y)
          \<and> data d' = upd (\<lambda>m. m(k \<mapsto> x)) (data d)
        else n = 0 \<and> data d' = data d
      | Inl DuplicateKey \<Rightarrow> data d' = data d \<and> k \<in> dom (get (data d))
        \<and> (\<exists>l y. get (data d) l = Some y \<and> l \<noteq> k \<and> clash_on bson_of uniq x y)
      | Inl (MongoFailure msg) \<Rightarrow> data d' = data d
      | Inl NoDocuments \<Rightarrow> False)"
proof (cases "map_of (getl d) k")
  case None
  with r i show ?thesis by (auto simp: ref_collection_def L_find_id [OF i] L_get)
next
  case (Some y)
  have k: "doc_id (bson_of x) = k" using x(1) L_id [of x] by simp
  have ne: "k \<noteq> ''''" using L_stored [OF i, of k y] Some by (simp add: L_get)
  show ?thesis
  proof (cases "list_ex (\<lambda>(l, y). l \<noteq> k \<and> clash_on bson_of uniq x y) (getl d)")
    case True
    with r Some have "r = Inl DuplicateKey \<and> d' = d" by (simp add: ref_collection_def L_find_id [OF i])
    with True i Some L_clash [OF i, of "\<lambda>l y. l \<noteq> k \<and> clash_on bson_of uniq x y"] show ?thesis
      by (simp add: L_get dom_def)
  next
    case False
    then have c: "\<And>l y. map_of (getl d) l = Some y \<Longrightarrow> l \<noteq> k \<Longrightarrow> \<not> clash_on bson_of uniq x y"
      using L_clash [OF i, of "\<lambda>l y. l \<noteq> k \<and> clash_on bson_of uniq x y"] by auto
    have "I (updl (AList.update k x) d)" by (rule L_put [OF i]) (rule docs_inv_put [OF L_inv [OF i] k ne x(2) c])
    moreover have "data (updl (AList.update k x) d) = upd (\<lambda>m. m(k \<mapsto> x)) (data d)" by (rule L_data) (simp add: update_conv')
    moreover have "r = Inr 1 \<and> d' = updl (AList.update k x) d" using r False Some by (simp add: ref_collection_def L_find_id [OF i])
    ultimately show ?thesis using c Some by (simp add: L_get dom_def)
  qed
qed

lemma L_delete:
  assumes i: "I d" and r: "coll_DeleteOne ref [(''_id'', BString k)] d = (r, d')"
  shows "I d' \<and> (case r of Inr n \<Rightarrow> if k \<in> dom (get (data d)) then n = 1 \<and> data d' = upd (\<lambda>m. m(k := None)) (data d)
        else n = 0 \<and> data d' = data d
      | Inl e \<Rightarrow> (\<exists>msg. e = MongoFailure msg) \<and> data d' = data d)"
proof -
  have "I (updl (AList.delete k) d)"
    by (rule L_put [OF i], rule docs_inv_sub [OF L_inv [OF i]])
      (auto simp: gm_ok_delete [OF L_gm [OF i]] delete_conv split: if_splits)
  moreover have "data (updl (AList.delete k) d) = upd (\<lambda>m. m(k := None)) (data d)" by (rule L_data) (simp add: delete_conv')
  ultimately show ?thesis using r i by (auto simp: ref_collection_def L_find_id [OF i] L_get split: option.splits)
qed

lemma L_delete_many:
  assumes i: "I d" and r: "coll_DeleteMany ref f d = (r, d')"
  shows "I d' \<and> (case r of Inr n \<Rightarrow> n = card {k. \<exists>x. get (data d) k = Some x \<and> P f x}
          \<and> data d' = upd (keep (\<lambda>x. \<not> P f x)) (data d)
      | Inl e \<Rightarrow> (\<exists>msg. e = MongoFailure msg) \<and> data d' = data d)"
proof -
  have "I (updl (filter (\<lambda>(k, x). \<not> P f x)) d)"
    by (rule L_put [OF i], rule docs_inv_sub [OF L_inv [OF i]])
      (auto simp: gm_ok_filter [OF L_gm [OF i]] map_of_filter_keep [OF L_gm [OF i]])
  moreover have "data (updl (filter (\<lambda>(k, x). \<not> P f x)) d) = upd (keep (\<lambda>x. \<not> P f x)) (data d)"
    by (rule L_data) (rule map_of_filter_keep [OF L_gm [OF i]])
  ultimately show ?thesis using r by (auto simp: ref_collection_def L_get filter_card [OF L_gm [OF i]])
qed

end

sublocale ref_lens \<subseteq> mongo_collection "ref_collection getl updl bson_of uniq rx setdoc" I data get upd bson_of aligned uniq rx
proof (unfold_locales, goal_cases)
  case (1 d k x)
  then show ?case by (rule L_stored)
next
  case (2 d)
  show ?case by (simp add: L_get finite_dom_map_of)
next
  case (3 d k x l y)
  then show ?case by (rule L_unique)
next
  case (4 d f rd d')
  then show ?case using L_find [OF 4(1), of "P f"] by (auto simp: ref_collection_def L_get ranI split: option.splits)
next
  case (5 d f limit rn d')
  with filter_card [OF L_gm [OF 5(1)], of "P f"] show ?case
    by (auto simp: ref_collection_def Let_def L_get split: option.splits)
next
  case (6 d f skip lim rp d')
  let ?xs = "sort_key (\<lambda>x. (doc_date (bson_of x), doc_id (bson_of x))) (map snd (filter (\<lambda>(k, x). P f x) (getl d)))"
  from 6 have "d' = d" "rp = Inr (take (nat lim) (drop (nat skip) ?xs))" by (auto simp: ref_collection_def)
  with 6(1) L_page [OF 6(1), of "P f"] show ?case by (simp only: sum.case) blast
next
  case (7 d x k ru d')
  then show ?case by (rule L_insert)
next
  case (8 d x k rn d')
  then show ?case by (rule L_replace)
next
  case (9 d k rn d')
  then show ?case by (rule L_delete)
next
  case (10 d f rn d')
  then show ?case by (intro L_delete_many)
qed

section \<open>The reference database\<close>

record mongo_lists =
  ml_clients :: "(string \<times> clientDocument) list"
  ml_users :: "(string \<times> userDocument) list"
  ml_accessTokens :: "(string \<times> accessTokenDocument) list"
  ml_refreshTokens :: "(string \<times> refreshTokenDocument) list"
  ml_authorizationCodes :: "(string \<times> authorizationCodeDocument) list"
  ml_userTokens :: "(string \<times> userTokenDocument) list"

definition ref_empty :: mongo_lists where
  "ref_empty = \<lparr>ml_clients = [], ml_users = [], ml_accessTokens = [], ml_refreshTokens = [],
     ml_authorizationCodes = [], ml_userTokens = []\<rparr>"

definition ref_data :: "mongo_lists \<Rightarrow> mongo_data" where
  "ref_data d = \<lparr>md_clients = map_of (ml_clients d), md_users = map_of (ml_users d),
     md_accessTokens = map_of (ml_accessTokens d), md_refreshTokens = map_of (ml_refreshTokens d),
     md_authorizationCodes = map_of (ml_authorizationCodes d), md_userTokens = map_of (ml_userTokens d)\<rparr>"

definition ref_inv :: "mongo_lists \<Rightarrow> bool" where
  "ref_inv d \<longleftrightarrow>
     docs_inv clientDocument_fields (\<lambda>x. storable_client (clientDocument_toModel x)) (unique_of ''clients'') (ml_clients d)
     \<and> docs_inv userDocument_fields (\<lambda>x. storable_user (userDocument_toModel x)) (unique_of ''users'') (ml_users d)
     \<and> docs_inv accessTokenDocument_fields (\<lambda>x. storable_access_token (accessTokenDocument_toModel x))
         (unique_of ''access_tokens'') (ml_accessTokens d)
     \<and> docs_inv refreshTokenDocument_fields (\<lambda>x. storable_refresh_token (refreshTokenDocument_toModel x))
         (unique_of ''refresh_tokens'') (ml_refreshTokens d)
     \<and> docs_inv authorizationCodeDocument_fields (\<lambda>x. storable_code (authorizationCodeDocument_toModel x))
         (unique_of ''authorization_codes'') (ml_authorizationCodes d)
     \<and> docs_inv userTokenDocument_fields (\<lambda>x. storable_user_token (userTokenDocument_toModel x))
         (unique_of ''user_tokens'') (ml_userTokens d)"

text \<open>Regular expressions that are quoted texts.\<close>

fun unquote :: "string \<Rightarrow> string" where
  "unquote (c # d # r) = (if c = CHR 0x5C then d # unquote r else c # unquote (d # r))"
| "unquote r = r"

definition ref_regex :: "string \<Rightarrow> string \<Rightarrow> bool" where
  "ref_regex p s = contains_str s (unquote p)"

lemma unquote_QuoteMeta: "unquote (QuoteMeta p) = p"
proof -
  have plain: "c \<noteq> CHR 0x5C \<Longrightarrow> unquote (c # r) = c # unquote r" for c r
    by (cases r) auto
  have special: "\<not> regexp_special c \<Longrightarrow> c \<noteq> CHR 0x5C" for c by (auto simp: regexp_special_def)
  show ?thesis by (induction p) (auto simp: QuoteMeta_def plain special)
qed

definition consume_update :: "bson_doc \<Rightarrow> authorizationCodeDocument \<Rightarrow> authorizationCodeDocument" where
  "consume_update u x =
     (case u of [(op, BDoc [(f, BDate t)])] \<Rightarrow>
          if op = ''$set'' \<and> f = ''consumed_at'' then x\<lparr>kd_ConsumedAt := Some t\<rparr> else x
      | _ \<Rightarrow> x)"

definition ref_store :: "mongo_lists mongo_Store" where
  "ref_store =
     \<lparr>mg_clients = ref_collection ml_clients ml_clients_update clientDocument_fields (unique_of ''clients'') ref_regex (\<lambda>_ x. x),
      mg_users = ref_collection ml_users ml_users_update userDocument_fields (unique_of ''users'') ref_regex (\<lambda>_ x. x),
      mg_accessTokens = ref_collection ml_accessTokens ml_accessTokens_update accessTokenDocument_fields
        (unique_of ''access_tokens'') ref_regex (\<lambda>_ x. x),
      mg_refreshTokens = ref_collection ml_refreshTokens ml_refreshTokens_update refreshTokenDocument_fields
        (unique_of ''refresh_tokens'') ref_regex (\<lambda>_ x. x),
      mg_authorizationCodes = ref_collection ml_authorizationCodes ml_authorizationCodes_update authorizationCodeDocument_fields
        (unique_of ''authorization_codes'') ref_regex consume_update,
      mg_userTokens = ref_collection ml_userTokens ml_userTokens_update userTokenDocument_fields
        (unique_of ''user_tokens'') ref_regex (\<lambda>_ x. x)\<rparr>"

interpretation ref_clients: ref_lens ml_clients ml_clients_update ref_inv ref_data md_clients md_clients_update
  clientDocument_fields "\<lambda>x. storable_client (clientDocument_toModel x)" "unique_of ''clients''" ref_regex "\<lambda>_ x. x"
  by unfold_locales (simp_all add: ref_inv_def ref_data_def doc_id_def clientDocument_fields_def)

interpretation ref_users: ref_lens ml_users ml_users_update ref_inv ref_data md_users md_users_update
  userDocument_fields "\<lambda>x. storable_user (userDocument_toModel x)" "unique_of ''users''" ref_regex "\<lambda>_ x. x"
  by unfold_locales (simp_all add: ref_inv_def ref_data_def doc_id_def userDocument_fields_def)

interpretation ref_access: ref_lens ml_accessTokens ml_accessTokens_update ref_inv ref_data md_accessTokens md_accessTokens_update
  accessTokenDocument_fields "\<lambda>x. storable_access_token (accessTokenDocument_toModel x)" "unique_of ''access_tokens''"
  ref_regex "\<lambda>_ x. x"
  by unfold_locales (simp_all add: ref_inv_def ref_data_def doc_id_def accessTokenDocument_fields_def)

interpretation ref_refresh: ref_lens ml_refreshTokens ml_refreshTokens_update ref_inv ref_data md_refreshTokens md_refreshTokens_update
  refreshTokenDocument_fields "\<lambda>x. storable_refresh_token (refreshTokenDocument_toModel x)" "unique_of ''refresh_tokens''"
  ref_regex "\<lambda>_ x. x"
  by unfold_locales (simp_all add: ref_inv_def ref_data_def doc_id_def refreshTokenDocument_fields_def)

interpretation ref_codes: ref_lens ml_authorizationCodes ml_authorizationCodes_update ref_inv ref_data md_authorizationCodes
  md_authorizationCodes_update authorizationCodeDocument_fields "\<lambda>x. storable_code (authorizationCodeDocument_toModel x)"
  "unique_of ''authorization_codes''" ref_regex consume_update
  by unfold_locales (simp_all add: ref_inv_def ref_data_def doc_id_def authorizationCodeDocument_fields_def)

interpretation ref_tokens: ref_lens ml_userTokens ml_userTokens_update ref_inv ref_data md_userTokens md_userTokens_update
  userTokenDocument_fields "\<lambda>x. storable_user_token (userTokenDocument_toModel x)" "unique_of ''user_tokens''"
  ref_regex "\<lambda>_ x. x"
  by unfold_locales (simp_all add: ref_inv_def ref_data_def doc_id_def userTokenDocument_fields_def)

text \<open>The update of an unconsumed code.\<close>

lemma ref_update_one:
  assumes i: "ref_inv d" and t: "exact_ms t"
    and r: "coll_UpdateOne (mg_authorizationCodes ref_store) [(''_id'', BString k), (''consumed_at'', BNull)]
      [(''$set'', BDoc [(''consumed_at'', BDate t)])] d = (r, d')"
  shows "ref_inv d' \<and>
     (case r of Inl e \<Rightarrow> (\<exists>msg. e = MongoFailure msg) \<and> ref_data d' = ref_data d
      | Inr n \<Rightarrow> (case md_authorizationCodes (ref_data d) k of
           Some x \<Rightarrow> if kd_ConsumedAt x = None
             then n = 1 \<and> (\<exists>y. authorizationCodeDocument_fields y
                      = set_fields [(''consumed_at'', BDate t)] (authorizationCodeDocument_fields x)
                    \<and> ref_data d' = md_authorizationCodes_update (\<lambda>m. m(k \<mapsto> y)) (ref_data d))
             else n = 0 \<and> ref_data d' = ref_data d
         | None \<Rightarrow> n = 0 \<and> ref_data d' = ref_data d))"
proof -
  let ?Q = "\<lambda>x. ref_codes.P [(''_id'', BString k), (''consumed_at'', BNull)] x"
  have Q: "?Q x \<longleftrightarrow> kd_Id x = k \<and> kd_ConsumedAt x = None" for x
    by (auto simp: bson_matches_def authorizationCodeDocument_fields_def bson_time_ptr_def split: option.splits)
  have K: "kd_Id x = k'" "k' \<noteq> ''''" "storable_code (authorizationCodeDocument_toModel x)"
    if "map_of (ml_authorizationCodes d) k' = Some x" for k' x
    using ref_codes.L_stored [OF i, of k' x] that
    by (simp_all add: ref_data_def authorizationCodeDocument_fields_def)
  have run: "coll_UpdateOne (mg_authorizationCodes ref_store) [(''_id'', BString k), (''consumed_at'', BNull)]
      [(''$set'', BDoc [(''consumed_at'', BDate t)])] d
    = (case find (\<lambda>(k, x). ?Q x) (ml_authorizationCodes d) of None \<Rightarrow> (Inr 0, d)
       | Some (k, x) \<Rightarrow> (Inr 1, ml_authorizationCodes_update (AList.update k (x\<lparr>kd_ConsumedAt := Some t\<rparr>)) d))"
    by (simp add: ref_store_def ref_collection_def consume_update_def cong: option.case_cong)
  show ?thesis
  proof (cases "find (\<lambda>(k, x). ?Q x) (ml_authorizationCodes d)")
    case None
    with r run have "r = Inr 0" "d' = d" by simp_all
    moreover have "kd_ConsumedAt x \<noteq> None" if "map_of (ml_authorizationCodes d) k = Some x" for x
      using iffD1 [OF ref_codes.L_find(2) [OF i, of ?Q] None] that K(1) [OF that]
      by (auto simp: Q ref_codes.L_get ran_def)
    ultimately show ?thesis using i by (auto simp: ref_codes.L_get split: option.splits)
  next
    case (Some kx)
    obtain k' x where kx: "kx = (k', x)" by (cases kx)
    note f = ref_codes.L_find(1) [OF i Some [unfolded kx], unfolded Q]
    have k: "k' = k" using f K(1) [of k' x] by simp
    let ?y = "x\<lparr>kd_ConsumedAt := Some t\<rparr>"
    have d': "r = Inr 1" "d' = ml_authorizationCodes_update (AList.update k ?y) d" using r run Some kx k by simp_all
    have st: "storable_code (authorizationCodeDocument_toModel ?y)" using K(3) [of k x] f k t
      by (simp add: storable_code_def toModel_defs mongo_conversions exact_ms_ptr_def)
    have "\<not> clash_on authorizationCodeDocument_fields (unique_of ''authorization_codes'') ?y y"
      if "map_of (ml_authorizationCodes d) l = Some y" "l \<noteq> k" for l y
      using ref_codes.L_unique [OF i, of k x l y] that f k
      by (auto simp: ref_codes.L_get clash_on_def unique_of_def mongo_indexes_def authorizationCodeDocument_fields_def)
    then have "docs_inv authorizationCodeDocument_fields (\<lambda>x. storable_code (authorizationCodeDocument_toModel x))
        (unique_of ''authorization_codes'') (AList.update k ?y (ml_authorizationCodes d))"
      using K(1,2) [of k x] f k st
      by (intro docs_inv_put [OF ref_codes.L_inv [OF i]]) (auto simp: doc_id_def authorizationCodeDocument_fields_def)
    then have "ref_inv d'" unfolding d' by (rule ref_codes.L_put [OF i])
    moreover have "ref_data d' = md_authorizationCodes_update (\<lambda>m. m(k \<mapsto> ?y)) (ref_data d)"
      unfolding d' by (rule ref_codes.L_data) (simp add: update_conv')
    ultimately show ?thesis using d'(1) f k by (auto simp: ref_codes.L_get code_set_fields)
  qed
qed

lemma ref_store_collections:
  "mg_clients ref_store = ref_clients.ref" "mg_users ref_store = ref_users.ref" "mg_accessTokens ref_store = ref_access.ref"
  "mg_refreshTokens ref_store = ref_refresh.ref" "mg_authorizationCodes ref_store = ref_codes.ref"
  "mg_userTokens ref_store = ref_tokens.ref"
  by (simp_all add: ref_store_def)

lemmas ref_collections = ref_clients.mongo_collection_axioms ref_users.mongo_collection_axioms
  ref_access.mongo_collection_axioms ref_refresh.mongo_collection_axioms ref_codes.mongo_collection_axioms
  ref_tokens.mongo_collection_axioms

interpretation ref_db: mongo_database ref_store ref_inv ref_data ref_regex
proof (intro mongo_database.intro mongo_database_axioms.intro, goal_cases)
  case (7 p s)
  show ?case by (simp add: ref_regex_def unquote_QuoteMeta)
next
  case (8 d t k r d')
  then show ?case by (rule ref_update_one)
qed (rule ref_collections [folded ref_store_collections])+

section \<open>Properties\<close>

definition mongo_storable :: storable where
  "mongo_storable = \<lparr>sb_client = storable_client, sb_user = storable_user, sb_access_token = storable_access_token,
     sb_refresh_token = storable_refresh_token, sb_code = storable_code, sb_user_token = storable_user_token,
     sb_time = exact_ms, sb_cutoff = \<lambda>_. True\<rparr>"

lemma mongo_storable_simps [simp]:
  "sb_client mongo_storable = storable_client" "sb_user mongo_storable = storable_user"
  "sb_access_token mongo_storable = storable_access_token" "sb_refresh_token mongo_storable = storable_refresh_token"
  "sb_code mongo_storable = storable_code" "sb_user_token mongo_storable = storable_user_token"
  "sb_time mongo_storable = exact_ms" "sb_cutoff mongo_storable = (\<lambda>_. True)"
  by (simp_all add: mongo_storable_def)

lemma mongo_meets_contract:
  assumes "mongo_database st I data rx"
  shows "contract_on mongo_storable (mongo_ops ul st) I (mongo_view \<circ> data) (to_lower ul)"
  unfolding contract_on_def mongo_ops_def
  by (intro conjI allI impI; simp?; (elim conjE)?;
      (rule mongo_database.mongo_contract [OF assms] mongo_database.mongo_view_ok [OF assms]; assumption?))



text \<open>
  What the MongoDB store reads back is what it was given, with every time cut to the whole milliseconds of a BSON
  datetime, for all six kinds of entities.
\<close>

theorem mongo_documents_roundtrip:
  "clientDocument_toModel (clientToDocument c)
     = c\<lparr>c_CreatedAt := truncate_ms (c_CreatedAt c), c_UpdatedAt := truncate_ms (c_UpdatedAt c)\<rparr>
   \<and> userDocument_toModel (userToDocument u)
     = u\<lparr>u_LockoutEnd := map_option truncate_ms (u_LockoutEnd u), u_LastLoginAt := map_option truncate_ms (u_LastLoginAt u),
         u_CreatedAt := truncate_ms (u_CreatedAt u), u_UpdatedAt := truncate_ms (u_UpdatedAt u)\<rparr>
   \<and> accessTokenDocument_toModel (accessTokenToDocument a)
     = a\<lparr>at_CreatedAt := truncate_ms (at_CreatedAt a), at_ExpiresAt := truncate_ms (at_ExpiresAt a)\<rparr>
   \<and> refreshTokenDocument_toModel (refreshTokenToDocument r)
     = r\<lparr>rt_CreatedAt := truncate_ms (rt_CreatedAt r), rt_UpdatedAt := truncate_ms (rt_UpdatedAt r),
         rt_ExpiresAt := truncate_ms (rt_ExpiresAt r)\<rparr>
   \<and> authorizationCodeDocument_toModel (authorizationCodeToDocument k)
     = k\<lparr>ac_CreatedAt := truncate_ms (ac_CreatedAt k), ac_ExpiresAt := truncate_ms (ac_ExpiresAt k),
         ac_ConsumedAt := map_option truncate_ms (ac_ConsumedAt k)\<rparr>
   \<and> userTokenDocument_toModel (userTokenToDocument t)
     = t\<lparr>ut_CreatedAt := truncate_ms (ut_CreatedAt t), ut_ExpiresAt := truncate_ms (ut_ExpiresAt t)\<rparr>"
  by (simp only: document_eqs simp_thms)

end
