(* ===== verification/Format.thy ===== *)
theory Format
  imports Main
begin

text \<open>Numbers as decimal texts: \<open>strconv.Itoa\<close> of a natural number, and \<open>fmt.Sprint\<close> of an integer.\<close>

fun itoa :: "nat \<Rightarrow> string" where
  "itoa n = (if n < 10 then [char_of (48 + n)] else itoa (n div 10) @ [char_of (48 + n mod 10)])"

declare itoa.simps [simp del]

definition int_text :: "int \<Rightarrow> string" where
  "int_text n = (if n < 0 then ''-'' @ itoa (nat (- n)) else itoa (nat n))"

end
