(* ===== verification/StoreTest.thy ===== *)
theory StoreTest
  imports StoreContract MemoryStore Format
begin

text \<open>
  The conformance suite \<open>pkg/store/storetest\<close>: the nine tests, each the sequence of its calls on a store with what it
  expects of them. A test that calls \<open>t.Fatalf\<close> ends with a failure. That a store keeps no reference to a caller's value,
  which the suite tests by changing the value after the call, is the value semantics of HOL.
\<close>

section \<open>Tests\<close>

datatype test_failure = Unexpected string "store_error option" | Mismatch string

type_synonym 's test = "('s, test_failure, unit) act"

definition expectErr :: "('s, store_error, 'a) act \<Rightarrow> store_error \<Rightarrow> string \<Rightarrow> 's test" where
  "expectErr m target what =
     handle m (\<lambda>e. if e = target then ret () else fail (Unexpected what (Some e))) (\<lambda>_. fail (Unexpected what None))"

definition expectNoErr :: "('s, store_error, 'a) act \<Rightarrow> string \<Rightarrow> ('s, test_failure, 'a) act" where
  "expectNoErr m what = mapErr (\<lambda>e. Unexpected what (Some e)) m"

text \<open>A call that has to succeed, and a condition on its result.\<close>

definition expectOk :: "('s, store_error, 'a) act \<Rightarrow> string \<Rightarrow> 's test" where
  "expectOk m what = andThen (expectNoErr m what) (\<lambda>_. ret ())"

definition expectThat :: "('s, store_error, 'a) act \<Rightarrow> string \<Rightarrow> ('a \<Rightarrow> bool) \<Rightarrow> 's test" where
  "expectThat m what P = andThen (expectNoErr m what) (\<lambda>x. if P x then ret () else fail (Mismatch what))"

fun steps :: "'s test list \<Rightarrow> 's test" where
  "steps [] = ret ()"
| "steps (m # ms) = andThen m (\<lambda>_. steps ms)"

text \<open>The time of \<open>base\<close>, 2024-01-02T03:04:05.006Z, and minutes after it.\<close>

definition base_time :: time where "base_time = 1704164645006000000"

definition at_min :: "int \<Rightarrow> time" where "at_min minutes = base_time + minutes * (60 * 1000000000)"

text \<open>\<open>equalStrings\<close> and \<open>equalGrantTypes\<close>, with empty and nil lists alike.\<close>

definition equalStrings :: "string list \<Rightarrow> string list \<Rightarrow> bool" where
  "equalStrings a b \<longleftrightarrow> (if length a = 0 \<and> length b = 0 then True else a = b)"

definition equalTimePtr :: "time option \<Rightarrow> time option \<Rightarrow> bool" where
  "equalTimePtr a b = (case a of None \<Rightarrow> b = None | Some x \<Rightarrow> (case b of None \<Rightarrow> False | Some y \<Rightarrow> x = y))"

section \<open>Clients\<close>

definition test_newClient :: "string \<Rightarrow> string \<Rightarrow> time \<Rightarrow> client" where
  "test_newClient k clientId created =
     \<lparr>c_Id = k, c_ClientId = clientId, c_Name = ''Client '' @ clientId, c_Description = ''Description of '' @ clientId,
      c_Type = ClientTypeConfidential, c_SecretHash = ''hash-'' @ clientId,
      c_RedirectUris = [''https://example.com/cb'', ''https://example.com/cb2''], c_AllowedScopes = [''api.read'', ''api.write''],
      c_DefaultScopes = [''api.read''], c_AllowedGrantTypes = [GrantTypeAuthorizationCode, GrantTypeRefreshToken],
      c_RequireConsent = True, c_RequirePkce = True, c_Enabled = True, c_AccessTokenLifetime = 10 * 60 * 1000000000,
      c_AuthorizationCodeLifetime = 2 * 60 * 1000000000, c_RefreshTokenUsage = RefreshTokenUsageOneTime,
      c_RefreshTokenExpiration = RefreshTokenExpirationAbsolute, c_RefreshTokenLifetime = 48 * 3600 * 1000000000,
      c_CreatedAt = created, c_UpdatedAt = created\<rparr>"

definition compareClient :: "client \<Rightarrow> client \<Rightarrow> bool" where
  "compareClient e a \<longleftrightarrow>
     equalStrings (c_RedirectUris e) (c_RedirectUris a) \<and> equalStrings (c_AllowedScopes e) (c_AllowedScopes a)
     \<and> equalStrings (c_DefaultScopes e) (c_DefaultScopes a) \<and> equalStrings (c_AllowedGrantTypes e) (c_AllowedGrantTypes a)
     \<and> c_CreatedAt e = c_CreatedAt a \<and> c_UpdatedAt e = c_UpdatedAt a
     \<and> (let blank = (\<lambda>c. c\<lparr>c_RedirectUris := [], c_AllowedScopes := [], c_DefaultScopes := [], c_AllowedGrantTypes := [],
                          c_CreatedAt := 0, c_UpdatedAt := 0\<rparr>) in blank e = blank a)"

definition test_updatedClient :: client where
  "test_updatedClient = (test_newClient ''c1'' ''client-one-renamed'' (at_min 0))
     \<lparr>c_Name := ''Renamed'', c_Type := ClientTypePublic, c_SecretHash := '''', c_RedirectUris := [], c_AllowedScopes := [''x''],
      c_DefaultScopes := [], c_AllowedGrantTypes := [GrantTypeImplicit], c_RequireConsent := False, c_RequirePkce := False,
      c_Enabled := False, c_RefreshTokenUsage := RefreshTokenUsageReUse, c_RefreshTokenExpiration := RefreshTokenExpirationSliding,
      c_UpdatedAt := at_min 5\<rparr>"

definition testClients :: "'s store_ops \<Rightarrow> 's test" where
  "testClients s = steps
     [expectErr (GetClientById s ''missing'') ErrNotFound ''get missing client'',
      expectErr (GetClientByClientId s ''missing'') ErrNotFound ''get missing client by client id'',
      expectOk (CreateClient s (test_newClient ''c1'' ''client-one'' (at_min 0))) ''create client'',
      expectThat (GetClientById s ''c1'') ''get client'' (compareClient (test_newClient ''c1'' ''client-one'' (at_min 0))),
      expectThat (GetClientByClientId s ''client-one'') ''get client by client id''
        (compareClient (test_newClient ''c1'' ''client-one'' (at_min 0))),
      expectErr (CreateClient s (test_newClient ''c1'' ''other'' (at_min 0))) ErrDuplicate ''create duplicate id'',
      expectErr (CreateClient s (test_newClient ''c2'' ''client-one'' (at_min 0))) ErrDuplicate ''create duplicate client id'',
      expectOk (CreateClient s (test_newClient ''c2'' ''client-two'' (at_min 1))) ''create second client'',
      expectOk (UpdateClient s test_updatedClient) ''update client'',
      expectThat (GetClientById s ''c1'') ''get updated client'' (compareClient test_updatedClient),
      expectErr (GetClientByClientId s ''client-one'') ErrNotFound ''old client id after rename'',
      expectErr (UpdateClient s (test_newClient ''c1'' ''client-two'' (at_min 0))) ErrDuplicate ''update to duplicate client id'',
      expectErr (UpdateClient s (test_newClient ''missing'' ''missing'' (at_min 0))) ErrNotFound ''update missing client'',
      expectOk (DeleteClient s ''c1'') ''delete client'',
      expectErr (GetClientById s ''c1'') ErrNotFound ''get deleted client'',
      expectErr (DeleteClient s ''c1'') ErrNotFound ''delete missing client'']"

definition testClientList :: "'s store_ops \<Rightarrow> 's test" where
  "testClientList s = steps
     [expectThat (ListClients s \<lparr>lo_Offset = 0, lo_Limit = 0\<rparr>) ''list empty'' (\<lambda>(items, total). total = 0 \<and> length items = 0),
      expectOk (CreateClient s (test_newClient ''c3'' ''client-3'' (at_min 3))) ''create'',
      expectOk (CreateClient s (test_newClient ''c1'' ''client-1'' (at_min 1))) ''create'',
      expectOk (CreateClient s (test_newClient ''c2b'' ''client-2b'' (at_min 2))) ''create'',
      expectOk (CreateClient s (test_newClient ''c2a'' ''client-2a'' (at_min 2))) ''create'',
      expectThat (ListClients s \<lparr>lo_Offset = 0, lo_Limit = 10\<rparr>) ''list''
        (\<lambda>(items, total). total = 4 \<and> map c_Id items = [''c1'', ''c2a'', ''c2b'', ''c3'']),
      expectThat (ListClients s \<lparr>lo_Offset = 1, lo_Limit = 2\<rparr>) ''list page''
        (\<lambda>(items, total). total = 4 \<and> length items = 2 \<and> c_Id (items ! 0) = ''c2a'' \<and> c_Id (items ! 1) = ''c2b''
           \<and> compareClient (test_newClient ''c2a'' ''client-2a'' (at_min 2)) (items ! 0)),
      expectThat (ListClients s \<lparr>lo_Offset = 10, lo_Limit = 2\<rparr>) ''list beyond end''
        (\<lambda>(items, total). total = 4 \<and> length items = 0)]"

section \<open>Users\<close>

definition test_newUser :: "golib \<Rightarrow> string \<Rightarrow> string \<Rightarrow> time \<Rightarrow> user" where
  "test_newUser lib k username created =
     user_Normalize lib
     \<lparr>u_Id = k, u_Username = username, u_NormalizedUsername = '''', u_Email = username @ ''@Example.com'', u_NormalizedEmail = '''',
      u_PasswordHash = ''hash-'' @ username, u_EmailVerified = True, u_Enabled = True, u_SecurityStamp = ''stamp-'' @ username,
      u_FailedLoginCount = 2, u_LockoutEnd = Some (created + 3600 * 1000000000), u_LastLoginAt = Some (created + 60 * 1000000000),
      u_CreatedAt = created, u_UpdatedAt = created\<rparr>"

definition test_withEmail :: "golib \<Rightarrow> user \<Rightarrow> string \<Rightarrow> user" where
  "test_withEmail lib u email = user_Normalize lib (u\<lparr>u_Email := email\<rparr>)"

definition compareUser :: "user \<Rightarrow> user \<Rightarrow> bool" where
  "compareUser e a \<longleftrightarrow>
     equalTimePtr (u_LockoutEnd e) (u_LockoutEnd a) \<and> equalTimePtr (u_LastLoginAt e) (u_LastLoginAt a)
     \<and> u_CreatedAt e = u_CreatedAt a \<and> u_UpdatedAt e = u_UpdatedAt a
     \<and> (let blank = (\<lambda>u. u\<lparr>u_LockoutEnd := None, u_LastLoginAt := None, u_CreatedAt := 0, u_UpdatedAt := 0\<rparr>) in blank e = blank a)"

definition test_bob :: "golib \<Rightarrow> user" where
  "test_bob lib = (test_newUser lib ''u2'' ''bob'' (at_min 1))\<lparr>u_LockoutEnd := None, u_LastLoginAt := None\<rparr>"

definition test_updatedUser :: "golib \<Rightarrow> user" where
  "test_updatedUser lib = (test_newUser lib ''u1'' ''alice2'' (at_min 0))
     \<lparr>u_EmailVerified := False, u_Enabled := False, u_FailedLoginCount := 0, u_LockoutEnd := None,
      u_LastLoginAt := Some (at_min 9), u_UpdatedAt := at_min 10\<rparr>"

definition testUsers :: "golib \<Rightarrow> 's store_ops \<Rightarrow> 's test" where
  "testUsers lib s = steps
     [expectErr (GetUserById s ''missing'') ErrNotFound ''get missing user'',
      expectErr (GetUserByNormalizedUsername s ''missing'') ErrNotFound ''get missing user by username'',
      expectErr (GetUserByNormalizedEmail s ''missing@example.com'') ErrNotFound ''get missing user by email'',
      expectOk (CreateUser s (test_newUser lib ''u1'' ''Alice'' (at_min 0))) ''create user'',
      expectThat (GetUserById s ''u1'') ''get user'' (compareUser (test_newUser lib ''u1'' ''Alice'' (at_min 0))),
      expectThat (GetUserByNormalizedUsername s ''alice'') ''get user by username''
        (compareUser (test_newUser lib ''u1'' ''Alice'' (at_min 0))),
      expectThat (GetUserByNormalizedEmail s ''alice@example.com'') ''get user by email''
        (compareUser (test_newUser lib ''u1'' ''Alice'' (at_min 0))),
      expectErr (CreateUser s (test_newUser lib ''u1'' ''other'' (at_min 0))) ErrDuplicate ''create duplicate id'',
      expectErr (CreateUser s (test_withEmail lib (test_newUser lib ''u2'' ''ALICE'' (at_min 0)) ''unique@example.com''))
        ErrDuplicate ''create duplicate username'',
      expectErr (CreateUser s (test_withEmail lib (test_newUser lib ''u2'' ''bob'' (at_min 0)) ''alice@example.com''))
        ErrDuplicate ''create duplicate email'',
      expectOk (CreateUser s (test_bob lib)) ''create bob'',
      expectThat (GetUserById s ''u2'') ''get bob'' (compareUser (test_bob lib)),
      expectOk (UpdateUser s (test_updatedUser lib)) ''update user'',
      expectThat (GetUserById s ''u1'') ''get updated user'' (compareUser (test_updatedUser lib)),
      expectErr (GetUserByNormalizedUsername s ''alice'') ErrNotFound ''old username after rename'',
      expectErr (UpdateUser s (test_withEmail lib (test_newUser lib ''u1'' ''bob'' (at_min 0)) ''alice-unique@example.com''))
        ErrDuplicate ''update to duplicate username'',
      expectErr (UpdateUser s (test_newUser lib ''missing'' ''missing'' (at_min 0))) ErrNotFound ''update missing user'',
      expectOk (DeleteUser s ''u1'') ''delete user'',
      expectErr (GetUserById s ''u1'') ErrNotFound ''get deleted user'',
      expectErr (DeleteUser s ''u1'') ErrNotFound ''delete missing user'']"

definition testUserList :: "golib \<Rightarrow> 's store_ops \<Rightarrow> 's test" where
  "testUserList lib s = steps
     [expectOk (CreateUser s (test_newUser lib ''u3'' ''charlie'' (at_min 3))) ''create'',
      expectOk (CreateUser s (test_newUser lib ''u1'' ''alice'' (at_min 1))) ''create'',
      expectOk (CreateUser s (test_newUser lib ''u2'' ''bob'' (at_min 2))) ''create'',
      expectOk (CreateUser s (test_withEmail lib (test_newUser lib ''u4'' ''dave'' (at_min 4)) ''dave@other.org'')) ''create'',
      expectThat (ListUsers s \<lparr>uf_Search = ''''\<rparr> \<lparr>lo_Offset = 0, lo_Limit = 10\<rparr>) ''list users''
        (\<lambda>(items, total). total = 4 \<and> length items = 4 \<and> u_Id (items ! 0) = ''u1'' \<and> u_Id (items ! 3) = ''u4''),
      expectThat (ListUsers s \<lparr>uf_Search = ''''\<rparr> \<lparr>lo_Offset = 1, lo_Limit = 1\<rparr>) ''list users page''
        (\<lambda>(items, total). total = 4 \<and> length items = 1 \<and> u_Id (items ! 0) = ''u2''),
      expectThat (ListUsers s \<lparr>uf_Search = ''EXAMPLE''\<rparr> \<lparr>lo_Offset = 0, lo_Limit = 10\<rparr>) ''search by email''
        (\<lambda>(items, total). total = 3 \<and> length items = 3),
      expectThat (ListUsers s \<lparr>uf_Search = ''Ob''\<rparr> \<lparr>lo_Offset = 0, lo_Limit = 10\<rparr>) ''search by username''
        (\<lambda>(items, total). total = 1 \<and> length items = 1 \<and> u_Id (items ! 0) = ''u2''),
      expectThat (ListUsers s \<lparr>uf_Search = ''%''\<rparr> \<lparr>lo_Offset = 0, lo_Limit = 10\<rparr>) ''search wildcard''
        (\<lambda>(items, total). total = 0 \<and> length items = 0)]"
section \<open>Tokens\<close>

definition test_newAccessToken :: "string \<Rightarrow> string \<Rightarrow> string \<Rightarrow> string \<Rightarrow> time \<Rightarrow> time \<Rightarrow> access_token" where
  "test_newAccessToken k clientId userId codeId created expires =
     \<lparr>at_Id = k, at_TokenHash = ''hash-'' @ k, at_ClientId = clientId, at_UserId = userId, at_Scopes = [''api.read'', ''api.write''],
      at_AuthorizationCodeId = codeId, at_CreatedAt = created, at_ExpiresAt = expires\<rparr>"

definition compareAccessToken :: "access_token \<Rightarrow> access_token \<Rightarrow> bool" where
  "compareAccessToken e a \<longleftrightarrow>
     equalStrings (at_Scopes e) (at_Scopes a) \<and> at_CreatedAt e = at_CreatedAt a \<and> at_ExpiresAt e = at_ExpiresAt a
     \<and> (let blank = (\<lambda>t. t\<lparr>at_Scopes := [], at_CreatedAt := 0, at_ExpiresAt := 0\<rparr>) in blank e = blank a)"

definition test_duplicateHash :: access_token where
  "test_duplicateHash = (test_newAccessToken ''a9'' ''c'' ''u'' '''' (at_min 0) (at_min 1))\<lparr>at_TokenHash := ''hash-a1''\<rparr>"

definition test_noUser :: access_token where
  "test_noUser = (test_newAccessToken ''a2'' ''client1'' '''' '''' (at_min 1) (at_min 30))\<lparr>at_Scopes := []\<rparr>"

definition accessTokenCases :: "(TokenFilter \<times> string list) list" where
  "accessTokenCases =
     [(empty_filter, [''a1'', ''a2'', ''a3'', ''a4'']),
      (empty_filter\<lparr>tf_ClientId := ''client1''\<rparr>, [''a1'', ''a2'']),
      (empty_filter\<lparr>tf_UserId := ''user1''\<rparr>, [''a1'', ''a3'']),
      (empty_filter\<lparr>tf_ClientId := ''client2'', tf_UserId := ''user1''\<rparr>, [''a3'']),
      (empty_filter\<lparr>tf_AuthorizationCodeId := ''code2''\<rparr>, [''a4'']),
      (empty_filter\<lparr>tf_ExpiredBefore := Some (at_min 60)\<rparr>, [''a1'', ''a2'']),
      (empty_filter\<lparr>tf_ClientId := ''nobody''\<rparr>, [])]"

definition testAccessTokens :: "'s store_ops \<Rightarrow> 's test" where
  "testAccessTokens s = steps (
     [expectErr (GetAccessTokenById s ''missing'') ErrNotFound ''get missing access token'',
      expectErr (GetAccessTokenByHash s ''missing'') ErrNotFound ''get missing access token by hash'',
      expectOk (CreateAccessToken s (test_newAccessToken ''a1'' ''client1'' ''user1'' ''code1'' (at_min 0) (at_min 60))) ''create access token'',
      expectThat (GetAccessTokenById s ''a1'') ''get access token''
        (compareAccessToken (test_newAccessToken ''a1'' ''client1'' ''user1'' ''code1'' (at_min 0) (at_min 60))),
      expectThat (GetAccessTokenByHash s ''hash-a1'') ''get access token by hash''
        (compareAccessToken (test_newAccessToken ''a1'' ''client1'' ''user1'' ''code1'' (at_min 0) (at_min 60))),
      expectErr (CreateAccessToken s (test_newAccessToken ''a1'' ''c'' ''u'' '''' (at_min 0) (at_min 1))) ErrDuplicate ''duplicate id'',
      expectErr (CreateAccessToken s test_duplicateHash) ErrDuplicate ''duplicate hash'',
      expectOk (CreateAccessToken s test_noUser) ''create token without user'',
      expectOk (CreateAccessToken s (test_newAccessToken ''a3'' ''client2'' ''user1'' '''' (at_min 2) (at_min 90))) ''create'',
      expectOk (CreateAccessToken s (test_newAccessToken ''a4'' ''client2'' ''user2'' ''code2'' (at_min 3) (at_min 120))) ''create'',
      expectThat (GetAccessTokenById s ''a2'') ''get token without user'' (compareAccessToken test_noUser)]
     @ map (\<lambda>(f, expected). expectThat (ListAccessTokens s f \<lparr>lo_Offset = 0, lo_Limit = 10\<rparr>) ''list access tokens''
         (\<lambda>(items, total). total = length expected \<and> map at_Id items = expected)) accessTokenCases
     @ [expectThat (ListAccessTokens s empty_filter \<lparr>lo_Offset = 2, lo_Limit = 1\<rparr>) ''list page''
        (\<lambda>(items, total). total = 4 \<and> length items = 1 \<and> at_Id (items ! 0) = ''a3''),
      expectOk (DeleteAccessToken s ''a1'') ''delete access token'',
      expectErr (GetAccessTokenById s ''a1'') ErrNotFound ''get deleted access token'',
      expectErr (DeleteAccessToken s ''a1'') ErrNotFound ''delete missing access token'',
      expectThat (DeleteAccessTokens s (empty_filter\<lparr>tf_ClientId := ''client2'', tf_UserId := ''user2''\<rparr>)) ''delete by filter'' (\<lambda>n. n = 1),
      expectThat (DeleteAccessTokens s (empty_filter\<lparr>tf_ClientId := ''nobody''\<rparr>)) ''delete by filter without match'' (\<lambda>n. n = 0),
      expectThat (DeleteAccessTokens s empty_filter) ''delete all'' (\<lambda>n. n = 2)])"

definition test_newRefreshToken :: "string \<Rightarrow> string \<Rightarrow> string \<Rightarrow> time \<Rightarrow> time \<Rightarrow> refresh_token" where
  "test_newRefreshToken k clientId userId created expires =
     \<lparr>rt_Id = k, rt_TokenHash = ''hash-'' @ k, rt_ClientId = clientId, rt_UserId = userId, rt_AccessTokenId = ''access-'' @ k,
      rt_AuthorizationCodeId = ''code-'' @ k, rt_Scopes = [''api.read'', ''offline''], rt_TokenExpiration = RefreshTokenExpirationSliding,
      rt_TokenUsage = RefreshTokenUsageOneTime, rt_Lifetime = 24 * 3600 * 1000000000, rt_CreatedAt = created, rt_UpdatedAt = created,
      rt_ExpiresAt = expires\<rparr>"

definition compareRefreshToken :: "refresh_token \<Rightarrow> refresh_token \<Rightarrow> bool" where
  "compareRefreshToken e a \<longleftrightarrow>
     equalStrings (rt_Scopes e) (rt_Scopes a) \<and> rt_CreatedAt e = rt_CreatedAt a \<and> rt_UpdatedAt e = rt_UpdatedAt a
     \<and> rt_ExpiresAt e = rt_ExpiresAt a
     \<and> (let blank = (\<lambda>t. t\<lparr>rt_Scopes := [], rt_CreatedAt := 0, rt_UpdatedAt := 0, rt_ExpiresAt := 0\<rparr>) in blank e = blank a)"

definition test_duplicateRefresh :: refresh_token where
  "test_duplicateRefresh = (test_newRefreshToken ''r9'' ''c'' ''u'' (at_min 0) (at_min 1))\<lparr>rt_TokenHash := ''hash-r1''\<rparr>"

definition test_updatedRefresh :: refresh_token where
  "test_updatedRefresh = (test_newRefreshToken ''r1'' ''client1'' ''user1'' (at_min 0) (at_min 100))
     \<lparr>rt_AccessTokenId := ''access-new'', rt_UpdatedAt := at_min 10, rt_ExpiresAt := at_min 200\<rparr>"

definition refreshTokenCases :: "(TokenFilter \<times> string list) list" where
  "refreshTokenCases =
     [(empty_filter, [''r1'', ''r2'', ''r3'']),
      (empty_filter\<lparr>tf_ClientId := ''client1''\<rparr>, [''r1'', ''r2'']),
      (empty_filter\<lparr>tf_UserId := ''user1''\<rparr>, [''r1'', ''r3'']),
      (empty_filter\<lparr>tf_AuthorizationCodeId := ''code-r2''\<rparr>, [''r2'']),
      (empty_filter\<lparr>tf_ExpiredBefore := Some (at_min 200)\<rparr>, [''r1'', ''r2''])]"

definition testRefreshTokens :: "'s store_ops \<Rightarrow> 's test" where
  "testRefreshTokens s = steps (
     [expectErr (GetRefreshTokenById s ''missing'') ErrNotFound ''get missing refresh token'',
      expectErr (GetRefreshTokenByHash s ''missing'') ErrNotFound ''get missing refresh token by hash'',
      expectOk (CreateRefreshToken s (test_newRefreshToken ''r1'' ''client1'' ''user1'' (at_min 0) (at_min 100))) ''create refresh token'',
      expectThat (GetRefreshTokenById s ''r1'') ''get refresh token''
        (compareRefreshToken (test_newRefreshToken ''r1'' ''client1'' ''user1'' (at_min 0) (at_min 100))),
      expectThat (GetRefreshTokenByHash s ''hash-r1'') ''get refresh token by hash''
        (compareRefreshToken (test_newRefreshToken ''r1'' ''client1'' ''user1'' (at_min 0) (at_min 100))),
      expectErr (CreateRefreshToken s (test_newRefreshToken ''r1'' ''c'' ''u'' (at_min 0) (at_min 1))) ErrDuplicate ''duplicate id'',
      expectErr (CreateRefreshToken s test_duplicateRefresh) ErrDuplicate ''duplicate hash'',
      expectOk (UpdateRefreshToken s test_updatedRefresh) ''update refresh token'',
      expectThat (GetRefreshTokenById s ''r1'') ''get updated refresh token'' (compareRefreshToken test_updatedRefresh),
      expectErr (UpdateRefreshToken s (test_newRefreshToken ''missing'' ''c'' ''u'' (at_min 0) (at_min 1))) ErrNotFound
        ''update missing refresh token'',
      expectOk (CreateRefreshToken s (test_newRefreshToken ''r2'' ''client1'' ''user2'' (at_min 1) (at_min 50))) ''create'',
      expectOk (CreateRefreshToken s (test_newRefreshToken ''r3'' ''client2'' ''user1'' (at_min 2) (at_min 300))) ''create'']
     @ map (\<lambda>(f, expected). expectThat (ListRefreshTokens s f \<lparr>lo_Offset = 0, lo_Limit = 10\<rparr>) ''list refresh tokens''
         (\<lambda>(items, total). total = length expected \<and> map rt_Id items = expected)) refreshTokenCases
     @ [expectOk (DeleteRefreshToken s ''r1'') ''delete refresh token'',
      expectErr (DeleteRefreshToken s ''r1'') ErrNotFound ''delete missing refresh token'',
      expectThat (DeleteRefreshTokens s (empty_filter\<lparr>tf_UserId := ''user1''\<rparr>)) ''delete by filter'' (\<lambda>n. n = 1),
      expectThat (ListRefreshTokens s empty_filter \<lparr>lo_Offset = 0, lo_Limit = 0\<rparr>) ''list remaining'' (\<lambda>(items, total). total = 1)])"

section \<open>Codes and user tokens\<close>

definition test_newCode :: "string \<Rightarrow> time \<Rightarrow> time \<Rightarrow> authorization_code" where
  "test_newCode k created expires =
     \<lparr>ac_Id = k, ac_CodeHash = ''hash-'' @ k, ac_ClientId = ''client1'', ac_UserId = ''user1'', ac_Scopes = [''api.read''],
      ac_RedirectUri = ''https://example.com/cb'', ac_CodeChallenge = ''challenge'', ac_CodeChallengeMethod = ''S256'',
      ac_CreatedAt = created, ac_ExpiresAt = expires, ac_ConsumedAt = None\<rparr>"

definition compareAuthorizationCode :: "authorization_code \<Rightarrow> authorization_code \<Rightarrow> bool" where
  "compareAuthorizationCode e a \<longleftrightarrow>
     equalStrings (ac_Scopes e) (ac_Scopes a) \<and> ac_CreatedAt e = ac_CreatedAt a \<and> ac_ExpiresAt e = ac_ExpiresAt a
     \<and> equalTimePtr (ac_ConsumedAt e) (ac_ConsumedAt a)
     \<and> (let blank = (\<lambda>c. c\<lparr>ac_Scopes := [], ac_CreatedAt := 0, ac_ExpiresAt := 0, ac_ConsumedAt := None\<rparr>) in blank e = blank a)"

definition test_duplicateCode :: authorization_code where
  "test_duplicateCode = (test_newCode ''ac9'' (at_min 0) (at_min 5))\<lparr>ac_CodeHash := ''hash-ac1''\<rparr>"

definition testAuthorizationCodes :: "'s store_ops \<Rightarrow> 's test" where
  "testAuthorizationCodes s = steps
     [expectErr (GetAuthorizationCodeByHash s ''missing'') ErrNotFound ''get missing code'',
      expectOk (CreateAuthorizationCode s (test_newCode ''ac1'' (at_min 0) (at_min 5))) ''create code'',
      expectErr (CreateAuthorizationCode s (test_newCode ''ac1'' (at_min 0) (at_min 5))) ErrDuplicate ''duplicate id'',
      expectErr (CreateAuthorizationCode s test_duplicateCode) ErrDuplicate ''duplicate hash'',
      expectThat (GetAuthorizationCodeByHash s ''hash-ac1'') ''get code''
        (compareAuthorizationCode (test_newCode ''ac1'' (at_min 0) (at_min 5))),
      expectOk (ConsumeAuthorizationCode s ''ac1'' (at_min 1)) ''consume code'',
      expectErr (ConsumeAuthorizationCode s ''ac1'' (at_min 2)) ErrConflict ''consume code twice'',
      expectErr (ConsumeAuthorizationCode s ''missing'' (at_min 2)) ErrNotFound ''consume missing code'',
      expectThat (GetAuthorizationCodeByHash s ''hash-ac1'') ''get consumed code''
        (compareAuthorizationCode ((test_newCode ''ac1'' (at_min 0) (at_min 5))\<lparr>ac_ConsumedAt := Some (at_min 1)\<rparr>)),
      expectOk (CreateAuthorizationCode s (test_newCode ''ac2'' (at_min 0) (at_min 10))) ''create code 2'',
      expectOk (CreateAuthorizationCode s (test_newCode ''ac3'' (at_min 0) (at_min 20))) ''create code 3'',
      expectThat (DeleteExpiredAuthorizationCodes s (at_min 10)) ''delete expired codes'' (\<lambda>n. n = 2),
      expectErr (GetAuthorizationCodeByHash s ''hash-ac2'') ErrNotFound ''expired code deleted'',
      expectOk (DeleteAuthorizationCode s ''ac3'') ''delete code'',
      expectErr (DeleteAuthorizationCode s ''ac3'') ErrNotFound ''delete missing code'']"

definition test_newToken :: "string \<Rightarrow> string \<Rightarrow> string \<Rightarrow> time \<Rightarrow> user_token" where
  "test_newToken k userId purpose expires =
     \<lparr>ut_Id = k, ut_UserId = userId, ut_Purpose = purpose, ut_TokenHash = ''hash-'' @ k, ut_CreatedAt = at_min 0, ut_ExpiresAt = expires\<rparr>"

definition testUserTokens :: "'s store_ops \<Rightarrow> 's test" where
  "testUserTokens s =
     (let activation = UserTokenPurposeActivation; reset = UserTokenPurposePasswordReset;
          expected = test_newToken ''t1'' ''u1'' activation (at_min 10)
      in steps
     [expectErr (GetUserTokenByHash s activation ''missing'') ErrNotFound ''get missing user token'',
      expectOk (CreateUserToken s (test_newToken ''t1'' ''u1'' activation (at_min 10))) ''create'',
      expectOk (CreateUserToken s (test_newToken ''t2'' ''u1'' reset (at_min 20))) ''create'',
      expectOk (CreateUserToken s (test_newToken ''t3'' ''u1'' reset (at_min 30))) ''create'',
      expectOk (CreateUserToken s (test_newToken ''t4'' ''u2'' reset (at_min 40))) ''create'',
      expectErr (CreateUserToken s (test_newToken ''t1'' ''u1'' activation (at_min 10))) ErrDuplicate ''duplicate'',
      expectThat (GetUserTokenByHash s activation ''hash-t1'') ''get user token''
        (\<lambda>got. ut_Id got = ut_Id expected \<and> ut_UserId got = ut_UserId expected \<and> ut_Purpose got = ut_Purpose expected
           \<and> ut_TokenHash got = ut_TokenHash expected \<and> ut_CreatedAt got = ut_CreatedAt expected
           \<and> ut_ExpiresAt got = ut_ExpiresAt expected),
      expectErr (GetUserTokenByHash s reset ''hash-t1'') ErrNotFound ''get user token with wrong purpose'',
      expectThat (DeleteUserTokens s ''u1'' reset) ''delete user tokens'' (\<lambda>n. n = 2),
      expectOk (GetUserTokenByHash s activation ''hash-t1'') ''activation token must survive'',
      expectThat (DeleteExpiredUserTokens s (at_min 10)) ''delete expired user tokens'' (\<lambda>n. n = 1),
      expectOk (DeleteUserToken s ''t4'') ''delete user token'',
      expectErr (DeleteUserToken s ''t4'') ErrNotFound ''delete missing user token''])"

text \<open>The test of \<open>DeleteExpired\<close>: four tokens of each kind, ten minutes apart.\<close>

definition testDeleteExpired :: "'s store_ops \<Rightarrow> 's test" where
  "testDeleteExpired s = steps (
     concat (map (\<lambda>i.
       let k = itoa i; expires = at_min (int i * 10)
       in [expectOk (CreateAccessToken s (test_newAccessToken (''a'' @ k) ''c'' ''u'' '''' (at_min 0) expires)) ''create'',
           expectOk (CreateRefreshToken s (test_newRefreshToken (''r'' @ k) ''c'' ''u'' (at_min 0) expires)) ''create'',
           expectOk (CreateAuthorizationCode s (test_newCode (''ac'' @ k) (at_min 0) expires)) ''create'',
           expectOk (CreateUserToken s (test_newToken (''t'' @ k) ''u'' UserTokenPurposeActivation expires)) ''create'']) [0, 1, 2, 3])
     @ [expectOk (DeleteExpired s (at_min 15)) ''delete expired'',
      expectThat (ListAccessTokens s empty_filter \<lparr>lo_Offset = 0, lo_Limit = 0\<rparr>) ''list'' (\<lambda>(items, total). total = 2),
      expectThat (ListRefreshTokens s empty_filter \<lparr>lo_Offset = 0, lo_Limit = 0\<rparr>) ''list'' (\<lambda>(items, total). total = 2),
      expectErr (GetAuthorizationCodeByHash s ''hash-ac1'') ErrNotFound ''expired code'',
      expectOk (GetAuthorizationCodeByHash s ''hash-ac2'') ''valid code'',
      expectErr (GetUserTokenByHash s UserTokenPurposeActivation ''hash-t1'') ErrNotFound ''expired user token'',
      expectOk (GetUserTokenByHash s UserTokenPurposeActivation ''hash-t2'') ''valid user token''])"

text \<open>The suite, each test on an empty store of its own.\<close>

definition storetest_Run :: "golib \<Rightarrow> 's store_ops \<Rightarrow> (string \<times> 's test) list" where
  "storetest_Run lib s =
     [(''Clients'', testClients s), (''ClientList'', testClientList s), (''Users'', testUsers lib s),
      (''UserList'', testUserList lib s), (''AccessTokens'', testAccessTokens s), (''RefreshTokens'', testRefreshTokens s),
      (''AuthorizationCodes'', testAuthorizationCodes s), (''UserTokens'', testUserTokens s),
      (''DeleteExpired'', testDeleteExpired s)]"

end
