(* ===== verification/StoreTestProofs.thy ===== *)
theory StoreTestProofs
  imports StoreTest
begin

text \<open>
  The contract determines what a store answers: two stores that meet it, on the same tables, give the same result to every
  call and have the same tables after it, unless one of them reports a failure of its own. So every store that meets the
  contract passes the conformance suite that the in-memory store passes, on which the suite computes.
\<close>

section \<open>Runs of two stores\<close>

text \<open>
  From related states both runs end in related states with the same result, or the first one ends with an error that \<open>F\<close> allows.
\<close>

definition alike :: "('e \<Rightarrow> bool) \<Rightarrow> ('s \<Rightarrow> 'm \<Rightarrow> bool) \<Rightarrow> ('s, 'e, 'a) act \<Rightarrow> ('m, 'e, 'a) act \<Rightarrow> bool" where
  "alike F R m1 m2 \<longleftrightarrow>
     (\<forall>s1 s2 r1 s1' r2 s2'. R s1 s2 \<longrightarrow> m1 s1 = (r1, s1') \<longrightarrow> m2 s2 = (r2, s2') \<longrightarrow>
        r1 = r2 \<and> R s1' s2' \<or> (\<exists>e. r1 = Inl e \<and> F e))"

named_theorems alike_rules \<open>actions that run alike\<close>

lemma alikeD:
  "alike F R m1 m2 \<Longrightarrow> R s1 s2 \<Longrightarrow> m1 s1 = (r1, s1') \<Longrightarrow> m2 s2 = (r2, s2') \<Longrightarrow>
     r1 = r2 \<and> R s1' s2' \<or> (\<exists>e. r1 = Inl e \<and> F e)"
  unfolding alike_def by blast

lemma alike_ret [alike_rules]: "alike F R (ret x) (ret x)"
  by (simp add: alike_def ret_def)

lemma alike_andThen [alike_rules]:
  assumes "alike F R m1 m2" and "\<And>x. alike F R (f1 x) (f2 x)"
  shows "alike F R (andThen m1 f1) (andThen m2 f2)"
  unfolding alike_def
proof (intro allI impI)
  fix s1 s2 r1 s1' r2 s2'
  assume R: "R s1 s2" and runs: "andThen m1 f1 s1 = (r1, s1')" "andThen m2 f2 s2 = (r2, s2')"
  obtain q1 t1 q2 t2 where q: "m1 s1 = (q1, t1)" "m2 s2 = (q2, t2)" by fastforce
  from alikeD [OF assms(1) R q] show "r1 = r2 \<and> R s1' s2' \<or> (\<exists>e. r1 = Inl e \<and> F e)"
  proof (elim disjE conjE exE)
    assume "q1 = q2" "R t1 t2"
    with runs q alikeD [OF assms(2)] show ?thesis by (cases q2) (auto simp: andThen_def)
  next
    fix e assume "q1 = Inl e" "F e"
    with runs(1) q(1) show ?thesis by (auto simp: andThen_def)
  qed
qed

text \<open>The failures of a database, and of a test that met one.\<close>

definition store_failed :: "store_error \<Rightarrow> bool" where
  "store_failed e \<longleftrightarrow> (\<exists>msg. e = StoreFailure msg)"

definition test_failed :: "test_failure \<Rightarrow> bool" where
  "test_failed e \<longleftrightarrow> (\<exists>what msg. e = Unexpected what (Some (StoreFailure msg)))"

lemma alike_expectErr [alike_rules]:
  assumes "alike store_failed R m1 m2" and "\<not> store_failed target"
  shows "alike test_failed R (expectErr m1 target what) (expectErr m2 target what)"
  unfolding alike_def
proof (intro allI impI)
  fix s1 s2 r1 s1' r2 s2'
  assume R: "R s1 s2" and runs: "expectErr m1 target what s1 = (r1, s1')" "expectErr m2 target what s2 = (r2, s2')"
  obtain q1 t1 q2 t2 where q: "m1 s1 = (q1, t1)" "m2 s2 = (q2, t2)" by fastforce
  from alikeD [OF assms(1) R q] runs q assms(2)
  show "r1 = r2 \<and> R s1' s2' \<or> (\<exists>e. r1 = Inl e \<and> test_failed e)"
    by (auto simp: expectErr_def handle_def ret_def fail_def store_failed_def test_failed_def split: sum.splits if_splits)
qed

lemma alike_expectNoErr [alike_rules]:
  assumes "alike store_failed R m1 m2"
  shows "alike test_failed R (expectNoErr m1 what) (expectNoErr m2 what)"
  unfolding alike_def
proof (intro allI impI)
  fix s1 s2 r1 s1' r2 s2'
  assume R: "R s1 s2" and runs: "expectNoErr m1 what s1 = (r1, s1')" "expectNoErr m2 what s2 = (r2, s2')"
  obtain q1 t1 q2 t2 where q: "m1 s1 = (q1, t1)" "m2 s2 = (q2, t2)" by fastforce
  from alikeD [OF assms R q] runs q
  show "r1 = r2 \<and> R s1' s2' \<or> (\<exists>e. r1 = Inl e \<and> test_failed e)"
    by (auto simp: expectNoErr_def mapErr_def handle_def ret_def fail_def store_failed_def test_failed_def split: sum.splits)
qed

lemma alike_fail: "alike F R (fail e) (fail e)"
  by (simp add: alike_def fail_def)

lemma alike_expectOk [alike_rules]: "alike store_failed R m1 m2 \<Longrightarrow> alike test_failed R (expectOk m1 what) (expectOk m2 what)"
  unfolding expectOk_def by (intro alike_rules)

lemma alike_expectThat [alike_rules]:
  "alike store_failed R m1 m2 \<Longrightarrow> alike test_failed R (expectThat m1 what P) (expectThat m2 what P)"
  unfolding expectThat_def by (intro alike_andThen alike_expectNoErr) (simp_all add: alike_ret alike_fail)

lemma alike_steps_Nil [alike_rules]: "alike F R (steps []) (steps [])"
  by (simp add: alike_ret)

lemma alike_steps_Cons [alike_rules]:
  "alike F R m1 m2 \<Longrightarrow> alike F R (steps ms1) (steps ms2) \<Longrightarrow> alike F R (steps (m1 # ms1)) (steps (m2 # ms2))"
  by (simp add: alike_andThen)

section \<open>The contract determines the result\<close>

definition determinate :: "(tables \<Rightarrow> store_error + 'a \<Rightarrow> tables \<Rightarrow> bool) \<Rightarrow> bool" where
  "determinate P \<longleftrightarrow> (\<forall>T r1 T1 r2 T2. tables_ok T \<longrightarrow> P T r1 T1 \<longrightarrow> P T r2 T2 \<longrightarrow> r1 = r2 \<and> T1 = T2)"

lemma determinate_get: "determinate (get_spec tb k)"
  and determinate_create: "determinate (create_spec tb upd key clash x)"
  and determinate_update: "determinate (update_spec tb upd key clash x)"
  and determinate_delete: "determinate (delete_spec tb upd k)"
  and determinate_delete_where: "determinate (delete_where_spec tb upd P)"
  and determinate_consume: "determinate (consume_spec k t)"
  by (auto simp: determinate_def get_spec_def create_spec_def update_spec_def delete_spec_def delete_where_spec_def consume_spec_def
      split: option.splits if_splits)

lemma determinate_find:
  assumes "\<And>T x y. tables_ok T \<Longrightarrow> x \<in> ran (tb T) \<Longrightarrow> y \<in> ran (tb T) \<Longrightarrow> P x \<Longrightarrow> P y \<Longrightarrow> x = y"
  shows "determinate (find_spec tb P)"
  unfolding determinate_def
proof (intro allI impI)
  fix T r1 T1 r2 T2
  assume "tables_ok T" "find_spec tb P T r1 T1" "find_spec tb P T r2 T2"
  with assms [of T] show "r1 = r2 \<and> T1 = T2" by (cases r1; cases r2) (auto simp: find_spec_def)
qed

text \<open>The order by creation time and id is a total order of the entities of a table.\<close>

lemma sorted_by_key_unique:
  assumes "set xs = set ys" and "distinct xs" "distinct ys" and "sorted (map key xs)" "sorted (map key ys)" and "inj_on key (set xs)"
  shows "xs = ys"
proof -
  have "distinct (map key xs)" "distinct (map key ys)" using assms by (simp_all add: distinct_map)
  with assms have "map key xs = map key ys" by (intro sorted_distinct_set_unique) simp_all
  then show ?thesis using assms(1,6) by (metis map_inj_on set_append sup.idem)
qed

lemma determinate_list:
  assumes "\<And>T. tables_ok T \<Longrightarrow> keyed k (tb T)"
  shows "determinate (list_spec tb (\<lambda>x. (created x, k x)) P opts)"
  unfolding determinate_def
proof (intro allI impI)
  fix T r1 T1 r2 T2
  assume ok: "tables_ok T" and l: "list_spec tb (\<lambda>x. (created x, k x)) P opts T r1 T1" "list_spec tb (\<lambda>x. (created x, k x)) P opts T r2 T2"
  from assms [OF ok] have "inj_on (\<lambda>x. (created x, k x)) {x \<in> ran (tb T). P x}"
    unfolding inj_on_def by (auto) (metis keyed_ranD option.inject)
  then have eq: "xs = ys" if "set xs = {x \<in> ran (tb T). P x}" "set ys = {x \<in> ran (tb T). P x}" "distinct xs" "distinct ys"
    "sorted (map (\<lambda>x. (created x, k x)) xs)" "sorted (map (\<lambda>x. (created x, k x)) ys)" for xs ys
    using sorted_by_key_unique [of xs ys "\<lambda>x. (created x, k x)"] that by simp
  from l show "r1 = r2 \<and> T1 = T2" unfolding list_spec_def by (elim conjE exE) (drule (5) eq, simp)
qed

lemma unique_fieldD: "unique_field f m \<Longrightarrow> x \<in> ran m \<Longrightarrow> y \<in> ran m \<Longrightarrow> f x = f y \<Longrightarrow> x = y"
  by (simp add: unique_field_def)

lemmas determinate_rules = determinate_get determinate_create determinate_update determinate_delete determinate_delete_where
  determinate_consume

lemma determinate_lists:
  "determinate (list_spec tb_clients (\<lambda>x. (c_CreatedAt x, c_Id x)) P1 opts)"
  "determinate (list_spec tb_users (\<lambda>x. (u_CreatedAt x, u_Id x)) P2 opts)"
  "determinate (list_spec tb_accessTokens (\<lambda>x. (at_CreatedAt x, at_Id x)) P3 opts)"
  "determinate (list_spec tb_refreshTokens (\<lambda>x. (rt_CreatedAt x, rt_Id x)) P4 opts)"
  by (rule determinate_list; simp add: tables_ok_def)+

lemma determinate_finds:
  "determinate (find_spec tb_clients (\<lambda>x. c_ClientId x = h))"
  "determinate (find_spec tb_users (\<lambda>x. u_NormalizedUsername x = h))"
  "determinate (find_spec tb_users (\<lambda>x. u_NormalizedEmail x = h))"
  "determinate (find_spec tb_accessTokens (\<lambda>x. at_TokenHash x = h))"
  "determinate (find_spec tb_refreshTokens (\<lambda>x. rt_TokenHash x = h))"
  "determinate (find_spec tb_authorizationCodes (\<lambda>x. ac_CodeHash x = h))"
  "determinate (find_spec tb_userTokens (\<lambda>x. ut_Purpose x = p \<and> ut_TokenHash x = h))"
  by (rule determinate_find; auto simp: tables_ok_def dest: unique_fieldD)+

section \<open>The operations\<close>

text \<open>Another store and the in-memory store with the same tables.\<close>

definition same_tables :: "('s \<Rightarrow> bool) \<Rightarrow> ('s \<Rightarrow> tables) \<Rightarrow> 's \<Rightarrow> mem \<Rightarrow> bool" where
  "same_tables I view s1 s2 \<longleftrightarrow> I s1 \<and> mem_inv s2 \<and> view s1 = mem_view s2"

lemma alike_operation:
  assumes "obeys I view P m1" and "obeys mem_inv mem_view P m2" and "reliable m2" and "determinate P"
  shows "alike store_failed (same_tables I view) m1 m2"
  unfolding alike_def same_tables_def store_failed_def
proof (intro allI impI)
  fix s1 s2 r1 s1' r2 s2'
  assume R: "I s1 \<and> mem_inv s2 \<and> view s1 = mem_view s2" and q: "m1 s1 = (r1, s1')" "m2 s2 = (r2, s2')"
  from R have ok: "tables_ok (mem_view s2)" by (blast intro: mem_view_ok)
  from obeys_exact [OF assms(2,3) q(2)] R have m: "mem_inv s2'" "P (mem_view s2) r2 (mem_view s2')" by blast+
  from obeysD [OF assms(1) q(1)] R m ok assms(4) show
    "r1 = r2 \<and> I s1' \<and> mem_inv s2' \<and> view s1' = mem_view s2' \<or> (\<exists>e. r1 = Inl e \<and> (\<exists>msg. e = StoreFailure msg))"
    unfolding determinate_def by metis
qed

lemma contract_laws:
  assumes "contract_on sb ops I view lower"
  shows "obeys I view (list_spec tb_clients (\<lambda>x. (c_CreatedAt x, c_Id x)) (\<lambda>_. True) opts) (ListClients ops opts)"
  and "obeys I view (get_spec tb_clients k) (GetClientById ops k)"
  and "obeys I view (find_spec tb_clients (\<lambda>x. c_ClientId x = clientId)) (GetClientByClientId ops clientId)"
  and "sb_client sb xc \<Longrightarrow> c_Id xc \<noteq> '''' \<Longrightarrow> obeys I view (create_spec tb_clients tb_clients_update c_Id client_clash xc) (CreateClient ops xc)"
  and "sb_client sb xc \<Longrightarrow> obeys I view (update_spec tb_clients tb_clients_update c_Id client_clash xc) (UpdateClient ops xc)"
  and "obeys I view (delete_spec tb_clients tb_clients_update k) (DeleteClient ops k)"
  and "obeys I view (list_spec tb_users (\<lambda>x. (u_CreatedAt x, u_Id x)) (user_matches lower uf) opts) (ListUsers ops uf opts)"
  and "obeys I view (get_spec tb_users k) (GetUserById ops k)"
  and "obeys I view (find_spec tb_users (\<lambda>x. u_NormalizedUsername x = n)) (GetUserByNormalizedUsername ops n)"
  and "obeys I view (find_spec tb_users (\<lambda>x. u_NormalizedEmail x = n)) (GetUserByNormalizedEmail ops n)"
  and "sb_user sb xu \<Longrightarrow> u_Id xu \<noteq> '''' \<Longrightarrow> obeys I view (create_spec tb_users tb_users_update u_Id user_clash xu) (CreateUser ops xu)"
  and "sb_user sb xu \<Longrightarrow> obeys I view (update_spec tb_users tb_users_update u_Id user_clash xu) (UpdateUser ops xu)"
  and "obeys I view (delete_spec tb_users tb_users_update k) (DeleteUser ops k)"
  and "filter_on sb f \<Longrightarrow> obeys I view (list_spec tb_accessTokens (\<lambda>x. (at_CreatedAt x, at_Id x)) (at_matches f) opts) (ListAccessTokens ops f opts)"
  and "obeys I view (get_spec tb_accessTokens k) (GetAccessTokenById ops k)"
  and "obeys I view (find_spec tb_accessTokens (\<lambda>x. at_TokenHash x = h)) (GetAccessTokenByHash ops h)"
  and "sb_access_token sb xa \<Longrightarrow> at_Id xa \<noteq> '''' \<Longrightarrow> obeys I view (create_spec tb_accessTokens tb_accessTokens_update at_Id access_token_clash xa) (CreateAccessToken ops xa)"
  and "obeys I view (delete_spec tb_accessTokens tb_accessTokens_update k) (DeleteAccessToken ops k)"
  and "filter_on sb f \<Longrightarrow> obeys I view (delete_where_spec tb_accessTokens tb_accessTokens_update (at_matches f)) (DeleteAccessTokens ops f)"
  and "filter_on sb f \<Longrightarrow> obeys I view (list_spec tb_refreshTokens (\<lambda>x. (rt_CreatedAt x, rt_Id x)) (rt_matches f) opts) (ListRefreshTokens ops f opts)"
  and "obeys I view (get_spec tb_refreshTokens k) (GetRefreshTokenById ops k)"
  and "obeys I view (find_spec tb_refreshTokens (\<lambda>x. rt_TokenHash x = h)) (GetRefreshTokenByHash ops h)"
  and "sb_refresh_token sb xr \<Longrightarrow> rt_Id xr \<noteq> '''' \<Longrightarrow> obeys I view (create_spec tb_refreshTokens tb_refreshTokens_update rt_Id refresh_token_clash xr) (CreateRefreshToken ops xr)"
  and "sb_refresh_token sb xr \<Longrightarrow> obeys I view (update_spec tb_refreshTokens tb_refreshTokens_update rt_Id refresh_token_clash xr) (UpdateRefreshToken ops xr)"
  and "obeys I view (delete_spec tb_refreshTokens tb_refreshTokens_update k) (DeleteRefreshToken ops k)"
  and "filter_on sb f \<Longrightarrow> obeys I view (delete_where_spec tb_refreshTokens tb_refreshTokens_update (rt_matches f)) (DeleteRefreshTokens ops f)"
  and "obeys I view (find_spec tb_authorizationCodes (\<lambda>x. ac_CodeHash x = h)) (GetAuthorizationCodeByHash ops h)"
  and "sb_code sb xk \<Longrightarrow> ac_Id xk \<noteq> '''' \<Longrightarrow> obeys I view (create_spec tb_authorizationCodes tb_authorizationCodes_update ac_Id code_clash xk) (CreateAuthorizationCode ops xk)"
  and "sb_time sb t \<Longrightarrow> obeys I view (consume_spec k t) (ConsumeAuthorizationCode ops k t)"
  and "obeys I view (delete_spec tb_authorizationCodes tb_authorizationCodes_update k) (DeleteAuthorizationCode ops k)"
  and "sb_cutoff sb before \<Longrightarrow> obeys I view (delete_where_spec tb_authorizationCodes tb_authorizationCodes_update (\<lambda>x. ac_ExpiresAt x \<le> before)) (DeleteExpiredAuthorizationCodes ops before)"
  and "obeys I view (find_spec tb_userTokens (\<lambda>x. ut_Purpose x = purpose \<and> ut_TokenHash x = h)) (GetUserTokenByHash ops purpose h)"
  and "sb_user_token sb xt \<Longrightarrow> ut_Id xt \<noteq> '''' \<Longrightarrow> obeys I view (create_spec tb_userTokens tb_userTokens_update ut_Id user_token_clash xt) (CreateUserToken ops xt)"
  and "obeys I view (delete_spec tb_userTokens tb_userTokens_update k) (DeleteUserToken ops k)"
  and "obeys I view (delete_where_spec tb_userTokens tb_userTokens_update (\<lambda>x. ut_UserId x = userId \<and> ut_Purpose x = purpose)) (DeleteUserTokens ops userId purpose)"
  and "sb_cutoff sb before \<Longrightarrow> obeys I view (delete_where_spec tb_userTokens tb_userTokens_update (\<lambda>x. ut_ExpiresAt x \<le> before)) (DeleteExpiredUserTokens ops before)"
  supply c0 = assms [unfolded contract_on_def, THEN conjunct2] supply c1 = c0 [THEN conjunct2] supply c2 = c1 [THEN conjunct2] supply c3 = c2 [THEN conjunct2]
  supply c4 = c3 [THEN conjunct2] supply c5 = c4 [THEN conjunct2] supply c6 = c5 [THEN conjunct2] supply c7 = c6 [THEN conjunct2]
  supply c8 = c7 [THEN conjunct2] supply c9 = c8 [THEN conjunct2] supply c10 = c9 [THEN conjunct2] supply c11 = c10 [THEN conjunct2]
  supply c12 = c11 [THEN conjunct2] supply c13 = c12 [THEN conjunct2] supply c14 = c13 [THEN conjunct2] supply c15 = c14 [THEN conjunct2]
  supply c16 = c15 [THEN conjunct2] supply c17 = c16 [THEN conjunct2] supply c18 = c17 [THEN conjunct2] supply c19 = c18 [THEN conjunct2]
  supply c20 = c19 [THEN conjunct2] supply c21 = c20 [THEN conjunct2] supply c22 = c21 [THEN conjunct2] supply c23 = c22 [THEN conjunct2]
  supply c24 = c23 [THEN conjunct2] supply c25 = c24 [THEN conjunct2] supply c26 = c25 [THEN conjunct2] supply c27 = c26 [THEN conjunct2]
  supply c28 = c27 [THEN conjunct2] supply c29 = c28 [THEN conjunct2] supply c30 = c29 [THEN conjunct2] supply c31 = c30 [THEN conjunct2]
  supply c32 = c31 [THEN conjunct2] supply c33 = c32 [THEN conjunct2] supply c34 = c33 [THEN conjunct2] supply c35 = c34 [THEN conjunct2]
  by (rule c0 [THEN conjunct1, rule_format] c1 [THEN conjunct1, rule_format] c2 [THEN conjunct1, rule_format] c3 [THEN conjunct1, rule_format]
      c4 [THEN conjunct1, rule_format] c5 [THEN conjunct1, rule_format] c6 [THEN conjunct1, rule_format] c7 [THEN conjunct1, rule_format]
      c8 [THEN conjunct1, rule_format] c9 [THEN conjunct1, rule_format] c10 [THEN conjunct1, rule_format] c11 [THEN conjunct1, rule_format]
      c12 [THEN conjunct1, rule_format] c13 [THEN conjunct1, rule_format] c14 [THEN conjunct1, rule_format] c15 [THEN conjunct1, rule_format]
      c16 [THEN conjunct1, rule_format] c17 [THEN conjunct1, rule_format] c18 [THEN conjunct1, rule_format] c19 [THEN conjunct1, rule_format]
      c20 [THEN conjunct1, rule_format] c21 [THEN conjunct1, rule_format] c22 [THEN conjunct1, rule_format] c23 [THEN conjunct1, rule_format]
      c24 [THEN conjunct1, rule_format] c25 [THEN conjunct1, rule_format] c26 [THEN conjunct1, rule_format] c27 [THEN conjunct1, rule_format]
      c28 [THEN conjunct1, rule_format] c29 [THEN conjunct1, rule_format] c30 [THEN conjunct1, rule_format] c31 [THEN conjunct1, rule_format]
      c32 [THEN conjunct1, rule_format] c33 [THEN conjunct1, rule_format] c34 [THEN conjunct1, rule_format] c35 [rule_format]; (intro conjI)?; assumption?)+

lemma alike_operations [alike_rules]:
  assumes "contract_on sb ops I view (to_lower ul)"
  shows "alike store_failed (same_tables I view) (ListClients ops opts) (ListClients (memory_ops ul) opts)"
  and "alike store_failed (same_tables I view) (GetClientById ops k) (GetClientById (memory_ops ul) k)"
  and "alike store_failed (same_tables I view) (GetClientByClientId ops clientId) (GetClientByClientId (memory_ops ul) clientId)"
  and "sb_client sb xc \<Longrightarrow> c_Id xc \<noteq> '''' \<Longrightarrow> alike store_failed (same_tables I view) (CreateClient ops xc) (CreateClient (memory_ops ul) xc)"
  and "sb_client sb xc \<Longrightarrow> alike store_failed (same_tables I view) (UpdateClient ops xc) (UpdateClient (memory_ops ul) xc)"
  and "alike store_failed (same_tables I view) (DeleteClient ops k) (DeleteClient (memory_ops ul) k)"
  and "alike store_failed (same_tables I view) (ListUsers ops uf opts) (ListUsers (memory_ops ul) uf opts)"
  and "alike store_failed (same_tables I view) (GetUserById ops k) (GetUserById (memory_ops ul) k)"
  and "alike store_failed (same_tables I view) (GetUserByNormalizedUsername ops n) (GetUserByNormalizedUsername (memory_ops ul) n)"
  and "alike store_failed (same_tables I view) (GetUserByNormalizedEmail ops n) (GetUserByNormalizedEmail (memory_ops ul) n)"
  and "sb_user sb xu \<Longrightarrow> u_Id xu \<noteq> '''' \<Longrightarrow> alike store_failed (same_tables I view) (CreateUser ops xu) (CreateUser (memory_ops ul) xu)"
  and "sb_user sb xu \<Longrightarrow> alike store_failed (same_tables I view) (UpdateUser ops xu) (UpdateUser (memory_ops ul) xu)"
  and "alike store_failed (same_tables I view) (DeleteUser ops k) (DeleteUser (memory_ops ul) k)"
  and "filter_on sb f \<Longrightarrow> alike store_failed (same_tables I view) (ListAccessTokens ops f opts) (ListAccessTokens (memory_ops ul) f opts)"
  and "alike store_failed (same_tables I view) (GetAccessTokenById ops k) (GetAccessTokenById (memory_ops ul) k)"
  and "alike store_failed (same_tables I view) (GetAccessTokenByHash ops h) (GetAccessTokenByHash (memory_ops ul) h)"
  and "sb_access_token sb xa \<Longrightarrow> at_Id xa \<noteq> '''' \<Longrightarrow> alike store_failed (same_tables I view) (CreateAccessToken ops xa) (CreateAccessToken (memory_ops ul) xa)"
  and "alike store_failed (same_tables I view) (DeleteAccessToken ops k) (DeleteAccessToken (memory_ops ul) k)"
  and "filter_on sb f \<Longrightarrow> alike store_failed (same_tables I view) (DeleteAccessTokens ops f) (DeleteAccessTokens (memory_ops ul) f)"
  and "filter_on sb f \<Longrightarrow> alike store_failed (same_tables I view) (ListRefreshTokens ops f opts) (ListRefreshTokens (memory_ops ul) f opts)"
  and "alike store_failed (same_tables I view) (GetRefreshTokenById ops k) (GetRefreshTokenById (memory_ops ul) k)"
  and "alike store_failed (same_tables I view) (GetRefreshTokenByHash ops h) (GetRefreshTokenByHash (memory_ops ul) h)"
  and "sb_refresh_token sb xr \<Longrightarrow> rt_Id xr \<noteq> '''' \<Longrightarrow> alike store_failed (same_tables I view) (CreateRefreshToken ops xr) (CreateRefreshToken (memory_ops ul) xr)"
  and "sb_refresh_token sb xr \<Longrightarrow> alike store_failed (same_tables I view) (UpdateRefreshToken ops xr) (UpdateRefreshToken (memory_ops ul) xr)"
  and "alike store_failed (same_tables I view) (DeleteRefreshToken ops k) (DeleteRefreshToken (memory_ops ul) k)"
  and "filter_on sb f \<Longrightarrow> alike store_failed (same_tables I view) (DeleteRefreshTokens ops f) (DeleteRefreshTokens (memory_ops ul) f)"
  and "alike store_failed (same_tables I view) (GetAuthorizationCodeByHash ops h) (GetAuthorizationCodeByHash (memory_ops ul) h)"
  and "sb_code sb xk \<Longrightarrow> ac_Id xk \<noteq> '''' \<Longrightarrow> alike store_failed (same_tables I view) (CreateAuthorizationCode ops xk) (CreateAuthorizationCode (memory_ops ul) xk)"
  and "sb_time sb t \<Longrightarrow> alike store_failed (same_tables I view) (ConsumeAuthorizationCode ops k t) (ConsumeAuthorizationCode (memory_ops ul) k t)"
  and "alike store_failed (same_tables I view) (DeleteAuthorizationCode ops k) (DeleteAuthorizationCode (memory_ops ul) k)"
  and "sb_cutoff sb before \<Longrightarrow> alike store_failed (same_tables I view) (DeleteExpiredAuthorizationCodes ops before) (DeleteExpiredAuthorizationCodes (memory_ops ul) before)"
  and "alike store_failed (same_tables I view) (GetUserTokenByHash ops purpose h) (GetUserTokenByHash (memory_ops ul) purpose h)"
  and "sb_user_token sb xt \<Longrightarrow> ut_Id xt \<noteq> '''' \<Longrightarrow> alike store_failed (same_tables I view) (CreateUserToken ops xt) (CreateUserToken (memory_ops ul) xt)"
  and "alike store_failed (same_tables I view) (DeleteUserToken ops k) (DeleteUserToken (memory_ops ul) k)"
  and "alike store_failed (same_tables I view) (DeleteUserTokens ops userId purpose) (DeleteUserTokens (memory_ops ul) userId purpose)"
  and "sb_cutoff sb before \<Longrightarrow> alike store_failed (same_tables I view) (DeleteExpiredUserTokens ops before) (DeleteExpiredUserTokens (memory_ops ul) before)"
  by (rule alike_operation, (rule contract_laws [OF assms]; assumption?), (rule store.laws [OF memory.store_axioms]; assumption?),
      (simp only: memory_ops_simps mem_reliable), rule determinate_rules determinate_lists determinate_finds)+
section \<open>The suite\<close>

text \<open>What the suite stores; the times it consumes codes at and the times it deletes up to.\<close>

definition suite_clients :: "client list" where
  "suite_clients =
     [test_newClient ''c1'' ''client-one'' (at_min 0), test_newClient ''c1'' ''other'' (at_min 0),
      test_newClient ''c2'' ''client-one'' (at_min 0), test_newClient ''c2'' ''client-two'' (at_min 1), test_updatedClient,
      test_newClient ''c1'' ''client-two'' (at_min 0), test_newClient ''missing'' ''missing'' (at_min 0),
      test_newClient ''c3'' ''client-3'' (at_min 3), test_newClient ''c1'' ''client-1'' (at_min 1),
      test_newClient ''c2b'' ''client-2b'' (at_min 2), test_newClient ''c2a'' ''client-2a'' (at_min 2)]"

definition suite_users :: "golib \<Rightarrow> user list" where
  "suite_users lib =
     [test_newUser lib ''u1'' ''Alice'' (at_min 0), test_newUser lib ''u1'' ''other'' (at_min 0),
      test_withEmail lib (test_newUser lib ''u2'' ''ALICE'' (at_min 0)) ''unique@example.com'',
      test_withEmail lib (test_newUser lib ''u2'' ''bob'' (at_min 0)) ''alice@example.com'', test_bob lib, test_updatedUser lib,
      test_withEmail lib (test_newUser lib ''u1'' ''bob'' (at_min 0)) ''alice-unique@example.com'',
      test_newUser lib ''missing'' ''missing'' (at_min 0), test_newUser lib ''u3'' ''charlie'' (at_min 3),
      test_newUser lib ''u1'' ''alice'' (at_min 1), test_newUser lib ''u2'' ''bob'' (at_min 2),
      test_withEmail lib (test_newUser lib ''u4'' ''dave'' (at_min 4)) ''dave@other.org'']"

definition suite_accessTokens :: "access_token list" where
  "suite_accessTokens =
     [test_newAccessToken ''a1'' ''client1'' ''user1'' ''code1'' (at_min 0) (at_min 60),
      test_newAccessToken ''a1'' ''c'' ''u'' '''' (at_min 0) (at_min 1), test_duplicateHash, test_noUser,
      test_newAccessToken ''a3'' ''client2'' ''user1'' '''' (at_min 2) (at_min 90),
      test_newAccessToken ''a4'' ''client2'' ''user2'' ''code2'' (at_min 3) (at_min 120)]
     @ map (\<lambda>i. test_newAccessToken (''a'' @ itoa i) ''c'' ''u'' '''' (at_min 0) (at_min (int i * 10))) [0, 1, 2, 3]"

definition suite_refreshTokens :: "refresh_token list" where
  "suite_refreshTokens =
     [test_newRefreshToken ''r1'' ''client1'' ''user1'' (at_min 0) (at_min 100),
      test_newRefreshToken ''r1'' ''c'' ''u'' (at_min 0) (at_min 1), test_duplicateRefresh, test_updatedRefresh,
      test_newRefreshToken ''missing'' ''c'' ''u'' (at_min 0) (at_min 1),
      test_newRefreshToken ''r2'' ''client1'' ''user2'' (at_min 1) (at_min 50),
      test_newRefreshToken ''r3'' ''client2'' ''user1'' (at_min 2) (at_min 300)]
     @ map (\<lambda>i. test_newRefreshToken (''r'' @ itoa i) ''c'' ''u'' (at_min 0) (at_min (int i * 10))) [0, 1, 2, 3]"

definition suite_codes :: "authorization_code list" where
  "suite_codes =
     [test_newCode ''ac1'' (at_min 0) (at_min 5), test_duplicateCode, test_newCode ''ac2'' (at_min 0) (at_min 10),
      test_newCode ''ac3'' (at_min 0) (at_min 20)]
     @ map (\<lambda>i. test_newCode (''ac'' @ itoa i) (at_min 0) (at_min (int i * 10))) [0, 1, 2, 3]"

definition suite_userTokens :: "user_token list" where
  "suite_userTokens =
     [test_newToken ''t1'' ''u1'' UserTokenPurposeActivation (at_min 10),
      test_newToken ''t2'' ''u1'' UserTokenPurposePasswordReset (at_min 20),
      test_newToken ''t3'' ''u1'' UserTokenPurposePasswordReset (at_min 30),
      test_newToken ''t4'' ''u2'' UserTokenPurposePasswordReset (at_min 40)]
     @ map (\<lambda>i. test_newToken (''t'' @ itoa i) ''u'' UserTokenPurposeActivation (at_min (int i * 10))) [0, 1, 2, 3]"

definition suite_fits :: "storable \<Rightarrow> golib \<Rightarrow> bool" where
  "suite_fits sb lib \<longleftrightarrow>
     list_all (sb_client sb) suite_clients \<and> list_all (sb_user sb) (suite_users lib)
     \<and> list_all (sb_access_token sb) suite_accessTokens \<and> list_all (sb_refresh_token sb) suite_refreshTokens
     \<and> list_all (sb_code sb) suite_codes \<and> list_all (sb_user_token sb) suite_userTokens
     \<and> list_all (\<lambda>m. sb_time sb (at_min m)) [1, 2] \<and> list_all (\<lambda>m. sb_cutoff sb (at_min m)) [10, 15, 60, 200]"

lemma suite_ids [simp]:
  "c_Id (test_newClient k c t) = k" "c_Id test_updatedClient = ''c1''" "u_Id (test_newUser lib k n t) = k"
  "u_Id (test_withEmail lib u e) = u_Id u" "u_Id (test_bob lib) = ''u2''" "u_Id (test_updatedUser lib) = ''u1''"
  "at_Id (test_newAccessToken k c' u' d t x) = k" "at_Id test_duplicateHash = ''a9''" "at_Id test_noUser = ''a2''"
  "rt_Id (test_newRefreshToken k c' u' t x) = k" "rt_Id test_duplicateRefresh = ''r9''" "rt_Id test_updatedRefresh = ''r1''"
  "ac_Id (test_newCode k t x) = k" "ac_Id test_duplicateCode = ''ac9''" "ut_Id (test_newToken k u' p x) = k"
  by (simp_all add: test_newClient_def test_updatedClient_def test_newUser_def test_withEmail_def test_bob_def test_updatedUser_def
      test_newAccessToken_def test_duplicateHash_def test_noUser_def test_newRefreshToken_def test_duplicateRefresh_def
      test_updatedRefresh_def test_newCode_def test_duplicateCode_def test_newToken_def user_Normalize_def Let_def)

lemma filter_on_simps [simp]:
  "filter_on sb empty_filter" "filter_on sb (f\<lparr>tf_ClientId := c\<rparr>) = filter_on sb f" "filter_on sb (f\<lparr>tf_UserId := c\<rparr>) = filter_on sb f"
  "filter_on sb (f\<lparr>tf_AuthorizationCodeId := c\<rparr>) = filter_on sb f"
  "filter_on sb (f\<lparr>tf_ExpiredBefore := Some t\<rparr>) = sb_cutoff sb t"
  by (simp_all add: filter_on_def empty_filter_def)

lemma not_store_failed [simp]: "\<not> store_failed ErrNotFound" "\<not> store_failed ErrDuplicate" "\<not> store_failed ErrConflict"
  by (simp_all add: store_failed_def)

text \<open>\<open>DeleteExpired\<close> of \<open>pkg/store\<close> runs alike, as its four calls do.\<close>

lemma alike_DeleteExpired:
  assumes "contract_on sb ops I view (to_lower ul)" and "sb_cutoff sb now"
  shows "alike store_failed (same_tables I view) (DeleteExpired ops now) (DeleteExpired (memory_ops ul) now)"
  unfolding DeleteExpired_def Let_def
  by (intro alike_andThen alike_ret alike_operations [OF assms(1)]) (simp_all add: assms(2))

lemma alike_testClients:
  assumes c: "contract_on sb ops I view (to_lower ul)" and "suite_fits sb lib"
  shows "alike test_failed (same_tables I view) (testClients ops) (testClients (memory_ops ul))"
    and "alike test_failed (same_tables I view) (testClientList ops) (testClientList (memory_ops ul))"
proof -
  from assms(2) have fits: "list_all (sb_client sb) suite_clients" by (simp add: suite_fits_def)
  show "alike test_failed (same_tables I view) (testClients ops) (testClients (memory_ops ul))"
    and "alike test_failed (same_tables I view) (testClientList ops) (testClientList (memory_ops ul))"
    unfolding testClients_def testClientList_def
    by (intro alike_steps_Nil alike_steps_Cons alike_expectErr alike_expectOk alike_expectThat alike_operations [OF c];
        insert fits; simp add: suite_clients_def)+
qed
lemmas alike_test = alike_steps_Nil alike_steps_Cons alike_expectErr alike_expectOk alike_expectThat

lemma alike_testUsers:
  assumes c: "contract_on sb ops I view (to_lower ul)" and "suite_fits sb lib"
  shows "alike test_failed (same_tables I view) (testUsers lib ops) (testUsers lib (memory_ops ul))"
    and "alike test_failed (same_tables I view) (testUserList lib ops) (testUserList lib (memory_ops ul))"
proof -
  from assms(2) have fits: "list_all (sb_user sb) (suite_users lib)" by (simp add: suite_fits_def)
  show "alike test_failed (same_tables I view) (testUsers lib ops) (testUsers lib (memory_ops ul))"
    and "alike test_failed (same_tables I view) (testUserList lib ops) (testUserList lib (memory_ops ul))"
    unfolding testUsers_def testUserList_def
    by (intro alike_test alike_operations [OF c]; insert fits; simp add: suite_users_def)+
qed

lemma alike_testTokens:
  assumes c: "contract_on sb ops I view (to_lower ul)" and "suite_fits sb lib"
  shows "alike test_failed (same_tables I view) (testAccessTokens ops) (testAccessTokens (memory_ops ul))"
    and "alike test_failed (same_tables I view) (testRefreshTokens ops) (testRefreshTokens (memory_ops ul))"
proof -
  from assms(2) have fits: "list_all (sb_access_token sb) suite_accessTokens" "list_all (sb_refresh_token sb) suite_refreshTokens"
    "sb_cutoff sb (at_min 60)" "sb_cutoff sb (at_min 200)" by (simp_all add: suite_fits_def)
  show "alike test_failed (same_tables I view) (testAccessTokens ops) (testAccessTokens (memory_ops ul))"
    unfolding testAccessTokens_def accessTokenCases_def list.map append.simps prod.case
    by (intro alike_test alike_operations [OF c]; insert fits; simp add: suite_accessTokens_def)
  show "alike test_failed (same_tables I view) (testRefreshTokens ops) (testRefreshTokens (memory_ops ul))"
    unfolding testRefreshTokens_def refreshTokenCases_def list.map append.simps prod.case
    by (intro alike_test alike_operations [OF c]; insert fits; simp add: suite_refreshTokens_def)
qed

lemma alike_testCodes:
  assumes c: "contract_on sb ops I view (to_lower ul)" and "suite_fits sb lib"
  shows "alike test_failed (same_tables I view) (testAuthorizationCodes ops) (testAuthorizationCodes (memory_ops ul))"
    and "alike test_failed (same_tables I view) (testUserTokens ops) (testUserTokens (memory_ops ul))"
proof -
  from assms(2) have fits: "list_all (sb_code sb) suite_codes" "list_all (sb_user_token sb) suite_userTokens"
    "sb_time sb (at_min 1)" "sb_time sb (at_min 2)" "sb_cutoff sb (at_min 10)" by (simp_all add: suite_fits_def)
  show "alike test_failed (same_tables I view) (testAuthorizationCodes ops) (testAuthorizationCodes (memory_ops ul))"
    and "alike test_failed (same_tables I view) (testUserTokens ops) (testUserTokens (memory_ops ul))"
    unfolding testAuthorizationCodes_def testUserTokens_def Let_def
    by (intro alike_test alike_operations [OF c]; insert fits; simp add: suite_codes_def suite_userTokens_def)+
qed

lemma alike_testDeleteExpired:
  assumes c: "contract_on sb ops I view (to_lower ul)" and "suite_fits sb lib"
  shows "alike test_failed (same_tables I view) (testDeleteExpired ops) (testDeleteExpired (memory_ops ul))"
proof -
  from assms(2) have fits: "list_all (sb_access_token sb) suite_accessTokens" "list_all (sb_refresh_token sb) suite_refreshTokens"
    "list_all (sb_code sb) suite_codes" "list_all (sb_user_token sb) suite_userTokens" "sb_cutoff sb (at_min 15)"
    by (simp_all add: suite_fits_def)
  show ?thesis
    unfolding testDeleteExpired_def list.map concat.simps append.simps append_Nil2 Let_def
    by (intro alike_test alike_DeleteExpired [OF c] alike_operations [OF c]; insert fits;
        simp add: suite_accessTokens_def suite_refreshTokens_def suite_codes_def suite_userTokens_def)
qed

text \<open>The in-memory store passes: the suite computes.\<close>

lemma memory_passes:
  "list_all (\<lambda>(name, t). fst (t mem_New) = Inr ()) (storetest_Run lib (memory_ops ul))"
  by code_simp

definition no_tables :: tables where
  "no_tables = \<lparr>tb_clients = Map.empty, tb_users = Map.empty, tb_accessTokens = Map.empty, tb_refreshTokens = Map.empty,
     tb_authorizationCodes = Map.empty, tb_userTokens = Map.empty\<rparr>"

lemma mem_New_empty: "mem_inv mem_New" "mem_view mem_New = no_tables"
  by (simp_all add: mem_inv_def mem_New_def mem_view_def no_tables_def tables_ok_def keyed_def unique_field_def)

lemma suite_alike:
  assumes "contract_on sb ops I view (to_lower ul)" and "suite_fits sb lib"
  shows "list_all2 (\<lambda>(n1, t1) (n2, t2). n1 = n2 \<and> alike test_failed (same_tables I view) t1 t2)
    (storetest_Run lib ops) (storetest_Run lib (memory_ops ul))"
  unfolding storetest_Run_def
  by (simp add: alike_testClients [OF assms] alike_testUsers [OF assms] alike_testTokens [OF assms] alike_testCodes [OF assms]
      alike_testDeleteExpired [OF assms])

text \<open>Every store that meets the contract passes, up to failures of its database.\<close>

lemma conforming_passes:
  assumes "contract_on sb ops I view (to_lower ul)" and "suite_fits sb lib" and "I s" and "view s = no_tables"
    and "(name, t) \<in> set (storetest_Run lib ops)" and "t s = (r, s')"
  shows "r = Inr () \<or> (\<exists>what msg. r = Inl (Unexpected what (Some (StoreFailure msg))))"
proof -
  obtain i where i: "i < length (storetest_Run lib ops)" "storetest_Run lib ops ! i = (name, t)"
    using assms(5) by (auto simp: in_set_conv_nth)
  obtain n2 t2 where t2: "storetest_Run lib (memory_ops ul) ! i = (n2, t2)" by fastforce
  from suite_alike [OF assms(1,2)] i t2 have a: "alike test_failed (same_tables I view) t t2" and l: "i < length (storetest_Run lib (memory_ops ul))"
    by (auto dest: list_all2_nthD list_all2_lengthD)
  from memory_passes [of lib ul] l t2 have p: "fst (t2 mem_New) = Inr ()" by (auto simp: list_all_length dest: spec)
  obtain r2 s2' where q: "t2 mem_New = (r2, s2')" by fastforce
  from assms(3,4) have "same_tables I view s mem_New" by (simp add: same_tables_def mem_New_empty)
  from alikeD [OF a this assms(6) q] p q show ?thesis by (auto simp: test_failed_def)
qed

end
