(* ===== verification/SqlStore.thy ===== *)
theory SqlStore
  imports StoreSpec Format
begin

text \<open>
  The store on a SQL database (\<open>src/store/sql\<close>): the statements of every operation with their arguments, the encoding
  of values, the rows read back, and the schema. The database with its driver is a parameter; so are \<open>encoding/json\<close> on
  lists of strings and the Unicode part of \<open>strings.ToLower\<close>.
\<close>

section \<open>Dialects and placeholders\<close>

definition DialectPostgres :: string where [simp]: "DialectPostgres = ''postgres''"
definition DialectMySQL :: string where [simp]: "DialectMySQL = ''mysql''"
definition DialectSQLite :: string where [simp]: "DialectSQLite = ''sqlite''"
definition DefaultTablePrefix :: string where "DefaultTablePrefix = ''identity_''"

definition isIdentifier :: "string \<Rightarrow> bool" where
  "isIdentifier s \<longleftrightarrow>
     list_all (\<lambda>c. let n = of_char c :: nat in 97 \<le> n \<and> n \<le> 122 \<or> 65 \<le> n \<and> n \<le> 90 \<or> 48 \<le> n \<and> n \<le> 57 \<or> c = CHR ''_'') s
     \<and> s \<noteq> ''''"

text \<open>The loop of \<open>rebind\<close>: the rest of the query, the placeholders so far, and the open quote.\<close>

fun rebind_loop :: "string \<Rightarrow> nat \<Rightarrow> char option \<Rightarrow> string" where
  "rebind_loop [] n quote = []"
| "rebind_loop (c # cs) n quote =
     (case quote of
        Some b \<Rightarrow> c # rebind_loop cs n (if c = b then None else quote)
      | None \<Rightarrow>
          if c = CHR 0x27 \<or> c = CHR 0x22 then c # rebind_loop cs n (Some c)
          else if c = CHR ''?'' then CHR ''$'' # itoa (n + 1) @ rebind_loop cs (n + 1) None
          else c # rebind_loop cs n None)"

definition rebind :: "string \<Rightarrow> string \<Rightarrow> string" where
  "rebind dialect query =
     (if dialect \<noteq> DialectPostgres \<or> \<not> contains_str query ''?'' then query else rebind_loop query 0 None)"

fun placeholders_loop :: "nat \<Rightarrow> nat \<Rightarrow> string" where
  "placeholders_loop i 0 = ''''"
| "placeholders_loop i (Suc n) = (if 0 < i then '', '' else '''') @ ''?'' @ placeholders_loop (i + 1) n"

definition placeholders :: "nat \<Rightarrow> string" where
  "placeholders n = placeholders_loop 0 n"

section \<open>The schema\<close>

definition tableClients :: string where [simp]: "tableClients = ''clients''"
definition tableUsers :: string where [simp]: "tableUsers = ''users''"
definition tableAccessTokens :: string where [simp]: "tableAccessTokens = ''access_tokens''"
definition tableRefreshTokens :: string where [simp]: "tableRefreshTokens = ''refresh_tokens''"
definition tableAuthorizationCodes :: string where [simp]: "tableAuthorizationCodes = ''authorization_codes''"
definition tableUserTokens :: string where [simp]: "tableUserTokens = ''user_tokens''"

datatype columnType = colKey | colText | colInt | colNullInt | colBool

record tableSpec =
  ts_name :: string
  ts_columns :: "(string \<times> columnType) list"
  ts_unique :: "string list"
  ts_indexes :: "string list"

definition schema :: "tableSpec list" where
  "schema =
     [\<lparr>ts_name = tableClients,
       ts_columns = [(''id'', colKey), (''client_id'', colKey), (''name'', colText), (''description'', colText),
         (''client_type'', colKey), (''secret_hash'', colText), (''redirect_uris'', colText),
         (''allowed_scopes'', colText), (''default_scopes'', colText), (''allowed_grant_types'', colText),
         (''require_consent'', colBool), (''require_pkce'', colBool), (''enabled'', colBool),
         (''access_token_lifetime'', colInt), (''authorization_code_lifetime'', colInt),
         (''refresh_token_usage'', colKey), (''refresh_token_expiration'', colKey),
         (''refresh_token_lifetime'', colInt), (''created_at'', colInt), (''updated_at'', colInt)],
       ts_unique = [''client_id''], ts_indexes = [''created_at'']\<rparr>,
      \<lparr>ts_name = tableUsers,
       ts_columns = [(''id'', colKey), (''username'', colKey), (''normalized_username'', colKey), (''email'', colKey),
         (''normalized_email'', colKey), (''password_hash'', colText), (''email_verified'', colBool),
         (''enabled'', colBool), (''security_stamp'', colText), (''failed_login_count'', colInt),
         (''lockout_end'', colNullInt), (''last_login_at'', colNullInt), (''created_at'', colInt),
         (''updated_at'', colInt)],
       ts_unique = [''normalized_username'', ''normalized_email''], ts_indexes = [''created_at'']\<rparr>,
      \<lparr>ts_name = tableAccessTokens,
       ts_columns = [(''id'', colKey), (''token_hash'', colKey), (''client_id'', colKey), (''user_id'', colKey),
         (''scopes'', colText), (''authorization_code_id'', colKey), (''created_at'', colInt),
         (''expires_at'', colInt)],
       ts_unique = [''token_hash''], ts_indexes = [''client_id'', ''user_id'', ''authorization_code_id'', ''expires_at'', ''created_at'']\<rparr>,
      \<lparr>ts_name = tableRefreshTokens,
       ts_columns = [(''id'', colKey), (''token_hash'', colKey), (''client_id'', colKey), (''user_id'', colKey),
         (''access_token_id'', colKey), (''authorization_code_id'', colKey), (''scopes'', colText),
         (''token_expiration'', colKey), (''token_usage'', colKey), (''lifetime'', colInt), (''created_at'', colInt),
         (''updated_at'', colInt), (''expires_at'', colInt)],
       ts_unique = [''token_hash''], ts_indexes = [''client_id'', ''user_id'', ''authorization_code_id'', ''expires_at'', ''created_at'']\<rparr>,
      \<lparr>ts_name = tableAuthorizationCodes,
       ts_columns = [(''id'', colKey), (''code_hash'', colKey), (''client_id'', colKey), (''user_id'', colKey),
         (''scopes'', colText), (''redirect_uri'', colText), (''code_challenge'', colText),
         (''code_challenge_method'', colKey), (''created_at'', colInt), (''expires_at'', colInt),
         (''consumed_at'', colNullInt)],
       ts_unique = [''code_hash''], ts_indexes = [''client_id'', ''user_id'', ''expires_at'']\<rparr>,
      \<lparr>ts_name = tableUserTokens,
       ts_columns = [(''id'', colKey), (''user_id'', colKey), (''purpose'', colKey), (''token_hash'', colKey),
         (''created_at'', colInt), (''expires_at'', colInt)],
       ts_unique = [''token_hash''], ts_indexes = [''user_id'', ''expires_at'']\<rparr>]"

text \<open>The column list of a table; an unknown name is a panic of the source.\<close>

definition columnList :: "string \<Rightarrow> string option" where
  "columnList name = map_option (\<lambda>spec. join '', '' (map fst (ts_columns spec))) (find (\<lambda>spec. ts_name spec = name) schema)"

definition clientColumns :: string where "clientColumns = the (columnList tableClients)"
definition userColumns :: string where "userColumns = the (columnList tableUsers)"
definition accessTokenColumns :: string where "accessTokenColumns = the (columnList tableAccessTokens)"
definition refreshTokenColumns :: string where "refreshTokenColumns = the (columnList tableRefreshTokens)"
definition authorizationCodeColumns :: string where "authorizationCodeColumns = the (columnList tableAuthorizationCodes)"
definition userTokenColumns :: string where "userTokenColumns = the (columnList tableUserTokens)"

section \<open>Values\<close>

datatype sql_value = SqlNull | SqlString string | SqlInt int | SqlBool bool

text \<open>
  The zero \<open>time.Time\<close> is January 1 of the year 1; \<open>UnixNano\<close> is computed in 64 bits.
\<close>

definition zero_time :: time where "zero_time = - 62135596800 * 1000000000"

definition UnixNano :: "time \<Rightarrow> int" where
  "UnixNano t = sint (word_of_int t :: 64 word)"

definition encTime :: "time \<Rightarrow> int" where
  "encTime t = (if t = zero_time then 0 else UnixNano t)"

definition decTime :: "int \<Rightarrow> time" where
  "decTime n = (if n = 0 then zero_time else n)"

definition encTimePtr :: "time option \<Rightarrow> sql_value" where
  "encTimePtr t = (case t of None \<Rightarrow> SqlNull | Some v \<Rightarrow> SqlInt (encTime v))"

definition decTimePtr :: "int option \<Rightarrow> time option" where
  "decTimePtr n = (case n of None \<Rightarrow> None | Some v \<Rightarrow> Some (decTime v))"

record sql_lib =
  sl_Marshal :: "string list \<Rightarrow> string"
  sl_Unmarshal :: "string \<Rightarrow> string list option"
  sl_lower :: "string \<Rightarrow> string"

definition encList :: "sql_lib \<Rightarrow> string list \<Rightarrow> string" where
  "encList lib v = (if v = [] then ''[]'' else sl_Marshal lib v)"

definition decList :: "sql_lib \<Rightarrow> string \<Rightarrow> string + string list" where
  "decList lib s =
     (if s = '''' then Inr [] else case sl_Unmarshal lib s of Some v \<Rightarrow> Inr v | None \<Rightarrow> Inl ''sqlstore: invalid list value'')"

definition likeEscape :: char where "likeEscape = CHR ''!''"

definition escapeLike :: "string \<Rightarrow> string" where
  "escapeLike s = concat (map (\<lambda>c. if c = likeEscape \<or> c = CHR ''%'' \<or> c = CHR ''_'' then [likeEscape, c] else [c]) s)"

text \<open>
  \<open>Scan\<close> of \<open>database/sql\<close> into destinations of the types the store uses: a boolean comes as such or as 0 or 1, and a
  null only fits a \<open>sql.NullInt64\<close>.
\<close>

datatype scan_dest = DString | DInt | DNullInt | DBool

definition scan_value :: "scan_dest \<Rightarrow> sql_value \<Rightarrow> sql_value option" where
  "scan_value dest v =
     (case (dest, v) of
        (DString, SqlString s) \<Rightarrow> Some (SqlString s)
      | (DInt, SqlInt i) \<Rightarrow> Some (SqlInt i)
      | (DNullInt, SqlInt i) \<Rightarrow> Some (SqlInt i)
      | (DNullInt, SqlNull) \<Rightarrow> Some SqlNull
      | (DBool, SqlBool b) \<Rightarrow> Some (SqlBool b)
      | (DBool, SqlInt i) \<Rightarrow> if i = 0 then Some (SqlBool False) else if i = 1 then Some (SqlBool True) else None
      | _ \<Rightarrow> None)"

fun scan_row :: "scan_dest list \<Rightarrow> sql_value list \<Rightarrow> string + sql_value list" where
  "scan_row [] [] = Inr []"
| "scan_row (d # ds) (v # vs) =
     (case scan_value d v of None \<Rightarrow> Inl ''sql: Scan error''
      | Some x \<Rightarrow> (case scan_row ds vs of Inl e \<Rightarrow> Inl e | Inr xs \<Rightarrow> Inr (x # xs)))"
| "scan_row ds vs = Inl ''sql: wrong number of destinations''"

fun str_of :: "sql_value \<Rightarrow> string" where
  "str_of (SqlString s) = s" | "str_of v = ''''"

fun int_of_value :: "sql_value \<Rightarrow> int" where
  "int_of_value (SqlInt i) = i" | "int_of_value v = 0"

fun bool_of :: "sql_value \<Rightarrow> bool" where
  "bool_of (SqlBool b) = b" | "bool_of v = False"

fun null_int_of :: "sql_value \<Rightarrow> int option" where
  "null_int_of (SqlInt i) = Some i" | "null_int_of v = None"

definition bindSum :: "'e + 'a \<Rightarrow> ('a \<Rightarrow> 'e + 'b) \<Rightarrow> 'e + 'b" where
  "bindSum x f = (case x of Inl e \<Rightarrow> Inl e | Inr a \<Rightarrow> f a)"

section \<open>Rows\<close>

text \<open>
  For each entity the values of its columns as they are sent, and the entity that is scanned from a row. In the model
  a destination is its position in the scanned row.
\<close>

definition clientValues :: "sql_lib \<Rightarrow> client \<Rightarrow> sql_value list" where
  "clientValues lib x =
     [SqlString (c_ClientId x), SqlString (c_Name x), SqlString (c_Description x), SqlString (c_Type x),
      SqlString (c_SecretHash x), SqlString (encList lib (c_RedirectUris x)),
      SqlString (encList lib (c_AllowedScopes x)), SqlString (encList lib (c_DefaultScopes x)),
      SqlString (encList lib (c_AllowedGrantTypes x)), SqlBool (c_RequireConsent x), SqlBool (c_RequirePkce x),
      SqlBool (c_Enabled x), SqlInt (c_AccessTokenLifetime x), SqlInt (c_AuthorizationCodeLifetime x),
      SqlString (c_RefreshTokenUsage x), SqlString (c_RefreshTokenExpiration x), SqlInt (c_RefreshTokenLifetime x),
      SqlInt (encTime (c_CreatedAt x)), SqlInt (encTime (c_UpdatedAt x))]"

definition scanClient :: "sql_lib \<Rightarrow> sql_value list \<Rightarrow> string + client" where
  "scanClient lib row =
     bindSum (scan_row [DString, DString, DString, DString, DString, DString, DString, DString, DString, DString, DBool, DBool,
        DBool, DInt, DInt, DString, DString, DInt, DInt, DInt] row) (\<lambda>vs.
     bindSum (decList lib (str_of (vs ! 6))) (\<lambda>l6.
     bindSum (decList lib (str_of (vs ! 7))) (\<lambda>l7.
     bindSum (decList lib (str_of (vs ! 8))) (\<lambda>l8.
     bindSum (decList lib (str_of (vs ! 9))) (\<lambda>l9.
     Inr \<lparr>c_Id = str_of (vs ! 0), c_ClientId = str_of (vs ! 1), c_Name = str_of (vs ! 2),
        c_Description = str_of (vs ! 3), c_Type = str_of (vs ! 4), c_SecretHash = str_of (vs ! 5),
        c_RedirectUris = l6, c_AllowedScopes = l7, c_DefaultScopes = l8, c_AllowedGrantTypes = l9,
        c_RequireConsent = bool_of (vs ! 10), c_RequirePkce = bool_of (vs ! 11), c_Enabled = bool_of (vs ! 12),
        c_AccessTokenLifetime = int_of_value (vs ! 13), c_AuthorizationCodeLifetime = int_of_value (vs ! 14),
        c_RefreshTokenUsage = str_of (vs ! 15), c_RefreshTokenExpiration = str_of (vs ! 16),
        c_RefreshTokenLifetime = int_of_value (vs ! 17), c_CreatedAt = decTime (int_of_value (vs ! 18)),
        c_UpdatedAt = decTime (int_of_value (vs ! 19))\<rparr>)))))"

definition userValues :: "user \<Rightarrow> sql_value list" where
  "userValues x =
     [SqlString (u_Username x), SqlString (u_NormalizedUsername x), SqlString (u_Email x),
      SqlString (u_NormalizedEmail x), SqlString (u_PasswordHash x), SqlBool (u_EmailVerified x),
      SqlBool (u_Enabled x), SqlString (u_SecurityStamp x), SqlInt (u_FailedLoginCount x),
      encTimePtr (u_LockoutEnd x), encTimePtr (u_LastLoginAt x), SqlInt (encTime (u_CreatedAt x)),
      SqlInt (encTime (u_UpdatedAt x))]"

definition scanUser :: "sql_value list \<Rightarrow> string + user" where
  "scanUser row =
     bindSum (scan_row [DString, DString, DString, DString, DString, DString, DBool, DBool, DString, DInt, DNullInt, DNullInt, DInt,
        DInt] row) (\<lambda>vs.
     Inr \<lparr>u_Id = str_of (vs ! 0), u_Username = str_of (vs ! 1), u_NormalizedUsername = str_of (vs ! 2),
        u_Email = str_of (vs ! 3), u_NormalizedEmail = str_of (vs ! 4), u_PasswordHash = str_of (vs ! 5),
        u_EmailVerified = bool_of (vs ! 6), u_Enabled = bool_of (vs ! 7), u_SecurityStamp = str_of (vs ! 8),
        u_FailedLoginCount = int_of_value (vs ! 9), u_LockoutEnd = decTimePtr (null_int_of (vs ! 10)),
        u_LastLoginAt = decTimePtr (null_int_of (vs ! 11)), u_CreatedAt = decTime (int_of_value (vs ! 12)),
        u_UpdatedAt = decTime (int_of_value (vs ! 13))\<rparr>)"

definition accessTokenValues :: "sql_lib \<Rightarrow> access_token \<Rightarrow> sql_value list" where
  "accessTokenValues lib x =
     [SqlString (at_TokenHash x), SqlString (at_ClientId x), SqlString (at_UserId x),
      SqlString (encList lib (at_Scopes x)), SqlString (at_AuthorizationCodeId x), SqlInt (encTime (at_CreatedAt x)),
      SqlInt (encTime (at_ExpiresAt x))]"

definition scanAccessToken :: "sql_lib \<Rightarrow> sql_value list \<Rightarrow> string + access_token" where
  "scanAccessToken lib row =
     bindSum (scan_row [DString, DString, DString, DString, DString, DString, DInt, DInt] row) (\<lambda>vs.
     bindSum (decList lib (str_of (vs ! 4))) (\<lambda>l4.
     Inr \<lparr>at_Id = str_of (vs ! 0), at_TokenHash = str_of (vs ! 1), at_ClientId = str_of (vs ! 2),
        at_UserId = str_of (vs ! 3), at_Scopes = l4, at_AuthorizationCodeId = str_of (vs ! 5),
        at_CreatedAt = decTime (int_of_value (vs ! 6)), at_ExpiresAt = decTime (int_of_value (vs ! 7))\<rparr>))"

definition refreshTokenValues :: "sql_lib \<Rightarrow> refresh_token \<Rightarrow> sql_value list" where
  "refreshTokenValues lib x =
     [SqlString (rt_TokenHash x), SqlString (rt_ClientId x), SqlString (rt_UserId x), SqlString (rt_AccessTokenId x),
      SqlString (rt_AuthorizationCodeId x), SqlString (encList lib (rt_Scopes x)), SqlString (rt_TokenExpiration x),
      SqlString (rt_TokenUsage x), SqlInt (rt_Lifetime x), SqlInt (encTime (rt_CreatedAt x)),
      SqlInt (encTime (rt_UpdatedAt x)), SqlInt (encTime (rt_ExpiresAt x))]"

definition scanRefreshToken :: "sql_lib \<Rightarrow> sql_value list \<Rightarrow> string + refresh_token" where
  "scanRefreshToken lib row =
     bindSum (scan_row [DString, DString, DString, DString, DString, DString, DString, DString, DString, DInt, DInt, DInt, DInt] row) (\<lambda>vs.
     bindSum (decList lib (str_of (vs ! 6))) (\<lambda>l6.
     Inr \<lparr>rt_Id = str_of (vs ! 0), rt_TokenHash = str_of (vs ! 1), rt_ClientId = str_of (vs ! 2),
        rt_UserId = str_of (vs ! 3), rt_AccessTokenId = str_of (vs ! 4), rt_AuthorizationCodeId = str_of (vs ! 5),
        rt_Scopes = l6, rt_TokenExpiration = str_of (vs ! 7), rt_TokenUsage = str_of (vs ! 8),
        rt_Lifetime = int_of_value (vs ! 9), rt_CreatedAt = decTime (int_of_value (vs ! 10)),
        rt_UpdatedAt = decTime (int_of_value (vs ! 11)), rt_ExpiresAt = decTime (int_of_value (vs ! 12))\<rparr>))"

definition authorizationCodeValues :: "sql_lib \<Rightarrow> authorization_code \<Rightarrow> sql_value list" where
  "authorizationCodeValues lib x =
     [SqlString (ac_CodeHash x), SqlString (ac_ClientId x), SqlString (ac_UserId x),
      SqlString (encList lib (ac_Scopes x)), SqlString (ac_RedirectUri x), SqlString (ac_CodeChallenge x),
      SqlString (ac_CodeChallengeMethod x), SqlInt (encTime (ac_CreatedAt x)), SqlInt (encTime (ac_ExpiresAt x)),
      encTimePtr (ac_ConsumedAt x)]"

definition scanAuthorizationCode :: "sql_lib \<Rightarrow> sql_value list \<Rightarrow> string + authorization_code" where
  "scanAuthorizationCode lib row =
     bindSum (scan_row [DString, DString, DString, DString, DString, DString, DString, DString, DInt, DInt, DNullInt] row) (\<lambda>vs.
     bindSum (decList lib (str_of (vs ! 4))) (\<lambda>l4.
     Inr \<lparr>ac_Id = str_of (vs ! 0), ac_CodeHash = str_of (vs ! 1), ac_ClientId = str_of (vs ! 2),
        ac_UserId = str_of (vs ! 3), ac_Scopes = l4, ac_RedirectUri = str_of (vs ! 5),
        ac_CodeChallenge = str_of (vs ! 6), ac_CodeChallengeMethod = str_of (vs ! 7),
        ac_CreatedAt = decTime (int_of_value (vs ! 8)), ac_ExpiresAt = decTime (int_of_value (vs ! 9)),
        ac_ConsumedAt = decTimePtr (null_int_of (vs ! 10))\<rparr>))"

definition userTokenValues :: "user_token \<Rightarrow> sql_value list" where
  "userTokenValues x =
     [SqlString (ut_UserId x), SqlString (ut_Purpose x), SqlString (ut_TokenHash x),
      SqlInt (encTime (ut_CreatedAt x)), SqlInt (encTime (ut_ExpiresAt x))]"

definition scanUserToken :: "sql_value list \<Rightarrow> string + user_token" where
  "scanUserToken row =
     bindSum (scan_row [DString, DString, DString, DString, DInt, DInt] row) (\<lambda>vs.
     Inr \<lparr>ut_Id = str_of (vs ! 0), ut_UserId = str_of (vs ! 1), ut_Purpose = str_of (vs ! 2),
        ut_TokenHash = str_of (vs ! 3), ut_CreatedAt = decTime (int_of_value (vs ! 4)),
        ut_ExpiresAt = decTime (int_of_value (vs ! 5))\<rparr>)"

section \<open>The driver\<close>

text \<open>
  \<open>ExecContext\<close> returns the result, whose \<open>RowsAffected\<close> may be an error; \<open>QueryContext\<close> the rows up to the end or
  an error. \<open>QueryRowContext\<close> with \<open>Scan\<close> reads the first row.
\<close>

record 'd sql_db =
  db_Exec :: "string \<Rightarrow> sql_value list \<Rightarrow> ('d, string, string + nat) act"
  db_Query :: "string \<Rightarrow> sql_value list \<Rightarrow> ('d, string, sql_value list list \<times> string option) act"

record 'd sql_Store =
  sq_db :: "'d sql_db"
  sq_dialect :: string
  sq_prefix :: string
  sq_lib :: sql_lib

datatype sql_new_error = DbIsNil | UnsupportedDialect string | InvalidTablePrefix string

definition sql_New :: "'d sql_db option \<Rightarrow> string \<Rightarrow> string \<Rightarrow> sql_lib \<Rightarrow> sql_new_error + 'd sql_Store" where
  "sql_New db dialect prefix0 lib =
     (case db of None \<Rightarrow> Inl DbIsNil
      | Some d \<Rightarrow>
          if dialect \<notin> {DialectPostgres, DialectMySQL, DialectSQLite} then Inl (UnsupportedDialect dialect)
          else let prefix1 = (if prefix0 = '''' then DefaultTablePrefix else prefix0)
               in if \<not> isIdentifier prefix1 then Inl (InvalidTablePrefix prefix1)
                  else Inr \<lparr>sq_db = d, sq_dialect = dialect, sq_prefix = prefix1, sq_lib = lib\<rparr>)"

definition table :: "'d sql_Store \<Rightarrow> string \<Rightarrow> string" where
  "table st name = sq_prefix st @ name"

definition sql_exec :: "'d sql_Store \<Rightarrow> string \<Rightarrow> sql_value list \<Rightarrow> ('d, string, string + nat) act" where
  "sql_exec st query args = db_Exec (sq_db st) (rebind (sq_dialect st) query) args"

definition sql_query :: "'d sql_Store \<Rightarrow> string \<Rightarrow> sql_value list \<Rightarrow> ('d, string, sql_value list list \<times> string option) act" where
  "sql_query st query args = db_Query (sq_db st) (rebind (sq_dialect st) query) args"

datatype row_error = NoRows | RowError string

definition queryRow ::
  "'d sql_Store \<Rightarrow> string \<Rightarrow> sql_value list \<Rightarrow> (sql_value list \<Rightarrow> string + 'v) \<Rightarrow> ('d, row_error, 'v) act" where
  "queryRow st query args scan =
     handle (sql_query st query args) (\<lambda>e. fail (RowError e)) (\<lambda>(rows, err).
     case rows of
       [] \<Rightarrow> (case err of None \<Rightarrow> fail NoRows | Some e \<Rightarrow> fail (RowError e))
     | row # _ \<Rightarrow> (case scan row of Inl e \<Rightarrow> fail (RowError e) | Inr x \<Rightarrow> ret x))"

definition isUniqueViolation :: "sql_lib \<Rightarrow> string \<Rightarrow> bool" where
  "isUniqueViolation lib msg0 =
     (let msg = to_lower (sl_lower lib) msg0
      in contains_str msg ''unique'' \<or> contains_str msg ''duplicate'' \<or> contains_str msg ''23505'')"

definition sql_mapError :: "sql_lib \<Rightarrow> string \<Rightarrow> store_error" where
  "sql_mapError lib e = (if isUniqueViolation lib e then ErrDuplicate else StoreFailure e)"

definition row_failure :: "row_error \<Rightarrow> store_error" where
  "row_failure e = (case e of NoRows \<Rightarrow> StoreFailure ''sql: no rows in result set'' | RowError m \<Rightarrow> StoreFailure m)"

definition scan_int :: "sql_value list \<Rightarrow> string + int" where
  "scan_int row = bindSum (scan_row [DInt] row) (\<lambda>vs. Inr (int_of_value (vs ! 0)))"

definition affected :: "string + nat \<Rightarrow> ('d, store_error, nat) act" where
  "affected res = (case res of Inl e \<Rightarrow> fail (StoreFailure e) | Inr n \<Rightarrow> ret n)"

definition sql_exists :: "'d sql_Store \<Rightarrow> string \<Rightarrow> string \<Rightarrow> ('d, store_error, bool) act" where
  "sql_exists st tab k =
     handle (queryRow st (''SELECT 1 FROM '' @ tab @ '' WHERE id = ?'') [SqlString k] scan_int)
       (\<lambda>e. if e = NoRows then ret False else fail (row_failure e)) (\<lambda>_. ret True)"

definition execChanged ::
  "'d sql_Store \<Rightarrow> string \<Rightarrow> string \<Rightarrow> string \<Rightarrow> sql_value list \<Rightarrow> ('d, store_error, unit) act" where
  "execChanged st tab k query args =
     andThen (mapErr (sql_mapError (sq_lib st)) (sql_exec st query args)) (\<lambda>res.
     andThen (affected res) (\<lambda>n.
     if 0 < n then ret ()
     else andThen (sql_exists st tab k) (\<lambda>found. if \<not> found then fail ErrNotFound else ret ())))"

definition execDelete :: "'d sql_Store \<Rightarrow> string \<Rightarrow> string \<Rightarrow> ('d, store_error, unit) act" where
  "execDelete st tab k =
     andThen (mapErr StoreFailure (sql_exec st (''DELETE FROM '' @ tab @ '' WHERE id = ?'') [SqlString k])) (\<lambda>res.
     andThen (affected res) (\<lambda>n. if n = 0 then fail ErrNotFound else ret ()))"

definition execCount :: "'d sql_Store \<Rightarrow> string \<Rightarrow> sql_value list \<Rightarrow> ('d, store_error, nat) act" where
  "execCount st query args = andThen (mapErr StoreFailure (sql_exec st query args)) affected"

definition sql_count :: "'d sql_Store \<Rightarrow> string \<Rightarrow> string \<Rightarrow> sql_value list \<Rightarrow> ('d, store_error, int) act" where
  "sql_count st tab whr args = mapErr row_failure (queryRow st (''SELECT COUNT(*) FROM '' @ tab @ whr) args scan_int)"

text \<open>The loop over the rows of a page.\<close>

fun scan_all :: "(sql_value list \<Rightarrow> string + 'v) \<Rightarrow> sql_value list list \<Rightarrow> string + 'v list" where
  "scan_all scan [] = Inr []"
| "scan_all scan (row # rows) = bindSum (scan row) (\<lambda>x. bindSum (scan_all scan rows) (\<lambda>xs. Inr (x # xs)))"

definition sql_list ::
  "'d sql_Store \<Rightarrow> string \<Rightarrow> string \<Rightarrow> string \<Rightarrow> sql_value list \<Rightarrow> ListOptions \<Rightarrow> (sql_value list \<Rightarrow> string + 'v) \<Rightarrow>
   ('d, store_error, 'v list \<times> nat) act" where
  "sql_list st tab columns whr args opts0 scan =
     (let opts = ListOptions_Normalize opts0
      in andThen (sql_count st tab whr args) (\<lambda>total.
         if total = 0 \<or> total \<le> lo_Offset opts then ret ([], nat total)
         else andThen (mapErr StoreFailure (sql_query st
             (''SELECT '' @ columns @ '' FROM '' @ tab @ whr @ '' ORDER BY created_at, id LIMIT ? OFFSET ?'')
             (args @ [SqlInt (lo_Limit opts), SqlInt (lo_Offset opts)]))) (\<lambda>(rows, err).
           case scan_all scan rows of Inl e \<Rightarrow> fail (StoreFailure e)
           | Inr items \<Rightarrow> (case err of Some e \<Rightarrow> fail (StoreFailure e) | None \<Rightarrow> ret (items, nat total)))))"

definition getOne ::
  "'d sql_Store \<Rightarrow> string \<Rightarrow> sql_value list \<Rightarrow> (sql_value list \<Rightarrow> string + 'v) \<Rightarrow> ('d, store_error, 'v) act" where
  "getOne st query args scan =
     mapErr (\<lambda>e. case e of NoRows \<Rightarrow> ErrNotFound | RowError m \<Rightarrow> StoreFailure m) (queryRow st query args scan)"

section \<open>Migration\<close>

definition columnDefinition :: "string \<Rightarrow> columnType \<Rightarrow> string" where
  "columnDefinition dialect c =
     (case c of
        colKey \<Rightarrow> if dialect = DialectPostgres
                  then ''VARCHAR(255) COLLATE '' @ [CHR 0x22, CHR ''C'', CHR 0x22] @ '' NOT NULL'' else ''VARCHAR(255) NOT NULL''
      | colText \<Rightarrow> ''TEXT NOT NULL''
      | colInt \<Rightarrow> ''BIGINT NOT NULL''
      | colNullInt \<Rightarrow> ''BIGINT NULL''
      | colBool \<Rightarrow> ''BOOLEAN NOT NULL'')"

definition tableStatements :: "string \<Rightarrow> string \<Rightarrow> tableSpec \<Rightarrow> string list" where
  "tableStatements dialect prefix0 spec =
     (let tab = prefix0 @ ts_name spec;
          nl = [CHR 0x0A, CHR 0x09];
          defs0 = map (\<lambda>(name, typ). name @ '' '' @ columnDefinition dialect typ) (ts_columns spec);
          defs1 = defs0 @ [''PRIMARY KEY (id)''];
          defs2 = defs1 @ map (\<lambda>col. ''CONSTRAINT '' @ tab @ ''_'' @ col @ ''_key UNIQUE ('' @ col @ '')'') (ts_unique spec);
          defs3 = (if dialect = DialectMySQL
                   then defs2 @ map (\<lambda>col. ''INDEX '' @ tab @ ''_'' @ col @ ''_idx ('' @ col @ '')'') (ts_indexes spec)
                   else defs2);
          ddl0 = ''CREATE TABLE IF NOT EXISTS '' @ tab @ '' ('' @ nl @ join ('','' @ nl) defs3 @ [CHR 0x0A] @ '')'';
          ddl = (if dialect = DialectMySQL
                 then ddl0 @ '' ENGINE=InnoDB DEFAULT CHARSET=utf8mb4 COLLATE=utf8mb4_bin'' else ddl0)
      in ddl # (if dialect \<noteq> DialectMySQL
                then map (\<lambda>col. ''CREATE INDEX IF NOT EXISTS '' @ tab @ ''_'' @ col @ ''_idx ON '' @ tab @ '' ('' @ col @ '')'')
                  (ts_indexes spec)
                else []))"

definition schemaStatements :: "'d sql_Store \<Rightarrow> string list" where
  "schemaStatements st = concat (map (tableStatements (sq_dialect st) (sq_prefix st)) schema)"

definition Migrate :: "'d sql_Store \<Rightarrow> ('d, string, unit) act" where
  "Migrate st =
     foldr (\<lambda>statement rest. andThen (mapErr (\<lambda>e. ''sqlstore: migrate: '' @ e) (db_Exec (sq_db st) statement [])) (\<lambda>_. rest))
       (schemaStatements st) (ret ())"

section \<open>Filters\<close>

definition tokenWhere :: "TokenFilter \<Rightarrow> string \<times> sql_value list" where
  "tokenWhere f =
     (let c0 = []; a0 = [];
          (c1, a1) = (if tf_ClientId f \<noteq> '''' then (c0 @ [''client_id = ?''], a0 @ [SqlString (tf_ClientId f)]) else (c0, a0));
          (c2, a2) = (if tf_UserId f \<noteq> '''' then (c1 @ [''user_id = ?''], a1 @ [SqlString (tf_UserId f)]) else (c1, a1));
          (c3, a3) = (if tf_AuthorizationCodeId f \<noteq> ''''
                      then (c2 @ [''authorization_code_id = ?''], a2 @ [SqlString (tf_AuthorizationCodeId f)]) else (c2, a2));
          (c4, a4) = (case tf_ExpiredBefore f of None \<Rightarrow> (c3, a3)
                      | Some t \<Rightarrow> (c3 @ [''expires_at <= ?''], a3 @ [SqlInt (encTime t)]))
      in if length c4 = 0 then ('''', []) else ('' WHERE '' @ join '' AND '' c4, a4))"

definition userWhere :: "sql_lib \<Rightarrow> UserFilter \<Rightarrow> string \<times> sql_value list" where
  "userWhere lib f =
     (if uf_Search f \<noteq> '''' then
        (let pattern = ''%'' @ escapeLike (to_lower (sl_lower lib) (uf_Search f)) @ ''%'';
             esc = '' ESCAPE '' @ [CHR 0x27, likeEscape, CHR 0x27]
         in ('' WHERE (normalized_username LIKE ?'' @ esc @ '' OR normalized_email LIKE ?'' @ esc @ '')'',
             [SqlString pattern, SqlString pattern]))
      else ('''', []))"

section \<open>Clients\<close>

definition sql_ListClients :: "'d sql_Store \<Rightarrow> ListOptions \<Rightarrow> ('d, store_error, client list \<times> nat) act" where
  "sql_ListClients st opts =
     sql_list st (table st tableClients) clientColumns '''' [] opts (scanClient (sq_lib st))"

definition sql_GetClientById :: "'d sql_Store \<Rightarrow> string \<Rightarrow> ('d, store_error, client) act" where
  "sql_GetClientById st k =
     getOne st (''SELECT '' @ clientColumns @ '' FROM '' @ table st tableClients @ '' WHERE id = ?'') [SqlString k] (scanClient (sq_lib st))"

definition sql_GetClientByClientId :: "'d sql_Store \<Rightarrow> string \<Rightarrow> ('d, store_error, client) act" where
  "sql_GetClientByClientId st clientId =
     getOne st (''SELECT '' @ clientColumns @ '' FROM '' @ table st tableClients @ '' WHERE client_id = ?'') [SqlString clientId] (scanClient (sq_lib st))"

definition sql_CreateClient :: "'d sql_Store \<Rightarrow> client \<Rightarrow> ('d, store_error, unit) act" where
  "sql_CreateClient st x =
     (let args = SqlString (c_Id x) # clientValues (sq_lib st) x
      in andThen (mapErr (sql_mapError (sq_lib st)) (sql_exec st
           (''INSERT INTO '' @ table st tableClients @ '' ('' @ clientColumns @ '') VALUES ('' @ placeholders (length args) @ '')'') args)) (\<lambda>_. ret ()))"

definition sql_UpdateClient :: "'d sql_Store \<Rightarrow> client \<Rightarrow> ('d, store_error, unit) act" where
  "sql_UpdateClient st x =
     (let tab = table st tableClients;
          query = ''UPDATE '' @ tab @
       '' SET client_id = ?, name = ?, description = ?, client_type = ?, secret_hash = ?, redirect_uris '' @
       ''= ?, allowed_scopes = ?, default_scopes = ?, allowed_grant_types = ?, require_consent = ?, '' @
       ''require_pkce = ?, enabled = ?, access_token_lifetime = ?, authorization_code_lifetime = ?, '' @
       ''refresh_token_usage = ?, refresh_token_expiration = ?, refresh_token_lifetime = ?, created_at '' @
       ''= ?, updated_at = ? WHERE id = ?'';
          args = clientValues (sq_lib st) x @ [SqlString (c_Id x)]
      in execChanged st tab (c_Id x) query args)"

definition sql_DeleteClient :: "'d sql_Store \<Rightarrow> string \<Rightarrow> ('d, store_error, unit) act" where
  "sql_DeleteClient st k =
     execDelete st (table st tableClients) k"

section \<open>Users\<close>

definition sql_ListUsers :: "'d sql_Store \<Rightarrow> UserFilter \<Rightarrow> ListOptions \<Rightarrow> ('d, store_error, user list \<times> nat) act" where
  "sql_ListUsers st f opts =
     (case userWhere (sq_lib st) f of (whr, args) \<Rightarrow> sql_list st (table st tableUsers) userColumns whr args opts scanUser)"

definition sql_getUser :: "'d sql_Store \<Rightarrow> string \<Rightarrow> string \<Rightarrow> ('d, store_error, user) act" where
  "sql_getUser st column v =
     getOne st (''SELECT '' @ userColumns @ '' FROM '' @ table st tableUsers @ '' WHERE '' @ column @ '' = ?'') [SqlString v] scanUser"

definition sql_GetUserById :: "'d sql_Store \<Rightarrow> string \<Rightarrow> ('d, store_error, user) act" where
  "sql_GetUserById st k =
     sql_getUser st ''id'' k"

definition sql_GetUserByNormalizedUsername :: "'d sql_Store \<Rightarrow> string \<Rightarrow> ('d, store_error, user) act" where
  "sql_GetUserByNormalizedUsername st n =
     sql_getUser st ''normalized_username'' n"

definition sql_GetUserByNormalizedEmail :: "'d sql_Store \<Rightarrow> string \<Rightarrow> ('d, store_error, user) act" where
  "sql_GetUserByNormalizedEmail st n =
     sql_getUser st ''normalized_email'' n"

definition sql_CreateUser :: "'d sql_Store \<Rightarrow> user \<Rightarrow> ('d, store_error, unit) act" where
  "sql_CreateUser st x =
     (let args = SqlString (u_Id x) # userValues x
      in andThen (mapErr (sql_mapError (sq_lib st)) (sql_exec st
           (''INSERT INTO '' @ table st tableUsers @ '' ('' @ userColumns @ '') VALUES ('' @ placeholders (length args) @ '')'') args)) (\<lambda>_. ret ()))"

definition sql_UpdateUser :: "'d sql_Store \<Rightarrow> user \<Rightarrow> ('d, store_error, unit) act" where
  "sql_UpdateUser st x =
     (let tab = table st tableUsers;
          query = ''UPDATE '' @ tab @
       '' SET username = ?, normalized_username = ?, email = ?, normalized_email = ?, password_hash = '' @
       ''?, email_verified = ?, enabled = ?, security_stamp = ?, failed_login_count = ?, lockout_end = '' @
       ''?, last_login_at = ?, created_at = ?, updated_at = ? WHERE id = ?'';
          args = userValues x @ [SqlString (u_Id x)]
      in execChanged st tab (u_Id x) query args)"

definition sql_DeleteUser :: "'d sql_Store \<Rightarrow> string \<Rightarrow> ('d, store_error, unit) act" where
  "sql_DeleteUser st k =
     execDelete st (table st tableUsers) k"

section \<open>Access tokens\<close>

definition sql_ListAccessTokens :: "'d sql_Store \<Rightarrow> TokenFilter \<Rightarrow> ListOptions \<Rightarrow> ('d, store_error, access_token list \<times> nat) act" where
  "sql_ListAccessTokens st f opts =
     (case tokenWhere f of (whr, args) \<Rightarrow> sql_list st (table st tableAccessTokens) accessTokenColumns whr args opts (scanAccessToken (sq_lib st)))"

definition sql_GetAccessTokenById :: "'d sql_Store \<Rightarrow> string \<Rightarrow> ('d, store_error, access_token) act" where
  "sql_GetAccessTokenById st k =
     getOne st (''SELECT '' @ accessTokenColumns @ '' FROM '' @ table st tableAccessTokens @ '' WHERE id = ?'') [SqlString k] (scanAccessToken (sq_lib st))"

definition sql_GetAccessTokenByHash :: "'d sql_Store \<Rightarrow> string \<Rightarrow> ('d, store_error, access_token) act" where
  "sql_GetAccessTokenByHash st h =
     getOne st (''SELECT '' @ accessTokenColumns @ '' FROM '' @ table st tableAccessTokens @ '' WHERE token_hash = ?'') [SqlString h] (scanAccessToken (sq_lib st))"

definition sql_CreateAccessToken :: "'d sql_Store \<Rightarrow> access_token \<Rightarrow> ('d, store_error, unit) act" where
  "sql_CreateAccessToken st x =
     (let args = SqlString (at_Id x) # accessTokenValues (sq_lib st) x
      in andThen (mapErr (sql_mapError (sq_lib st)) (sql_exec st
           (''INSERT INTO '' @ table st tableAccessTokens @ '' ('' @ accessTokenColumns @ '') VALUES ('' @ placeholders (length args) @ '')'') args)) (\<lambda>_. ret ()))"

definition sql_DeleteAccessToken :: "'d sql_Store \<Rightarrow> string \<Rightarrow> ('d, store_error, unit) act" where
  "sql_DeleteAccessToken st k =
     execDelete st (table st tableAccessTokens) k"

definition sql_DeleteAccessTokens :: "'d sql_Store \<Rightarrow> TokenFilter \<Rightarrow> ('d, store_error, nat) act" where
  "sql_DeleteAccessTokens st f =
     (case tokenWhere f of (whr, args) \<Rightarrow> execCount st (''DELETE FROM '' @ table st tableAccessTokens @ whr) args)"

section \<open>Refresh tokens\<close>

definition sql_ListRefreshTokens :: "'d sql_Store \<Rightarrow> TokenFilter \<Rightarrow> ListOptions \<Rightarrow> ('d, store_error, refresh_token list \<times> nat) act" where
  "sql_ListRefreshTokens st f opts =
     (case tokenWhere f of (whr, args) \<Rightarrow> sql_list st (table st tableRefreshTokens) refreshTokenColumns whr args opts (scanRefreshToken (sq_lib st)))"

definition sql_GetRefreshTokenById :: "'d sql_Store \<Rightarrow> string \<Rightarrow> ('d, store_error, refresh_token) act" where
  "sql_GetRefreshTokenById st k =
     getOne st (''SELECT '' @ refreshTokenColumns @ '' FROM '' @ table st tableRefreshTokens @ '' WHERE id = ?'') [SqlString k] (scanRefreshToken (sq_lib st))"

definition sql_GetRefreshTokenByHash :: "'d sql_Store \<Rightarrow> string \<Rightarrow> ('d, store_error, refresh_token) act" where
  "sql_GetRefreshTokenByHash st h =
     getOne st (''SELECT '' @ refreshTokenColumns @ '' FROM '' @ table st tableRefreshTokens @ '' WHERE token_hash = ?'') [SqlString h] (scanRefreshToken (sq_lib st))"

definition sql_CreateRefreshToken :: "'d sql_Store \<Rightarrow> refresh_token \<Rightarrow> ('d, store_error, unit) act" where
  "sql_CreateRefreshToken st x =
     (let args = SqlString (rt_Id x) # refreshTokenValues (sq_lib st) x
      in andThen (mapErr (sql_mapError (sq_lib st)) (sql_exec st
           (''INSERT INTO '' @ table st tableRefreshTokens @ '' ('' @ refreshTokenColumns @ '') VALUES ('' @ placeholders (length args) @ '')'') args)) (\<lambda>_. ret ()))"

definition sql_UpdateRefreshToken :: "'d sql_Store \<Rightarrow> refresh_token \<Rightarrow> ('d, store_error, unit) act" where
  "sql_UpdateRefreshToken st x =
     (let tab = table st tableRefreshTokens;
          query = ''UPDATE '' @ tab @
       '' SET token_hash = ?, client_id = ?, user_id = ?, access_token_id = ?, authorization_code_id = '' @
       ''?, scopes = ?, token_expiration = ?, token_usage = ?, lifetime = ?, created_at = ?, updated_at '' @
       ''= ?, expires_at = ? WHERE id = ?'';
          args = refreshTokenValues (sq_lib st) x @ [SqlString (rt_Id x)]
      in execChanged st tab (rt_Id x) query args)"

definition sql_DeleteRefreshToken :: "'d sql_Store \<Rightarrow> string \<Rightarrow> ('d, store_error, unit) act" where
  "sql_DeleteRefreshToken st k =
     execDelete st (table st tableRefreshTokens) k"

definition sql_DeleteRefreshTokens :: "'d sql_Store \<Rightarrow> TokenFilter \<Rightarrow> ('d, store_error, nat) act" where
  "sql_DeleteRefreshTokens st f =
     (case tokenWhere f of (whr, args) \<Rightarrow> execCount st (''DELETE FROM '' @ table st tableRefreshTokens @ whr) args)"

section \<open>Authorization codes\<close>

definition sql_GetAuthorizationCodeByHash :: "'d sql_Store \<Rightarrow> string \<Rightarrow> ('d, store_error, authorization_code) act" where
  "sql_GetAuthorizationCodeByHash st h =
     getOne st (''SELECT '' @ authorizationCodeColumns @ '' FROM '' @ table st tableAuthorizationCodes @ '' WHERE code_hash = ?'') [SqlString h] (scanAuthorizationCode (sq_lib st))"

definition sql_CreateAuthorizationCode :: "'d sql_Store \<Rightarrow> authorization_code \<Rightarrow> ('d, store_error, unit) act" where
  "sql_CreateAuthorizationCode st x =
     (let args = SqlString (ac_Id x) # authorizationCodeValues (sq_lib st) x
      in andThen (mapErr (sql_mapError (sq_lib st)) (sql_exec st
           (''INSERT INTO '' @ table st tableAuthorizationCodes @ '' ('' @ authorizationCodeColumns @ '') VALUES ('' @ placeholders (length args) @ '')'') args)) (\<lambda>_. ret ()))"

definition sql_ConsumeAuthorizationCode :: "'d sql_Store \<Rightarrow> string \<Rightarrow> time \<Rightarrow> ('d, store_error, unit) act" where
  "sql_ConsumeAuthorizationCode st k consumedAt =
     (let tab = table st tableAuthorizationCodes
      in andThen (execCount st (''UPDATE '' @ tab @ '' SET consumed_at = ? WHERE id = ? AND consumed_at IS NULL'')
           [SqlInt (encTime consumedAt), SqlString k]) (\<lambda>n.
         if 0 < n then ret ()
         else andThen (sql_exists st tab k) (\<lambda>found. if \<not> found then fail ErrNotFound else fail ErrConflict)))"

definition sql_DeleteAuthorizationCode :: "'d sql_Store \<Rightarrow> string \<Rightarrow> ('d, store_error, unit) act" where
  "sql_DeleteAuthorizationCode st k =
     execDelete st (table st tableAuthorizationCodes) k"

definition sql_DeleteExpiredAuthorizationCodes :: "'d sql_Store \<Rightarrow> time \<Rightarrow> ('d, store_error, nat) act" where
  "sql_DeleteExpiredAuthorizationCodes st before =
     execCount st (''DELETE FROM '' @ table st tableAuthorizationCodes @ '' WHERE expires_at <= ?'') [SqlInt (encTime before)]"

section \<open>User tokens\<close>

definition sql_GetUserTokenByHash :: "'d sql_Store \<Rightarrow> string \<Rightarrow> string \<Rightarrow> ('d, store_error, user_token) act" where
  "sql_GetUserTokenByHash st purpose h =
     getOne st (''SELECT '' @ userTokenColumns @ '' FROM '' @ table st tableUserTokens @ '' WHERE token_hash = ? AND purpose = ?'')
       [SqlString h, SqlString purpose] scanUserToken"

definition sql_CreateUserToken :: "'d sql_Store \<Rightarrow> user_token \<Rightarrow> ('d, store_error, unit) act" where
  "sql_CreateUserToken st x =
     (let args = SqlString (ut_Id x) # userTokenValues x
      in andThen (mapErr (sql_mapError (sq_lib st)) (sql_exec st
           (''INSERT INTO '' @ table st tableUserTokens @ '' ('' @ userTokenColumns @ '') VALUES ('' @ placeholders (length args) @ '')'') args)) (\<lambda>_. ret ()))"

definition sql_DeleteUserToken :: "'d sql_Store \<Rightarrow> string \<Rightarrow> ('d, store_error, unit) act" where
  "sql_DeleteUserToken st k =
     execDelete st (table st tableUserTokens) k"

definition sql_DeleteUserTokens :: "'d sql_Store \<Rightarrow> string \<Rightarrow> string \<Rightarrow> ('d, store_error, nat) act" where
  "sql_DeleteUserTokens st userId purpose =
     execCount st (''DELETE FROM '' @ table st tableUserTokens @ '' WHERE user_id = ? AND purpose = ?'') [SqlString userId, SqlString purpose]"

definition sql_DeleteExpiredUserTokens :: "'d sql_Store \<Rightarrow> time \<Rightarrow> ('d, store_error, nat) act" where
  "sql_DeleteExpiredUserTokens st before =
     execCount st (''DELETE FROM '' @ table st tableUserTokens @ '' WHERE expires_at <= ?'') [SqlInt (encTime before)]"

text \<open>The implementation of the interface.\<close>

definition sql_ops :: "'d sql_Store \<Rightarrow> 'd store_ops" where
  "sql_ops st =
     \<lparr>ListClients = sql_ListClients st, GetClientById = sql_GetClientById st,
      GetClientByClientId = sql_GetClientByClientId st, CreateClient = sql_CreateClient st,
      UpdateClient = sql_UpdateClient st, DeleteClient = sql_DeleteClient st, ListUsers = sql_ListUsers st,
      GetUserById = sql_GetUserById st, GetUserByNormalizedUsername = sql_GetUserByNormalizedUsername st,
      GetUserByNormalizedEmail = sql_GetUserByNormalizedEmail st, CreateUser = sql_CreateUser st,
      UpdateUser = sql_UpdateUser st, DeleteUser = sql_DeleteUser st, ListAccessTokens = sql_ListAccessTokens st,
      GetAccessTokenById = sql_GetAccessTokenById st, GetAccessTokenByHash = sql_GetAccessTokenByHash st,
      CreateAccessToken = sql_CreateAccessToken st, DeleteAccessToken = sql_DeleteAccessToken st,
      DeleteAccessTokens = sql_DeleteAccessTokens st, ListRefreshTokens = sql_ListRefreshTokens st,
      GetRefreshTokenById = sql_GetRefreshTokenById st, GetRefreshTokenByHash = sql_GetRefreshTokenByHash st,
      CreateRefreshToken = sql_CreateRefreshToken st, UpdateRefreshToken = sql_UpdateRefreshToken st,
      DeleteRefreshToken = sql_DeleteRefreshToken st, DeleteRefreshTokens = sql_DeleteRefreshTokens st,
      GetAuthorizationCodeByHash = sql_GetAuthorizationCodeByHash st,
      CreateAuthorizationCode = sql_CreateAuthorizationCode st,
      ConsumeAuthorizationCode = sql_ConsumeAuthorizationCode st,
      DeleteAuthorizationCode = sql_DeleteAuthorizationCode st,
      DeleteExpiredAuthorizationCodes = sql_DeleteExpiredAuthorizationCodes st,
      GetUserTokenByHash = sql_GetUserTokenByHash st, CreateUserToken = sql_CreateUserToken st,
      DeleteUserToken = sql_DeleteUserToken st, DeleteUserTokens = sql_DeleteUserTokens st,
      DeleteExpiredUserTokens = sql_DeleteExpiredUserTokens st\<rparr>"

end
