(* ===== verification/SqlSpec.thy ===== *)
theory SqlSpec
  imports SqlStore
begin

text \<open>
  What the SQL store needs of the database, and what it then owes its callers. The texts of the statements are given with
  the placeholders of the dialect; that the store sends exactly these is proved from \<open>rebind\<close>. The locale
  \<open>sql_database\<close> says what they mean: documented behaviour of SQL for single-table statements, of the
  unique constraints of the schema, and of the drivers. \<open>sql_table\<close> adds the rows of one entity and proves the contract of
  \<open>StoreSpec\<close> for the generic helpers of the store.
\<close>

section \<open>Placeholders\<close>

text \<open>The state of \<open>rebind\<close> after a text: the number of placeholders and the open quote.\<close>

fun rebind_end :: "string \<Rightarrow> nat \<Rightarrow> char option \<Rightarrow> nat \<times> char option" where
  "rebind_end [] n quote = (n, quote)"
| "rebind_end (c # cs) n quote =
     (case quote of
        Some b \<Rightarrow> rebind_end cs n (if c = b then None else quote)
      | None \<Rightarrow>
          if c = CHR 0x27 \<or> c = CHR 0x22 then rebind_end cs n (Some c)
          else if c = CHR ''?'' then rebind_end cs (n + 1) None else rebind_end cs n None)"

lemma rebind_append:
  "rebind_loop (s @ t) n quote = rebind_loop s n quote @ (case rebind_end s n quote of (n', quote') \<Rightarrow> rebind_loop t n' quote')"
  by (induction s arbitrary: n quote) (auto split: option.splits)

lemma rebind_end_append:
  "rebind_end (s @ t) n quote = (case rebind_end s n quote of (n', quote') \<Rightarrow> rebind_end t n' quote')"
  by (induction s arbitrary: n quote) (auto split: option.splits)

lemma rebind_no_placeholder: "CHR ''?'' \<notin> set s \<Longrightarrow> rebind_loop s n quote = s"
  by (induction s arbitrary: n quote) (auto split: option.splits)

lemma rebind_eq: "rebind dialect q = (if dialect = DialectPostgres then rebind_loop q 0 None else q)"
  unfolding rebind_def by (auto simp: contains_single rebind_no_placeholder)

definition plain_text :: "string \<Rightarrow> bool" where
  "plain_text s \<longleftrightarrow> list_all (\<lambda>c. c \<noteq> CHR 0x27 \<and> c \<noteq> CHR 0x22 \<and> c \<noteq> CHR ''?'') s"

lemma plain_rebind [simp]: "plain_text s \<Longrightarrow> rebind_loop s n None = s" "plain_text s \<Longrightarrow> rebind_end s n None = (n, None)"
  by (induction s) (auto simp: plain_text_def)

lemma identifier_plain: "isIdentifier s \<Longrightarrow> plain_text s"
  by (fastforce simp: isIdentifier_def plain_text_def list_all_iff Let_def)

text \<open>The placeholder number \<open>i\<close> of a dialect.\<close>

definition ph :: "string \<Rightarrow> nat \<Rightarrow> string" where
  "ph dialect i = (if dialect = DialectPostgres then CHR ''$'' # itoa i else ''?'')"

section \<open>Conditions\<close>

datatype sql_cond = CEq string | CLe string | CNull string | CLike string string

fun cond_args :: "sql_cond \<Rightarrow> nat" where
  "cond_args (CNull c) = 0" | "cond_args (CLike c d) = 2" | "cond_args cond = 1"

definition like_escape :: string where
  "like_escape = '' ESCAPE '' @ [CHR 0x27, CHR ''!'', CHR 0x27]"

fun cond_text :: "string \<Rightarrow> nat \<Rightarrow> sql_cond \<Rightarrow> string" where
  "cond_text dl i (CEq c) = c @ '' = '' @ ph dl i"
| "cond_text dl i (CLe c) = c @ '' <= '' @ ph dl i"
| "cond_text dl i (CNull c) = c @ '' IS NULL''"
| "cond_text dl i (CLike c d) = ''('' @ c @ '' LIKE '' @ ph dl i @ like_escape @ '' OR '' @ d @ '' LIKE '' @ ph dl (i + 1) @ like_escape @ '')''"

fun conds_text :: "string \<Rightarrow> nat \<Rightarrow> sql_cond list \<Rightarrow> string list" where
  "conds_text dl i [] = []"
| "conds_text dl i (c # cs) = cond_text dl i c # conds_text dl (i + cond_args c) cs"

definition where_text :: "string \<Rightarrow> nat \<Rightarrow> sql_cond list \<Rightarrow> string" where
  "where_text dl i cs = (if cs = [] then '''' else '' WHERE '' @ join '' AND '' (conds_text dl i cs))"

text \<open>The arguments fit the conditions, and a row satisfies them; \<open>lk\<close> is the meaning of LIKE.\<close>

fun args_ok :: "sql_cond list \<Rightarrow> sql_value list \<Rightarrow> bool" where
  "args_ok (CEq c # cs) (SqlString s # as) = args_ok cs as"
| "args_ok (CLe c # cs) (SqlInt i # as) = args_ok cs as"
| "args_ok (CNull c # cs) as = args_ok cs as"
| "args_ok (CLike c d # cs) (SqlString s # SqlString t # as) = args_ok cs as"
| "args_ok [] [] = True"
| "args_ok cs as = False"

fun sat :: "(string \<Rightarrow> string \<Rightarrow> bool) \<Rightarrow> (string \<Rightarrow> sql_value) \<Rightarrow> sql_cond list \<Rightarrow> sql_value list \<Rightarrow> bool" where
  "sat lk col (CEq c # cs) (a # as) \<longleftrightarrow> col c = a \<and> sat lk col cs as"
| "sat lk col (CLe c # cs) (a # as) \<longleftrightarrow> (case (col c, a) of (SqlInt u, SqlInt v) \<Rightarrow> u \<le> v | _ \<Rightarrow> False) \<and> sat lk col cs as"
| "sat lk col (CNull c # cs) as \<longleftrightarrow> col c = SqlNull \<and> sat lk col cs as"
| "sat lk col (CLike c d # cs) (a # b # as) \<longleftrightarrow>
     (lk (str_of a) (str_of (col c)) \<or> lk (str_of b) (str_of (col d))) \<and> sat lk col cs as"
| "sat lk col [] as \<longleftrightarrow> True"
| "sat lk col cs as \<longleftrightarrow> False"

definition cond_columns :: "sql_cond \<Rightarrow> string list" where
  "cond_columns c = (case c of CEq x \<Rightarrow> [x] | CLe x \<Rightarrow> [x] | CNull x \<Rightarrow> [x] | CLike x y \<Rightarrow> [x, y])"

text \<open>What \<open>rebind\<close> makes of conditions written with question marks.\<close>

lemma plain_append [simp]: "plain_text (s @ t) \<longleftrightarrow> plain_text s \<and> plain_text t"
  by (simp add: plain_text_def)

lemma rebind_ph: "rebind_loop (ph '''' i @ t) n None = ph DialectPostgres (Suc n) @ rebind_loop t (Suc n) None"
  by (simp add: ph_def)

lemma rebind_end_ph: "rebind_end (ph '''' i @ t) n None = rebind_end t (Suc n) None"
  by (simp add: ph_def)

lemma rebind_plain: "plain_text s \<Longrightarrow> rebind_loop (s @ t) n None = s @ rebind_loop t n None"
  by (simp add: rebind_append)

lemma rebind_end_plain: "plain_text s \<Longrightarrow> rebind_end (s @ t) n None = rebind_end t n None"
  by (simp add: rebind_end_append)

lemma rebind_escape: "rebind_loop (like_escape @ t) n None = like_escape @ rebind_loop t n None"
  "rebind_end (like_escape @ t) n None = rebind_end t n None"
  by (simp_all add: like_escape_def)

lemmas rebind_steps = rebind_ph rebind_end_ph rebind_plain rebind_end_plain rebind_escape

lemma rebind_cond:
  assumes "list_all plain_text (cond_columns c)"
  shows "rebind_loop (cond_text '''' j c @ t) n None = cond_text DialectPostgres (Suc n) c @ rebind_loop t (n + cond_args c) None"
  using assms by (cases c) (simp_all add: cond_columns_def rebind_steps)

lemma rebind_conds:
  assumes "list_all (\<lambda>c. list_all plain_text (cond_columns c)) cs" and "cs \<noteq> []"
  shows "rebind_loop (join '' AND '' (conds_text '''' j cs) @ t) n None
     = join '' AND '' (conds_text DialectPostgres (Suc n) cs) @ rebind_loop t (n + sum_list (map cond_args cs)) None"
  using assms
proof (induction cs arbitrary: j n)
  case (Cons c cs)
  show ?case
  proof (cases "cs = []")
    case True
    with Cons.prems show ?thesis by (simp add: rebind_cond)
  next
    case False
    then obtain d ds where cs: "cs = d # ds" by (cases cs) auto
    with Cons show ?thesis by (simp add: rebind_cond flip: add.assoc)
  qed
qed simp

lemma rebind_where:
  assumes "list_all (\<lambda>c. list_all plain_text (cond_columns c)) cs"
  shows "rebind_loop (where_text '''' j cs @ t) n None
     = where_text DialectPostgres (Suc n) cs @ rebind_loop t (n + sum_list (map cond_args cs)) None"
  using rebind_conds [OF assms] by (auto simp: where_text_def)

section \<open>Statements\<close>

definition column_text :: "tableSpec \<Rightarrow> string" where
  "column_text spec = join '', '' (map fst (ts_columns spec))"

definition select_text :: "string \<Rightarrow> string \<Rightarrow> tableSpec \<Rightarrow> sql_cond list \<Rightarrow> string" where
  "select_text dl tab spec cs = ''SELECT '' @ column_text spec @ '' FROM '' @ tab @ where_text dl 1 cs"

definition one_text :: "string \<Rightarrow> string \<Rightarrow> string" where
  "one_text dl tab = ''SELECT 1 FROM '' @ tab @ '' WHERE id = '' @ ph dl 1"

definition count_text :: "string \<Rightarrow> string \<Rightarrow> sql_cond list \<Rightarrow> string" where
  "count_text dl tab cs = ''SELECT COUNT(*) FROM '' @ tab @ where_text dl 1 cs"

definition page_text :: "string \<Rightarrow> string \<Rightarrow> tableSpec \<Rightarrow> sql_cond list \<Rightarrow> string" where
  "page_text dl tab spec cs =
     (let n = sum_list (map cond_args cs)
      in ''SELECT '' @ column_text spec @ '' FROM '' @ tab @ where_text dl 1 cs @ '' ORDER BY created_at, id LIMIT '' @ ph dl (n + 1)
         @ '' OFFSET '' @ ph dl (n + 2))"

definition delete_text :: "string \<Rightarrow> string \<Rightarrow> sql_cond list \<Rightarrow> string" where
  "delete_text dl tab cs = ''DELETE FROM '' @ tab @ where_text dl 1 cs"

fun values_text :: "string \<Rightarrow> nat \<Rightarrow> nat \<Rightarrow> string" where
  "values_text dl i 0 = ''''"
| "values_text dl i (Suc n) = (if 1 < i then '', '' else '''') @ ph dl i @ values_text dl (i + 1) n"

definition insert_text :: "string \<Rightarrow> string \<Rightarrow> tableSpec \<Rightarrow> string" where
  "insert_text dl tab spec =
     ''INSERT INTO '' @ tab @ '' ('' @ column_text spec @ '') VALUES ('' @ values_text dl 1 (length (ts_columns spec)) @ '')''"

fun sets_text :: "string \<Rightarrow> nat \<Rightarrow> string list \<Rightarrow> string" where
  "sets_text dl i [] = ''''"
| "sets_text dl i (c # cs) = (if 1 < i then '', '' else '''') @ c @ '' = '' @ ph dl i @ sets_text dl (i + 1) cs"

definition update_text :: "string \<Rightarrow> string \<Rightarrow> string list \<Rightarrow> sql_cond list \<Rightarrow> string" where
  "update_text dl tab sets cs = ''UPDATE '' @ tab @ '' SET '' @ sets_text dl 1 sets @ where_text dl (Suc (length sets)) cs"

lemmas statement_defs = select_text_def one_text_def count_text_def page_text_def delete_text_def insert_text_def update_text_def

text \<open>Only PostgreSQL numbers its placeholders.\<close>

lemma ph_other: "dl \<noteq> DialectPostgres \<Longrightarrow> ph dl i = ph '''' i"
  by (simp add: ph_def)

lemma cond_other: "dl \<noteq> DialectPostgres \<Longrightarrow> cond_text dl i c = cond_text '''' j c"
  by (cases c) (simp_all add: ph_def)

lemma conds_other: "dl \<noteq> DialectPostgres \<Longrightarrow> conds_text dl i cs = conds_text '''' j cs"
  by (induction cs arbitrary: i j) (auto intro: cond_other)

lemma where_other: "dl \<noteq> DialectPostgres \<Longrightarrow> where_text dl i cs = where_text '''' i cs"
  using conds_other [of dl i cs i] by (simp add: where_text_def)

lemma values_other: "dl \<noteq> DialectPostgres \<Longrightarrow> values_text dl i n = values_text '''' i n"
  by (induction n arbitrary: i) (simp_all add: ph_other [of dl])

lemma sets_other: "dl \<noteq> DialectPostgres \<Longrightarrow> sets_text dl i cs = sets_text '''' i cs"
  by (induction cs arbitrary: i) (simp_all add: ph_other [of dl])

lemma rebind_values:
  "rebind_loop (values_text '''' (Suc n) k @ t) n None = values_text DialectPostgres (Suc n) k @ rebind_loop t (n + k) None"
  by (induction k arbitrary: n) (simp_all add: rebind_steps)

lemma rebind_sets:
  "list_all plain_text cs \<Longrightarrow>
   rebind_loop (sets_text '''' (Suc n) cs @ t) n None = sets_text DialectPostgres (Suc n) cs @ rebind_loop t (n + length cs) None"
  by (induction cs arbitrary: n) (simp_all add: rebind_steps)

definition plain_conds :: "sql_cond list \<Rightarrow> bool" where
  "plain_conds cs \<longleftrightarrow> list_all (\<lambda>c. list_all plain_text (cond_columns c)) cs"

lemma rebind_where_end: "plain_conds cs \<Longrightarrow> rebind_loop (where_text '''' j cs) n None = where_text DialectPostgres (Suc n) cs"
  using rebind_where [of cs j "''''" n] by (simp add: plain_conds_def)

lemma rebind_ph_end: "rebind_loop (ph '''' i) n None = ph DialectPostgres (Suc n)"
  using rebind_ph [of i "''''" n] by simp

lemma schema_plain: "spec \<in> set schema \<Longrightarrow> plain_text (column_text spec) \<and> list_all plain_text (map fst (ts_columns spec))"
  by (auto simp: schema_def column_text_def plain_text_def)

lemma schema_name_plain: "spec \<in> set schema \<Longrightarrow> plain_text (ts_name spec)"
  by (auto simp: schema_def plain_text_def)

text \<open>The statements written with question marks are sent with the placeholders of the dialect.\<close>

lemma bound_select: "plain_text tab \<Longrightarrow> spec \<in> set schema \<Longrightarrow> plain_conds cs \<Longrightarrow>
    rebind dl (select_text '''' tab spec cs) = select_text dl tab spec cs"
  using schema_plain [of spec] where_other [of dl]
  by (cases "dl = DialectPostgres") (simp_all add: rebind_eq select_text_def rebind_plain rebind_where_end)

lemma bound_one: "plain_text tab \<Longrightarrow> rebind dl (one_text '''' tab) = one_text dl tab"
  by (cases "dl = DialectPostgres") (simp_all add: rebind_eq one_text_def ph_other [of dl] rebind_plain rebind_ph_end)

lemma bound_count: "plain_text tab \<Longrightarrow> plain_conds cs \<Longrightarrow> rebind dl (count_text '''' tab cs) = count_text dl tab cs"
  by (cases "dl = DialectPostgres") (simp_all add: rebind_eq count_text_def where_other [of dl] rebind_plain rebind_where_end)

lemma bound_delete: "plain_text tab \<Longrightarrow> plain_conds cs \<Longrightarrow> rebind dl (delete_text '''' tab cs) = delete_text dl tab cs"
  by (cases "dl = DialectPostgres") (simp_all add: rebind_eq delete_text_def where_other [of dl] rebind_plain rebind_where_end)

lemma bound_page: "plain_text tab \<Longrightarrow> spec \<in> set schema \<Longrightarrow> plain_conds cs \<Longrightarrow>
    rebind dl (page_text '''' tab spec cs) = page_text dl tab spec cs"
  using schema_plain [of spec]
  by (cases "dl = DialectPostgres")
    (simp_all add: rebind_eq page_text_def where_other [of dl] ph_other [of dl] rebind_plain rebind_where [folded plain_conds_def]
      rebind_steps rebind_ph_end Let_def)

lemma bound_insert: "plain_text tab \<Longrightarrow> spec \<in> set schema \<Longrightarrow> rebind dl (insert_text '''' tab spec) = insert_text dl tab spec"
  using schema_plain [of spec] rebind_values [of 0]
  by (cases "dl = DialectPostgres") (simp_all add: rebind_eq insert_text_def values_other [of dl] rebind_plain)

lemma bound_update: "plain_text tab \<Longrightarrow> list_all plain_text sets \<Longrightarrow> plain_conds cs \<Longrightarrow>
    rebind dl (update_text '''' tab sets cs) = update_text dl tab sets cs"
  using rebind_sets [of sets 0]
  by (cases "dl = DialectPostgres")
    (simp_all add: rebind_eq update_text_def where_other [of dl] sets_other [of dl] rebind_plain rebind_where_end)

section \<open>The database\<close>

definition cell :: "tableSpec \<Rightarrow> sql_value list \<Rightarrow> string \<Rightarrow> sql_value" where
  "cell spec row c = (case map_of (zip (map fst (ts_columns spec)) row) c of None \<Rightarrow> SqlNull | Some v \<Rightarrow> v)"

definition row_clash :: "tableSpec \<Rightarrow> sql_value list \<Rightarrow> sql_value list \<Rightarrow> bool" where
  "row_clash spec x y \<longleftrightarrow> list_ex (\<lambda>c. cell spec y c = cell spec x c) (ts_unique spec)"

definition row_order :: "tableSpec \<Rightarrow> sql_value list \<Rightarrow> int \<times> string" where
  "row_order spec row = (int_of_value (cell spec row ''created_at''), str_of (cell spec row ''id''))"

text \<open>Conditions on columns of the table, with comparisons that fit their types.\<close>

definition cond_typed :: "tableSpec \<Rightarrow> sql_cond \<Rightarrow> bool" where
  "cond_typed spec c =
     (let typ = map_of (ts_columns spec)
      in case c of CEq x \<Rightarrow> typ x = Some colKey | CLe x \<Rightarrow> typ x = Some colInt | CNull x \<Rightarrow> typ x = Some colNullInt
         | CLike x y \<Rightarrow> typ x = Some colKey \<and> typ y = Some colKey)"

text \<open>The conditions of the statements of the store; the token filter has up to four.\<close>

definition filter_conds :: "sql_cond list list" where
  "filter_conds = [a @ b @ c @ e. a \<leftarrow> [[], [CEq ''client_id'']], b \<leftarrow> [[], [CEq ''user_id'']],
     c \<leftarrow> [[], [CEq ''authorization_code_id'']], e \<leftarrow> [[], [CLe ''expires_at'']]]"

definition used_conds :: "string \<Rightarrow> sql_cond list list" where
  "used_conds name = [CEq ''id''] #
     (if name = tableClients then [[], [CEq ''client_id'']]
      else if name = tableUsers
        then [[], [CEq ''normalized_username''], [CEq ''normalized_email''], [CLike ''normalized_username'' ''normalized_email'']]
      else if name = tableAuthorizationCodes then [[CEq ''code_hash''], [CLe ''expires_at'']]
      else if name = tableUserTokens
        then [[CEq ''token_hash'', CEq ''purpose''], [CEq ''user_id'', CEq ''purpose''], [CLe ''expires_at'']]
      else [CEq ''token_hash''] # filter_conds)"

definition conds_ok :: "tableSpec \<Rightarrow> sql_cond list \<Rightarrow> sql_value list \<Rightarrow> bool" where
  "conds_ok spec cs args \<longleftrightarrow> args_ok cs args \<and> list_all (cond_typed spec) cs \<and> cs \<in> set (used_conds (ts_name spec))"

lemma conds_plain:
  assumes "spec \<in> set schema" and "conds_ok spec cs args"
  shows "plain_conds cs"
proof -
  have "plain_text x" if "map_of (ts_columns spec) x = Some t" for x t
    using schema_plain [OF assms(1)] map_of_SomeD [OF that] by (auto simp: list_all_iff)
  then show ?thesis
    using assms(2) unfolding conds_ok_def plain_conds_def list_all_iff cond_typed_def Let_def cond_columns_def
    by (auto split: sql_cond.splits)
qed

text \<open>
  \<open>data\<close> reads the tables of the schema, each by the id of its rows. A driver may give a boolean as 0 or 1 (\<open>rep\<close>). The
  texts are those of the dialect; a comparison is bytewise, LIKE finds a quoted text in lower case literally. An
  error of a unique constraint has one of the messages \<open>isUniqueViolation\<close> knows, and no other error has;
  an update that changes no value may report no row (MySQL). Whatever fails changes nothing.
\<close>

locale sql_database =
  fixes st :: "'d sql_Store"
    and I :: "'d \<Rightarrow> bool"
    and data :: "'d \<Rightarrow> string \<Rightarrow> string \<rightharpoonup> sql_value list"
    and ok :: "string \<Rightarrow> sql_value list \<Rightarrow> bool"
    and rep :: "sql_value \<Rightarrow> sql_value"
    and lk :: "string \<Rightarrow> string \<Rightarrow> bool"
  assumes prefix: "isIdentifier (sq_prefix st)"
    and stored: "I d \<Longrightarrow> spec \<in> set schema \<Longrightarrow> data d (ts_name spec) k = Some row \<Longrightarrow>
        cell spec row ''id'' = SqlString k \<and> k \<noteq> '''' \<and> ok (ts_name spec) row"
    and finite_rows: "I d \<Longrightarrow> finite (dom (data d n))"
    and unique_rows: "I d \<Longrightarrow> spec \<in> set schema \<Longrightarrow> data d (ts_name spec) k = Some x \<Longrightarrow> data d (ts_name spec) l = Some y \<Longrightarrow>
        row_clash spec x y \<Longrightarrow> k = l"
    and driver_value: "rep v = v \<or> (\<exists>b. v = SqlBool b \<and> rep v = SqlInt (if b then 1 else 0))"
    and selected: "I d \<Longrightarrow> spec \<in> set schema \<Longrightarrow> conds_ok spec cs args \<Longrightarrow>
        db_Query (sq_db st) (select_text (sq_dialect st) (table st (ts_name spec)) spec cs) args d = (r, d') \<Longrightarrow>
        I d' \<and> data d' = data d \<and> (case r of Inl e \<Rightarrow> True | Inr (rows, err) \<Rightarrow>
          \<exists>xs. rows = map (map rep) xs \<and> set xs \<subseteq> {x \<in> ran (data d (ts_name spec)). sat lk (cell spec x) cs args}
            \<and> (err = None \<longrightarrow> {x \<in> ran (data d (ts_name spec)). sat lk (cell spec x) cs args} \<subseteq> set xs))"
    and probed: "I d \<Longrightarrow> spec \<in> set schema \<Longrightarrow>
        db_Query (sq_db st) (one_text (sq_dialect st) (table st (ts_name spec))) [SqlString k] d = (r, d') \<Longrightarrow>
        I d' \<and> data d' = data d \<and> (case r of Inl e \<Rightarrow> True | Inr (rows, err) \<Rightarrow>
          set rows \<subseteq> {[SqlInt 1]} \<and> (rows \<noteq> [] \<longrightarrow> k \<in> dom (data d (ts_name spec)))
            \<and> (rows = [] \<longrightarrow> err = None \<longrightarrow> k \<notin> dom (data d (ts_name spec))))"
    and counted: "I d \<Longrightarrow> spec \<in> set schema \<Longrightarrow> conds_ok spec cs args \<Longrightarrow>
        db_Query (sq_db st) (count_text (sq_dialect st) (table st (ts_name spec)) cs) args d = (r, d') \<Longrightarrow>
        I d' \<and> data d' = data d \<and> (case r of Inl e \<Rightarrow> True | Inr (rows, err) \<Rightarrow>
          (rows = [] \<longrightarrow> err \<noteq> None) \<and> set rows \<subseteq> {[SqlInt (int (card {k. \<exists>x. data d (ts_name spec) k = Some x
              \<and> sat lk (cell spec x) cs args}))]})"
    and paged: "I d \<Longrightarrow> spec \<in> set schema \<Longrightarrow> conds_ok spec cs args \<Longrightarrow> 0 \<le> skip \<Longrightarrow> 0 < lim \<Longrightarrow>
        db_Query (sq_db st) (page_text (sq_dialect st) (table st (ts_name spec)) spec cs) (args @ [SqlInt lim, SqlInt skip]) d
          = (r, d') \<Longrightarrow>
        I d' \<and> data d' = data d \<and> (case r of Inl e \<Rightarrow> True | Inr (rows, err) \<Rightarrow> err = None \<longrightarrow>
          (\<exists>xs. set xs = {x \<in> ran (data d (ts_name spec)). sat lk (cell spec x) cs args} \<and> distinct xs
            \<and> sorted (map (row_order spec) xs) \<and> rows = map (map rep) (take (nat lim) (drop (nat skip) xs))))"
    and inserted: "I d \<Longrightarrow> spec \<in> set schema \<Longrightarrow> cell spec row ''id'' = SqlString k \<Longrightarrow> k \<noteq> '''' \<Longrightarrow> ok (ts_name spec) row \<Longrightarrow>
        db_Exec (sq_db st) (insert_text (sq_dialect st) (table st (ts_name spec)) spec) row d = (q, d') \<Longrightarrow>
        I d' \<and> (case q of
          Inl e \<Rightarrow> data d' = data d \<and> (isUniqueViolation (sq_lib st) e \<longrightarrow>
            k \<in> dom (data d (ts_name spec)) \<or> (\<exists>y \<in> ran (data d (ts_name spec)). row_clash spec row y))
        | Inr res \<Rightarrow> k \<notin> dom (data d (ts_name spec)) \<and> (\<forall>y \<in> ran (data d (ts_name spec)). \<not> row_clash spec row y)
            \<and> data d' = (data d)(ts_name spec := (data d (ts_name spec))(k \<mapsto> row)))"
    and updated: "I d \<Longrightarrow> spec \<in> set schema \<Longrightarrow> cell spec (SqlString k # vals) ''id'' = SqlString k \<Longrightarrow>
        ok (ts_name spec) (SqlString k # vals) \<Longrightarrow>
        db_Exec (sq_db st) (update_text (sq_dialect st) (table st (ts_name spec)) (tl (map fst (ts_columns spec))) [CEq ''id''])
          (vals @ [SqlString k]) d = (q, d') \<Longrightarrow>
        I d' \<and> (case q of
          Inl e \<Rightarrow> data d' = data d \<and> (isUniqueViolation (sq_lib st) e \<longrightarrow> k \<in> dom (data d (ts_name spec))
            \<and> (\<exists>l y. data d (ts_name spec) l = Some y \<and> l \<noteq> k \<and> row_clash spec (SqlString k # vals) y))
        | Inr (Inl e) \<Rightarrow> False
        | Inr (Inr n) \<Rightarrow> (case data d (ts_name spec) k of
            None \<Rightarrow> n = 0 \<and> data d' = data d
          | Some old \<Rightarrow> (n = 1 \<or> n = 0 \<and> old = SqlString k # vals)
              \<and> (\<forall>l y. data d (ts_name spec) l = Some y \<longrightarrow> l \<noteq> k \<longrightarrow> \<not> row_clash spec (SqlString k # vals) y)
              \<and> data d' = (data d)(ts_name spec := (data d (ts_name spec))(k \<mapsto> SqlString k # vals))))"
    and consumed: "I d \<Longrightarrow> spec \<in> set schema \<Longrightarrow> ts_name spec = tableAuthorizationCodes \<Longrightarrow> 0 \<le> t \<Longrightarrow> t < 2 ^ 63 \<Longrightarrow>
        db_Exec (sq_db st) (update_text (sq_dialect st) (table st (ts_name spec)) [''consumed_at''] [CEq ''id'', CNull ''consumed_at''])
          [SqlInt t, SqlString k] d = (q, d') \<Longrightarrow>
        I d' \<and> (case q of
          Inl e \<Rightarrow> data d' = data d
        | Inr (Inl e) \<Rightarrow> False
        | Inr (Inr n) \<Rightarrow> (case data d (ts_name spec) k of
            None \<Rightarrow> n = 0 \<and> data d' = data d
          | Some old \<Rightarrow> if last old = SqlNull
              then n = 1 \<and> data d' = (data d)(ts_name spec := (data d (ts_name spec))(k \<mapsto> butlast old @ [SqlInt t]))
              else n = 0 \<and> data d' = data d))"
    and deleted: "I d \<Longrightarrow> spec \<in> set schema \<Longrightarrow> conds_ok spec cs args \<Longrightarrow>
        db_Exec (sq_db st) (delete_text (sq_dialect st) (table st (ts_name spec)) cs) args d = (q, d') \<Longrightarrow>
        I d' \<and> (case q of
          Inl e \<Rightarrow> data d' = data d
        | Inr (Inl e) \<Rightarrow> False
        | Inr (Inr n) \<Rightarrow> n = card {k. \<exists>x. data d (ts_name spec) k = Some x \<and> sat lk (cell spec x) cs args}
            \<and> data d' = (data d)(ts_name spec := keep (\<lambda>x. \<not> sat lk (cell spec x) cs args) (data d (ts_name spec))))"
    and like: "map ascii_lower p = p \<Longrightarrow> map ascii_lower s = s \<Longrightarrow>
        lk (''%'' @ escapeLike p @ ''%'') s \<longleftrightarrow> contains_str s p"
    and lower: "map ascii_lower (to_lower (sl_lower (sq_lib st)) s) = to_lower (sl_lower (sq_lib st)) s"
    and empty_list: "sl_Unmarshal (sq_lib st) ''[]'' = Some []"
section \<open>A table of entities\<close>

text \<open>
  The rows of one table as entities: \<open>row_of\<close> are the values that are sent, \<open>scan\<close> reads a row, \<open>tb\<close> and \<open>tbupd\<close> are
  the table of the contract.
\<close>

locale sql_table = sql_database st I data ok rep lk
  for st :: "'d sql_Store" and I data ok rep lk +
  fixes spec :: tableSpec
    and V :: "(string \<Rightarrow> string \<rightharpoonup> sql_value list) \<Rightarrow> tables"
    and tb :: "tables \<Rightarrow> string \<rightharpoonup> 'v"
    and tbupd :: "((string \<rightharpoonup> 'v) \<Rightarrow> (string \<rightharpoonup> 'v)) \<Rightarrow> tables \<Rightarrow> tables"
    and scan :: "sql_value list \<Rightarrow> string + 'v"
    and vals :: "'v \<Rightarrow> sql_value list"
    and key :: "'v \<Rightarrow> string"
    and clash :: "'v \<Rightarrow> 'v \<Rightarrow> bool"
    and created :: "'v \<Rightarrow> time"
    and storable :: "'v \<Rightarrow> bool"
  assumes spec: "spec \<in> set schema"
    and view_get: "tb (V D) = map_option (\<lambda>row. projr (scan row)) \<circ> D (ts_name spec)"
    and view_upd: "V (D(ts_name spec := M)) = tbupd (\<lambda>_. map_option (\<lambda>row. projr (scan row)) \<circ> M) (V D)"
    and tbupd_const: "tbupd h T = tbupd (\<lambda>_. h (tb T)) T"
    and row_id: "cell spec (SqlString (key v) # vals v) ''id'' = SqlString (key v)"
    and row_ok: "ok (ts_name spec) row \<longleftrightarrow> (\<exists>v. storable v \<and> row = SqlString (key v) # vals v)"
    and row_scan: "storable v \<Longrightarrow> scan (map rep (SqlString (key v) # vals v)) = Inr v \<and> scan (SqlString (key v) # vals v) = Inr v"
    and rows_clash: "row_clash spec (SqlString (key v) # vals v) (SqlString (key u) # vals u) \<longleftrightarrow> clash v u"
    and rows_order: "storable v \<Longrightarrow> storable u \<Longrightarrow>
      row_order spec (SqlString (key v) # vals v) \<le> row_order spec (SqlString (key u) # vals u) \<longleftrightarrow> (created v, key v) \<le> (created u, key u)"
begin

abbreviation "row v \<equiv> SqlString (key v) # vals v"

abbreviation "tab \<equiv> table st (ts_name spec)"

lemma row_inj: "storable v \<Longrightarrow> storable u \<Longrightarrow> row v = row u \<Longrightarrow> v = u"
  using row_scan by (metis sum.inject(2))

lemma plain_tab [simp]: "plain_text tab"
  using identifier_plain [OF prefix] schema_name_plain [OF spec] by (simp add: table_def)

text \<open>The rows of a state of the database are those of the entities of the table.\<close>

lemma data_row:
  assumes "I d"
  shows "data d (ts_name spec) k = Some x \<longleftrightarrow> (\<exists>v. tb (V (data d)) k = Some v \<and> x = row v)"
    and "tb (V (data d)) k = Some v \<Longrightarrow> storable v \<and> key v = k \<and> k \<noteq> ''''"
proof -
  have *: "\<exists>v. storable v \<and> x = row v \<and> key v = k \<and> k \<noteq> ''''" if "data d (ts_name spec) k = Some x" for k x
  proof -
    from stored [OF assms spec that] have x: "cell spec x ''id'' = SqlString k" "k \<noteq> ''''" "ok (ts_name spec) x" by auto
    then obtain v where "storable v" "x = row v" using row_ok by blast
    with x row_id [of v] show ?thesis by auto
  qed
  show "data d (ts_name spec) k = Some x \<longleftrightarrow> (\<exists>v. tb (V (data d)) k = Some v \<and> x = row v)"
  proof
    assume x: "data d (ts_name spec) k = Some x"
    from * [OF x] obtain v where "storable v" "x = row v" by blast
    with x row_scan [of v] show "\<exists>v. tb (V (data d)) k = Some v \<and> x = row v" by (auto simp: view_get)
  next
    assume "\<exists>v. tb (V (data d)) k = Some v \<and> x = row v"
    then obtain v y where y: "data d (ts_name spec) k = Some y" "v = projr (scan y)" "x = row v" by (auto simp: view_get)
    from * [OF y(1)] obtain u where "storable u" "y = row u" by blast
    with y row_scan [of u] show "data d (ts_name spec) k = Some x" by simp
  qed
  show "storable v \<and> key v = k \<and> k \<noteq> ''''" if "tb (V (data d)) k = Some v"
  proof -
    from that obtain y where y: "data d (ts_name spec) k = Some y" "v = projr (scan y)" by (auto simp: view_get)
    from * [OF y(1)] obtain u where "storable u" "y = row u" "key u = k" "k \<noteq> ''''" by blast
    with y row_scan [of u] show ?thesis by simp
  qed
qed

lemma data_dom: "dom (tb (V (data d))) = dom (data d (ts_name spec))"
  by (auto simp: view_get)

lemma data_ran: "I d \<Longrightarrow> x \<in> ran (data d (ts_name spec)) \<longleftrightarrow> (\<exists>v \<in> ran (tb (V (data d))). x = row v)"
  by (auto simp: ran_def data_row(1))

lemma ran_storable: "I d \<Longrightarrow> v \<in> ran (tb (V (data d))) \<Longrightarrow> storable v"
  using data_row(2) by (auto simp: ran_def)

lemma view_put: "storable v \<Longrightarrow>
    V (D(ts_name spec := (D (ts_name spec))(k \<mapsto> row v))) = tbupd (\<lambda>m. m(k \<mapsto> v)) (V D)"
  unfolding view_upd tbupd_const [of "\<lambda>m. m(k \<mapsto> v)"] view_get
  by (rule arg_cong2 [of _ _ _ _ tbupd]) (auto simp: fun_eq_iff row_scan)

lemma view_keep:
  assumes "I d" and "\<And>v. v \<in> ran (tb (V (data d))) \<Longrightarrow> P (row v) \<longleftrightarrow> Q v"
  shows "V ((data d)(ts_name spec := keep P (data d (ts_name spec)))) = tbupd (keep Q) (V (data d))"
proof -
  have "map_option (\<lambda>row. projr (scan row)) \<circ> keep P (data d (ts_name spec)) = keep Q (tb (V (data d)))"
  proof
    fix k
    show "(map_option (\<lambda>row. projr (scan row)) \<circ> keep P (data d (ts_name spec))) k = keep Q (tb (V (data d))) k"
    proof (cases "tb (V (data d)) k")
      case None
      then have "data d (ts_name spec) k = None" by (simp add: view_get)
      with None show ?thesis by (simp add: keep_def)
    next
      case (Some v)
      then have "data d (ts_name spec) k = Some (row v)" using data_row(1) [OF assms(1), of k "row v"] by auto
      with Some assms(2) [of v] row_scan [of v] data_row(2) [OF assms(1) Some] show ?thesis
        by (auto simp: keep_def ran_def)
    qed
  qed
  then show ?thesis unfolding view_upd tbupd_const [of "keep Q"] by simp
qed

text \<open>The tables are well formed.\<close>

lemma table_keyed: "I d \<Longrightarrow> keyed key (tb (V (data d)))"
  using data_row(2) by (auto simp: keyed_def)

lemma table_unique:
  assumes i: "I d" and f: "\<And>v u. f v = f u \<Longrightarrow> clash v u"
  shows "unique_field f (tb (V (data d)))"
  unfolding unique_field_def
proof (intro ballI impI)
  fix v u
  assume "v \<in> ran (tb (V (data d)))" "u \<in> ran (tb (V (data d)))" and fvu: "f v = f u"
  then obtain k l where kl: "tb (V (data d)) k = Some v" "tb (V (data d)) l = Some u" by (auto simp: ran_def)
  then have rows: "data d (ts_name spec) k = Some (row v)" "data d (ts_name spec) l = Some (row u)"
    by (auto simp: data_row(1) [OF i])
  have "k = l" using unique_rows [OF i spec rows] f [OF fvu] by (simp add: rows_clash)
  with kl show "v = u" by simp
qed

text \<open>The first row of a query, and the lookups.\<close>

lemma queryRow_eq:
  "queryRow st q args f d =
     (case db_Query (sq_db st) (rebind (sq_dialect st) q) args d of
        (Inl e, d') \<Rightarrow> (Inl (RowError e), d')
      | (Inr ([], None), d') \<Rightarrow> (Inl NoRows, d')
      | (Inr ([], Some e), d') \<Rightarrow> (Inl (RowError e), d')
      | (Inr (x # _, _), d') \<Rightarrow> (case f x of Inl e \<Rightarrow> (Inl (RowError e), d') | Inr v \<Rightarrow> (Inr v, d')))"
  by (simp add: queryRow_def sql_query_def handle_def fail_def ret_def split: prod.split sum.split list.split option.split)

lemma obeys_find:
  assumes cs: "conds_ok spec cs args" and P: "\<And>v. storable v \<Longrightarrow> sat lk (cell spec (row v)) cs args \<longleftrightarrow> P v"
  shows "obeys I (V \<circ> data) (find_spec tb P) (getOne st (select_text '''' tab spec cs) args scan)"
  unfolding obeys_def
proof (intro allI impI)
  fix d r d'
  assume i: "I d" and r: "getOne st (select_text '''' tab spec cs) args scan d = (r, d')"
  let ?M = "{x \<in> ran (data d (ts_name spec)). sat lk (cell spec x) cs args}"
  have M: "x \<in> ?M \<longleftrightarrow> (\<exists>v \<in> ran (tb (V (data d))). P v \<and> x = row v)" for x
    using data_ran [OF i] P ran_storable [OF i] by auto
  obtain q where q: "db_Query (sq_db st) (select_text (sq_dialect st) tab spec cs) args d = (q, d')"
    using r bound_select [OF plain_tab spec conds_plain [OF spec cs]]
    by (auto simp: getOne_def mapErr_def handle_def fail_def ret_def queryRow_eq
        split: prod.splits sum.splits list.splits option.splits)
  note s = selected [OF i spec cs q]
  have run: "r = (case q of Inl e \<Rightarrow> Inl (StoreFailure e) | Inr ([], None) \<Rightarrow> Inl ErrNotFound
      | Inr ([], Some e) \<Rightarrow> Inl (StoreFailure e) | Inr (x # _, _) \<Rightarrow> (case scan x of Inl e \<Rightarrow> Inl (StoreFailure e) | Inr v \<Rightarrow> Inr v))"
    using r q bound_select [OF plain_tab spec conds_plain [OF spec cs]]
    by (auto simp: getOne_def mapErr_def handle_def fail_def ret_def queryRow_eq
        split: prod.splits sum.splits list.splits option.splits)
  show "I d' \<and> (find_spec tb P ((V \<circ> data) d) r ((V \<circ> data) d') \<or>
      (\<exists>msg. r = Inl (StoreFailure msg)) \<and> (V \<circ> data) d' = (V \<circ> data) d)"
  proof (cases q)
    case (Inl e)
    with s run show ?thesis by simp
  next
    case (Inr p)
    obtain rows err where p: "p = (rows, err)" by (cases p)
    from s Inr p obtain xs where xs: "rows = map (map rep) xs" "set xs \<subseteq> ?M" "err = None \<longrightarrow> ?M \<subseteq> set xs"
      and d': "I d'" "data d' = data d" by auto
    show ?thesis
    proof (cases xs)
      case Nil
      then have "\<forall>v \<in> ran (tb (V (data d))). \<not> P v" if "err = None" using xs(3) that M by auto
      with Nil xs run Inr p d' show ?thesis by (auto simp: find_spec_def split: option.splits)
    next
      case (Cons x ys)
      with xs(2) M [of x] obtain v where v: "v \<in> ran (tb (V (data d)))" "P v" "x = row v" by auto
      then have "scan (map rep x) = Inr v" using row_scan [OF ran_storable [OF i v(1)]] by simp
      with run Inr p xs(1) Cons have "r = Inr v" by simp
      with v d' show ?thesis by (simp add: find_spec_def)
    qed
  qed
qed

lemma id_typed: "conds_ok spec [CEq ''id''] [SqlString k]"
  using spec by (auto simp: conds_ok_def cond_typed_def used_conds_def schema_def)

lemma sat_id: "sat lk (cell spec (row v)) [CEq ''id''] [SqlString k] \<longleftrightarrow> key v = k"
  by (simp add: row_id)

lemma obeys_get:
  "obeys I (V \<circ> data) (get_spec tb k) (getOne st (select_text '''' tab spec [CEq ''id'']) [SqlString k] scan)"
proof -
  have "get_spec tb k T r T'" if "find_spec tb (\<lambda>v. key v = k) T r T'" "T = (V \<circ> data) d" "I d" for T r T' d
    using that data_row(2) [OF that(3), of k] unfolding find_spec_def get_spec_def
    by (cases "tb T k") (auto simp: ran_def data_row(2) split: sum.splits)
  then show ?thesis
    using obeys_find [OF id_typed, where P = "\<lambda>v. key v = k", OF sat_id] unfolding obeys_def by blast
qed

text \<open>Insertions and updates.\<close>

lemma clash_rows:
  "I d \<Longrightarrow> (\<exists>y \<in> ran (data d (ts_name spec)). row_clash spec (row v) y) \<longleftrightarrow> (\<exists>u \<in> ran (tb (V (data d))). clash v u)"
  unfolding Bex_def data_ran using rows_clash by blast

lemma clash_others:
  assumes "I d"
  shows "(\<exists>l y. data d (ts_name spec) l = Some y \<and> l \<noteq> key v \<and> row_clash spec (row v) y)
     \<longleftrightarrow> (\<exists>u \<in> ran (tb (V (data d))). key u \<noteq> key v \<and> clash v u)"
proof -
  have "(\<exists>l y. data d (ts_name spec) l = Some y \<and> l \<noteq> key v \<and> row_clash spec (row v) y)
    \<longleftrightarrow> (\<exists>l u. tb (V (data d)) l = Some u \<and> l \<noteq> key v \<and> clash v u)"
    unfolding data_row(1) [OF assms] using rows_clash by blast
  also have "\<dots> \<longleftrightarrow> (\<exists>u \<in> ran (tb (V (data d))). key u \<noteq> key v \<and> clash v u)"
    using data_row(2) [OF assms] unfolding ran_def by blast
  finally show ?thesis .
qed

lemma obeys_insert:
  assumes "storable v" and "key v \<noteq> ''''"
  shows "obeys I (V \<circ> data) (create_spec tb tbupd key clash v)
     (andThen (mapErr (sql_mapError (sq_lib st)) (sql_exec st (insert_text '''' tab spec) (row v))) (\<lambda>_. ret ()))"
  unfolding obeys_def
proof (intro allI impI)
  fix d r d'
  assume i: "I d" and r: "andThen (mapErr (sql_mapError (sq_lib st)) (sql_exec st (insert_text '''' tab spec) (row v))) (\<lambda>_. ret ()) d = (r, d')"
  obtain q where q: "db_Exec (sq_db st) (insert_text (sq_dialect st) tab spec) (row v) d = (q, d')"
    and run: "r = (case q of Inl e \<Rightarrow> Inl (sql_mapError (sq_lib st) e) | Inr _ \<Rightarrow> Inr ())"
    using r bound_insert [OF plain_tab spec]
    by (auto simp: andThen_def mapErr_def handle_def fail_def ret_def sql_exec_def split: prod.splits sum.splits)
  have ok: "ok (ts_name spec) (row v)" using row_ok assms(1) by blast
  show "I d' \<and> (create_spec tb tbupd key clash v ((V \<circ> data) d) r ((V \<circ> data) d') \<or>
      (\<exists>msg. r = Inl (StoreFailure msg)) \<and> (V \<circ> data) d' = (V \<circ> data) d)"
    using inserted [OF i spec row_id assms(2) ok q] clash_rows [OF i, of v] view_put [OF assms(1)] unfolding run create_spec_def
    by (cases q) (auto simp: data_dom sql_mapError_def split: if_splits)
qed

lemma exists_run:
  assumes i: "I d" and r: "sql_exists st tab k d = (r, d')"
  shows "I d' \<and> data d' = data d \<and> (case r of Inr b \<Rightarrow> b \<longleftrightarrow> k \<in> dom (tb (V (data d))) | Inl e \<Rightarrow> \<exists>msg. e = StoreFailure msg)"
proof -
  obtain q where q: "db_Query (sq_db st) (one_text (sq_dialect st) tab) [SqlString k] d = (q, d')"
    and run: "r = (case q of Inl e \<Rightarrow> Inl (StoreFailure e) | Inr ([], None) \<Rightarrow> Inr False
      | Inr ([], Some e) \<Rightarrow> Inl (StoreFailure e)
      | Inr (x # _, _) \<Rightarrow> (case scan_int x of Inl e \<Rightarrow> Inl (StoreFailure e) | Inr _ \<Rightarrow> Inr True))"
    using r bound_one [OF plain_tab, of "sq_dialect st"]
    by (auto simp: sql_exists_def one_text_def ph_def handle_def fail_def ret_def queryRow_eq row_failure_def
        split: prod.splits sum.splits list.splits option.splits if_splits)
  have one: "scan_int [SqlInt 1] = Inr 1" by (simp add: scan_int_def bindSum_def scan_value_def)
  show ?thesis using probed [OF i spec q] one unfolding run data_dom
    by (auto split: sum.splits list.splits option.splits)
qed

lemma obeys_change:
  assumes v: "storable v"
  shows "obeys I (V \<circ> data) (update_spec tb tbupd key clash v)
     (execChanged st tab (key v) (update_text '''' tab (tl (map fst (ts_columns spec))) [CEq ''id'']) (vals v @ [SqlString (key v)]))"
  unfolding obeys_def
proof (intro allI impI)
  fix d r d'
  let ?sets = "tl (map fst (ts_columns spec))"
  let ?q = "update_text '''' tab ?sets [CEq ''id'']"
  assume i: "I d" and r: "execChanged st tab (key v) ?q (vals v @ [SqlString (key v)]) d = (r, d')"
  have "list_all plain_text ?sets" using schema_plain [OF spec] by (cases "map fst (ts_columns spec)") auto
  then have b: "rebind (sq_dialect st) ?q = update_text (sq_dialect st) tab ?sets [CEq ''id'']"
    by (rule bound_update [OF plain_tab _ conds_plain [OF spec id_typed]])
  have ok: "ok (ts_name spec) (row v)" using row_ok v by blast
  obtain q d1 where q: "db_Exec (sq_db st) (update_text (sq_dialect st) tab ?sets [CEq ''id'']) (vals v @ [SqlString (key v)]) d = (q, d1)"
    by fastforce
  note u = updated [OF i spec row_id ok q]
  have dk: "data d (ts_name spec) (key v) = None \<longleftrightarrow> key v \<notin> dom (tb (V (data d)))" by (auto simp: view_get)
  show "I d' \<and> (update_spec tb tbupd key clash v ((V \<circ> data) d) r ((V \<circ> data) d') \<or>
      (\<exists>msg. r = Inl (StoreFailure msg)) \<and> (V \<circ> data) d' = (V \<circ> data) d)"
  proof (cases q)
    case (Inl e)
    with r q b have "r = Inl (sql_mapError (sq_lib st) e)" "d' = d1"
      by (auto simp: execChanged_def andThen_def mapErr_def handle_def fail_def sql_exec_def)
    with u Inl clash_others [OF i, of v] show ?thesis
      by (auto simp: update_spec_def sql_mapError_def data_dom)
  next
    case (Inr res)
    with u obtain n where n: "res = Inr n" by (cases res) auto
    have run: "(if 0 < n then ret () else andThen (sql_exists st tab (key v)) (\<lambda>found. if \<not> found then fail ErrNotFound else ret ())) d1 = (r, d')"
      using r q b Inr n by (simp add: execChanged_def andThen_def mapErr_def handle_def ret_def sql_exec_def affected_def)
    show ?thesis
    proof (cases "data d (ts_name spec) (key v)")
      case None
      with u Inr n have d1: "I d1" "n = 0" "data d1 = data d" by auto
      obtain b where b: "sql_exists st tab (key v) d1 = (b, d')"
        and r: "r = (case b of Inl e \<Rightarrow> Inl e | Inr found \<Rightarrow> if \<not> found then Inl ErrNotFound else Inr ())"
        using run d1(2) by (auto simp: andThen_def fail_def ret_def split: prod.splits sum.splits if_splits)
      show ?thesis using exists_run [OF d1(1) b] None dk unfolding r d1(3)
        by (auto simp: update_spec_def split: sum.splits)
    next
      case (Some old)
      with u Inr n have d1: "I d1" "n = 1 \<or> n = 0 \<and> old = row v"
        "\<And>l y. data d (ts_name spec) l = Some y \<Longrightarrow> l \<noteq> key v \<Longrightarrow> \<not> row_clash spec (row v) y"
        "data d1 = (data d)(ts_name spec := (data d (ts_name spec))(key v \<mapsto> row v))" by auto
      have spec: "update_spec tb tbupd key clash v ((V \<circ> data) d) (Inr ()) ((V \<circ> data) d1)"
        using clash_others [OF i, of v] d1(3) Some dk view_put [OF v] by (auto simp: update_spec_def d1(4))
      show ?thesis
      proof (cases "n = 0")
        case False
        with run spec d1(1) show ?thesis by simp
      next
        case True
        obtain b where b: "sql_exists st tab (key v) d1 = (b, d')"
          and r: "r = (case b of Inl e \<Rightarrow> Inl e | Inr found \<Rightarrow> if \<not> found then Inl ErrNotFound else Inr ())"
          using run True by (auto simp: andThen_def fail_def ret_def split: prod.splits sum.splits if_splits)
        have same: "data d1 = data d" using d1(2,4) True Some by (simp add: fun_upd_idem map_upd_triv)
        show ?thesis using exists_run [OF d1(1) b] spec dk Some unfolding r
          by (auto simp: same split: sum.splits)
      qed
    qed
  qed
qed

text \<open>Deletions.\<close>

lemma delete_run:
  assumes i: "I d" and cs: "conds_ok spec cs args" and P: "\<And>v. storable v \<Longrightarrow> sat lk (cell spec (row v)) cs args \<longleftrightarrow> P v"
    and q: "sql_exec st (delete_text '''' tab cs) args d = (q, d')"
  shows "I d' \<and> (case q of Inl e \<Rightarrow> data d' = data d | Inr (Inl e) \<Rightarrow> False
     | Inr (Inr n) \<Rightarrow> n = card {k. \<exists>v. tb (V (data d)) k = Some v \<and> P v}
         \<and> V (data d') = tbupd (keep (\<lambda>v. \<not> P v)) (V (data d)))"
proof -
  have b: "db_Exec (sq_db st) (delete_text (sq_dialect st) tab cs) args d = (q, d')"
    using q bound_delete [OF plain_tab conds_plain [OF spec cs]] by (simp add: sql_exec_def)
  have n: "{k. \<exists>x. data d (ts_name spec) k = Some x \<and> sat lk (cell spec x) cs args} = {k. \<exists>v. tb (V (data d)) k = Some v \<and> P v}"
    unfolding data_row(1) [OF i] using P data_row(2) [OF i] by blast
  have V: "V ((data d)(ts_name spec := keep (\<lambda>x. \<not> sat lk (cell spec x) cs args) (data d (ts_name spec))))
      = tbupd (keep (\<lambda>v. \<not> P v)) (V (data d))"
    by (rule view_keep [OF i]) (simp add: P ran_storable [OF i])
  show ?thesis using deleted [OF i spec cs b] n V by (auto split: sum.splits)
qed

lemma obeys_count:
  assumes cs: "conds_ok spec cs args" and P: "\<And>v. storable v \<Longrightarrow> sat lk (cell spec (row v)) cs args \<longleftrightarrow> P v"
  shows "obeys I (V \<circ> data) (delete_where_spec tb tbupd P) (execCount st (delete_text '''' tab cs) args)"
  unfolding obeys_def
proof (intro allI impI)
  fix d r d'
  assume i: "I d" and r: "execCount st (delete_text '''' tab cs) args d = (r, d')"
  obtain q d1 where q: "sql_exec st (delete_text '''' tab cs) args d = (q, d1)" by fastforce
  note run = delete_run [OF i cs P q]
  show "I d' \<and> (delete_where_spec tb tbupd P ((V \<circ> data) d) r ((V \<circ> data) d') \<or>
      (\<exists>msg. r = Inl (StoreFailure msg)) \<and> (V \<circ> data) d' = (V \<circ> data) d)"
    using r q run
    by (cases q) (auto simp: execCount_def andThen_def mapErr_def handle_def fail_def ret_def affected_def delete_where_spec_def
        split: sum.splits)
qed

lemma obeys_delete: "obeys I (V \<circ> data) (delete_spec tb tbupd k) (execDelete st tab k)"
  unfolding obeys_def
proof (intro allI impI)
  fix d r d'
  assume i: "I d" and r: "execDelete st tab k d = (r, d')"
  obtain q d1 where q: "sql_exec st (delete_text '''' tab [CEq ''id'']) [SqlString k] d = (q, d1)" by fastforce
  note run = delete_run [OF i id_typed sat_id q]
  have sent: "''DELETE FROM '' @ tab @ '' WHERE id = ?'' = delete_text '''' tab [CEq ''id'']"
    by (simp add: delete_text_def where_text_def ph_def)
  have r: "(r, d') = (case q of Inl e \<Rightarrow> (Inl (StoreFailure e), d1) | Inr (Inl e) \<Rightarrow> (Inl (StoreFailure e), d1)
      | Inr (Inr n) \<Rightarrow> if n = 0 then (Inl ErrNotFound, d1) else (Inr (), d1))"
    using r q unfolding execDelete_def sent
    by (auto simp: andThen_def mapErr_def handle_def fail_def ret_def affected_def split: sum.splits if_splits)
  show "I d' \<and> (delete_spec tb tbupd k ((V \<circ> data) d) r ((V \<circ> data) d') \<or>
      (\<exists>msg. r = Inl (StoreFailure msg)) \<and> (V \<circ> data) d' = (V \<circ> data) d)"
  proof (cases q)
    case (Inl e)
    with run r show ?thesis by simp
  next
    case (Inr res)
    with run obtain n where n: "res = Inr n" by (cases res) auto
    have "{l. \<exists>v. tb (V (data d)) l = Some v \<and> key v = k} = (if k \<in> dom (tb (V (data d))) then {k} else {})"
      using data_row(2) [OF i] by auto
    with run Inr n have c: "n = (if k \<in> dom (tb (V (data d))) then 1 else 0)" by simp
    have "keep (\<lambda>v. key v \<noteq> k) (tb (V (data d))) = (tb (V (data d)))(k := None)"
      using data_row(2) [OF i] by (auto simp: keep_def fun_eq_iff split: option.splits)
    then have "tbupd (keep (\<lambda>v. key v \<noteq> k)) (V (data d)) = tbupd (\<lambda>m. m(k := None)) (V (data d))"
      using tbupd_const [of "keep (\<lambda>v. key v \<noteq> k)"] tbupd_const [of "\<lambda>m. m(k := None)"] by simp
    moreover have "tbupd (\<lambda>m. m(k := None)) (V (data d)) = V (data d)" if "k \<notin> dom (tb (V (data d)))"
    proof -
      have "(tb (V (data d)))(k := None) = tb (V (data d))" using that by (auto simp: fun_upd_idem)
      then have "tbupd (\<lambda>m. m(k := None)) (V (data d)) = tbupd (\<lambda>_. tb (V (data d))) (V (data d))"
        using tbupd_const [of "\<lambda>m. m(k := None)"] by simp
      also have "\<dots> = V ((data d)(ts_name spec := data d (ts_name spec)))" unfolding view_upd view_get ..
      finally show ?thesis by simp
    qed
    ultimately show ?thesis using run r Inr n c by (auto simp: delete_spec_def split: if_splits)
  qed
qed

text \<open>Pages.\<close>

lemma scan_all_rows:
  "list_all storable vs \<Longrightarrow> scan_all scan (map (map rep) (map (\<lambda>v. row v) vs)) = Inr vs"
proof (induction vs)
  case (Cons v vs)
  then have "scan (map rep (row v)) = Inr v" using row_scan [of v] by simp
  with Cons show ?case by (simp add: bindSum_def)
qed simp

lemma obeys_list:
  assumes cs: "conds_ok spec cs args" and P: "\<And>v. storable v \<Longrightarrow> sat lk (cell spec (row v)) cs args \<longleftrightarrow> P v"
  shows "obeys I (V \<circ> data) (list_spec tb (\<lambda>v. (created v, key v)) P opts)
     (sql_list st tab (column_text spec) (where_text '''' 1 cs) args opts scan)"
  unfolding obeys_def
proof (intro allI impI)
  fix d r d'
  let ?o = "ListOptions_Normalize opts"
  let ?M = "{x \<in> ran (data d (ts_name spec)). sat lk (cell spec x) cs args}"
  let ?N = "{v \<in> ran (tb (V (data d))). P v}"
  assume i: "I d" and r: "sql_list st tab (column_text spec) (where_text '''' 1 cs) args opts scan d = (r, d')"
  have o: "0 \<le> lo_Offset ?o" "0 < lo_Limit ?o"
    by (auto simp: ListOptions_Normalize_def Let_def DefaultLimit_def MaxLimit_def)
  have plain: "plain_conds cs" by (rule conds_plain [OF spec cs])
  have M: "?M = (\<lambda>v. row v) ` ?N" using P ran_storable [OF i] by (auto simp: data_ran [OF i])
  have st: "storable v" if "v \<in> ?N" for v using that ran_storable [OF i] by blast
  have fin: "finite ?N"
  proof (rule finite_subset)
    show "?N \<subseteq> (\<lambda>row. projr (scan row)) ` ran (data d (ts_name spec))" by (auto simp: view_get ran_def)
    show "finite ((\<lambda>row. projr (scan row)) ` ran (data d (ts_name spec)))"
      by (rule finite_imageI [OF finite_ran [OF finite_rows [OF i]]])
  qed
  have kinj: "inj_on key ?N" using data_row(2) [OF i] by (fastforce simp: inj_on_def ran_def)
  have keys: "{k. \<exists>x. data d (ts_name spec) k = Some x \<and> sat lk (cell spec x) cs args} = key ` ?N"
    unfolding data_row(1) [OF i] using P data_row(2) [OF i] by (force simp: ran_def)
  then have card: "card {k. \<exists>x. data d (ts_name spec) k = Some x \<and> sat lk (cell spec x) cs args} = card ?N"
    by (simp add: card_image [OF kinj])
  obtain q1 d1 where q1: "db_Query (sq_db st) (count_text (sq_dialect st) tab cs) args d = (q1, d1)" by fastforce
  note c = counted [OF i spec cs q1, unfolded card]
  have one: "scan_int [SqlInt n] = Inr n" for n by (simp add: scan_int_def bindSum_def scan_value_def)
  define total where "total = (case q1 of Inl e \<Rightarrow> Inl (StoreFailure e) | Inr ([], None) \<Rightarrow> Inl (row_failure NoRows)
      | Inr ([], Some e) \<Rightarrow> Inl (StoreFailure e)
      | Inr (x # _, _) \<Rightarrow> (case scan_int x of Inl e \<Rightarrow> Inl (StoreFailure e) | Inr n \<Rightarrow> Inr n))"
  have count: "sql_count st tab (where_text '''' 1 cs) args d = (total, d1)"
    using q1 bound_count [OF plain_tab plain, of "sq_dialect st"]
    by (auto simp: sql_count_def count_text_def total_def mapErr_def handle_def fail_def ret_def queryRow_eq row_failure_def
        split: prod.splits sum.splits list.splits option.splits)
  have d1: "I d1" "data d1 = data d" using c by auto
  have t: "(\<exists>msg. total = Inl (StoreFailure msg)) \<or> total = Inr (int (card ?N))"
    using c one by (auto simp: total_def row_failure_def split: sum.splits list.splits option.splits)
  show "I d' \<and> (list_spec tb (\<lambda>v. (created v, key v)) P opts ((V \<circ> data) d) r ((V \<circ> data) d') \<or>
      (\<exists>msg. r = Inl (StoreFailure msg)) \<and> (V \<circ> data) d' = (V \<circ> data) d)"
  proof (cases total)
    case (Inl e)
    with t count r d1 show ?thesis by (auto simp: sql_list_def Let_def andThen_def)
  next
    case (Inr n)
    with t have n: "n = int (card ?N)" by auto
    show ?thesis
    proof (cases "n = 0 \<or> n \<le> lo_Offset ?o")
      case True
      with r count Inr have r: "r = Inr ([], nat n)" "d' = d1" by (auto simp: sql_list_def Let_def andThen_def)
      obtain ys where ys: "set ys = ?N" "distinct ys" using finite_distinct_list [OF fin] by blast
      define xs where "xs = sort_key (\<lambda>v. (created v, key v)) ys"
      have xs: "set xs = ?N" "distinct xs" "sorted (map (\<lambda>v. (created v, key v)) xs)"
        unfolding xs_def by (simp_all only: set_sort distinct_sort ys sorted_sort_key)
      have len: "length xs = card ?N" using distinct_card [OF xs(2)] xs(1) by simp
      have "length xs \<le> nat (lo_Offset ?o)" using True len n o by auto
      then have page: "take (nat (lo_Limit ?o)) (drop (nat (lo_Offset ?o)) xs) = []" by simp
      have "list_spec tb (\<lambda>v. (created v, key v)) P opts (V (data d)) (Inr ([], nat n)) (V (data d1))"
        unfolding list_spec_def d1(2) using xs page len n
        by (intro conjI exI [of _ xs]) simp_all
      with d1(1) show ?thesis by (simp add: r)
    next
      case False
      obtain q2 where q2: "db_Query (sq_db st) (page_text (sq_dialect st) tab spec cs)
            (args @ [SqlInt (lo_Limit ?o), SqlInt (lo_Offset ?o)]) d1 = (q2, d')"
        and r: "r = (case q2 of Inl e \<Rightarrow> Inl (StoreFailure e) | Inr (rows, err) \<Rightarrow>
           (case scan_all scan rows of Inl e \<Rightarrow> Inl (StoreFailure e)
            | Inr items \<Rightarrow> (case err of Some e \<Rightarrow> Inl (StoreFailure e) | None \<Rightarrow> Inr (items, nat n))))"
      proof -
        define Q where "Q = db_Query (sq_db st) (page_text (sq_dialect st) tab spec cs)
            (args @ [SqlInt (lo_Limit ?o), SqlInt (lo_Offset ?o)]) d1"
        have b: "sql_query st (''SELECT '' @ column_text spec @ '' FROM '' @ tab @ where_text '''' 1 cs @
              '' ORDER BY created_at, id LIMIT ? OFFSET ?'') (args @ [SqlInt (lo_Limit ?o), SqlInt (lo_Offset ?o)]) d1 = Q"
          using bound_page [OF plain_tab spec plain, of "sq_dialect st"] by (simp add: sql_query_def page_text_def ph_def Q_def)
        have "sql_list st tab (column_text spec) (where_text '''' 1 cs) args opts scan d =
            (case Q of (Inl e, d') \<Rightarrow> (Inl (StoreFailure e), d')
             | (Inr (rows, err), d') \<Rightarrow> (case scan_all scan rows of Inl e \<Rightarrow> (Inl (StoreFailure e), d')
                | Inr items \<Rightarrow> (case err of Some e \<Rightarrow> (Inl (StoreFailure e), d') | None \<Rightarrow> (Inr (items, nat n), d'))))"
          using False unfolding sql_list_def Let_def andThen_def count Inr mapErr_def handle_def
          by (simp only: b prod.case sum.case if_False) (auto simp: fail_def ret_def split: prod.split sum.split option.split)
        with r show thesis
          by (intro that [of "fst Q"]) (auto simp: Q_def split: prod.splits sum.splits option.splits)
      qed
      note p = paged [OF d1(1) spec cs o q2, unfolded d1(2)]
      show ?thesis
      proof (cases "\<exists>rows. q2 = Inr (rows, None)")
        case False
        with p r show ?thesis by (auto split: sum.splits prod.splits option.splits)
      next
        case True
        then obtain rows where rows: "q2 = Inr (rows, None)" by blast
        with p obtain xs where xs: "set xs = ?M" "distinct xs" "sorted (map (row_order spec) xs)"
          "rows = map (map rep) (take (nat (lo_Limit ?o)) (drop (nat (lo_Offset ?o)) xs))" and d': "I d'" "data d' = data d" by auto
        define vs where "vs = map (\<lambda>x. projr (scan x)) xs"
        have whole: "row (projr (scan x)) = x \<and> storable (projr (scan x))" if "x \<in> set xs" for x
          using that st row_scan unfolding xs(1) M by auto
        have xs_vs: "xs = map (\<lambda>v. row v) vs" unfolding vs_def using whole by (simp add: map_idI)
        have stv: "list_all storable vs" using whole by (auto simp: vs_def list_all_iff)
        have "set vs = ?N"
        proof -
          have "(\<lambda>v. row v) ` set vs = (\<lambda>v. row v) ` ?N" using xs(1) M xs_vs by simp
          moreover have "inj_on (\<lambda>v. row v) (set vs \<union> ?N)"
            unfolding inj_on_def using row_inj stv st by (blast intro: row_inj dest: list_all_iff [THEN iffD1])
          ultimately show ?thesis by (rule inj_on_image_eq_iff [THEN iffD1, rotated -1]) simp_all
        qed
        moreover have "distinct vs" using xs(2) unfolding xs_vs by (simp only: distinct_map)
        moreover have "sorted (map (\<lambda>v. (created v, key v)) vs)"
        proof -
          have "sorted_wrt (\<lambda>v u. row_order spec (row v) \<le> row_order spec (row u)) vs"
            using xs(3) unfolding xs_vs sorted_map sorted_wrt_map .
          then have "sorted_wrt (\<lambda>v u. (created v, key v) \<le> (created u, key u)) vs"
            using rows_order stv unfolding list_all_iff by (elim sorted_wrt_mono_rel [rotated]) blast
          then show ?thesis unfolding sorted_map .
        qed
        moreover have "length vs = nat n"
          using \<open>set vs = ?N\<close> \<open>distinct vs\<close> n distinct_card [of vs] by simp
        moreover have "scan_all scan rows = Inr (take (nat (lo_Limit ?o)) (drop (nat (lo_Offset ?o)) vs))"
        proof -
          let ?page = "take (nat (lo_Limit ?o)) (drop (nat (lo_Offset ?o)) vs)"
          have "list_all storable ?page" using stv by (auto simp: list_all_iff dest: in_set_takeD in_set_dropD)
          moreover have "rows = map (map rep) (map (\<lambda>v. row v) ?page)"
            unfolding xs(4) by (simp only: xs_vs take_map drop_map)
          ultimately show ?thesis using scan_all_rows by simp
        qed
        ultimately show ?thesis unfolding r rows list_spec_def using d' by (auto intro!: exI [of _ vs])
      qed
    qed
  qed
qed

end

end
