(* ===== verification/SqlProofs.thy ===== *)
theory SqlProofs
  imports SqlSpec
begin

text \<open>
  The SQL store on a database that behaves as documented: every operation of the interface meets the contract of
  \<open>StoreSpec\<close>, for entities a row can hold. A row holds times from 1970 on that fit 64 bits of nanoseconds, or the
  zero time, and lists of strings that \<open>encoding/json\<close> reads back; the search of users folds case, so their normalized
  names are in lower case. Each table is a \<open>sql_table\<close> by a sublocale.
\<close>

section \<open>Values that come back\<close>

definition sql_time :: "time \<Rightarrow> bool" where
  "sql_time t \<longleftrightarrow> t = zero_time \<or> 0 < t \<and> t < 2 ^ 63"

definition sql_time_ptr :: "time option \<Rightarrow> bool" where
  "sql_time_ptr t \<longleftrightarrow> (case t of None \<Rightarrow> True | Some v \<Rightarrow> sql_time v)"

definition json_list :: "sql_lib \<Rightarrow> string list \<Rightarrow> bool" where
  "json_list lib v \<longleftrightarrow> v = [] \<or> sl_Marshal lib v \<noteq> '''' \<and> sl_Unmarshal lib (sl_Marshal lib v) = Some v"

lemma UnixNano_range: "0 < t \<Longrightarrow> t < 2 ^ 63 \<Longrightarrow> UnixNano t = t"
  unfolding UnixNano_def by (simp add: sint_sbintrunc' signed_take_bit_int_eq_self)

lemma encTime_eq: "sql_time t \<Longrightarrow> encTime t = (if t = zero_time then 0 else t)"
  by (auto simp: sql_time_def encTime_def UnixNano_range)

lemma zero_time_neg: "zero_time < 0"
  by (simp add: zero_time_def)

lemma decTime_encTime [simp]: "sql_time t \<Longrightarrow> decTime (encTime t) = t"
  using zero_time_neg by (auto simp: encTime_eq decTime_def sql_time_def)

lemma encTime_range: "sql_time t \<Longrightarrow> 0 \<le> encTime t" "sql_time t \<Longrightarrow> encTime t < 2 ^ 63"
  by (auto simp: encTime_eq sql_time_def)

lemma sql_time_decTime: "0 \<le> n \<Longrightarrow> n < 2 ^ 63 \<Longrightarrow> sql_time (decTime n) \<and> encTime (decTime n) = n"
  using zero_time_neg by (auto simp: decTime_def sql_time_def encTime_eq)

lemma encTime_order:
  assumes "sql_time s" and "sql_time t"
  shows "encTime s \<le> encTime t \<longleftrightarrow> s \<le> t" and "encTime s < encTime t \<longleftrightarrow> s < t"
  using assms zero_time_neg by (auto simp: encTime_eq sql_time_def)

lemma decTimePtr_encTimePtr [simp]: "sql_time_ptr t \<Longrightarrow> decTimePtr (null_int_of (encTimePtr t)) = t"
  by (cases t) (simp_all add: sql_time_ptr_def encTimePtr_def decTimePtr_def)

lemma decList_encList [simp]:
  "sl_Unmarshal lib ''[]'' = Some [] \<Longrightarrow> json_list lib v \<Longrightarrow> decList lib (encList lib v) = Inr v"
  by (auto simp: json_list_def encList_def decList_def)

section \<open>Rows that come back\<close>

text \<open>The entities a row keeps.\<close>

definition row_client :: "sql_lib \<Rightarrow> client \<Rightarrow> bool" where
  "row_client lib x \<longleftrightarrow> json_list lib (c_RedirectUris x) \<and> json_list lib (c_AllowedScopes x) \<and> json_list lib (c_DefaultScopes x) \<and> json_list lib (c_AllowedGrantTypes x) \<and> sql_time (c_CreatedAt x) \<and> sql_time (c_UpdatedAt x)"

definition row_user :: "user \<Rightarrow> bool" where
  "row_user x \<longleftrightarrow> sql_time (u_CreatedAt x) \<and> sql_time (u_UpdatedAt x) \<and> sql_time_ptr (u_LockoutEnd x) \<and> sql_time_ptr (u_LastLoginAt x) \<and> map ascii_lower (u_NormalizedUsername x) = u_NormalizedUsername x \<and> map ascii_lower (u_NormalizedEmail x) = u_NormalizedEmail x"

definition row_access :: "sql_lib \<Rightarrow> access_token \<Rightarrow> bool" where
  "row_access lib x \<longleftrightarrow> json_list lib (at_Scopes x) \<and> sql_time (at_CreatedAt x) \<and> sql_time (at_ExpiresAt x)"

definition row_refresh :: "sql_lib \<Rightarrow> refresh_token \<Rightarrow> bool" where
  "row_refresh lib x \<longleftrightarrow> json_list lib (rt_Scopes x) \<and> sql_time (rt_CreatedAt x) \<and> sql_time (rt_UpdatedAt x) \<and> sql_time (rt_ExpiresAt x)"

definition row_code :: "sql_lib \<Rightarrow> authorization_code \<Rightarrow> bool" where
  "row_code lib x \<longleftrightarrow> json_list lib (ac_Scopes x) \<and> sql_time (ac_CreatedAt x) \<and> sql_time (ac_ExpiresAt x) \<and> sql_time_ptr (ac_ConsumedAt x)"

definition row_token :: "user_token \<Rightarrow> bool" where
  "row_token x \<longleftrightarrow> sql_time (ut_CreatedAt x) \<and> sql_time (ut_ExpiresAt x)"

lemmas row_defs = row_client_def row_user_def row_access_def row_refresh_def row_code_def row_token_def

lemmas values_defs = clientValues_def userValues_def accessTokenValues_def refreshTokenValues_def authorizationCodeValues_def userTokenValues_def

lemmas scan_defs = scanClient_def scanUser_def scanAccessToken_def scanRefreshToken_def scanAuthorizationCode_def scanUserToken_def

text \<open>A driver that gives a boolean as such or as 0 or 1.\<close>

definition driver_like :: "(sql_value \<Rightarrow> sql_value) \<Rightarrow> bool" where
  "driver_like rep \<longleftrightarrow> (\<forall>v. rep v = v \<or> (\<exists>b. v = SqlBool b \<and> rep v = SqlInt (if b then 1 else 0)))"

lemma driver_like_id: "driver_like (\<lambda>v. v)"
  by (simp add: driver_like_def)

lemma driver_plain [simp]:
  assumes "driver_like rep"
  shows "rep (SqlString s) = SqlString s" and "rep (SqlInt i) = SqlInt i" and "rep SqlNull = SqlNull"
    and "rep (encTimePtr t) = encTimePtr t"
  using assms unfolding driver_like_def by (auto simp: encTimePtr_def split: option.split)

lemma scan_bool [simp]: "driver_like rep \<Longrightarrow> scan_value DBool (rep (SqlBool b)) = Some (SqlBool b)"
  unfolding driver_like_def scan_value_def by (drule spec [of _ "SqlBool b"]) (auto split: if_splits)

lemma scan_plain [simp]:
  "scan_value DString (SqlString s) = Some (SqlString s)" "scan_value DInt (SqlInt i) = Some (SqlInt i)"
  "scan_value DNullInt (encTimePtr t) = Some (encTimePtr t)"
  by (auto simp: scan_value_def encTimePtr_def split: option.split)

text \<open>The row of an entity is read back as the entity.\<close>

lemma scan_client:
  assumes "driver_like rep" and "sl_Unmarshal lib ''[]'' = Some []" and "row_client lib x"
  shows "scanClient lib (map rep (SqlString (c_Id x) # clientValues lib x)) = Inr x"
  using assms by (simp add: scanClient_def clientValues_def row_client_def bindSum_def)

lemma scan_user:
  assumes "driver_like rep" and "row_user x"
  shows "scanUser (map rep (SqlString (u_Id x) # userValues x)) = Inr x"
  using assms by (simp add: scanUser_def userValues_def row_user_def bindSum_def)

lemma scan_access:
  assumes "driver_like rep" and "sl_Unmarshal lib ''[]'' = Some []" and "row_access lib x"
  shows "scanAccessToken lib (map rep (SqlString (at_Id x) # accessTokenValues lib x)) = Inr x"
  using assms by (simp add: scanAccessToken_def accessTokenValues_def row_access_def bindSum_def)

lemma scan_refresh:
  assumes "driver_like rep" and "sl_Unmarshal lib ''[]'' = Some []" and "row_refresh lib x"
  shows "scanRefreshToken lib (map rep (SqlString (rt_Id x) # refreshTokenValues lib x)) = Inr x"
  using assms by (simp add: scanRefreshToken_def refreshTokenValues_def row_refresh_def bindSum_def)

lemma scan_code:
  assumes "driver_like rep" and "sl_Unmarshal lib ''[]'' = Some []" and "row_code lib x"
  shows "scanAuthorizationCode lib (map rep (SqlString (ac_Id x) # authorizationCodeValues lib x)) = Inr x"
  using assms by (simp add: scanAuthorizationCode_def authorizationCodeValues_def row_code_def bindSum_def)

lemma scan_token:
  assumes "driver_like rep" and "row_token x"
  shows "scanUserToken (map rep (SqlString (ut_Id x) # userTokenValues x)) = Inr x"
  using assms by (simp add: scanUserToken_def userTokenValues_def row_token_def bindSum_def)
section \<open>The tables\<close>

text \<open>The tables of the schema by name, and what a condition sees of a row.\<close>

definition clientTable :: tableSpec where "clientTable = schema ! 0"
definition userTable :: tableSpec where "userTable = schema ! 1"
definition accessTokenTable :: tableSpec where "accessTokenTable = schema ! 2"
definition refreshTokenTable :: tableSpec where "refreshTokenTable = schema ! 3"
definition authorizationCodeTable :: tableSpec where "authorizationCodeTable = schema ! 4"
definition userTokenTable :: tableSpec where "userTokenTable = schema ! 5"

lemma clientTable_simps [simp]:
  "clientTable \<in> set schema" "ts_name clientTable = tableClients"
  "ts_columns clientTable = [(''id'', colKey), (''client_id'', colKey), (''name'', colText), (''description'', colText), (''client_type'', colKey), (''secret_hash'', colText), (''redirect_uris'', colText), (''allowed_scopes'', colText), (''default_scopes'', colText), (''allowed_grant_types'', colText), (''require_consent'', colBool), (''require_pkce'', colBool), (''enabled'', colBool), (''access_token_lifetime'', colInt), (''authorization_code_lifetime'', colInt), (''refresh_token_usage'', colKey), (''refresh_token_expiration'', colKey), (''refresh_token_lifetime'', colInt), (''created_at'', colInt), (''updated_at'', colInt)]"
  "ts_unique clientTable = [''client_id'']"
  by (simp_all add: clientTable_def schema_def)

lemma userTable_simps [simp]:
  "userTable \<in> set schema" "ts_name userTable = tableUsers"
  "ts_columns userTable = [(''id'', colKey), (''username'', colKey), (''normalized_username'', colKey), (''email'', colKey), (''normalized_email'', colKey), (''password_hash'', colText), (''email_verified'', colBool), (''enabled'', colBool), (''security_stamp'', colText), (''failed_login_count'', colInt), (''lockout_end'', colNullInt), (''last_login_at'', colNullInt), (''created_at'', colInt), (''updated_at'', colInt)]"
  "ts_unique userTable = [''normalized_username'', ''normalized_email'']"
  by (simp_all add: userTable_def schema_def)

lemma accessTokenTable_simps [simp]:
  "accessTokenTable \<in> set schema" "ts_name accessTokenTable = tableAccessTokens"
  "ts_columns accessTokenTable = [(''id'', colKey), (''token_hash'', colKey), (''client_id'', colKey), (''user_id'', colKey), (''scopes'', colText), (''authorization_code_id'', colKey), (''created_at'', colInt), (''expires_at'', colInt)]"
  "ts_unique accessTokenTable = [''token_hash'']"
  by (simp_all add: accessTokenTable_def schema_def)

lemma refreshTokenTable_simps [simp]:
  "refreshTokenTable \<in> set schema" "ts_name refreshTokenTable = tableRefreshTokens"
  "ts_columns refreshTokenTable = [(''id'', colKey), (''token_hash'', colKey), (''client_id'', colKey), (''user_id'', colKey), (''access_token_id'', colKey), (''authorization_code_id'', colKey), (''scopes'', colText), (''token_expiration'', colKey), (''token_usage'', colKey), (''lifetime'', colInt), (''created_at'', colInt), (''updated_at'', colInt), (''expires_at'', colInt)]"
  "ts_unique refreshTokenTable = [''token_hash'']"
  by (simp_all add: refreshTokenTable_def schema_def)

lemma authorizationCodeTable_simps [simp]:
  "authorizationCodeTable \<in> set schema" "ts_name authorizationCodeTable = tableAuthorizationCodes"
  "ts_columns authorizationCodeTable = [(''id'', colKey), (''code_hash'', colKey), (''client_id'', colKey), (''user_id'', colKey), (''scopes'', colText), (''redirect_uri'', colText), (''code_challenge'', colText), (''code_challenge_method'', colKey), (''created_at'', colInt), (''expires_at'', colInt), (''consumed_at'', colNullInt)]"
  "ts_unique authorizationCodeTable = [''code_hash'']"
  by (simp_all add: authorizationCodeTable_def schema_def)

lemma userTokenTable_simps [simp]:
  "userTokenTable \<in> set schema" "ts_name userTokenTable = tableUserTokens"
  "ts_columns userTokenTable = [(''id'', colKey), (''user_id'', colKey), (''purpose'', colKey), (''token_hash'', colKey), (''created_at'', colInt), (''expires_at'', colInt)]"
  "ts_unique userTokenTable = [''token_hash'']"
  by (simp_all add: userTokenTable_def schema_def)

lemmas clash_defs = client_clash_def user_clash_def access_token_clash_def refresh_token_clash_def code_clash_def user_token_clash_def

definition sql_row :: "sql_lib \<Rightarrow> string \<Rightarrow> sql_value list \<Rightarrow> bool" where
  "sql_row lib name row \<longleftrightarrow>
     (if name = tableClients then \<exists>x. row_client lib x \<and> row = SqlString (c_Id x) # clientValues lib x
      else if name = tableUsers then \<exists>x. row_user x \<and> row = SqlString (u_Id x) # userValues x
      else if name = tableAccessTokens then \<exists>x. row_access lib x \<and> row = SqlString (at_Id x) # accessTokenValues lib x
      else if name = tableRefreshTokens then \<exists>x. row_refresh lib x \<and> row = SqlString (rt_Id x) # refreshTokenValues lib x
      else if name = tableAuthorizationCodes then \<exists>x. row_code lib x \<and> row = SqlString (ac_Id x) # authorizationCodeValues lib x
      else \<exists>x. row_token x \<and> row = SqlString (ut_Id x) # userTokenValues x)"

definition sql_view :: "sql_lib \<Rightarrow> (string \<Rightarrow> string \<rightharpoonup> sql_value list) \<Rightarrow> tables" where
  "sql_view lib D =
     \<lparr>tb_clients = map_option (\<lambda>row. projr (scanClient lib row)) \<circ> D tableClients,
      tb_users = map_option (\<lambda>row. projr (scanUser row)) \<circ> D tableUsers,
      tb_accessTokens = map_option (\<lambda>row. projr (scanAccessToken lib row)) \<circ> D tableAccessTokens,
      tb_refreshTokens = map_option (\<lambda>row. projr (scanRefreshToken lib row)) \<circ> D tableRefreshTokens,
      tb_authorizationCodes = map_option (\<lambda>row. projr (scanAuthorizationCode lib row)) \<circ> D tableAuthorizationCodes,
      tb_userTokens = map_option (\<lambda>row. projr (scanUserToken row)) \<circ> D tableUserTokens\<rparr>"

locale sql_server = sql_database st I data "sql_row (sq_lib st)" rep lk
  for st :: "'d sql_Store" and I :: "'d \<Rightarrow> bool" and data :: "'d \<Rightarrow> string \<Rightarrow> string \<rightharpoonup> sql_value list"
    and rep :: "sql_value \<Rightarrow> sql_value" and lk :: "string \<Rightarrow> string \<Rightarrow> bool"
begin

abbreviation "lib \<equiv> sq_lib st"

lemma driver: "driver_like rep"
  using driver_value by (simp add: driver_like_def)

end


sublocale sql_server \<subseteq> client_table: sql_table st I data "sql_row (sq_lib st)" rep lk clientTable "sql_view (sq_lib st)" tb_clients tb_clients_update
    "scanClient (sq_lib st)" "clientValues (sq_lib st)" c_Id client_clash c_CreatedAt "row_client (sq_lib st)"
proof (unfold_locales, goal_cases)
  case (7 v)
  then show ?case using scan_client [OF driver empty_list] scan_client [OF driver_like_id empty_list] by simp
qed (auto simp: sql_view_def cell_def row_clash_def row_order_def sql_row_def clientValues_def client_clash_def row_client_def encTime_order fun_eq_iff)

sublocale sql_server \<subseteq> user_table: sql_table st I data "sql_row (sq_lib st)" rep lk userTable "sql_view (sq_lib st)" tb_users tb_users_update
    "scanUser" "userValues" u_Id user_clash u_CreatedAt "row_user"
proof (unfold_locales, goal_cases)
  case (7 v)
  then show ?case using scan_user [OF driver] scan_user [OF driver_like_id] by simp
qed (auto simp: sql_view_def cell_def row_clash_def row_order_def sql_row_def userValues_def user_clash_def row_user_def encTime_order fun_eq_iff)

sublocale sql_server \<subseteq> access_table: sql_table st I data "sql_row (sq_lib st)" rep lk accessTokenTable "sql_view (sq_lib st)" tb_accessTokens tb_accessTokens_update
    "scanAccessToken (sq_lib st)" "accessTokenValues (sq_lib st)" at_Id access_token_clash at_CreatedAt "row_access (sq_lib st)"
proof (unfold_locales, goal_cases)
  case (7 v)
  then show ?case using scan_access [OF driver empty_list] scan_access [OF driver_like_id empty_list] by simp
qed (auto simp: sql_view_def cell_def row_clash_def row_order_def sql_row_def accessTokenValues_def access_token_clash_def row_access_def encTime_order fun_eq_iff)

sublocale sql_server \<subseteq> refresh_table: sql_table st I data "sql_row (sq_lib st)" rep lk refreshTokenTable "sql_view (sq_lib st)" tb_refreshTokens tb_refreshTokens_update
    "scanRefreshToken (sq_lib st)" "refreshTokenValues (sq_lib st)" rt_Id refresh_token_clash rt_CreatedAt "row_refresh (sq_lib st)"
proof (unfold_locales, goal_cases)
  case (7 v)
  then show ?case using scan_refresh [OF driver empty_list] scan_refresh [OF driver_like_id empty_list] by simp
qed (auto simp: sql_view_def cell_def row_clash_def row_order_def sql_row_def refreshTokenValues_def refresh_token_clash_def row_refresh_def encTime_order fun_eq_iff)

sublocale sql_server \<subseteq> code_table: sql_table st I data "sql_row (sq_lib st)" rep lk authorizationCodeTable "sql_view (sq_lib st)" tb_authorizationCodes tb_authorizationCodes_update
    "scanAuthorizationCode (sq_lib st)" "authorizationCodeValues (sq_lib st)" ac_Id code_clash ac_CreatedAt "row_code (sq_lib st)"
proof (unfold_locales, goal_cases)
  case (7 v)
  then show ?case using scan_code [OF driver empty_list] scan_code [OF driver_like_id empty_list] by simp
qed (auto simp: sql_view_def cell_def row_clash_def row_order_def sql_row_def authorizationCodeValues_def code_clash_def row_code_def encTime_order fun_eq_iff)

sublocale sql_server \<subseteq> token_table: sql_table st I data "sql_row (sq_lib st)" rep lk userTokenTable "sql_view (sq_lib st)" tb_userTokens tb_userTokens_update
    "scanUserToken" "userTokenValues" ut_Id user_token_clash ut_CreatedAt "row_token"
proof (unfold_locales, goal_cases)
  case (7 v)
  then show ?case using scan_token [OF driver] scan_token [OF driver_like_id] by simp
qed (auto simp: sql_view_def cell_def row_clash_def row_order_def sql_row_def userTokenValues_def user_token_clash_def row_token_def encTime_order fun_eq_iff)
section \<open>The statements of the store\<close>

lemma columns_text:
  "clientColumns = column_text clientTable" "userColumns = column_text userTable"
  "accessTokenColumns = column_text accessTokenTable" "refreshTokenColumns = column_text refreshTokenTable"
  "authorizationCodeColumns = column_text authorizationCodeTable" "userTokenColumns = column_text userTokenTable"
  by (simp_all add: clientColumns_def userColumns_def accessTokenColumns_def refreshTokenColumns_def
      authorizationCodeColumns_def userTokenColumns_def columnList_def schema_def column_text_def)

lemma placeholders_values: "placeholders_loop i n = values_text '''' (Suc i) n"
  by (induction n arbitrary: i) (simp_all add: ph_def)

text \<open>The conditions of the token filter and of the search.\<close>

definition token_conds :: "TokenFilter \<Rightarrow> sql_cond list" where
  "token_conds f =
     (if tf_ClientId f \<noteq> '''' then [CEq ''client_id''] else []) @ (if tf_UserId f \<noteq> '''' then [CEq ''user_id''] else [])
     @ (if tf_AuthorizationCodeId f \<noteq> '''' then [CEq ''authorization_code_id''] else [])
     @ (case tf_ExpiredBefore f of None \<Rightarrow> [] | Some t \<Rightarrow> [CLe ''expires_at''])"

definition token_args :: "TokenFilter \<Rightarrow> sql_value list" where
  "token_args f =
     (if tf_ClientId f \<noteq> '''' then [SqlString (tf_ClientId f)] else [])
     @ (if tf_UserId f \<noteq> '''' then [SqlString (tf_UserId f)] else [])
     @ (if tf_AuthorizationCodeId f \<noteq> '''' then [SqlString (tf_AuthorizationCodeId f)] else [])
     @ (case tf_ExpiredBefore f of None \<Rightarrow> [] | Some t \<Rightarrow> [SqlInt (encTime t)])"

lemma tokenWhere_text: "tokenWhere f = (where_text '''' 1 (token_conds f), token_args f)"
  by (cases "tf_ExpiredBefore f") (simp_all add: tokenWhere_def token_conds_def token_args_def where_text_def ph_def)

definition user_conds :: "UserFilter \<Rightarrow> sql_cond list" where
  "user_conds f = (if uf_Search f \<noteq> '''' then [CLike ''normalized_username'' ''normalized_email''] else [])"

definition user_args :: "sql_lib \<Rightarrow> UserFilter \<Rightarrow> sql_value list" where
  "user_args lib f =
     (let pattern = ''%'' @ escapeLike (to_lower (sl_lower lib) (uf_Search f)) @ ''%''
      in if uf_Search f \<noteq> '''' then [SqlString pattern, SqlString pattern] else [])"

lemma userWhere_text: "userWhere lib f = (where_text '''' 1 (user_conds f), user_args lib f)"
  by (simp add: userWhere_def user_conds_def user_args_def where_text_def ph_def like_escape_def likeEscape_def Let_def)

lemma token_conds_ok:
  assumes "spec = accessTokenTable \<or> spec = refreshTokenTable"
  shows "conds_ok spec (token_conds f) (token_args f)"
proof -
  have "token_conds f \<in> set filter_conds"
    by (cases "tf_ExpiredBefore f") (simp_all add: token_conds_def filter_conds_def)
  moreover have "args_ok (token_conds f) (token_args f)"
    by (cases "tf_ExpiredBefore f") (simp_all add: token_conds_def token_args_def)
  moreover have "list_all (cond_typed spec) (token_conds f)"
    using assms by (cases "tf_ExpiredBefore f") (auto simp: token_conds_def cond_typed_def)
  ultimately show ?thesis using assms by (auto simp: conds_ok_def used_conds_def)
qed

definition cutoff_ok :: "TokenFilter \<Rightarrow> bool" where
  "cutoff_ok f \<longleftrightarrow> sql_time_ptr (tf_ExpiredBefore f)"

lemma token_sat:
  assumes "cutoff_ok f" and "sql_time e" and "col ''client_id'' = SqlString c" and "col ''user_id'' = SqlString u"
    and "col ''authorization_code_id'' = SqlString a" and "col ''expires_at'' = SqlInt (encTime e)"
  shows "sat lk col (token_conds f) (token_args f) \<longleftrightarrow> filter_matches f c u a e"
  using assms by (cases "tf_ExpiredBefore f")
    (auto simp: token_conds_def token_args_def filter_matches_def cutoff_ok_def sql_time_ptr_def encTime_order)

text \<open>What the proofs of the operations rewrite with.\<close>

lemmas statement_texts = columns_text statement_defs where_text_def ph_def tokenWhere_text userWhere_text
lemmas conds_typed = conds_ok_def cond_typed_def used_conds_def

text \<open>The conditional update that consumes a code.\<close>

lemma consume_text:
  "''UPDATE '' @ tab @ '' SET consumed_at = ? WHERE id = ? AND consumed_at IS NULL''
     = update_text '''' tab [''consumed_at''] [CEq ''id'', CNull ''consumed_at'']"
  by (simp add: update_text_def where_text_def ph_def)

section \<open>The operations\<close>

context sql_server
begin

lemma user_search:
  assumes u: "row_user x"
  shows "sat lk (cell userTable (SqlString (u_Id x) # userValues x)) (user_conds f) (user_args lib f)
     \<longleftrightarrow> user_matches (to_lower (sl_lower lib)) f x"
proof (cases "uf_Search f = ''''")
  case True
  then show ?thesis by (simp add: user_conds_def user_args_def user_matches_def to_lower_def is_ascii_def)
next
  case False
  let ?p = "to_lower (sl_lower lib) (uf_Search f)"
  have cells: "cell userTable (SqlString (u_Id x) # userValues x) ''normalized_username'' = SqlString (u_NormalizedUsername x)"
    "cell userTable (SqlString (u_Id x) # userValues x) ''normalized_email'' = SqlString (u_NormalizedEmail x)"
    by (simp_all add: cell_def userValues_def)
  have "lk (''%'' @ escapeLike ?p @ ''%'') (u_NormalizedUsername x) \<longleftrightarrow> contains_str (u_NormalizedUsername x) ?p"
    and "lk (''%'' @ escapeLike ?p @ ''%'') (u_NormalizedEmail x) \<longleftrightarrow> contains_str (u_NormalizedEmail x) ?p"
    using u by (simp_all only: row_user_def like [OF lower])
  moreover have "contains_str s ''''" for s unfolding contains_str_iff by blast
  ultimately show ?thesis using False by (auto simp: user_conds_def user_args_def user_matches_def cells Let_def)
qed

lemma user_conds_ok: "conds_ok userTable (user_conds f) (user_args lib f)"
  by (auto simp: user_conds_def user_args_def conds_typed Let_def)

lemma access_filter:
  "cutoff_ok f \<Longrightarrow> row_access lib x \<Longrightarrow>
   sat lk (cell accessTokenTable (SqlString (at_Id x) # accessTokenValues lib x)) (token_conds f) (token_args f) \<longleftrightarrow> at_matches f x"
  unfolding at_matches_def by (rule token_sat) (simp_all add: cell_def accessTokenValues_def row_access_def)

lemma refresh_filter:
  "cutoff_ok f \<Longrightarrow> row_refresh lib x \<Longrightarrow>
   sat lk (cell refreshTokenTable (SqlString (rt_Id x) # refreshTokenValues lib x)) (token_conds f) (token_args f) \<longleftrightarrow> rt_matches f x"
  unfolding rt_matches_def by (rule token_sat) (simp_all add: cell_def refreshTokenValues_def row_refresh_def)


lemma sql_ListClients:
  "obeys I (sql_view lib \<circ> data) (list_spec tb_clients (\<lambda>x. (c_CreatedAt x, c_Id x)) (\<lambda>_. True) opts)
     (sql_ListClients st opts)"
  using client_table.obeys_list [of "[]" "[]" "\<lambda>_. True" opts] by (simp add: sql_ListClients_def conds_typed statement_texts)

lemma sql_GetClientById:
  "obeys I (sql_view lib \<circ> data) (get_spec tb_clients k)
     (sql_GetClientById st k)"
  using client_table.obeys_get [of k] by (simp add: sql_GetClientById_def statement_texts)

lemma sql_GetClientByClientId:
  "obeys I (sql_view lib \<circ> data) (find_spec tb_clients (\<lambda>x. c_ClientId x = clientId))
     (sql_GetClientByClientId st clientId)"
  using client_table.obeys_find [of "[CEq ''client_id'']" "[SqlString clientId]" "\<lambda>x. c_ClientId x = clientId"]
  by (simp add: sql_GetClientByClientId_def conds_typed statement_texts cell_def clientValues_def)

lemma sql_CreateClient:
  "row_client lib x \<Longrightarrow> c_Id x \<noteq> '''' \<Longrightarrow> obeys I (sql_view lib \<circ> data) (create_spec tb_clients tb_clients_update c_Id client_clash x)
     (sql_CreateClient st x)"
  using client_table.obeys_insert [of x]
  by (simp add: sql_CreateClient_def columns_text insert_text_def placeholders_def placeholders_values clientValues_def Let_def)

lemma sql_UpdateClient:
  "row_client lib x \<Longrightarrow> obeys I (sql_view lib \<circ> data) (update_spec tb_clients tb_clients_update c_Id client_clash x)
     (sql_UpdateClient st x)"
  using client_table.obeys_change [of x] by (simp add: sql_UpdateClient_def update_text_def where_text_def ph_def Let_def)

lemma sql_DeleteClient:
  "obeys I (sql_view lib \<circ> data) (delete_spec tb_clients tb_clients_update k)
     (sql_DeleteClient st k)"
  using client_table.obeys_delete [of k] by (simp add: sql_DeleteClient_def)

lemma sql_ListUsers:
  "obeys I (sql_view lib \<circ> data) (list_spec tb_users (\<lambda>x. (u_CreatedAt x, u_Id x)) (user_matches (to_lower (sl_lower lib)) f) opts)
     (sql_ListUsers st f opts)"
  unfolding sql_ListUsers_def userWhere_text columns_text prod.case by (rule user_table.obeys_list [OF user_conds_ok user_search, unfolded userTable_simps])

lemma sql_GetUserById:
  "obeys I (sql_view lib \<circ> data) (get_spec tb_users k)
     (sql_GetUserById st k)"
  using user_table.obeys_get [of k] by (simp add: sql_GetUserById_def sql_getUser_def statement_texts)

lemma sql_GetUserByNormalizedUsername:
  "obeys I (sql_view lib \<circ> data) (find_spec tb_users (\<lambda>x. u_NormalizedUsername x = n))
     (sql_GetUserByNormalizedUsername st n)"
  using user_table.obeys_find [of "[CEq ''normalized_username'']" "[SqlString n]" "\<lambda>x. u_NormalizedUsername x = n"]
  by (simp add: sql_GetUserByNormalizedUsername_def sql_getUser_def conds_typed statement_texts cell_def userValues_def)

lemma sql_GetUserByNormalizedEmail:
  "obeys I (sql_view lib \<circ> data) (find_spec tb_users (\<lambda>x. u_NormalizedEmail x = n))
     (sql_GetUserByNormalizedEmail st n)"
  using user_table.obeys_find [of "[CEq ''normalized_email'']" "[SqlString n]" "\<lambda>x. u_NormalizedEmail x = n"]
  by (simp add: sql_GetUserByNormalizedEmail_def sql_getUser_def conds_typed statement_texts cell_def userValues_def)

lemma sql_CreateUser:
  "row_user x \<Longrightarrow> u_Id x \<noteq> '''' \<Longrightarrow> obeys I (sql_view lib \<circ> data) (create_spec tb_users tb_users_update u_Id user_clash x)
     (sql_CreateUser st x)"
  using user_table.obeys_insert [of x]
  by (simp add: sql_CreateUser_def columns_text insert_text_def placeholders_def placeholders_values userValues_def Let_def)

lemma sql_UpdateUser:
  "row_user x \<Longrightarrow> obeys I (sql_view lib \<circ> data) (update_spec tb_users tb_users_update u_Id user_clash x)
     (sql_UpdateUser st x)"
  using user_table.obeys_change [of x] by (simp add: sql_UpdateUser_def update_text_def where_text_def ph_def Let_def)

lemma sql_DeleteUser:
  "obeys I (sql_view lib \<circ> data) (delete_spec tb_users tb_users_update k)
     (sql_DeleteUser st k)"
  using user_table.obeys_delete [of k] by (simp add: sql_DeleteUser_def)

lemma sql_ListAccessTokens:
  "cutoff_ok f \<Longrightarrow> obeys I (sql_view lib \<circ> data) (list_spec tb_accessTokens (\<lambda>x. (at_CreatedAt x, at_Id x)) (at_matches f) opts)
     (sql_ListAccessTokens st f opts)"
  unfolding sql_ListAccessTokens_def tokenWhere_text columns_text prod.case
  by (rule access_table.obeys_list [unfolded accessTokenTable_simps]) (auto intro: token_conds_ok simp: access_filter)

lemma sql_GetAccessTokenById:
  "obeys I (sql_view lib \<circ> data) (get_spec tb_accessTokens k)
     (sql_GetAccessTokenById st k)"
  using access_table.obeys_get [of k] by (simp add: sql_GetAccessTokenById_def statement_texts)

lemma sql_GetAccessTokenByHash:
  "obeys I (sql_view lib \<circ> data) (find_spec tb_accessTokens (\<lambda>x. at_TokenHash x = h))
     (sql_GetAccessTokenByHash st h)"
  using access_table.obeys_find [of "[CEq ''token_hash'']" "[SqlString h]" "\<lambda>x. at_TokenHash x = h"]
  by (simp add: sql_GetAccessTokenByHash_def conds_typed statement_texts cell_def accessTokenValues_def)

lemma sql_CreateAccessToken:
  "row_access lib x \<Longrightarrow> at_Id x \<noteq> '''' \<Longrightarrow> obeys I (sql_view lib \<circ> data) (create_spec tb_accessTokens tb_accessTokens_update at_Id access_token_clash x)
     (sql_CreateAccessToken st x)"
  using access_table.obeys_insert [of x]
  by (simp add: sql_CreateAccessToken_def columns_text insert_text_def placeholders_def placeholders_values accessTokenValues_def Let_def)

lemma sql_DeleteAccessToken:
  "obeys I (sql_view lib \<circ> data) (delete_spec tb_accessTokens tb_accessTokens_update k)
     (sql_DeleteAccessToken st k)"
  using access_table.obeys_delete [of k] by (simp add: sql_DeleteAccessToken_def)

lemma sql_DeleteAccessTokens:
  "cutoff_ok f \<Longrightarrow> obeys I (sql_view lib \<circ> data) (delete_where_spec tb_accessTokens tb_accessTokens_update (at_matches f))
     (sql_DeleteAccessTokens st f)"
  unfolding sql_DeleteAccessTokens_def tokenWhere_text prod.case delete_text_def [of "''''", symmetric]
  by (rule access_table.obeys_count [unfolded accessTokenTable_simps]) (auto intro: token_conds_ok simp: access_filter)

lemma sql_ListRefreshTokens:
  "cutoff_ok f \<Longrightarrow> obeys I (sql_view lib \<circ> data) (list_spec tb_refreshTokens (\<lambda>x. (rt_CreatedAt x, rt_Id x)) (rt_matches f) opts)
     (sql_ListRefreshTokens st f opts)"
  unfolding sql_ListRefreshTokens_def tokenWhere_text columns_text prod.case
  by (rule refresh_table.obeys_list [unfolded refreshTokenTable_simps]) (auto intro: token_conds_ok simp: refresh_filter)

lemma sql_GetRefreshTokenById:
  "obeys I (sql_view lib \<circ> data) (get_spec tb_refreshTokens k)
     (sql_GetRefreshTokenById st k)"
  using refresh_table.obeys_get [of k] by (simp add: sql_GetRefreshTokenById_def statement_texts)

lemma sql_GetRefreshTokenByHash:
  "obeys I (sql_view lib \<circ> data) (find_spec tb_refreshTokens (\<lambda>x. rt_TokenHash x = h))
     (sql_GetRefreshTokenByHash st h)"
  using refresh_table.obeys_find [of "[CEq ''token_hash'']" "[SqlString h]" "\<lambda>x. rt_TokenHash x = h"]
  by (simp add: sql_GetRefreshTokenByHash_def conds_typed statement_texts cell_def refreshTokenValues_def)

lemma sql_CreateRefreshToken:
  "row_refresh lib x \<Longrightarrow> rt_Id x \<noteq> '''' \<Longrightarrow> obeys I (sql_view lib \<circ> data) (create_spec tb_refreshTokens tb_refreshTokens_update rt_Id refresh_token_clash x)
     (sql_CreateRefreshToken st x)"
  using refresh_table.obeys_insert [of x]
  by (simp add: sql_CreateRefreshToken_def columns_text insert_text_def placeholders_def placeholders_values refreshTokenValues_def Let_def)

lemma sql_UpdateRefreshToken:
  "row_refresh lib x \<Longrightarrow> obeys I (sql_view lib \<circ> data) (update_spec tb_refreshTokens tb_refreshTokens_update rt_Id refresh_token_clash x)
     (sql_UpdateRefreshToken st x)"
  using refresh_table.obeys_change [of x] by (simp add: sql_UpdateRefreshToken_def update_text_def where_text_def ph_def Let_def)

lemma sql_DeleteRefreshToken:
  "obeys I (sql_view lib \<circ> data) (delete_spec tb_refreshTokens tb_refreshTokens_update k)
     (sql_DeleteRefreshToken st k)"
  using refresh_table.obeys_delete [of k] by (simp add: sql_DeleteRefreshToken_def)

lemma sql_DeleteRefreshTokens:
  "cutoff_ok f \<Longrightarrow> obeys I (sql_view lib \<circ> data) (delete_where_spec tb_refreshTokens tb_refreshTokens_update (rt_matches f))
     (sql_DeleteRefreshTokens st f)"
  unfolding sql_DeleteRefreshTokens_def tokenWhere_text prod.case delete_text_def [of "''''", symmetric]
  by (rule refresh_table.obeys_count [unfolded refreshTokenTable_simps]) (auto intro: token_conds_ok simp: refresh_filter)

lemma sql_GetAuthorizationCodeByHash:
  "obeys I (sql_view lib \<circ> data) (find_spec tb_authorizationCodes (\<lambda>x. ac_CodeHash x = h))
     (sql_GetAuthorizationCodeByHash st h)"
  using code_table.obeys_find [of "[CEq ''code_hash'']" "[SqlString h]" "\<lambda>x. ac_CodeHash x = h"]
  by (simp add: sql_GetAuthorizationCodeByHash_def conds_typed statement_texts cell_def authorizationCodeValues_def)

lemma sql_CreateAuthorizationCode:
  "row_code lib x \<Longrightarrow> ac_Id x \<noteq> '''' \<Longrightarrow> obeys I (sql_view lib \<circ> data) (create_spec tb_authorizationCodes tb_authorizationCodes_update ac_Id code_clash x)
     (sql_CreateAuthorizationCode st x)"
  using code_table.obeys_insert [of x]
  by (simp add: sql_CreateAuthorizationCode_def columns_text insert_text_def placeholders_def placeholders_values authorizationCodeValues_def Let_def)

lemma sql_DeleteAuthorizationCode:
  "obeys I (sql_view lib \<circ> data) (delete_spec tb_authorizationCodes tb_authorizationCodes_update k)
     (sql_DeleteAuthorizationCode st k)"
  using code_table.obeys_delete [of k] by (simp add: sql_DeleteAuthorizationCode_def)

lemma sql_DeleteExpiredAuthorizationCodes:
  "sql_time before \<Longrightarrow> obeys I (sql_view lib \<circ> data) (delete_where_spec tb_authorizationCodes tb_authorizationCodes_update (\<lambda>x. ac_ExpiresAt x \<le> before))
     (sql_DeleteExpiredAuthorizationCodes st before)"
  using code_table.obeys_count [of "[CLe ''expires_at'']" "[SqlInt (encTime before)]" "\<lambda>x. ac_ExpiresAt x \<le> before"]
  by (simp add: sql_DeleteExpiredAuthorizationCodes_def conds_typed statement_texts cell_def authorizationCodeValues_def row_code_def encTime_order)

lemma sql_GetUserTokenByHash:
  "obeys I (sql_view lib \<circ> data) (find_spec tb_userTokens (\<lambda>x. ut_Purpose x = purpose \<and> ut_TokenHash x = h))
     (sql_GetUserTokenByHash st purpose h)"
  using token_table.obeys_find [of "[CEq ''token_hash'', CEq ''purpose'']" "[SqlString h, SqlString purpose]" "\<lambda>x. ut_Purpose x = purpose \<and> ut_TokenHash x = h"]
  by (simp add: sql_GetUserTokenByHash_def conds_typed statement_texts cell_def userTokenValues_def conj_commute)

lemma sql_CreateUserToken:
  "row_token x \<Longrightarrow> ut_Id x \<noteq> '''' \<Longrightarrow> obeys I (sql_view lib \<circ> data) (create_spec tb_userTokens tb_userTokens_update ut_Id user_token_clash x)
     (sql_CreateUserToken st x)"
  using token_table.obeys_insert [of x]
  by (simp add: sql_CreateUserToken_def columns_text insert_text_def placeholders_def placeholders_values userTokenValues_def Let_def)

lemma sql_DeleteUserToken:
  "obeys I (sql_view lib \<circ> data) (delete_spec tb_userTokens tb_userTokens_update k)
     (sql_DeleteUserToken st k)"
  using token_table.obeys_delete [of k] by (simp add: sql_DeleteUserToken_def)

lemma sql_DeleteUserTokens:
  "obeys I (sql_view lib \<circ> data) (delete_where_spec tb_userTokens tb_userTokens_update (\<lambda>x. ut_UserId x = userId \<and> ut_Purpose x = purpose))
     (sql_DeleteUserTokens st userId purpose)"
  using token_table.obeys_count [of "[CEq ''user_id'', CEq ''purpose'']" "[SqlString userId, SqlString purpose]" "\<lambda>x. ut_UserId x = userId \<and> ut_Purpose x = purpose"]
  by (simp add: sql_DeleteUserTokens_def conds_typed statement_texts cell_def userTokenValues_def)

lemma sql_DeleteExpiredUserTokens:
  "sql_time before \<Longrightarrow> obeys I (sql_view lib \<circ> data) (delete_where_spec tb_userTokens tb_userTokens_update (\<lambda>x. ut_ExpiresAt x \<le> before))
     (sql_DeleteExpiredUserTokens st before)"
  using token_table.obeys_count [of "[CLe ''expires_at'']" "[SqlInt (encTime before)]" "\<lambda>x. ut_ExpiresAt x \<le> before"]
  by (simp add: sql_DeleteExpiredUserTokens_def conds_typed statement_texts cell_def userTokenValues_def row_token_def encTime_order)

lemma consume_bound:
  "rebind (sq_dialect st) (update_text '''' code_table.tab [''consumed_at''] [CEq ''id'', CNull ''consumed_at''])
     = update_text (sq_dialect st) code_table.tab [''consumed_at''] [CEq ''id'', CNull ''consumed_at'']"
  by (rule bound_update [OF code_table.plain_tab]) (simp_all add: plain_text_def plain_conds_def cond_columns_def)

lemma consume_run:
  assumes i: "I d" and t: "sql_time t"
    and q: "sql_exec st (update_text '''' code_table.tab [''consumed_at''] [CEq ''id'', CNull ''consumed_at''])
      [SqlInt (encTime t), SqlString k] d = (q, d')"
  shows "I d' \<and> (case q of Inl e \<Rightarrow> sql_view lib (data d') = sql_view lib (data d) | Inr (Inl e) \<Rightarrow> False
     | Inr (Inr n) \<Rightarrow> (case tb_authorizationCodes (sql_view lib (data d)) k of
         None \<Rightarrow> n = 0 \<and> sql_view lib (data d') = sql_view lib (data d)
       | Some c \<Rightarrow> if ac_ConsumedAt c = None
           then n = 1 \<and> sql_view lib (data d')
             = tb_authorizationCodes_update (\<lambda>m. m(k \<mapsto> c\<lparr>ac_ConsumedAt := Some t\<rparr>)) (sql_view lib (data d))
           else n = 0 \<and> sql_view lib (data d') = sql_view lib (data d)))"
proof -
  note u = consumed [OF i authorizationCodeTable_simps(1,2) encTime_range [OF t] q [unfolded sql_exec_def consume_bound]]
  show ?thesis
  proof (cases "tb_authorizationCodes (sql_view lib (data d)) k")
    case None
    then have "data d (ts_name authorizationCodeTable) k = None" by (simp add: sql_view_def)
    with u None show ?thesis by (auto split: sum.splits)
  next
    case (Some c)
    let ?c = "c\<lparr>ac_ConsumedAt := Some t\<rparr>"
    have c: "row_code lib c" using code_table.data_row(2) [OF i Some] by simp
    have old: "data d (ts_name authorizationCodeTable) k = Some (code_table.row c)"
      using code_table.data_row(1) [OF i] Some by blast
    have last: "List.last (code_table.row c) = SqlNull \<longleftrightarrow> ac_ConsumedAt c = None"
      by (simp add: authorizationCodeValues_def encTimePtr_def split: option.split)
    have new: "butlast (code_table.row c) @ [SqlInt (encTime t)] = code_table.row ?c"
      by (simp add: authorizationCodeValues_def encTimePtr_def)
    have "row_code lib ?c" using c t by (simp add: row_code_def sql_time_ptr_def)
    note put = code_table.view_put [OF this, of "data d" k]
    show ?thesis using u Some put unfolding old option.case last new by (auto split: sum.splits)
  qed
qed

lemma sql_ConsumeAuthorizationCode:
  assumes t: "sql_time t"
  shows "obeys I (sql_view lib \<circ> data) (consume_spec k t) (sql_ConsumeAuthorizationCode st k t)"
  unfolding obeys_def
proof (intro allI impI)
  fix d r d'
  assume i: "I d" and r: "sql_ConsumeAuthorizationCode st k t d = (r, d')"
  let ?q = "update_text '''' code_table.tab [''consumed_at''] [CEq ''id'', CNull ''consumed_at'']"
  obtain q d1 where q: "sql_exec st ?q [SqlInt (encTime t), SqlString k] d = (q, d1)" by fastforce
  note u = consume_run [OF i t q]
  note run = r [unfolded sql_ConsumeAuthorizationCode_def Let_def consume_text,
      folded authorizationCodeTable_simps(2)]
  show "I d' \<and> (consume_spec k t ((sql_view lib \<circ> data) d) r ((sql_view lib \<circ> data) d') \<or>
      (\<exists>msg. r = Inl (StoreFailure msg)) \<and> (sql_view lib \<circ> data) d' = (sql_view lib \<circ> data) d)"
  proof (cases "\<exists>n. q = Inr (Inr n)")
    case False
    with u run q show ?thesis
      by (auto simp: execCount_def andThen_def mapErr_def handle_def fail_def ret_def affected_def split: sum.splits)
  next
    case True
    then obtain n where n: "q = Inr (Inr n)" by blast
    have run: "(if 0 < n then ret () else andThen (sql_exists st code_table.tab k)
        (\<lambda>found. if \<not> found then fail ErrNotFound else fail ErrConflict)) d1 = (r, d')"
      using run q n by (simp add: execCount_def andThen_def mapErr_def handle_def ret_def affected_def)
    show ?thesis
    proof (cases "0 < n")
      case True
      with run u n show ?thesis by (auto simp: ret_def consume_spec_def split: option.splits if_splits)
    next
      case False
      with u n have i1: "I d1" and same: "sql_view lib (data d1) = sql_view lib (data d)"
        and no: "\<And>c. tb_authorizationCodes (sql_view lib (data d)) k = Some c \<Longrightarrow> ac_ConsumedAt c \<noteq> None"
        by (auto split: option.splits if_splits)
      obtain b where b: "sql_exists st code_table.tab k d1 = (b, d')"
        and r: "r = (case b of Inl e \<Rightarrow> Inl e | Inr found \<Rightarrow> if \<not> found then Inl ErrNotFound else Inl ErrConflict)"
        using run False by (auto simp: andThen_def fail_def split: prod.splits sum.splits if_splits)
      show ?thesis using code_table.exists_run [OF i1 b] no unfolding r
        by (auto simp: consume_spec_def same split: sum.splits option.splits)
    qed
  qed
qed

lemma sql_view_ok: "I d \<Longrightarrow> tables_ok (sql_view lib (data d))"
  unfolding tables_ok_def
  by (intro conjI client_table.table_keyed client_table.table_unique user_table.table_keyed user_table.table_unique
      access_table.table_keyed access_table.table_unique refresh_table.table_keyed refresh_table.table_unique
      code_table.table_keyed code_table.table_unique token_table.table_keyed token_table.table_unique)
    (simp_all add: clash_defs)


lemmas sql_contract = sql_ListClients sql_GetClientById sql_GetClientByClientId sql_CreateClient
  sql_UpdateClient sql_DeleteClient sql_ListUsers sql_GetUserById
  sql_GetUserByNormalizedUsername sql_GetUserByNormalizedEmail sql_CreateUser sql_UpdateUser
  sql_DeleteUser sql_ListAccessTokens sql_GetAccessTokenById sql_GetAccessTokenByHash
  sql_CreateAccessToken sql_DeleteAccessToken sql_DeleteAccessTokens sql_ListRefreshTokens
  sql_GetRefreshTokenById sql_GetRefreshTokenByHash sql_CreateRefreshToken sql_UpdateRefreshToken
  sql_DeleteRefreshToken sql_DeleteRefreshTokens sql_GetAuthorizationCodeByHash sql_CreateAuthorizationCode
  sql_ConsumeAuthorizationCode sql_DeleteAuthorizationCode sql_DeleteExpiredAuthorizationCodes sql_GetUserTokenByHash
  sql_CreateUserToken sql_DeleteUserToken sql_DeleteUserTokens sql_DeleteExpiredUserTokens

end

end
