(* ===== verification/SqlReference.thy ===== *)
theory SqlReference
  imports SqlProofs "HOL-Library.AList"
begin

text \<open>
  A database that keeps its rows in lists and knows the statements of the store in the dialect of SQLite. It fulfils the
  laws of \<open>sql_database\<close>, so they can be met, and the store runs on it.
\<close>

section \<open>LIKE\<close>

text \<open>Patterns with the escape character of the store; letters match in either case, as in SQLite.\<close>

fun like_match :: "string \<Rightarrow> string \<Rightarrow> bool" where
  "like_match [] s \<longleftrightarrow> s = []"
| "like_match (p # ps) [] \<longleftrightarrow> p = CHR ''%'' \<and> like_match ps []"
| "like_match (p # ps) (c # cs) \<longleftrightarrow>
     (if p = CHR ''%'' then like_match ps (c # cs) \<or> like_match (p # ps) cs
      else if p = CHR ''_'' then like_match ps cs
      else if p = likeEscape
        then (case ps of [] \<Rightarrow> False | q # qs \<Rightarrow> ascii_lower q = ascii_lower c \<and> like_match qs cs)
      else ascii_lower p = ascii_lower c \<and> like_match ps cs)"

lemma ascii_lower_twice: "ascii_lower (ascii_lower c) = ascii_lower c"
  by (cases c) (simp add: ascii_lower_def)

lemma like_percent: "like_match ''%'' s"
  by (induction s) auto

lemma like_escaped:
  assumes "map ascii_lower p = p" and "map ascii_lower s = s"
  shows "like_match (escapeLike p @ ''%'') s \<longleftrightarrow> (\<exists>t. s = p @ t)"
  using assms
proof (induction p arbitrary: s)
  case Nil
  then show ?case by (simp add: escapeLike_def like_percent)
next
  case (Cons c p)
  have e: "escapeLike (c # p) = (if c = likeEscape \<or> c = CHR ''%'' \<or> c = CHR ''_'' then [likeEscape, c] else [c]) @ escapeLike p"
    by (simp add: escapeLike_def)
  show ?case
  proof (cases s)
    case Nil
    then show ?thesis by (simp add: e likeEscape_def)
  next
    case (Cons x s')
    with Cons.IH [of s'] Cons.prems show ?thesis by (auto simp: e likeEscape_def)
  qed
qed

lemma like_contains:
  assumes "map ascii_lower p = p" and "map ascii_lower s = s"
  shows "like_match (''%'' @ escapeLike p @ ''%'') s \<longleftrightarrow> contains_str s p"
proof -
  have "like_match (CHR ''%'' # ps) s \<longleftrightarrow> (\<exists>a b. s = a @ b \<and> like_match ps b)" for ps
  proof (induction s)
    case Nil
    then show ?case by simp
  next
    case (Cons c s)
    have "(\<exists>a b. c # s = a @ b \<and> like_match ps b) \<longleftrightarrow> like_match ps (c # s) \<or> (\<exists>a b. s = a @ b \<and> like_match ps b)"
      by (auto simp: Cons_eq_append_conv)
    with Cons show ?case by simp
  qed
  moreover have "map ascii_lower b = b" if "s = a @ b" for a b
    using assms(2) that by (simp add: map_eq_append_conv)
  ultimately show ?thesis using like_escaped [OF assms(1)] unfolding contains_str_iff by simp blast
qed

section \<open>The statements\<close>

datatype stmt = SelectRows tableSpec "sql_cond list" | SelectOne tableSpec | CountRows tableSpec "sql_cond list"
  | SelectPage tableSpec "sql_cond list" | DeleteRows tableSpec "sql_cond list" | InsertRow tableSpec | UpdateRow tableSpec
  | ConsumeRow tableSpec

definition ref_tab :: "tableSpec \<Rightarrow> string" where
  "ref_tab spec = ''identity_'' @ ts_name spec"

fun stmt_text :: "stmt \<Rightarrow> string" where
  "stmt_text (SelectRows spec cs) = select_text DialectSQLite (ref_tab spec) spec cs"
| "stmt_text (SelectOne spec) = one_text DialectSQLite (ref_tab spec)"
| "stmt_text (CountRows spec cs) = count_text DialectSQLite (ref_tab spec) cs"
| "stmt_text (SelectPage spec cs) = page_text DialectSQLite (ref_tab spec) spec cs"
| "stmt_text (DeleteRows spec cs) = delete_text DialectSQLite (ref_tab spec) cs"
| "stmt_text (InsertRow spec) = insert_text DialectSQLite (ref_tab spec) spec"
| "stmt_text (UpdateRow spec) = update_text DialectSQLite (ref_tab spec) (tl (map fst (ts_columns spec))) [CEq ''id'']"
| "stmt_text (ConsumeRow spec) = update_text DialectSQLite (ref_tab spec) [''consumed_at''] [CEq ''id'', CNull ''consumed_at'']"

definition statements :: "stmt list" where
  "statements = concat (map (\<lambda>spec. [SelectOne spec, InsertRow spec, UpdateRow spec, ConsumeRow spec] @
     concat (map (\<lambda>cs. [SelectRows spec cs, CountRows spec cs, SelectPage spec cs, DeleteRows spec cs])
       (used_conds (ts_name spec)))) schema)"

text \<open>Different statements have different texts.\<close>

lemma schema_set:
  "set schema = {clientTable, userTable, accessTokenTable, refreshTokenTable, authorizationCodeTable, userTokenTable}"
  by (simp add: clientTable_def userTable_def accessTokenTable_def refreshTokenTable_def authorizationCodeTable_def
      userTokenTable_def) (simp add: schema_def)

lemma where_distinct: "spec \<in> set schema \<Longrightarrow> distinct (map (where_text DialectSQLite 1) (used_conds (ts_name spec)))"
  unfolding schema_set
  by (elim insertE emptyE; hypsubst; simp only: clientTable_simps userTable_simps accessTokenTable_simps refreshTokenTable_simps
      authorizationCodeTable_simps userTokenTable_simps; code_simp)

lemma where_inj:
  "spec \<in> set schema \<Longrightarrow> cs \<in> set (used_conds (ts_name spec)) \<Longrightarrow> cs' \<in> set (used_conds (ts_name spec)) \<Longrightarrow>
   where_text DialectSQLite 1 cs = where_text DialectSQLite 1 cs' \<longleftrightarrow> cs = cs'"
  using where_distinct [of spec] by (auto simp: distinct_map inj_on_def)

lemma where_no_order:
  "spec \<in> set schema \<Longrightarrow> list_all (\<lambda>cs. CHR ''Y'' \<notin> set (where_text DialectSQLite 1 cs)) (used_conds (ts_name spec))"
  unfolding schema_set
  by (elim insertE emptyE; hypsubst; simp only: clientTable_simps userTable_simps accessTokenTable_simps refreshTokenTable_simps
      authorizationCodeTable_simps userTokenTable_simps; code_simp)
text \<open>The name of a table ends at a space or at the end of the text.\<close>

lemma schema_no_space: "spec \<in> set schema \<Longrightarrow> CHR '' '' \<notin> set (ts_name spec)"
  unfolding schema_set by auto

lemma schema_names: "spec \<in> set schema \<Longrightarrow> spec' \<in> set schema \<Longrightarrow> ts_name spec = ts_name spec' \<Longrightarrow> spec = spec'"
  unfolding schema_set by (elim insertE emptyE; simp)

lemma name_end:
  assumes "spec \<in> set schema" and "spec' \<in> set schema"
    and "ts_name spec @ r = ts_name spec' @ r'" and "r = '''' \<or> hd r = CHR '' ''" and "r' = '''' \<or> hd r' = CHR '' ''"
  shows "spec = spec' \<and> r = r'"
proof -
  have tw: "takeWhile (\<lambda>c. c \<noteq> CHR '' '') (ts_name s @ q) = ts_name s" if "s \<in> set schema" "q = '''' \<or> hd q = CHR '' ''" for s q
    using that schema_no_space [of s] by (cases q) (auto simp: takeWhile_append)
  have "ts_name spec = ts_name spec'" using tw [OF assms(1,4)] tw [OF assms(2,5)] assms(3) by simp
  with schema_names [OF assms(1,2)] assms(3) show ?thesis by simp
qed

lemma where_start: "where_text dl i cs = '''' \<or> hd (where_text dl i cs) = CHR '' ''"
  by (simp add: where_text_def)

lemma column_texts:
  "column_text clientTable =
     ''id, client_id, name, description, client_type, secret_hash, redirect_uris, allowed_scopes,'' @
     '' default_scopes, allowed_grant_types, require_consent, require_pkce, enabled, access_token'' @
     ''_lifetime, authorization_code_lifetime, refresh_token_usage, refresh_token_expiration, ref'' @
     ''resh_token_lifetime, created_at, updated_at''"
  "column_text userTable =
     ''id, username, normalized_username, email, normalized_email, password_hash, email_verified,'' @
     '' enabled, security_stamp, failed_login_count, lockout_end, last_login_at, created_at, upda'' @
     ''ted_at''"
  "column_text accessTokenTable =
     ''id, token_hash, client_id, user_id, scopes, authorization_code_id, created_at, expires_at''"
  "column_text refreshTokenTable =
     ''id, token_hash, client_id, user_id, access_token_id, authorization_code_id, scopes, token_'' @
     ''expiration, token_usage, lifetime, created_at, updated_at, expires_at''"
  "column_text authorizationCodeTable =
     ''id, code_hash, client_id, user_id, scopes, redirect_uri, code_challenge, code_challenge_me'' @
     ''thod, created_at, expires_at, consumed_at''"
  "column_text userTokenTable =
     ''id, user_id, purpose, token_hash, created_at, expires_at''"
  by (simp_all add: column_text_def)

lemma columns_differ:
  assumes "spec \<in> set schema" and "spec' \<in> set schema"
    and "column_text spec @ '' FROM '' @ r = column_text spec' @ '' FROM '' @ r'"
  shows "spec = spec' \<and> r = r'"
  using assms unfolding schema_set by (elim insertE emptyE; simp add: column_texts)

lemma columns_start:
  assumes "spec \<in> set schema" obtains r where "column_text spec = ''id, '' @ r"
  using assms that unfolding schema_set by (elim insertE emptyE; simp add: column_texts)

lemma first_set:
  assumes "spec \<in> set schema"
  shows "sets_text DialectSQLite 1 (tl (map fst (ts_columns spec))) @ r \<noteq> ''consumed_at = ?'' @ r'"
  using assms unfolding schema_set by (elim insertE emptyE; simp add: ph_def)

lemma statement_members:
  assumes "s \<in> set statements"
  shows "case s of
      SelectRows spec cs \<Rightarrow> spec \<in> set schema \<and> cs \<in> set (used_conds (ts_name spec))
    | CountRows spec cs \<Rightarrow> spec \<in> set schema \<and> cs \<in> set (used_conds (ts_name spec))
    | SelectPage spec cs \<Rightarrow> spec \<in> set schema \<and> cs \<in> set (used_conds (ts_name spec))
    | DeleteRows spec cs \<Rightarrow> spec \<in> set schema \<and> cs \<in> set (used_conds (ts_name spec))
    | SelectOne spec \<Rightarrow> spec \<in> set schema | InsertRow spec \<Rightarrow> spec \<in> set schema
    | UpdateRow spec \<Rightarrow> spec \<in> set schema | ConsumeRow spec \<Rightarrow> spec \<in> set schema"
  using assms unfolding statements_def by auto

text \<open>The first characters tell the kind of a statement.\<close>

fun stmt_kind :: "stmt \<Rightarrow> string" where
  "stmt_kind (SelectRows spec cs) = ''SELECT id''"
| "stmt_kind (SelectPage spec cs) = ''SELECT id''"
| "stmt_kind (SelectOne spec) = ''SELECT 1 ''"
| "stmt_kind (CountRows spec cs) = ''SELECT CO''"
| "stmt_kind (DeleteRows spec cs) = ''DELETE FR''"
| "stmt_kind (InsertRow spec) = ''INSERT IN''"
| "stmt_kind (UpdateRow spec) = ''UPDATE id''"
| "stmt_kind (ConsumeRow spec) = ''UPDATE id''"

lemma text_kind: "s \<in> set statements \<Longrightarrow> take 9 (stmt_text s) = stmt_kind s"
  using statement_members [of s]
  by (cases s) (auto simp: statement_defs ref_tab_def Let_def elim!: columns_start)

lemma page_text_eq:
  "page_text DialectSQLite (ref_tab spec) spec cs
     = select_text DialectSQLite (ref_tab spec) spec cs @ '' ORDER BY created_at, id LIMIT ? OFFSET ?''"
  by (simp add: page_text_def select_text_def ph_def Let_def)

lemma select_text_inj:
  assumes "spec \<in> set schema" and "spec' \<in> set schema"
    and "select_text DialectSQLite (ref_tab spec) spec cs @ r = select_text DialectSQLite (ref_tab spec') spec' cs' @ r'"
  shows "spec = spec' \<and> where_text DialectSQLite 1 cs @ r = where_text DialectSQLite 1 cs' @ r'"
  using columns_differ [OF assms(1,2), of "ref_tab spec @ where_text DialectSQLite 1 cs @ r" "ref_tab spec' @ where_text DialectSQLite 1 cs' @ r'"]
    assms(3) by (auto simp: select_text_def)

text \<open>The other statements begin with the name of their table.\<close>

lemma name_texts:
  "one_text DialectSQLite (ref_tab spec) = ''SELECT 1 FROM identity_'' @ ts_name spec @ '' WHERE id = ?''"
  "count_text DialectSQLite (ref_tab spec) cs = ''SELECT COUNT(*) FROM identity_'' @ ts_name spec @ where_text DialectSQLite 1 cs"
  "delete_text DialectSQLite (ref_tab spec) cs = ''DELETE FROM identity_'' @ ts_name spec @ where_text DialectSQLite 1 cs"
  "insert_text DialectSQLite (ref_tab spec) spec = ''INSERT INTO identity_'' @ ts_name spec @ '' ('' @ column_text spec @ '') VALUES ('' @
     values_text DialectSQLite 1 (length (ts_columns spec)) @ '')''"
  "update_text DialectSQLite (ref_tab spec) sets cs = ''UPDATE identity_'' @ ts_name spec @ '' SET '' @
     sets_text DialectSQLite 1 sets @ where_text DialectSQLite (Suc (length sets)) cs"
  by (simp_all add: one_text_def count_text_def delete_text_def insert_text_def update_text_def ref_tab_def ph_def)

lemma named_text:
  assumes "spec \<in> set schema" and "spec' \<in> set schema" and "p @ ts_name spec @ r = p @ ts_name spec' @ r'"
    and "r = '''' \<or> hd r = CHR '' ''" and "r' = '''' \<or> hd r' = CHR '' ''"
  shows "spec = spec' \<and> r = r'"
  using name_end [OF assms(1,2) _ assms(4,5)] assms(3) by simp

lemma updates_differ:
  assumes "spec \<in> set schema" and "spec' \<in> set schema"
  shows "stmt_text (UpdateRow spec) \<noteq> stmt_text (ConsumeRow spec')"
proof
  let ?sets = "tl (map fst (ts_columns spec))"
  assume "stmt_text (UpdateRow spec) = stmt_text (ConsumeRow spec')"
  then have "'' SET '' @ sets_text DialectSQLite 1 ?sets @ where_text DialectSQLite (Suc (length ?sets)) [CEq ''id'']
      = '' SET '' @ sets_text DialectSQLite 1 [''consumed_at''] @
        where_text DialectSQLite (Suc (length [''consumed_at''])) [CEq ''id'', CNull ''consumed_at'']"
    unfolding stmt_text.simps name_texts by (rule named_text [OF assms, THEN conjunct2]) simp_all
  then have "sets_text DialectSQLite 1 ?sets @ where_text DialectSQLite (Suc (length ?sets)) [CEq ''id'']
      = sets_text DialectSQLite 1 [''consumed_at''] @
        where_text DialectSQLite (Suc (length [''consumed_at''])) [CEq ''id'', CNull ''consumed_at'']"
    by (simp only: same_append_eq)
  moreover have "sets_text DialectSQLite 1 [''consumed_at''] = ''consumed_at = ?''" by (simp add: ph_def)
  ultimately show False using first_set [OF assms(1)] by metis
qed

lemma where_no_page:
  assumes "spec \<in> set schema" and "cs \<in> set (used_conds (ts_name spec))"
  shows "where_text DialectSQLite 1 cs \<noteq> where_text DialectSQLite 1 cs' @ '' ORDER BY created_at, id LIMIT ? OFFSET ?''"
proof
  assume eq: "where_text DialectSQLite 1 cs = where_text DialectSQLite 1 cs' @ '' ORDER BY created_at, id LIMIT ? OFFSET ?''"
  have "CHR ''Y'' \<in> set (where_text DialectSQLite 1 cs)" unfolding eq by simp
  with where_no_order [OF assms(1)] assms(2) show False by (simp add: list_all_iff)
qed

lemma selects_differ:
  assumes "spec \<in> set schema" and "cs \<in> set (used_conds (ts_name spec))" and "spec' \<in> set schema"
  shows "stmt_text (SelectRows spec cs) \<noteq> stmt_text (SelectPage spec' cs')"
proof
  assume "stmt_text (SelectRows spec cs) = stmt_text (SelectPage spec' cs')"
  then show False
    using select_text_inj [OF assms(1,3), of cs "''''" cs'] where_no_page [OF assms(1,2)]
    unfolding stmt_text.simps page_text_eq append_Nil2 by blast
qed

lemma stmt_text_inj:
  assumes s: "s \<in> set statements" and t: "t \<in> set statements" and e: "stmt_text s = stmt_text t"
  shows "s = t"
proof -
  have k: "stmt_kind s = stmt_kind t" using text_kind [OF s] text_kind [OF t] e by simp
  note m = statement_members [OF s] statement_members [OF t]
  show ?thesis
  proof (cases s)
    case s: (SelectRows spec cs)
    with k consider spec' cs' where "t = SelectRows spec' cs'" | spec' cs' where "t = SelectPage spec' cs'" by (cases t) auto
    then show ?thesis
    proof cases
      case t: 1
      from e have "select_text DialectSQLite (ref_tab spec) spec cs @ '''' = select_text DialectSQLite (ref_tab spec') spec' cs' @ ''''"
        unfolding s t stmt_text.simps append_Nil2 .
      with m select_text_inj [OF _ _ this] where_inj show ?thesis
        unfolding s t by (auto simp only: stmt.case append_Nil2)
    next
      case t: 2
      show ?thesis using selects_differ [of spec cs spec' cs'] m e unfolding s t stmt.case by blast
    qed
  next
    case s: (SelectPage spec cs)
    with k consider spec' cs' where "t = SelectPage spec' cs'" | spec' cs' where "t = SelectRows spec' cs'" by (cases t) auto
    then show ?thesis
    proof cases
      case t: 1
      show ?thesis using m select_text_inj [OF _ _ e [unfolded s t stmt_text.simps page_text_eq]] where_inj
        unfolding s t by (auto simp only: stmt.case same_append_eq append_same_eq)
    next
      case t: 2
      show ?thesis using selects_differ [of spec' cs' spec cs] m e [symmetric] unfolding s t stmt.case by blast
    qed
  next
    case s: (SelectOne spec)
    with k obtain spec' where t: "t = SelectOne spec'" by (cases t) auto
    show ?thesis using m named_text [OF _ _ e [unfolded s t stmt_text.simps name_texts]] unfolding s t by simp
  next
    case s: (CountRows spec cs)
    with k obtain spec' cs' where t: "t = CountRows spec' cs'" by (cases t) auto
    show ?thesis
      using m named_text [OF _ _ e [unfolded s t stmt_text.simps name_texts] where_start where_start] where_inj
      unfolding s t by auto
  next
    case s: (DeleteRows spec cs)
    with k obtain spec' cs' where t: "t = DeleteRows spec' cs'" by (cases t) auto
    show ?thesis
      using m named_text [OF _ _ e [unfolded s t stmt_text.simps name_texts] where_start where_start] where_inj
      unfolding s t by auto
  next
    case s: (InsertRow spec)
    with k obtain spec' where t: "t = InsertRow spec'" by (cases t) auto
    show ?thesis using m named_text [OF _ _ e [unfolded s t stmt_text.simps name_texts]] unfolding s t by simp
  next
    case s: (UpdateRow spec)
    with k consider spec' where "t = UpdateRow spec'" | spec' where "t = ConsumeRow spec'" by (cases t) auto
    then show ?thesis
    proof cases
      case t: 1
      show ?thesis using m named_text [OF _ _ e [unfolded s t stmt_text.simps name_texts]] unfolding s t by simp
    next
      case t: 2
      show ?thesis using updates_differ [of spec spec'] m e unfolding s t stmt.case by blast
    qed
  next
    case s: (ConsumeRow spec)
    with k consider spec' where "t = ConsumeRow spec'" | spec' where "t = UpdateRow spec'" by (cases t) auto
    then show ?thesis
    proof cases
      case t: 1
      show ?thesis using m named_text [OF _ _ e [unfolded s t stmt_text.simps name_texts]] unfolding s t by simp
    next
      case t: 2
      show ?thesis using updates_differ [of spec' spec] m e [symmetric] unfolding s t stmt.case by blast
    qed
  qed
qed

section \<open>The database\<close>

text \<open>Each table is a list of rows by id. Booleans are 0 or 1; a list is written one string a line.\<close>

type_synonym ref_rows = "string \<Rightarrow> (string \<times> sql_value list) list"

definition ref_rep :: "sql_value \<Rightarrow> sql_value" where
  "ref_rep v = (case v of SqlBool b \<Rightarrow> SqlInt (if b then 1 else 0) | _ \<Rightarrow> v)"

fun ref_lines :: "string \<Rightarrow> string \<Rightarrow> string list" where
  "ref_lines acc [] = []"
| "ref_lines acc (c # cs) = (if c = CHR 0x0A then rev acc # ref_lines '''' cs else ref_lines (c # acc) cs)"

definition ref_lib :: sql_lib where
  "ref_lib = \<lparr>sl_Marshal = \<lambda>v. ''['' @ concat (map (\<lambda>s. s @ [CHR 0x0A]) v) @ '']'',
     sl_Unmarshal = \<lambda>s. Some (ref_lines '''' (butlast (tl s))), sl_lower = map ascii_lower\<rparr>"

definition rows_of :: "tableSpec \<Rightarrow> sql_cond list \<Rightarrow> sql_value list \<Rightarrow> ref_rows \<Rightarrow> sql_value list list" where
  "rows_of spec cs args d = filter (\<lambda>x. sat like_match (cell spec x) cs args) (map snd (d (ts_name spec)))"

fun ref_select :: "stmt \<Rightarrow> sql_value list \<Rightarrow> ref_rows \<Rightarrow> sql_value list list" where
  "ref_select (SelectRows spec cs) args d = map (map ref_rep) (rows_of spec cs args d)"
| "ref_select (SelectOne spec) args d = (if map_of (d (ts_name spec)) (str_of (hd args)) = None then [] else [[SqlInt 1]])"
| "ref_select (CountRows spec cs) args d = [[SqlInt (int (length (rows_of spec cs args d)))]]"
| "ref_select (SelectPage spec cs) args d =
     (let n = length args - 2
      in map (map ref_rep) (take (nat (int_of_value (args ! n))) (drop (nat (int_of_value (args ! (n + 1))))
           (sort_key (row_order spec) (rows_of spec cs (take n args) d)))))"
| "ref_select s args d = []"

definition ref_put :: "tableSpec \<Rightarrow> string \<Rightarrow> sql_value list \<Rightarrow> ref_rows \<Rightarrow> ref_rows" where
  "ref_put spec k x d = d(ts_name spec := AList.update k x (d (ts_name spec)))"

fun ref_change :: "stmt \<Rightarrow> sql_value list \<Rightarrow> ref_rows \<Rightarrow> (string + nat) \<times> ref_rows" where
  "ref_change (InsertRow spec) args d =
     (let k = str_of (cell spec args ''id''); l = d (ts_name spec)
      in if map_of l k \<noteq> None \<or> list_ex (\<lambda>(m, y). row_clash spec args y) l then (Inl ''UNIQUE constraint failed'', d)
         else (Inr 1, ref_put spec k args d))"
| "ref_change (UpdateRow spec) args d =
     (let k = str_of (List.last args); x = SqlString k # butlast args; l = d (ts_name spec)
      in if map_of l k = None then (Inr 0, d)
         else if list_ex (\<lambda>(m, y). m \<noteq> k \<and> row_clash spec x y) l then (Inl ''UNIQUE constraint failed'', d)
         else (Inr 1, ref_put spec k x d))"
| "ref_change (ConsumeRow spec) args d =
     (let k = str_of (args ! 1)
      in case map_of (d (ts_name spec)) k of
           None \<Rightarrow> (Inr 0, d)
         | Some old \<Rightarrow> if List.last old = SqlNull then (Inr 1, ref_put spec k (butlast old @ [hd args]) d) else (Inr 0, d))"
| "ref_change (DeleteRows spec cs) args d =
     (Inr (length (rows_of spec cs args d)),
      d(ts_name spec := filter (\<lambda>(k, x). \<not> sat like_match (cell spec x) cs args) (d (ts_name spec))))"
| "ref_change s args d = (Inr 0, d)"

definition ref_find :: "string \<Rightarrow> stmt option" where
  "ref_find q = find (\<lambda>s. stmt_text s = q) statements"

definition ref_sql :: "ref_rows sql_db" where
  "ref_sql = \<lparr>db_Exec = \<lambda>q args d. (case ref_find q of None \<Rightarrow> (Inl ''syntax error'', d)
       | Some s \<Rightarrow> (case ref_change s args d of (Inl e, d') \<Rightarrow> (Inl e, d') | (Inr n, d') \<Rightarrow> (Inr (Inr n), d'))),
     db_Query = \<lambda>q args d. (case ref_find q of None \<Rightarrow> (Inl ''syntax error'', d)
       | Some s \<Rightarrow> (Inr (ref_select s args d, None), d))\<rparr>"

definition ref_sql_store :: "ref_rows sql_Store" where
  "ref_sql_store = \<lparr>sq_db = ref_sql, sq_dialect = DialectSQLite, sq_prefix = ''identity_'', sq_lib = ref_lib\<rparr>"

lemma ref_store_simps [simp]: "sq_db ref_sql_store = ref_sql" "sq_dialect ref_sql_store = DialectSQLite"
  "sq_prefix ref_sql_store = ''identity_''" "sq_lib ref_sql_store = ref_lib" "table ref_sql_store (ts_name spec) = ref_tab spec"
  by (simp_all add: ref_sql_store_def table_def ref_tab_def)

lemma ref_find_text:
  assumes "s \<in> set statements"
  shows "ref_find (stmt_text s) = Some s"
proof -
  obtain t where t: "ref_find (stmt_text s) = Some t"
    using assms by (cases "ref_find (stmt_text s)") (auto simp: ref_find_def find_None_iff)
  then have "t \<in> set statements" "stmt_text t = stmt_text s" by (auto simp: ref_find_def find_Some_iff)
  with t stmt_text_inj [OF this(1) assms this(2)] show ?thesis by simp
qed

lemma ref_query: "s \<in> set statements \<Longrightarrow> db_Query ref_sql (stmt_text s) args d = (Inr (ref_select s args d, None), d)"
  by (simp only: ref_sql_def sql_db.simps ref_find_text option.case)

lemma ref_exec: "s \<in> set statements \<Longrightarrow> db_Exec ref_sql (stmt_text s) args d =
    (case ref_change s args d of (Inl e, d') \<Rightarrow> (Inl e, d') | (Inr n, d') \<Rightarrow> (Inr (Inr n), d'))"
  by (simp only: ref_sql_def sql_db.simps ref_find_text option.case)

section \<open>Its states\<close>

definition rows_inv :: "tableSpec \<Rightarrow> (string \<times> sql_value list) list \<Rightarrow> bool" where
  "rows_inv spec l \<longleftrightarrow> distinct (map fst l)
     \<and> (\<forall>k x. map_of l k = Some x \<longrightarrow> cell spec x ''id'' = SqlString k \<and> k \<noteq> '''' \<and> sql_row ref_lib (ts_name spec) x)
     \<and> (\<forall>k x m y. map_of l k = Some x \<longrightarrow> map_of l m = Some y \<longrightarrow> row_clash spec x y \<longrightarrow> k = m)"

definition ref_sql_inv :: "ref_rows \<Rightarrow> bool" where
  "ref_sql_inv d \<longleftrightarrow> (\<forall>spec \<in> set schema. rows_inv spec (d (ts_name spec)))"

definition ref_sql_data :: "ref_rows \<Rightarrow> string \<Rightarrow> string \<rightharpoonup> sql_value list" where
  "ref_sql_data d n = map_of (d n)"

lemma rowsD:
  assumes "ref_sql_inv d" and "spec \<in> set schema"
  shows "distinct (map fst (d (ts_name spec)))"
    and "map_of (d (ts_name spec)) k = Some x \<Longrightarrow> cell spec x ''id'' = SqlString k \<and> k \<noteq> '''' \<and> sql_row ref_lib (ts_name spec) x"
    and "map_of (d (ts_name spec)) k = Some x \<Longrightarrow> map_of (d (ts_name spec)) m = Some y \<Longrightarrow> row_clash spec x y \<Longrightarrow> k = m"
  using assms unfolding ref_sql_inv_def rows_inv_def by blast+

lemma inv_table:
  "ref_sql_inv d \<Longrightarrow> spec \<in> set schema \<Longrightarrow> rows_inv spec l \<Longrightarrow> ref_sql_inv (d(ts_name spec := l))"
  unfolding ref_sql_inv_def using schema_names by fastforce

lemma row_clash_sym: "row_clash spec x y \<longleftrightarrow> row_clash spec y x"
  unfolding row_clash_def list_ex_iff by metis

lemma inv_put:
  assumes i: "ref_sql_inv d" and s: "spec \<in> set schema"
    and x: "cell spec x ''id'' = SqlString k" "k \<noteq> ''''" "sql_row ref_lib (ts_name spec) x"
    and u: "\<And>m y. map_of (d (ts_name spec)) m = Some y \<Longrightarrow> m \<noteq> k \<Longrightarrow> \<not> row_clash spec x y"
  shows "ref_sql_inv (ref_put spec k x d)"
  unfolding ref_put_def
proof (rule inv_table [OF i s])
  show "rows_inv spec (AList.update k x (d (ts_name spec)))"
    unfolding rows_inv_def update_conv'
    using rowsD [OF i s] x u by (auto simp: distinct_update row_clash_sym split: if_splits)
qed

lemma ref_put_data: "ref_sql_data (ref_put spec k x d) = (ref_sql_data d)(ts_name spec := (ref_sql_data d (ts_name spec))(k \<mapsto> x))"
  by (auto simp: ref_sql_data_def ref_put_def update_conv' fun_eq_iff)

lemma map_of_filter:
  "distinct (map fst l) \<Longrightarrow> map_of (filter (\<lambda>(k, x). P x) l) = keep P (map_of l)"
proof (induction l)
  case Nil
  then show ?case by (simp add: keep_def)
next
  case (Cons kx l)
  then have "map_of l (fst kx) = None" by (simp add: map_of_eq_None_iff)
  with Cons show ?case by (cases kx) (auto simp: keep_def fun_eq_iff)
qed

lemma inv_filter:
  assumes i: "ref_sql_inv d" and s: "spec \<in> set schema"
  shows "ref_sql_inv (d(ts_name spec := filter (\<lambda>(k, x). P x) (d (ts_name spec))))"
proof (rule inv_table [OF i s])
  have "distinct (map fst (filter (\<lambda>(k, x). P x) (d (ts_name spec))))" using rowsD(1) [OF i s] by (rule distinct_map_filter)
  then show "rows_inv spec (filter (\<lambda>(k, x). P x) (d (ts_name spec)))"
    unfolding rows_inv_def map_of_filter [OF rowsD(1) [OF i s]]
    using rowsD(2,3) [OF i s] by (auto simp: keep_def split: option.splits if_splits)
qed

text \<open>The rows that satisfy conditions.\<close>

lemma rows_set:
  assumes i: "ref_sql_inv d" and s: "spec \<in> set schema"
  shows "set (rows_of spec cs args d) = {x \<in> ran (ref_sql_data d (ts_name spec)). sat like_match (cell spec x) cs args}"
  by (auto simp: rows_of_def ref_sql_data_def ran_distinct [OF rowsD(1) [OF i s]])

lemma rows_distinct:
  assumes i: "ref_sql_inv d" and s: "spec \<in> set schema"
  shows "distinct (map snd (d (ts_name spec)))"
proof -
  have "inj_on snd (set (d (ts_name spec)))"
  proof (rule inj_onI)
    fix a b
    assume ab: "a \<in> set (d (ts_name spec))" "b \<in> set (d (ts_name spec))" "snd a = snd b"
    have "cell spec (snd c) ''id'' = SqlString (fst c)" if "c \<in> set (d (ts_name spec))" for c
      using rowsD(2) [OF i s, of "fst c" "snd c"] map_of_is_SomeI [OF rowsD(1) [OF i s], of "fst c" "snd c"] that by simp
    with ab have "fst a = fst b" by (metis sql_value.inject(1))
    with ab show "a = b" by (simp add: prod_eq_iff)
  qed
  with rowsD(1) [OF i s] show ?thesis by (simp add: distinct_map)
qed

lemma rows_card:
  assumes i: "ref_sql_inv d" and s: "spec \<in> set schema"
  shows "card {k. \<exists>x. ref_sql_data d (ts_name spec) k = Some x \<and> sat like_match (cell spec x) cs args} = length (rows_of spec cs args d)"
proof -
  let ?f = "filter (\<lambda>(k, x). sat like_match (cell spec x) cs args) (d (ts_name spec))"
  note D = rowsD(1) [OF i s]
  have eq: "{k. \<exists>x. ref_sql_data d (ts_name spec) k = Some x \<and> sat like_match (cell spec x) cs args} = set (map fst ?f)"
    unfolding ref_sql_data_def map_of_eq_Some_iff [OF D] by force
  have dist: "distinct (map fst ?f)" using D by (rule distinct_map_filter)
  have len: "length ?f = length (rows_of spec cs args d)"
    by (simp add: rows_of_def filter_map comp_def case_prod_unfold)
  show ?thesis unfolding eq distinct_card [OF dist] length_map by (rule len)
qed

section \<open>Its laws\<close>

lemma statements_known:
  assumes "spec \<in> set schema"
  shows "SelectOne spec \<in> set statements" "InsertRow spec \<in> set statements" "UpdateRow spec \<in> set statements"
    "ConsumeRow spec \<in> set statements"
    and "conds_ok spec cs args \<Longrightarrow> SelectRows spec cs \<in> set statements \<and> CountRows spec cs \<in> set statements
      \<and> SelectPage spec cs \<in> set statements \<and> DeleteRows spec cs \<in> set statements"
  using assms unfolding statements_def conds_ok_def by auto

lemma ref_selected:
  assumes i: "ref_sql_inv d" and s: "spec \<in> set schema" and c: "conds_ok spec cs args"
    and q: "db_Query ref_sql (select_text DialectSQLite (ref_tab spec) spec cs) args d = (r, d')"
  shows "ref_sql_inv d' \<and> ref_sql_data d' = ref_sql_data d \<and> (case r of Inl e \<Rightarrow> True | Inr (rows, err) \<Rightarrow>
    \<exists>xs. rows = map (map ref_rep) xs \<and> set xs \<subseteq> {x \<in> ran (ref_sql_data d (ts_name spec)). sat like_match (cell spec x) cs args}
      \<and> (err = None \<longrightarrow> {x \<in> ran (ref_sql_data d (ts_name spec)). sat like_match (cell spec x) cs args} \<subseteq> set xs))"
proof -
  have "r = Inr (ref_select (SelectRows spec cs) args d, None)" "d' = d"
    using ref_query [of "SelectRows spec cs" args d] statements_known(5) [OF s c] q by auto
  then show ?thesis using i rows_set [OF i s, of cs args] by auto
qed

lemma ref_probed:
  assumes i: "ref_sql_inv d" and s: "spec \<in> set schema"
    and q: "db_Query ref_sql (one_text DialectSQLite (ref_tab spec)) [SqlString k] d = (r, d')"
  shows "ref_sql_inv d' \<and> ref_sql_data d' = ref_sql_data d \<and> (case r of Inl e \<Rightarrow> True | Inr (rows, err) \<Rightarrow>
    set rows \<subseteq> {[SqlInt 1]} \<and> (rows \<noteq> [] \<longrightarrow> k \<in> dom (ref_sql_data d (ts_name spec)))
      \<and> (rows = [] \<longrightarrow> err = None \<longrightarrow> k \<notin> dom (ref_sql_data d (ts_name spec))))"
proof -
  have "r = Inr (ref_select (SelectOne spec) [SqlString k] d, None)" "d' = d"
    using ref_query [of "SelectOne spec" "[SqlString k]" d] statements_known(1) [OF s] q by auto
  then show ?thesis using i by (auto simp: ref_sql_data_def)
qed

lemma ref_counted:
  assumes i: "ref_sql_inv d" and s: "spec \<in> set schema" and c: "conds_ok spec cs args"
    and q: "db_Query ref_sql (count_text DialectSQLite (ref_tab spec) cs) args d = (r, d')"
  shows "ref_sql_inv d' \<and> ref_sql_data d' = ref_sql_data d \<and> (case r of Inl e \<Rightarrow> True | Inr (rows, err) \<Rightarrow>
    (rows = [] \<longrightarrow> err \<noteq> None) \<and> set rows \<subseteq> {[SqlInt (int (card {k. \<exists>x. ref_sql_data d (ts_name spec) k = Some x
        \<and> sat like_match (cell spec x) cs args}))]})"
proof -
  have "r = Inr (ref_select (CountRows spec cs) args d, None)" "d' = d"
    using ref_query [of "CountRows spec cs" args d] statements_known(5) [OF s c] q by auto
  then show ?thesis using i by (simp add: rows_card [OF i s])
qed

lemma ref_paged:
  assumes i: "ref_sql_inv d" and s: "spec \<in> set schema" and c: "conds_ok spec cs args"
    and q: "db_Query ref_sql (page_text DialectSQLite (ref_tab spec) spec cs) (args @ [SqlInt lim, SqlInt skip]) d = (r, d')"
  shows "ref_sql_inv d' \<and> ref_sql_data d' = ref_sql_data d \<and> (case r of Inl e \<Rightarrow> True | Inr (rows, err) \<Rightarrow> err = None \<longrightarrow>
    (\<exists>xs. set xs = {x \<in> ran (ref_sql_data d (ts_name spec)). sat like_match (cell spec x) cs args} \<and> distinct xs
      \<and> sorted (map (row_order spec) xs) \<and> rows = map (map ref_rep) (take (nat lim) (drop (nat skip) xs))))"
proof -
  have r: "r = Inr (ref_select (SelectPage spec cs) (args @ [SqlInt lim, SqlInt skip]) d, None)" "d' = d"
    using ref_query [of "SelectPage spec cs" "args @ [SqlInt lim, SqlInt skip]" d] statements_known(5) [OF s c] q by auto
  let ?xs = "sort_key (row_order spec) (rows_of spec cs args d)"
  have "distinct (rows_of spec cs args d)" unfolding rows_of_def using rows_distinct [OF i s] by (rule distinct_filter)
  moreover have "ref_select (SelectPage spec cs) (args @ [SqlInt lim, SqlInt skip]) d
      = map (map ref_rep) (take (nat lim) (drop (nat skip) ?xs))" by (simp add: nth_append Let_def)
  ultimately show ?thesis using r i rows_set [OF i s, of cs args]
    by (simp only: sum.case prod.case simp_thms) (intro exI [of _ ?xs], simp)
qed

lemma ref_inserted:
  assumes i: "ref_sql_inv d" and s: "spec \<in> set schema" and k: "cell spec row ''id'' = SqlString k" "k \<noteq> ''''"
    and ok: "sql_row ref_lib (ts_name spec) row"
    and q: "db_Exec ref_sql (insert_text DialectSQLite (ref_tab spec) spec) row d = (q, d')"
  shows "ref_sql_inv d' \<and> (case q of
      Inl e \<Rightarrow> ref_sql_data d' = ref_sql_data d
        \<and> (k \<in> dom (ref_sql_data d (ts_name spec)) \<or> (\<exists>y \<in> ran (ref_sql_data d (ts_name spec)). row_clash spec row y))
    | Inr res \<Rightarrow> k \<notin> dom (ref_sql_data d (ts_name spec)) \<and> (\<forall>y \<in> ran (ref_sql_data d (ts_name spec)). \<not> row_clash spec row y)
        \<and> ref_sql_data d' = (ref_sql_data d)(ts_name spec := (ref_sql_data d (ts_name spec))(k \<mapsto> row)))"
proof -
  let ?l = "d (ts_name spec)"
  have ran: "list_ex (\<lambda>(m, y). row_clash spec row y) ?l \<longleftrightarrow> (\<exists>y \<in> ran (map_of ?l). row_clash spec row y)"
    unfolding ran_distinct [OF rowsD(1) [OF i s]] by (force simp: list_ex_iff)
  have run: "(case ref_change (InsertRow spec) row d of (Inl e, d') \<Rightarrow> (Inl e, d') | (Inr n, d') \<Rightarrow> (Inr (Inr n), d')) = (q, d')"
    using ref_exec [OF statements_known(2) [OF s]] q by simp
  show ?thesis
  proof (cases "map_of ?l k \<noteq> None \<or> list_ex (\<lambda>(m, y). row_clash spec row y) ?l")
    case True
    with run k have "q = Inl ''UNIQUE constraint failed''" "d' = d" by (auto simp: Let_def)
    with i True ran show ?thesis by (auto simp: ref_sql_data_def)
  next
    case False
    with run k have r: "q = Inr (Inr 1)" "d' = ref_put spec k row d" by (auto simp: Let_def)
    have "ref_sql_inv d'" unfolding r using False ran by (intro inv_put [OF i s k ok]) (auto simp: ran_def)
    with r False ran show ?thesis by (simp add: ref_put_data) (auto simp: ref_sql_data_def)
  qed
qed

lemma ref_updated:
  assumes i: "ref_sql_inv d" and s: "spec \<in> set schema" and k: "cell spec (SqlString k # vs) ''id'' = SqlString k"
    and ok: "sql_row ref_lib (ts_name spec) (SqlString k # vs)"
    and q: "db_Exec ref_sql (update_text DialectSQLite (ref_tab spec) (tl (map fst (ts_columns spec))) [CEq ''id''])
      (vs @ [SqlString k]) d = (q, d')"
  shows "ref_sql_inv d' \<and> (case q of
      Inl e \<Rightarrow> ref_sql_data d' = ref_sql_data d \<and> k \<in> dom (ref_sql_data d (ts_name spec))
        \<and> (\<exists>l y. ref_sql_data d (ts_name spec) l = Some y \<and> l \<noteq> k \<and> row_clash spec (SqlString k # vs) y)
    | Inr (Inl e) \<Rightarrow> False
    | Inr (Inr n) \<Rightarrow> (case ref_sql_data d (ts_name spec) k of
        None \<Rightarrow> n = 0 \<and> ref_sql_data d' = ref_sql_data d
      | Some old \<Rightarrow> (n = 1 \<or> n = 0 \<and> old = SqlString k # vs)
          \<and> (\<forall>l y. ref_sql_data d (ts_name spec) l = Some y \<longrightarrow> l \<noteq> k \<longrightarrow> \<not> row_clash spec (SqlString k # vs) y)
          \<and> ref_sql_data d' = (ref_sql_data d)(ts_name spec := (ref_sql_data d (ts_name spec))(k \<mapsto> SqlString k # vs))))"
proof -
  let ?l = "d (ts_name spec)" and ?x = "SqlString k # vs"
  have ex: "list_ex (\<lambda>(m, y). m \<noteq> k \<and> row_clash spec ?x y) ?l \<longleftrightarrow> (\<exists>m y. map_of ?l m = Some y \<and> m \<noteq> k \<and> row_clash spec ?x y)"
    unfolding list_ex_iff map_of_eq_Some_iff [OF rowsD(1) [OF i s]] by auto
  have run: "(case ref_change (UpdateRow spec) (vs @ [SqlString k]) d of (Inl e, d') \<Rightarrow> (Inl e, d') | (Inr n, d') \<Rightarrow> (Inr (Inr n), d')) = (q, d')"
    using ref_exec [OF statements_known(3) [OF s]] q by simp
  consider "map_of ?l k = None" | old where "map_of ?l k = Some old" "list_ex (\<lambda>(m, y). m \<noteq> k \<and> row_clash spec ?x y) ?l"
    | old where "map_of ?l k = Some old" "\<not> list_ex (\<lambda>(m, y). m \<noteq> k \<and> row_clash spec ?x y) ?l" by (cases "map_of ?l k") auto
  then show ?thesis
  proof cases
    case 1
    with run have "q = Inr (Inr 0)" "d' = d" by (auto simp: Let_def)
    with i 1 show ?thesis by (simp add: ref_sql_data_def)
  next
    case (2 old)
    with run have "q = Inl ''UNIQUE constraint failed''" "d' = d" by (auto simp: Let_def)
    with i 2 ex show ?thesis by (auto simp: ref_sql_data_def)
  next
    case (3 old)
    with run have r: "q = Inr (Inr 1)" "d' = ref_put spec k ?x d" by (auto simp: Let_def)
    have "k \<noteq> ''''" using rowsD(2) [OF i s 3(1)] by simp
    then have "ref_sql_inv d'" unfolding r using 3 ex by (intro inv_put [OF i s k _ ok]) auto
    moreover have "ref_sql_data d (ts_name spec) k = Some old" using 3 by (simp add: ref_sql_data_def)
    moreover have "\<not> row_clash spec ?x y" if "ref_sql_data d (ts_name spec) m = Some y" "m \<noteq> k" for m y
      using 3 ex that by (auto simp: ref_sql_data_def)
    ultimately show ?thesis unfolding r by (auto simp: ref_put_data)
  qed
qed

lemma ref_consumed:
  assumes i: "ref_sql_inv d" and s: "spec \<in> set schema" and n: "ts_name spec = tableAuthorizationCodes" and t: "sql_time u"
    and q: "db_Exec ref_sql (update_text DialectSQLite (ref_tab spec) [''consumed_at''] [CEq ''id'', CNull ''consumed_at''])
      [SqlInt (encTime u), SqlString k] d = (q, d')"
  shows "ref_sql_inv d' \<and> (case q of
      Inl e \<Rightarrow> ref_sql_data d' = ref_sql_data d
    | Inr (Inl e) \<Rightarrow> False
    | Inr (Inr n) \<Rightarrow> (case ref_sql_data d (ts_name spec) k of
        None \<Rightarrow> n = 0 \<and> ref_sql_data d' = ref_sql_data d
      | Some old \<Rightarrow> if List.last old = SqlNull
          then n = 1 \<and> ref_sql_data d' = (ref_sql_data d)(ts_name spec := (ref_sql_data d (ts_name spec))(k \<mapsto> butlast old @ [SqlInt (encTime u)]))
          else n = 0 \<and> ref_sql_data d' = ref_sql_data d))"
proof -
  let ?l = "d (ts_name spec)"
  have run: "(case ref_change (ConsumeRow spec) [SqlInt (encTime u), SqlString k] d of (Inl e, d') \<Rightarrow> (Inl e, d') | (Inr n, d') \<Rightarrow> (Inr (Inr n), d')) = (q, d')"
    using ref_exec [OF statements_known(4) [OF s]] q by simp
  show ?thesis
  proof (cases "map_of ?l k")
    case None
    with run i show ?thesis by (auto simp: Let_def ref_sql_data_def)
  next
    case (Some old)
    note o = rowsD(2) [OF i s Some]
    obtain c where c: "row_code ref_lib c" "old = SqlString (ac_Id c) # authorizationCodeValues ref_lib c"
      using o n by (auto simp: sql_row_def)
    let ?c = "c\<lparr>ac_ConsumedAt := Some u\<rparr>"
    have spec: "spec = authorizationCodeTable" using s n unfolding schema_set by auto
    have new: "butlast old @ [SqlInt (encTime u)] = SqlString (ac_Id ?c) # authorizationCodeValues ref_lib ?c"
      by (simp add: c(2) authorizationCodeValues_def encTimePtr_def)
    show ?thesis
    proof (cases "List.last old = SqlNull")
      case False
      with run Some i show ?thesis by (auto simp: Let_def ref_sql_data_def)
    next
      case True
      with run Some have r: "q = Inr (Inr 1)" "d' = ref_put spec k (butlast old @ [SqlInt (encTime u)]) d" by (auto simp: Let_def)
      have id: "cell spec (butlast old @ [SqlInt (encTime u)]) ''id'' = SqlString k"
        using o unfolding new by (simp add: c(2) spec cell_def)
      have row: "sql_row ref_lib (ts_name spec) (butlast old @ [SqlInt (encTime u)])"
        unfolding new using c(1) t by (auto simp: n sql_row_def row_code_def sql_time_ptr_def intro!: exI [of _ ?c])
      have "\<not> row_clash spec (butlast old @ [SqlInt (encTime u)]) y" if "map_of ?l m = Some y" "m \<noteq> k" for m y
      proof -
        have "row_clash spec (butlast old @ [SqlInt (encTime u)]) y \<longleftrightarrow> row_clash spec old y"
          unfolding new by (simp add: c(2) spec row_clash_def cell_def authorizationCodeValues_def)
        with rowsD(3) [OF i s Some that(1)] that(2) show ?thesis by blast
      qed
      then have "ref_sql_inv d'" unfolding r using o by (intro inv_put [OF i s id _ row]) auto
      moreover have "ref_sql_data d (ts_name spec) k = Some old" using Some by (simp add: ref_sql_data_def)
      ultimately show ?thesis unfolding r using True by (simp add: ref_put_data)
    qed
  qed
qed

lemma ref_deleted:
  assumes i: "ref_sql_inv d" and s: "spec \<in> set schema" and c: "conds_ok spec cs args"
    and q: "db_Exec ref_sql (delete_text DialectSQLite (ref_tab spec) cs) args d = (q, d')"
  shows "ref_sql_inv d' \<and> (case q of
      Inl e \<Rightarrow> ref_sql_data d' = ref_sql_data d
    | Inr (Inl e) \<Rightarrow> False
    | Inr (Inr n) \<Rightarrow> n = card {k. \<exists>x. ref_sql_data d (ts_name spec) k = Some x \<and> sat like_match (cell spec x) cs args}
        \<and> ref_sql_data d' = (ref_sql_data d)(ts_name spec := keep (\<lambda>x. \<not> sat like_match (cell spec x) cs args) (ref_sql_data d (ts_name spec))))"
proof -
  let ?P = "\<lambda>x. \<not> sat like_match (cell spec x) cs args"
  have r: "q = Inr (Inr (length (rows_of spec cs args d)))" "d' = d(ts_name spec := filter (\<lambda>(k, x). ?P x) (d (ts_name spec)))"
    using ref_exec [of "DeleteRows spec cs" args d] statements_known(5) [OF s c] q by auto
  have "ref_sql_data d' = (ref_sql_data d)(ts_name spec := keep ?P (ref_sql_data d (ts_name spec)))"
    unfolding r ref_sql_data_def fun_eq_iff by (simp add: map_of_filter [OF rowsD(1) [OF i s], of ?P])
  with r inv_filter [OF i s, of ?P] show ?thesis by (simp add: rows_card [OF i s])
qed

interpretation ref_sql: sql_server ref_sql_store ref_sql_inv ref_sql_data ref_rep like_match
proof (intro sql_server.intro sql_database.intro, unfold ref_store_simps, goal_cases)
  case 1
  show ?case by (simp add: isIdentifier_def)
next
  case (2 d spec k row)
  then show ?case using rowsD(2) [of d spec k row] by (simp add: ref_sql_data_def)
next
  case (3 d n)
  show ?case by (simp add: ref_sql_data_def finite_dom_map_of)
next
  case (4 d spec k x l y)
  then show ?case using rowsD(3) [of d spec k x l y] by (simp add: ref_sql_data_def)
next
  case (5 v)
  show ?case by (cases v) (simp_all add: ref_rep_def)
next
  case (6 d spec cs args r d')
  then show ?case by (rule ref_selected)
next
  case (7 d spec k r d')
  then show ?case by (rule ref_probed)
next
  case (8 d spec cs args r d')
  then show ?case by (rule ref_counted)
next
  case (9 d spec cs args skip lim r d')
  then show ?case by (intro ref_paged)
next
  case (10 d spec row k q d')
  show ?case using ref_inserted [OF 10] by (auto split: sum.splits)
next
  case (11 d spec k vs q d')
  show ?case using ref_updated [OF 11] by (auto split: sum.splits)
next
  case (12 d spec t k q d')
  have t: "sql_time (decTime t)" "encTime (decTime t) = t" using sql_time_decTime [OF 12(4,5)] by simp_all
  show ?case by (rule ref_consumed [OF 12(1-3) t(1), unfolded t(2), OF 12(6)])
next
  case (13 d spec cs args q d')
  then show ?case by (rule ref_deleted)
next
  case (14 p s)
  then show ?case by (rule like_contains)
next
  case (15 s)
  show ?case by (simp add: to_lower_def ref_lib_def ascii_lower_twice)
next
  case 16
  show ?case by (simp add: ref_lib_def)
qed

end
