(* ===== verification/SqlTexts.thy ===== *)
theory SqlTexts
  imports SqlProofs
begin

text \<open>
  The texts the SQL store sends. They are a finite list that depends only on the dialect and the prefix of the tables: what
  an operation is given reaches the database as an argument, never as part of a statement. Stated with a database that
  refuses every other text, which the operations cannot tell from the one it guards.
\<close>

definition store_texts :: "string \<Rightarrow> string \<Rightarrow> string list" where
  "store_texts dl p = concat (map (\<lambda>spec. let tab = p @ ts_name spec in
     [one_text dl tab, insert_text dl tab spec, update_text dl tab (tl (map fst (ts_columns spec))) [CEq ''id''],
      update_text dl tab [''consumed_at''] [CEq ''id'', CNull ''consumed_at'']]
     @ concat (map (\<lambda>cs. [select_text dl tab spec cs, count_text dl tab cs, page_text dl tab spec cs, delete_text dl tab cs])
         (used_conds (ts_name spec)))) schema)"

definition guarded :: "'d sql_Store \<Rightarrow> 'd sql_Store" where
  "guarded st =
     (let texts = store_texts (sq_dialect st) (sq_prefix st); db = sq_db st
      in st\<lparr>sq_db :=
        \<lparr>db_Exec = \<lambda>q args d. if q \<in> set texts then db_Exec db q args d else (Inl ''unknown statement'', d),
         db_Query = \<lambda>q args d. if q \<in> set texts then db_Query db q args d else (Inl ''unknown statement'', d)\<rparr>\<rparr>)"

lemma guarded_simps [simp]:
  "sq_dialect (guarded st) = sq_dialect st" "sq_prefix (guarded st) = sq_prefix st" "sq_lib (guarded st) = sq_lib st"
  "table (guarded st) n = table st n"
  by (simp_all add: guarded_def Let_def table_def)

lemma schema_texts:
  assumes "spec \<in> set schema"
  shows "one_text dl (p @ ts_name spec) \<in> set (store_texts dl p)" "insert_text dl (p @ ts_name spec) spec \<in> set (store_texts dl p)"
    "update_text dl (p @ ts_name spec) (tl (map fst (ts_columns spec))) [CEq ''id''] \<in> set (store_texts dl p)"
    "update_text dl (p @ ts_name spec) [''consumed_at''] [CEq ''id'', CNull ''consumed_at''] \<in> set (store_texts dl p)"
    and "cs \<in> set (used_conds (ts_name spec)) \<Longrightarrow> select_text dl (p @ ts_name spec) spec cs \<in> set (store_texts dl p)
      \<and> count_text dl (p @ ts_name spec) cs \<in> set (store_texts dl p) \<and> page_text dl (p @ ts_name spec) spec cs \<in> set (store_texts dl p)
      \<and> delete_text dl (p @ ts_name spec) cs \<in> set (store_texts dl p)"
  unfolding store_texts_def Let_def using assms by auto

lemma used_plain:
  assumes "spec \<in> set schema" and "cs \<in> set (used_conds (ts_name spec))"
  shows "plain_conds cs"
  using assms unfolding used_conds_def filter_conds_def plain_conds_def cond_columns_def plain_text_def
  by (auto split: if_splits)

lemma token_conds_used_access: "token_conds f \<in> set (used_conds (ts_name accessTokenTable))"
  using token_conds_ok [of accessTokenTable] by (simp add: conds_ok_def)

lemma token_conds_used_refresh: "token_conds f \<in> set (used_conds (ts_name refreshTokenTable))"
  using token_conds_ok [of refreshTokenTable] by (simp add: conds_ok_def)

lemma user_conds_used: "user_conds f \<in> set (used_conds (ts_name userTable))"
  by (simp add: user_conds_def used_conds_def)

lemma used_clientTable:
  "[CEq ''client_id''] \<in> set (used_conds (ts_name clientTable))" "[CEq ''id''] \<in> set (used_conds (ts_name clientTable))" "[] \<in> set (used_conds (ts_name clientTable))"
  by (simp_all add: used_conds_def)

lemma used_userTable:
  "[CEq ''id''] \<in> set (used_conds (ts_name userTable))" "[CEq ''normalized_email''] \<in> set (used_conds (ts_name userTable))" "[CEq ''normalized_username''] \<in> set (used_conds (ts_name userTable))"
  by (simp_all add: used_conds_def)

lemma used_accessTokenTable:
  "[CEq ''id''] \<in> set (used_conds (ts_name accessTokenTable))" "[CEq ''token_hash''] \<in> set (used_conds (ts_name accessTokenTable))"
  by (simp_all add: used_conds_def)

lemma used_refreshTokenTable:
  "[CEq ''id''] \<in> set (used_conds (ts_name refreshTokenTable))" "[CEq ''token_hash''] \<in> set (used_conds (ts_name refreshTokenTable))"
  by (simp_all add: used_conds_def)

lemma used_authorizationCodeTable:
  "[CEq ''code_hash''] \<in> set (used_conds (ts_name authorizationCodeTable))" "[CLe ''expires_at''] \<in> set (used_conds (ts_name authorizationCodeTable))"
  by (simp_all add: used_conds_def)

lemma used_userTokenTable:
  "[CEq ''token_hash'', CEq ''purpose''] \<in> set (used_conds (ts_name userTokenTable))" "[CEq ''user_id'', CEq ''purpose''] \<in> set (used_conds (ts_name userTokenTable))" "[CLe ''expires_at''] \<in> set (used_conds (ts_name userTokenTable))"
  by (simp_all add: used_conds_def)

text \<open>The operations by their statements.\<close>

lemma ListClients_form:
  "sql_ListClients st opts = sql_list st (table st (ts_name clientTable)) (column_text clientTable) (where_text '''' 1 []) [] opts (scanClient (sq_lib st))"
  by (simp add: sql_ListClients_def columns_text where_text_def)

lemma GetClientById_form:
  "sql_GetClientById st n = getOne st (select_text '''' (table st (ts_name clientTable)) clientTable [CEq ''id'']) [SqlString n] (scanClient (sq_lib st))"
  by (simp add: sql_GetClientById_def statement_texts)

lemma GetClientByClientId_form:
  "sql_GetClientByClientId st n = getOne st (select_text '''' (table st (ts_name clientTable)) clientTable [CEq ''client_id'']) [SqlString n] (scanClient (sq_lib st))"
  by (simp add: sql_GetClientByClientId_def statement_texts)

lemma CreateClient_form:
  "sql_CreateClient st x = andThen (mapErr (sql_mapError (sq_lib st)) (sql_exec st (insert_text '''' (table st (ts_name clientTable)) clientTable) (SqlString (c_Id x) # clientValues (sq_lib st) x))) (\<lambda>_. ret ())"
  by (simp add: sql_CreateClient_def columns_text insert_text_def placeholders_def placeholders_values clientValues_def Let_def)

lemma UpdateClient_form:
  "sql_UpdateClient st x = execChanged st (table st (ts_name clientTable)) (c_Id x) (update_text '''' (table st (ts_name clientTable)) (tl (map fst (ts_columns clientTable))) [CEq ''id'']) (clientValues (sq_lib st) x @ [SqlString (c_Id x)])"
  by (simp add: sql_UpdateClient_def update_text_def where_text_def ph_def Let_def)

lemma DeleteClient_form:
  "sql_DeleteClient st n = execDelete st (table st (ts_name clientTable)) n"
  by (simp add: sql_DeleteClient_def)

lemma ListUsers_form:
  "sql_ListUsers st f opts = sql_list st (table st (ts_name userTable)) (column_text userTable) (where_text '''' 1 (user_conds f)) (user_args (sq_lib st) f) opts scanUser"
  by (simp add: sql_ListUsers_def columns_text userWhere_text)

lemma GetUserById_form:
  "sql_GetUserById st n = getOne st (select_text '''' (table st (ts_name userTable)) userTable [CEq ''id'']) [SqlString n] scanUser"
  by (simp add: sql_GetUserById_def sql_getUser_def statement_texts)

lemma GetUserByNormalizedUsername_form:
  "sql_GetUserByNormalizedUsername st n = getOne st (select_text '''' (table st (ts_name userTable)) userTable [CEq ''normalized_username'']) [SqlString n] scanUser"
  by (simp add: sql_GetUserByNormalizedUsername_def sql_getUser_def statement_texts)

lemma GetUserByNormalizedEmail_form:
  "sql_GetUserByNormalizedEmail st n = getOne st (select_text '''' (table st (ts_name userTable)) userTable [CEq ''normalized_email'']) [SqlString n] scanUser"
  by (simp add: sql_GetUserByNormalizedEmail_def sql_getUser_def statement_texts)

lemma CreateUser_form:
  "sql_CreateUser st x = andThen (mapErr (sql_mapError (sq_lib st)) (sql_exec st (insert_text '''' (table st (ts_name userTable)) userTable) (SqlString (u_Id x) # userValues x))) (\<lambda>_. ret ())"
  by (simp add: sql_CreateUser_def columns_text insert_text_def placeholders_def placeholders_values userValues_def Let_def)

lemma UpdateUser_form:
  "sql_UpdateUser st x = execChanged st (table st (ts_name userTable)) (u_Id x) (update_text '''' (table st (ts_name userTable)) (tl (map fst (ts_columns userTable))) [CEq ''id'']) (userValues x @ [SqlString (u_Id x)])"
  by (simp add: sql_UpdateUser_def update_text_def where_text_def ph_def Let_def)

lemma DeleteUser_form:
  "sql_DeleteUser st n = execDelete st (table st (ts_name userTable)) n"
  by (simp add: sql_DeleteUser_def)

lemma ListAccessTokens_form:
  "sql_ListAccessTokens st f opts = sql_list st (table st (ts_name accessTokenTable)) (column_text accessTokenTable) (where_text '''' 1 (token_conds f)) (token_args f) opts (scanAccessToken (sq_lib st))"
  by (simp add: sql_ListAccessTokens_def columns_text tokenWhere_text)

lemma GetAccessTokenById_form:
  "sql_GetAccessTokenById st n = getOne st (select_text '''' (table st (ts_name accessTokenTable)) accessTokenTable [CEq ''id'']) [SqlString n] (scanAccessToken (sq_lib st))"
  by (simp add: sql_GetAccessTokenById_def statement_texts)

lemma GetAccessTokenByHash_form:
  "sql_GetAccessTokenByHash st n = getOne st (select_text '''' (table st (ts_name accessTokenTable)) accessTokenTable [CEq ''token_hash'']) [SqlString n] (scanAccessToken (sq_lib st))"
  by (simp add: sql_GetAccessTokenByHash_def statement_texts)

lemma CreateAccessToken_form:
  "sql_CreateAccessToken st x = andThen (mapErr (sql_mapError (sq_lib st)) (sql_exec st (insert_text '''' (table st (ts_name accessTokenTable)) accessTokenTable) (SqlString (at_Id x) # accessTokenValues (sq_lib st) x))) (\<lambda>_. ret ())"
  by (simp add: sql_CreateAccessToken_def columns_text insert_text_def placeholders_def placeholders_values accessTokenValues_def Let_def)

lemma DeleteAccessToken_form:
  "sql_DeleteAccessToken st n = execDelete st (table st (ts_name accessTokenTable)) n"
  by (simp add: sql_DeleteAccessToken_def)

lemma DeleteAccessTokens_form:
  "sql_DeleteAccessTokens st f = execCount st (delete_text '''' (table st (ts_name accessTokenTable)) (token_conds f)) (token_args f)"
  by (simp add: sql_DeleteAccessTokens_def delete_text_def tokenWhere_text)

lemma ListRefreshTokens_form:
  "sql_ListRefreshTokens st f opts = sql_list st (table st (ts_name refreshTokenTable)) (column_text refreshTokenTable) (where_text '''' 1 (token_conds f)) (token_args f) opts (scanRefreshToken (sq_lib st))"
  by (simp add: sql_ListRefreshTokens_def columns_text tokenWhere_text)

lemma GetRefreshTokenById_form:
  "sql_GetRefreshTokenById st n = getOne st (select_text '''' (table st (ts_name refreshTokenTable)) refreshTokenTable [CEq ''id'']) [SqlString n] (scanRefreshToken (sq_lib st))"
  by (simp add: sql_GetRefreshTokenById_def statement_texts)

lemma GetRefreshTokenByHash_form:
  "sql_GetRefreshTokenByHash st n = getOne st (select_text '''' (table st (ts_name refreshTokenTable)) refreshTokenTable [CEq ''token_hash'']) [SqlString n] (scanRefreshToken (sq_lib st))"
  by (simp add: sql_GetRefreshTokenByHash_def statement_texts)

lemma CreateRefreshToken_form:
  "sql_CreateRefreshToken st x = andThen (mapErr (sql_mapError (sq_lib st)) (sql_exec st (insert_text '''' (table st (ts_name refreshTokenTable)) refreshTokenTable) (SqlString (rt_Id x) # refreshTokenValues (sq_lib st) x))) (\<lambda>_. ret ())"
  by (simp add: sql_CreateRefreshToken_def columns_text insert_text_def placeholders_def placeholders_values refreshTokenValues_def Let_def)

lemma UpdateRefreshToken_form:
  "sql_UpdateRefreshToken st x = execChanged st (table st (ts_name refreshTokenTable)) (rt_Id x) (update_text '''' (table st (ts_name refreshTokenTable)) (tl (map fst (ts_columns refreshTokenTable))) [CEq ''id'']) (refreshTokenValues (sq_lib st) x @ [SqlString (rt_Id x)])"
  by (simp add: sql_UpdateRefreshToken_def update_text_def where_text_def ph_def Let_def)

lemma DeleteRefreshToken_form:
  "sql_DeleteRefreshToken st n = execDelete st (table st (ts_name refreshTokenTable)) n"
  by (simp add: sql_DeleteRefreshToken_def)

lemma DeleteRefreshTokens_form:
  "sql_DeleteRefreshTokens st f = execCount st (delete_text '''' (table st (ts_name refreshTokenTable)) (token_conds f)) (token_args f)"
  by (simp add: sql_DeleteRefreshTokens_def delete_text_def tokenWhere_text)

lemma GetAuthorizationCodeByHash_form:
  "sql_GetAuthorizationCodeByHash st n = getOne st (select_text '''' (table st (ts_name authorizationCodeTable)) authorizationCodeTable [CEq ''code_hash'']) [SqlString n] (scanAuthorizationCode (sq_lib st))"
  by (simp add: sql_GetAuthorizationCodeByHash_def statement_texts)

lemma CreateAuthorizationCode_form:
  "sql_CreateAuthorizationCode st x = andThen (mapErr (sql_mapError (sq_lib st)) (sql_exec st (insert_text '''' (table st (ts_name authorizationCodeTable)) authorizationCodeTable) (SqlString (ac_Id x) # authorizationCodeValues (sq_lib st) x))) (\<lambda>_. ret ())"
  by (simp add: sql_CreateAuthorizationCode_def columns_text insert_text_def placeholders_def placeholders_values authorizationCodeValues_def Let_def)

lemma DeleteAuthorizationCode_form:
  "sql_DeleteAuthorizationCode st n = execDelete st (table st (ts_name authorizationCodeTable)) n"
  by (simp add: sql_DeleteAuthorizationCode_def)

lemma DeleteExpiredAuthorizationCodes_form:
  "sql_DeleteExpiredAuthorizationCodes st t = execCount st (delete_text '''' (table st (ts_name authorizationCodeTable)) [CLe ''expires_at'']) [SqlInt (encTime t)]"
  by (simp add: sql_DeleteExpiredAuthorizationCodes_def statement_texts)

lemma GetUserTokenByHash_form:
  "sql_GetUserTokenByHash st p n = getOne st (select_text '''' (table st (ts_name userTokenTable)) userTokenTable [CEq ''token_hash'', CEq ''purpose'']) [SqlString n, SqlString p] scanUserToken"
  by (simp add: sql_GetUserTokenByHash_def statement_texts)

lemma CreateUserToken_form:
  "sql_CreateUserToken st x = andThen (mapErr (sql_mapError (sq_lib st)) (sql_exec st (insert_text '''' (table st (ts_name userTokenTable)) userTokenTable) (SqlString (ut_Id x) # userTokenValues x))) (\<lambda>_. ret ())"
  by (simp add: sql_CreateUserToken_def columns_text insert_text_def placeholders_def placeholders_values userTokenValues_def Let_def)

lemma DeleteUserToken_form:
  "sql_DeleteUserToken st n = execDelete st (table st (ts_name userTokenTable)) n"
  by (simp add: sql_DeleteUserToken_def)

lemma DeleteUserTokens_form:
  "sql_DeleteUserTokens st u p = execCount st (delete_text '''' (table st (ts_name userTokenTable)) [CEq ''user_id'', CEq ''purpose'']) [SqlString u, SqlString p]"
  by (simp add: sql_DeleteUserTokens_def statement_texts)

lemma DeleteExpiredUserTokens_form:
  "sql_DeleteExpiredUserTokens st t = execCount st (delete_text '''' (table st (ts_name userTokenTable)) [CLe ''expires_at'']) [SqlInt (encTime t)]"
  by (simp add: sql_DeleteExpiredUserTokens_def statement_texts)

text \<open>A store with a valid prefix.\<close>

locale sql_prefix =
  fixes st :: "'d sql_Store"
  assumes prefix: "isIdentifier (sq_prefix st)"
begin

abbreviation "G \<equiv> guarded st"

lemma plain_table: "spec \<in> set schema \<Longrightarrow> plain_text (table st (ts_name spec))"
  using identifier_plain [OF prefix] schema_name_plain by (simp add: table_def)

lemma sent:
  assumes "rebind (sq_dialect st) q \<in> set (store_texts (sq_dialect st) (sq_prefix st))"
  shows "sql_exec G q = sql_exec st q" and "sql_query G q = sql_query st q"
  using assms by (auto simp: sql_exec_def sql_query_def guarded_def Let_def fun_eq_iff)

lemma query_sent: "sql_query G q = sql_query st q \<Longrightarrow> queryRow G q args f = queryRow st q args f"
  by (simp add: queryRow_def)

lemma one_guarded:
  assumes "spec \<in> set schema" and "cs \<in> set (used_conds (ts_name spec))"
  shows "getOne G (select_text '''' (table st (ts_name spec)) spec cs) args f = getOne st (select_text '''' (table st (ts_name spec)) spec cs) args f"
proof -
  have "sql_query G (select_text '''' (table st (ts_name spec)) spec cs) = sql_query st (select_text '''' (table st (ts_name spec)) spec cs)"
    using schema_texts(5) [OF assms] bound_select [OF plain_table [OF assms(1)] assms(1) used_plain [OF assms]]
    by (intro sent(2)) (simp add: table_def)
  then show ?thesis by (simp only: getOne_def query_sent)
qed

lemma count_guarded:
  assumes "spec \<in> set schema" and "cs \<in> set (used_conds (ts_name spec))"
  shows "execCount G (delete_text '''' (table st (ts_name spec)) cs) = execCount st (delete_text '''' (table st (ts_name spec)) cs)"
proof -
  have "sql_exec G (delete_text '''' (table st (ts_name spec)) cs) = sql_exec st (delete_text '''' (table st (ts_name spec)) cs)"
    using schema_texts(5) [OF assms] bound_delete [OF plain_table [OF assms(1)] used_plain [OF assms]]
    by (intro sent(1)) (simp add: table_def)
  then show ?thesis by (intro ext) (simp only: execCount_def)
qed

lemma delete_guarded:
  assumes "spec \<in> set schema"
  shows "execDelete G (table st (ts_name spec)) = execDelete st (table st (ts_name spec))"
proof -
  have used: "[CEq ''id''] \<in> set (used_conds (ts_name spec))" by (simp add: used_conds_def)
  have eq: "delete_text '''' (table st (ts_name spec)) [CEq ''id''] = ''DELETE FROM '' @ table st (ts_name spec) @ '' WHERE id = ?''"
    by (simp add: delete_text_def where_text_def ph_def)
  have "sql_exec G (delete_text '''' (table st (ts_name spec)) [CEq ''id'']) = sql_exec st (delete_text '''' (table st (ts_name spec)) [CEq ''id''])"
    using schema_texts(5) [OF assms used] bound_delete [OF plain_table [OF assms] used_plain [OF assms used]]
    by (intro sent(1)) (simp add: table_def)
  then show ?thesis by (intro ext) (simp only: execDelete_def eq)
qed

lemma exists_guarded:
  assumes "spec \<in> set schema"
  shows "sql_exists G (table st (ts_name spec)) = sql_exists st (table st (ts_name spec))"
proof -
  have eq: "one_text '''' (table st (ts_name spec)) = ''SELECT 1 FROM '' @ table st (ts_name spec) @ '' WHERE id = ?''"
    by (simp add: one_text_def ph_def)
  have "sql_query G (one_text '''' (table st (ts_name spec))) = sql_query st (one_text '''' (table st (ts_name spec)))"
    using schema_texts(1) [OF assms] bound_one [OF plain_table [OF assms]] by (intro sent(2)) (simp add: table_def)
  note q = query_sent [OF this, unfolded eq]
  show ?thesis by (intro ext) (simp only: sql_exists_def q)
qed

lemma insert_guarded:
  assumes "spec \<in> set schema"
  shows "sql_exec G (insert_text '''' (table st (ts_name spec)) spec) = sql_exec st (insert_text '''' (table st (ts_name spec)) spec)"
  using schema_texts(2) [OF assms] bound_insert [OF plain_table [OF assms] assms] by (intro sent(1)) (simp add: table_def)

lemma change_guarded:
  assumes "spec \<in> set schema"
  shows "execChanged G (table st (ts_name spec)) k (update_text '''' (table st (ts_name spec)) (tl (map fst (ts_columns spec))) [CEq ''id''])
     = execChanged st (table st (ts_name spec)) k (update_text '''' (table st (ts_name spec)) (tl (map fst (ts_columns spec))) [CEq ''id''])"
proof -
  let ?q = "update_text '''' (table st (ts_name spec)) (tl (map fst (ts_columns spec))) [CEq ''id'']"
  have "list_all plain_text (tl (map fst (ts_columns spec)))" using schema_plain [OF assms] by (cases "map fst (ts_columns spec)") auto
  then have "sql_exec G ?q = sql_exec st ?q"
    using schema_texts(3) [OF assms] bound_update [OF plain_table [OF assms] _ used_plain [OF assms, of "[CEq ''id'']"]]
    by (intro sent(1)) (simp add: table_def used_conds_def)
  with exists_guarded [OF assms] show ?thesis by (intro ext) (simp only: execChanged_def guarded_simps)
qed

lemma consume_guarded:
  "execCount G (update_text '''' (table st tableAuthorizationCodes) [''consumed_at''] [CEq ''id'', CNull ''consumed_at''])
     = execCount st (update_text '''' (table st tableAuthorizationCodes) [''consumed_at''] [CEq ''id'', CNull ''consumed_at''])"
proof -
  let ?q = "update_text '''' (table st tableAuthorizationCodes) [''consumed_at''] [CEq ''id'', CNull ''consumed_at'']"
  have b: "rebind (sq_dialect st) ?q = update_text (sq_dialect st) (table st tableAuthorizationCodes) [''consumed_at''] [CEq ''id'', CNull ''consumed_at'']"
    using plain_table [OF authorizationCodeTable_simps(1)]
    by (intro bound_update) (simp_all add: plain_text_def plain_conds_def cond_columns_def)
  have "sql_exec G ?q = sql_exec st ?q"
    by (rule sent(1), unfold b) (insert schema_texts(4) [OF authorizationCodeTable_simps(1)], simp add: table_def)
  then show ?thesis by (intro ext) (simp only: execCount_def)
qed

lemma list_guarded:
  assumes "spec \<in> set schema" and "cs \<in> set (used_conds (ts_name spec))"
  shows "sql_list G (table st (ts_name spec)) (column_text spec) (where_text '''' 1 cs) = sql_list st (table st (ts_name spec)) (column_text spec) (where_text '''' 1 cs)"
proof -
  let ?tab = "table st (ts_name spec)"
  have c: "count_text '''' ?tab cs = ''SELECT COUNT(*) FROM '' @ ?tab @ where_text '''' 1 cs"
    by (simp add: count_text_def)
  have p: "page_text '''' ?tab spec cs = ''SELECT '' @ column_text spec @ '' FROM '' @ ?tab @ where_text '''' 1 cs @
      '' ORDER BY created_at, id LIMIT ? OFFSET ?''"
    by (simp add: page_text_def ph_def Let_def)
  have "sql_query G (count_text '''' ?tab cs) = sql_query st (count_text '''' ?tab cs)"
    using schema_texts(5) [OF assms] bound_count [OF plain_table [OF assms(1)] used_plain [OF assms]] by (intro sent(2)) (simp add: table_def)
  note count = query_sent [OF this, unfolded c]
  have page: "sql_query G (page_text '''' ?tab spec cs) = sql_query st (page_text '''' ?tab spec cs)"
    using schema_texts(5) [OF assms] bound_page [OF plain_table [OF assms(1)] assms(1) used_plain [OF assms]] by (intro sent(2)) (simp add: table_def)
  show ?thesis by (intro ext) (simp only: sql_list_def sql_count_def count page [unfolded p])
qed

lemma ListClients_guarded: "sql_ListClients G = sql_ListClients st"
  by (intro ext) (simp only: ListClients_form guarded_simps list_guarded [OF clientTable_simps(1) used_clientTable(3)])

lemma GetClientById_guarded: "sql_GetClientById G = sql_GetClientById st"
  by (intro ext) (simp only: GetClientById_form guarded_simps one_guarded [OF clientTable_simps(1) used_clientTable(2)])

lemma GetClientByClientId_guarded: "sql_GetClientByClientId G = sql_GetClientByClientId st"
  by (intro ext) (simp only: GetClientByClientId_form guarded_simps one_guarded [OF clientTable_simps(1) used_clientTable(1)])

lemma CreateClient_guarded: "sql_CreateClient G = sql_CreateClient st"
  by (intro ext) (simp only: CreateClient_form guarded_simps insert_guarded [OF clientTable_simps(1)])

lemma UpdateClient_guarded: "sql_UpdateClient G = sql_UpdateClient st"
  by (intro ext) (simp only: UpdateClient_form guarded_simps change_guarded [OF clientTable_simps(1)])

lemma DeleteClient_guarded: "sql_DeleteClient G = sql_DeleteClient st"
  by (intro ext) (simp only: DeleteClient_form guarded_simps delete_guarded [OF clientTable_simps(1)])

lemma ListUsers_guarded: "sql_ListUsers G = sql_ListUsers st"
  by (intro ext) (simp only: ListUsers_form guarded_simps list_guarded [OF userTable_simps(1) user_conds_used])

lemma GetUserById_guarded: "sql_GetUserById G = sql_GetUserById st"
  by (intro ext) (simp only: GetUserById_form guarded_simps one_guarded [OF userTable_simps(1) used_userTable(1)])

lemma GetUserByNormalizedUsername_guarded: "sql_GetUserByNormalizedUsername G = sql_GetUserByNormalizedUsername st"
  by (intro ext) (simp only: GetUserByNormalizedUsername_form guarded_simps one_guarded [OF userTable_simps(1) used_userTable(3)])

lemma GetUserByNormalizedEmail_guarded: "sql_GetUserByNormalizedEmail G = sql_GetUserByNormalizedEmail st"
  by (intro ext) (simp only: GetUserByNormalizedEmail_form guarded_simps one_guarded [OF userTable_simps(1) used_userTable(2)])

lemma CreateUser_guarded: "sql_CreateUser G = sql_CreateUser st"
  by (intro ext) (simp only: CreateUser_form guarded_simps insert_guarded [OF userTable_simps(1)])

lemma UpdateUser_guarded: "sql_UpdateUser G = sql_UpdateUser st"
  by (intro ext) (simp only: UpdateUser_form guarded_simps change_guarded [OF userTable_simps(1)])

lemma DeleteUser_guarded: "sql_DeleteUser G = sql_DeleteUser st"
  by (intro ext) (simp only: DeleteUser_form guarded_simps delete_guarded [OF userTable_simps(1)])

lemma ListAccessTokens_guarded: "sql_ListAccessTokens G = sql_ListAccessTokens st"
  by (intro ext) (simp only: ListAccessTokens_form guarded_simps list_guarded [OF accessTokenTable_simps(1) token_conds_used_access])

lemma GetAccessTokenById_guarded: "sql_GetAccessTokenById G = sql_GetAccessTokenById st"
  by (intro ext) (simp only: GetAccessTokenById_form guarded_simps one_guarded [OF accessTokenTable_simps(1) used_accessTokenTable(1)])

lemma GetAccessTokenByHash_guarded: "sql_GetAccessTokenByHash G = sql_GetAccessTokenByHash st"
  by (intro ext) (simp only: GetAccessTokenByHash_form guarded_simps one_guarded [OF accessTokenTable_simps(1) used_accessTokenTable(2)])

lemma CreateAccessToken_guarded: "sql_CreateAccessToken G = sql_CreateAccessToken st"
  by (intro ext) (simp only: CreateAccessToken_form guarded_simps insert_guarded [OF accessTokenTable_simps(1)])

lemma DeleteAccessToken_guarded: "sql_DeleteAccessToken G = sql_DeleteAccessToken st"
  by (intro ext) (simp only: DeleteAccessToken_form guarded_simps delete_guarded [OF accessTokenTable_simps(1)])

lemma DeleteAccessTokens_guarded: "sql_DeleteAccessTokens G = sql_DeleteAccessTokens st"
  by (intro ext) (simp only: DeleteAccessTokens_form guarded_simps count_guarded [OF accessTokenTable_simps(1) token_conds_used_access])

lemma ListRefreshTokens_guarded: "sql_ListRefreshTokens G = sql_ListRefreshTokens st"
  by (intro ext) (simp only: ListRefreshTokens_form guarded_simps list_guarded [OF refreshTokenTable_simps(1) token_conds_used_refresh])

lemma GetRefreshTokenById_guarded: "sql_GetRefreshTokenById G = sql_GetRefreshTokenById st"
  by (intro ext) (simp only: GetRefreshTokenById_form guarded_simps one_guarded [OF refreshTokenTable_simps(1) used_refreshTokenTable(1)])

lemma GetRefreshTokenByHash_guarded: "sql_GetRefreshTokenByHash G = sql_GetRefreshTokenByHash st"
  by (intro ext) (simp only: GetRefreshTokenByHash_form guarded_simps one_guarded [OF refreshTokenTable_simps(1) used_refreshTokenTable(2)])

lemma CreateRefreshToken_guarded: "sql_CreateRefreshToken G = sql_CreateRefreshToken st"
  by (intro ext) (simp only: CreateRefreshToken_form guarded_simps insert_guarded [OF refreshTokenTable_simps(1)])

lemma UpdateRefreshToken_guarded: "sql_UpdateRefreshToken G = sql_UpdateRefreshToken st"
  by (intro ext) (simp only: UpdateRefreshToken_form guarded_simps change_guarded [OF refreshTokenTable_simps(1)])

lemma DeleteRefreshToken_guarded: "sql_DeleteRefreshToken G = sql_DeleteRefreshToken st"
  by (intro ext) (simp only: DeleteRefreshToken_form guarded_simps delete_guarded [OF refreshTokenTable_simps(1)])

lemma DeleteRefreshTokens_guarded: "sql_DeleteRefreshTokens G = sql_DeleteRefreshTokens st"
  by (intro ext) (simp only: DeleteRefreshTokens_form guarded_simps count_guarded [OF refreshTokenTable_simps(1) token_conds_used_refresh])

lemma GetAuthorizationCodeByHash_guarded: "sql_GetAuthorizationCodeByHash G = sql_GetAuthorizationCodeByHash st"
  by (intro ext) (simp only: GetAuthorizationCodeByHash_form guarded_simps one_guarded [OF authorizationCodeTable_simps(1) used_authorizationCodeTable(1)])

lemma CreateAuthorizationCode_guarded: "sql_CreateAuthorizationCode G = sql_CreateAuthorizationCode st"
  by (intro ext) (simp only: CreateAuthorizationCode_form guarded_simps insert_guarded [OF authorizationCodeTable_simps(1)])

lemma ConsumeAuthorizationCode_guarded: "sql_ConsumeAuthorizationCode G = sql_ConsumeAuthorizationCode st"
  by (intro ext) (simp only: sql_ConsumeAuthorizationCode_def Let_def consume_text guarded_simps consume_guarded
      exists_guarded [OF authorizationCodeTable_simps(1), unfolded authorizationCodeTable_simps(2)])

lemma DeleteAuthorizationCode_guarded: "sql_DeleteAuthorizationCode G = sql_DeleteAuthorizationCode st"
  by (intro ext) (simp only: DeleteAuthorizationCode_form guarded_simps delete_guarded [OF authorizationCodeTable_simps(1)])

lemma DeleteExpiredAuthorizationCodes_guarded: "sql_DeleteExpiredAuthorizationCodes G = sql_DeleteExpiredAuthorizationCodes st"
  by (intro ext) (simp only: DeleteExpiredAuthorizationCodes_form guarded_simps count_guarded [OF authorizationCodeTable_simps(1) used_authorizationCodeTable(2)])

lemma GetUserTokenByHash_guarded: "sql_GetUserTokenByHash G = sql_GetUserTokenByHash st"
  by (intro ext) (simp only: GetUserTokenByHash_form guarded_simps one_guarded [OF userTokenTable_simps(1) used_userTokenTable(1)])

lemma CreateUserToken_guarded: "sql_CreateUserToken G = sql_CreateUserToken st"
  by (intro ext) (simp only: CreateUserToken_form guarded_simps insert_guarded [OF userTokenTable_simps(1)])

lemma DeleteUserToken_guarded: "sql_DeleteUserToken G = sql_DeleteUserToken st"
  by (intro ext) (simp only: DeleteUserToken_form guarded_simps delete_guarded [OF userTokenTable_simps(1)])

lemma DeleteUserTokens_guarded: "sql_DeleteUserTokens G = sql_DeleteUserTokens st"
  by (intro ext) (simp only: DeleteUserTokens_form guarded_simps count_guarded [OF userTokenTable_simps(1) used_userTokenTable(2)])

lemma DeleteExpiredUserTokens_guarded: "sql_DeleteExpiredUserTokens G = sql_DeleteExpiredUserTokens st"
  by (intro ext) (simp only: DeleteExpiredUserTokens_form guarded_simps count_guarded [OF userTokenTable_simps(1) used_userTokenTable(3)])

lemmas guarded_ops = ListClients_guarded GetClientById_guarded GetClientByClientId_guarded CreateClient_guarded
  UpdateClient_guarded DeleteClient_guarded ListUsers_guarded GetUserById_guarded
  GetUserByNormalizedUsername_guarded GetUserByNormalizedEmail_guarded CreateUser_guarded UpdateUser_guarded
  DeleteUser_guarded ListAccessTokens_guarded GetAccessTokenById_guarded GetAccessTokenByHash_guarded
  CreateAccessToken_guarded DeleteAccessToken_guarded DeleteAccessTokens_guarded ListRefreshTokens_guarded
  GetRefreshTokenById_guarded GetRefreshTokenByHash_guarded CreateRefreshToken_guarded UpdateRefreshToken_guarded
  DeleteRefreshToken_guarded DeleteRefreshTokens_guarded GetAuthorizationCodeByHash_guarded CreateAuthorizationCode_guarded
  ConsumeAuthorizationCode_guarded DeleteAuthorizationCode_guarded DeleteExpiredAuthorizationCodes_guarded GetUserTokenByHash_guarded
  CreateUserToken_guarded DeleteUserToken_guarded DeleteUserTokens_guarded DeleteExpiredUserTokens_guarded

lemma ops_guarded: "sql_ops G = sql_ops st"
  by (simp only: sql_ops_def guarded_ops)

end

end
