(* ===== verification/SqlProperties.thy ===== *)
theory SqlProperties
  imports SqlReference SqlTexts StoreContract
begin

text \<open>
  What the SQL store promises: the contract of the interface on every database that behaves as documented, rows that
  come back as they were, and statements whose text no argument can change.
\<close>

section \<open>The contract\<close>

definition sql_storable :: "sql_lib \<Rightarrow> storable" where
  "sql_storable lib = \<lparr>sb_client = row_client lib, sb_user = row_user, sb_access_token = row_access lib,
     sb_refresh_token = row_refresh lib, sb_code = row_code lib, sb_user_token = row_token,
     sb_time = sql_time, sb_cutoff = sql_time\<rparr>"

lemma sql_storable_simps [simp]:
  "sb_client (sql_storable lib) = row_client lib" "sb_user (sql_storable lib) = row_user"
  "sb_access_token (sql_storable lib) = row_access lib" "sb_refresh_token (sql_storable lib) = row_refresh lib"
  "sb_code (sql_storable lib) = row_code lib" "sb_user_token (sql_storable lib) = row_token"
  "sb_time (sql_storable lib) = sql_time" "sb_cutoff (sql_storable lib) = sql_time"
  "filter_on (sql_storable lib) f \<longleftrightarrow> cutoff_ok f"
  by (simp_all add: sql_storable_def filter_on_def cutoff_ok_def sql_time_ptr_def split: option.split)

definition ref_sql_empty :: ref_rows where
  "ref_sql_empty = (\<lambda>n. [])"

lemma ref_sql_empty_inv: "ref_sql_inv ref_sql_empty"
  by (simp add: ref_sql_inv_def rows_inv_def ref_sql_empty_def)

lemma ref_get_user:
  "sql_GetUserById ref_sql_store k d =
     (case map (map ref_rep) (rows_of userTable [CEq ''id''] [SqlString k] d) of
        [] \<Rightarrow> (Inl ErrNotFound, d)
      | x # _ \<Rightarrow> (case scanUser x of Inl e \<Rightarrow> (Inl (StoreFailure e), d) | Inr u \<Rightarrow> (Inr u, d)))"
proof -
  have known: "SelectRows userTable [CEq ''id''] \<in> set statements"
    using statements_known(5) [OF userTable_simps(1) ref_sql.user_table.id_typed] by blast
  have same: "''SELECT '' @ userColumns @ '' FROM '' @ table ref_sql_store tableUsers @ '' WHERE '' @ ''id'' @ '' = ?''
      = stmt_text (SelectRows userTable [CEq ''id''])"
    by (simp add: columns_text select_text_def where_text_def ph_def table_def ref_tab_def)
  have "sql_query ref_sql_store (stmt_text (SelectRows userTable [CEq ''id''])) [SqlString k] d
      = (Inr (map (map ref_rep) (rows_of userTable [CEq ''id''] [SqlString k] d), None), d)"
    unfolding sql_query_def ref_store_simps using ref_query [OF known] by (simp add: rebind_eq)
  then show ?thesis
    unfolding sql_GetUserById_def sql_getUser_def same getOne_def mapErr_def handle_def queryRow_def
    by (auto simp: ret_def fail_def split: list.split sum.split)
qed

lemma sql_meets_contract:
  assumes "sql_server st I data rep lk"
  shows "contract_on (sql_storable (sq_lib st)) (sql_ops st) I (sql_view (sq_lib st) \<circ> data) (to_lower (sl_lower (sq_lib st)))"
  unfolding contract_on_def sql_ops_def
  by (intro conjI allI impI; simp?; (elim conjE)?;
      (rule sql_server.sql_contract [OF assms] sql_server.sql_view_ok [OF assms]; assumption?))



section \<open>The statements\<close>

lemma sql_New_prefix: "sql_New db dialect p lib = Inr st \<Longrightarrow> isIdentifier (sq_prefix st)"
  by (auto simp: sql_New_def Let_def split: option.splits if_splits)

interpretation ref_prefix: sql_prefix ref_sql_store
  by unfold_locales (rule ref_sql.prefix)

text \<open>
  C29: a SQL store that \<open>New\<close> made sends only the statements of a list that its dialect and its table prefix determine: with
  a database that refuses every other text, each of the 36 operations does what it does without. Names, ids, scopes,
  search terms and whatever else an operation is given reach the database as arguments and are never part of a statement.
\<close>

theorem sql_texts_fixed:
  assumes "sql_New db dialect p lib = Inr st"
  shows "sql_ops (guarded st) = sql_ops st"
  by (rule sql_prefix.ops_guarded [OF sql_prefix.intro [OF sql_New_prefix [OF assms]]])

theorem sql_texts_fixed_witness:
  "sql_New (Some ref_sql) ''sqlite'' '''' ref_lib = Inr ref_sql_store \<and> sql_ops (guarded ref_sql_store) = sql_ops ref_sql_store"
proof -
  have "sql_New (Some ref_sql) ''sqlite'' '''' ref_lib = Inr ref_sql_store"
    by (simp add: sql_New_def DefaultTablePrefix_def isIdentifier_def ref_sql_store_def)
  with sql_texts_fixed [OF this] show ?thesis by simp
qed

end
