(* ===== verification/StoreTestProperties.thy ===== *)
theory StoreTestProperties
  imports StoreTestProofs MongoProperties SqlProperties
begin

text \<open>
  The conformance suite on the three stores: what it asks for follows from the contract, and the MongoDB and the SQL store meet
  the contract on what the suite stores.
\<close>

text \<open>
  C28: every store that meets the contract of the interface passes every test of the repository's conformance suite on an
  empty store, except that a test may report a failure of the database itself. What the store is required to keep exactly
  are the entities the suite stores.
\<close>

theorem conformance_suite_sound:
  assumes "contract_on sb ops I view (to_lower ul)" and "suite_fits sb lib" and "I s" and "view s = no_tables"
    and "(name, t) \<in> set (storetest_Run lib ops)" and "t s = (r, s')"
  shows "r = Inr () \<or> (\<exists>what msg. r = Inl (Unexpected what (Some (StoreFailure msg))))"
  by (rule conforming_passes [OF assms])

text \<open>The times of the suite have whole milliseconds, and a SQL database has them in its range.\<close>

lemma suite_fits_mongo: "suite_fits mongo_storable lib"
  by code_simp

lemma sql_time_at_min: "- 1000 \<le> m \<Longrightarrow> m \<le> 1000 \<Longrightarrow> sql_time (at_min m)"
  by (simp add: sql_time_def at_min_def base_time_def)

lemma suite_users_sql: "list_all row_user (suite_users lib)"
  by code_simp

lemma suite_fits_sql:
  assumes json: "\<And>xs. json_list jl xs"
  shows "suite_fits (sql_storable jl) lib"
  by (simp add: suite_fits_def suite_users_sql suite_clients_def suite_accessTokens_def suite_refreshTokens_def suite_codes_def
      suite_userTokens_def row_client_def row_access_def row_refresh_def row_code_def row_token_def json sql_time_at_min sql_time_ptr_def
      test_newClient_def test_updatedClient_def test_newAccessToken_def test_duplicateHash_def test_noUser_def test_newRefreshToken_def
      test_duplicateRefresh_def test_updatedRefresh_def test_newCode_def test_duplicateCode_def test_newToken_def)

text \<open>So both pass the suite, on every database that behaves as documented.\<close>

lemma mongo_passes_suite:
  assumes "mongo_database st I data rx" and "I s" and "mongo_view (data s) = no_tables"
    and "(name, t) \<in> set (storetest_Run lib (mongo_ops ul st))" and "t s = (r, s')"
  shows "r = Inr () \<or> (\<exists>what msg. r = Inl (Unexpected what (Some (StoreFailure msg))))"
proof -
  have c: "contract_on mongo_storable (mongo_ops ul st) I (mongo_view \<circ> data) (to_lower ul)"
    by (rule mongo_meets_contract [OF assms(1)])
  from conforming_passes [OF c suite_fits_mongo assms(2) _ assms(4,5)] assms(3) show ?thesis by simp
qed

lemma sql_passes_suite:
  assumes "sql_server st I data rep lk" and "\<And>xs. json_list (sq_lib st) xs" and "I s" and "sql_view (sq_lib st) (data s) = no_tables"
    and "(name, t) \<in> set (storetest_Run lib (sql_ops st))" and "t s = (r, s')"
  shows "r = Inr () \<or> (\<exists>what msg. r = Inl (Unexpected what (Some (StoreFailure msg))))"
proof -
  have c: "contract_on (sql_storable (sq_lib st)) (sql_ops st) I (sql_view (sq_lib st) \<circ> data) (to_lower (sl_lower (sq_lib st)))"
    by (rule sql_meets_contract [OF assms(1)])
  from conforming_passes [OF c suite_fits_sql assms(3) _ assms(5,6)] assms(2,4) show ?thesis by simp
qed

text \<open>The test of the clients on the reference database of the MongoDB driver.\<close>

theorem conformance_suite_sound_witness:
  "let r = fst (testClients (mongo_ops (\<lambda>s. s) ref_store) ref_empty)
   in r = Inr () \<or> (\<exists>what msg. r = Inl (Unexpected what (Some (StoreFailure msg))))"
proof -
  obtain r s' where q: "testClients (mongo_ops (\<lambda>s. s) ref_store) ref_empty = (r, s')" by fastforce
  have c: "contract_on mongo_storable (mongo_ops (\<lambda>s. s) ref_store) ref_inv (mongo_view \<circ> ref_data) (to_lower (\<lambda>s. s))"
    by (rule mongo_meets_contract) (rule ref_db.mongo_database_axioms)
  have e: "ref_inv ref_empty" "(mongo_view \<circ> ref_data) ref_empty = no_tables"
    by (auto simp: ref_inv_def ref_empty_def docs_inv_def ref_data_def mongo_view_def no_tables_def)
  have "(''Clients'', testClients (mongo_ops (\<lambda>s. s) ref_store)) \<in> set (storetest_Run sample_lib (mongo_ops (\<lambda>s. s) ref_store))"
    by (simp add: storetest_Run_def)
  from conformance_suite_sound [OF c suite_fits_mongo e this q] q show ?thesis by (simp add: Let_def)
qed

end
