(* ===== verification/Adapters.thy ===== *)
theory Adapters
  imports Router "HOL-Library.AList"
begin

text \<open>
  The adapters of the third-party routers (\<open>src/router\<close>). What the adapters call of a router is a parameter: the function
  that registers a handler, with the router's own type of handler, and the path parameters it hands to that handler. A
  \<open>http.Request\<close> is a value with the parameters in its context.
\<close>

type_synonym ('q, 'a) http_handler = "'q \<times> string gomap option \<Rightarrow> 'a"

definition attach :: "'q \<times> string gomap option \<Rightarrow> string gomap \<Rightarrow> 'q \<times> string gomap option" where
  "attach req params = (fst req, WithParams (snd req) params)"

text \<open>The loop over keys and values, up to the shorter list; and the loop over pairs.\<close>

fun params_loop :: "string list \<Rightarrow> string list \<Rightarrow> string gomap \<Rightarrow> string gomap" where
  "params_loop (k # ks) (v # vs) params = params_loop ks vs (AList.update k v params)"
| "params_loop ks vs params = params"

fun pairs_loop :: "(string \<times> string) list \<Rightarrow> string gomap \<Rightarrow> string gomap" where
  "pairs_loop [] params = params"
| "pairs_loop ((k, v) # ps) params = pairs_loop ps (AList.update k v params)"

section \<open>chi\<close>

text \<open>chi hands over its route context, with the keys and values of the URL parameters, or none.\<close>

definition chi_Handle ::
  "(string \<Rightarrow> string \<Rightarrow> (('q \<times> string gomap option) \<times> (string list \<times> string list) option \<Rightarrow> 'a) \<Rightarrow> 'r \<Rightarrow> 'r) \<Rightarrow>
   (('q, 'a) http_handler, 'r) router" where
  "chi_Handle Method method pattern handler =
     Method method pattern (\<lambda>(req, rctx).
       let params = (case rctx of None \<Rightarrow> [] | Some (keys, values) \<Rightarrow> params_loop keys values [])
       in handler (attach req params))"

section \<open>gin and httprouter\<close>

text \<open>Both hand over a list of keys and values.\<close>

definition gin_Handle ::
  "(string \<Rightarrow> string \<Rightarrow> (('q \<times> string gomap option) \<times> (string \<times> string) list \<Rightarrow> 'a) \<Rightarrow> 'r \<Rightarrow> 'r) \<Rightarrow>
   (('q, 'a) http_handler, 'r) router" where
  "gin_Handle Handle method pattern handler =
     Handle method (ColonPattern pattern) (\<lambda>(req, ps).
       let params = (if 0 < length ps then pairs_loop ps [] else [])
       in handler (attach req params))"

definition httprouter_Handle ::
  "(string \<Rightarrow> string \<Rightarrow> (('q \<times> string gomap option) \<times> (string \<times> string) list \<Rightarrow> 'a) \<Rightarrow> 'r \<Rightarrow> 'r) \<Rightarrow>
   (('q, 'a) http_handler, 'r) router" where
  "httprouter_Handle Handle method pattern handler =
     Handle method (ColonPattern pattern) (\<lambda>(req, ps).
       let params = (if 0 < length ps then pairs_loop ps [] else [])
       in handler (attach req params))"

section \<open>echo\<close>

text \<open>echo hands over the names and the values of its context; the handler returns no error.\<close>

definition echo_Handle ::
  "(string \<Rightarrow> string \<Rightarrow> (('q \<times> string gomap option) \<times> string list \<times> string list \<Rightarrow> 'a) \<Rightarrow> 'r \<Rightarrow> 'r) \<Rightarrow>
   (('q, 'a) http_handler, 'r) router" where
  "echo_Handle Add method pattern handler =
     Add method (ColonPattern pattern) (\<lambda>(req, names, values).
       let params = params_loop names values [] in handler (attach req params))"

section \<open>gorilla/mux\<close>

text \<open>\<open>Handle\<close> gives a route, which \<open>Methods\<close> restricts to the method; \<open>mux.Vars\<close> is a map.\<close>

definition mux_Handle ::
  "(string \<Rightarrow> (('q \<times> string gomap option) \<times> string gomap \<Rightarrow> 'a) \<Rightarrow> 'r \<Rightarrow> 'route \<times> 'r) \<Rightarrow> ('route \<Rightarrow> string \<Rightarrow> 'r \<Rightarrow> 'r) \<Rightarrow>
   (('q, 'a) http_handler, 'r) router" where
  "mux_Handle Handle Methods method pattern handler r =
     (case Handle pattern (\<lambda>(req, vars). handler (attach req vars)) r of (route, r1) \<Rightarrow> Methods route method r1)"

section \<open>Properties\<close>

lemma params_loop_map: "map_of (params_loop ks vs params) = map_of params ++ map_of (rev (zip ks vs))"
  by (induction ks vs params rule: params_loop.induct) (simp_all add: update_conv' map_add_def fun_eq_iff split: option.split)

lemma pairs_loop_map: "map_of (pairs_loop ps params) = map_of params ++ map_of (rev ps)"
  by (induction ps params rule: pairs_loop.induct) (simp_all add: update_conv' map_add_def fun_eq_iff split: option.split)

text \<open>The value of a path parameter that was bound once; other names are left to \<open>pathValue\<close>.\<close>

definition bound_value :: "(string \<times> string) list \<Rightarrow> (string \<Rightarrow> string) \<Rightarrow> string \<Rightarrow> string" where
  "bound_value ps pathValue name = (case map_of ps name of Some v \<Rightarrow> v | None \<Rightarrow> pathValue name)"

lemma map_of_rev_distinct: "distinct (map fst ps) \<Longrightarrow> map_of (rev ps) = map_of ps"
  by (intro map_of_inject_set [THEN iffD2]) (simp_all add: rev_map [symmetric])

lemma param_attached:
  assumes "map_of params = map_of ps"
  shows "router_Param (snd (attach (q, None) params)) pathValue name = bound_value ps pathValue name"
proof (cases "params = []")
  case True
  with assms have "map_of ps = Map.empty" by simp
  with True show ?thesis by (simp add: attach_def WithParams_def router_Param_def bound_value_def)
next
  case False
  with assms show ?thesis by (simp add: attach_def WithParams_def router_Param_def bound_value_def)
qed

text \<open>A router that keeps what is registered, and a handler that answers with a path parameter.\<close>

definition record_route :: "('h, (string \<times> string \<times> 'h) list) router" where
  "record_route method pattern h routes = routes @ [(method, pattern, h)]"

definition param_handler :: "(string \<Rightarrow> string) \<Rightarrow> string \<Rightarrow> ('q, string) http_handler" where
  "param_handler pathValue name = (\<lambda>(q, context). router_Param context pathValue name)"

lemma param_handler_attach:
  "map_of params = map_of ps \<Longrightarrow> param_handler pathValue name (attach (q, None) params) = bound_value ps pathValue name"
  using param_attached [of params ps q pathValue name] by (simp add: param_handler_def case_prod_unfold)

text \<open>
  C31: all five adapters give a handler the same path parameters. Each registers the method and the pattern, in the syntax
  of its router, with a handler that runs the given one; and when the router binds the names of the pattern to values,
  in whatever form it does, \<open>Param\<close> answers every name with its value and leaves the others to the request.
\<close>

theorem adapters_agree:
  assumes "distinct names" and "length values = length names"
  shows "(\<exists>h. chi_Handle record_route m p (param_handler pathValue name) [] = [(m, p, h)]
      \<and> h ((q, None), Some (names, values)) = bound_value (zip names values) pathValue name)
    \<and> (\<exists>h. gin_Handle record_route m p (param_handler pathValue name) [] = [(m, ColonPattern p, h)]
      \<and> h ((q, None), zip names values) = bound_value (zip names values) pathValue name)
    \<and> (\<exists>h. httprouter_Handle record_route m p (param_handler pathValue name) [] = [(m, ColonPattern p, h)]
      \<and> h ((q, None), zip names values) = bound_value (zip names values) pathValue name)
    \<and> (\<exists>h. echo_Handle record_route m p (param_handler pathValue name) [] = [(m, ColonPattern p, h)]
      \<and> h ((q, None), names, values) = bound_value (zip names values) pathValue name)
    \<and> (\<exists>h. mux_Handle (\<lambda>p h r. ((p, h), r)) (\<lambda>(p, h). \<lambda>m. record_route m p h) m p (param_handler pathValue name) [] = [(m, p, h)]
      \<and> h ((q, None), zip names values) = bound_value (zip names values) pathValue name)"
proof -
  have d: "distinct (map fst (zip names values))" using assms by simp
  have loops: "map_of (params_loop names values []) = map_of (zip names values)"
    "map_of (pairs_loop (zip names values) []) = map_of (zip names values)"
    using map_of_rev_distinct [OF d] by (auto simp: params_loop_map pairs_loop_map)
  show ?thesis
    unfolding chi_Handle_def gin_Handle_def httprouter_Handle_def echo_Handle_def mux_Handle_def record_route_def
    by (simp add: param_handler_attach [OF refl] bound_value_def loops(1,2))
qed

theorem adapters_agree_witness:
  "(\<exists>h. chi_Handle record_route ''GET'' ''/users/{id}'' (param_handler (\<lambda>_. '''') ''id'') [] = [(''GET'', ''/users/{id}'', h)]
      \<and> h (((), None), Some ([''id''], [''u-1''])) = ''u-1'')
    \<and> ColonPattern ''/users/{id}'' = ''/users/:id''"
proof -
  have "ColonPattern ''/users/{id}'' = ''/users/:id''"
    using pattern_conversion [of "[(''/users/'', ''id'')]" "''''"] by (simp add: canonical_def)
  then show ?thesis
    using adapters_agree [of "[''id'']" "[''u-1'']" "''GET''" "''/users/{id}''" "\<lambda>_. ''''" "''id''" "()"]
    by (simp add: bound_value_def)
qed

end
