(* ===== verification/Smtp.thy ===== *)
theory Smtp
  imports Mail Security Format "HOL-Library.Sublist"
begin

text \<open>
  The SMTP sender and the rendering of messages of package \<open>pkg/mail\<close>. The dialers and the client of \<open>net/smtp\<close> are a
  parameter: actions on a state of their own. Of the encoders of \<open>mime\<close>, the Q-encoding of the subject and the
  quoted-printable body are parameters; the frame of a multipart message is written out.
\<close>

section \<open>Rendering\<close>

definition crlf :: string where "crlf = [CHR 0x0D, CHR 0x0A]"

record mime_lib =
  mm_QEncode :: "string \<Rightarrow> string"
  mm_QuotedPrintable :: "string \<Rightarrow> string + string"
  mm_RFC1123Z :: "time \<Rightarrow> string"
  mm_Boundary :: "byte list \<Rightarrow> string"

definition header :: "string \<Rightarrow> string \<Rightarrow> string" where
  "header k v = k @ '': '' @ v @ crlf"

text \<open>A part of a multipart message: its delimiter line, its headers by name, and the body.\<close>

definition mime_part :: "string \<Rightarrow> bool \<Rightarrow> string \<Rightarrow> string \<Rightarrow> string" where
  "mime_part boundary first contentType body =
     (if first then '''' else crlf) @ ''--'' @ boundary @ crlf
     @ header ''Content-Transfer-Encoding'' ''quoted-printable'' @ header ''Content-Type'' contentType @ crlf @ body"

text \<open>
  \<open>Build\<close> at a time, with the 16 random bytes of the message id and the 30 of the boundary; only the encoder of a body
  can fail.
\<close>

definition Build :: "mime_lib \<Rightarrow> time \<Rightarrow> byte list \<Rightarrow> byte list \<Rightarrow> string \<Rightarrow> message \<Rightarrow> string + string" where
  "Build lib now idBytes boundaryBytes from_addr msg =
     (let headers = header ''From'' from_addr @ header ''To'' (msg_To msg) @ header ''Subject'' (mm_QEncode lib (msg_Subject msg))
            @ header ''Date'' (mm_RFC1123Z lib now)
            @ header ''Message-ID'' (''<'' @ RandomToken_of idBytes @ ''@'' @ domainOf from_addr @ ''>'')
            @ header ''MIME-Version'' ''1.0''
      in if msg_HTML msg = '''' then
           (case mm_QuotedPrintable lib (msg_Text msg) of Inl e \<Rightarrow> Inl e
            | Inr body \<Rightarrow> Inr (headers @ header ''Content-Type'' ''text/plain; charset=utf-8''
                @ header ''Content-Transfer-Encoding'' ''quoted-printable'' @ crlf @ body))
         else
           (let boundary = mm_Boundary lib boundaryBytes
            in case mm_QuotedPrintable lib (msg_Text msg) of Inl e \<Rightarrow> Inl e
               | Inr txtBody \<Rightarrow> (case mm_QuotedPrintable lib (msg_HTML msg) of Inl e \<Rightarrow> Inl e
                 | Inr htmlBody \<Rightarrow> Inr (headers @ header ''Content-Type'' (''multipart/alternative; boundary='' @ boundary) @ crlf
                     @ mime_part boundary True ''text/plain; charset=utf-8'' txtBody
                     @ mime_part boundary False ''text/html; charset=utf-8'' htmlBody
                     @ crlf @ ''--'' @ boundary @ ''--'' @ crlf))))"

section \<open>Sending\<close>

record SMTPConfig =
  sc_Host :: string
  sc_Port :: int
  sc_Username :: string
  sc_Password :: string
  sc_From :: string
  sc_ImplicitTLS :: bool
  sc_RequireTLS :: bool
  sc_Timeout :: duration

definition NewSMTPSender :: "SMTPConfig \<Rightarrow> SMTPConfig" where
  "NewSMTPSender config0 =
     (let config1 = (if sc_Port config0 = 0 then config0\<lparr>sc_Port := 587\<rparr> else config0)
      in if sc_Timeout config1 = 0 then config1\<lparr>sc_Timeout := 30 * 1000000000\<rparr> else config1)"

text \<open>\<open>net.JoinHostPort\<close>.\<close>

definition JoinHostPort :: "string \<Rightarrow> string \<Rightarrow> string" where
  "JoinHostPort host port = (if CHR '':'' \<in> set host then ''['' @ host @ '']:'' @ port else host @ '':'' @ port)"

text \<open>What \<open>Send\<close> calls of \<open>net\<close>, \<open>crypto/tls\<close> and \<open>net/smtp\<close>.\<close>

record 'n smtp_net =
  sn_Dial :: "string \<Rightarrow> duration \<Rightarrow> ('n, string, unit) act"
  sn_DialTLS :: "string \<Rightarrow> string \<Rightarrow> duration \<Rightarrow> ('n, string, unit) act"
  sn_SetDeadline :: "time \<Rightarrow> 'n \<Rightarrow> 'n"
  sn_NewClient :: "string \<Rightarrow> ('n, string, unit) act"
  sn_CloseConn :: "'n \<Rightarrow> 'n"
  sn_Close :: "'n \<Rightarrow> 'n"
  sn_Extension :: "string \<Rightarrow> 'n \<Rightarrow> bool \<times> 'n"
  sn_StartTLS :: "string \<Rightarrow> ('n, string, unit) act"
  sn_Auth :: "string \<Rightarrow> string \<Rightarrow> string \<Rightarrow> ('n, string, unit) act"
  sn_Mail :: "string \<Rightarrow> ('n, string, unit) act"
  sn_Rcpt :: "string \<Rightarrow> ('n, string, unit) act"
  sn_Data :: "('n, string, unit) act"
  sn_Write :: "string \<Rightarrow> ('n, string, unit) act"
  sn_CloseData :: "('n, string, unit) act"
  sn_Quit :: "('n, string, unit) act"

definition modify :: "('n \<Rightarrow> 'n) \<Rightarrow> ('n, 'e, unit) act" where
  "modify f = (\<lambda>s. (Inr (), f s))"

definition asked :: "('n \<Rightarrow> bool \<times> 'n) \<Rightarrow> ('n, 'e, bool) act" where
  "asked f = (\<lambda>s. case f s of (b, s') \<Rightarrow> (Inr b, s'))"

text \<open>A deferred call runs after the rest, whatever its result.\<close>

definition deferred :: "('n \<Rightarrow> 'n) \<Rightarrow> ('n, 'e, 'a) act \<Rightarrow> ('n, 'e, 'a) act" where
  "deferred f m = (\<lambda>s. case m s of (r, s') \<Rightarrow> (r, f s'))"

text \<open>The session once the client is there: TLS, authentication, envelope and data.\<close>

definition smtp_tls :: "'n smtp_net \<Rightarrow> SMTPConfig \<Rightarrow> ('n, string, unit) act" where
  "smtp_tls net cfg =
     (if \<not> sc_ImplicitTLS cfg then
        andThen (asked (sn_Extension net ''STARTTLS'')) (\<lambda>ok.
          if ok then sn_StartTLS net (sc_Host cfg)
          else if sc_RequireTLS cfg then fail (''mail: smtp server doesn'' @ [CHR 0x27] @ ''t support STARTTLS'') else ret ())
      else ret ())"

definition smtp_auth :: "'n smtp_net \<Rightarrow> SMTPConfig \<Rightarrow> ('n, string, unit) act" where
  "smtp_auth net cfg =
     (if sc_Username cfg \<noteq> '''' then sn_Auth net (sc_Username cfg) (sc_Password cfg) (sc_Host cfg) else ret ())"

definition smtp_envelope :: "'n smtp_net \<Rightarrow> SMTPConfig \<Rightarrow> string \<Rightarrow> string \<Rightarrow> ('n, string, unit) act" where
  "smtp_envelope net cfg to_addr data =
     andThen (sn_Mail net (sc_From cfg)) (\<lambda>_.
     andThen (sn_Rcpt net to_addr) (\<lambda>_.
     andThen (sn_Data net) (\<lambda>_.
     andThen (sn_Write net data) (\<lambda>_.
     andThen (sn_CloseData net) (\<lambda>_. sn_Quit net)))))"

definition smtp_session :: "'n smtp_net \<Rightarrow> SMTPConfig \<Rightarrow> string \<Rightarrow> string \<Rightarrow> ('n, string, unit) act" where
  "smtp_session net cfg to_addr data =
     andThen (smtp_tls net cfg) (\<lambda>_. andThen (smtp_auth net cfg) (\<lambda>_. smtp_envelope net cfg to_addr data))"

text \<open>\<open>Send\<close>, with the deadline of its context, the time, and the random bytes of the message.\<close>

definition contains_any :: "string \<Rightarrow> string \<Rightarrow> bool" where
  "contains_any s chars \<longleftrightarrow> list_ex (\<lambda>c. c \<in> set chars) s"

definition SMTPSender_Send ::
  "'n smtp_net \<Rightarrow> mime_lib \<Rightarrow> SMTPConfig \<Rightarrow> time option \<Rightarrow> time \<Rightarrow> byte list \<Rightarrow> byte list \<Rightarrow> message \<Rightarrow> ('n, string, unit) act" where
  "SMTPSender_Send net lib cfg deadline now idBytes boundaryBytes msg =
     (if sc_Host cfg = '''' \<or> sc_From cfg = '''' then fail ''mail: smtp host and from address are required''
      else if contains_any (msg_To msg) crlf \<or> contains_any (sc_From cfg) crlf then fail ''mail: invalid address''
      else case Build lib now idBytes boundaryBytes (sc_From cfg) msg of Inl e \<Rightarrow> fail e | Inr data \<Rightarrow>
        (let addr = JoinHostPort (sc_Host cfg) (int_text (sc_Port cfg))
         in andThen (if sc_ImplicitTLS cfg then sn_DialTLS net (sc_Host cfg) addr (sc_Timeout cfg)
              else sn_Dial net addr (sc_Timeout cfg)) (\<lambda>_.
            andThen (modify (sn_SetDeadline net (case deadline of Some t \<Rightarrow> t | None \<Rightarrow> now + sc_Timeout cfg))) (\<lambda>_.
            handle (sn_NewClient net (sc_Host cfg))
              (\<lambda>e. andThen (modify (sn_CloseConn net)) (\<lambda>_. fail e))
              (\<lambda>_. deferred (sn_Close net) (smtp_session net cfg (msg_To msg) data))))))"

section \<open>What goes over the connection\<close>

text \<open>
  A network that notes what it is given: whether a step began or ended in TLS, and each command that reveals something.
  Underneath is any other network.
\<close>

datatype smtp_event = Secured | Credentials string string | Sender string | Recipient string | Content string

definition noting :: "(unit \<Rightarrow> smtp_event list) \<Rightarrow> smtp_event list \<Rightarrow> ('n, string, unit) act \<Rightarrow> ('n \<times> smtp_event list, string, unit) act" where
  "noting after_ok before m = (\<lambda>(s, log). case m s of
     (Inl e, s') \<Rightarrow> (Inl e, s', log @ before) | (Inr u, s') \<Rightarrow> (Inr u, s', log @ before @ after_ok u))"

definition noted :: "'n smtp_net \<Rightarrow> ('n \<times> smtp_event list) smtp_net" where
  "noted net =
     (let plain = noting (\<lambda>_. []) []; lift_fun = (\<lambda>f (s, log). (f s, log))
      in \<lparr>sn_Dial = (\<lambda>a t. plain (sn_Dial net a t)), sn_DialTLS = (\<lambda>h a t. noting (\<lambda>_. [Secured]) [] (sn_DialTLS net h a t)),
          sn_SetDeadline = (\<lambda>t. lift_fun (sn_SetDeadline net t)), sn_NewClient = (\<lambda>h. plain (sn_NewClient net h)),
          sn_CloseConn = lift_fun (sn_CloseConn net), sn_Close = lift_fun (sn_Close net),
          sn_Extension = (\<lambda>x (s, log). case sn_Extension net x s of (b, s') \<Rightarrow> (b, s', log)),
          sn_StartTLS = (\<lambda>h. noting (\<lambda>_. [Secured]) [] (sn_StartTLS net h)),
          sn_Auth = (\<lambda>u p h. noting (\<lambda>_. []) [Credentials u p] (sn_Auth net u p h)),
          sn_Mail = (\<lambda>f. noting (\<lambda>_. []) [Sender f] (sn_Mail net f)), sn_Rcpt = (\<lambda>t. noting (\<lambda>_. []) [Recipient t] (sn_Rcpt net t)),
          sn_Data = plain (sn_Data net), sn_Write = (\<lambda>d. noting (\<lambda>_. []) [Content d] (sn_Write net d)),
          sn_CloseData = plain (sn_CloseData net), sn_Quit = plain (sn_Quit net)\<rparr>)"

lemma noted_simps [simp]:
  "sn_Extension (noted net) x (s, log) = (case sn_Extension net x s of (b, s') \<Rightarrow> (b, s', log))"
  "sn_StartTLS (noted net) h = noting (\<lambda>_. [Secured]) [] (sn_StartTLS net h)"
  "sn_Auth (noted net) u p h = noting (\<lambda>_. []) [Credentials u p] (sn_Auth net u p h)"
  "sn_Mail (noted net) f = noting (\<lambda>_. []) [Sender f] (sn_Mail net f)"
  "sn_Rcpt (noted net) t = noting (\<lambda>_. []) [Recipient t] (sn_Rcpt net t)"
  "sn_Data (noted net) = noting (\<lambda>_. []) [] (sn_Data net)"
  "sn_Write (noted net) d = noting (\<lambda>_. []) [Content d] (sn_Write net d)"
  "sn_CloseData (noted net) = noting (\<lambda>_. []) [] (sn_CloseData net)" "sn_Quit (noted net) = noting (\<lambda>_. []) [] (sn_Quit net)"
  "sn_Dial (noted net) a v = noting (\<lambda>_. []) [] (sn_Dial net a v)"
  "sn_DialTLS (noted net) h a v = noting (\<lambda>_. [Secured]) [] (sn_DialTLS net h a v)"
  "sn_NewClient (noted net) h = noting (\<lambda>_. []) [] (sn_NewClient net h)"
  "sn_SetDeadline (noted net) m (s, log) = (sn_SetDeadline net m s, log)"
  "sn_CloseConn (noted net) (s, log) = (sn_CloseConn net s, log)" "sn_Close (noted net) (s, log) = (sn_Close net s, log)"
  by (simp_all add: noted_def Let_def)

text \<open>What an action adds to the log, and whether it succeeded.\<close>

definition emits :: "('n \<times> smtp_event list, string, unit) act \<Rightarrow> (smtp_event list \<Rightarrow> bool \<Rightarrow> bool) \<Rightarrow> bool" where
  "emits m P \<longleftrightarrow> (\<forall>s log r s' log'. m (s, log) = (r, s', log') \<longrightarrow> (\<exists>es. log' = log @ es \<and> P es (r = Inr ())))"

definition in_order :: "smtp_event list \<Rightarrow> smtp_event list \<Rightarrow> bool \<Rightarrow> bool" where
  "in_order l es ok \<longleftrightarrow> prefix es l \<and> (ok \<longrightarrow> es = l)"

lemma emitsD: "emits m P \<Longrightarrow> m (s, log) = (r, s', log') \<Longrightarrow> \<exists>es. log' = log @ es \<and> P es (r = Inr ())"
  unfolding emits_def by blast

lemma emits_ret: "emits (ret ()) (in_order [])"
  by (simp add: emits_def in_order_def ret_def)

lemma emits_noting: "emits (noting (\<lambda>_. []) before m) (in_order before)"
  by (auto simp: emits_def in_order_def noting_def split: prod.splits sum.splits)

lemma emits_andThen:
  assumes "emits m (in_order l)" and "emits f (in_order k)"
  shows "emits (andThen m (\<lambda>_. f)) (in_order (l @ k))"
  unfolding emits_def
proof (intro allI impI)
  fix s log r s' log'
  assume run: "andThen m (\<lambda>_. f) (s, log) = (r, s', log')"
  obtain q s1 log1 where q: "m (s, log) = (q, s1, log1)" by (metis prod.exhaust)
  from emitsD [OF assms(1) q] obtain es where es: "log1 = log @ es" "in_order l es (q = Inr ())" by blast
  show "\<exists>es. log' = log @ es \<and> in_order (l @ k) es (r = Inr ())"
  proof (cases q)
    case (Inl e)
    with run q es show ?thesis by (auto simp: andThen_def in_order_def)
  next
    case (Inr u)
    with run q have f: "f (s1, log1) = (r, s', log')" by (simp add: andThen_def)
    from emitsD [OF assms(2) f] es Inr show ?thesis by (auto simp: in_order_def)
  qed
qed

text \<open>After TLS the commands go out in their order, and all of them if the session succeeds.\<close>

definition smtp_commands :: "SMTPConfig \<Rightarrow> string \<Rightarrow> string \<Rightarrow> smtp_event list" where
  "smtp_commands cfg to_addr data =
     (if sc_Username cfg \<noteq> '''' then [Credentials (sc_Username cfg) (sc_Password cfg)] else [])
     @ [Sender (sc_From cfg), Recipient to_addr, Content data]"

lemma auth_log:
  "emits (smtp_auth (noted net) cfg) (in_order (if sc_Username cfg \<noteq> '''' then [Credentials (sc_Username cfg) (sc_Password cfg)] else []))"
  by (simp add: smtp_auth_def emits_ret emits_noting)

lemma envelope_log: "emits (smtp_envelope (noted net) cfg to_addr data) (in_order [Sender (sc_From cfg), Recipient to_addr, Content data])"
proof -
  have "emits (smtp_envelope (noted net) cfg to_addr data)
      (in_order ([Sender (sc_From cfg)] @ [Recipient to_addr] @ [] @ [Content data] @ [] @ []))"
    unfolding smtp_envelope_def noted_simps by (intro emits_andThen emits_noting)
  then show ?thesis by simp
qed

definition session_events :: "SMTPConfig \<Rightarrow> string \<Rightarrow> string \<Rightarrow> smtp_event list \<Rightarrow> bool \<Rightarrow> bool" where
  "session_events cfg to_addr data es ok \<longleftrightarrow>
     (\<exists>tls cmds. es = tls @ cmds \<and> (tls = [] \<or> tls = [Secured] \<and> \<not> sc_ImplicitTLS cfg)
        \<and> in_order (smtp_commands cfg to_addr data) cmds ok
        \<and> (tls = [] \<longrightarrow> cmds \<noteq> [] \<longrightarrow> sc_ImplicitTLS cfg \<or> \<not> sc_RequireTLS cfg))"

lemma session_eventsI:
  "tls = [] \<or> tls = [Secured] \<and> \<not> sc_ImplicitTLS cfg \<Longrightarrow> in_order (smtp_commands cfg to_addr data) cmds ok
   \<Longrightarrow> (tls = [] \<Longrightarrow> cmds \<noteq> [] \<Longrightarrow> sc_ImplicitTLS cfg \<or> \<not> sc_RequireTLS cfg)
   \<Longrightarrow> session_events cfg to_addr data (tls @ cmds) ok"
  unfolding session_events_def by blast

lemma tls_log:
  assumes "smtp_tls (noted net) cfg (s, log) = (r, s', log')"
  shows "\<exists>tls. log' = log @ tls \<and> (tls = [] \<or> tls = [Secured] \<and> \<not> sc_ImplicitTLS cfg)
    \<and> (r = Inr () \<longrightarrow> tls = [] \<longrightarrow> sc_ImplicitTLS cfg \<or> \<not> sc_RequireTLS cfg)"
  using assms
  by (auto simp: smtp_tls_def asked_def andThen_def noting_def ret_def fail_def split: prod.splits sum.splits if_splits)

lemma session_log: "emits (smtp_session (noted net) cfg to_addr data) (session_events cfg to_addr data)"
  unfolding emits_def
proof (intro allI impI)
  fix s log r s' log'
  assume run: "smtp_session (noted net) cfg to_addr data (s, log) = (r, s', log')"
  obtain q s1 log1 where q: "smtp_tls (noted net) cfg (s, log) = (q, s1, log1)" by (metis prod.exhaust)
  from tls_log [OF this] obtain tls where tls: "log1 = log @ tls" "tls = [] \<or> tls = [Secured] \<and> \<not> sc_ImplicitTLS cfg"
    "q = Inr () \<longrightarrow> tls = [] \<longrightarrow> sc_ImplicitTLS cfg \<or> \<not> sc_RequireTLS cfg" by blast
  show "\<exists>es. log' = log @ es \<and> session_events cfg to_addr data es (r = Inr ())"
  proof (cases q)
    case (Inl e)
    with run q tls have "log' = log @ tls @ []" "r \<noteq> Inr ()" by (auto simp: smtp_session_def andThen_def)
    moreover from this have "session_events cfg to_addr data (tls @ []) (r = Inr ())"
      by (intro session_eventsI tls(2)) (simp_all add: in_order_def)
    ultimately show ?thesis by blast
  next
    case (Inr u)
    with run q have "andThen (smtp_auth (noted net) cfg) (\<lambda>_. smtp_envelope (noted net) cfg to_addr data) (s1, log1) = (r, s', log')"
      by (simp add: smtp_session_def andThen_def)
    from emitsD [OF emits_andThen [OF auth_log envelope_log] this, folded smtp_commands_def] obtain cmds
      where cmds: "log' = log1 @ cmds" "in_order (smtp_commands cfg to_addr data) cmds (r = Inr ())" by blast
    have "session_events cfg to_addr data (tls @ cmds) (r = Inr ())"
      using tls(3) Inr by (intro session_eventsI tls(2) cmds(2)) simp_all
    with cmds(1) tls(1) show ?thesis by (metis append.assoc)
  qed
qed

text \<open>Once the client is made, closing the connection adds nothing.\<close>

lemma client_log:
  assumes "handle (sn_NewClient (noted net) h) (\<lambda>e. andThen (modify (sn_CloseConn (noted net))) (\<lambda>_. fail e))
      (\<lambda>_. deferred (sn_Close (noted net)) (smtp_session (noted net) cfg to_addr data)) (s, log) = (r, s', log')"
  shows "\<exists>es. log' = log @ es \<and> session_events cfg to_addr data es (r = Inr ())"
proof (cases "sn_NewClient net h s")
  case (Pair q s1)
  show ?thesis
  proof (cases q)
    case (Inl e)
    with assms Pair have "log' = log" "r \<noteq> Inr ()"
      by (auto simp: handle_def noting_def andThen_def modify_def fail_def)
    with session_eventsI [of "[]" cfg to_addr data "[]" False] show ?thesis by (simp add: in_order_def)
  next
    case (Inr u)
    obtain q2 s2 log2 where run: "smtp_session (noted net) cfg to_addr data (s1, log) = (q2, s2, log2)" by (metis prod.exhaust)
    with assms Pair Inr have "r = q2" "log' = log2" by (simp_all add: handle_def noting_def deferred_def)
    with emitsD [OF session_log run] show ?thesis by simp
  qed
qed

text \<open>What \<open>Send\<close> writes: nothing and an error, or the events of a session behind a dialed connection.\<close>

lemma Send_log:
  assumes "SMTPSender_Send (noted net) lib cfg deadline now idBytes boundaryBytes msg (s, log) = (r, s', log')"
  obtains (stopped) "log' = log" "r \<noteq> Inr ()"
  | (sent) data es where "Build lib now idBytes boundaryBytes (sc_From cfg) msg = Inr data"
      "\<not> contains_any (msg_To msg) crlf" "\<not> contains_any (sc_From cfg) crlf"
      "log' = log @ (if sc_ImplicitTLS cfg then [Secured] else []) @ es" "session_events cfg (msg_To msg) data es (r = Inr ())"
proof (cases "(sc_Host cfg = '''' \<or> sc_From cfg = '''') \<or> contains_any (msg_To msg) crlf \<or> contains_any (sc_From cfg) crlf")
  case True
  with assms have "log' = log \<and> r \<noteq> Inr ()" by (auto simp: SMTPSender_Send_def fail_def split: if_splits)
  then show thesis using stopped by simp
next
  case False
  let ?dial = "if sc_ImplicitTLS cfg then sn_DialTLS net (sc_Host cfg) (JoinHostPort (sc_Host cfg) (int_text (sc_Port cfg))) (sc_Timeout cfg)
      else sn_Dial net (JoinHostPort (sc_Host cfg) (int_text (sc_Port cfg))) (sc_Timeout cfg)"
  show thesis
  proof (cases "Build lib now idBytes boundaryBytes (sc_From cfg) msg")
    case (Inl e)
    with False assms have "log' = log \<and> r \<noteq> Inr ()" by (auto simp: SMTPSender_Send_def fail_def)
    then show thesis using stopped by simp
  next
    case (Inr data)
    obtain q s1 where dial: "?dial s = (q, s1)" by (metis prod.exhaust)
    show thesis
    proof (cases q)
      case (Inl e)
      with False assms Inr dial have "log' = log \<and> r \<noteq> Inr ()"
        by (auto simp: SMTPSender_Send_def Let_def andThen_def noting_def split: if_splits)
      then show thesis using stopped by simp
    next
      case ok: (Inr u)
      with False assms Inr dial have
        "handle (sn_NewClient (noted net) (sc_Host cfg)) (\<lambda>e. andThen (modify (sn_CloseConn (noted net))) (\<lambda>_. fail e))
           (\<lambda>_. deferred (sn_Close (noted net)) (smtp_session (noted net) cfg (msg_To msg) data))
           (sn_SetDeadline net (case deadline of Some t \<Rightarrow> t | None \<Rightarrow> now + sc_Timeout cfg) s1,
            log @ (if sc_ImplicitTLS cfg then [Secured] else [])) = (r, s', log')"
        by (simp add: SMTPSender_Send_def Let_def andThen_def noting_def modify_def split: if_splits)
      from client_log [OF this] False Inr show thesis using sent by (metis append.assoc)
    qed
  qed
qed

lemma contains_any_iff: "contains_any s chars \<longleftrightarrow> set s \<inter> set chars \<noteq> {}"
  by (auto simp: contains_any_def list_ex_iff)

text \<open>
  C30: what the SMTP sender tells a server, whatever the server answers: first the connection is secured, if it is, then
  come the credentials if there are any, the sender of the configuration, the recipient of the message and the rendered
  message, in this order, up to the point where a step fails, and all of them if the sender reports success. No address
  contains a line break, so no address adds a command or a header. With TLS configured from the start or required,
  nothing of this goes out before the connection is secured.
\<close>

theorem smtp_send_sound:
  assumes "SMTPSender_Send (noted net) lib cfg deadline now idBytes boundaryBytes msg (s, []) = (r, s', log)"
  shows "\<exists>tls cmds. log = tls @ cmds \<and> tls \<in> {[], [Secured]}
      \<and> (sc_ImplicitTLS cfg \<or> sc_RequireTLS cfg \<longrightarrow> cmds \<noteq> [] \<longrightarrow> tls = [Secured])
      \<and> (r = Inr () \<or> cmds \<noteq> [] \<longrightarrow> set (msg_To msg) \<inter> set crlf = {} \<and> set (sc_From cfg) \<inter> set crlf = {} \<and>
         (\<exists>data. Build lib now idBytes boundaryBytes (sc_From cfg) msg = Inr data
            \<and> prefix cmds (smtp_commands cfg (msg_To msg) data) \<and> (r = Inr () \<longrightarrow> cmds = smtp_commands cfg (msg_To msg) data)))"
  using assms
proof (cases rule: Send_log)
  case stopped
  then show ?thesis by (intro exI [of _ "[]"]) simp
next
  case (sent data es)
  from sent(5) obtain tls cmds where es: "es = tls @ cmds" "tls = [] \<or> tls = [Secured] \<and> \<not> sc_ImplicitTLS cfg"
    "in_order (smtp_commands cfg (msg_To msg) data) cmds (r = Inr ())"
    "tls = [] \<longrightarrow> cmds \<noteq> [] \<longrightarrow> sc_ImplicitTLS cfg \<or> \<not> sc_RequireTLS cfg"
    unfolding session_events_def by blast
  let ?tls = "(if sc_ImplicitTLS cfg then [Secured] else []) @ tls"
  from sent(4) es(1) have "log = ?tls @ cmds" by simp
  moreover from es(2,4) have "?tls \<in> {[], [Secured]}" "sc_ImplicitTLS cfg \<or> sc_RequireTLS cfg \<longrightarrow> cmds \<noteq> [] \<longrightarrow> ?tls = [Secured]"
    by auto
  moreover from sent(2,3) have "set (msg_To msg) \<inter> set crlf = {}" "set (sc_From cfg) \<inter> set crlf = {}"
    by (simp_all add: contains_any_iff)
  ultimately show ?thesis using sent(1) es(3) unfolding in_order_def by blast
qed

text \<open>A server that accepts everything, and offers no STARTTLS.\<close>

definition willing_net :: "unit smtp_net" where
  "willing_net = \<lparr>sn_Dial = (\<lambda>_ _. ret ()), sn_DialTLS = (\<lambda>_ _ _. ret ()), sn_SetDeadline = (\<lambda>_. id), sn_NewClient = (\<lambda>_. ret ()),
     sn_CloseConn = id, sn_Close = id, sn_Extension = (\<lambda>_ s. (False, s)), sn_StartTLS = (\<lambda>_. ret ()), sn_Auth = (\<lambda>_ _ _. ret ()),
     sn_Mail = (\<lambda>_. ret ()), sn_Rcpt = (\<lambda>_. ret ()), sn_Data = ret (), sn_Write = (\<lambda>_. ret ()), sn_CloseData = ret (), sn_Quit = ret ()\<rparr>"

definition plain_mime :: mime_lib where
  "plain_mime = \<lparr>mm_QEncode = id, mm_QuotedPrintable = Inr, mm_RFC1123Z = (\<lambda>_. ''now''), mm_Boundary = (\<lambda>_. ''b'')\<rparr>"

definition mail_config :: SMTPConfig where
  "mail_config = NewSMTPSender \<lparr>sc_Host = ''h'', sc_Port = 465, sc_Username = ''u'', sc_Password = ''p'', sc_From = ''a@h'',
     sc_ImplicitTLS = True, sc_RequireTLS = False, sc_Timeout = 0\<rparr>"

definition mail_message :: message where
  "mail_message = \<lparr>msg_To = ''b@h'', msg_Subject = ''s'', msg_Text = ''t'', msg_HTML = ''''\<rparr>"

lemma willing_run:
  "\<exists>data. SMTPSender_Send (noted willing_net) plain_mime mail_config None 0 [] [] mail_message ((), [])
     = (Inr (), (), [Secured, Credentials ''u'' ''p'', Sender ''a@h'', Recipient ''b@h'', Content data])"
  by (simp add: SMTPSender_Send_def Let_def Build_def plain_mime_def mail_message_def mail_config_def NewSMTPSender_def
      contains_any_def crlf_def andThen_def ret_def noting_def modify_def handle_def deferred_def smtp_session_def smtp_tls_def
      smtp_auth_def smtp_envelope_def willing_net_def)

theorem smtp_send_sound_witness:
  "\<exists>tls cmds. tls @ cmds = snd (snd (SMTPSender_Send (noted willing_net) plain_mime mail_config None 0 [] [] mail_message ((), [])))
     \<and> cmds \<noteq> [] \<and> tls = [Secured]"
proof -
  from willing_run obtain data where run:
    "SMTPSender_Send (noted willing_net) plain_mime mail_config None 0 [] [] mail_message ((), [])
     = (Inr (), (), [Secured, Credentials ''u'' ''p'', Sender ''a@h'', Recipient ''b@h'', Content data])" by blast
  have "sc_ImplicitTLS mail_config" by (simp add: mail_config_def NewSMTPSender_def)
  with smtp_send_sound [OF run] run show ?thesis by (auto simp: smtp_commands_def)
qed

end
