(* ===== verification/Command.thy ===== *)
theory Command
  imports ServerProperties MongoStore SqlStore Adapters Smtp
begin

text \<open>
  The command \<open>cmd/identity-server\<close>: flags with environment variables as defaults, the checks of the configuration, the
  choice of store and router, and the start of the server. The number formats of package \<open>flag\<close> and
  \<open>time.ParseDuration\<close>, the database drivers, the third-party routers and the SMTP sender over its network are parameters.
\<close>

section \<open>Configuration\<close>

record command_config =
  cc_Addr :: string
  cc_PublicURL :: string
  cc_BasePath :: string
  cc_ApplicationName :: string
  cc_SessionKey :: string
  cc_Router :: string
  cc_DatabaseDriver :: string
  cc_DatabaseDSN :: string
  cc_DatabaseName :: string
  cc_AllowRegistration :: bool
  cc_DisableActivation :: bool
  cc_AdminClientId :: string
  cc_AdminClientSecret :: string
  cc_SMTPHost :: string
  cc_SMTPPort :: int
  cc_SMTPUsername :: string
  cc_SMTPPassword :: string
  cc_SMTPFrom :: string
  cc_SMTPImplicitTLS :: bool
  cc_CleanupInterval :: duration
  cc_LogLevel :: string

text \<open>\<open>strconv.ParseInt\<close> with base 0 and \<open>time.ParseDuration\<close>, \<^const>\<open>None\<close> for their errors; the environment.\<close>

record flag_lib =
  fl_ParseInt :: "string \<Rightarrow> int option"
  fl_ParseDuration :: "string \<Rightarrow> duration option"

type_synonym environment = "string \<Rightarrow> string option"

definition ParseBool :: "string \<Rightarrow> bool option" where
  "ParseBool s =
     (if s \<in> {''1'', ''t'', ''T'', ''TRUE'', ''true'', ''True''} then Some True
      else if s \<in> {''0'', ''f'', ''F'', ''FALSE'', ''false'', ''False''} then Some False else None)"

definition env :: "environment \<Rightarrow> string \<Rightarrow> string \<Rightarrow> string" where
  "env e name fallback = (case e name of Some v \<Rightarrow> v | None \<Rightarrow> fallback)"

text \<open>The variables of other types; a value that does not parse is ignored.\<close>

definition env_parsed :: "(string \<Rightarrow> 'a option) \<Rightarrow> environment \<Rightarrow> string \<Rightarrow> 'a \<Rightarrow> 'a" where
  "env_parsed parse e name fallback =
     (case e name of Some v \<Rightarrow> (case parse v of Some b \<Rightarrow> b | None \<Rightarrow> fallback) | None \<Rightarrow> fallback)"

definition envBool :: "environment \<Rightarrow> string \<Rightarrow> bool \<Rightarrow> bool" where "envBool = env_parsed ParseBool"

definition envInt :: "environment \<Rightarrow> string \<Rightarrow> int \<Rightarrow> int" where "envInt = env_parsed atoi"

definition envDuration :: "flag_lib \<Rightarrow> environment \<Rightarrow> string \<Rightarrow> duration \<Rightarrow> duration" where
  "envDuration fl = env_parsed (fl_ParseDuration fl)"

text \<open>The defaults of the flags, and the flags with the fields they set.\<close>

definition default_config :: "flag_lib \<Rightarrow> environment \<Rightarrow> command_config" where
  "default_config fl e =
     \<lparr>cc_Addr = env e ''IDENTITY_ADDR'' '':8080'',
      cc_PublicURL = env e ''IDENTITY_PUBLIC_URL'' ''http://localhost:8080'',
      cc_BasePath = env e ''IDENTITY_BASE_PATH'' '''',
      cc_ApplicationName = env e ''IDENTITY_APP_NAME'' ''Identity'',
      cc_SessionKey = env e ''IDENTITY_SESSION_KEY'' '''',
      cc_Router = env e ''IDENTITY_ROUTER'' ''std'',
      cc_DatabaseDriver = env e ''IDENTITY_DB_DRIVER'' ''memory'',
      cc_DatabaseDSN = env e ''IDENTITY_DB_DSN'' '''',
      cc_DatabaseName = env e ''IDENTITY_DB_NAME'' ''identity'',
      cc_AllowRegistration = envBool e ''IDENTITY_ALLOW_REGISTRATION'' False,
      cc_DisableActivation = envBool e ''IDENTITY_DISABLE_ACTIVATION'' False,
      cc_AdminClientId = env e ''IDENTITY_ADMIN_CLIENT_ID'' '''',
      cc_AdminClientSecret = env e ''IDENTITY_ADMIN_CLIENT_SECRET'' '''',
      cc_SMTPHost = env e ''IDENTITY_SMTP_HOST'' '''',
      cc_SMTPPort = envInt e ''IDENTITY_SMTP_PORT'' 587,
      cc_SMTPUsername = env e ''IDENTITY_SMTP_USERNAME'' '''',
      cc_SMTPPassword = env e ''IDENTITY_SMTP_PASSWORD'' '''',
      cc_SMTPFrom = env e ''IDENTITY_SMTP_FROM'' '''',
      cc_SMTPImplicitTLS = envBool e ''IDENTITY_SMTP_IMPLICIT_TLS'' False,
      cc_CleanupInterval = envDuration fl e ''IDENTITY_CLEANUP_INTERVAL'' (15 * 60 * 1000000000),
      cc_LogLevel = env e ''IDENTITY_LOG_LEVEL'' ''info''\<rparr>"

datatype flag =
    StringVar "string \<Rightarrow> command_config \<Rightarrow> command_config"
  | BoolVar "bool \<Rightarrow> command_config \<Rightarrow> command_config"
  | IntVar "int \<Rightarrow> command_config \<Rightarrow> command_config"
  | DurationVar "duration \<Rightarrow> command_config \<Rightarrow> command_config"

definition command_flags :: "(string \<times> flag) list" where
  "command_flags =
     [(''addr'', StringVar (\<lambda>v. cc_Addr_update (\<lambda>_. v))),
      (''public-url'', StringVar (\<lambda>v. cc_PublicURL_update (\<lambda>_. v))),
      (''base-path'', StringVar (\<lambda>v. cc_BasePath_update (\<lambda>_. v))),
      (''app-name'', StringVar (\<lambda>v. cc_ApplicationName_update (\<lambda>_. v))),
      (''session-key'', StringVar (\<lambda>v. cc_SessionKey_update (\<lambda>_. v))),
      (''router'', StringVar (\<lambda>v. cc_Router_update (\<lambda>_. v))),
      (''db-driver'', StringVar (\<lambda>v. cc_DatabaseDriver_update (\<lambda>_. v))),
      (''db-dsn'', StringVar (\<lambda>v. cc_DatabaseDSN_update (\<lambda>_. v))),
      (''db-name'', StringVar (\<lambda>v. cc_DatabaseName_update (\<lambda>_. v))),
      (''allow-registration'', BoolVar (\<lambda>v. cc_AllowRegistration_update (\<lambda>_. v))),
      (''disable-activation'', BoolVar (\<lambda>v. cc_DisableActivation_update (\<lambda>_. v))),
      (''admin-client-id'', StringVar (\<lambda>v. cc_AdminClientId_update (\<lambda>_. v))),
      (''admin-client-secret'', StringVar (\<lambda>v. cc_AdminClientSecret_update (\<lambda>_. v))),
      (''smtp-host'', StringVar (\<lambda>v. cc_SMTPHost_update (\<lambda>_. v))),
      (''smtp-port'', IntVar (\<lambda>v. cc_SMTPPort_update (\<lambda>_. v))),
      (''smtp-username'', StringVar (\<lambda>v. cc_SMTPUsername_update (\<lambda>_. v))),
      (''smtp-password'', StringVar (\<lambda>v. cc_SMTPPassword_update (\<lambda>_. v))),
      (''smtp-from'', StringVar (\<lambda>v. cc_SMTPFrom_update (\<lambda>_. v))),
      (''smtp-implicit-tls'', BoolVar (\<lambda>v. cc_SMTPImplicitTLS_update (\<lambda>_. v))),
      (''cleanup-interval'', DurationVar (\<lambda>v. cc_CleanupInterval_update (\<lambda>_. v))),
      (''log-level'', StringVar (\<lambda>v. cc_LogLevel_update (\<lambda>_. v)))]"

definition flag_set :: "flag_lib \<Rightarrow> flag \<Rightarrow> string \<Rightarrow> command_config \<Rightarrow> command_config option" where
  "flag_set fl f s c =
     (case f of StringVar g \<Rightarrow> Some (g s c)
      | BoolVar g \<Rightarrow> map_option (\<lambda>v. g v c) (ParseBool s)
      | IntVar g \<Rightarrow> map_option (\<lambda>v. g v c) (fl_ParseInt fl s)
      | DurationVar g \<Rightarrow> map_option (\<lambda>v. g v c) (fl_ParseDuration fl s))"

text \<open>
  \<open>FlagSet.Parse\<close>: an argument \<open>-name\<close>, \<open>--name\<close> or \<open>-name=value\<close> at a time, up to \<open>--\<close> or the first argument that is
  no flag; a flag that is not boolean takes the next argument for its missing value.
\<close>

datatype flag_error = BadFlagSyntax string | HelpRequested | FlagNotDefined string | InvalidFlagValue string string | FlagNeedsArgument string

definition flag_name :: "string \<Rightarrow> string option" where
  "flag_name s =
     (if length s < 2 \<or> hd s \<noteq> CHR ''-'' \<or> s = ''--'' then None
      else Some (drop (if s ! 1 = CHR ''-'' then 2 else 1) s))"

definition flag_value :: "string \<Rightarrow> string \<times> string option" where
  "flag_value name = (case cut_at CHR ''='' name of None \<Rightarrow> (name, None) | Some (a, b) \<Rightarrow> (a, Some b))"

definition flag_is_bool :: "flag \<Rightarrow> bool" where
  "flag_is_bool f = (case f of BoolVar _ \<Rightarrow> True | _ \<Rightarrow> False)"

fun parse_flags :: "flag_lib \<Rightarrow> (string \<times> flag) list \<Rightarrow> string list \<Rightarrow> command_config \<Rightarrow> flag_error + command_config" where
  "parse_flags fl flags [] c = Inr c"
| "parse_flags fl flags (s # args) c =
     (case flag_name s of None \<Rightarrow> Inr c
      | Some name0 \<Rightarrow>
          if name0 = '''' \<or> hd name0 = CHR ''-'' \<or> hd name0 = CHR ''='' then Inl (BadFlagSyntax s)
          else (case flag_value name0 of (name, v) \<Rightarrow>
            (case map_of flags name of
               None \<Rightarrow> Inl (if name = ''help'' \<or> name = ''h'' then HelpRequested else FlagNotDefined name)
             | Some f \<Rightarrow>
                 (case (if flag_is_bool f \<and> v = None then Some ''true'' else v) of
                    Some x \<Rightarrow>
                      (case flag_set fl f x c of None \<Rightarrow> Inl (InvalidFlagValue name x) | Some c' \<Rightarrow> parse_flags fl flags args c')
                  | None \<Rightarrow>
                      (case args of [] \<Rightarrow> Inl (FlagNeedsArgument name)
                       | x # args' \<Rightarrow>
                           (case flag_set fl f x c of None \<Rightarrow> Inl (InvalidFlagValue name x)
                            | Some c' \<Rightarrow> parse_flags fl flags args' c'))))))"

declare parse_flags.simps(2) [simp del]

datatype config_problem =
    SessionKeyTooShort | AdminClientIncomplete | AdminSecretLength | DsnRequired string | UnsupportedDriver string
  | UnsupportedRouter string

definition command_Validate :: "(string \<Rightarrow> string) \<Rightarrow> command_config \<Rightarrow> config_problem option" where
  "command_Validate ul c =
     (if cc_SessionKey c \<noteq> '''' \<and> length (cc_SessionKey c) < 32 then Some SessionKeyTooShort
      else if (cc_AdminClientId c = '''') \<noteq> (cc_AdminClientSecret c = '''') then Some AdminClientIncomplete
      else if cc_AdminClientSecret c \<noteq> '''' \<and> (length (cc_AdminClientSecret c) < 16 \<or> length (cc_AdminClientSecret c) > 72)
      then Some AdminSecretLength
      else if cc_DatabaseDriver c \<in> {''sqlite'', ''postgres'', ''mysql'', ''mongo''} \<and> cc_DatabaseDSN c = ''''
      then Some (DsnRequired (cc_DatabaseDriver c))
      else if cc_DatabaseDriver c \<notin> {''memory'', ''sqlite'', ''postgres'', ''mysql'', ''mongo''}
      then Some (UnsupportedDriver (cc_DatabaseDriver c))
      else if to_lower ul (cc_Router c) \<notin> {''std'', ''chi'', ''gin'', ''httprouter'', ''gorillamux'', ''echo''}
      then Some (UnsupportedRouter (cc_Router c))
      else None)"

definition ParseConfig ::
  "flag_lib \<Rightarrow> (string \<Rightarrow> string) \<Rightarrow> environment \<Rightarrow> string list \<Rightarrow> (flag_error + config_problem) + command_config" where
  "ParseConfig fl ul e args =
     (case parse_flags fl command_flags args (default_config fl e) of
        Inl err \<Rightarrow> Inl (Inl err)
      | Inr c \<Rightarrow> (case command_Validate ul c of Some p \<Rightarrow> Inl (Inr p) | None \<Rightarrow> Inr c))"
section \<open>The store\<close>

text \<open>
  What \<open>openStore\<close> calls of the drivers: a MongoDB client gives databases, whose collections are found by name, and a
  \<open>sql.DB\<close> is the database of the SQL store with the calls on its connections.
\<close>

record 'd mongo_database =
  mdb_clients :: "string \<Rightarrow> ('d, clientDocument) collection"
  mdb_users :: "string \<Rightarrow> ('d, userDocument) collection"
  mdb_accessTokens :: "string \<Rightarrow> ('d, accessTokenDocument) collection"
  mdb_refreshTokens :: "string \<Rightarrow> ('d, refreshTokenDocument) collection"
  mdb_authorizationCodes :: "string \<Rightarrow> ('d, authorizationCodeDocument) collection"
  mdb_userTokens :: "string \<Rightarrow> ('d, userTokenDocument) collection"
  mdb_CreateMany :: "string \<Rightarrow> (string \<times> bool \<times> string list) list \<Rightarrow> ('d, string, unit) act"

definition mongo_New :: "'d mongo_database \<Rightarrow> string \<Rightarrow> 'd mongo_Store" where
  "mongo_New db prefix0 =
     (let p = mongo_prefix prefix0
      in \<lparr>mg_clients = mdb_clients db (p @ ''clients''), mg_users = mdb_users db (p @ ''users''),
          mg_accessTokens = mdb_accessTokens db (p @ ''access_tokens''), mg_refreshTokens = mdb_refreshTokens db (p @ ''refresh_tokens''),
          mg_authorizationCodes = mdb_authorizationCodes db (p @ ''authorization_codes''),
          mg_userTokens = mdb_userTokens db (p @ ''user_tokens'')\<rparr>)"

record 'd mongo_client =
  mc_Database :: "string \<Rightarrow> 'd mongo_database"
  mc_Disconnect :: "'d \<Rightarrow> 'd"

record 'd sql_handle =
  sh_db :: "'d sql_db"
  sh_SetMaxOpenConns :: "int \<Rightarrow> 'd \<Rightarrow> 'd"
  sh_Ping :: "('d, string, unit) act"
  sh_Close :: "'d \<Rightarrow> 'd"

record 'd drivers =
  dv_Connect :: "string \<Rightarrow> ('d, string, 'd mongo_client) act"
  dv_Open :: "string \<Rightarrow> string \<Rightarrow> ('d, string, 'd sql_handle) act"

datatype 'd opened = OpenedMemory | OpenedMongo "'d mongo_Store" | OpenedSQL "'d sql_Store"

datatype open_error = DriverError string | StoreError sql_new_error

text \<open>A step that closes the connection when it fails, as each of them does here.\<close>

definition closing :: "('d \<Rightarrow> 'd) \<Rightarrow> ('d, 'e, 'a) act \<Rightarrow> ('d, 'e, 'a) act" where
  "closing close m = handle m (\<lambda>e. andThen (modify close) (\<lambda>_. fail e)) ret"

definition sql_driver :: "string \<Rightarrow> string" where
  "sql_driver name =
     (if name = ''sqlite'' then ''sqlite'' else if name = ''postgres'' then ''pgx'' else if name = ''mysql'' then ''mysql'' else '''')"

definition openMongo :: "'d drivers \<Rightarrow> command_config \<Rightarrow> ('d, open_error, 'd opened \<times> ('d \<Rightarrow> 'd)) act" where
  "openMongo dv cfg =
     andThen (mapErr DriverError (dv_Connect dv (cc_DatabaseDSN cfg))) (\<lambda>client.
     let db = mc_Database client (cc_DatabaseName cfg); s = mongo_New db ''''
     in andThen (closing (mc_Disconnect client) (mapErr DriverError (EnsureIndexes (mdb_CreateMany db) (mongo_prefix '''')))) (\<lambda>_.
        ret (OpenedMongo s, mc_Disconnect client)))"

definition openSQL :: "'d drivers \<Rightarrow> sql_lib \<Rightarrow> command_config \<Rightarrow> ('d, open_error, 'd opened \<times> ('d \<Rightarrow> 'd)) act" where
  "openSQL dv slib cfg =
     (let dialect = cc_DatabaseDriver cfg
      in andThen (mapErr DriverError (dv_Open dv (sql_driver (cc_DatabaseDriver cfg)) (cc_DatabaseDSN cfg))) (\<lambda>db.
         andThen (if dialect = DialectSQLite then modify (sh_SetMaxOpenConns db 1) else ret ()) (\<lambda>_.
         andThen (closing (sh_Close db) (mapErr DriverError (sh_Ping db))) (\<lambda>_.
         andThen (closing (sh_Close db)
           (case sql_New (Some (sh_db db)) dialect '''' slib of Inl e \<Rightarrow> fail (StoreError e)
            | Inr s \<Rightarrow> andThen (mapErr DriverError (Migrate s)) (\<lambda>_. ret s))) (\<lambda>s.
         ret (OpenedSQL s, sh_Close db))))))"

definition openStore :: "'d drivers \<Rightarrow> sql_lib \<Rightarrow> command_config \<Rightarrow> ('d, open_error, 'd opened \<times> ('d \<Rightarrow> 'd)) act" where
  "openStore dv slib cfg =
     (if cc_DatabaseDriver cfg = ''memory'' then ret (OpenedMemory, \<lambda>d. d)
      else if cc_DatabaseDriver cfg = ''mongo'' then openMongo dv cfg else openSQL dv slib cfg)"

section \<open>The router\<close>

text \<open>
  The routers of other packages: a new one and what registers a handler on it. \<open>rs_Serve\<close> makes an \<open>http.Handler\<close> of an
  endpoint, \<open>rs_ServeMux\<close> of the registrations of the mux.
\<close>

record ('s, 'q, 'a, 'r, 'route) routers =
  rs_Serve :: "'s endpoint \<Rightarrow> ('q, 'a) http_handler"
  rs_ServeMux :: "'s endpoint serve_mux \<Rightarrow> 'r"
  rs_chi :: 'r
  rs_chi_Method :: "string \<Rightarrow> string \<Rightarrow> (('q \<times> string gomap option) \<times> (string list \<times> string list) option \<Rightarrow> 'a) \<Rightarrow> 'r \<Rightarrow> 'r"
  rs_gin :: 'r
  rs_gin_Recovery :: "'r \<Rightarrow> 'r"
  rs_gin_Handle :: "string \<Rightarrow> string \<Rightarrow> (('q \<times> string gomap option) \<times> (string \<times> string) list \<Rightarrow> 'a) \<Rightarrow> 'r \<Rightarrow> 'r"
  rs_httprouter :: 'r
  rs_httprouter_Handle :: "string \<Rightarrow> string \<Rightarrow> (('q \<times> string gomap option) \<times> (string \<times> string) list \<Rightarrow> 'a) \<Rightarrow> 'r \<Rightarrow> 'r"
  rs_mux :: 'r
  rs_mux_Handle :: "string \<Rightarrow> (('q \<times> string gomap option) \<times> string gomap \<Rightarrow> 'a) \<Rightarrow> 'r \<Rightarrow> 'route \<times> 'r"
  rs_mux_Methods :: "'route \<Rightarrow> string \<Rightarrow> 'r \<Rightarrow> 'r"
  rs_echo :: 'r
  rs_echo_Add :: "string \<Rightarrow> string \<Rightarrow> (('q \<times> string gomap option) \<times> string list \<times> string list \<Rightarrow> 'a) \<Rightarrow> 'r \<Rightarrow> 'r"

datatype run_error =
    OpenFailed open_error | ServerFailed config_error | ProvisionFailed account_error | RouterUnsupported string
  | ListenFailed string | ShutdownFailed string | CleanupPanicked

definition mount ::
  "('s, 'q, 'a, 'r, 'route) routers \<Rightarrow> 's Server \<Rightarrow> string list \<Rightarrow> (('q, 'a) http_handler, 'r) router \<Rightarrow> 'r \<Rightarrow> 'r" where
  "mount rs srv order adapter = server_RegisterRoutes srv order (\<lambda>method pattern h. adapter method pattern (rs_Serve rs h))"

definition newRouter ::
  "(string \<Rightarrow> string) \<Rightarrow> ('s, 'q, 'a, 'r, 'route) routers \<Rightarrow> string list \<Rightarrow> string \<Rightarrow> 's Server \<Rightarrow> run_error + 'r" where
  "newRouter ul rs order name srv =
     (let n = to_lower ul name
      in if n = ''std'' then Inr (rs_ServeMux rs (server_RegisterRoutes srv order ServeMux_Handle NewServeMux))
         else if n = ''chi'' then Inr (mount rs srv order (chi_Handle (rs_chi_Method rs)) (rs_chi rs))
         else if n = ''gin'' then Inr (mount rs srv order (gin_Handle (rs_gin_Handle rs)) (rs_gin_Recovery rs (rs_gin rs)))
         else if n = ''httprouter'' then Inr (mount rs srv order (httprouter_Handle (rs_httprouter_Handle rs)) (rs_httprouter rs))
         else if n = ''gorillamux'' then Inr (mount rs srv order (mux_Handle (rs_mux_Handle rs) (rs_mux_Methods rs)) (rs_mux rs))
         else if n = ''echo'' then Inr (mount rs srv order (echo_Handle (rs_echo_Add rs)) (rs_echo rs))
         else Inl (RouterUnsupported name))"

section \<open>Running\<close>

definition command_mailer :: "(SMTPConfig \<Rightarrow> sender) \<Rightarrow> command_config \<Rightarrow> sender" where
  "command_mailer smtp cfg =
     (if cc_SMTPHost cfg \<noteq> ''''
      then smtp (NewSMTPSender \<lparr>sc_Host = cc_SMTPHost cfg, sc_Port = cc_SMTPPort cfg, sc_Username = cc_SMTPUsername cfg,
        sc_Password = cc_SMTPPassword cfg, sc_From = cc_SMTPFrom cfg, sc_ImplicitTLS = cc_SMTPImplicitTLS cfg,
        sc_RequireTLS = False, sc_Timeout = 0\<rparr>)
      else LogSender_Send)"

definition server_config :: "(SMTPConfig \<Rightarrow> sender) \<Rightarrow> command_config \<Rightarrow> 's store_ops \<Rightarrow> 's Config" where
  "server_config smtp cfg s =
     \<lparr>cf_Store = Some s, cf_PublicURL = cc_PublicURL cfg, cf_BasePath = cc_BasePath cfg,
      cf_ApplicationName = cc_ApplicationName cfg, cf_SessionKey = cc_SessionKey cfg, cf_SessionLifetime = 0,
      cf_InsecureCookies = False, cf_Mailer = Some (command_mailer smtp cfg), cf_PasswordHasher = None,
      cf_AllowRegistration = cc_AllowRegistration cfg, cf_DisableActivation = cc_DisableActivation cfg,
      cf_MinPasswordLength = 0, cf_MaxFailedAttempts = 0, cf_LockoutDuration = 0, cf_AdminScope = '''', cf_DisableAPI = False,
      cf_TokenGenerator = None, cf_ScopesSupported = []\<rparr>"

text \<open>The client of the management API; its times are Go's zero time, \<open>EnsureClient\<close> sets them.\<close>

definition adminClient :: "'s Server \<Rightarrow> command_config \<Rightarrow> client" where
  "adminClient srv cfg =
     (emptyClient '''' 0)\<lparr>c_ClientId := cc_AdminClientId cfg, c_Name := ''Identity administration'', c_Type := ClientTypeConfidential,
        c_AllowedGrantTypes := [GrantTypeClientCredentials], c_AllowedScopes := [cf_AdminScope (sr_cfg srv)],
        c_DefaultScopes := [cf_AdminScope (sr_cfg srv)], c_Enabled := True\<rparr>"

text \<open>\<open>run\<close> between the store and the listening server.\<close>

definition startup ::
  "libraries \<Rightarrow> (SMTPConfig \<Rightarrow> sender) \<Rightarrow> (string \<Rightarrow> string) \<Rightarrow> ('s, 'q, 'a, 'r, 'route) routers \<Rightarrow> string list \<Rightarrow>
   command_config \<Rightarrow> 's store_ops \<Rightarrow> ('s world, run_error, 's Server \<times> 'r) act" where
  "startup lb smtp ul rs order cfg s =
     andThen (mapErr ServerFailed (New lb (server_config smtp cfg s))) (\<lambda>srv.
     andThen (if cc_AdminClientId cfg \<noteq> ''''
       then andThen (mapErr ProvisionFailed (EnsureClient srv (adminClient srv cfg) (cc_AdminClientSecret cfg))) (\<lambda>_. ret ())
       else ret ()) (\<lambda>_.
     case newRouter ul rs order (cc_Router cfg) srv of Inl e \<Rightarrow> fail e | Inr handler \<Rightarrow> ret (srv, handler)))"

text \<open>
  How the server ends: the listener fails, or the context is done and \<open>Shutdown\<close> returns; its \<open>ErrServerClosed\<close> is no
  failure.
\<close>

datatype shutdown_result = ShutdownDone | ShutdownClosed | ShutdownError string

datatype run_event = ListenError string | Interrupted shutdown_result

fun run_ended :: "run_event \<Rightarrow> run_error option" where
  "run_ended (ListenError e) = Some (ListenFailed e)"
| "run_ended (Interrupted ShutdownDone) = None"
| "run_ended (Interrupted ShutdownClosed) = None"
| "run_ended (Interrupted (ShutdownError e)) = Some (ShutdownFailed e)"

text \<open>
  \<open>run\<close> with what \<open>openStore\<close> gave it: the operations of the store and the function that closes it, which is called
  however \<open>run\<close> ends. While the server listens, requests and cleanups run in any order. The goroutine of the cleanup makes
  a ticker first, which panics for an interval that is not positive: the process ends, and no deferred call runs. \<open>main\<close>
  turns the result into the exit code of the process.
\<close>

definition close_store :: "('s \<Rightarrow> 's) \<Rightarrow> 's world \<Rightarrow> 's world" where
  "close_store close w = w\<lparr>w_store := close (w_store w)\<rparr>"

inductive run ::
  "libraries \<Rightarrow> (SMTPConfig \<Rightarrow> sender) \<Rightarrow> (string \<Rightarrow> string) \<Rightarrow> ('s, 'q, 'a, 'r, 'route) routers \<Rightarrow> string list \<Rightarrow>
   command_config \<Rightarrow> open_error + ('s store_ops \<times> ('s \<Rightarrow> 's)) \<Rightarrow> 's world \<Rightarrow> run_error option \<Rightarrow> 's world \<Rightarrow> bool"
  for lb smtp ul rs order cfg where
  run_not_opened: "run lb smtp ul rs order cfg (Inl e) w (Some (OpenFailed e)) w"
| run_not_started: "startup lb smtp ul rs order cfg s w = (Inl e, w') \<Longrightarrow>
    run lb smtp ul rs order cfg (Inr (s, close)) w (Some e) (close_store close w')"
| run_served: "startup lb smtp ul rs order cfg s w = (Inr (srv, handler), w1) \<Longrightarrow> reachable srv w1 w2 \<Longrightarrow>
    run lb smtp ul rs order cfg (Inr (s, close)) w (run_ended event) (close_store close w2)"
| run_panicked: "startup lb smtp ul rs order cfg s w = (Inr (srv, handler), w1) \<Longrightarrow> cc_CleanupInterval cfg \<le> 0 \<Longrightarrow>
    reachable srv w1 w2 \<Longrightarrow> run lb smtp ul rs order cfg (Inr (s, close)) w (Some CleanupPanicked) w2"

inductive_cases runE: "run lb smtp ul rs order cfg opened w r w'"

definition exit_code :: "(flag_error + config_problem) + run_error option \<Rightarrow> nat" where
  "exit_code r = (case r of Inl _ \<Rightarrow> 2 | Inr (Some CleanupPanicked) \<Rightarrow> 2 | Inr (Some _) \<Rightarrow> 1 | Inr None \<Rightarrow> 0)"

end
