(* ===== verification/CommandProperties.thy ===== *)
theory CommandProperties
  imports Command
begin

text \<open>
  Properties of the command: what a configuration that was accepted guarantees, the routes on every router, the
  connections of the store, and the server that listens.
\<close>

section \<open>Configuration\<close>

lemma Validate_ok:
  "command_Validate ul c = None \<longleftrightarrow>
     (cc_SessionKey c = '''' \<or> 32 \<le> length (cc_SessionKey c))
     \<and> (cc_AdminClientId c = '''' \<longleftrightarrow> cc_AdminClientSecret c = '''')
     \<and> (cc_AdminClientSecret c = '''' \<or> 16 \<le> length (cc_AdminClientSecret c) \<and> length (cc_AdminClientSecret c) \<le> 72)
     \<and> (cc_DatabaseDriver c = ''memory''
        \<or> cc_DatabaseDriver c \<in> {''sqlite'', ''postgres'', ''mysql'', ''mongo''} \<and> cc_DatabaseDSN c \<noteq> '''')
     \<and> to_lower ul (cc_Router c) \<in> {''std'', ''chi'', ''gin'', ''httprouter'', ''gorillamux'', ''echo''}"
  by (auto simp: command_Validate_def not_less)

lemma ParseConfig_ok:
  "ParseConfig fl ul e args = Inr c \<longleftrightarrow>
     parse_flags fl command_flags args (default_config fl e) = Inr c \<and> command_Validate ul c = None"
  by (auto simp: ParseConfig_def split: sum.splits option.splits)

text \<open>An accepted configuration always names a router and a driver, so \<open>newRouter\<close> cannot fail.\<close>

lemma newRouter_total:
  assumes "command_Validate ul c = None"
  shows "\<exists>handler. newRouter ul rs order (cc_Router c) srv = Inr handler"
  using assms unfolding Validate_ok by (auto simp: newRouter_def Let_def)

text \<open>A flag with a value wins over the environment, and the last one wins.\<close>

lemma flag_given:
  assumes "name \<noteq> ''''" and "CHR ''='' \<notin> set name" and "hd name \<noteq> CHR ''-''" and "map_of flags name = Some f"
  shows "parse_flags fl flags ((''-'' @ name @ ''='' @ v) # args) c =
    (case flag_set fl f v c of None \<Rightarrow> Inl (InvalidFlagValue name v) | Some c' \<Rightarrow> parse_flags fl flags args c')"
proof -
  obtain x xs where name: "name = x # xs" using assms(1) by (cases name) auto
  with assms have x: "x \<noteq> CHR ''-''" "x \<noteq> CHR ''=''" by auto
  from x name have "flag_name (''-'' @ name @ ''='' @ v) = Some (name @ ''='' @ v)" by (auto simp: flag_name_def)
  moreover have "flag_value (name @ ''='' @ v) = (name, Some v)"
    using assms(2) by (simp add: flag_value_def cut_at_append)
  ultimately show ?thesis using assms(4) name x by (simp add: parse_flags.simps(2) split: option.split)
qed

section \<open>Routes\<close>

text \<open>The registrations of a server, in order: what every router gets.\<close>

definition server_routes :: "'s Server \<Rightarrow> string list \<Rightarrow> (string \<times> string \<times> 's endpoint) list" where
  "server_routes srv order =
     (let base = trim_suffix (cf_BasePath (sr_cfg srv)) ''/''
      in map (\<lambda>(m, q, h). (m, base @ q, h)) (oauth_routes (sr_OAuth srv))
         @ map (\<lambda>(m, q, h). (m, base @ q, UiEndpoint h)) (ui_routes (sr_UI srv))
         @ (case sr_API srv of None \<Rightarrow> []
            | Some (api, ms) \<Rightarrow>
                map (\<lambda>(m, q, h). (m, base @ trim_suffix PathPrefix ''/'' @ q, ApiEndpoint (wrap_loop ms (length ms) h))) (api_routes api order)))"

definition register :: "('h, 'r) router \<Rightarrow> (string \<times> string \<times> 'h) list \<Rightarrow> 'r \<Rightarrow> 'r" where
  "register r routes s0 = foldl (\<lambda>st (method, pattern, h). r method pattern h st) s0 routes"

lemma WithPrefix_eq: "WithPrefix r pre = (\<lambda>m q h. r m (trim_suffix pre ''/'' @ q) h)"
  by (simp add: WithPrefix_def Let_def)

lemma RegisterRoutes_routes: "server_RegisterRoutes srv order r s0 = register r (server_routes srv order) s0"
  unfolding server_RegisterRoutes_def oauth_RegisterRoutes_def ui_RegisterRoutes_def api_RegisterRoutes_def WithPrefix_eq
    WithMiddleware_def register_def server_routes_def Let_def
  by (simp add: foldl_map case_prod_unfold split: option.split)

text \<open>Each router gets the registrations through its adapter, the mux of the library as its list.\<close>

lemma newRouter_routes:
  assumes "newRouter ul rs order name srv = Inr handler"
  shows "handler = rs_ServeMux rs (register ServeMux_Handle (server_routes srv order) NewServeMux)
    \<or> (\<exists>(adapter, s0) \<in> {(chi_Handle (rs_chi_Method rs), rs_chi rs), (gin_Handle (rs_gin_Handle rs), rs_gin_Recovery rs (rs_gin rs)),
          (httprouter_Handle (rs_httprouter_Handle rs), rs_httprouter rs),
          (mux_Handle (rs_mux_Handle rs) (rs_mux_Methods rs), rs_mux rs), (echo_Handle (rs_echo_Add rs), rs_echo rs)}.
        handler = register (\<lambda>method pattern h. adapter method pattern (rs_Serve rs h)) (server_routes srv order) s0)"
  using assms unfolding newRouter_def mount_def RegisterRoutes_routes by (auto simp: Let_def split: if_splits)

section \<open>Connections\<close>

text \<open>
  A count of open connections: opening a client or a database adds one if it succeeds, closing it takes one away, and
  every other call leaves it.
\<close>

definition keeps_count :: "('d \<Rightarrow> int) \<Rightarrow> ('d, 'e, 'a) act \<Rightarrow> bool" where
  "keeps_count n m \<longleftrightarrow> (\<forall>d r d'. m d = (r, d') \<longrightarrow> n d' = n d)"

definition counted :: "('d \<Rightarrow> int) \<Rightarrow> 'd drivers \<Rightarrow> bool" where
  "counted n dv \<longleftrightarrow>
     (\<forall>dsn d r d'. dv_Connect dv dsn d = (r, d') \<longrightarrow>
        (case r of Inl e \<Rightarrow> n d' = n d
         | Inr c \<Rightarrow> n d' = n d + 1 \<and> (\<forall>x. n (mc_Disconnect c x) = n x - 1)
             \<and> (\<forall>name coll ix. keeps_count n (mdb_CreateMany (mc_Database c name) coll ix))))
     \<and> (\<forall>driver dsn d r d'. dv_Open dv driver dsn d = (r, d') \<longrightarrow>
        (case r of Inl e \<Rightarrow> n d' = n d
         | Inr h \<Rightarrow> n d' = n d + 1 \<and> (\<forall>x. n (sh_Close h x) = n x - 1) \<and> (\<forall>k x. n (sh_SetMaxOpenConns h k x) = n x)
             \<and> keeps_count n (sh_Ping h) \<and> (\<forall>sql args. keeps_count n (db_Exec (sh_db h) sql args))))"

lemma keeps_countD: "keeps_count n m \<Longrightarrow> m d = (r, d') \<Longrightarrow> n d' = n d"
  by (simp add: keeps_count_def)

lemma keeps_count_ret: "keeps_count n (ret x)" and keeps_count_fail: "keeps_count n (fail e)"
  by (simp_all add: keeps_count_def ret_def fail_def)

lemma keeps_count_andThen: "keeps_count n m \<Longrightarrow> (\<And>x. keeps_count n (f x)) \<Longrightarrow> keeps_count n (andThen m f)"
  unfolding keeps_count_def andThen_def by (auto split: prod.splits sum.splits)

lemma keeps_count_mapErr: "keeps_count n m \<Longrightarrow> keeps_count n (mapErr h m)"
  unfolding keeps_count_def mapErr_def handle_def by (auto simp: ret_def fail_def split: prod.splits sum.splits)

lemma keeps_count_EnsureIndexes:
  assumes "\<And>coll ix. keeps_count n (createMany coll ix)"
  shows "keeps_count n (EnsureIndexes createMany p)"
proof -
  have "keeps_count n (foldr (\<lambda>(name, indexes) rest. andThen (mapErr (h name) (createMany (p @ name) indexes)) (\<lambda>_. rest)) xs (ret ()))"
    for h xs
    by (induction xs) (auto intro!: keeps_count_ret keeps_count_andThen keeps_count_mapErr assms)
  then show ?thesis unfolding EnsureIndexes_def .
qed

lemma keeps_count_Migrate:
  assumes "\<And>sql args. keeps_count n (db_Exec (sq_db st) sql args)"
  shows "keeps_count n (Migrate st)"
proof -
  have "keeps_count n (foldr (\<lambda>statement rest. andThen (mapErr h (db_Exec (sq_db st) statement [])) (\<lambda>_. rest)) xs (ret ()))"
    for h xs
    by (induction xs) (auto intro!: keeps_count_ret keeps_count_andThen keeps_count_mapErr assms)
  then show ?thesis unfolding Migrate_def .
qed

text \<open>A closing step gives the connection back when it fails.\<close>

lemma closing_count:
  assumes "keeps_count n m" and "\<And>x. n (close x) = n x - 1" and "closing close m d = (r, d')"
  shows "case r of Inl e \<Rightarrow> n d' = n d - 1 | Inr x \<Rightarrow> n d' = n d"
  using assms(3) keeps_countD [OF assms(1)] assms(2)
  by (auto simp: closing_def handle_def andThen_def modify_def fail_def ret_def split: prod.splits sum.splits)
text \<open>
  However \<open>openStore\<close> ends, no connection is lost: after a failure all it opened is closed, and after a success the
  function it returns closes it.
\<close>

definition balanced :: "('d \<Rightarrow> int) \<Rightarrow> 'd \<Rightarrow> ('e + 'o \<times> ('d \<Rightarrow> 'd)) \<times> 'd \<Rightarrow> bool" where
  "balanced n d = (\<lambda>(r, d'). case r of Inl e \<Rightarrow> n d' = n d | Inr (opened, close) \<Rightarrow> n (close d') = n d)"

lemma openMongo_balanced:
  assumes "counted n dv"
  shows "balanced n d (openMongo dv cfg d)"
proof (cases "dv_Connect dv (cc_DatabaseDSN cfg) d")
  case (Pair r d1)
  show ?thesis
  proof (cases r)
    case (Inl e)
    with assms Pair have "n d1 = n d" unfolding counted_def by fastforce
    with Pair Inl show ?thesis
      by (simp add: balanced_def openMongo_def andThen_def mapErr_def handle_def fail_def)
  next
    case (Inr c)
    with assms Pair have c: "n d1 = n d + 1" "\<And>x. n (mc_Disconnect c x) = n x - 1"
      "\<And>name coll ix. keeps_count n (mdb_CreateMany (mc_Database c name) coll ix)"
      unfolding counted_def by fastforce+
    let ?step = "closing (mc_Disconnect c) (mapErr DriverError
        (EnsureIndexes (mdb_CreateMany (mc_Database c (cc_DatabaseName cfg))) (mongo_prefix '''')))"
    obtain q d2 where step: "?step d1 = (q, d2)" by fastforce
    have "case q of Inl e \<Rightarrow> n d2 = n d1 - 1 | Inr x \<Rightarrow> n d2 = n d1"
      by (rule closing_count [OF keeps_count_mapErr [OF keeps_count_EnsureIndexes [OF c(3)]] c(2) step])
    with Pair Inr step c show ?thesis
      by (cases q) (simp_all add: balanced_def openMongo_def andThen_def mapErr_def handle_def Let_def ret_def)
  qed
qed

lemma openSQL_balanced:
  assumes "counted n (dv :: 'd drivers)"
  shows "balanced n d (openSQL dv slib cfg d)"
proof (cases "dv_Open dv (sql_driver (cc_DatabaseDriver cfg)) (cc_DatabaseDSN cfg) d")
  case (Pair r d1)
  show ?thesis
  proof (cases r)
    case (Inl e)
    with assms Pair have "n d1 = n d" unfolding counted_def by fastforce
    with Pair Inl show ?thesis
      by (simp add: balanced_def openSQL_def andThen_def mapErr_def handle_def fail_def Let_def)
  next
    case (Inr h)
    with assms Pair have h: "n d1 = n d + 1" "\<And>x. n (sh_Close h x) = n x - 1" "\<And>k x. n (sh_SetMaxOpenConns h k x) = n x"
      "keeps_count n (sh_Ping h)" "\<And>sql args. keeps_count n (db_Exec (sh_db h) sql args)"
      unfolding counted_def by fastforce+
    let ?max = "if cc_DatabaseDriver cfg = DialectSQLite then modify (sh_SetMaxOpenConns h 1) else ret () :: ('d, open_error, unit) act"
    let ?ping = "closing (sh_Close h) (mapErr DriverError (sh_Ping h))"
    let ?open = "case sql_New (Some (sh_db h)) (cc_DatabaseDriver cfg) '''' slib of Inl e \<Rightarrow> fail (StoreError e)
            | Inr s \<Rightarrow> andThen (mapErr DriverError (Migrate s)) (\<lambda>_. ret s)"
    obtain d2 where max: "?max d1 = (Inr (), d2)" "n d2 = n d1" using h(3) by (cases "cc_DatabaseDriver cfg = DialectSQLite") (auto simp: modify_def ret_def)
    obtain p d3 where ping: "?ping d2 = (p, d3)" by fastforce
    note ping_count = closing_count [OF keeps_count_mapErr [OF h(4)] h(2) ping]
    obtain q d4 where open': "closing (sh_Close h) ?open d3 = (q, d4)" by fastforce
    have "sq_db s = sh_db h" if "sql_New (Some (sh_db h)) (cc_DatabaseDriver cfg) '''' slib = Inr s" for s
      using that by (auto simp: sql_New_def Let_def split: if_splits)
    then have "keeps_count n ?open"
      using h(5) by (cases "sql_New (Some (sh_db h)) (cc_DatabaseDriver cfg) '''' slib")
        (auto intro!: keeps_count_ret keeps_count_andThen keeps_count_mapErr keeps_count_fail keeps_count_Migrate)
    note open_count = closing_count [OF this h(2) open']
    from Pair Inr have "mapErr DriverError (dv_Open dv (sql_driver (cc_DatabaseDriver cfg)) (cc_DatabaseDSN cfg)) d = (Inr h, d1)"
      by (simp add: mapErr_def handle_def ret_def)
    then have "openSQL dv slib cfg d = andThen (closing (sh_Close h) (mapErr DriverError (sh_Ping h)))
        (\<lambda>_. andThen (closing (sh_Close h) ?open) (\<lambda>s. ret (OpenedSQL s, sh_Close h))) d2"
      unfolding openSQL_def Let_def by (simp only: andThen_Inr max(1))
    with ping open' show ?thesis
      by (cases p; cases q) (use ping_count open_count max(2) h(1,2) in \<open>simp_all add: andThen_Inr andThen_Inl balanced_def ret_def\<close>)
  qed
qed

theorem openStore_balanced: "counted n dv \<Longrightarrow> balanced n d (openStore dv slib cfg d)"
  by (simp add: openStore_def openMongo_balanced openSQL_balanced) (simp add: balanced_def ret_def)
section \<open>The server that listens\<close>

lemma startup_ok:
  assumes "startup lb smtp ul rs order cfg s w = (Inr (srv, handler), w')"
  obtains w1 where "New lb (server_config smtp cfg s) w = (Inr srv, w1)" "newRouter ul rs order (cc_Router cfg) srv = Inr handler"
    "cc_AdminClientId cfg = '''' \<and> w' = w1
     \<or> cc_AdminClientId cfg \<noteq> '''' \<and> (\<exists>c. EnsureClient srv (adminClient srv cfg) (cc_AdminClientSecret cfg) w1 = (Inr c, w'))"
  using assms unfolding startup_def
  by (auto simp: andThen_def mapErr_def handle_def ret_def fail_def split: prod.splits sum.splits if_splits)

lemma New_command:
  assumes "New lb (server_config smtp cfg (memory_ops lower)) w = (Inr srv, w1)"
  shows "\<exists>cfg' sessions. srv = server_of lb (cfg'\<lparr>cf_TokenGenerator := None\<rparr>) (memory_ops lower) sessions
     \<and> cf_AdminScope cfg' = DefaultAdminScope \<and> \<not> cf_DisableAPI cfg' \<and> w_store w1 = w_store w \<and> so_Key sessions = cf_SessionKey cfg'
     \<and> cf_SessionKey cfg' = (if cc_SessionKey cfg = '''' then string_of_bytes (tape w (w_pos w) 32) else cc_SessionKey cfg)"
proof -
  from New_ok [OF assms] obtain cfg' st u sessions where
    s: "srv = server_of lb cfg' st sessions" "cf_Store (server_config smtp cfg (memory_ops lower)) = Some st"
    and m: "NewManager (sessionOptions lb cfg' u) = Inr sessions"
    and c: "cf_TokenGenerator cfg' = cf_TokenGenerator (server_config smtp cfg (memory_ops lower))"
      "cf_DisableAPI cfg' = cf_DisableAPI (server_config smtp cfg (memory_ops lower))"
      "cf_AdminScope cfg' = (if cf_AdminScope (server_config smtp cfg (memory_ops lower)) = '''' then DefaultAdminScope
         else cf_AdminScope (server_config smtp cfg (memory_ops lower)))"
      "cf_SessionKey cfg' = (if cf_SessionKey (server_config smtp cfg (memory_ops lower)) = '''' then string_of_bytes (tape w (w_pos w) 32)
         else cf_SessionKey (server_config smtp cfg (memory_ops lower)))"
      "w_store w1 = w_store w" by blast
  from c(1) have "cfg'\<lparr>cf_TokenGenerator := None\<rparr> = cfg'" by (simp add: server_config_def)
  moreover from m have "so_Key sessions = cf_SessionKey cfg'"
    by (auto simp: NewManager_def sessionOptions_def split: if_split_asm)
  ultimately show ?thesis using s c(2-5) by (intro exI [of _ cfg'] exI [of _ sessions]) (simp add: server_config_def)
qed


text \<open>A command line that provisions the confidential client of the sample store.\<close>

definition no_environment :: environment where "no_environment = (\<lambda>_. None)"

definition sample_flags :: flag_lib where
  "sample_flags = \<lparr>fl_ParseInt = atoi, fl_ParseDuration = (\<lambda>_. Some 0)\<rparr>"

definition sample_args :: "string list" where
  "sample_args = [''-admin-client-id=svc'', ''--admin-client-secret'', ''0123456789abcdef'']"

definition sample_command :: command_config where
  "sample_command = (default_config sample_flags no_environment)
     \<lparr>cc_AdminClientId := ''svc'', cc_AdminClientSecret := ''0123456789abcdef''\<rparr>"

lemma sample_parse: "ParseConfig sample_flags (\<lambda>x. x) no_environment sample_args = Inr sample_command"
  by code_simp

definition sample_routers :: "(mem, unit, unit, unit, unit) routers" where
  "sample_routers =
     \<lparr>rs_Serve = (\<lambda>_ _. ()), rs_ServeMux = (\<lambda>_. ()), rs_chi = (), rs_chi_Method = (\<lambda>_ _ _ r. r), rs_gin = (), rs_gin_Recovery = (\<lambda>r. r),
      rs_gin_Handle = (\<lambda>_ _ _ r. r), rs_httprouter = (), rs_httprouter_Handle = (\<lambda>_ _ _ r. r), rs_mux = (),
      rs_mux_Handle = (\<lambda>_ _ r. ((), r)), rs_mux_Methods = (\<lambda>_ _ r. r), rs_echo = (), rs_echo_Add = (\<lambda>_ _ _ r. r)\<rparr>"

lemma sample_New_command:
  "\<exists>srv w1. New sample_libraries (server_config smtp sample_command (memory_ops (\<lambda>x. x))) sample_server_world = (Inr srv, w1)
     \<and> sr_Hasher srv = NewBcryptHasher (lb_Generate sample_libraries) (lb_Compare sample_libraries) 0"
proof -
  have t: "trim_suffix '''' ''/'' = ''''" by (simp add: trim_suffix_def has_suffix_def has_prefix_def)
  have k: "\<not> length (string_of_bytes (map f [0..<32])) < 32" for f :: "nat \<Rightarrow> byte" by (simp add: string_of_bytes_def)
  show ?thesis
    by (simp add: New_def normalizeConfig_def server_config_def sample_command_def default_config_def env_def no_environment_def
        sample_libraries_def t Let_def lift_def andThen_def ret_def randomKey_def RandomBytes_def NewManager_def sessionOptions_def k hashes_of_server(3) effectiveHasher_def)
qed

lemma sample_admin:
  assumes s: "srv = server_of sample_libraries (cfg'\<lparr>cf_TokenGenerator := None\<rparr>) (memory_ops (\<lambda>x. x)) sessions"
    and scope: "cf_AdminScope cfg' = DefaultAdminScope" and hasher: "sr_Hasher srv = NewBcryptHasher (lb_Generate sample_libraries) (lb_Compare sample_libraries) 0" and w: "w_store w = w_store sample_server_world"
  shows "\<exists>c w'. EnsureClient srv (adminClient srv sample_command) ''0123456789abcdef'' w = (Inr c, w')"
proof -
  let ?c = "\<lparr>c_Id = '''', c_ClientId = ''svc'', c_Name = ''Identity administration'', c_Description = '''', c_Type = ''confidential'',
      c_SecretHash = '''', c_RedirectUris = [], c_AllowedScopes = [''identity.admin''], c_DefaultScopes = [''identity.admin''],
      c_AllowedGrantTypes = [''client_credentials''], c_RequireConsent = False, c_RequirePkce = False,
      c_Enabled = True, c_AccessTokenLifetime = 0, c_AuthorizationCodeLifetime = 0, c_RefreshTokenUsage = '''',
      c_RefreshTokenExpiration = '''', c_RefreshTokenLifetime = 0, c_CreatedAt = 0, c_UpdatedAt = 0\<rparr>"
  have adm: "adminClient srv sample_command = ?c"
    using scope by (simp add: adminClient_def emptyClient_def s server_of_def Let_def sample_command_def)
  have v: "client_Validate (lb_Lib sample_libraries) ((EnsureDefaults ?c)\<lparr>c_SecretHash := ''0123456789abcdef''\<rparr>) = None" by code_simp
  have parts: "sr_Store srv = memory_ops (\<lambda>x. x)" "sr_Lib srv = lb_Lib sample_libraries"
    by (simp_all add: s server_of_def Let_def)
  have h: "hash_secret (sr_Hasher srv) ''0123456789abcdef'' w1 = (Inr ''0123456789abcdef'', w1\<lparr>w_pos := w_pos w1 + 16\<rparr>)" for w1 :: "mem world"
    unfolding hash_secret_eq hasher by (simp add: NewBcryptHasher_def bcrypt_Hash_def MaxSecretLength_def sample_libraries_def)
  have ids: "c_ClientId sample_client = ''spa''" "c_ClientId sample_confidential = ''svc''" "c_Id sample_confidential = ''c-2''"
    "c_ClientId (EnsureDefaults ?c) = ''svc''"
    by (simp_all add: sample_client_def sample_confidential_def EnsureDefaults_def)
  have cl: "m_clients (w_store sample_server_world) = [(''c-1'', sample_client), (''c-2'', sample_confidential)]"
    by (simp add: sample_server_world_def)
  show ?thesis
    unfolding adm
    by (simp add: EnsureClient_def andThen_def clock_now_def handle_def on_store_def zoom_def mem_GetClientByClientId_def range_find_def
        ids cl parts(1,2) ret_def provisionedClient_def h v store_call_def mapErr_def mem_UpdateClient_def clientIdTaken_def range_exists_def
        Let_def w del: EnsureDefaults_def)
qed
lemma sample_startup:
  "\<exists>srv w'. startup sample_libraries (\<lambda>_. LogSender_Send) (\<lambda>x. x) sample_routers [] sample_command (memory_ops (\<lambda>x. x)) sample_server_world
     = (Inr (srv, ()), w')"
proof -
  obtain srv w1 where n: "New sample_libraries (server_config (\<lambda>_. LogSender_Send) sample_command (memory_ops (\<lambda>x. x))) sample_server_world = (Inr srv, w1)"
    and h: "sr_Hasher srv = NewBcryptHasher (lb_Generate sample_libraries) (lb_Compare sample_libraries) 0"
    using sample_New_command by blast
  from New_command [OF n] obtain cfg' sessions where
    s: "srv = server_of sample_libraries (cfg'\<lparr>cf_TokenGenerator := None\<rparr>) (memory_ops (\<lambda>x. x)) sessions"
    "cf_AdminScope cfg' = DefaultAdminScope" "w_store w1 = w_store sample_server_world" by blast
  have c: "cc_AdminClientId sample_command = ''svc''" "cc_AdminClientSecret sample_command = ''0123456789abcdef''"
    "cc_Router sample_command = ''std''"
    by (simp_all add: sample_command_def default_config_def env_def no_environment_def)
  from sample_admin [OF s(1,2) h s(3)] obtain k w' where
    "EnsureClient srv (adminClient srv sample_command) ''0123456789abcdef'' w1 = (Inr k, w')" by blast
  moreover have "newRouter (\<lambda>x. x) sample_routers [] ''std'' srv = Inr ()" 
    by (simp add: newRouter_def to_lower_def is_ascii_def ascii_lower_def Let_def sample_routers_def)
  ultimately show ?thesis using n by (simp add: startup_def andThen_def mapErr_def handle_def ret_def c)
qed


section \<open>A cleanup interval that is not positive\<close>

text \<open>
  \<open>Validate\<close> does not look at the cleanup interval: a command line that sets it to zero is accepted, and the process can
  end by the panic of the ticker as soon as the server was started.
\<close>

lemma zero_interval_accepted:
  "\<exists>c. ParseConfig sample_flags (\<lambda>x. x) no_environment [''-cleanup-interval=0s''] = Inr c \<and> cc_CleanupInterval c = 0"
proof -
  have "ParseConfig sample_flags (\<lambda>x. x) no_environment [''-cleanup-interval=0s'']
      = Inr ((default_config sample_flags no_environment)\<lparr>cc_CleanupInterval := 0\<rparr>)" by code_simp
  then show ?thesis by simp
qed

theorem zero_interval_panics:
  assumes "startup lb smtp ul rs order cfg s w = (Inr (srv, handler), w1)" and "cc_CleanupInterval cfg = 0"
  shows "run lb smtp ul rs order cfg (Inr (s, close)) w (Some CleanupPanicked) w1"
  using run_panicked [OF assms(1) _ rtranclp.rtrancl_refl] assms(2) by simp

end
