(* ===== verification/Spec2Isabelle.thy ===== *)
theory Spec2Isabelle
  imports TokenProperties ServerProperties MongoProperties StoreTestProperties CommandProperties
begin

text \<open>
  A verification library for go-identity, an identity provider in Go: user accounts, an OAuth 2.0 authorization
  server, a management API and login pages over an exchangeable store: in memory, in a SQL database or in MongoDB. The
  theories translate \<open>src/pkg\<close>, \<open>src/store\<close>, \<open>src/router\<close> and \<open>src/cmd\<close> into HOL functions, state what each
  component promises, and prove it for every request, every content of the store and every sequence of random bytes and clock readings.

  The program and its theories, from the bottom to the top:

  \<^item> \<open>GoLib\<close> is the prelude: the part of Go's language and standard library the repository uses (strings as byte lists,
    times and durations in nanoseconds as integers, strings.Split, utf8, path and URL helpers, the functions of
    net/url, unicode and crypto/sha256 that are not written out as the parameter record \<open>golib\<close>). \<open>Effects\<close> has the type
    of actions: a state goes in, an error or a value and the new state come out; \<open>andThen\<close> is Go's early return on an
    error, \<open>handle\<close> a test on the error. It declares the collections \<open>act_simps\<close> and \<open>preserves_rules\<close>, on
    which the invariant proofs of all handlers run.
  \<^item> \<open>Scopes\<close>, \<open>Clients\<close>, \<open>Users\<close>, \<open>Tokens\<close> are \<open>pkg/identity\<close>: the entities with their defaults, validation,
    normalization, matching and expiry, one theory per file (\<open>scope.go\<close> and \<open>error.go\<close>, \<open>client.go\<close>, \<open>user.go\<close>,
    \<open>token.go\<close>).
  \<^item> \<open>Security\<close> is \<open>pkg/security\<close>: random tokens and ids, hashing of tokens, base64url and hexadecimal encodings, the
    guard and error mapping of the bcrypt hasher, PKCE.
  \<^item> \<open>StoreSpec\<close> is \<open>pkg/store\<close>: the interface as a record of its operations, list options and filters, and its promises
    as locales over an abstract view of six finite maps (\<open>tables\<close>): \<open>client_store\<close>, \<open>user_store\<close>,
    \<open>access_token_store\<close>, \<open>refresh_token_store\<close>, \<open>authorization_code_store\<close>, \<open>user_token_store\<close>, together
    \<open>store\<close>, and \<open>reliable_store\<close>, which reports no failures of its own. \<open>MemoryStore\<close> is \<open>pkg/store/memory\<close>: all 36
    operations over association lists, the invariant \<open>mem_inv\<close>, the abstraction \<open>mem_view\<close>, and the interpretation
    \<open>memory\<close>, which discharges every promise of the contract for the code's store.
  \<^item> \<open>StoreContract\<close> states the laws of the contract, operation by operation, for a store that keeps only some entities
    exactly (\<open>storable\<close>: a database has a range of times and sizes of numbers); for predicates that hold of everything it is
    the locale \<open>store\<close>, which the in-memory store meets. The other two meet it on what they keep exactly.
  \<^item> \<open>MongoStore\<close> is \<open>store/mongo\<close>: the documents with their conversions, the filters, the indexes, the operations over the
    collections of the driver. \<open>MongoSpec\<close> states what the driver documents as the locales \<open>mongo_collection\<close> and
    \<open>mongo_database\<close>; \<open>MongoProofs\<close> proves the operations in them; \<open>MongoProperties\<close> interprets them on a reference database
    that computes, and states the property.
  \<^item> \<open>SqlStore\<close> is \<open>store/sql\<close>: the text of every statement with its arguments, the placeholders of the dialects, the
    encoding of values, the rows read back, the schema and its migration. \<open>SqlSpec\<close> states what a database does with these
    statements (\<open>sql_database\<close>, \<open>sql_table\<close>); \<open>SqlProofs\<close> proves the operations in \<open>sql_server\<close>, the database with the six
    tables; \<open>SqlReference\<close> is a database that computes, on which \<open>sql_server\<close> is interpreted; \<open>SqlTexts\<close> shows which texts
    are sent (locale \<open>sql_prefix\<close>); \<open>SqlProperties\<close> states the properties. \<open>Format\<close> writes numbers as decimal text.
  \<^item> \<open>StoreTest\<close> is the conformance suite \<open>pkg/store/storetest\<close>. \<open>StoreTestProofs\<close> shows that the contract determines the
    result of every operation, so that two stores that meet it run alike, and evaluates the suite on the in-memory store;
    \<open>StoreTestProperties\<close> concludes that every store that meets the contract passes, the other two among them.
  \<^item> \<open>World\<close> is the state the services act on: the store, the random source as a tape with a position, the clock, the
    messages sent, the two secrets computed once. \<open>Mail\<close> and \<open>Smtp\<close> are \<open>pkg/mail\<close>: messages and the senders that only
    keep or log them; the rendering of a message and the SMTP session over a network given as actions.
  \<^item> \<open>Account\<close> is \<open>pkg/account\<close>; \<open>AccountProofs\<close> states its guarantees in the locale \<open>account_service\<close> (any store
    that meets the contract) and \<open>reliable_account\<close> (one without failures), interpreted as \<open>acc\<close> on the service over
    the in-memory store.
  \<^item> \<open>Http\<close> has requests, forms, redirects and the encodings of net/http and net/url. \<open>OAuthBase\<close>, \<open>OAuthToken\<close>,
    \<open>OAuthAuthorize\<close>, \<open>OAuthBearer\<close> are \<open>pkg/oauth\<close>: \<open>error.go\<close>, \<open>params.go\<close>, \<open>server.go\<close> and \<open>client_auth.go\<close>; \<open>token.go\<close>
    and \<open>grants.go\<close>; \<open>authorize.go\<close>; \<open>revoke.go\<close> and \<open>bearer.go\<close>. \<open>OAuthProofs\<close>, \<open>TokenProofs\<close>, \<open>TokenLiveness\<close>,
    \<open>AuthorizeProofs\<close>, \<open>BearerProofs\<close> hold the lemmas, in the locales \<open>oauth_service\<close> and \<open>reliable_oauth\<close>, interpreted as
    \<open>srv\<close>; \<open>OAuthSamples\<close> is a small server on which hypotheses are exhibited; \<open>TokenProperties\<close> and
    \<open>BearerProperties\<close> state the properties.
  \<^item> \<open>Session\<close> is \<open>pkg/session\<close>: cookies signed with HMAC and the protection of forms. \<open>Ui\<close>, \<open>UiProofs\<close>,
    \<open>UiProperties\<close> are \<open>pkg/ui\<close>, \<open>Router\<close> is \<open>pkg/router\<close>, \<open>Adapters\<close> the five packages of \<open>src/router\<close>, and \<open>Api\<close>, \<open>ApiProofs\<close>, \<open>ApiProperties\<close> are \<open>pkg/api\<close>, with the
    locales \<open>management\<close> and \<open>reliable_management\<close>, interpreted as \<open>adm\<close>.
  \<^item> \<open>Server\<close>, \<open>ServerProofs\<close>, \<open>ServerProperties\<close> are \<open>pkg/server\<close>: configuration, assembly, routes, cleanup and
    provisioning. What can happen while a server runs is the inductive relation \<open>server_step\<close> (any route on any
    request, a cleanup, a provisioned client), with \<open>reachable\<close> as its closure; the locale \<open>assembled\<close> states how the
    parts share the store, and is interpreted as \<open>asm\<close> on \<open>server_of\<close>, the server \<open>New\<close> returns.
  \<^item> \<open>Command\<close>, \<open>CommandProperties\<close> are \<open>cmd/identity-server\<close>: flags and environment, the checks of the configuration, the
    choice of store and router, the provisioned client of the API, and how the process ends (relation \<open>run\<close>).
  \<^item> This theory holds what spans the components.

  How state and operations correspond. A Go struct is a record with a prefix for its type (\<open>c_\<close> client, \<open>u_\<close> user,
  \<open>at_\<close>, \<open>rt_\<close>, \<open>ac_\<close>, \<open>ut_\<close> the tokens and codes, \<open>oo_\<close>, \<open>ao_\<close>, \<open>ap_\<close>, \<open>so_\<close>, \<open>ui_\<close> the options of the parts); a method is a
  function of its receiver, with the package's name in front where two packages share the method's name. A pointer
  that may be nil is an option. A function that returns an error is an action with the package's error datatype;
  every call is made in the order of the code, and each reading of the clock advances \<open>w_ticks\<close>, so two readings in one
  request may differ. Integers are unbounded where the code only compares and counts them; a duration taken from a
  request is computed in 64 bits, with the wrap-around of Go.

  What the lemmas show, by group: the type of a validated entity; the functional behaviour of the account
  service, the management API and the provisioning on success, and what they leave alone; soundness of the four
  grants, the authorization endpoint, client authentication, bearer validation; that exchanges succeed and
  cannot be repeated; that introspection and the middleware agree; sessions and forms; that each of the three stores
  refines the contract, and that the SQL store puts nothing it is given into the text of a statement; that every
  reachable state satisfies the store's invariant; that the cleanup loop ends with its context and removes what had
  expired; that the router adapters agree; the order of what the SMTP sender reveals; what the command checks and
  provisions before it listens, and that it closes the connections it opened.

  Parameters, for code that is not in the repository: SHA-256, bcrypt (\<open>hasher\<close>), the URL parser, the media type
  parser, lower case and character classes of Unicode, encoding/json (\<open>so_Marshal\<close>, \<open>so_Unmarshal\<close> and the decoders of the
  API), the HTML text of messages and pages, token generators and senders given in the configuration; the MongoDB driver, the
  SQL database with its driver, the third-party routers, the client of net/smtp and the encoders of mime. What the
  stores need of their databases are the assumptions of the locales above, statement by statement: a row or
  document is found by exactly its values, unique indexes are enforced, a failed statement changes nothing. Text is
  compared byte by byte there; a collation that ignores trailing spaces, as some of MySQL, is outside. A property that
  needs something of them says so in its hypotheses: that unmarshalling inverts marshalling of a session, that
  a verifier accepts exactly one secret, or that the random values drawn are not stored already. Each such
  property is followed by an instance on a concrete server, where its hypotheses hold.

  Bounds and termination. All functions are total and need no fuel; the loops of the code run over lists. The loop
  of \<open>RunCleanup\<close> is a recursion over the events of its ticker and context. Random values have 32 and 16 bytes.

  Not modelled, and why:

  \<^item> The matching of requests to patterns, parsing of HTTP messages and forms, cookies on the wire, and the execution of
    templates belong to Go's library: handlers are functions of the parsed request, a page is the name of its template
    with the data given to it, an outcome of the authorization endpoint names the page to show. The cookies the
    login state sets on the way of an authorization request are left out.
  \<^item> Logging, with the levels of the command. The tests under \<open>pkg/router/routertest\<close> send requests through routers of
    other packages. The services are verified on the in-memory store and, in
    their locales, on every store that meets the contract of \<open>StoreSpec\<close>, failures included.
  \<^item> Concurrency: each operation of the in-memory store holds its mutex, so it is one step; a handler is
    modelled as running without another one in between. The cases the code has for lost races (a code consumed or a
    token deleted by another request) are in the model as the errors of the store, and in the contract.
\<close>

section \<open>Across the components\<close>

lemma keep_out: "keep P m k = Some x \<Longrightarrow> P x"
  by simp

text \<open>
  C1: after a password reset nothing that was handed out before gives access as that user: no bearer token validates
  to the user, no exchange of a refresh token yields an access token of the user, and a session of the user whose
  security stamp is not the new one has no current user and loses its cookie, whatever token, client or browser presents it.
\<close>

theorem reset_ends_sessions:
  assumes "account_ResetPassword (on_memory ul svc) tok password w0 = (Inr user, w)" and "mem_inv (w_store w0)"
    and "ui_Accounts u = on_memory ul svc"
  shows "(\<forall>bearer info w1. ValidateAccessToken (oauth_on_memory ul opts) bearer w = (Inr info, w1) \<longrightarrow>
            at_UserId (ti_Token info) \<noteq> u_Id user)
     \<and> (\<forall>req resp w1. refreshTokenGrant (oauth_on_memory ul opts) req w = (Inr resp, w1) \<longrightarrow>
            (\<forall>a \<in> ran (tb_accessTokens (mem_view (w_store w1))). at_UserId a \<noteq> u_Id user))
     \<and> (\<forall>r s w1. session_Get (ui_Sessions u) r w = (Inr (Some s) :: account_error + Session option, w1)
            \<and> ss_UserId s = u_Id user \<and> ss_SecurityStamp s \<noteq> u_SecurityStamp user \<longrightarrow>
            (\<exists>w2. ui_CurrentUser u r w = (Inr (None, [session_Destroy (ui_Sessions u)]), w2)))"
proof -
  let ?T = "mem_view (w_store w)"
  from acc.ResetPassword_ok [OF assms(1,2)] have i: "mem_inv (w_store w)"
    and v: "?T = (mem_view (w_store w0))
       \<lparr>tb_users := (tb_users (mem_view (w_store w0)))(u_Id user \<mapsto> user),
        tb_accessTokens := keep (\<lambda>t. at_UserId t \<noteq> u_Id user) (tb_accessTokens (mem_view (w_store w0))),
        tb_refreshTokens := keep (\<lambda>t. rt_UserId t \<noteq> u_Id user) (tb_refreshTokens (mem_view (w_store w0))),
        tb_userTokens := keep (\<lambda>t. \<not> (ut_UserId t = u_Id user \<and> ut_Purpose t = UserTokenPurposePasswordReset))
          (tb_userTokens (mem_view (w_store w0)))\<rparr>"
    by auto
  have at: "at_UserId a \<noteq> u_Id user" if "tb_accessTokens ?T k = Some a" for k a
    using that unfolding v by (auto dest: keep_out)
  have rt: "rt_UserId t \<noteq> u_Id user" if "tb_refreshTokens ?T k = Some t" for k t
    using that unfolding v by (auto dest: keep_out)
  have us: "tb_users ?T (u_Id user) = Some user" unfolding v by simp
  have bearer: "at_UserId (ti_Token info) \<noteq> u_Id user"
    if "ValidateAccessToken (oauth_on_memory ul opts) b w = (Inr info, w1)" for b info w1
    using srv.ValidateAccessToken_ok [OF that i] at unfolding valid_token_def ran_def by blast
  have refresh: "\<forall>a \<in> ran (tb_accessTokens (mem_view (w_store w1))). at_UserId a \<noteq> u_Id user"
    if r: "refreshTokenGrant (oauth_on_memory ul opts) req w = (Inr resp, w1)" for req resp w1
  proof -
    from srv.refreshTokenGrant_ok [OF r i] obtain t a where
      t: "tb_refreshTokens ?T (rt_Id t) = Some t" "at_UserId a = rt_UserId t"
        "tb_accessTokens (mem_view (w_store w1)) = ((tb_accessTokens ?T)(rt_AccessTokenId t := None))(at_Id a \<mapsto> a)"
      by blast
    from rt [OF t(1)] t(2) at show ?thesis unfolding t(3) by (auto simp: ran_def split: if_splits)
  qed
  have session: "\<exists>w2. ui_CurrentUser u r w = (Inr (None, [session_Destroy (ui_Sessions u)]), w2)"
    if g: "session_Get (ui_Sessions u) r w = (Inr (Some s) :: account_error + Session option, w1)"
      and s: "ss_UserId s = u_Id user" "ss_SecurityStamp s \<noteq> u_SecurityStamp user" for r s w1
    using acc.CurrentUser_exact [OF assms(3) i g] us s unfolding user_of_session_def by auto
  from bearer refresh session show ?thesis by blast
qed

theorem reset_ends_sessions_witness:
  "\<exists>user w. account_ResetPassword sample_account ''tok'' ''newpassword'' sample_world = (Inr user, w)
     \<and> (\<forall>bearer info w1. ValidateAccessToken sample_oauth bearer w = (Inr info, w1) \<longrightarrow> at_UserId (ti_Token info) \<noteq> u_Id user)"
proof -
  from sample_reset obtain user w where
    r: "account_ResetPassword (on_memory (\<lambda>x. x) sample_account) ''tok'' ''newpassword'' sample_world = (Inr user, w)"
    unfolding sample_account_memory by (blast dest: succeededE)
  have a: "ui_Accounts sample_ui = on_memory (\<lambda>x. x) sample_account" unfolding sample_account_memory by (simp add: sample_ui_def)
  from reset_ends_sessions [OF r sample_world_inv a, of sample_oauth, unfolded sample_oauth_memory] r
  show ?thesis unfolding sample_account_memory by blast
qed

end
